(* ===== verification/Prelude.thy ===== *)
theory Prelude
  imports Main "HOL-Library.Word" "HOL-Library.AList" "HOL-Library.Multiset" "HOL-Library.Sublist"
begin

text \<open>
  Shared vocabulary of the development: results, machine integers, the Rust
  \<^verbatim>\<open>HashMap\<close>, the \<^verbatim>\<open>str\<close> methods the server calls, and the generic lemmas the
  component theories use.  Collections: \<open>hm\<close> (hash maps), \<open>str\<close> (strings).
\<close>

named_theorems hm \<open>rewrite rules for hash maps\<close>
named_theorems str \<open>facts about string operations\<close>

section \<open>Results and integers\<close>

text \<open>
  \<^verbatim>\<open>Result<A, E>\<close> is a sum with the error on the left.
\<close>

type_synonym ('e, 'a) result = "'e + 'a"

abbreviation Ok :: "'a \<Rightarrow> ('e, 'a) result" where "Ok \<equiv> Inr"
abbreviation Err :: "'e \<Rightarrow> ('e, 'a) result" where "Err \<equiv> Inl"

text \<open>
  \<^verbatim>\<open>u64\<close> is a 64-bit word.  The signed types \<^verbatim>\<open>i32\<close> and \<^verbatim>\<open>i64\<close> are integers with the
  wrap-around of the release profile (no overflow checks) written out where the code adds.
\<close>

type_synonym u64 = "64 word"
type_synonym i32 = int
type_synonym i64 = int

definition wrap_i32 :: "int \<Rightarrow> i32" where
  "wrap_i32 x = (x + 2 ^ 31) mod 2 ^ 32 - 2 ^ 31"

definition wrap_i64 :: "int \<Rightarrow> i64" where
  "wrap_i64 x = (x + 2 ^ 63) mod 2 ^ 64 - 2 ^ 63"

definition in_i32 :: "int \<Rightarrow> bool" where
  "in_i32 x \<longleftrightarrow> - (2 ^ 31) \<le> x \<and> x < 2 ^ 31"

definition in_i64 :: "int \<Rightarrow> bool" where
  "in_i64 x \<longleftrightarrow> - (2 ^ 63) \<le> x \<and> x < 2 ^ 63"

lemma wrap_i32_id: "in_i32 x \<Longrightarrow> wrap_i32 x = x"
  by (simp add: wrap_i32_def in_i32_def)

lemma wrap_i64_id: "in_i64 x \<Longrightarrow> wrap_i64 x = x"
  by (simp add: wrap_i64_def in_i64_def)

lemma wrap_i32_range [simp]: "in_i32 (wrap_i32 x)"
  by (simp add: wrap_i32_def in_i32_def)

lemma wrap_i64_range [simp]: "in_i64 (wrap_i64 x)"
  by (simp add: wrap_i64_def in_i64_def)

lemma wrap_i32_succ: "in_i32 x \<Longrightarrow> x < 2 ^ 31 - 1 \<Longrightarrow> wrap_i32 (x + 1) = x + 1"
  by (rule wrap_i32_id) (simp add: in_i32_def)

section \<open>Hash maps\<close>

text \<open>
  A \<^verbatim>\<open>std::collections::HashMap\<close> is an association list with distinct keys; the order of
  the list is the order in which an iterator visits the entries.  Rust leaves that order
  unspecified, so no theorem fixes it: single operations are stated for every list with
  distinct keys, and the step relations of the stateful components contain a step that
  permutes the entries.
\<close>

type_synonym ('k, 'v) hashmap = "('k \<times> 'v) list"

definition hm_wf :: "('k, 'v) hashmap \<Rightarrow> bool" where
  "hm_wf m \<longleftrightarrow> distinct (map fst m)"

definition hm_get :: "('k, 'v) hashmap \<Rightarrow> 'k \<Rightarrow> 'v option" where
  "hm_get m k = map_of m k"

definition hm_insert :: "'k \<Rightarrow> 'v \<Rightarrow> ('k, 'v) hashmap \<Rightarrow> ('k, 'v) hashmap" where
  "hm_insert k v m = AList.update k v m"

definition hm_remove :: "'k \<Rightarrow> ('k, 'v) hashmap \<Rightarrow> ('k, 'v) hashmap" where
  "hm_remove k m = AList.delete k m"

definition hm_contains :: "('k, 'v) hashmap \<Rightarrow> 'k \<Rightarrow> bool" where
  "hm_contains m k \<longleftrightarrow> hm_get m k \<noteq> None"

definition hm_values :: "('k, 'v) hashmap \<Rightarrow> 'v list" where
  "hm_values m = map snd m"

definition hm_keys :: "('k, 'v) hashmap \<Rightarrow> 'k list" where
  "hm_keys m = map fst m"

definition hm_retain :: "('k \<Rightarrow> 'v \<Rightarrow> bool) \<Rightarrow> ('k, 'v) hashmap \<Rightarrow> ('k, 'v) hashmap" where
  "hm_retain P m = filter (\<lambda>(k, v). P k v) m"

text \<open>\<open>hm_modify\<close> is \<^verbatim>\<open>if let Some(v) = m.get_mut(k) { *v = f(v) }\<close>.\<close>

definition hm_modify :: "'k \<Rightarrow> ('v \<Rightarrow> 'v) \<Rightarrow> ('k, 'v) hashmap \<Rightarrow> ('k, 'v) hashmap" where
  "hm_modify k f m = (case hm_get m k of None \<Rightarrow> m | Some v \<Rightarrow> hm_insert k (f v) m)"

definition hm_remove_all :: "'k list \<Rightarrow> ('k, 'v) hashmap \<Rightarrow> ('k, 'v) hashmap" where
  "hm_remove_all ks m = fold hm_remove ks m"

text \<open>\<^verbatim>\<open>keys().max().map_or(1, |id| id + 1)\<close> on \<^verbatim>\<open>i32\<close> keys.\<close>

definition next_id_i32 :: "(i32, 'v) hashmap \<Rightarrow> i32" where
  "next_id_i32 m = (case hm_keys m of [] \<Rightarrow> 1 | k # ks \<Rightarrow> wrap_i32 (fold max ks k + 1))"

lemma hm_wf_Nil [simp]: "hm_wf []"
  by (simp add: hm_wf_def)

lemma hm_get_Nil [hm, simp]: "hm_get [] k = None"
  by (simp add: hm_get_def)

lemma hm_wf_insert [simp]: "hm_wf m \<Longrightarrow> hm_wf (hm_insert k v m)"
  by (simp add: hm_wf_def hm_insert_def distinct_update)

lemma hm_wf_remove [simp]: "hm_wf m \<Longrightarrow> hm_wf (hm_remove k m)"
  by (simp add: hm_wf_def hm_remove_def distinct_delete)

lemma hm_wf_retain [simp]: "hm_wf m \<Longrightarrow> hm_wf (hm_retain P m)"
  by (simp add: hm_wf_def hm_retain_def distinct_map_filter)

lemma hm_get_insert [hm]: "hm_get (hm_insert k v m) k' = (if k' = k then Some v else hm_get m k')"
  by (simp add: hm_get_def hm_insert_def update_conv')

lemma hm_get_remove [hm]: "hm_get (hm_remove k m) k' = (if k' = k then None else hm_get m k')"
  by (simp add: hm_get_def hm_remove_def delete_conv')

lemma hm_get_retain [hm]:
  assumes "hm_wf m"
  shows "hm_get (hm_retain P m) k =
    (case hm_get m k of Some v \<Rightarrow> if P k v then Some v else None | None \<Rightarrow> None)"
  using assms
proof (induction m)
  case Nil
  then show ?case by (simp add: hm_retain_def hm_get_def)
next
  case (Cons e m)
  obtain k0 v0 where e: "e = (k0, v0)" by (cases e)
  from Cons have IH: "hm_get (hm_retain P m) k =
      (case hm_get m k of Some v \<Rightarrow> if P k v then Some v else None | None \<Rightarrow> None)"
    and k0: "map_of m k0 = None"
    by (simp_all add: hm_wf_def e map_of_eq_None_iff)
  show ?case
    using IH k0 by (cases "k = k0") (auto simp: e hm_retain_def hm_get_def split: option.splits)
qed

lemma hm_get_modify [hm]:
  "hm_get (hm_modify k f m) k' = (if k' = k then map_option f (hm_get m k) else hm_get m k')"
  by (simp add: hm_modify_def hm_get_insert split: option.split)

lemma hm_wf_modify [simp]: "hm_wf m \<Longrightarrow> hm_wf (hm_modify k f m)"
  by (simp add: hm_modify_def split: option.split)

lemma hm_wf_remove_all [simp]: "hm_wf m \<Longrightarrow> hm_wf (hm_remove_all ks m)"
  unfolding hm_remove_all_def by (induction ks arbitrary: m) simp_all

lemma hm_get_remove_all [hm]:
  "hm_get (hm_remove_all ks m) k = (if k \<in> set ks then None else hm_get m k)"
  unfolding hm_remove_all_def by (induction ks arbitrary: m) (auto simp: hm_get_remove)

lemma hm_values_iff: "hm_wf m \<Longrightarrow> v \<in> set (hm_values m) \<longleftrightarrow> (\<exists>k. hm_get m k = Some v)"
  by (force simp: hm_values_def hm_get_def hm_wf_def)

lemma hm_get_values: "hm_get m k = Some v \<Longrightarrow> v \<in> set (hm_values m)"
  by (force simp: hm_values_def hm_get_def dest: map_of_SomeD)

lemma hm_entry_iff: "hm_wf m \<Longrightarrow> (k, v) \<in> set m \<longleftrightarrow> hm_get m k = Some v"
  by (simp add: hm_get_def hm_wf_def)

lemma hm_keys_iff: "k \<in> set (hm_keys m) \<longleftrightarrow> hm_get m k \<noteq> None"
  by (simp add: hm_keys_def hm_get_def map_of_eq_None_iff)

lemma hm_perm_get: "mset m = mset m' \<Longrightarrow> hm_wf m \<Longrightarrow> hm_get m' = hm_get m"
  by (metis hm_get_def hm_wf_def map_of_inject_set mset_eq_imp_distinct_iff mset_eq_setD mset_map ext)

lemma hm_perm_wf: "mset m = mset m' \<Longrightarrow> hm_wf m \<Longrightarrow> hm_wf m'"
  by (metis hm_wf_def mset_eq_imp_distinct_iff mset_map)

lemma fold_max_upper: "(k::int) \<le> fold max ks k \<and> (\<forall>x \<in> set ks. x \<le> fold max ks k)"
proof (induction ks arbitrary: k)
  case Nil
  then show ?case by simp
next
  case (Cons a ks)
  from Cons.IH [of "max a k"] show ?case by simp
qed

lemma fold_max_ge: "(x::int) \<in> insert k (set ks) \<Longrightarrow> x \<le> fold max ks k"
  using fold_max_upper [of k ks] by auto

lemma fold_max_in: "fold max ks k \<in> insert (k::int) (set ks)"
proof (induction ks arbitrary: k)
  case Nil
  then show ?case by simp
next
  case (Cons a ks)
  from Cons.IH [of "max a k"] show ?case by (auto simp: max_def split: if_splits)
qed

text \<open>Unless the largest key is \<^verbatim>\<open>i32::MAX\<close>, the next identifier is above every key.\<close>

lemma next_id_i32_fresh:
  assumes "\<And>k v. hm_get m k = Some v \<Longrightarrow> in_i32 k \<and> k < 2 ^ 31 - 1"
  shows "hm_get m k \<noteq> None \<Longrightarrow> k < next_id_i32 m"
proof -
  assume k: "hm_get m k \<noteq> None"
  then obtain a ks where ks: "hm_keys m = a # ks"
    by (cases m) (auto simp: hm_keys_def)
  have "fold max ks a \<in> set (hm_keys m)" using fold_max_in [of ks a] ks by simp
  then have "wrap_i32 (fold max ks a + 1) = fold max ks a + 1"
    using assms by (auto simp: hm_keys_iff intro!: wrap_i32_succ)
  moreover have "k \<le> fold max ks a" using k ks hm_keys_iff [of k m] by (intro fold_max_ge) auto
  ultimately show ?thesis by (simp add: next_id_i32_def ks)
qed

lemma find_Some_iff_sound: "find P xs = Some x \<Longrightarrow> P x \<and> x \<in> set xs"
  by (auto simp: find_Some_iff)

lemma find_append: "find P (xs @ ys) = (case find P xs of None \<Rightarrow> find P ys | Some x \<Rightarrow> Some x)"
  by (induction xs) simp_all

end
