(* ===== verification/Rust_Str.thy ===== *)
theory Rust_Str
  imports Prelude
begin

text \<open>
  The \<^verbatim>\<open>str\<close> and \<^verbatim>\<open>format!\<close> operations of the Rust standard library that the server uses.
  A Rust string is its UTF-8 byte sequence: one \<open>char\<close> of HOL per byte, so \<open>length\<close> is
  \<^verbatim>\<open>len()\<close>.  Case folding of non-ASCII text needs the Unicode tables; it is the parameter
  \<open>ul\<close> of \<open>to_lowercase\<close>.
\<close>

definition starts_with :: "string \<Rightarrow> string \<Rightarrow> bool" where
  "starts_with s p \<longleftrightarrow> prefix p s"

definition ends_with :: "string \<Rightarrow> string \<Rightarrow> bool" where
  "ends_with s p \<longleftrightarrow> prefix (rev p) (rev s)"

fun str_contains :: "string \<Rightarrow> string \<Rightarrow> bool" where
  "str_contains [] p = (p = [])"
| "str_contains (c # s) p = (prefix p (c # s) \<or> str_contains s p)"

definition str_contains_char :: "string \<Rightarrow> char \<Rightarrow> bool" where
  "str_contains_char s c \<longleftrightarrow> c \<in> set s"

text \<open>\<^verbatim>\<open>split(c)\<close>: always at least one piece, an empty one for the empty string.\<close>

fun split_char :: "char \<Rightarrow> string \<Rightarrow> string list" where
  "split_char c [] = [[]]"
| "split_char c (x # xs) =
     (if x = c then [] # split_char c xs
      else (case split_char c xs of [] \<Rightarrow> [[x]] | y # ys \<Rightarrow> (x # y) # ys))"

fun join :: "string \<Rightarrow> string list \<Rightarrow> string" where
  "join sep [] = []"
| "join sep [x] = x"
| "join sep (x # y # ys) = x @ sep @ join sep (y # ys)"

text \<open>\<open>from_first c s\<close>: the rest of \<open>s\<close> from the first \<open>c\<close> on, as \<^verbatim>\<open>find\<close> and a slice give it.\<close>

fun from_first :: "char \<Rightarrow> string \<Rightarrow> string option" where
  "from_first c [] = None"
| "from_first c (x # xs) = (if x = c then Some (x # xs) else from_first c xs)"

subsection \<open>Trimming\<close>

text \<open>The UTF-8 encodings of the code points with the Unicode property White\_Space.\<close>

definition ws_seqs :: "string list" where
  "ws_seqs = [[CHR 0x09], [CHR 0x0A], [CHR 0x0B], [CHR 0x0C], [CHR 0x0D], [CHR 0x20],
    [CHR 0xC2, CHR 0x85], [CHR 0xC2, CHR 0xA0], [CHR 0xE1, CHR 0x9A, CHR 0x80],
    [CHR 0xE2, CHR 0x80, CHR 0x80], [CHR 0xE2, CHR 0x80, CHR 0x81], [CHR 0xE2, CHR 0x80, CHR 0x82],
    [CHR 0xE2, CHR 0x80, CHR 0x83], [CHR 0xE2, CHR 0x80, CHR 0x84], [CHR 0xE2, CHR 0x80, CHR 0x85],
    [CHR 0xE2, CHR 0x80, CHR 0x86], [CHR 0xE2, CHR 0x80, CHR 0x87], [CHR 0xE2, CHR 0x80, CHR 0x88],
    [CHR 0xE2, CHR 0x80, CHR 0x89], [CHR 0xE2, CHR 0x80, CHR 0x8A], [CHR 0xE2, CHR 0x80, CHR 0xA8],
    [CHR 0xE2, CHR 0x80, CHR 0xA9], [CHR 0xE2, CHR 0x80, CHR 0xAF], [CHR 0xE2, CHR 0x81, CHR 0x9F],
    [CHR 0xE3, CHR 0x80, CHR 0x80]]"

function drop_seqs :: "string list \<Rightarrow> string \<Rightarrow> string" where
  "drop_seqs ws s =
     (case find (\<lambda>w. w \<noteq> [] \<and> prefix w s) ws of
        None \<Rightarrow> s
      | Some w \<Rightarrow> drop_seqs ws (drop (length w) s))"
  by pat_completeness auto
termination
proof (relation "measure (\<lambda>(ws, s). length s)", goal_cases)
  case (2 ws s w)
  then have "w \<noteq> [] \<and> prefix w s" by (auto simp: find_Some_iff)
  then show ?case by (cases s) auto
qed simp

declare drop_seqs.simps [simp del]

definition trim_start :: "string \<Rightarrow> string" where
  "trim_start s = drop_seqs ws_seqs s"

definition trim_end :: "string \<Rightarrow> string" where
  "trim_end s = rev (drop_seqs (map rev ws_seqs) (rev s))"

definition trim :: "string \<Rightarrow> string" where
  "trim s = trim_end (trim_start s)"

text \<open>\<open>no_lead ws s\<close>: no sequence of \<open>ws\<close> is left at the front.\<close>

definition no_lead :: "string list \<Rightarrow> string \<Rightarrow> bool" where
  "no_lead ws s \<longleftrightarrow> find (\<lambda>w. w \<noteq> [] \<and> prefix w s) ws = None"

lemma no_lead_prefix: "no_lead ws s \<Longrightarrow> prefix t s \<Longrightarrow> no_lead ws t"
  by (auto simp: no_lead_def find_None_iff dest: prefix_order.trans)

lemma no_lead_append: "no_lead ws (t @ s) \<Longrightarrow> no_lead ws t"
  by (erule no_lead_prefix) (simp add: prefix_def)

lemma drop_seqs_no_lead: "no_lead ws (drop_seqs ws s)"
proof (induction ws s rule: drop_seqs.induct)
  case (1 ws s)
  then show ?case
    by (cases "find (\<lambda>w. w \<noteq> [] \<and> prefix w s) ws") (simp_all add: drop_seqs.simps [of ws s] no_lead_def)
qed

lemma drop_seqs_id: "no_lead ws s \<Longrightarrow> drop_seqs ws s = s"
  by (simp add: no_lead_def drop_seqs.simps)

lemma drop_seqs_suffix: "suffix (drop_seqs ws s) s"
proof (induction ws s rule: drop_seqs.induct)
  case (1 ws s)
  show ?case
  proof (cases "find (\<lambda>w. w \<noteq> [] \<and> prefix w s) ws")
    case None
    then show ?thesis by (simp add: drop_seqs.simps [of ws s])
  next
    case (Some w)
    then have "suffix (drop_seqs ws (drop (length w) s)) (drop (length w) s)" by (rule 1)
    then have "suffix (drop_seqs ws (drop (length w) s)) s"
      by (rule suffix_order.trans) (simp add: suffix_drop)
    with Some show ?thesis by (simp add: drop_seqs.simps [of ws s])
  qed
qed

definition trimmed :: "string \<Rightarrow> bool" where
  "trimmed s \<longleftrightarrow> no_lead ws_seqs s \<and> no_lead (map rev ws_seqs) (rev s)"

lemma trim_end_prefix: "prefix (trim_end s) s"
  using drop_seqs_suffix [of "map rev ws_seqs" "rev s"]
  by (simp add: trim_end_def suffix_to_prefix)

lemma trimmed_trim [str, simp]: "trimmed (trim s)"
proof -
  have "no_lead ws_seqs (trim_start s)" by (simp add: trim_start_def drop_seqs_no_lead)
  then have "no_lead ws_seqs (trim s)"
    unfolding trim_def by (rule no_lead_prefix) (rule trim_end_prefix)
  then show ?thesis by (simp add: trimmed_def trim_def trim_end_def drop_seqs_no_lead)
qed

lemma trim_id [str]: "trimmed s \<Longrightarrow> trim s = s"
  by (simp add: trimmed_def trim_def trim_start_def trim_end_def drop_seqs_id)

lemma trim_idem [str, simp]: "trim (trim s) = trim s"
  by (rule trim_id) simp

lemma length_trim: "length (trim s) \<le> length s"
proof -
  have "length (trim_end (trim_start s)) \<le> length (trim_start s)"
    by (rule prefix_length_le) (rule trim_end_prefix)
  also have "\<dots> \<le> length s"
    unfolding trim_start_def by (rule suffix_length_le) (rule drop_seqs_suffix)
  finally show ?thesis by (simp add: trim_def)
qed

subsection \<open>ASCII classes and case\<close>

definition is_ascii_digit :: "char \<Rightarrow> bool" where
  "is_ascii_digit c \<longleftrightarrow> 48 \<le> (of_char c :: nat) \<and> (of_char c :: nat) \<le> 57"

definition is_ascii_hexdigit :: "char \<Rightarrow> bool" where
  "is_ascii_hexdigit c \<longleftrightarrow> is_ascii_digit c \<or> (65 \<le> (of_char c :: nat) \<and> (of_char c :: nat) \<le> 70)
     \<or> (97 \<le> (of_char c :: nat) \<and> (of_char c :: nat) \<le> 102)"

definition is_ascii_alphanumeric :: "char \<Rightarrow> bool" where
  "is_ascii_alphanumeric c \<longleftrightarrow> is_ascii_digit c \<or> (65 \<le> (of_char c :: nat) \<and> (of_char c :: nat) \<le> 90)
     \<or> (97 \<le> (of_char c :: nat) \<and> (of_char c :: nat) \<le> 122)"

definition is_ascii :: "char \<Rightarrow> bool" where
  "is_ascii c \<longleftrightarrow> (of_char c :: nat) < 128"

definition ascii_lower :: "char \<Rightarrow> char" where
  "ascii_lower c = (if 65 \<le> (of_char c :: nat) \<and> (of_char c :: nat) \<le> 90 then char_of ((of_char c :: nat) + 32) else c)"

definition to_lowercase :: "(string \<Rightarrow> string) \<Rightarrow> string \<Rightarrow> string" where
  "to_lowercase ul s = (if list_all is_ascii s then map ascii_lower s else ul s)"

subsection \<open>Decimal printing\<close>

definition digit_char :: "nat \<Rightarrow> char" where
  "digit_char d = char_of (48 + d)"

fun show_nat :: "nat \<Rightarrow> string" where
  "show_nat n = (if n < 10 then [digit_char n] else show_nat (n div 10) @ [digit_char (n mod 10)])"

declare show_nat.simps [simp del]

definition show_int :: "int \<Rightarrow> string" where
  "show_int i = (if i < 0 then CHR ''-'' # show_nat (nat (- i)) else show_nat (nat i))"

definition show_u64 :: "u64 \<Rightarrow> string" where
  "show_u64 w = show_nat (unat w)"

subsection \<open>Facts about splitting and composite keys\<close>

lemma split_char_not_Nil [simp]: "split_char c s \<noteq> []"
  by (induction s) (auto split: list.splits)

lemma split_char_no_sep: "c \<notin> set s \<Longrightarrow> split_char c s = [s]"
  by (induction s) auto

lemma split_char_append:
  "c \<notin> set a \<Longrightarrow> split_char c (a @ c # b) = a # split_char c b"
  by (induction a) auto

lemma join_split_char: "join [c] (split_char c s) = s"
proof (induction s)
  case Nil
  then show ?case by simp
next
  case (Cons x s)
  obtain y ys where y: "split_char c s = y # ys" by (cases "split_char c s") auto
  with Cons show ?case by (cases ys) auto
qed

lemma split_char_pieces: "p \<in> set (split_char c s) \<Longrightarrow> c \<notin> set p"
  by (induction s arbitrary: p) (fastforce split: list.splits if_splits)+

lemma sep_key_inj:
  assumes "a @ c # b = a' @ c # b'" "c \<notin> set a" "c \<notin> set a'"
  shows "a = a' \<and> b = b'"
  using assms
proof (induction a arbitrary: a')
  case Nil
  then show ?case by (cases a') auto
next
  case (Cons x a)
  then show ?case by (cases a') auto
qed

lemma sep_key_prefix:
  assumes "c \<notin> set a" "c \<notin> set a'"
  shows "prefix (a @ [c]) (a' @ c # b) \<longleftrightarrow> a = a'"
proof
  assume "prefix (a @ [c]) (a' @ c # b)"
  then obtain z where "a' @ c # b = a @ c # z" by (auto simp: prefix_def)
  with assms show "a = a'" by (metis sep_key_inj)
qed simp

lemma sep_key_suffix:
  assumes "c \<notin> set b" "c \<notin> set b'"
  shows "ends_with (a @ c # b) (c # b') \<longleftrightarrow> b = b'"
proof -
  have "ends_with (a @ c # b) (c # b') \<longleftrightarrow> prefix (rev b' @ [c]) (rev b @ c # rev a)"
    by (simp add: ends_with_def)
  also have "\<dots> \<longleftrightarrow> rev b' = rev b" using assms by (intro sep_key_prefix) simp_all
  finally show ?thesis by auto
qed

lemma from_first_Some: "from_first c s = Some t \<Longrightarrow> \<exists>u z. s = u @ t \<and> t = c # z \<and> c \<notin> set u"
proof (induction s)
  case Nil
  then show ?case by simp
next
  case (Cons x s)
  show ?case
  proof (cases "x = c")
    case True
    with Cons.prems have "x # s = [] @ t \<and> t = c # s \<and> c \<notin> set []" by simp
    then show ?thesis by blast
  next
    case False
    with Cons obtain u z where "s = u @ t" "t = c # z" "c \<notin> set u" by auto
    then have "x # s = (x # u) @ t \<and> t = c # z \<and> c \<notin> set (x # u)" using False by simp
    then show ?thesis by blast
  qed
qed

lemma str_contains_iff: "str_contains s p \<longleftrightarrow> sublist p s"
  by (induction s) (auto simp: sublist_Cons_right)

lemma split_char_sublist: "p \<in> set (split_char c s) \<Longrightarrow> sublist p s"
proof (induction s arbitrary: p)
  case Nil
  then show ?case by simp
next
  case (Cons x s)
  obtain y ys where y: "split_char c s = y # ys" by (cases "split_char c s") auto
  have y_prefix: "prefix y s" using y
  proof (induction s arbitrary: y ys)
    case (Cons a s)
    obtain z zs where "split_char c s = z # zs" by (cases "split_char c s") auto
    with Cons show ?case by (auto split: if_splits)
  qed simp
  show ?case
  proof (cases "x = c \<or> p \<in> set ys")
    case True
    with Cons y show ?thesis by (auto simp: sublist_Cons_right split: if_splits)
  next
    case False
    with Cons.prems y have "p = x # y" by simp
    with y_prefix show ?thesis by (auto intro: prefix_imp_sublist)
  qed
qed

end
