(* ===== verification/Errors.thy ===== *)
theory Errors
  imports Rust_Str
begin

text \<open>
  The error types and their conversions: \<^verbatim>\<open>src/error.rs\<close> (\<^verbatim>\<open>SyncError\<close>, HTTP and gRPC codes)
  and \<^verbatim>\<open>src/storage/mod.rs\<close> (\<^verbatim>\<open>StorageError\<close>).
\<close>

datatype storage_error =
    SE_Database string | SE_Connection string | SE_PoolExhausted string | SE_QueryTimeout string
  | SE_Transaction string | SE_NotFound string | SE_SerializationError string
  | SE_DeserializationError string | SE_InvalidData string | SE_NotImplemented string
  | SE_General string | SE_PermissionDenied string | SE_ValidationError string
  | SE_ConfigurationError string | SE_NetworkError string | SE_S3Error string
  | SE_CacheError string | SE_NotSupported string | SE_Internal string

fun storage_error_display :: "storage_error \<Rightarrow> string" where
  "storage_error_display (SE_Database m) = ''Database error: '' @ m"
| "storage_error_display (SE_Connection m) = ''Connection error: '' @ m"
| "storage_error_display (SE_PoolExhausted m) = ''Connection pool exhausted: '' @ m"
| "storage_error_display (SE_QueryTimeout m) = ''Query timeout: '' @ m"
| "storage_error_display (SE_Transaction m) = ''Transaction error: '' @ m"
| "storage_error_display (SE_NotFound m) = ''Not found: '' @ m"
| "storage_error_display (SE_SerializationError m) = ''Serialization error: '' @ m"
| "storage_error_display (SE_DeserializationError m) = ''Deserialization error: '' @ m"
| "storage_error_display (SE_InvalidData m) = ''Invalid data: '' @ m"
| "storage_error_display (SE_NotImplemented m) = ''Not implemented: '' @ m"
| "storage_error_display (SE_General m) = ''General error: '' @ m"
| "storage_error_display (SE_PermissionDenied m) = ''Permission denied: '' @ m"
| "storage_error_display (SE_ValidationError m) = ''Validation error: '' @ m"
| "storage_error_display (SE_ConfigurationError m) = ''Configuration error: '' @ m"
| "storage_error_display (SE_NetworkError m) = ''Network error: '' @ m"
| "storage_error_display (SE_S3Error m) = ''S3 error: '' @ m"
| "storage_error_display (SE_CacheError m) = ''Cache error: '' @ m"
| "storage_error_display (SE_NotSupported m) = ''Operation not supported: '' @ m"
| "storage_error_display (SE_Internal m) = ''Internal error: '' @ m"

definition storage_is_retryable :: "storage_error \<Rightarrow> bool" where
  "storage_is_retryable e = (case e of
      SE_Connection _ \<Rightarrow> True | SE_PoolExhausted _ \<Rightarrow> True | SE_QueryTimeout _ \<Rightarrow> True
    | SE_NetworkError _ \<Rightarrow> True | _ \<Rightarrow> False)"

fun storage_category :: "storage_error \<Rightarrow> string" where
  "storage_category (SE_Database _) = ''database''"
| "storage_category (SE_Connection _) = ''connection''"
| "storage_category (SE_PoolExhausted _) = ''pool''"
| "storage_category (SE_QueryTimeout _) = ''timeout''"
| "storage_category (SE_Transaction _) = ''transaction''"
| "storage_category (SE_NotFound _) = ''not_found''"
| "storage_category (SE_SerializationError _) = ''serialization''"
| "storage_category (SE_DeserializationError _) = ''deserialization''"
| "storage_category (SE_InvalidData _) = ''validation''"
| "storage_category (SE_PermissionDenied _) = ''permission''"
| "storage_category (SE_ValidationError _) = ''validation''"
| "storage_category (SE_ConfigurationError _) = ''config''"
| "storage_category (SE_NetworkError _) = ''network''"
| "storage_category (SE_S3Error _) = ''s3''"
| "storage_category (SE_CacheError _) = ''cache''"
| "storage_category (SE_NotSupported _) = ''not_supported''"
| "storage_category (SE_Internal _) = ''internal''"
| "storage_category (SE_NotImplemented _) = ''not_implemented''"
| "storage_category (SE_General _) = ''general''"

datatype sync_error =
    Storage string | Database string | Config string | Authentication string
  | Authorization string | Validation string | Network string | Serialization string
  | NotFound string | InvalidRequest string | ServiceUnavailable string | Timeout string
  | RateLimit string | Internal string | ExternalService string | FileSystem string
  | Encryption string

fun sync_error_display :: "sync_error \<Rightarrow> string" where
  "sync_error_display (Storage m) = ''Storage error: '' @ m"
| "sync_error_display (Database m) = ''Database error: '' @ m"
| "sync_error_display (Config m) = ''Configuration error: '' @ m"
| "sync_error_display (Authentication m) = ''Authentication error: '' @ m"
| "sync_error_display (Authorization m) = ''Authorization error: '' @ m"
| "sync_error_display (Validation m) = ''Validation error: '' @ m"
| "sync_error_display (Network m) = ''Network error: '' @ m"
| "sync_error_display (Serialization m) = ''Serialization error: '' @ m"
| "sync_error_display (NotFound m) = ''Not found: '' @ m"
| "sync_error_display (InvalidRequest m) = ''Invalid request: '' @ m"
| "sync_error_display (ServiceUnavailable m) = ''Service unavailable: '' @ m"
| "sync_error_display (Timeout m) = ''Timeout: '' @ m"
| "sync_error_display (RateLimit m) = ''Rate limit exceeded: '' @ m"
| "sync_error_display (Internal m) = ''Internal server error: '' @ m"
| "sync_error_display (ExternalService m) = ''External service error: '' @ m"
| "sync_error_display (FileSystem m) = ''File system error: '' @ m"
| "sync_error_display (Encryption m) = ''Encryption error: '' @ m"

fun sync_category :: "sync_error \<Rightarrow> string" where
  "sync_category (Storage _) = ''storage''"
| "sync_category (Database _) = ''database''"
| "sync_category (Config _) = ''config''"
| "sync_category (Authentication _) = ''auth''"
| "sync_category (Authorization _) = ''auth''"
| "sync_category (Validation _) = ''validation''"
| "sync_category (Network _) = ''network''"
| "sync_category (Serialization _) = ''serialization''"
| "sync_category (NotFound _) = ''not_found''"
| "sync_category (InvalidRequest _) = ''invalid_request''"
| "sync_category (ServiceUnavailable _) = ''service_unavailable''"
| "sync_category (Timeout _) = ''timeout''"
| "sync_category (RateLimit _) = ''rate_limit''"
| "sync_category (Internal _) = ''internal''"
| "sync_category (ExternalService _) = ''external_service''"
| "sync_category (FileSystem _) = ''filesystem''"
| "sync_category (Encryption _) = ''encryption''"

definition sync_is_retryable :: "sync_error \<Rightarrow> bool" where
  "sync_is_retryable e = (case e of
      Network _ \<Rightarrow> True | ServiceUnavailable _ \<Rightarrow> True | Timeout _ \<Rightarrow> True | ExternalService _ \<Rightarrow> True
    | _ \<Rightarrow> False)"

fun http_status_code :: "sync_error \<Rightarrow> nat" where
  "http_status_code (Storage _) = 500"
| "http_status_code (Database _) = 500"
| "http_status_code (Config _) = 500"
| "http_status_code (Authentication _) = 401"
| "http_status_code (Authorization _) = 403"
| "http_status_code (Validation _) = 400"
| "http_status_code (Network _) = 502"
| "http_status_code (Serialization _) = 400"
| "http_status_code (NotFound _) = 404"
| "http_status_code (InvalidRequest _) = 400"
| "http_status_code (ServiceUnavailable _) = 503"
| "http_status_code (Timeout _) = 408"
| "http_status_code (RateLimit _) = 429"
| "http_status_code (Internal _) = 500"
| "http_status_code (ExternalService _) = 502"
| "http_status_code (FileSystem _) = 500"
| "http_status_code (Encryption _) = 500"

definition storage_to_sync :: "storage_error \<Rightarrow> sync_error" where
  "storage_to_sync e = (case e of
      SE_NotFound m \<Rightarrow> NotFound m
    | SE_PermissionDenied m \<Rightarrow> Authorization m
    | SE_ValidationError m \<Rightarrow> Validation m
    | SE_ConfigurationError m \<Rightarrow> Config m
    | SE_NetworkError m \<Rightarrow> Network m
    | SE_QueryTimeout m \<Rightarrow> Timeout m
    | _ \<Rightarrow> Storage (storage_error_display e))"

text \<open>The seventeen gRPC status codes; a \<^verbatim>\<open>tonic::Status\<close> is a code with a message.\<close>

datatype grpc_code =
    C_Ok | C_Cancelled | C_Unknown | C_InvalidArgument | C_DeadlineExceeded | C_NotFound
  | C_AlreadyExists | C_PermissionDenied | C_ResourceExhausted | C_FailedPrecondition
  | C_Aborted | C_OutOfRange | C_Unimplemented | C_Internal | C_Unavailable | C_DataLoss
  | C_Unauthenticated

record status =
  st_code :: grpc_code
  st_message :: string

definition mk_status :: "grpc_code \<Rightarrow> string \<Rightarrow> status" where
  "mk_status c m = \<lparr>st_code = c, st_message = m\<rparr>"

fun sync_grpc_code :: "sync_error \<Rightarrow> grpc_code" where
  "sync_grpc_code (Storage _) = C_Internal"
| "sync_grpc_code (Database _) = C_Internal"
| "sync_grpc_code (Config _) = C_Internal"
| "sync_grpc_code (Authentication _) = C_Unauthenticated"
| "sync_grpc_code (Authorization _) = C_PermissionDenied"
| "sync_grpc_code (Validation _) = C_InvalidArgument"
| "sync_grpc_code (Network _) = C_Unavailable"
| "sync_grpc_code (Serialization _) = C_InvalidArgument"
| "sync_grpc_code (NotFound _) = C_NotFound"
| "sync_grpc_code (InvalidRequest _) = C_InvalidArgument"
| "sync_grpc_code (ServiceUnavailable _) = C_Unavailable"
| "sync_grpc_code (Timeout _) = C_DeadlineExceeded"
| "sync_grpc_code (RateLimit _) = C_ResourceExhausted"
| "sync_grpc_code (Internal _) = C_Internal"
| "sync_grpc_code (ExternalService _) = C_Unavailable"
| "sync_grpc_code (FileSystem _) = C_Internal"
| "sync_grpc_code (Encryption _) = C_Internal"

definition sync_to_status :: "sync_error \<Rightarrow> status" where
  "sync_to_status e = mk_status (sync_grpc_code e) (sync_error_display e)"

definition status_to_sync :: "status \<Rightarrow> sync_error" where
  "status_to_sync s = (case st_code s of
      C_NotFound \<Rightarrow> NotFound (st_message s)
    | C_Unauthenticated \<Rightarrow> Authentication (st_message s)
    | C_PermissionDenied \<Rightarrow> Authorization (st_message s)
    | C_InvalidArgument \<Rightarrow> InvalidRequest (st_message s)
    | C_DeadlineExceeded \<Rightarrow> Timeout (st_message s)
    | C_Unavailable \<Rightarrow> ServiceUnavailable (st_message s)
    | C_ResourceExhausted \<Rightarrow> RateLimit (st_message s)
    | _ \<Rightarrow> Internal (''gRPC error: '' @ st_message s))"

text \<open>\<^verbatim>\<open>with_context\<close> on a result and on an option.\<close>

definition result_with_context :: "string \<Rightarrow> (sync_error, 'a) result \<Rightarrow> (sync_error, 'a) result" where
  "result_with_context ctx r = (case r of Inr a \<Rightarrow> Ok a | Inl e \<Rightarrow> Err (Internal (ctx @ '': '' @ sync_error_display e)))"

definition option_with_context :: "string \<Rightarrow> 'a option \<Rightarrow> (sync_error, 'a) result" where
  "option_with_context ctx r = (case r of Some a \<Rightarrow> Ok a | None \<Rightarrow> Err (NotFound ctx))"

text \<open>
  Sending an error over gRPC and reading it back keeps whether it may be retried and
  keeps its HTTP class: the status code is the same except that the two 502 errors
  (network and external service) come back as 503.
\<close>
theorem grpc_error_roundtrip:
  "sync_is_retryable (status_to_sync (sync_to_status e)) = sync_is_retryable e \<and>
   http_status_code (status_to_sync (sync_to_status e)) =
     (if http_status_code e = 502 then 503 else http_status_code e)"
  by (cases e) (simp_all add: sync_to_status_def mk_status_def status_to_sync_def sync_is_retryable_def)

text \<open>
  Turning a storage error into an application error keeps the retry flag of every kind
  but two: lost connections and an exhausted pool are retryable storage errors that become
  non-retryable internal errors (HTTP 500).
\<close>
theorem storage_error_retry_loss:
  "sync_is_retryable (storage_to_sync e) \<longleftrightarrow>
     storage_is_retryable e \<and> storage_category e \<notin> {''connection'', ''pool''}"
  by (cases e) (simp_all add: storage_to_sync_def sync_is_retryable_def storage_is_retryable_def)

end
