(* ===== verification/Models.thy ===== *)
theory Models
  imports Errors
begin

text \<open>
  The data model: \<^verbatim>\<open>src/models/*.rs\<close>, the protobuf messages the handlers exchange
  (\<^verbatim>\<open>proto/sync.proto\<close>), and the conversions between them.  A \<^verbatim>\<open>DateTime<Utc>\<close> is an
  integer number of nanoseconds; the chrono calls that convert between it and seconds are the
  parameter \<open>chrono\<close>, and the current time is an argument \<open>now\<close>.
\<close>

type_synonym datetime = int
type_synonym bytes = "8 word list"

record chrono =
  ch_from_timestamp :: "i64 \<Rightarrow> nat \<Rightarrow> datetime option"
  ch_timestamp :: "datetime \<Rightarrow> i64"
  ch_subsec_nanos :: "datetime \<Rightarrow> nat"

record timestamp =
  ts_seconds :: i64
  ts_nanos :: i32

definition as_u32 :: "i32 \<Rightarrow> nat" where
  "as_u32 n = nat (n mod 2 ^ 32)"

definition timestamp_to_datetime :: "chrono \<Rightarrow> datetime \<Rightarrow> timestamp \<Rightarrow> datetime" where
  "timestamp_to_datetime ch now ts =
     (case ch_from_timestamp ch (ts_seconds ts) (as_u32 (ts_nanos ts)) of Some d \<Rightarrow> d | None \<Rightarrow> now)"

definition datetime_to_timestamp :: "chrono \<Rightarrow> datetime \<Rightarrow> timestamp" where
  "datetime_to_timestamp ch dt =
     \<lparr>ts_seconds = ch_timestamp ch dt, ts_nanos = wrap_i32 (int (ch_subsec_nanos ch dt))\<rparr>"

section \<open>Accounts, tokens, devices\<close>

record account =
  a_account_hash :: string
  a_id :: string
  a_email :: string
  a_name :: string
  a_user_type :: string
  a_password_hash :: string
  a_salt :: string
  a_is_active :: bool
  a_created_at :: datetime
  a_last_login :: datetime
  a_updated_at :: datetime
  a_user_id :: string

record auth_token =
  t_token_id :: string
  t_account_hash :: string
  t_access_token :: string
  t_refresh_token :: "string option"
  t_created_at :: datetime
  t_expires_at :: datetime
  t_is_valid :: bool
  t_token_type :: string
  t_scope :: "string option"

record device =
  d_user_id :: string
  d_account_hash :: string
  d_device_hash :: string
  d_updated_at :: datetime
  d_registered_at :: datetime
  d_last_sync :: datetime
  d_is_active :: bool
  d_os_version :: string
  d_app_version :: string

record device_info =
  di_device_hash :: string
  di_account_hash :: string
  di_is_active :: bool
  di_os_version :: string
  di_app_version :: string
  di_registered_at :: datetime
  di_last_sync_time :: "datetime option"

record p_device_info =
  pd_account_hash :: string
  pd_is_active :: bool
  pd_device_hash :: string
  pd_os_version :: string
  pd_app_version :: string
  pd_registered_at :: "timestamp option"
  pd_last_sync_time :: "timestamp option"

definition device_new :: "datetime \<Rightarrow> string \<Rightarrow> string \<Rightarrow> bool \<Rightarrow> string \<Rightarrow> string \<Rightarrow> device" where
  "device_new now account_hash device_hash is_active os_version app_version =
     \<lparr>d_user_id = account_hash, d_account_hash = account_hash, d_device_hash = device_hash,
      d_updated_at = now, d_registered_at = now, d_last_sync = now, d_is_active = is_active,
      d_os_version = os_version, d_app_version = app_version\<rparr>"

definition device_update_info ::
  "datetime \<Rightarrow> bool option \<Rightarrow> string option \<Rightarrow> string option \<Rightarrow> device \<Rightarrow> device" where
  "device_update_info now is_active os_version app_version d =
     (let d1 = (case is_active of Some a \<Rightarrow> d\<lparr>d_is_active := a\<rparr> | None \<Rightarrow> d);
          d2 = (case os_version of Some os \<Rightarrow> d1\<lparr>d_os_version := os\<rparr> | None \<Rightarrow> d1);
          d3 = (case app_version of Some app \<Rightarrow> d2\<lparr>d_app_version := app\<rparr> | None \<Rightarrow> d2)
      in d3\<lparr>d_updated_at := now\<rparr>)"

definition device_update_last_sync :: "datetime \<Rightarrow> datetime \<Rightarrow> device \<Rightarrow> device" where
  "device_update_last_sync now now' d = d\<lparr>d_last_sync := now, d_updated_at := now'\<rparr>"

definition device_deactivate :: "datetime \<Rightarrow> device \<Rightarrow> device" where
  "device_deactivate now d = d\<lparr>d_is_active := False, d_updated_at := now\<rparr>"

definition device_info_of_device :: "device \<Rightarrow> device_info" where
  "device_info_of_device d =
     \<lparr>di_device_hash = d_device_hash d, di_account_hash = d_account_hash d, di_is_active = d_is_active d,
      di_os_version = d_os_version d, di_app_version = d_app_version d,
      di_registered_at = d_registered_at d, di_last_sync_time = Some (d_last_sync d)\<rparr>"

definition device_of_device_info :: "datetime \<Rightarrow> device_info \<Rightarrow> device" where
  "device_of_device_info now i =
     (let t = (case di_last_sync_time i of Some d \<Rightarrow> d | None \<Rightarrow> now) in
      \<lparr>d_user_id = [], d_account_hash = di_account_hash i, d_device_hash = di_device_hash i,
       d_updated_at = t, d_registered_at = di_registered_at i, d_last_sync = t,
       d_is_active = di_is_active i, d_os_version = di_os_version i, d_app_version = di_app_version i\<rparr>)"

definition device_of_proto :: "chrono \<Rightarrow> datetime \<Rightarrow> p_device_info \<Rightarrow> device" where
  "device_of_proto ch now i =
     (let conv = (\<lambda>o'. case o' of None \<Rightarrow> now
            | Some ts \<Rightarrow> (case ch_from_timestamp ch (ts_seconds ts) (as_u32 (ts_nanos ts)) of Some d \<Rightarrow> d | None \<Rightarrow> now));
          registered = conv (pd_registered_at i); last = conv (pd_last_sync_time i)
      in \<lparr>d_user_id = [], d_account_hash = pd_account_hash i, d_device_hash = pd_device_hash i,
          d_updated_at = last, d_registered_at = registered, d_last_sync = last,
          d_is_active = pd_is_active i, d_os_version = pd_os_version i, d_app_version = pd_app_version i\<rparr>)"

definition proto_of_device :: "chrono \<Rightarrow> device \<Rightarrow> p_device_info" where
  "proto_of_device ch d =
     \<lparr>pd_account_hash = d_account_hash d, pd_is_active = d_is_active d, pd_device_hash = d_device_hash d,
      pd_os_version = d_os_version d, pd_app_version = d_app_version d,
      pd_registered_at = Some \<lparr>ts_seconds = ch_timestamp ch (d_registered_at d), ts_nanos = 0\<rparr>,
      pd_last_sync_time = Some \<lparr>ts_seconds = ch_timestamp ch (d_last_sync d), ts_nanos = 0\<rparr>\<rparr>"

section \<open>Files\<close>

record file_info =
  fi_file_id :: u64
  fi_filename :: string
  fi_file_hash :: string
  fi_device_hash :: string
  fi_group_id :: i32
  fi_watcher_id :: i32
  fi_is_encrypted :: bool
  fi_file_path :: string
  fi_updated_time :: timestamp
  fi_revision :: i64
  fi_account_hash :: string
  fi_size :: u64
  fi_key_id :: "string option"

record p_file_info =
  pf_file_id :: u64
  pf_filename :: string
  pf_file_hash :: string
  pf_updated_time :: "timestamp option"
  pf_device_hash :: string
  pf_group_id :: i32
  pf_watcher_id :: i32
  pf_is_encrypted :: bool
  pf_file_path :: string
  pf_revision :: i64
  pf_file_size :: u64

record sync_file =
  sf_id :: string
  sf_user_id :: string
  sf_device_hash :: string
  sf_group_id :: i32
  sf_watcher_id :: i32
  sf_file_id :: u64
  sf_filename :: string
  sf_file_hash :: string
  sf_file_path :: string
  sf_file_size :: i64
  sf_mime_type :: string
  sf_modified_time :: i64
  sf_is_encrypted :: bool
  sf_upload_time :: datetime
  sf_last_updated :: datetime
  sf_is_deleted :: bool
  sf_revision :: i64

definition proto_of_file_info :: "file_info \<Rightarrow> p_file_info" where
  "proto_of_file_info f =
     \<lparr>pf_file_id = fi_file_id f, pf_filename = fi_filename f, pf_file_hash = fi_file_hash f,
      pf_updated_time = Some (fi_updated_time f), pf_device_hash = fi_device_hash f,
      pf_group_id = fi_group_id f, pf_watcher_id = fi_watcher_id f, pf_is_encrypted = fi_is_encrypted f,
      pf_file_path = fi_file_path f, pf_revision = fi_revision f, pf_file_size = fi_size f\<rparr>"

definition file_info_of_proto :: "chrono \<Rightarrow> datetime \<Rightarrow> p_file_info \<Rightarrow> file_info" where
  "file_info_of_proto ch now p =
     \<lparr>fi_file_id = pf_file_id p, fi_filename = pf_filename p, fi_file_hash = pf_file_hash p,
      fi_device_hash = pf_device_hash p, fi_group_id = pf_group_id p, fi_watcher_id = pf_watcher_id p,
      fi_is_encrypted = pf_is_encrypted p, fi_file_path = pf_file_path p,
      fi_updated_time = (case pf_updated_time p of Some t \<Rightarrow> t
        | None \<Rightarrow> \<lparr>ts_seconds = ch_timestamp ch now, ts_nanos = 0\<rparr>),
      fi_revision = pf_revision p, fi_account_hash = [], fi_size = pf_file_size p, fi_key_id = None\<rparr>"

definition sync_file_update_metadata ::
  "datetime \<Rightarrow> string \<Rightarrow> i64 \<Rightarrow> string \<Rightarrow> i64 \<Rightarrow> sync_file \<Rightarrow> sync_file" where
  "sync_file_update_metadata now file_hash file_size mime_type modified_time f =
     f\<lparr>sf_file_hash := file_hash, sf_file_size := file_size, sf_mime_type := mime_type,
       sf_modified_time := modified_time, sf_last_updated := now\<rparr>"

definition sync_file_mark_as_deleted :: "datetime \<Rightarrow> sync_file \<Rightarrow> sync_file" where
  "sync_file_mark_as_deleted now f = f\<lparr>sf_is_deleted := True, sf_last_updated := now\<rparr>"

definition sync_file_restore :: "datetime \<Rightarrow> sync_file \<Rightarrow> sync_file" where
  "sync_file_restore now f = f\<lparr>sf_is_deleted := False, sf_last_updated := now\<rparr>"

section \<open>Watchers\<close>

datatype condition_type = Union | Subtract

fun condition_type_display :: "condition_type \<Rightarrow> string" where
  "condition_type_display Union = ''union''"
| "condition_type_display Subtract = ''subtract''"

definition condition_type_from_str :: "(string \<Rightarrow> string) \<Rightarrow> string \<Rightarrow> (string, condition_type) result" where
  "condition_type_from_str ul s =
     (let l = to_lowercase ul s in
      if l = ''union'' then Ok Union else if l = ''subtract'' then Ok Subtract
      else Err (''Invalid condition type: '' @ s))"

text \<open>
  \<^verbatim>\<open>Condition\<close>, \<^verbatim>\<open>ConditionData\<close> and the protobuf \<^verbatim>\<open>ConditionData\<close> have the same two fields.
\<close>

record condition =
  c_key :: string
  c_value :: "string list"

record p_condition_data =
  pc_key :: string
  pc_value :: "string list"

record watcher_group =
  wg_id :: i32
  wg_group_id :: i32
  wg_account_hash :: string
  wg_title :: string
  wg_created_at :: datetime
  wg_updated_at :: datetime
  wg_is_active :: bool
  wg_watcher_ids :: "i32 list"

record watcher_condition =
  wc_id :: "i64 option"
  wc_account_hash :: string
  wc_watcher_id :: i32
  wc_local_watcher_id :: i32
  wc_local_group_id :: i32
  wc_condition_type :: condition_type
  wc_key :: string
  wc_value :: "string list"
  wc_operator :: string
  wc_created_at :: datetime
  wc_updated_at :: datetime

record watcher =
  w_id :: i32
  w_watcher_id :: i32
  w_account_hash :: string
  w_group_id :: i32
  w_local_group_id :: i32
  w_title :: string
  w_folder :: string
  w_union_conditions :: "condition list"
  w_subtracting_conditions :: "condition list"
  w_recursive_path :: bool
  w_preset :: bool
  w_custom_type :: string
  w_update_mode :: string
  w_is_active :: bool
  w_extra_json :: string
  w_created_at :: datetime
  w_updated_at :: datetime

record p_watcher_data =
  pw_watcher_id :: i32
  pw_folder :: string
  pw_union_conditions :: "p_condition_data list"
  pw_subtracting_conditions :: "p_condition_data list"
  pw_recursive_path :: bool
  pw_preset :: bool
  pw_custom_type :: string
  pw_update_mode :: string
  pw_is_active :: bool
  pw_extra_json :: string

record p_watcher_group_data =
  pg_group_id :: i32
  pg_title :: string
  pg_watchers :: "p_watcher_data list"
  pg_last_updated :: "timestamp option"

definition condition_of_proto :: "p_condition_data \<Rightarrow> condition" where
  "condition_of_proto c = \<lparr>c_key = pc_key c, c_value = pc_value c\<rparr>"

definition proto_of_condition :: "condition \<Rightarrow> p_condition_data" where
  "proto_of_condition c = \<lparr>pc_key = c_key c, pc_value = c_value c\<rparr>"

definition proto_of_watcher :: "watcher \<Rightarrow> p_watcher_data" where
  "proto_of_watcher w =
     \<lparr>pw_watcher_id = w_watcher_id w, pw_folder = w_folder w,
      pw_union_conditions = map proto_of_condition (w_union_conditions w),
      pw_subtracting_conditions = map proto_of_condition (w_subtracting_conditions w),
      pw_recursive_path = w_recursive_path w, pw_preset = w_preset w,
      pw_custom_type = w_custom_type w, pw_update_mode = w_update_mode w,
      pw_is_active = w_is_active w, pw_extra_json = w_extra_json w\<rparr>"

definition proto_of_watcher_group :: "chrono \<Rightarrow> watcher_group \<Rightarrow> p_watcher_group_data" where
  "proto_of_watcher_group ch g =
     \<lparr>pg_group_id = wg_group_id g, pg_title = wg_title g, pg_watchers = [],
      pg_last_updated = Some (datetime_to_timestamp ch (wg_updated_at g))\<rparr>"

lemma proto_of_condition_inverse [simp]: "proto_of_condition (condition_of_proto c) = c"
  by (simp add: proto_of_condition_def condition_of_proto_def)

lemma proto_conditions_inverse [simp]: "map (proto_of_condition \<circ> condition_of_proto) cs = cs"
  by (simp add: comp_def)

text \<open>
  Storing a protobuf file description and sending it back returns it unchanged, for
  every description that carries its update time.
\<close>
theorem file_info_proto_roundtrip:
  "pf_updated_time p \<noteq> None \<Longrightarrow> proto_of_file_info (file_info_of_proto ch now p) = p"
  by (auto simp: proto_of_file_info_def file_info_of_proto_def)

theorem file_info_proto_roundtrip_witness:
  "proto_of_file_info (file_info_of_proto
      \<lparr>ch_from_timestamp = \<lambda>s n. Some s, ch_timestamp = \<lambda>d. d, ch_subsec_nanos = \<lambda>d. 0\<rparr> 7
      \<lparr>pf_file_id = 5, pf_filename = ''a'', pf_file_hash = ''h'', pf_updated_time = Some \<lparr>ts_seconds = 3, ts_nanos = 0\<rparr>,
       pf_device_hash = ''d'', pf_group_id = 1, pf_watcher_id = 2, pf_is_encrypted = False,
       pf_file_path = ''~/a'', pf_revision = 4, pf_file_size = 9\<rparr>) =
      \<lparr>pf_file_id = 5, pf_filename = ''a'', pf_file_hash = ''h'', pf_updated_time = Some \<lparr>ts_seconds = 3, ts_nanos = 0\<rparr>,
       pf_device_hash = ''d'', pf_group_id = 1, pf_watcher_id = 2, pf_is_encrypted = False,
       pf_file_path = ''~/a'', pf_revision = 4, pf_file_size = 9\<rparr>"
  by (rule file_info_proto_roundtrip) simp

text \<open>
  Printing a condition type and parsing it back gives the type again, and the parser
  accepts exactly the texts whose lower-case form is that printed name.
\<close>
theorem condition_type_roundtrip:
  "condition_type_from_str ul (condition_type_display t) = Ok t \<and>
   (condition_type_from_str ul s = Ok t \<longleftrightarrow> to_lowercase ul s = condition_type_display t)"
  by (cases t) (auto simp: condition_type_from_str_def to_lowercase_def is_ascii_def ascii_lower_def Let_def)

end
