(* ===== verification/Interfaces.thy ===== *)
theory Interfaces
  imports Prelude
begin

text \<open>
  The contracts the components rely on, as locales, with the client lemmas proved once.
  Each locale is interpreted on the model's own operations in the theory that defines them:
  \<open>kv_store\<close> and \<open>keyed_table\<close> on the tables of the in-memory storage, \<open>memoised\<close> on the path normaliser,
  \<open>invariant_system\<close> on the stateful components.
\<close>

section \<open>Tables\<close>

text \<open>
  A key-value store: \<open>put\<close> files the value \<open>val e\<close> of an entry under \<open>key e\<close>, and \<open>get\<close>
  reads it back.  A keyed table can also delete a key.
\<close>

datatype ('e, 'k) table_cmd = Put 'e | Del 'k

locale kv_store =
  fixes put :: "'e \<Rightarrow> 's \<Rightarrow> 's"
    and get :: "'s \<Rightarrow> 'k \<Rightarrow> 'v option"
    and key :: "'e \<Rightarrow> 'k"
    and val :: "'e \<Rightarrow> 'v"
  assumes get_put: "get (put e s) k = (if k = key e then Some (val e) else get s k)"
begin

lemma get_put_same: "get (put e s) (key e) = Some (val e)"
  by (simp add: get_put)

lemma put_put_last: "key e = key e' \<Longrightarrow> get (put e' (put e s)) = get (put e' s)"
  by (auto simp: get_put fun_eq_iff)

lemma get_puts: "get (fold put es s) = fold (\<lambda>e m. m(key e \<mapsto> val e)) es (get s)"
proof (induction es arbitrary: s)
  case Nil
  then show ?case by simp
next
  case (Cons e es)
  have "get (put e s) = (get s)(key e \<mapsto> val e)" by (auto simp: get_put fun_eq_iff)
  with Cons show ?case by simp
qed

end

locale keyed_table = kv_store +
  fixes del :: "'c \<Rightarrow> 'b \<Rightarrow> 'b"
  assumes get_del: "get (del k s) k' = (if k' = k then None else get s k')"
begin

fun run_cmd :: "('a, 'c) table_cmd \<Rightarrow> 'b \<Rightarrow> 'b" where
  "run_cmd (Put e) s = put e s"
| "run_cmd (Del k) s = del k s"

fun abs_cmd :: "('a, 'c) table_cmd \<Rightarrow> ('c \<rightharpoonup> 'd) \<Rightarrow> ('c \<rightharpoonup> 'd)" where
  "abs_cmd (Put e) m = m(key e \<mapsto> val e)"
| "abs_cmd (Del k) m = m(k := None)"

lemma get_run_cmd: "get (run_cmd c s) = abs_cmd c (get s)"
  by (cases c) (auto simp: get_put get_del fun_eq_iff)

lemma get_run_cmds: "get (fold run_cmd cs s) = fold abs_cmd cs (get s)"
  by (induction cs arbitrary: s) (simp_all add: get_run_cmd)

lemma del_put_gone: "get (del (key e) (put e s)) (key e) = None"
  by (simp add: get_del)

end

section \<open>Memoised functions\<close>

locale memoised =
  fixes f :: "'a \<Rightarrow> 'b"
    and run :: "('a, 'b) hashmap \<Rightarrow> 'a \<Rightarrow> 'b \<times> ('a, 'b) hashmap"
    and cacheable :: "'a \<Rightarrow> bool"
  assumes run_hit: "cacheable x \<Longrightarrow> hm_get c x = Some y \<Longrightarrow> run c x = (y, c)"
    and run_miss: "cacheable x \<Longrightarrow> hm_get c x = None \<Longrightarrow> run c x = (f x, hm_insert x (f x) c)"
    and run_skip: "\<not> cacheable x \<Longrightarrow> run c x = (f x, c)"
begin

text \<open>A cache is coherent when every entry is the value of the function.\<close>

definition coherent :: "('a, 'b) hashmap \<Rightarrow> bool" where
  "coherent c \<longleftrightarrow> (\<forall>x y. hm_get c x = Some y \<longrightarrow> y = f x)"

lemma coherent_Nil: "coherent []"
  by (simp add: coherent_def)

lemma run_coherent:
  assumes "coherent c"
  shows "fst (run c x) = f x \<and> coherent (snd (run c x))"
proof (cases "cacheable x")
  case False
  with assms show ?thesis by (simp add: run_skip)
next
  case True
  then show ?thesis using assms
    by (cases "hm_get c x") (auto simp: run_hit run_miss coherent_def hm_get_insert)
qed

fun run_list :: "('a, 'b) hashmap \<Rightarrow> 'a list \<Rightarrow> 'b list" where
  "run_list c [] = []"
| "run_list c (x # xs) = (let (y, c') = run c x in y # run_list c' xs)"

lemma run_list_eq: "coherent c \<Longrightarrow> run_list c xs = map f xs"
proof (induction xs arbitrary: c)
  case Nil
  then show ?case by simp
next
  case (Cons x xs)
  then show ?case using run_coherent [of c x] by (auto split: prod.splits)
qed

end

section \<open>State machines and their invariants\<close>

inductive reach :: "'s \<Rightarrow> ('s \<Rightarrow> 's \<Rightarrow> bool) \<Rightarrow> 's \<Rightarrow> bool" for init :: 's and step :: "'s \<Rightarrow> 's \<Rightarrow> bool" where
  reach_init: "reach init step init"
| reach_step: "reach init step s \<Longrightarrow> step s t \<Longrightarrow> reach init step t"

locale invariant_system =
  fixes init :: 's
    and step :: "'s \<Rightarrow> 's \<Rightarrow> bool"
    and inv :: "'s \<Rightarrow> bool"
  assumes inv_init: "inv init"
    and inv_step: "inv s \<Longrightarrow> step s t \<Longrightarrow> inv t"
begin

lemma reach_inv: "reach init step s \<Longrightarrow> inv s"
  by (induction rule: reach.induct) (auto intro: inv_init inv_step)

end

end
