(* ===== verification/Paths.thy ===== *)
theory Paths
  imports Rust_Str Interfaces
begin

text \<open>
  Path normalisation and the input validators: \<^verbatim>\<open>src/utils/helpers.rs\<close>,
  \<^verbatim>\<open>src/utils/validator.rs\<close>, \<^verbatim>\<open>src/validation.rs\<close>.
\<close>

section \<open>Path normalisation\<close>

text \<open>
  \<open>normalize_raw\<close> is the body of \<^verbatim>\<open>normalize_path_preserve_tilde\<close> without the memo table;
  every branch of the source inserts its result under the same length guard, which
  \<open>normalize_path_preserve_tilde\<close> below writes once.
\<close>

definition normalize_raw :: "string \<Rightarrow> string" where
  "normalize_raw path =
     (if path = [] then ''~/''
      else let t = trim path in
      if t = [] then ''~/''
      else if t = ''~'' \<or> t = ''~/.'' then ''~/''
      else if starts_with t ''~/'' then t
      else if starts_with t ''/'' then
        (if starts_with t ''/home/'' then
           (if length t \<le> 6 then ''~''
            else (case from_first (CHR ''/'') (drop 6 t) of
                    Some rest \<Rightarrow> if rest = [] \<or> rest = ''/'' then ''~'' else ''~'' @ rest
                  | None \<Rightarrow> ''~''))
         else if t = ''/'' then ''~'' else ''~'' @ t)
      else if starts_with t ''./'' then
        (if length t \<le> 2 then ''~''
         else (let after_dot = drop 2 t in if after_dot = [] then ''~'' else ''~/'' @ after_dot))
      else if starts_with t ''.config/'' \<or> starts_with t ''.local/'' \<or> starts_with t ''.cache/''
        then ''~/'' @ t
      else if \<not> str_contains_char t (CHR ''/'') then ''~/'' @ t
      else ''~/'' @ t)"

definition normalize_path_preserve_tilde ::
  "(string, string) hashmap \<Rightarrow> string \<Rightarrow> string \<times> (string, string) hashmap" where
  "normalize_path_preserve_tilde cache path =
     (if length path \<le> 256 then
        (case hm_get cache path of
           Some v \<Rightarrow> (v, cache)
         | None \<Rightarrow> (let v = normalize_raw path in (v, hm_insert path v cache)))
      else (normalize_raw path, cache))"

interpretation norm: memoised normalize_raw normalize_path_preserve_tilde "\<lambda>p. length p \<le> 256"
  by unfold_locales (simp_all add: normalize_path_preserve_tilde_def Let_def)

definition is_home_relative_path :: "string \<Rightarrow> bool" where
  "is_home_relative_path path \<longleftrightarrow> starts_with path ''~/'' \<or> path = ''~''"

definition canonicalize_home_path :: "string \<Rightarrow> string" where
  "canonicalize_home_path path =
     (if starts_with path ''~/'' then path else if path = ''~'' then ''~'' else path)"

lemma no_lead_tilde: "no_lead ws_seqs (CHR ''~'' # s)"
  by (simp add: no_lead_def ws_seqs_def)

lemma no_lead_snoc:
  assumes "no_lead ws s" and c: "\<And>w. w \<in> set ws \<Longrightarrow> c \<notin> set w"
  shows "no_lead ws (s @ [c])"
proof -
  have "\<not> prefix w (s @ [c])" if w: "w \<in> set ws" "w \<noteq> []" for w
  proof
    assume "prefix w (s @ [c])"
    then consider "w = s @ [c]" | "prefix w s" by auto
    then show False
    proof cases
      case 1
      with c [OF w(1)] show False by simp
    next
      case 2
      with assms(1) w show False by (auto simp: no_lead_def find_None_iff)
    qed
  qed
  then show ?thesis by (auto simp: no_lead_def find_None_iff)
qed

lemma ws_seqs_no_tilde: "w \<in> set (map rev ws_seqs) \<Longrightarrow> CHR ''~'' \<notin> set w \<and> CHR ''/'' \<notin> set w"
  by (auto simp: ws_seqs_def)

lemma no_lead_end_tilde:
  "no_lead (map rev ws_seqs) s \<Longrightarrow> no_lead (map rev ws_seqs) (s @ [CHR ''~''])"
  by (rule no_lead_snoc) (blast dest: ws_seqs_no_tilde)+

lemma no_lead_end_slash_tilde:
  assumes "no_lead (map rev ws_seqs) s"
  shows "no_lead (map rev ws_seqs) (s @ [CHR ''/'', CHR ''~''])"
proof -
  have "no_lead (map rev ws_seqs) (s @ [CHR ''/''])"
    using assms by (rule no_lead_snoc) (blast dest: ws_seqs_no_tilde)+
  from no_lead_end_tilde [OF this] show ?thesis by simp
qed

lemma trimmed_suffix_end:
  "trimmed t \<Longrightarrow> suffix r t \<Longrightarrow> no_lead (map rev ws_seqs) (rev r)"
  by (auto simp: trimmed_def suffix_to_prefix intro: no_lead_prefix)

lemma trimmed_tilde: "trimmed t \<Longrightarrow> suffix r t \<Longrightarrow> trimmed (CHR ''~'' # r)"
  by (simp add: trimmed_def [of "_ # _"] no_lead_tilde no_lead_end_tilde trimmed_suffix_end)

lemma trimmed_tilde_slash: "trimmed t \<Longrightarrow> suffix r t \<Longrightarrow> trimmed (CHR ''~'' # CHR ''/'' # r)"
  by (simp add: trimmed_def [of "_ # _"] no_lead_tilde no_lead_end_slash_tilde trimmed_suffix_end)

lemma trimmed_consts: "trimmed ''~''" "trimmed ''~/''" "trimmed ''~/.''"
  by (simp_all add: trimmed_def no_lead_def ws_seqs_def)

lemma from_first_suffix: "from_first c (drop n t) = Some r \<Longrightarrow> suffix r t"
  using from_first_Some [of c "drop n t" r] by (metis append_take_drop_id append.assoc suffixI)

lemma normalize_raw_trimmed: "trimmed (normalize_raw p)"
proof -
  have t: "trimmed (trim p)" by simp
  show ?thesis
    unfolding normalize_raw_def Let_def
    by (auto simp: trimmed_consts trimmed_tilde [OF t] trimmed_tilde_slash [OF t] t suffix_drop
        dest: from_first_suffix split: option.split)
qed

lemma normalize_raw_home: "is_home_relative_path (normalize_raw p)"
  unfolding normalize_raw_def Let_def is_home_relative_path_def
  by (auto simp: starts_with_def prefix_def dest: from_first_Some split: option.split)

lemma normalize_raw_on_home:
  assumes "is_home_relative_path q" "trimmed q"
  shows "normalize_raw q = (if q = ''~'' \<or> q = ''~/.'' then ''~/'' else q)"
proof -
  have "trim q = q" "q \<noteq> []"
    using assms by (auto simp: trim_id is_home_relative_path_def starts_with_def)
  then show ?thesis using assms(1)
    by (auto simp: normalize_raw_def Let_def is_home_relative_path_def)
qed

text \<open>
  Normalising through the shared memo table gives, for every sequence of calls from an
  empty table, exactly the results of the plain normalisation, whatever was cached before.
\<close>
theorem normalize_memo_equiv: "norm.run_list [] paths = map normalize_raw paths"
  by (rule norm.run_list_eq) (rule norm.coherent_Nil)

text \<open>
  Every normalised path is a home-relative path (\<^verbatim>\<open>~\<close> or \<^verbatim>\<open>~/...\<close>) without
  surrounding white space, and normalising it again changes it only in the two cases
  \<^verbatim>\<open>~\<close> and \<^verbatim>\<open>~/.\<close>, which become \<^verbatim>\<open>~/\<close>; a third pass never changes anything.
\<close>
theorem normalize_twice:
  "is_home_relative_path (normalize_raw p) \<and> trim (normalize_raw p) = normalize_raw p \<and>
   normalize_raw (normalize_raw p) =
     (if normalize_raw p = ''~'' \<or> normalize_raw p = ''~/.'' then ''~/'' else normalize_raw p) \<and>
   normalize_raw (normalize_raw (normalize_raw p)) = normalize_raw (normalize_raw p)"
proof -
  have home: "is_home_relative_path (normalize_raw p)" and tr: "trimmed (normalize_raw p)"
    by (simp_all add: normalize_raw_home normalize_raw_trimmed)
  have slash: "normalize_raw ''~/'' = ''~/''"
    by (subst normalize_raw_on_home)
      (simp_all add: is_home_relative_path_def starts_with_def trimmed_consts)
  show ?thesis using home tr slash by (simp add: normalize_raw_on_home trim_id)
qed

text \<open>
  Normalising once and twice disagree on a path the server meets, the home directory of a
  user: once gives \<^verbatim>\<open>~\<close> (what an upload stores), twice gives \<^verbatim>\<open>~/\<close> (what a search asks for).
\<close>
theorem normalize_not_idempotent:
  "normalize_raw ''/home/alice'' = ''~'' \<and> normalize_raw (normalize_raw ''/home/alice'') = ''~/''"
proof -
  have "trimmed ''/home/alice''" by (simp add: trimmed_def no_lead_def ws_seqs_def)
  then have "trim ''/home/alice'' = ''/home/alice''" by (rule trim_id)
  then have once: "normalize_raw ''/home/alice'' = ''~''"
    by (simp add: normalize_raw_def starts_with_def)
  moreover have "normalize_raw ''~'' = ''~/''"
    by (subst normalize_raw_on_home) (simp_all add: is_home_relative_path_def trimmed_consts)
  ultimately show ?thesis by simp
qed

section \<open>Validators\<close>

definition validate_filename :: "string \<Rightarrow> bool" where
  "validate_filename filename \<longleftrightarrow> filename \<noteq> [] \<and>
     \<not> list_ex (\<lambda>c. c \<in> {CHR ''/'', CHR 0x5C, CHR '':'', CHR ''*'', CHR ''?'', CHR 0x22, CHR ''<'', CHR ''>'', CHR ''|''}) filename"

text \<open>
  The \<^verbatim>\<open>regex\<close> crate is a parameter: \<open>re pat\<close> is \<^verbatim>\<open>Regex::new(pat).ok()\<close>, the compiled
  pattern as its \<^verbatim>\<open>is_match\<close> predicate.
\<close>

type_synonym regex_lib = "string \<Rightarrow> (string \<Rightarrow> bool) option"

definition whitelist_of :: "string \<Rightarrow> string list" where
  "whitelist_of csv = filter (\<lambda>s. s \<noteq> []) (map trim (split_char (CHR '','') csv))"

definition regex_opt_of :: "regex_lib \<Rightarrow> string option \<Rightarrow> (string \<Rightarrow> bool) option" where
  "regex_opt_of re pat = (case pat of Some p \<Rightarrow> if trim p \<noteq> [] then re (trim p) else None | None \<Rightarrow> None)"

definition segment_rejected :: "string list \<Rightarrow> (string \<Rightarrow> bool) option \<Rightarrow> string \<Rightarrow> bool" where
  "segment_rejected whitelist regex seg \<longleftrightarrow>
     \<not> (seg = [] \<or> seg = ''~'' \<or> seg = ''.'' \<or> seg = ''..'') \<and> list_all is_ascii_digit seg \<and>
     \<not> (seg \<in> set whitelist \<or> (case regex of None \<Rightarrow> False | Some m \<Rightarrow> m seg))"

definition validate_watcher_folder ::
  "regex_lib \<Rightarrow> (string \<Rightarrow> string option) \<Rightarrow> string \<Rightarrow> (string, unit) result" where
  "validate_watcher_folder re env folder =
     (if (case env ''WATCHER_FOLDER_ALLOW_NUMERIC'' of Some v \<Rightarrow> v | None \<Rightarrow> ''0'') = ''1'' then Ok ()
      else
        let whitelist = whitelist_of (case env ''WATCHER_FOLDER_NUMERIC_SEGMENT_WHITELIST'' of Some v \<Rightarrow> v | None \<Rightarrow> []);
            regex_opt = regex_opt_of re (env ''WATCHER_FOLDER_NUMERIC_SEGMENT_REGEX'')
        in case find (segment_rejected whitelist regex_opt) (split_char (CHR ''/'') folder) of
             Some seg \<Rightarrow> Err (''Watcher folder contains numeric-only segment '' @ [CHR 0x27] @ seg @ [CHR 0x27] @
               '' which is not allowed (set WATCHER_FOLDER_ALLOW_NUMERIC=1 or whitelist/regex)'')
           | None \<Rightarrow> Ok ())"

definition validate_watcher_folder_with_options ::
  "regex_lib \<Rightarrow> string \<Rightarrow> bool \<Rightarrow> string \<Rightarrow> string option \<Rightarrow> (string, unit) result" where
  "validate_watcher_folder_with_options re folder allow_numeric whitelist_csv regex_pattern =
     (if allow_numeric then Ok ()
      else
        let whitelist = whitelist_of whitelist_csv;
            regex_opt = regex_opt_of re regex_pattern
        in case find (segment_rejected whitelist regex_opt) (split_char (CHR ''/'') folder) of
             Some seg \<Rightarrow> Err (''Watcher folder contains numeric-only segment '' @ [CHR 0x27] @ seg @ [CHR 0x27] @
               '' which is not allowed (enable allow_numeric or whitelist/regex)'')
           | None \<Rightarrow> Ok ())"

definition validate_hash :: "string \<Rightarrow> bool" where
  "validate_hash hash \<longleftrightarrow> length hash = 64 \<and> list_all is_ascii_hexdigit hash"

definition validate_device_hash :: "string \<Rightarrow> bool" where
  "validate_device_hash hash = validate_hash hash"

definition validate_account_hash :: "string \<Rightarrow> bool" where
  "validate_account_hash hash = validate_hash hash"

definition validate_file_path :: "string \<Rightarrow> bool" where
  "validate_file_path path \<longleftrightarrow> \<not> str_contains path ''..'' \<and> \<not> starts_with path ''/'' \<and> path \<noteq> []"

record validation_error =
  ve_field :: string
  ve_message :: string

record validation_result =
  vr_is_valid :: bool
  vr_errors :: "validation_error list"

definition validation_result_new :: validation_result where
  "validation_result_new = \<lparr>vr_is_valid = True, vr_errors = []\<rparr>"

definition validation_add_error :: "string \<Rightarrow> string \<Rightarrow> validation_result \<Rightarrow> validation_result" where
  "validation_add_error field message r =
     r\<lparr>vr_is_valid := False, vr_errors := vr_errors r @ [\<lparr>ve_field = field, ve_message = message\<rparr>]\<rparr>"

lemma no_segment_rejected:
  "find (segment_rejected wl rx) segs = None \<longleftrightarrow>
     (\<forall>seg. seg \<in> set segs \<and> seg \<noteq> [] \<and> seg \<notin> {''~'', ''.'', ''..''} \<and> list_all is_ascii_digit seg \<longrightarrow>
        seg \<in> set wl \<or> (\<exists>m. rx = Some m \<and> m seg))"
  by (cases rx) (auto simp: find_None_iff segment_rejected_def)

lemma folder_with_options_Ok:
  "validate_watcher_folder_with_options re folder allow csv pat = Ok () \<longleftrightarrow>
     allow \<or> find (segment_rejected (whitelist_of csv) (regex_opt_of re pat)) (split_char (CHR ''/'') folder) = None"
  by (simp add: validate_watcher_folder_with_options_def Let_def split: option.split)

lemma folder_env_Ok:
  "validate_watcher_folder re env folder = Ok () \<longleftrightarrow>
     env ''WATCHER_FOLDER_ALLOW_NUMERIC'' = Some ''1'' \<or>
     find (segment_rejected
        (whitelist_of (case env ''WATCHER_FOLDER_NUMERIC_SEGMENT_WHITELIST'' of Some v \<Rightarrow> v | None \<Rightarrow> []))
        (regex_opt_of re (env ''WATCHER_FOLDER_NUMERIC_SEGMENT_REGEX''))) (split_char (CHR ''/'') folder) = None"
  unfolding validate_watcher_folder_def Let_def
  by (cases "env ''WATCHER_FOLDER_ALLOW_NUMERIC''") (simp_all split: option.split)

text \<open>
  The configured folder validator accepts exactly the folders in which every
  numeric-only path segment is white-listed or matched by the configured pattern, unless the
  check is switched off; and the variant that reads the environment decides the same way
  when it is given the same three settings.
\<close>
theorem validate_watcher_folder_accepts:
  "(validate_watcher_folder_with_options re folder allow csv pat = Ok () \<longleftrightarrow>
      allow \<or> (\<forall>seg. seg \<in> set (split_char (CHR ''/'') folder) \<and> seg \<noteq> [] \<and> seg \<notin> {''~'', ''.'', ''..''} \<and>
                list_all is_ascii_digit seg \<longrightarrow>
                seg \<in> set (whitelist_of csv) \<or> (\<exists>m. regex_opt_of re pat = Some m \<and> m seg))) \<and>
   (validate_watcher_folder re
      (\<lambda>v. if v = ''WATCHER_FOLDER_ALLOW_NUMERIC'' then (if allow then Some ''1'' else None)
           else if v = ''WATCHER_FOLDER_NUMERIC_SEGMENT_WHITELIST'' then Some csv
           else if v = ''WATCHER_FOLDER_NUMERIC_SEGMENT_REGEX'' then pat else None) folder = Ok () \<longleftrightarrow>
    validate_watcher_folder_with_options re folder allow csv pat = Ok ())"
  unfolding folder_with_options_Ok folder_env_Ok no_segment_rejected by simp

theorem validate_watcher_folder_accepts_witness:
  "validate_watcher_folder_with_options (\<lambda>_. None) ''~/2024/docs'' False ''2024'' None = Ok ()"
proof -
  have "trimmed ''2024''" by (simp add: trimmed_def no_lead_def ws_seqs_def)
  then have wl: "whitelist_of ''2024'' = [''2024'']" by (simp add: whitelist_of_def trim_id)
  have segs: "split_char (CHR ''/'') ''~/2024/docs'' = [''~'', ''2024'', ''docs'']" by simp
  have docs: "\<not> list_all is_ascii_digit ''docs''" by (simp add: is_ascii_digit_def)
  show ?thesis
    by (subst conjunct1 [OF validate_watcher_folder_accepts]) (use docs in \<open>auto simp only: segs wl list.set\<close>)
qed

text \<open>
  A path accepted by the file-path check is relative and has no parent-directory
  segment, so resolving it below a base directory cannot leave that directory.
\<close>
theorem validate_file_path_no_traversal:
  "validate_file_path p \<Longrightarrow>
     ''..'' \<notin> set (split_char (CHR ''/'') p) \<and> hd (split_char (CHR ''/'') p) \<noteq> []"
proof -
  assume v: "validate_file_path p"
  have "''..'' \<notin> set (split_char (CHR ''/'') p)"
    using v split_char_sublist by (auto simp: validate_file_path_def str_contains_iff)
  moreover have "hd (split_char (CHR ''/'') p) \<noteq> []"
    using v by (cases p) (auto simp: validate_file_path_def starts_with_def split: list.splits if_splits)
  ultimately show ?thesis by simp
qed

theorem validate_file_path_no_traversal_witness:
  "validate_file_path ''docs/a.txt'' \<and> ''..'' \<notin> set (split_char (CHR ''/'') ''docs/a.txt'')"
  using validate_file_path_no_traversal [of "''docs/a.txt''"]
  by (simp add: validate_file_path_def starts_with_def)

end
