(* ===== verification/Memory_Storage.thy ===== *)
theory Memory_Storage
  imports Models Paths
begin

text \<open>
  The in-memory storage backend, \<^verbatim>\<open>src/storage/memory.rs\<close>: its state and every operation of
  the \<^verbatim>\<open>Storage\<close> trait it implements.  The whole state is behind one mutex and each operation
  locks it once, so an operation is one atomic step: a reader is a function of the state, a
  writer returns the result and the new state.  Names carry the prefix \<open>ms_\<close>.
\<close>

section \<open>State\<close>

record storage_data =
  sd_accounts :: "(string, account) hashmap"
  sd_devices :: "(string, device) hashmap"
  sd_files :: "(u64, file_info) hashmap"
  sd_file_data :: "(u64, bytes) hashmap"
  sd_watcher_groups :: "(i32, watcher_group) hashmap"
  sd_watchers :: "(i32, watcher) hashmap"
  sd_watcher_presets :: "(string, string list) hashmap"
  sd_auth_tokens :: "(string, auth_token) hashmap"
  sd_encryption_keys :: "(string, string) hashmap"
  sd_next_file_id :: u64
  sd_next_condition_id :: i64
  sd_watcher_conditions :: "(i64, watcher_condition) hashmap"

type_synonym 'a sres = "(storage_error, 'a) result"

definition ms_new :: storage_data where
  "ms_new = \<lparr>sd_accounts = [], sd_devices = [], sd_files = [], sd_file_data = [], sd_watcher_groups = [],
     sd_watchers = [], sd_watcher_presets = [], sd_auth_tokens = [], sd_encryption_keys = [],
     sd_next_file_id = 1, sd_next_condition_id = 1, sd_watcher_conditions = []\<rparr>"

section \<open>Accounts and tokens\<close>

definition ms_create_account :: "account \<Rightarrow> storage_data \<Rightarrow> unit sres \<times> storage_data" where
  "ms_create_account account s =
     (Ok (), s\<lparr>sd_accounts := hm_insert (a_account_hash account) account (sd_accounts s)\<rparr>)"

definition ms_get_account_by_id :: "string \<Rightarrow> storage_data \<Rightarrow> account option sres" where
  "ms_get_account_by_id i s = Ok (find (\<lambda>a. a_user_id a = i) (hm_values (sd_accounts s)))"

definition ms_get_account_by_email :: "(string \<Rightarrow> string) \<Rightarrow> string \<Rightarrow> storage_data \<Rightarrow> account option sres" where
  "ms_get_account_by_email ul email s =
     Ok (find (\<lambda>a. to_lowercase ul (a_email a) = to_lowercase ul email) (hm_values (sd_accounts s)))"

definition ms_get_account_by_hash :: "string \<Rightarrow> storage_data \<Rightarrow> account option sres" where
  "ms_get_account_by_hash account_hash s = Ok (hm_get (sd_accounts s) account_hash)"

definition ms_update_account :: "account \<Rightarrow> storage_data \<Rightarrow> unit sres \<times> storage_data" where
  "ms_update_account account s =
     (Ok (), s\<lparr>sd_accounts := hm_insert (a_account_hash account) account (sd_accounts s)\<rparr>)"

definition ms_delete_account :: "string \<Rightarrow> storage_data \<Rightarrow> unit sres \<times> storage_data" where
  "ms_delete_account account_hash s = (Ok (), s\<lparr>sd_accounts := hm_remove account_hash (sd_accounts s)\<rparr>)"

definition ms_create_auth_token :: "auth_token \<Rightarrow> storage_data \<Rightarrow> unit sres \<times> storage_data" where
  "ms_create_auth_token auth_token s =
     (Ok (), s\<lparr>sd_auth_tokens := hm_insert (t_access_token auth_token) auth_token (sd_auth_tokens s)\<rparr>)"

definition ms_get_auth_token :: "string \<Rightarrow> storage_data \<Rightarrow> auth_token option sres" where
  "ms_get_auth_token token s = Ok (hm_get (sd_auth_tokens s) token)"

definition ms_validate_auth_token :: "string \<Rightarrow> string \<Rightarrow> storage_data \<Rightarrow> bool sres" where
  "ms_validate_auth_token token account_hash s =
     (case hm_get (sd_auth_tokens s) token of
        Some auth_token \<Rightarrow> Ok (t_account_hash auth_token = account_hash)
      | None \<Rightarrow> Ok False)"

definition ms_update_auth_token :: "auth_token \<Rightarrow> storage_data \<Rightarrow> unit sres \<times> storage_data" where
  "ms_update_auth_token auth_token s =
     (Ok (), s\<lparr>sd_auth_tokens := hm_insert (t_access_token auth_token) auth_token (sd_auth_tokens s)\<rparr>)"

definition ms_delete_auth_token :: "string \<Rightarrow> storage_data \<Rightarrow> unit sres \<times> storage_data" where
  "ms_delete_auth_token token s = (Ok (), s\<lparr>sd_auth_tokens := hm_remove token (sd_auth_tokens s)\<rparr>)"

section \<open>Devices\<close>

text \<open>\<^verbatim>\<open>format!("{}:{}", account_hash, device_hash)\<close>.\<close>

definition device_key :: "string \<Rightarrow> string \<Rightarrow> string" where
  "device_key account_hash device_hash = account_hash @ CHR '':'' # device_hash"

definition ms_register_device :: "device \<Rightarrow> storage_data \<Rightarrow> unit sres \<times> storage_data" where
  "ms_register_device device s =
     (let key = device_key (d_account_hash device) (d_device_hash device)
      in (Ok (), s\<lparr>sd_devices := hm_insert key device (sd_devices s)\<rparr>))"

definition ms_get_device :: "string \<Rightarrow> string \<Rightarrow> storage_data \<Rightarrow> device option sres" where
  "ms_get_device account_hash device_hash s = Ok (hm_get (sd_devices s) (device_key account_hash device_hash))"

definition ms_list_devices :: "string \<Rightarrow> storage_data \<Rightarrow> device list sres" where
  "ms_list_devices account_hash s = Ok (filter (\<lambda>d. d_account_hash d = account_hash) (hm_values (sd_devices s)))"

definition ms_update_device :: "device \<Rightarrow> storage_data \<Rightarrow> unit sres \<times> storage_data" where
  "ms_update_device device s =
     (let key = device_key (d_account_hash device) (d_device_hash device)
      in (Ok (), s\<lparr>sd_devices := hm_insert key device (sd_devices s)\<rparr>))"

definition ms_delete_device :: "string \<Rightarrow> string \<Rightarrow> storage_data \<Rightarrow> unit sres \<times> storage_data" where
  "ms_delete_device account_hash device_hash s =
     (Ok (), s\<lparr>sd_devices := hm_remove (device_key account_hash device_hash) (sd_devices s)\<rparr>)"

definition ms_validate_device :: "string \<Rightarrow> string \<Rightarrow> storage_data \<Rightarrow> bool sres" where
  "ms_validate_device account_hash device_hash s =
     Ok (hm_contains (sd_devices s) (device_key account_hash device_hash))"

definition ms_get_devices_for_account :: "string \<Rightarrow> storage_data \<Rightarrow> device list sres" where
  "ms_get_devices_for_account account_hash s =
     Ok (filter (\<lambda>d. d_account_hash d = account_hash) (hm_values (sd_devices s)))"

section \<open>Files\<close>

definition ms_store_file_info :: "file_info \<Rightarrow> storage_data \<Rightarrow> u64 sres \<times> storage_data" where
  "ms_store_file_info file s =
     (let (file_id, s1) =
        (if fi_file_id file = 0
         then (sd_next_file_id s, s\<lparr>sd_next_file_id := sd_next_file_id s + 1\<rparr>)
         else (fi_file_id file, s))
      in (Ok file_id, s1\<lparr>sd_files := hm_insert file_id (file\<lparr>fi_file_id := file_id\<rparr>) (sd_files s1)\<rparr>))"

definition ms_get_file_info :: "u64 \<Rightarrow> storage_data \<Rightarrow> file_info option sres" where
  "ms_get_file_info file_id s = Ok (hm_get (sd_files s) file_id)"

definition ms_get_file_info_by_path :: "string \<Rightarrow> string \<Rightarrow> i32 \<Rightarrow> storage_data \<Rightarrow> file_info option sres" where
  "ms_get_file_info_by_path account_hash file_path group_id s =
     Ok (find (\<lambda>f. fi_account_hash f = account_hash \<and> fi_file_path f = file_path \<and> fi_group_id f = group_id)
          (hm_values (sd_files s)))"

definition ms_get_file_by_hash :: "string \<Rightarrow> string \<Rightarrow> storage_data \<Rightarrow> file_info option sres" where
  "ms_get_file_by_hash account_hash file_hash s =
     Ok (find (\<lambda>f. fi_account_hash f = account_hash \<and> fi_file_hash f = file_hash) (hm_values (sd_files s)))"

definition time_ok :: "i64 option \<Rightarrow> file_info \<Rightarrow> bool" where
  "time_ok upload_time_from f =
     (case upload_time_from of Some time \<Rightarrow> time \<le> ts_seconds (fi_updated_time f) | None \<Rightarrow> True)"

definition ms_list_files :: "string \<Rightarrow> i32 \<Rightarrow> i64 option \<Rightarrow> storage_data \<Rightarrow> file_info list sres" where
  "ms_list_files account_hash group_id upload_time_from s =
     Ok (filter (\<lambda>f. fi_account_hash f = account_hash \<and> fi_group_id f = group_id \<and> time_ok upload_time_from f)
          (hm_values (sd_files s)))"

definition ms_list_files_except_device ::
  "string \<Rightarrow> i32 \<Rightarrow> string \<Rightarrow> i64 option \<Rightarrow> storage_data \<Rightarrow> file_info list sres" where
  "ms_list_files_except_device account_hash group_id exclude_device_hash upload_time_from s =
     Ok (filter (\<lambda>f. fi_account_hash f = account_hash \<and> fi_group_id f = group_id \<and>
            fi_device_hash f \<noteq> exclude_device_hash \<and> time_ok upload_time_from f)
          (hm_values (sd_files s)))"

definition ms_delete_file :: "string \<Rightarrow> u64 \<Rightarrow> storage_data \<Rightarrow> unit sres \<times> storage_data" where
  "ms_delete_file account_hash file_id s =
     (case hm_get (sd_files s) file_id of
        Some file \<Rightarrow>
          (if fi_account_hash file = account_hash then
             (Ok (), s\<lparr>sd_file_data := hm_remove file_id (sd_file_data s),
                        sd_files := hm_remove file_id (sd_files s)\<rparr>)
           else (Err (SE_PermissionDenied (''File not owned by user: '' @ account_hash)), s))
      | None \<Rightarrow> (Err (SE_NotFound (''File not found: '' @ show_u64 file_id)), s))"

definition ms_store_file_data :: "u64 \<Rightarrow> bytes \<Rightarrow> storage_data \<Rightarrow> unit sres \<times> storage_data" where
  "ms_store_file_data file_id data_bytes s =
     (Ok (), s\<lparr>sd_file_data := hm_insert file_id data_bytes (sd_file_data s)\<rparr>)"

definition ms_get_file_data :: "u64 \<Rightarrow> storage_data \<Rightarrow> bytes option sres" where
  "ms_get_file_data file_id s = Ok (hm_get (sd_file_data s) file_id)"

definition ms_find_file_by_path_and_name ::
  "string \<Rightarrow> string \<Rightarrow> string \<Rightarrow> i64 \<Rightarrow> storage_data \<Rightarrow> file_info option sres" where
  "ms_find_file_by_path_and_name account_hash file_path filename revision s =
     Ok (find (\<lambda>f. fi_account_hash f = account_hash \<and> fi_file_path f = file_path \<and> fi_filename f = filename \<and>
            (revision = 0 \<or> fi_revision f = revision)) (hm_values (sd_files s)))"

definition ms_find_file_by_criteria ::
  "string \<Rightarrow> i32 \<Rightarrow> i32 \<Rightarrow> string \<Rightarrow> string \<Rightarrow> storage_data \<Rightarrow> file_info option sres" where
  "ms_find_file_by_criteria account_hash group_id watcher_id file_path filename s =
     Ok (find (\<lambda>f. fi_account_hash f = account_hash \<and> fi_group_id f = group_id \<and> fi_watcher_id f = watcher_id \<and>
            fi_file_path f = file_path \<and> fi_filename f = filename) (hm_values (sd_files s)))"

definition ms_get_file_info_include_deleted :: "u64 \<Rightarrow> storage_data \<Rightarrow> (file_info \<times> bool) option sres" where
  "ms_get_file_info_include_deleted file_id s =
     (case ms_get_file_info file_id s of
        Inl e \<Rightarrow> Err e
      | Inr (Some info) \<Rightarrow> Ok (Some (info, False))
      | Inr None \<Rightarrow> Ok None)"

definition ms_check_file_exists :: "u64 \<Rightarrow> storage_data \<Rightarrow> (bool \<times> bool) sres" where
  "ms_check_file_exists file_id s =
     (case hm_get (sd_files s) file_id of Some file \<Rightarrow> Ok (True, False) | None \<Rightarrow> Ok (False, False))"

text \<open>Version history is not kept by this backend.\<close>

definition ms_get_file_history :: "string \<Rightarrow> string \<Rightarrow> i32 \<Rightarrow> storage_data \<Rightarrow> sync_file list sres" where
  "ms_get_file_history account_hash file_path group_id s = Ok []"

definition ms_get_file_versions_by_id :: "string \<Rightarrow> u64 \<Rightarrow> storage_data \<Rightarrow> sync_file list sres" where
  "ms_get_file_versions_by_id account_hash file_id s = Ok []"

definition ms_get_file_by_revision :: "string \<Rightarrow> u64 \<Rightarrow> i64 \<Rightarrow> storage_data \<Rightarrow> sync_file sres" where
  "ms_get_file_by_revision account_hash file_id revision s =
     Err (SE_NotFound (''File version not found in MemoryStorage: file_id='' @ show_u64 file_id @
       '', revision='' @ show_int revision))"

definition ms_store_file :: "sync_file \<Rightarrow> storage_data \<Rightarrow> unit sres \<times> storage_data" where
  "ms_store_file file s = (Ok (), s)"

section \<open>Encryption keys and presets\<close>

definition ms_store_encryption_key :: "string \<Rightarrow> string \<Rightarrow> storage_data \<Rightarrow> unit sres \<times> storage_data" where
  "ms_store_encryption_key account_hash encryption_key s =
     (Ok (), s\<lparr>sd_encryption_keys := hm_insert account_hash encryption_key (sd_encryption_keys s)\<rparr>)"

definition ms_get_encryption_key :: "string \<Rightarrow> storage_data \<Rightarrow> string option sres" where
  "ms_get_encryption_key account_hash s = Ok (hm_get (sd_encryption_keys s) account_hash)"

definition ms_register_watcher_preset_proto ::
  "string \<Rightarrow> string \<Rightarrow> string list \<Rightarrow> storage_data \<Rightarrow> unit sres \<times> storage_data" where
  "ms_register_watcher_preset_proto account_hash device_hash presets s =
     (Ok (), s\<lparr>sd_watcher_presets := hm_insert account_hash presets (sd_watcher_presets s)\<rparr>)"

definition ms_update_watcher_preset_proto ::
  "string \<Rightarrow> string \<Rightarrow> string list \<Rightarrow> storage_data \<Rightarrow> unit sres \<times> storage_data" where
  "ms_update_watcher_preset_proto account_hash device_hash presets s =
     (Ok (), s\<lparr>sd_watcher_presets := hm_insert account_hash presets (sd_watcher_presets s)\<rparr>)"

definition ms_get_watcher_preset :: "string \<Rightarrow> storage_data \<Rightarrow> string list sres" where
  "ms_get_watcher_preset account_hash s =
     (case hm_get (sd_watcher_presets s) account_hash of Some presets \<Rightarrow> Ok presets | None \<Rightarrow> Ok [])"

section \<open>Watcher groups\<close>

definition ms_register_watcher_group ::
  "string \<Rightarrow> string \<Rightarrow> watcher_group \<Rightarrow> storage_data \<Rightarrow> i32 sres \<times> storage_data" where
  "ms_register_watcher_group account_hash device_hash watcher_group s =
     (let server_id = next_id_i32 (sd_watcher_groups s);
          grp = watcher_group\<lparr>wg_id := server_id, wg_watcher_ids := wg_watcher_ids watcher_group\<rparr>
      in (Ok server_id, s\<lparr>sd_watcher_groups := hm_insert server_id grp (sd_watcher_groups s)\<rparr>))"

definition ms_get_watcher_groups :: "string \<Rightarrow> storage_data \<Rightarrow> watcher_group list sres" where
  "ms_get_watcher_groups account_hash s =
     Ok (filter (\<lambda>g. wg_account_hash g = account_hash) (hm_values (sd_watcher_groups s)))"

definition ms_get_user_watcher_group :: "string \<Rightarrow> i32 \<Rightarrow> storage_data \<Rightarrow> watcher_group option sres" where
  "ms_get_user_watcher_group account_hash group_id s =
     (case hm_get (sd_watcher_groups s) group_id of
        Some grp \<Rightarrow> if wg_account_hash grp = account_hash then Ok (Some grp) else Ok None
      | None \<Rightarrow> Ok None)"

definition ms_update_watcher_group :: "string \<Rightarrow> watcher_group \<Rightarrow> storage_data \<Rightarrow> unit sres \<times> storage_data" where
  "ms_update_watcher_group account_hash watcher_group s =
     (let i = wg_id watcher_group in
      case hm_get (sd_watcher_groups s) i of
        Some grp \<Rightarrow>
          (if wg_account_hash grp \<noteq> account_hash
           then (Err (SE_PermissionDenied ''Not the owner of the watcher group''), s)
           else (Ok (), s\<lparr>sd_watcher_groups := hm_insert i watcher_group (sd_watcher_groups s)\<rparr>))
      | None \<Rightarrow> (Err (SE_NotFound ''Watcher group not found''), s))"

definition ms_delete_watcher_group :: "string \<Rightarrow> i32 \<Rightarrow> storage_data \<Rightarrow> unit sres \<times> storage_data" where
  "ms_delete_watcher_group account_hash group_id s =
     (case hm_get (sd_watcher_groups s) group_id of
        Some grp \<Rightarrow>
          (if wg_account_hash grp = account_hash then
             (let watcher_ids = map fst (filter (\<lambda>(_, w). w_account_hash w = account_hash \<and> w_group_id w = group_id)
                     (sd_watchers s));
                  condition_ids = map fst (filter (\<lambda>(_, c). wc_watcher_id c \<in> set watcher_ids)
                     (sd_watcher_conditions s))
              in (Ok (), s\<lparr>sd_watcher_conditions := hm_remove_all condition_ids (sd_watcher_conditions s),
                           sd_watchers := hm_remove_all watcher_ids (sd_watchers s),
                           sd_watcher_groups := hm_remove group_id (sd_watcher_groups s)\<rparr>))
           else (Err (SE_PermissionDenied ''Not the owner of the watcher group''), s))
      | None \<Rightarrow> (Err (SE_NotFound ''Watcher group not found''), s))"

definition ms_get_watcher_group_by_account_and_id ::
  "string \<Rightarrow> i32 \<Rightarrow> storage_data \<Rightarrow> p_watcher_group_data option sres" where
  "ms_get_watcher_group_by_account_and_id account_hash group_id s =
     (case hm_get (sd_watcher_groups s) group_id of
        Some grp \<Rightarrow>
          (if wg_account_hash grp \<noteq> account_hash then Ok None
           else Ok (Some \<lparr>pg_group_id = wg_group_id grp, pg_title = wg_title grp,
                          pg_watchers = [], pg_last_updated = None\<rparr>))
      | None \<Rightarrow> Ok None)"

definition ms_get_server_group_id :: "string \<Rightarrow> i32 \<Rightarrow> storage_data \<Rightarrow> i32 option sres" where
  "ms_get_server_group_id account_hash client_group_id s =
     Ok (map_option fst (find (\<lambda>(_, g). wg_account_hash g = account_hash \<and> wg_group_id g = client_group_id)
          (sd_watcher_groups s)))"

definition ms_check_duplicate_watcher_group :: "string \<Rightarrow> i32 \<Rightarrow> storage_data \<Rightarrow> i32 option sres" where
  "ms_check_duplicate_watcher_group account_hash local_group_id s =
     Ok (map_option fst (find (\<lambda>(_, g). wg_account_hash g = account_hash \<and> wg_group_id g = local_group_id)
          (sd_watcher_groups s)))"

section \<open>Watchers and their conditions\<close>

definition ms_find_watcher_by_folder :: "string \<Rightarrow> i32 \<Rightarrow> string \<Rightarrow> storage_data \<Rightarrow> i32 option sres" where
  "ms_find_watcher_by_folder account_hash group_id folder s =
     (let normalized_folder = normalize_raw folder in
      Ok (map_option fst (find (\<lambda>(_, w). w_account_hash w = account_hash \<and> w_group_id w = group_id \<and>
             w_folder w = normalized_folder) (sd_watchers s))))"

text \<open>The loop that gives each condition the next identifier and stores it.\<close>

fun insert_conditions ::
  "(i64 \<Rightarrow> 'c \<Rightarrow> watcher_condition) \<Rightarrow> 'c list \<Rightarrow> storage_data \<Rightarrow> storage_data" where
  "insert_conditions mk [] s = s"
| "insert_conditions mk (c # cs) s =
     (let cid = sd_next_condition_id s in
      insert_conditions mk cs
        (s\<lparr>sd_next_condition_id := wrap_i64 (cid + 1),
           sd_watcher_conditions := hm_insert cid (mk cid c) (sd_watcher_conditions s)\<rparr>))"

definition mk_condition ::
  "datetime \<Rightarrow> string \<Rightarrow> i32 \<Rightarrow> i32 \<Rightarrow> i32 \<Rightarrow> condition_type \<Rightarrow> i64 \<Rightarrow> p_condition_data \<Rightarrow> watcher_condition" where
  "mk_condition dt account_hash watcher_id local_watcher_id group_id typ cid cd =
     \<lparr>wc_id = Some cid, wc_account_hash = account_hash, wc_watcher_id = watcher_id,
      wc_local_watcher_id = local_watcher_id, wc_local_group_id = group_id, wc_condition_type = typ,
      wc_key = pc_key cd, wc_value = pc_value cd, wc_operator = ''equals'',
      wc_created_at = dt, wc_updated_at = dt\<rparr>"

definition mk_watcher :: "datetime \<Rightarrow> string \<Rightarrow> i32 \<Rightarrow> i32 \<Rightarrow> p_watcher_data \<Rightarrow> watcher" where
  "mk_watcher dt account_hash group_id next_id wd =
     \<lparr>w_id = next_id, w_watcher_id = pw_watcher_id wd, w_account_hash = account_hash,
      w_group_id = group_id, w_local_group_id = group_id, w_title = ''Watcher '' @ show_int next_id,
      w_folder = normalize_raw (pw_folder wd),
      w_union_conditions = map condition_of_proto (pw_union_conditions wd),
      w_subtracting_conditions = map condition_of_proto (pw_subtracting_conditions wd),
      w_recursive_path = pw_recursive_path wd, w_preset = pw_preset wd,
      w_custom_type = pw_custom_type wd, w_update_mode = pw_update_mode wd, w_is_active = True,
      w_extra_json = pw_extra_json wd, w_created_at = dt, w_updated_at = dt\<rparr>"

definition ms_create_watcher_with_conditions ::
  "chrono \<Rightarrow> datetime \<Rightarrow> string \<Rightarrow> i32 \<Rightarrow> p_watcher_data \<Rightarrow> i64 \<Rightarrow> storage_data \<Rightarrow> i32 sres \<times> storage_data" where
  "ms_create_watcher_with_conditions ch now account_hash group_id wd timestamp s =
     (let dt = (case ch_from_timestamp ch timestamp 0 of Some d \<Rightarrow> d | None \<Rightarrow> now);
          next_id = next_id_i32 (sd_watchers s);
          s1 = s\<lparr>sd_watchers := hm_insert next_id (mk_watcher dt account_hash group_id next_id wd) (sd_watchers s)\<rparr>;
          s2 = insert_conditions (mk_condition dt account_hash next_id (pw_watcher_id wd) group_id Union)
                 (pw_union_conditions wd) s1;
          s3 = insert_conditions (mk_condition dt account_hash next_id (pw_watcher_id wd) group_id Subtract)
                 (pw_subtracting_conditions wd) s2;
          s4 = s3\<lparr>sd_watcher_groups := hm_modify group_id
                 (\<lambda>g. if next_id \<in> set (wg_watcher_ids g) then g
                      else g\<lparr>wg_watcher_ids := wg_watcher_ids g @ [next_id]\<rparr>) (sd_watcher_groups s3)\<rparr>
      in (Ok next_id, s4))"

definition ms_get_watcher_by_group_and_id ::
  "string \<Rightarrow> i32 \<Rightarrow> i32 \<Rightarrow> storage_data \<Rightarrow> p_watcher_data option sres" where
  "ms_get_watcher_by_group_and_id account_hash group_id watcher_id s =
     Ok (map_option proto_of_watcher
          (find (\<lambda>w. w_account_hash w = account_hash \<and> w_local_group_id w = group_id \<and> w_watcher_id w = watcher_id)
            (hm_values (sd_watchers s))))"

definition ms_get_server_ids :: "string \<Rightarrow> i32 \<Rightarrow> i32 \<Rightarrow> storage_data \<Rightarrow> (i32 \<times> i32) option sres" where
  "ms_get_server_ids account_hash client_group_id client_watcher_id s =
     (case map_option fst (find (\<lambda>(_, g). wg_account_hash g = account_hash \<and> wg_group_id g = client_group_id)
             (sd_watcher_groups s)) of
        Some group_id \<Rightarrow>
          Ok (map_option (\<lambda>(i, _). (group_id, i))
            (find (\<lambda>(_, w). w_account_hash w = account_hash \<and> w_local_group_id w = client_group_id \<and>
                w_watcher_id w = client_watcher_id) (sd_watchers s)))
      | None \<Rightarrow> Ok None)"

definition ms_check_duplicate_watcher :: "string \<Rightarrow> i32 \<Rightarrow> storage_data \<Rightarrow> i32 option sres" where
  "ms_check_duplicate_watcher account_hash local_watcher_id s =
     Ok (map_option fst (find (\<lambda>(_, w). w_account_hash w = account_hash \<and> w_watcher_id w = local_watcher_id)
          (sd_watchers s)))"

definition ms_get_client_watcher_id :: "string \<Rightarrow> i32 \<Rightarrow> i32 \<Rightarrow> storage_data \<Rightarrow> (i32 \<times> i32) option sres" where
  "ms_get_client_watcher_id account_hash server_group_id server_watcher_id s =
     Ok (Some (server_group_id, server_watcher_id))"

definition ms_create_watcher_condition :: "watcher_condition \<Rightarrow> storage_data \<Rightarrow> i64 sres \<times> storage_data" where
  "ms_create_watcher_condition condition s =
     (let new_id = sd_next_condition_id s in
      (Ok new_id, s\<lparr>sd_next_condition_id := wrap_i64 (new_id + 1),
         sd_watcher_conditions := hm_insert new_id (condition\<lparr>wc_id := Some new_id\<rparr>) (sd_watcher_conditions s)\<rparr>))"

definition ms_register_watcher_condition ::
  "string \<Rightarrow> watcher_condition \<Rightarrow> storage_data \<Rightarrow> i64 sres \<times> storage_data" where
  "ms_register_watcher_condition account_hash condition s = ms_create_watcher_condition condition s"

definition ms_get_watcher_condition :: "i64 \<Rightarrow> storage_data \<Rightarrow> watcher_condition option sres" where
  "ms_get_watcher_condition condition_id s = Ok (hm_get (sd_watcher_conditions s) condition_id)"

definition ms_get_watcher_conditions :: "string \<Rightarrow> i32 \<Rightarrow> storage_data \<Rightarrow> watcher_condition list sres" where
  "ms_get_watcher_conditions account_hash watcher_id s =
     Ok (filter (\<lambda>c. wc_watcher_id c = watcher_id \<and> wc_account_hash c = account_hash)
          (hm_values (sd_watcher_conditions s)))"

definition ms_get_watcher_conditions_by_watcher ::
  "string \<Rightarrow> i32 \<Rightarrow> storage_data \<Rightarrow> watcher_condition list sres" where
  "ms_get_watcher_conditions_by_watcher account_hash watcher_id s =
     ms_get_watcher_conditions account_hash watcher_id s"

definition ms_update_watcher_condition :: "watcher_condition \<Rightarrow> storage_data \<Rightarrow> unit sres \<times> storage_data" where
  "ms_update_watcher_condition condition s =
     (case wc_id condition of
        None \<Rightarrow> (Err (SE_ValidationError ''Condition ID is required for update''), s)
      | Some condition_id \<Rightarrow>
          (if hm_contains (sd_watcher_conditions s) condition_id
           then (Ok (), s\<lparr>sd_watcher_conditions := hm_insert condition_id condition (sd_watcher_conditions s)\<rparr>)
           else (Err (SE_NotFound (''Condition with ID '' @ show_int condition_id @ '' not found'')), s)))"

definition ms_delete_watcher_condition :: "i64 \<Rightarrow> storage_data \<Rightarrow> unit sres \<times> storage_data" where
  "ms_delete_watcher_condition condition_id s =
     (if hm_contains (sd_watcher_conditions s) condition_id
      then (Ok (), s\<lparr>sd_watcher_conditions := hm_remove condition_id (sd_watcher_conditions s)\<rparr>)
      else (Err (SE_NotFound (''Condition with ID '' @ show_int condition_id @ '' not found'')), s))"

definition conditions_of_watcher :: "i32 \<Rightarrow> storage_data \<Rightarrow> i64 list" where
  "conditions_of_watcher watcher_id s =
     map fst (filter (\<lambda>(_, c). wc_watcher_id c = watcher_id) (sd_watcher_conditions s))"

definition ms_delete_all_watcher_conditions :: "i32 \<Rightarrow> storage_data \<Rightarrow> unit sres \<times> storage_data" where
  "ms_delete_all_watcher_conditions watcher_id s =
     (Ok (), s\<lparr>sd_watcher_conditions := hm_remove_all (conditions_of_watcher watcher_id s) (sd_watcher_conditions s)\<rparr>)"

definition ms_save_watcher_conditions ::
  "i32 \<Rightarrow> watcher_condition list \<Rightarrow> storage_data \<Rightarrow> unit sres \<times> storage_data" where
  "ms_save_watcher_conditions watcher_id conditions s =
     (let s1 = s\<lparr>sd_watcher_conditions := hm_remove_all (conditions_of_watcher watcher_id s) (sd_watcher_conditions s)\<rparr>
      in (Ok (), insert_conditions (\<lambda>new_id c. c\<lparr>wc_id := Some new_id, wc_watcher_id := watcher_id\<rparr>) conditions s1))"

section \<open>Bulk, metrics and retention operations\<close>

record storage_metrics =
  sm_total_queries :: nat
  sm_successful_queries :: nat
  sm_failed_queries :: nat
  sm_average_query_time_ms :: int \<comment> \<open>an \<^verbatim>\<open>f64\<close>, always 0.0\<close>
  sm_active_connections :: nat
  sm_idle_connections :: nat
  sm_cache_hits :: nat
  sm_cache_misses :: nat

definition ms_get_metrics :: "storage_data \<Rightarrow> storage_metrics sres" where
  "ms_get_metrics s = Ok \<lparr>sm_total_queries = length (sd_files s), sm_successful_queries = length (sd_accounts s),
     sm_failed_queries = 0, sm_average_query_time_ms = 0, sm_active_connections = 1, sm_idle_connections = 0,
     sm_cache_hits = length (sd_devices s), sm_cache_misses = 0\<rparr>"

definition ms_batch_create_accounts :: "account list \<Rightarrow> storage_data \<Rightarrow> bool list sres \<times> storage_data" where
  "ms_batch_create_accounts accounts s = (Err (SE_NotImplemented ''batch_create_accounts not implemented''), s)"

definition ms_list_accounts :: "nat option \<Rightarrow> nat option \<Rightarrow> storage_data \<Rightarrow> account list sres" where
  "ms_list_accounts limit offset s = Ok (hm_values (sd_accounts s))"

definition ms_batch_store_files :: "file_info list \<Rightarrow> storage_data \<Rightarrow> (u64 \<times> bool) list sres \<times> storage_data" where
  "ms_batch_store_files files s = (Err (SE_NotImplemented ''batch_store_files not implemented''), s)"

definition ms_batch_delete_files :: "string \<Rightarrow> u64 list \<Rightarrow> storage_data \<Rightarrow> bool list sres \<times> storage_data" where
  "ms_batch_delete_files account_hash file_ids s = (Err (SE_NotImplemented ''batch_delete_files not implemented''), s)"

definition ms_update_encryption_key :: "string \<Rightarrow> string \<Rightarrow> storage_data \<Rightarrow> unit sres \<times> storage_data" where
  "ms_update_encryption_key account_hash encryption_key s =
     (Err (SE_NotImplemented ''update_encryption_key not implemented''), s)"

definition ms_delete_encryption_key :: "string \<Rightarrow> storage_data \<Rightarrow> unit sres \<times> storage_data" where
  "ms_delete_encryption_key account_hash s =
     (Err (SE_NotImplemented ''delete_encryption_key not implemented''), s)"

definition ms_purge_deleted_files_older_than :: "i64 \<Rightarrow> storage_data \<Rightarrow> u64 sres \<times> storage_data" where
  "ms_purge_deleted_files_older_than ttl_secs s = (Ok 0, s)"

definition ms_trim_old_revisions :: "i32 \<Rightarrow> storage_data \<Rightarrow> u64 sres \<times> storage_data" where
  "ms_trim_old_revisions max_revisions s = (Ok 0, s)"

lemmas ms_account_defs = ms_create_account_def ms_update_account_def ms_delete_account_def
  ms_create_auth_token_def ms_update_auth_token_def ms_delete_auth_token_def
lemmas ms_device_defs = ms_register_device_def ms_update_device_def ms_delete_device_def
lemmas ms_file_defs = ms_store_file_info_def ms_delete_file_def ms_store_file_data_def ms_store_file_def
lemmas ms_key_defs = ms_store_encryption_key_def ms_register_watcher_preset_proto_def ms_update_watcher_preset_proto_def
lemmas ms_group_defs = ms_register_watcher_group_def ms_update_watcher_group_def ms_delete_watcher_group_def
lemmas ms_watcher_defs = ms_create_watcher_with_conditions_def ms_create_watcher_condition_def
  ms_register_watcher_condition_def ms_update_watcher_condition_def ms_delete_watcher_condition_def
  ms_delete_all_watcher_conditions_def ms_save_watcher_conditions_def

end
