(* ===== verification/Memory_Correct.thy ===== *)
theory Memory_Correct
  imports Memory_Storage Interfaces
begin

text \<open>
  Correctness of the in-memory storage: the well-formedness invariant of its tables over
  every reachable state, the behaviour of each operation on success and on error, and the
  table contracts of \<open>Interfaces\<close>.
\<close>

section \<open>Table invariants\<close>

text \<open>
  Every table has distinct keys and each row is stored under the key read from its own
  fields; group and watcher keys are \<^verbatim>\<open>i32\<close> values.
\<close>

definition keyed_by :: "('v \<Rightarrow> 'k \<Rightarrow> bool) \<Rightarrow> ('k, 'v) hashmap \<Rightarrow> bool" where
  "keyed_by P m \<longleftrightarrow> hm_wf m \<and> (\<forall>k v. hm_get m k = Some v \<longrightarrow> P v k)"

lemma keyed_by_Nil [simp]: "keyed_by P []"
  by (simp add: keyed_by_def)

lemma keyed_by_insert [simp]: "keyed_by P m \<Longrightarrow> P v k \<Longrightarrow> keyed_by P (hm_insert k v m)"
  by (simp add: keyed_by_def hm_get_insert)

lemma keyed_by_remove [simp]: "keyed_by P m \<Longrightarrow> keyed_by P (hm_remove k m)"
  by (simp add: keyed_by_def hm_get_remove)

lemma keyed_by_remove_all [simp]: "keyed_by P m \<Longrightarrow> keyed_by P (hm_remove_all ks m)"
  by (simp add: keyed_by_def hm_get_remove_all)

lemma keyed_by_modify:
  "keyed_by P m \<Longrightarrow> (\<And>v. hm_get m k = Some v \<Longrightarrow> P v k \<Longrightarrow> P (f v) k) \<Longrightarrow> keyed_by P (hm_modify k f m)"
  by (auto simp: keyed_by_def hm_get_modify)

lemma keyed_by_perm: "keyed_by P m \<Longrightarrow> mset m = mset m' \<Longrightarrow> keyed_by P m'"
  unfolding keyed_by_def using hm_perm_get [of m m'] hm_perm_wf [of m m'] by simp

definition ms_inv :: "storage_data \<Rightarrow> bool" where
  "ms_inv s \<longleftrightarrow>
     keyed_by (\<lambda>a k. a_account_hash a = k) (sd_accounts s) \<and>
     keyed_by (\<lambda>d k. device_key (d_account_hash d) (d_device_hash d) = k) (sd_devices s) \<and>
     keyed_by (\<lambda>f k. fi_file_id f = k) (sd_files s) \<and>
     keyed_by (\<lambda>_ _. True) (sd_file_data s) \<and>
     keyed_by (\<lambda>g k. wg_id g = k \<and> in_i32 k) (sd_watcher_groups s) \<and>
     keyed_by (\<lambda>w k. w_id w = k \<and> in_i32 k) (sd_watchers s) \<and>
     keyed_by (\<lambda>_ _. True) (sd_watcher_presets s) \<and>
     keyed_by (\<lambda>t k. t_access_token t = k) (sd_auth_tokens s) \<and>
     keyed_by (\<lambda>_ _. True) (sd_encryption_keys s) \<and>
     keyed_by (\<lambda>c k. wc_id c = Some k) (sd_watcher_conditions s)"

lemma ms_inv_new: "ms_inv ms_new"
  by (simp add: ms_inv_def ms_new_def)

lemma next_id_i32_range: "in_i32 (next_id_i32 m)"
  by (simp add: next_id_i32_def in_i32_def [of 1] split: list.split)

subsection \<open>The condition-numbering loop\<close>

lemma insert_conditions_other [simp]:
  "sd_accounts (insert_conditions mk cs s) = sd_accounts s"
  "sd_devices (insert_conditions mk cs s) = sd_devices s"
  "sd_files (insert_conditions mk cs s) = sd_files s"
  "sd_file_data (insert_conditions mk cs s) = sd_file_data s"
  "sd_watcher_groups (insert_conditions mk cs s) = sd_watcher_groups s"
  "sd_watchers (insert_conditions mk cs s) = sd_watchers s"
  "sd_watcher_presets (insert_conditions mk cs s) = sd_watcher_presets s"
  "sd_auth_tokens (insert_conditions mk cs s) = sd_auth_tokens s"
  "sd_encryption_keys (insert_conditions mk cs s) = sd_encryption_keys s"
  "sd_next_file_id (insert_conditions mk cs s) = sd_next_file_id s"
  by (induction cs arbitrary: s) (simp_all add: Let_def)

lemma insert_conditions_keyed:
  assumes "\<And>i c. wc_id (mk i c) = Some i"
  shows "keyed_by (\<lambda>c k. wc_id c = Some k) (sd_watcher_conditions s) \<Longrightarrow>
    keyed_by (\<lambda>c k. wc_id c = Some k) (sd_watcher_conditions (insert_conditions mk cs s))"
  by (induction cs arbitrary: s) (simp_all add: Let_def assms)

text \<open>As long as the counter does not wrap, the loop uses the consecutive identifiers.\<close>

lemma insert_conditions_next:
  "in_i64 (sd_next_condition_id s) \<Longrightarrow> sd_next_condition_id s + int (length cs) < 2 ^ 63 \<Longrightarrow>
   sd_next_condition_id (insert_conditions mk cs s) = sd_next_condition_id s + int (length cs)"
proof (induction cs arbitrary: s)
  case Nil
  then show ?case by simp
next
  case (Cons c cs)
  then have w: "wrap_i64 (sd_next_condition_id s + 1) = sd_next_condition_id s + 1"
    by (intro wrap_i64_id) (simp add: in_i64_def)
  with Cons show ?case by (simp add: Let_def in_i64_def)
qed

lemma insert_conditions_get:
  "in_i64 (sd_next_condition_id s) \<Longrightarrow> sd_next_condition_id s + int (length cs) < 2 ^ 63 \<Longrightarrow>
   hm_get (sd_watcher_conditions (insert_conditions mk cs s)) k =
     (if sd_next_condition_id s \<le> k \<and> k < sd_next_condition_id s + int (length cs)
      then Some (mk k (cs ! nat (k - sd_next_condition_id s)))
      else hm_get (sd_watcher_conditions s) k)"
proof (induction cs arbitrary: s)
  case Nil
  then show ?case by auto
next
  case (Cons c cs)
  let ?n = "sd_next_condition_id s"
  have w: "wrap_i64 (?n + 1) = ?n + 1"
    using Cons.prems by (intro wrap_i64_id) (simp add: in_i64_def)
  let ?s = "s\<lparr>sd_next_condition_id := ?n + 1,
    sd_watcher_conditions := hm_insert ?n (mk ?n c) (sd_watcher_conditions s)\<rparr>"
  have IH: "hm_get (sd_watcher_conditions (insert_conditions mk cs ?s)) k =
     (if ?n + 1 \<le> k \<and> k < ?n + 1 + int (length cs) then Some (mk k (cs ! nat (k - (?n + 1))))
      else hm_get (hm_insert ?n (mk ?n c) (sd_watcher_conditions s)) k)"
    using Cons.prems by (subst Cons.IH) (auto simp: in_i64_def)
  show ?case
  proof (cases "?n + 1 \<le> k \<and> k < ?n + 1 + int (length cs)")
    case True
    then have "nat (k - ?n) = Suc (nat (k - (?n + 1)))" by arith
    with True IH w show ?thesis by (simp add: Let_def)
  next
    case False
    with IH w show ?thesis by (auto simp: Let_def hm_get_insert)
  qed
qed

subsection \<open>Every operation keeps the invariant\<close>

lemma ms_inv_accounts:
  assumes "ms_inv s"
  shows "ms_inv (snd (ms_create_account a s))" "ms_inv (snd (ms_update_account a s))"
    "ms_inv (snd (ms_delete_account h s))" "ms_inv (snd (ms_create_auth_token t s))"
    "ms_inv (snd (ms_update_auth_token t s))" "ms_inv (snd (ms_delete_auth_token h s))"
  using assms by (simp_all add: ms_inv_def ms_account_defs)

lemma ms_inv_devices:
  assumes "ms_inv s"
  shows "ms_inv (snd (ms_register_device d s))" "ms_inv (snd (ms_update_device d s))"
    "ms_inv (snd (ms_delete_device a h s))"
  using assms by (simp_all add: ms_inv_def ms_device_defs Let_def)

lemma ms_inv_files:
  assumes "ms_inv s"
  shows "ms_inv (snd (ms_store_file_info f s))" "ms_inv (snd (ms_delete_file a i s))"
    "ms_inv (snd (ms_store_file_data i b s))"
  using assms by (simp_all add: ms_inv_def ms_file_defs Let_def split: option.split)

lemma ms_inv_keys:
  assumes "ms_inv s"
  shows "ms_inv (snd (ms_store_encryption_key a k s))"
    "ms_inv (snd (ms_register_watcher_preset_proto a d ps s))"
    "ms_inv (snd (ms_update_watcher_preset_proto a d ps s))"
  using assms by (simp_all add: ms_inv_def ms_key_defs)

lemma ms_inv_groups:
  assumes "ms_inv s"
  shows "ms_inv (snd (ms_register_watcher_group a d g s))" "ms_inv (snd (ms_update_watcher_group a g s))"
    "ms_inv (snd (ms_delete_watcher_group a i s))"
proof -
  show "ms_inv (snd (ms_register_watcher_group a d g s))"
    using assms by (simp add: ms_inv_def ms_group_defs Let_def next_id_i32_range)
  show "ms_inv (snd (ms_update_watcher_group a g s))"
    using assms by (auto simp: ms_inv_def ms_group_defs Let_def keyed_by_def hm_get_insert split: option.split)
  show "ms_inv (snd (ms_delete_watcher_group a i s))"
    using assms by (simp add: ms_inv_def ms_group_defs Let_def split: option.split)
qed

lemma ms_inv_insert_conditions:
  "ms_inv s \<Longrightarrow> (\<And>i c. wc_id (mk i c) = Some i) \<Longrightarrow> ms_inv (insert_conditions mk cs s)"
  unfolding ms_inv_def by (simp add: insert_conditions_keyed)

lemma ms_inv_watchers:
  assumes "ms_inv s"
  shows "ms_inv (snd (ms_create_watcher_with_conditions ch now a g wd t s))"
    "ms_inv (snd (ms_create_watcher_condition c s))" "ms_inv (snd (ms_update_watcher_condition c s))"
    "ms_inv (snd (ms_delete_watcher_condition i s))" "ms_inv (snd (ms_delete_all_watcher_conditions w s))"
    "ms_inv (snd (ms_save_watcher_conditions w cs s))"
proof -
  have mk: "\<And>dt a w l g t i c. wc_id (mk_condition dt a w l g t i c) = Some i"
    by (simp add: mk_condition_def)
  have s1: "ms_inv (s\<lparr>sd_watchers := hm_insert n (mk_watcher dt a g n wd) (sd_watchers s)\<rparr>)"
    if "in_i32 n" for n dt
    using assms that by (simp add: ms_inv_def mk_watcher_def)
  have grp: "ms_inv (r\<lparr>sd_watcher_groups := hm_modify g
      (\<lambda>g. if n \<in> set (wg_watcher_ids g) then g else g\<lparr>wg_watcher_ids := wg_watcher_ids g @ [n]\<rparr>)
      (sd_watcher_groups r)\<rparr>)" if "ms_inv r" for r n
    using that by (auto simp: ms_inv_def intro!: keyed_by_modify)
  show "ms_inv (snd (ms_create_watcher_with_conditions ch now a g wd t s))"
    unfolding ms_create_watcher_with_conditions_def Let_def snd_conv
    by (intro grp ms_inv_insert_conditions s1 next_id_i32_range mk)
  show "ms_inv (snd (ms_create_watcher_condition c s))" "ms_inv (snd (ms_update_watcher_condition c s))"
    "ms_inv (snd (ms_delete_watcher_condition i s))" "ms_inv (snd (ms_delete_all_watcher_conditions w s))"
    using assms by (simp_all add: ms_inv_def ms_watcher_defs Let_def split: option.split)
  show "ms_inv (snd (ms_save_watcher_conditions w cs s))"
    unfolding ms_save_watcher_conditions_def Let_def snd_conv
    using assms by (intro ms_inv_insert_conditions) (simp_all add: ms_inv_def)
qed

lemmas ms_inv_ops = ms_inv_accounts ms_inv_devices ms_inv_files ms_inv_keys ms_inv_groups ms_inv_watchers

section \<open>Reachable states\<close>

text \<open>
  A step is any mutating operation, by any client, or a change of the iteration order of any
  table.
\<close>

definition ms_reorder :: "storage_data \<Rightarrow> storage_data \<Rightarrow> bool" where
  "ms_reorder s t \<longleftrightarrow>
     mset (sd_accounts s) = mset (sd_accounts t) \<and> mset (sd_devices s) = mset (sd_devices t) \<and>
     mset (sd_files s) = mset (sd_files t) \<and> mset (sd_file_data s) = mset (sd_file_data t) \<and>
     mset (sd_watcher_groups s) = mset (sd_watcher_groups t) \<and> mset (sd_watchers s) = mset (sd_watchers t) \<and>
     mset (sd_watcher_presets s) = mset (sd_watcher_presets t) \<and>
     mset (sd_auth_tokens s) = mset (sd_auth_tokens t) \<and>
     mset (sd_encryption_keys s) = mset (sd_encryption_keys t) \<and>
     mset (sd_watcher_conditions s) = mset (sd_watcher_conditions t) \<and>
     sd_next_file_id s = sd_next_file_id t \<and> sd_next_condition_id s = sd_next_condition_id t"

inductive ms_step :: "storage_data \<Rightarrow> storage_data \<Rightarrow> bool" where
  "ms_step s (snd (ms_create_account a s))"
| "ms_step s (snd (ms_update_account a s))"
| "ms_step s (snd (ms_delete_account h s))"
| "ms_step s (snd (ms_create_auth_token t s))"
| "ms_step s (snd (ms_update_auth_token t s))"
| "ms_step s (snd (ms_delete_auth_token h s))"
| "ms_step s (snd (ms_register_device d s))"
| "ms_step s (snd (ms_update_device d s))"
| "ms_step s (snd (ms_delete_device h dh s))"
| "ms_step s (snd (ms_store_file_info f s))"
| "ms_step s (snd (ms_delete_file h i s))"
| "ms_step s (snd (ms_store_file_data i b s))"
| "ms_step s (snd (ms_store_encryption_key h k s))"
| "ms_step s (snd (ms_register_watcher_preset_proto h dh ps s))"
| "ms_step s (snd (ms_update_watcher_preset_proto h dh ps s))"
| "ms_step s (snd (ms_register_watcher_group h dh g s))"
| "ms_step s (snd (ms_update_watcher_group h g s))"
| "ms_step s (snd (ms_delete_watcher_group h gi s))"
| "ms_step s (snd (ms_create_watcher_with_conditions ch now h gi wd ts s))"
| "ms_step s (snd (ms_create_watcher_condition c s))"
| "ms_step s (snd (ms_update_watcher_condition c s))"
| "ms_step s (snd (ms_delete_watcher_condition ci s))"
| "ms_step s (snd (ms_delete_all_watcher_conditions wi s))"
| "ms_step s (snd (ms_save_watcher_conditions wi cs s))"
| "ms_reorder s s' \<Longrightarrow> ms_step s s'"

lemma ms_inv_reorder: "ms_inv s \<Longrightarrow> ms_reorder s t \<Longrightarrow> ms_inv t"
  unfolding ms_inv_def ms_reorder_def by (auto intro: keyed_by_perm)

lemma ms_inv_step: "ms_inv s \<Longrightarrow> ms_step s t \<Longrightarrow> ms_inv t"
  by (erule ms_step.cases) (auto simp: ms_inv_ops intro: ms_inv_reorder)

interpretation memory: invariant_system ms_new ms_step ms_inv
  by unfold_locales (simp_all add: ms_inv_new ms_inv_step)

text \<open>
  In every state the in-memory storage can reach, by any operations of any clients in
  any order and for any iteration order of its hash maps, each table has one row per key and
  each row is filed under its own identifying fields.
\<close>
theorem memory_storage_wf: "reach ms_new ms_step s \<Longrightarrow> ms_inv s"
  by (rule memory.reach_inv)

theorem memory_storage_wf_witness:
  "ms_inv (snd (ms_store_encryption_key ''acct'' ''key'' ms_new))"
  by (rule memory_storage_wf) (rule reach.reach_step [OF reach.reach_init], rule ms_step.intros)

end
