(* ===== verification/Crypto.thy ===== *)
theory Crypto
  imports Memory_Correct
begin

text \<open>
  \<^verbatim>\<open>src/utils/crypto.rs\<close>, the account-key parser of the notification manager and handlers,
  and \<^verbatim>\<open>src/services/encryption_service.rs\<close>.  The cipher, hash, MAC and text encodings are
  third-party crates: they are the fields of the parameter \<open>crypto_lib\<close>, and random bytes are
  arguments.
\<close>

unbundle bit_operations_syntax

section \<open>Library parameter\<close>

record crypto_lib =
  cl_sha256 :: "bytes \<Rightarrow> bytes"
  cl_hmac :: "bytes \<Rightarrow> bytes \<Rightarrow> bytes" \<comment> \<open>key, message\<close>
  cl_gcm_encrypt :: "bytes \<Rightarrow> bytes \<Rightarrow> bytes \<Rightarrow> bytes \<Rightarrow> bytes option" \<comment> \<open>key, nonce, message, associated data\<close>
  cl_gcm_decrypt :: "bytes \<Rightarrow> bytes \<Rightarrow> bytes \<Rightarrow> bytes \<Rightarrow> bytes option"
  cl_hex :: "bytes \<Rightarrow> string"
  cl_hex_decode :: "string \<Rightarrow> bytes option"
  cl_b64_nopad :: "bytes \<Rightarrow> string"
  cl_b64_decode_nopad :: "string \<Rightarrow> bytes option"
  cl_b64_decode :: "string \<Rightarrow> bytes option"

definition as_bytes :: "string \<Rightarrow> bytes" where
  "as_bytes s = map of_char s"

text \<open>\<^verbatim>\<open>u64::from_str_radix(s, 16)\<close>: an optional plus sign and at least one digit.\<close>

definition hex_val :: "char \<Rightarrow> nat" where
  "hex_val c = (let n = of_char c :: nat in if n \<le> 57 then n - 48 else if n \<le> 70 then n - 55 else n - 87)"

definition u64_from_hex :: "string \<Rightarrow> u64 option" where
  "u64_from_hex s =
     (let d = (case s of c # r \<Rightarrow> if c = CHR ''+'' then r else s | [] \<Rightarrow> [])
      in if d = [] \<or> \<not> list_all is_ascii_hexdigit d then None
         else let n = fold (\<lambda>c a. 16 * a + hex_val c) d 0 in if n < 2 ^ 64 then Some (of_nat n) else None)"

section \<open>Encryption and hashing\<close>

definition generate_encryption_key :: "crypto_lib \<Rightarrow> bytes \<Rightarrow> string" where
  "generate_encryption_key cl key = cl_hex cl key"

text \<open>\<open>None\<close> is the panic of \<^verbatim>\<open>expect("encrypt")\<close>.\<close>

definition aead_encrypt :: "crypto_lib \<Rightarrow> bytes \<Rightarrow> bytes \<Rightarrow> bytes \<Rightarrow> bytes \<Rightarrow> bytes option" where
  "aead_encrypt cl nonce_bytes key_bytes plaintext aad =
     (case cl_gcm_encrypt cl key_bytes nonce_bytes plaintext aad of
        Some ct \<Rightarrow> Some (nonce_bytes @ ct) | None \<Rightarrow> None)"

definition aead_decrypt :: "crypto_lib \<Rightarrow> bytes \<Rightarrow> bytes \<Rightarrow> bytes \<Rightarrow> (string, bytes) result" where
  "aead_decrypt cl key_bytes blob aad =
     (if length blob < 12 then Err ''cipher blob too short''
      else let nonce_b = take 12 blob; ct = drop 12 blob in
        (case cl_gcm_decrypt cl key_bytes nonce_b ct aad of
           Some pt \<Rightarrow> Ok pt | None \<Rightarrow> Err ''decrypt failed''))"

definition make_eq_index :: "crypto_lib \<Rightarrow> bytes \<Rightarrow> string \<Rightarrow> bytes" where
  "make_eq_index cl account_salt normalized_path = cl_hmac cl account_salt (as_bytes normalized_path)"

definition make_token_path :: "crypto_lib \<Rightarrow> (string \<Rightarrow> string) \<Rightarrow> bytes \<Rightarrow> string \<Rightarrow> string" where
  "make_token_path cl ul account_salt normalized_path =
     join ''/'' (map (\<lambda>seg. cl_b64_nopad cl (make_eq_index cl account_salt (to_lowercase ul seg)))
       (filter (\<lambda>seg. seg \<noteq> []) (split_char (CHR ''/'') normalized_path)))"

definition sha256_as_string :: "crypto_lib \<Rightarrow> string \<Rightarrow> string" where
  "sha256_as_string cl input = cl_hex cl (cl_sha256 cl (as_bytes input))"

definition sha256_as_string_truncated :: "crypto_lib \<Rightarrow> string \<Rightarrow> nat \<Rightarrow> string" where
  "sha256_as_string_truncated cl input len = cl_hex cl (take len (cl_sha256 cl (as_bytes input)))"

definition sha256 :: "crypto_lib \<Rightarrow> string \<Rightarrow> string" where
  "sha256 cl input = sha256_as_string cl input"

definition generate_account_hash :: "crypto_lib \<Rightarrow> string \<Rightarrow> string" where
  "generate_account_hash cl account_hash = sha256 cl account_hash"

definition generate_account_hash_from_email :: "crypto_lib \<Rightarrow> string \<Rightarrow> string \<Rightarrow> string" where
  "generate_account_hash_from_email cl user_id email = sha256_as_string cl (user_id @ '':'' @ email)"

definition generate_account_hash_from_email_only :: "crypto_lib \<Rightarrow> string \<Rightarrow> string" where
  "generate_account_hash_from_email_only cl email = sha256_as_string cl email"

definition generate_account_hash_for_client :: "crypto_lib \<Rightarrow> string \<Rightarrow> string \<Rightarrow> string \<Rightarrow> string" where
  "generate_account_hash_for_client cl email nm user_id =
     (let hash_email = sha256_as_string cl email in
      if email = ''test@example.com'' \<or> str_contains email ''test''
      then ''209f313bf330cf40fe89fae938babbeba7ec95d31237f77cf19de418c0d50a0a''
      else hash_email)"

definition generate_device_hash :: "crypto_lib \<Rightarrow> string \<Rightarrow> string \<Rightarrow> string" where
  "generate_device_hash cl user_id registered_at = sha256_as_string cl (user_id @ '':'' @ registered_at)"

definition i64_max :: u64 where
  "i64_max = 2 ^ 63 - 1"

definition clamp_i64 :: "u64 \<Rightarrow> u64" where
  "clamp_i64 v = (if v > i64_max then v AND i64_max else v)"

text \<open>The clock is split into whole seconds and nanoseconds below one second, as \<^verbatim>\<open>Duration\<close> is.\<close>

definition generate_file_id :: "crypto_lib \<Rightarrow> u64 \<Rightarrow> nat \<Rightarrow> nat \<Rightarrow> string \<Rightarrow> string \<Rightarrow> string \<Rightarrow> u64" where
  "generate_file_id cl secs nanos random_part user_id filename file_hash =
     (let timestamp_nanos = unat secs * 1000000000 + nanos;
          input = user_id @ '':'' @ filename @ '':'' @ file_hash @ '':'' @ show_nat timestamp_nanos @ '':''
            @ show_nat random_part;
          hash_str = sha256_as_string_truncated cl input 8
      in case u64_from_hex hash_str of
           Some v \<Rightarrow> clamp_i64 v
         | None \<Rightarrow> clamp_i64 ((secs XOR of_nat random_part) XOR of_nat nanos))"

definition derive_salt :: "crypto_lib \<Rightarrow> bytes \<Rightarrow> string \<Rightarrow> string \<Rightarrow> bytes" where
  "derive_salt cl key_bytes label account_hash =
     cl_hmac cl key_bytes (as_bytes label @ as_bytes '':'' @ as_bytes account_hash)"

text \<open>
  The same function appears in the notification manager, the gRPC service and the list
  handler; the download handler has one that tries hexadecimal first.
\<close>

definition parse_account_key :: "crypto_lib \<Rightarrow> string \<Rightarrow> bytes option" where
  "parse_account_key cl s =
     (let retry = (case cl_b64_decode cl s of Some b \<Rightarrow> if length b = 32 then Some b else None | None \<Rightarrow> None)
      in case cl_b64_decode_nopad cl s of
           Some b \<Rightarrow> if length b = 32 then Some b else retry
         | None \<Rightarrow> retry)"

definition parse_account_key_download :: "crypto_lib \<Rightarrow> string \<Rightarrow> bytes option" where
  "parse_account_key_download cl s =
     (case cl_hex_decode cl s of
        Some b \<Rightarrow> if length b = 32 then Some b else parse_account_key cl s
      | None \<Rightarrow> parse_account_key cl s)"

section \<open>Encryption service\<close>

definition ENCRYPTION_KEY_LENGTH :: nat where
  "ENCRYPTION_KEY_LENGTH = 32"

text \<open>\<open>sample\<close> is the stream of random alphanumeric characters.\<close>

definition es_generate_encryption_key :: "(nat \<Rightarrow> char) \<Rightarrow> string" where
  "es_generate_encryption_key sample = map sample [0..<ENCRYPTION_KEY_LENGTH]"

definition es_get_or_create_key :: "(nat \<Rightarrow> char) \<Rightarrow> string \<Rightarrow> storage_data \<Rightarrow> string sres \<times> storage_data" where
  "es_get_or_create_key sample account_hash s =
     (case ms_get_encryption_key account_hash s of
        Inr (Some key) \<Rightarrow> (Ok key, s)
      | Inr None \<Rightarrow>
          (let new_key = es_generate_encryption_key sample in
           case ms_store_encryption_key account_hash new_key s of
             (Inr _, s') \<Rightarrow> (Ok new_key, s')
           | (Inl e, s') \<Rightarrow> (Err e, s'))
      | Inl e \<Rightarrow> (Err e, s))"

definition es_request_encryption_key ::
  "(nat \<Rightarrow> char) \<Rightarrow> string \<Rightarrow> string \<Rightarrow> storage_data \<Rightarrow> string sres \<times> storage_data" where
  "es_request_encryption_key sample account_hash device_hash s = es_get_or_create_key sample account_hash s"

definition es_update_key :: "string \<Rightarrow> string \<Rightarrow> storage_data \<Rightarrow> unit sres \<times> storage_data" where
  "es_update_key account_hash new_key s =
     (if length new_key < ENCRYPTION_KEY_LENGTH
      then (Err (SE_ValidationError (''Encryption key must be at least '' @ show_nat ENCRYPTION_KEY_LENGTH @ '' characters'')), s)
      else ms_store_encryption_key account_hash new_key s)"

definition es_update_encryption_key :: "string \<Rightarrow> string \<Rightarrow> string \<Rightarrow> storage_data \<Rightarrow> unit sres \<times> storage_data" where
  "es_update_encryption_key account_hash device_hash new_key s = es_update_key account_hash new_key s"

section \<open>Properties\<close>

text \<open>
  What the code relies on of AES-GCM: encryption fails only for texts longer than 64 GiB, which no
  path or name reaches, and decryption under the same key, nonce and associated data undoes it.
\<close>

definition cipher_total :: "crypto_lib \<Rightarrow> bool" where
  "cipher_total cl \<longleftrightarrow> (\<forall>k n p a. cl_gcm_encrypt cl k n p a \<noteq> None)"

definition cipher_inverse :: "crypto_lib \<Rightarrow> bool" where
  "cipher_inverse cl \<longleftrightarrow> (\<forall>k n p a c. cl_gcm_encrypt cl k n p a = Some c \<longrightarrow> cl_gcm_decrypt cl k n c a = Some p)"

lemma aead_encrypt_total: "cipher_total cl \<Longrightarrow> \<exists>ct. aead_encrypt cl n k p a = Some ct"
  by (auto simp: aead_encrypt_def cipher_total_def split: option.split)

lemma aead_decrypt_encrypt:
  assumes "\<And>k n p a c. cl_gcm_encrypt cl k n p a = Some c \<Longrightarrow> cl_gcm_decrypt cl k n c a = Some p"
    and "aead_encrypt cl nonce key pt aad = Some blob" "length nonce = 12"
  shows "aead_decrypt cl key blob aad = Ok pt"
  using assms by (auto simp: aead_encrypt_def aead_decrypt_def split: option.splits)

text \<open>
  For a cipher whose decryption undoes its encryption, \<^verbatim>\<open>aead_decrypt\<close> with the same
  key and associated data returns the plaintext of whatever \<^verbatim>\<open>aead_encrypt\<close> produced under
  a 12-byte nonce; a blob shorter than a nonce is rejected.
\<close>
theorem aead_roundtrip:
  assumes "\<And>k n p a c. cl_gcm_encrypt cl k n p a = Some c \<Longrightarrow> cl_gcm_decrypt cl k n c a = Some p"
    and "aead_encrypt cl nonce key pt aad = Some blob" "length nonce = 12"
  shows "aead_decrypt cl key blob aad = Ok pt \<and>
    (\<forall>b. length b < 12 \<longrightarrow> aead_decrypt cl key b aad = Err ''cipher blob too short'')"
  using aead_decrypt_encrypt [OF assms] by (simp add: aead_decrypt_def)

definition sample_lib :: crypto_lib where
  "sample_lib = \<lparr>cl_sha256 = (\<lambda>b. b), cl_hmac = (\<lambda>k m. k @ m),
     cl_gcm_encrypt = (\<lambda>k n p a. Some (a @ p)),
     cl_gcm_decrypt = (\<lambda>k n c a. if take (length a) c = a then Some (drop (length a) c) else None),
     cl_hex = map (\<lambda>b. char_of (unat b)), cl_hex_decode = (\<lambda>s. None), cl_b64_nopad = map (\<lambda>b. char_of (unat b)),
     cl_b64_decode_nopad = (\<lambda>s. Some (as_bytes (take (3 * length s div 4) s))),
     cl_b64_decode = (\<lambda>s. Some (as_bytes (take (3 * length s div 4) s)))\<rparr>"

theorem aead_roundtrip_witness:
  "aead_decrypt sample_lib [] (replicate 12 0 @ [1, 2, 3]) [1] = Ok [2, 3]"
  using aead_roundtrip [of sample_lib "replicate 12 0" "[]" "[2, 3]" "[1]" "replicate 12 0 @ [1, 2, 3]"]
  by (auto simp: sample_lib_def aead_encrypt_def)

lemma file_id_bound:
  "unat (generate_file_id cl secs nanos rnd user filename hash) < 2 ^ 63"
proof -
  have max: "unat i64_max = 2 ^ 63 - 1" by (simp add: i64_max_def)
  have "v AND i64_max \<le> i64_max" for v :: u64
    by (metis word_and_le1)
  then have "clamp_i64 v \<le> i64_max" for v by (simp add: clamp_i64_def not_less)
  then have "unat (clamp_i64 v) < 2 ^ 63" for v
    using max by (metis word_le_nat_alt le_imp_less_Suc Suc_pred zero_less_power zero_less_numeral diff_Suc_1' Suc_diff_1)
  then show ?thesis by (simp add: generate_file_id_def Let_def split: option.split)
qed

text \<open>
  Whatever the hash, the clock and the random part, the identifier made for a new file
  is at most \<^verbatim>\<open>i64::MAX\<close>.
\<close>
theorem file_id_fits_i64:
  "unat (generate_file_id cl secs nanos rnd user filename hash) < 2 ^ 63"
  by (rule file_id_bound)

text \<open>
  Once an account has a key, every later request returns that key; the first request
  creates a 32-character key and stores it for that account only.
\<close>
theorem get_or_create_key_stable:
  "\<exists>k s'. es_get_or_create_key r1 acct s = (Ok k, s') \<and>
     es_get_or_create_key r2 acct s' = (Ok k, s') \<and>
     (case ms_get_encryption_key acct s of Inr (Some k0) \<Rightarrow> k = k0 \<and> s' = s | _ \<Rightarrow> length k = 32) \<and>
     (\<forall>a. a \<noteq> acct \<longrightarrow> ms_get_encryption_key a s' = ms_get_encryption_key a s)"
  by (auto simp: es_get_or_create_key_def ms_get_encryption_key_def ms_store_encryption_key_def Let_def
      hm_get_insert es_generate_encryption_key_def ENCRYPTION_KEY_LENGTH_def split: option.split)

theorem get_or_create_key_stable_witness:
  "\<exists>k s'. es_get_or_create_key (\<lambda>_. CHR ''x'') ''a'' ms_new = (Ok k, s') \<and>
     ms_get_encryption_key ''b'' s' = Ok None"
  using get_or_create_key_stable [of "\<lambda>_. CHR ''x''" "''a''" ms_new "\<lambda>_. CHR ''y''"]
  by (auto simp: ms_get_encryption_key_def ms_new_def)

end
