(* ===== verification/Auth.thy ===== *)
theory Auth
  imports Crypto
begin

text \<open>
  Authentication: token validation of \<^verbatim>\<open>OAuthService\<close> (\<^verbatim>\<open>src/auth/oauth.rs\<close>), the token
  helpers (\<^verbatim>\<open>src/auth/token.rs\<close>), \<^verbatim>\<open>AuthService\<close> (\<^verbatim>\<open>src/services/auth_service.rs\<close>) and the
  device check (\<^verbatim>\<open>src/utils/auth.rs\<close>).  The external authentication server is a parameter,
  and so are fresh UUIDs, the environment and the build's \<^verbatim>\<open>debug_assertions\<close>.  An outer
  \<open>None\<close> is a panic, which aborts the process in the release profile.
\<close>

section \<open>Errors and slicing\<close>

datatype auth_error =
  AE_InvalidCredentials string | AE_InvalidToken string | AE_AuthenticationRequired string
| AE_PermissionDenied string | AE_DatabaseError string | AE_ExternalServiceError string
| AE_AuthenticationError string | AE_UserNotFound string | AE_MissingUserData string
| AE_InvalidResponseFormat string | AE_Unknown string

fun auth_error_display :: "auth_error \<Rightarrow> string" where
  "auth_error_display (AE_InvalidCredentials m) = ''Invalid credentials: '' @ m"
| "auth_error_display (AE_InvalidToken m) = ''Invalid token: '' @ m"
| "auth_error_display (AE_AuthenticationRequired m) = ''Authentication required: '' @ m"
| "auth_error_display (AE_PermissionDenied m) = ''Permission denied: '' @ m"
| "auth_error_display (AE_DatabaseError m) = ''Database error: '' @ m"
| "auth_error_display (AE_ExternalServiceError m) = ''External service error: '' @ m"
| "auth_error_display (AE_AuthenticationError m) = ''Authentication error: '' @ m"
| "auth_error_display (AE_UserNotFound m) = ''User not found: '' @ m"
| "auth_error_display (AE_MissingUserData m) = ''Missing user data: '' @ m"
| "auth_error_display (AE_InvalidResponseFormat m) = ''Invalid response format: '' @ m"
| "auth_error_display (AE_Unknown m) = ''Unknown error: '' @ m"

type_synonym 'a ares = "(auth_error, 'a) result"

text \<open>
  \<^verbatim>\<open>&s[..n]\<close> panics unless \<open>n\<close> is at most the length and at a character boundary: the byte
  there does not continue a UTF-8 sequence.
\<close>

definition is_char_boundary :: "string \<Rightarrow> nat \<Rightarrow> bool" where
  "is_char_boundary s i \<longleftrightarrow>
     i = length s \<or> (i < length s \<and> \<not> (128 \<le> (of_char (s ! i) :: nat) \<and> (of_char (s ! i) :: nat) < 192))"

definition slice_to :: "string \<Rightarrow> nat \<Rightarrow> string option" where
  "slice_to s n = (if is_char_boundary s n then Some (take n s) else None)"

section \<open>Tokens\<close>

definition generate_auth_token :: "crypto_lib \<Rightarrow> bytes \<Rightarrow> i64 \<Rightarrow> string" where
  "generate_auth_token cl buffer now_secs = sha256_as_string cl (cl_hex cl buffer @ '':'' @ show_int now_secs)"

definition generate_state_token :: "crypto_lib \<Rightarrow> bytes \<Rightarrow> string" where
  "generate_state_token cl buffer = cl_hex cl buffer"

definition generate_session_token :: "u64 \<Rightarrow> u64 \<Rightarrow> string" where
  "generate_session_token now_secs random_part = ''token_'' @ show_u64 now_secs @ ''_'' @ show_u64 random_part"

definition extract_account_hash :: "string \<Rightarrow> string" where
  "extract_account_hash device_hash = hd (split_char (CHR ''_'') device_hash)"

section \<open>OAuth service\<close>

record verification_result =
  vr_valid :: bool
  vr_account_hash :: string
  vr_expiry :: "datetime option"

record oauth_user_info =
  ou_id :: string
  ou_user_id :: string
  ou_name :: string

record user_info =
  ui_id :: "i32 option"
  ui_email :: "string option"
  ui_first_name :: "string option"
  ui_last_name :: "string option"

text \<open>
  The external server: for a bearer token, a transport error or the status code, its printed
  form and the body (an error when it cannot be read); \<open>parse_settings\<close> is the JSON parser.
\<close>

record auth_server =
  as_get :: "string \<Rightarrow> (string, nat \<times> string \<times> (string, string) result) result"
  as_parse_settings :: "string \<Rightarrow> (string, user_info option) result"

definition get_user_info_from_external_server :: "auth_server \<Rightarrow> string \<Rightarrow> oauth_user_info ares" where
  "get_user_info_from_external_server srv token =
     (case as_get srv token of
        Inl e \<Rightarrow> Err (AE_ExternalServiceError (''Failed to connect to auth server: '' @ e))
      | Inr (code, status_text, body) \<Rightarrow>
          (if 400 \<le> code \<and> code < 500 then Err (AE_AuthenticationError (''Authentication failed: '' @ status_text))
           else if \<not> (200 \<le> code \<and> code < 300)
             then Err (AE_ExternalServiceError (''Auth server returned error: '' @ status_text))
           else case body of
             Inl e \<Rightarrow> Err (AE_ExternalServiceError (''Failed to read response: '' @ e))
           | Inr response_text \<Rightarrow>
               (case as_parse_settings srv response_text of
                  Inr None \<Rightarrow> Err (AE_UserNotFound ''User not found or not available'')
                | Inr (Some user) \<Rightarrow>
                    (case ui_email user of
                       None \<Rightarrow> Err (AE_MissingUserData ''Email is required but not provided'')
                     | Some user_id \<Rightarrow>
                         (let nm = (case (ui_first_name user, ui_last_name user) of
                                      (Some first_name, Some last_name) \<Rightarrow> first_name @ '' '' @ last_name
                                    | (Some first_name, None) \<Rightarrow> first_name
                                    | (None, Some last_name) \<Rightarrow> last_name
                                    | _ \<Rightarrow> user_id);
                              i = (case ui_id user of Some n \<Rightarrow> show_int n | None \<Rightarrow> user_id)
                          in Ok \<lparr>ou_id = i, ou_user_id = user_id, ou_name = nm\<rparr>))
                | Inl e \<Rightarrow> Err (AE_InvalidResponseFormat (''Failed to parse user info: '' @ e)))))"

text \<open>
  The logged prefix of the token is computed for a debug message when debug logging is on, and
  for an error message when the token is unknown.
\<close>

definition token_prefix :: "string \<Rightarrow> string option" where
  "token_prefix token = slice_to token (min 10 (length token))"

definition oauth_validate_token ::
  "bool \<Rightarrow> bool \<Rightarrow> datetime \<Rightarrow> string \<Rightarrow> storage_data \<Rightarrow> string ares option" where
  "oauth_validate_token debug_log debug_assertions now token s =
     (if token = [] then Some (Err (AE_InvalidToken ''Token is empty''))
      else if debug_log \<and> token_prefix token = None then None
      else if debug_assertions \<and> token = ''test_token'' then Some (Ok ''test_account_hash'')
      else case ms_get_auth_token token s of
        Inr (Some token_obj) \<Rightarrow>
          (if t_expires_at token_obj < now then Some (Err (AE_InvalidToken ''Token has expired''))
           else if \<not> t_is_valid token_obj then Some (Err (AE_InvalidToken ''Token is deactivated''))
           else Some (Ok (t_account_hash token_obj)))
      | Inr None \<Rightarrow>
          (if token_prefix token = None then None else Some (Err (AE_InvalidToken ''Token not found'')))
      | Inl e \<Rightarrow> Some (Err (AE_DatabaseError (storage_error_display e))))"

record auth_env =
  av_debug_log :: bool
  av_debug_assertions :: bool
  av_server :: auth_server
  av_uuid :: string

definition account_of_user :: "datetime \<Rightarrow> string \<Rightarrow> string \<Rightarrow> oauth_user_info \<Rightarrow> account" where
  "account_of_user now uuid account_hash user =
     \<lparr>a_account_hash = account_hash, a_id = uuid,
      a_email = (if str_contains_char (ou_user_id user) (CHR ''@'') then ou_user_id user
                 else ou_user_id user @ ''@example.com''),
      a_name = ou_name user, a_user_type = ''oauth'', a_password_hash = '''', a_salt = '''', a_is_active = True,
      a_created_at = now, a_last_login = now, a_updated_at = now, a_user_id = ou_user_id user\<rparr>"

definition verify_token ::
  "auth_env \<Rightarrow> datetime \<Rightarrow> string \<Rightarrow> storage_data \<Rightarrow> (verification_result ares \<times> storage_data) option" where
  "verify_token env now token s =
     (case oauth_validate_token (av_debug_log env) (av_debug_assertions env) now token s of
        None \<Rightarrow> None
      | Some (Inr account_hash) \<Rightarrow>
          (let s' = (case ms_get_account_by_hash account_hash s of
                       Inr (Some _) \<Rightarrow> s
                     | Inr None \<Rightarrow>
                         (case get_user_info_from_external_server (av_server env) token of
                            Inr user \<Rightarrow> snd (ms_create_account (account_of_user now (av_uuid env) account_hash user) s)
                          | Inl _ \<Rightarrow> s)
                     | Inl _ \<Rightarrow> s)
           in Some (Ok \<lparr>vr_valid = True, vr_account_hash = account_hash, vr_expiry = None\<rparr>, s'))
      | Some (Inl _) \<Rightarrow> Some (Ok \<lparr>vr_valid = False, vr_account_hash = '''', vr_expiry = None\<rparr>, s))"

section \<open>AuthService\<close>

definition auth_hash_password :: "crypto_lib \<Rightarrow> string \<Rightarrow> string \<Rightarrow> string" where
  "auth_hash_password cl password salt = sha256_as_string cl (password @ salt)"

definition auth_verify_password :: "crypto_lib \<Rightarrow> string \<Rightarrow> string \<Rightarrow> string \<Rightarrow> bool" where
  "auth_verify_password cl password hash salt \<longleftrightarrow> auth_hash_password cl password salt = hash"

text \<open>\<^verbatim>\<open>Duration::days(30)\<close> in nanoseconds.\<close>

definition days :: "i64 \<Rightarrow> int" where
  "days d = d * 86400000000000"

definition auth_create_auth_token :: "datetime \<Rightarrow> string \<Rightarrow> string \<Rightarrow> string \<Rightarrow> auth_token" where
  "auth_create_auth_token now token_uuid id_uuid account_hash =
     \<lparr>t_token_id = id_uuid, t_account_hash = account_hash, t_access_token = token_uuid, t_refresh_token = None,
      t_created_at = now, t_expires_at = now + days 30, t_is_valid = True, t_token_type = ''Bearer'', t_scope = None\<rparr>"

definition auth_validate_token :: "string \<Rightarrow> string \<Rightarrow> storage_data \<Rightarrow> bool" where
  "auth_validate_token token account_hash s =
     (case ms_validate_auth_token token account_hash s of Inr valid \<Rightarrow> valid | Inl _ \<Rightarrow> False)"

definition auth_save_token :: "auth_token \<Rightarrow> storage_data \<Rightarrow> unit sres \<times> storage_data" where
  "auth_save_token t s = ms_create_auth_token t s"

definition auth_delete_token :: "string \<Rightarrow> storage_data \<Rightarrow> unit sres \<times> storage_data" where
  "auth_delete_token token s = ms_delete_auth_token token s"

definition auth_authenticate ::
  "crypto_lib \<Rightarrow> (string \<Rightarrow> string) \<Rightarrow> string \<Rightarrow> string \<Rightarrow> string \<Rightarrow> storage_data \<Rightarrow> (account \<times> string) sres" where
  "auth_authenticate cl ul token_uuid email password s =
     (case ms_get_account_by_email ul email s of
        Inr None \<Rightarrow> Err (SE_NotFound (''Account not found for email: '' @ email))
      | Inl e \<Rightarrow> Err e
      | Inr (Some account) \<Rightarrow>
          (if \<not> auth_verify_password cl password (a_password_hash account) (a_salt account)
           then Err (SE_PermissionDenied ''Invalid credentials'')
           else Ok (account, token_uuid)))"

section \<open>Device check\<close>

definition is_dev_or_test_mode :: "(string \<Rightarrow> string option) \<Rightarrow> bool" where
  "is_dev_or_test_mode env =
     (let is_on = (\<lambda>v. (case env v of Some x \<Rightarrow> x | None \<Rightarrow> '''') = ''1'')
      in is_on ''COSMIC_SYNC_DEV_MODE'' \<or> is_on ''COSMIC_SYNC_TEST_MODE'')"

definition validate_device_if_required ::
  "(string \<Rightarrow> string option) \<Rightarrow> string \<Rightarrow> string \<Rightarrow> storage_data \<Rightarrow> (status, unit) result" where
  "validate_device_if_required env account_hash device_hash s =
     (if is_dev_or_test_mode env then Ok ()
      else case ms_validate_device account_hash device_hash s of
        Inr valid \<Rightarrow> if \<not> valid then Err (mk_status C_Unauthenticated ''Invalid device or account'') else Ok ()
      | Inl _ \<Rightarrow> Err (mk_status C_Internal ''Error validating device''))"

section \<open>Properties\<close>

definition token_live :: "datetime \<Rightarrow> string \<Rightarrow> storage_data \<Rightarrow> string \<Rightarrow> bool" where
  "token_live now token s account_hash \<longleftrightarrow>
     (case ms_get_auth_token token s of
        Inr (Some t) \<Rightarrow> now \<le> t_expires_at t \<and> t_is_valid t \<and> t_account_hash t = account_hash
      | _ \<Rightarrow> False)"

lemma token_prefix_ascii:
  assumes "list_all is_ascii token"
  shows "token_prefix token = Some (take 10 token)"
proof -
  let ?n = "min 10 (length token)"
  have "?n = length token \<or> (?n < length token \<and> is_ascii (token ! ?n))"
    using assms by (auto simp: list_all_length min_def)
  then have "is_char_boundary token ?n"
    unfolding is_char_boundary_def is_ascii_def by auto
  then show ?thesis by (simp add: token_prefix_def slice_to_def min_def)
qed

lemma validate_token_ascii:
  assumes "list_all is_ascii token"
  shows "\<exists>r. oauth_validate_token dl False now token s = Some r \<and>
    (r = Ok a \<longleftrightarrow> token \<noteq> [] \<and> token_live now token s a)"
  by (auto simp: oauth_validate_token_def token_prefix_ascii [OF assms] token_live_def ms_get_auth_token_def
      not_less split: option.split)

lemma verify_token_char:
  assumes "list_all is_ascii token" "\<not> av_debug_assertions env"
  shows "\<exists>v s'. verify_token env now token s = Some (Ok v, s') \<and>
    (\<forall>acct. vr_valid v \<and> vr_account_hash v = acct \<longleftrightarrow> token \<noteq> [] \<and> token_live now token s acct) \<and>
    (\<not> vr_valid v \<longrightarrow> vr_account_hash v = '''' \<and> s' = s) \<and>
    (\<forall>a acc. ms_get_account_by_hash a s = Ok (Some acc) \<longrightarrow> ms_get_account_by_hash a s' = Ok (Some acc)) \<and>
    (\<forall>a. a \<noteq> vr_account_hash v \<longrightarrow> ms_get_account_by_hash a s' = ms_get_account_by_hash a s) \<and>
    s'\<lparr>sd_accounts := sd_accounts s\<rparr> = s"
proof -
  obtain r where r: "oauth_validate_token (av_debug_log env) False now token s = Some r"
    using validate_token_ascii [OF assms(1)] by blast
  have iff: "r = Ok a \<longleftrightarrow> token \<noteq> [] \<and> token_live now token s a" for a
    using validate_token_ascii [OF assms(1), of "av_debug_log env" now s a] r by auto
  show ?thesis
  proof (cases r)
    case (Inl e)
    have none: "\<not> (token \<noteq> [] \<and> token_live now token s a)" for a using iff [of a] Inl by simp
    show ?thesis using assms(2) r none by (simp add: verify_token_def Inl)
  next
    case (Inr a)
    then have live: "\<forall>acct. a = acct \<longleftrightarrow> token \<noteq> [] \<and> token_live now token s acct"
      using iff by (metis sum.inject(2))
    have "\<exists>s'. verify_token env now token s =
        Some (Ok \<lparr>vr_valid = True, vr_account_hash = a, vr_expiry = None\<rparr>, s') \<and>
      (\<forall>b acc. ms_get_account_by_hash b s = Ok (Some acc) \<longrightarrow> ms_get_account_by_hash b s' = Ok (Some acc)) \<and>
      (\<forall>b. b \<noteq> a \<longrightarrow> ms_get_account_by_hash b s' = ms_get_account_by_hash b s) \<and>
      s'\<lparr>sd_accounts := sd_accounts s\<rparr> = s"
      using assms(2) r
      by (auto simp: verify_token_def Inr Let_def ms_get_account_by_hash_def ms_create_account_def
          account_of_user_def hm_get_insert split: option.split sum.split)
    then obtain s' where s': "verify_token env now token s =
        Some (Ok \<lparr>vr_valid = True, vr_account_hash = a, vr_expiry = None\<rparr>, s')"
      and frame: "\<forall>b acc. ms_get_account_by_hash b s = Ok (Some acc) \<longrightarrow> ms_get_account_by_hash b s' = Ok (Some acc)"
        "\<forall>b. b \<noteq> a \<longrightarrow> ms_get_account_by_hash b s' = ms_get_account_by_hash b s" "s'\<lparr>sd_accounts := sd_accounts s\<rparr> = s"
      by blast
    show ?thesis by (intro exI conjI, rule s') (simp_all add: live frame)
  qed
qed

text \<open>
  C14: in a release build, verifying a token of ASCII characters always gives an answer; it
  says valid, for exactly the token's own account, when the token is stored, not expired and
  not deactivated, and otherwise invalid with an empty account.  Verification changes the
  storage at most by adding the account of a valid token when it is missing.
\<close>
theorem verify_token_spec:
  assumes "list_all is_ascii token" "\<not> av_debug_assertions env"
  shows "\<exists>v s'. verify_token env now token s = Some (Ok v, s') \<and>
    (\<forall>acct. vr_valid v \<and> vr_account_hash v = acct \<longleftrightarrow> token \<noteq> [] \<and> token_live now token s acct) \<and>
    (\<not> vr_valid v \<longrightarrow> vr_account_hash v = '''' \<and> s' = s) \<and>
    (\<forall>a acc. ms_get_account_by_hash a s = Ok (Some acc) \<longrightarrow> ms_get_account_by_hash a s' = Ok (Some acc)) \<and>
    (\<forall>a. a \<noteq> vr_account_hash v \<longrightarrow> ms_get_account_by_hash a s' = ms_get_account_by_hash a s) \<and>
    s'\<lparr>sd_accounts := sd_accounts s\<rparr> = s"
  using assms by (rule verify_token_char)

definition sample_server :: auth_server where
  "sample_server = \<lparr>as_get = (\<lambda>_. Err ''down''), as_parse_settings = (\<lambda>_. Err ''bad'')\<rparr>"

definition sample_env :: auth_env where
  "sample_env = \<lparr>av_debug_log = False, av_debug_assertions = False, av_server = sample_server, av_uuid = ''u''\<rparr>"

theorem verify_token_spec_witness:
  "\<exists>v s'. verify_token sample_env 5 ''tok'' (snd (auth_save_token (auth_create_auth_token 0 ''tok'' ''i'' ''acct'') ms_new)) =
     Some (Ok v, s') \<and> vr_valid v"
proof -
  let ?s = "snd (auth_save_token (auth_create_auth_token 0 ''tok'' ''i'' ''acct'') ms_new)"
  have live: "token_live 5 ''tok'' ?s a \<longleftrightarrow> a = ''acct''" for a
    by (auto simp: token_live_def auth_save_token_def auth_create_auth_token_def ms_create_auth_token_def
        ms_get_auth_token_def ms_new_def hm_get_insert days_def)
  obtain v s' where v: "verify_token sample_env 5 ''tok'' ?s = Some (Ok v, s')"
    "\<forall>acct. vr_valid v \<and> vr_account_hash v = acct \<longleftrightarrow> ''tok'' \<noteq> [] \<and> token_live 5 ''tok'' ?s acct"
    using verify_token_spec [of "''tok''" sample_env 5 ?s] by (auto simp: is_ascii_def sample_env_def)
  with v live show ?thesis by auto
qed

text \<open>
  Verifying an unknown token whose tenth and eleventh bytes belong to one multi-byte
  character panics while the error message is built; with \<^verbatim>\<open>panic = "abort"\<close> a request with
  such a token stops the server.
\<close>
theorem verify_token_panics:
  assumes "ms_get_auth_token token s = Ok None" "10 < length token" "\<not> is_char_boundary token 10"
  shows "verify_token env now token s = None"
proof -
  have "token_prefix token = None" using assms by (simp add: token_prefix_def slice_to_def min_def)
  moreover have "token \<noteq> ''test_token''" using assms(2) by auto
  moreover have "token \<noteq> []" using assms(2) by auto
  ultimately show ?thesis using assms(1) by (simp add: verify_token_def oauth_validate_token_def)
qed

theorem verify_token_panics_witness:
  "verify_token sample_env 0 (''aaaaaaaaa'' @ [CHR 0xE2, CHR 0x82, CHR 0xAC]) ms_new = None"
  by (rule verify_token_panics) (simp_all add: ms_get_auth_token_def ms_new_def is_char_boundary_def)

end
