(* ===== verification/Connections.thy ===== *)
theory Connections
  imports Memory_Correct
begin

text \<open>
  The connection bookkeeping: \<^verbatim>\<open>ConnectionTracker\<close> and its cleanup scheduler
  (\<^verbatim>\<open>src/server/connection_tracker.rs\<close>, \<^verbatim>\<open>connection_cleanup.rs\<close>), \<^verbatim>\<open>ClientStore\<close>
  (\<^verbatim>\<open>src/server/app_state.rs\<close>) and the TTL cache (\<^verbatim>\<open>src/storage/cache.rs\<close>).  Each
  operation holds one lock, so it is one step; \<open>now\<close> is what \<^verbatim>\<open>Utc::now()\<close> returns in it.
\<close>

section \<open>Connection tracker\<close>

record connection_state =
  cs_device_hash :: string
  cs_account_hash :: string
  cs_connected_at :: datetime
  cs_last_activity :: datetime
  cs_disconnected_at :: "datetime option"
  cs_connection_count :: u64
  cs_is_active :: bool
  cs_last_sync_time :: "datetime option"

type_synonym connections = "(string, connection_state) hashmap"

definition connection_state_new :: "datetime \<Rightarrow> string \<Rightarrow> string \<Rightarrow> connection_state" where
  "connection_state_new now device_hash account_hash =
     \<lparr>cs_device_hash = device_hash, cs_account_hash = account_hash, cs_connected_at = now,
      cs_last_activity = now, cs_disconnected_at = None, cs_connection_count = 1,
      cs_is_active = True, cs_last_sync_time = None\<rparr>"

definition cs_update_activity :: "datetime \<Rightarrow> connection_state \<Rightarrow> connection_state" where
  "cs_update_activity now c = c\<lparr>cs_last_activity := now\<rparr>"

definition cs_mark_disconnected :: "datetime \<Rightarrow> connection_state \<Rightarrow> connection_state" where
  "cs_mark_disconnected now c = c\<lparr>cs_disconnected_at := Some now, cs_is_active := False\<rparr>"

definition cs_mark_reconnected :: "datetime \<Rightarrow> connection_state \<Rightarrow> connection_state" where
  "cs_mark_reconnected now c =
     c\<lparr>cs_connected_at := now, cs_last_activity := now, cs_disconnected_at := None,
       cs_connection_count := cs_connection_count c + 1, cs_is_active := True\<rparr>"

definition cs_update_sync_time :: "datetime \<Rightarrow> connection_state \<Rightarrow> connection_state" where
  "cs_update_sync_time now c = c\<lparr>cs_last_sync_time := Some now\<rparr>"

definition ct_register_connection :: "datetime \<Rightarrow> string \<Rightarrow> string \<Rightarrow> connections \<Rightarrow> string \<times> connections" where
  "ct_register_connection now device_hash account_hash m =
     (let connection_key = device_key account_hash device_hash in
      case hm_get m connection_key of
        Some existing \<Rightarrow> (connection_key, hm_insert connection_key (cs_mark_reconnected now existing) m)
      | None \<Rightarrow> (connection_key, hm_insert connection_key (connection_state_new now device_hash account_hash) m))"

definition ct_update_activity :: "datetime \<Rightarrow> string \<Rightarrow> connections \<Rightarrow> connections" where
  "ct_update_activity now connection_key m = hm_modify connection_key (cs_update_activity now) m"

definition ct_mark_disconnected :: "datetime \<Rightarrow> string \<Rightarrow> connections \<Rightarrow> connections" where
  "ct_mark_disconnected now connection_key m = hm_modify connection_key (cs_mark_disconnected now) m"

definition ct_update_sync_time :: "datetime \<Rightarrow> string \<Rightarrow> connections \<Rightarrow> connections" where
  "ct_update_sync_time now connection_key m = hm_modify connection_key (cs_update_sync_time now) m"

definition ct_get_connection_state :: "string \<Rightarrow> connections \<Rightarrow> connection_state option" where
  "ct_get_connection_state connection_key m = hm_get m connection_key"

definition ct_get_last_disconnect_time :: "string \<Rightarrow> string \<Rightarrow> connections \<Rightarrow> datetime option" where
  "ct_get_last_disconnect_time device_hash account_hash m =
     (case hm_get m (device_key account_hash device_hash) of
        Some c \<Rightarrow> cs_disconnected_at c | None \<Rightarrow> None)"

definition ct_get_active_connections :: "string \<Rightarrow> connections \<Rightarrow> connection_state list" where
  "ct_get_active_connections account_hash m =
     filter (\<lambda>c. cs_account_hash c = account_hash \<and> cs_is_active c) (hm_values m)"

record connection_stats =
  total_connections :: nat
  active_connections :: nat
  inactive_connections :: nat

definition ct_get_stats :: "connections \<Rightarrow> connection_stats" where
  "ct_get_stats m =
     (let total = length m; active = length (filter cs_is_active (hm_values m))
      in \<lparr>total_connections = total, active_connections = active, inactive_connections = total - active\<rparr>)"

text \<open>\<^verbatim>\<open>chrono::Duration::hours\<close>, in nanoseconds.\<close>

definition hours :: "i64 \<Rightarrow> int" where
  "hours h = h * 3600000000000"

definition ct_keep :: "datetime \<Rightarrow> connection_state \<Rightarrow> bool" where
  "ct_keep cutoff c = (case cs_disconnected_at c of Some disconnected_at \<Rightarrow> disconnected_at > cutoff | None \<Rightarrow> True)"

definition ct_cleanup_old_connections :: "datetime \<Rightarrow> i64 \<Rightarrow> connections \<Rightarrow> connections" where
  "ct_cleanup_old_connections now max_age_hours m =
     (let cutoff = now - hours max_age_hours in hm_retain (\<lambda>_ c. ct_keep cutoff c) m)"

definition ct_get_total_active_connections :: "connections \<Rightarrow> nat" where
  "ct_get_total_active_connections m = length (filter cs_is_active (hm_values m))"

text \<open>One tick of the scheduler; its statistics before and after only choose a log message.\<close>

record cleanup_scheduler =
  cl_cleanup_interval_hours :: nat
  cl_max_age_hours :: i64

definition create_default_cleanup_scheduler :: cleanup_scheduler where
  "create_default_cleanup_scheduler = \<lparr>cl_cleanup_interval_hours = 6, cl_max_age_hours = 24\<rparr>"

definition cleanup_tick :: "cleanup_scheduler \<Rightarrow> datetime \<Rightarrow> connections \<Rightarrow> connections" where
  "cleanup_tick sch now m = ct_cleanup_old_connections now (cl_max_age_hours sch) m"

section \<open>Client store\<close>

record client_connection =
  cc_client_id :: string
  cc_connected :: bool
  cc_connected_at :: "datetime option"
  cc_last_seen :: datetime
  cc_account_hash :: "string option"
  cc_device_hash :: "string option"

type_synonym client_store = "(string, client_connection) hashmap"

definition set_client_connected :: "datetime \<Rightarrow> string \<Rightarrow> bool \<Rightarrow> client_store \<Rightarrow> client_store" where
  "set_client_connected now client_id connected m =
     (case hm_get m client_id of
        Some conn \<Rightarrow>
          (let c1 = conn\<lparr>cc_connected := connected, cc_last_seen := now\<rparr>;
               c2 = (if connected then c1\<lparr>cc_connected_at := Some now\<rparr> else c1)
           in hm_insert client_id c2 m)
      | None \<Rightarrow> hm_insert client_id
          \<lparr>cc_client_id = client_id, cc_connected = connected,
           cc_connected_at = (if connected then Some now else None), cc_last_seen = now,
           cc_account_hash = None, cc_device_hash = None\<rparr> m)"

definition update_client_auth ::
  "datetime \<Rightarrow> string \<Rightarrow> string option \<Rightarrow> string option \<Rightarrow> client_store \<Rightarrow> client_store" where
  "update_client_auth now client_id account_hash device_hash m =
     hm_modify client_id (\<lambda>conn. conn\<lparr>cc_account_hash := account_hash, cc_device_hash := device_hash,
       cc_last_seen := now\<rparr>) m"

definition is_client_connected :: "string \<Rightarrow> client_store \<Rightarrow> bool" where
  "is_client_connected client_id m = (case hm_get m client_id of Some conn \<Rightarrow> cc_connected conn | None \<Rightarrow> False)"

definition get_client_connection :: "string \<Rightarrow> client_store \<Rightarrow> client_connection option" where
  "get_client_connection client_id m = hm_get m client_id"

definition get_connected_clients :: "client_store \<Rightarrow> client_connection list" where
  "get_connected_clients m = filter cc_connected (hm_values m)"

definition get_connected_clients_by_account :: "string \<Rightarrow> client_store \<Rightarrow> client_connection list" where
  "get_connected_clients_by_account account_hash m =
     filter (\<lambda>c. cc_connected c \<and> (case cc_account_hash c of Some h \<Rightarrow> h = account_hash | None \<Rightarrow> False)) (hm_values m)"

definition cleanup_disconnected_clients :: "datetime \<Rightarrow> i64 \<Rightarrow> client_store \<Rightarrow> client_store" where
  "cleanup_disconnected_clients now retention_hours m =
     (let cutoff_time = now - hours retention_hours;
          to_remove = map fst (filter (\<lambda>(_, c). \<not> cc_connected c \<and> cc_last_seen c < cutoff_time) m)
      in hm_remove_all to_remove m)"

definition get_connection_stats :: "client_store \<Rightarrow> (string, nat) hashmap" where
  "get_connection_stats m =
     (let (total, connected) = fold (\<lambda>(_, c) (t, n). (t + 1, if cc_connected c then n + 1 else n)) m (0, 0)
      in hm_insert ''disconnected'' (total - connected)
           (hm_insert ''connected'' connected (hm_insert ''total'' total [])))"

section \<open>Cache with expiry\<close>

record 'v cache_entry =
  ce_data :: 'v
  ce_created_at :: datetime
  ce_expires_at :: "datetime option"

record 'v memory_cache =
  mc_storage :: "(string, 'v cache_entry) hashmap"
  mc_default_ttl :: "int option"

definition cache_entry_new :: "datetime \<Rightarrow> 'v \<Rightarrow> int option \<Rightarrow> 'v cache_entry" where
  "cache_entry_new now v ttl =
     \<lparr>ce_data = v, ce_created_at = now, ce_expires_at = map_option (\<lambda>d. now + d) ttl\<rparr>"

definition is_expired :: "datetime \<Rightarrow> 'v cache_entry \<Rightarrow> bool" where
  "is_expired now e = (case ce_expires_at e of Some expires_at \<Rightarrow> now > expires_at | None \<Rightarrow> False)"

definition cache_new :: "int option \<Rightarrow> 'v memory_cache" where
  "cache_new default_ttl = \<lparr>mc_storage = [], mc_default_ttl = default_ttl\<rparr>"

definition cache_get :: "datetime \<Rightarrow> string \<Rightarrow> 'v memory_cache \<Rightarrow> 'v option \<times> 'v memory_cache" where
  "cache_get now key c =
     (case hm_get (mc_storage c) key of
        Some entry \<Rightarrow>
          (if is_expired now entry then (None, c\<lparr>mc_storage := hm_remove key (mc_storage c)\<rparr>)
           else (Some (ce_data entry), c))
      | None \<Rightarrow> (None, c))"

definition cache_set :: "datetime \<Rightarrow> string \<Rightarrow> 'v \<Rightarrow> int option \<Rightarrow> 'v memory_cache \<Rightarrow> 'v memory_cache" where
  "cache_set now key v ttl c =
     (let entry = cache_entry_new now v (case ttl of Some t \<Rightarrow> Some t | None \<Rightarrow> mc_default_ttl c)
      in c\<lparr>mc_storage := hm_insert key entry (mc_storage c)\<rparr>)"

definition cache_remove :: "string \<Rightarrow> 'v memory_cache \<Rightarrow> bool \<times> 'v memory_cache" where
  "cache_remove key c = (hm_contains (mc_storage c) key, c\<lparr>mc_storage := hm_remove key (mc_storage c)\<rparr>)"

definition cache_cleanup_expired :: "datetime \<Rightarrow> 'v memory_cache \<Rightarrow> 'v memory_cache" where
  "cache_cleanup_expired now c =
     c\<lparr>mc_storage := hm_retain (\<lambda>_ e. case ce_expires_at e of Some expires_at \<Rightarrow> now \<le> expires_at | None \<Rightarrow> True)
        (mc_storage c)\<rparr>"

definition cache_size :: "'v memory_cache \<Rightarrow> nat" where
  "cache_size c = length (mc_storage c)"

definition cache_clear :: "'v memory_cache \<Rightarrow> 'v memory_cache" where
  "cache_clear c = c\<lparr>mc_storage := []\<rparr>"

section \<open>The tracker over time\<close>

text \<open>
  A state is the connection table and the time of the last operation; every operation
  happens at that time or later.  The table may also change its iteration order.
\<close>

inductive ct_step :: "connections \<times> datetime \<Rightarrow> connections \<times> datetime \<Rightarrow> bool" where
  "clk \<le> now \<Longrightarrow> ct_step (m, clk) (snd (ct_register_connection now dh ah m), now)"
| "clk \<le> now \<Longrightarrow> ct_step (m, clk) (ct_update_activity now k m, now)"
| "clk \<le> now \<Longrightarrow> ct_step (m, clk) (ct_mark_disconnected now k m, now)"
| "clk \<le> now \<Longrightarrow> ct_step (m, clk) (ct_update_sync_time now k m, now)"
| "clk \<le> now \<Longrightarrow> ct_step (m, clk) (ct_cleanup_old_connections now h m, now)"
| "mset m = mset m' \<Longrightarrow> ct_step (m, clk) (m', clk)"

definition conn_ok :: "datetime \<Rightarrow> connection_state \<Rightarrow> string \<Rightarrow> bool" where
  "conn_ok clk c k \<longleftrightarrow>
     device_key (cs_account_hash c) (cs_device_hash c) = k \<and>
     (cs_is_active c \<longleftrightarrow> cs_disconnected_at c = None) \<and>
     cs_connected_at c \<le> cs_last_activity c \<and> cs_last_activity c \<le> clk \<and>
     (case cs_disconnected_at c of None \<Rightarrow> True | Some t \<Rightarrow> cs_connected_at c \<le> t \<and> t \<le> clk)"

definition ct_inv :: "connections \<times> datetime \<Rightarrow> bool" where
  "ct_inv s = keyed_by (conn_ok (snd s)) (fst s)"

lemma keyed_by_mono: "keyed_by P m \<Longrightarrow> (\<And>v k. P v k \<Longrightarrow> Q v k) \<Longrightarrow> keyed_by Q m"
  by (auto simp: keyed_by_def)

lemma keyed_by_retain: "keyed_by P m \<Longrightarrow> keyed_by P (hm_retain Q m)"
  by (auto simp: keyed_by_def hm_get_retain split: option.splits if_splits)

lemma filter_values_retain:
  "\<forall>(k, v) \<in> set m. Q v \<longrightarrow> P v \<Longrightarrow>
   filter Q (hm_values (hm_retain (\<lambda>_ v. P v) m)) = filter Q (hm_values m)"
  by (induction m) (auto simp: hm_retain_def hm_values_def)

lemma conn_ok_mono: "conn_ok clk c k \<Longrightarrow> clk \<le> now \<Longrightarrow> conn_ok now c k"
  by (auto simp: conn_ok_def split: option.splits)

lemma ct_inv_step:
  assumes "ct_inv s" "ct_step s t"
  shows "ct_inv t"
proof -
  have later: "keyed_by (conn_ok now) m" if "keyed_by (conn_ok clk) m" "clk \<le> now" for m clk now
    using that by (auto intro: keyed_by_mono conn_ok_mono)
  from assms(2) show ?thesis
  proof cases
    case (1 clk now m dh ah)
    then have "keyed_by (conn_ok now) m" using assms(1) later by (simp add: ct_inv_def)
    then show ?thesis unfolding 1
      by (auto simp: ct_inv_def ct_register_connection_def Let_def connection_state_new_def cs_mark_reconnected_def
          conn_ok_def keyed_by_def hm_get_insert split: option.split)
  next
    case (6 m m' clk)
    then show ?thesis using assms(1) by (auto simp: ct_inv_def intro: keyed_by_perm)
  qed (use assms(1) later in \<open>auto simp: ct_inv_def ct_update_activity_def ct_mark_disconnected_def
      ct_update_sync_time_def ct_cleanup_old_connections_def cs_update_activity_def cs_mark_disconnected_def
      cs_update_sync_time_def Let_def conn_ok_def intro!: keyed_by_modify keyed_by_retain\<close>)
qed

interpretation tracker: invariant_system "([], clk0)" ct_step ct_inv
proof
  show "ct_inv ([], clk0)" by (simp add: ct_inv_def)
qed (rule ct_inv_step)

lemma one_connection_reach:
  "reach ([], 5) ct_step ([(''a:d'', connection_state_new 7 ''d'' ''a'')], 7)"
proof -
  have "ct_step ([], 5) (snd (ct_register_connection 7 ''d'' ''a'' []), 7)" by (rule ct_step.intros) simp
  then show ?thesis
    by (auto simp: ct_register_connection_def device_key_def hm_insert_def Let_def
        intro: reach.reach_step [OF reach.reach_init])
qed

text \<open>
  Whatever the clients do, every tracked connection is filed under its own account and
  device, is active exactly when it has no disconnection time, and its times are ordered:
  connected, then last active or disconnected, never in the future.
\<close>
theorem connection_tracker_inv:
  assumes "reach ([], clk0) ct_step (m, clk)" "ct_get_connection_state k m = Some c"
  shows "conn_ok clk c k"
  using tracker.reach_inv [OF assms(1)] assms(2) by (simp add: ct_inv_def keyed_by_def ct_get_connection_state_def)

theorem connection_tracker_inv_witness:
  "conn_ok 7 (connection_state_new 7 ''d'' ''a'') ''a:d''"
  by (rule connection_tracker_inv [OF one_connection_reach]) (simp add: ct_get_connection_state_def hm_get_def)

text \<open>
  In every reachable state the cleanup leaves each account's active connections as they
  are and drops exactly the connections that were disconnected at or before the cutoff.
\<close>
theorem cleanup_old_connections_exact:
  assumes "reach ([], clk0) ct_step (m, clk)"
  shows "ct_get_active_connections acct (ct_cleanup_old_connections now h m) = ct_get_active_connections acct m \<and>
    ct_get_connection_state k (ct_cleanup_old_connections now h m) =
      (case ct_get_connection_state k m of
         None \<Rightarrow> None
       | Some c \<Rightarrow> (case cs_disconnected_at c of
                      Some t \<Rightarrow> if t \<le> now - hours h then None else Some c
                    | None \<Rightarrow> Some c))"
proof -
  have inv: "keyed_by (conn_ok clk) m" using tracker.reach_inv [OF assms] by (simp add: ct_inv_def)
  then have wf: "hm_wf m" and ok: "\<And>c k. (k, c) \<in> set m \<Longrightarrow> conn_ok clk c k"
    by (auto simp: keyed_by_def hm_entry_iff)
  have "ct_get_active_connections acct (hm_retain (\<lambda>_ c. ct_keep cut c) m) = ct_get_active_connections acct m" for cut
    unfolding ct_get_active_connections_def
    using ok by (intro filter_values_retain) (auto simp: conn_ok_def ct_keep_def)
  then show ?thesis using wf
    by (simp add: ct_cleanup_old_connections_def Let_def
        ct_get_connection_state_def hm_get_retain ct_keep_def split: option.split)
qed

theorem cleanup_old_connections_exact_witness:
  "ct_get_connection_state ''a:d''
     (ct_cleanup_old_connections 9000000000000000 24 [(''a:d'', connection_state_new 7 ''d'' ''a'')]) =
   Some (connection_state_new 7 ''d'' ''a'')"
  using cleanup_old_connections_exact [OF one_connection_reach, of "''a''" 9000000000000000 24 "''a:d''"]
  by (simp add: ct_get_connection_state_def hm_get_def connection_state_new_def)

section \<open>The cache over time\<close>

text \<open>
  Removing expired entries in the background can never be observed: at any later time a
  lookup gives the same answer with and without the cleanup, and what is looked up after
  storing a value is that value until its expiry and nothing afterwards.
\<close>
theorem cache_expiry:
  assumes "hm_wf (mc_storage c)" "now \<le> t"
  shows "fst (cache_get t k (cache_cleanup_expired now c)) = fst (cache_get t k c) \<and>
    fst (cache_get t k (cache_set now k' v ttl c)) =
      (if k \<noteq> k' then fst (cache_get t k c)
       else case (if ttl = None then mc_default_ttl c else ttl) of
              None \<Rightarrow> Some v | Some d \<Rightarrow> if t > now + d then None else Some v)"
  using assms
  by (auto simp: cache_get_def cache_cleanup_expired_def hm_get_retain is_expired_def cache_set_def
      cache_entry_new_def Let_def hm_get_insert split: option.splits)

theorem cache_expiry_witness:
  "fst (cache_get 20 ''k'' (cache_set 5 ''k'' True None (cache_new (Some 10)))) = None"
  using cache_expiry [of "cache_new (Some 10)" 5 20 "''k''" "''k''" True None] by (simp add: cache_new_def)

end
