(* ===== verification/Login.thy ===== *)
theory Login
  imports Auth Connections "HOL-Library.Monad_Syntax"
begin

text \<open>
  Logging in: the code exchange with the OAuth provider and the account, token and key it
  leaves behind (\<^verbatim>\<open>src/auth/oauth.rs\<close>), the pending sessions and the account handlers
  (\<^verbatim>\<open>src/handlers/auth_handler.rs\<close>), and the browser callback
  (\<^verbatim>\<open>src/handlers/oauth.rs\<close>).  The provider, its JSON answers, the HTTP headers, random bytes and
  UUIDs are the fields of the parameter \<open>login_env\<close>.  The exchange is written over the
  operations it calls on the storage, a record \<open>login_store\<close>, so that a storage that fails is an
  instance.  The session table is behind a mutex that is never poisoned: a panic ends the
  process.  An outer \<open>None\<close> is such a panic.
\<close>

section \<open>Environment\<close>

record oauth_service =
  oc_client_id :: string
  oc_client_secret :: string
  oc_redirect_uri :: string
  oc_auth_url :: string
  oc_token_url :: string
  oc_user_info_url :: string
  oc_scope :: string

record http_response =
  hr_code :: nat
  hr_status :: string \<comment> \<open>the status line as it is printed\<close>
  hr_text :: "(string, string) result"

record login_env =
  le_auth :: auth_env
  le_crypto :: crypto_lib
  le_oauth :: oauth_service
  le_post :: "string \<Rightarrow> (string \<times> string) list \<Rightarrow> (string, http_response) result"
  le_get :: "string \<Rightarrow> string \<Rightarrow> (string, http_response) result" \<comment> \<open>address, bearer token\<close>
  le_parse_token :: "string \<Rightarrow> (string, string) result"
  le_env :: "string \<Rightarrow> string option"
  le_chrono :: chrono
  le_now :: datetime
  le_token_random :: bytes
  le_key_random :: bytes
  le_fallback_random :: bytes
  le_account_uuid :: string
  le_token_uuid :: string
  le_client_uuid :: string
  le_info_log :: bool

record 's login_store =
  ls_get_account_by_hash :: "string \<Rightarrow> 's \<Rightarrow> account option sres"
  ls_get_account_by_email :: "string \<Rightarrow> 's \<Rightarrow> account option sres"
  ls_create_account :: "account \<Rightarrow> 's \<Rightarrow> unit sres \<times> 's"
  ls_update_account :: "account \<Rightarrow> 's \<Rightarrow> unit sres \<times> 's"
  ls_create_auth_token :: "auth_token \<Rightarrow> 's \<Rightarrow> unit sres \<times> 's"
  ls_get_encryption_key :: "string \<Rightarrow> 's \<Rightarrow> string option sres"
  ls_store_encryption_key :: "string \<Rightarrow> string \<Rightarrow> 's \<Rightarrow> unit sres \<times> 's"

definition memory_login :: "(string \<Rightarrow> string) \<Rightarrow> storage_data login_store" where
  "memory_login ul = \<lparr>ls_get_account_by_hash = ms_get_account_by_hash,
     ls_get_account_by_email = ms_get_account_by_email ul, ls_create_account = ms_create_account,
     ls_update_account = ms_update_account, ls_create_auth_token = ms_create_auth_token,
     ls_get_encryption_key = ms_get_encryption_key, ls_store_encryption_key = ms_store_encryption_key\<rparr>"

section \<open>The OAuth client\<close>

definition env_or :: "(string \<Rightarrow> string option) \<Rightarrow> string \<Rightarrow> string \<Rightarrow> string" where
  "env_or env v d = (case env v of Some x \<Rightarrow> x | None \<Rightarrow> d)"

definition oauth_service_new :: "(string \<Rightarrow> string option) \<Rightarrow> oauth_service" where
  "oauth_service_new env =
     \<lparr>oc_client_id = env_or env ''OAUTH_CLIENT_ID'' ''cosmic-sync'',
      oc_client_secret = env_or env ''OAUTH_CLIENT_SECRET'' ''cosmicsecretsocmicsecret'',
      oc_redirect_uri = env_or env ''OAUTH_REDIRECT_URI'' ''http://localhost:8080/oauth/callback'',
      oc_auth_url = env_or env ''OAUTH_AUTH_URL'' ''https://localhost:4000/oauth/authorize'',
      oc_token_url = env_or env ''OAUTH_TOKEN_URL'' ''https://localhost:4000/oauth/token'',
      oc_user_info_url = env_or env ''OAUTH_USER_INFO_URL'' ''https://localhost:4000/userinfo'',
      oc_scope = env_or env ''OAUTH_SCOPE'' ''profile:read''\<rparr>"

text \<open>\<open>buffer\<close> is the sixteen random bytes of the state token.\<close>

definition generate_oauth_login_url :: "crypto_lib \<Rightarrow> bytes \<Rightarrow> oauth_service \<Rightarrow> string" where
  "generate_oauth_login_url cl buffer oc =
     oc_auth_url oc @ ''?client_id='' @ oc_client_id oc @ ''&redirect_uri='' @ oc_redirect_uri oc @
     ''&response_type=code&scope='' @ oc_scope oc @ ''&access_type=offline&state='' @ generate_state_token cl buffer"

definition generate_oauth_login_url_with_device :: "oauth_service \<Rightarrow> string \<Rightarrow> string" where
  "generate_oauth_login_url_with_device oc device_hash =
     oc_auth_url oc @ ''?client_id='' @ oc_client_id oc @ ''&redirect_uri='' @ oc_redirect_uri oc @
     ''&response_type=code&scope='' @ oc_scope oc @ ''&state='' @ device_hash"

definition hash_token :: "crypto_lib \<Rightarrow> string \<Rightarrow> string" where
  "hash_token cl token = cl_hex cl (cl_sha256 cl (as_bytes token))"

definition is_success :: "nat \<Rightarrow> bool" where
  "is_success code \<longleftrightarrow> 200 \<le> code \<and> code < 300"

definition text_or :: "string \<Rightarrow> http_response \<Rightarrow> string" where
  "text_or d r = (case hr_text r of Inr t \<Rightarrow> t | Inl _ \<Rightarrow> d)"

definition exchange_oauth_code :: "login_env \<Rightarrow> string \<Rightarrow> string ares" where
  "exchange_oauth_code env code =
     (let oc = le_oauth env;
          params = [(''code'', code), (''client_id'', oc_client_id oc), (''client_secret'', oc_client_secret oc),
            (''redirect_uri'', oc_redirect_uri oc), (''grant_type'', ''authorization_code'')]
      in case le_post env (oc_token_url oc) params of
           Inl e \<Rightarrow> Err (AE_ExternalServiceError (''Failed to send token request: '' @ e))
         | Inr response \<Rightarrow>
             (if is_success (hr_code response) then
                (case (case hr_text response of Inr t \<Rightarrow> le_parse_token env t | Inl e \<Rightarrow> Err e) of
                   Inr access_token \<Rightarrow> Ok access_token
                 | Inl e \<Rightarrow> Err (AE_ExternalServiceError (''Failed to parse token response: '' @ e)))
              else Err (AE_ExternalServiceError (''OAuth token exchange failed: '' @ hr_status response @ '' - '' @
                text_or ''Unknown error'' response))))"

definition user_of_settings :: "user_info option \<Rightarrow> oauth_user_info" where
  "user_of_settings user =
     (let user_id = (case Option.bind user ui_email of Some e \<Rightarrow> e | None \<Rightarrow> ''unknown_user@example.com'');
          nm = (case Option.bind user (\<lambda>u. case (ui_first_name u, ui_last_name u) of
                   (Some first_name, Some last_name) \<Rightarrow> Some (first_name @ '' '' @ last_name)
                 | (Some first_name, None) \<Rightarrow> Some first_name
                 | (None, Some last_name) \<Rightarrow> Some last_name
                 | (None, None) \<Rightarrow> None) of Some n \<Rightarrow> n | None \<Rightarrow> user_id);
          i = (case user of Some u \<Rightarrow> (case ui_id u of Some n \<Rightarrow> show_int n | None \<Rightarrow> user_id) | None \<Rightarrow> user_id)
      in \<lparr>ou_id = i, ou_user_id = user_id, ou_name = nm\<rparr>)"

definition get_user_info_with_token :: "login_env \<Rightarrow> string \<Rightarrow> oauth_user_info ares" where
  "get_user_info_with_token env access_token =
     (case le_get env (oc_user_info_url (le_oauth env)) access_token of
        Inl e \<Rightarrow> Err (AE_ExternalServiceError (''Failed to send settings request: '' @ e))
      | Inr response \<Rightarrow>
          (if is_success (hr_code response) then
             (case as_parse_settings (av_server (le_auth env)) (text_or ''Unable to read response'' response) of
                Inr user \<Rightarrow> Ok (user_of_settings user)
              | Inl e \<Rightarrow> Err (AE_ExternalServiceError (''Failed to parse settings response: '' @ e)))
           else Err (AE_ExternalServiceError (''Failed to fetch settings: '' @ hr_status response @ '' - '' @
             text_or ''Unknown error'' response))))"

definition get_oauth_user_info :: "login_env \<Rightarrow> string \<Rightarrow> oauth_user_info ares" where
  "get_oauth_user_info env access_token =
     (case le_get env (env_or (le_env env) ''OAUTH_USER_INFO_URL'' ''http://10.17.89.63:4000/api/settings'') access_token of
        Inl e \<Rightarrow> Err (AE_ExternalServiceError (''Failed to send settings request: '' @ e))
      | Inr response \<Rightarrow>
          (if is_success (hr_code response) then
             (case as_parse_settings (av_server (le_auth env)) (text_or ''Unable to read response'' response) of
                Inr user \<Rightarrow> Ok (user_of_settings user)
              | Inl e \<Rightarrow> Err (AE_ExternalServiceError (''Failed to parse settings response: '' @ e)))
           else Err (AE_ExternalServiceError (''Settings request failed: '' @ hr_status response @ '' - '' @
             text_or ''Unknown error'' response))))"

definition exchange_oauth_code_and_authenticate :: "login_env \<Rightarrow> string \<Rightarrow> (string \<times> oauth_user_info) ares" where
  "exchange_oauth_code_and_authenticate env code =
     (case exchange_oauth_code env code of
        Inl e \<Rightarrow> Err e
      | Inr token \<Rightarrow>
          (case get_user_info_with_token env token of Inl e \<Rightarrow> Err e | Inr user \<Rightarrow> Ok (token, user)))"

section \<open>Processing a code\<close>

text \<open>
  The two retry loops.  The read that follows a successful creation, and the pauses, only
  serve the log.
\<close>

definition max_retries :: nat where
  "max_retries = 3"

function create_account_retry :: "'s login_store \<Rightarrow> account \<Rightarrow> nat \<Rightarrow> 's \<Rightarrow> 's" where
  "create_account_retry ls account retry_count s =
     (if retry_count < max_retries then
        (case ls_create_account ls account s of
           (Inr _, s') \<Rightarrow> s'
         | (Inl e, s') \<Rightarrow>
             (if str_contains (storage_error_display e) ''Duplicate'' then s'
              else create_account_retry ls account (retry_count + 1) s'))
      else s)"
  by pat_completeness auto
termination by (relation "measure (\<lambda>(_, _, n, _). max_retries - n)") auto

function save_token_retry :: "'s login_store \<Rightarrow> auth_token \<Rightarrow> nat \<Rightarrow> 's \<Rightarrow> unit ares \<times> 's" where
  "save_token_retry ls token_obj retry_count s =
     (if retry_count < max_retries then
        (case ls_create_auth_token ls token_obj s of
           (Inr _, s') \<Rightarrow> (Ok (), s')
         | (Inl e, s') \<Rightarrow>
             (if retry_count + 1 < max_retries then save_token_retry ls token_obj (retry_count + 1) s'
              else (Err (AE_DatabaseError (''Failed to save auth token after '' @ show_nat max_retries @ '' attempts'')), s')))
      else (Ok (), s))"
  by pat_completeness auto
termination by (relation "measure (\<lambda>(_, _, n, _). max_retries - n)") auto

declare create_account_retry.simps [simp del] save_token_retry.simps [simp del]

text \<open>The list of devices that is read between the two steps only serves the log.\<close>

definition oauth_get_encryption_key :: "'s login_store \<Rightarrow> login_env \<Rightarrow> string \<Rightarrow> 's \<Rightarrow> string option ares \<times> 's" where
  "oauth_get_encryption_key ls env account_hash s =
     (case ls_get_encryption_key ls account_hash s of
        Inr (Some key) \<Rightarrow> (Ok (Some key), s)
      | _ \<Rightarrow>
          (let encryption_key = cl_hex (le_crypto env) (le_key_random env)
           in (Ok (Some encryption_key), snd (ls_store_encryption_key ls account_hash encryption_key s))))"

definition login_email :: "oauth_user_info \<Rightarrow> string" where
  "login_email user =
     (if str_contains_char (ou_user_id user) (CHR ''@'') then ou_user_id user else ou_user_id user @ ''@example.com'')"

definition login_account_hash :: "login_env \<Rightarrow> oauth_user_info \<Rightarrow> string option \<Rightarrow> string" where
  "login_account_hash env user client_account_hash =
     (case client_account_hash of
        Some client_hash \<Rightarrow> client_hash
      | None \<Rightarrow> generate_account_hash_from_email_only (le_crypto env) (login_email user))"

definition find_login_account :: "'s login_store \<Rightarrow> string \<Rightarrow> string \<Rightarrow> 's \<Rightarrow> account option" where
  "find_login_account ls account_hash email s =
     (case ls_get_account_by_hash ls account_hash s of
        Inr (Some account) \<Rightarrow> Some account
      | Inr None \<Rightarrow> (case ls_get_account_by_email ls email s of Inr r \<Rightarrow> r | Inl _ \<Rightarrow> None)
      | Inl _ \<Rightarrow> None)"

definition new_login_account :: "login_env \<Rightarrow> oauth_user_info \<Rightarrow> string \<Rightarrow> account" where
  "new_login_account env user account_hash =
     \<lparr>a_account_hash = account_hash, a_id = le_account_uuid env, a_email = login_email user, a_name = ou_name user,
      a_user_type = ''oauth'', a_password_hash = '''', a_salt = '''', a_is_active = True,
      a_created_at = le_now env, a_last_login = le_now env, a_updated_at = le_now env, a_user_id = ou_user_id user\<rparr>"

definition record_login_account :: "'s login_store \<Rightarrow> login_env \<Rightarrow> oauth_user_info \<Rightarrow> string \<Rightarrow> 's \<Rightarrow> 's" where
  "record_login_account ls env user account_hash s =
     (case find_login_account ls account_hash (login_email user) s of
        Some account \<Rightarrow>
          snd (ls_update_account ls (account\<lparr>a_account_hash := account_hash, a_last_login := le_now env,
            a_updated_at := le_now env\<rparr>) s)
      | None \<Rightarrow> create_account_retry ls (new_login_account env user account_hash) 0 s)"

definition login_token :: "login_env \<Rightarrow> string" where
  "login_token env = generate_auth_token (le_crypto env) (le_token_random env) (ch_timestamp (le_chrono env) (le_now env))"

definition login_token_obj :: "login_env \<Rightarrow> string \<Rightarrow> auth_token" where
  "login_token_obj env account_hash =
     \<lparr>t_token_id = le_token_uuid env, t_account_hash = account_hash, t_access_token = login_token env,
      t_refresh_token = None, t_created_at = le_now env, t_expires_at = le_now env + hours 24,
      t_is_valid = True, t_token_type = ''Bearer'', t_scope = None\<rparr>"

text \<open>The messages at the end print the first ten bytes of the token and of the key.\<close>

definition process_oauth_code ::
  "'s login_store \<Rightarrow> login_env \<Rightarrow> string \<Rightarrow> string option \<Rightarrow> 's \<Rightarrow> ((string \<times> string \<times> string) ares \<times> 's) option" where
  "process_oauth_code ls env code client_account_hash s =
     (case exchange_oauth_code_and_authenticate env code of
        Inl e \<Rightarrow> Some (Err (AE_ExternalServiceError (''OAuth authentication failed: '' @ auth_error_display e)), s)
      | Inr (_, user) \<Rightarrow>
          (let account_hash = login_account_hash env user client_account_hash;
               s1 = record_login_account ls env user account_hash s;
               auth_token = login_token env
           in case save_token_retry ls (login_token_obj env account_hash) 0 s1 of
                (Inl e, s2) \<Rightarrow> Some (Err e, s2)
              | (Inr _, s2) \<Rightarrow>
                  (case oauth_get_encryption_key ls env account_hash s2 of
                     (r, s3) \<Rightarrow>
                       (let encryption_key = (case r of Inr (Some key) \<Rightarrow> key
                              | _ \<Rightarrow> generate_encryption_key (le_crypto env) (le_fallback_random env))
                        in if le_info_log env \<and> (token_prefix auth_token = None \<or> token_prefix encryption_key = None)
                           then None else Some (Ok (auth_token, account_hash, encryption_key), s3)))))"

section \<open>Sessions\<close>

record auth_session =
  ss_device_hash :: string
  ss_client_id :: string
  ss_auth_token :: "string option"
  ss_account_hash :: "string option"
  ss_encryption_key :: "string option"
  ss_created_at :: datetime
  ss_expires_at :: datetime

type_synonym sessions = "(string, auth_session) hashmap"

record login_app =
  la_storage :: storage_data
  la_sessions :: sessions

definition pending_session :: "datetime \<Rightarrow> string \<Rightarrow> string \<Rightarrow> auth_session" where
  "pending_session now device_hash client_id =
     \<lparr>ss_device_hash = device_hash, ss_client_id = client_id, ss_auth_token = None, ss_account_hash = None,
      ss_encryption_key = None, ss_created_at = now, ss_expires_at = now + hours 24\<rparr>"

definition update_session ::
  "datetime \<Rightarrow> string \<Rightarrow> string \<Rightarrow> string \<Rightarrow> string \<Rightarrow> string \<Rightarrow> sessions \<Rightarrow> sessions" where
  "update_session now client_uuid device_hash auth_token account_hash encryption_key m =
     (case hm_get m device_hash of
        Some session \<Rightarrow> hm_insert device_hash
          (session\<lparr>ss_auth_token := Some auth_token, ss_account_hash := Some account_hash,
             ss_encryption_key := Some encryption_key\<rparr>) m
      | None \<Rightarrow> hm_insert device_hash
          \<lparr>ss_device_hash = device_hash, ss_client_id = ''client_'' @ client_uuid, ss_auth_token = Some auth_token,
           ss_account_hash = Some account_hash, ss_encryption_key = Some encryption_key, ss_created_at = now,
           ss_expires_at = now + hours 24\<rparr> m)"

definition clean_expired_sessions :: "datetime \<Rightarrow> sessions \<Rightarrow> sessions" where
  "clean_expired_sessions now m =
     (let expired_ids = map fst (filter (\<lambda>(_, session). ss_expires_at session < now) m)
      in hm_remove_all expired_ids m)"

record auth_status =
  au_is_complete :: bool
  au_success :: bool
  au_auth_token :: string
  au_account_hash :: string
  au_encryption_key :: string
  au_expires_in :: i64
  au_return_message :: string
  au_session_id :: string

definition str_or_default :: "string option \<Rightarrow> string" where
  "str_or_default x = (case x of Some v \<Rightarrow> v | None \<Rightarrow> '''')"

definition check_auth_status :: "datetime \<Rightarrow> string \<Rightarrow> string \<Rightarrow> sessions \<Rightarrow> auth_status \<times> sessions" where
  "check_auth_status now client_uuid device_hash m =
     (let m1 = clean_expired_sessions now m in
      case hm_get m1 device_hash of
        Some session \<Rightarrow>
          (if ss_auth_token session \<noteq> None then
             (\<lparr>au_is_complete = True, au_success = True, au_auth_token = str_or_default (ss_auth_token session),
               au_account_hash = str_or_default (ss_account_hash session),
               au_encryption_key = str_or_default (ss_encryption_key session),
               au_expires_in = (if ss_expires_at session > now then (ss_expires_at session - now) div 1000000000 else 0),
               au_return_message = '''', au_session_id = ss_device_hash session\<rparr>, m1)
           else
             (\<lparr>au_is_complete = False, au_success = True, au_auth_token = '''', au_account_hash = '''',
               au_encryption_key = '''', au_expires_in = 0,
               au_return_message = ''Authentication not yet complete'', au_session_id = ''''\<rparr>, m1))
      | None \<Rightarrow>
          (\<lparr>au_is_complete = False, au_success = True, au_auth_token = '''', au_account_hash = '''',
            au_encryption_key = '''', au_expires_in = 0,
            au_return_message = ''Session not found or not yet complete'', au_session_id = device_hash\<rparr>,
           if device_hash \<noteq> [] then hm_insert device_hash (pending_session now device_hash (''client_'' @ client_uuid)) m1
           else m1))"

section \<open>Handlers\<close>

text \<open>\<^verbatim>\<open>AuthHandler::handle_validate_token\<close>, \<^verbatim>\<open>login\<close>, \<^verbatim>\<open>verify_login\<close>.\<close>

definition ah_validate_token ::
  "login_env \<Rightarrow> string \<Rightarrow> storage_data \<Rightarrow> ((status, bool \<times> string) result \<times> storage_data) option" where
  "ah_validate_token env auth_token s =
     (if auth_token = [] then Some (Err (mk_status C_InvalidArgument ''Token is required''), s)
      else case verify_token (le_auth env) (le_now env) auth_token s of
        None \<Rightarrow> None
      | Some (Inr v, s') \<Rightarrow> Some (Ok (vr_valid v, vr_account_hash v), s')
      | Some (Inl _, s') \<Rightarrow> Some (Ok (False, ''''), s'))"

record login_response =
  lr_success :: bool
  lr_auth_token :: string
  lr_account_hash :: string
  lr_return_message :: string

definition ah_login :: login_response where
  "ah_login = \<lparr>lr_success = False, lr_auth_token = '''', lr_account_hash = '''',
     lr_return_message = ''Direct login is not supported. Please use OAuth authentication.''\<rparr>"

definition ah_verify_login :: "login_env \<Rightarrow> string \<Rightarrow> storage_data \<Rightarrow> ((bool \<times> string) \<times> storage_data) option" where
  "ah_verify_login env auth_token s =
     (if auth_token = [] then Some ((False, ''''), s)
      else case verify_token (le_auth env) (le_now env) auth_token s of
        None \<Rightarrow> None
      | Some (Inr v, s') \<Rightarrow> Some ((vr_valid v, vr_account_hash v), s')
      | Some (Inl _, s') \<Rightarrow> Some ((False, ''''), s'))"

record auth_notification =
  an_session_id :: string
  an_device_hash :: string
  an_auth_token :: string
  an_account_hash :: string
  an_encryption_key :: string
  an_expires_in :: i64

text \<open>\<open>chrono::Duration::seconds\<close> in nanoseconds; the result is a success flag and message.\<close>

definition process_auth_notification ::
  "login_env \<Rightarrow> auth_notification \<Rightarrow> login_app \<Rightarrow> (string, bool \<times> string) result \<times> login_app" where
  "process_auth_notification env n a =
     (let a1 = a\<lparr>la_sessions := update_session (le_now env) (le_client_uuid env) (an_device_hash n) (an_auth_token n)
            (an_account_hash n) (an_encryption_key n) (la_sessions a)\<rparr>;
          token = \<lparr>t_token_id = an_session_id n, t_account_hash = an_account_hash n, t_access_token = an_auth_token n,
            t_refresh_token = None, t_created_at = le_now env,
            t_expires_at = le_now env + an_expires_in n * 1000000000, t_is_valid = True, t_token_type = ''Bearer'',
            t_scope = None\<rparr>
      in case ms_create_auth_token token (la_storage a1) of
           (Inr _, s) \<Rightarrow> (Ok (True, ''''), a1\<lparr>la_storage := s\<rparr>)
         | (Inl e, s) \<Rightarrow> (Err (''Failed to save auth token: '' @ storage_error_display e), a1\<lparr>la_storage := s\<rparr>))"

definition auto_register_or_update_device ::
  "datetime \<Rightarrow> string \<Rightarrow> string \<Rightarrow> string \<Rightarrow> string \<Rightarrow> storage_data \<Rightarrow> (string, unit) result \<times> storage_data" where
  "auto_register_or_update_device now account_hash device_hash os_version app_version s =
     (case ms_get_device account_hash device_hash s of
        Inr (Some existing_device) \<Rightarrow>
          (case ms_register_device (device_update_info now (Some True) (Some os_version) (Some app_version) existing_device) s of
             (Inl e, s') \<Rightarrow> (Err (''Failed to update existing device: '' @ storage_error_display e), s')
           | (Inr _, s') \<Rightarrow> (Ok (), s'))
      | Inr None \<Rightarrow>
          (case ms_register_device (device_new now account_hash device_hash True os_version app_version) s of
             (Inl e, s') \<Rightarrow> (Err (''Failed to register new device: '' @ storage_error_display e), s')
           | (Inr _, s') \<Rightarrow> (Ok (), s'))
      | Inl e \<Rightarrow> (Err (''Failed to check existing device: '' @ storage_error_display e), s))"

definition validate_token_internal ::
  "login_env \<Rightarrow> string \<Rightarrow> string \<Rightarrow> storage_data \<Rightarrow> ((status, unit) result \<times> storage_data) option" where
  "validate_token_internal env auth_token account_hash s =
     (case verify_token (le_auth env) (le_now env) auth_token s of
        None \<Rightarrow> None
      | Some (Inr v, s') \<Rightarrow>
          Some (if \<not> vr_valid v \<or> vr_account_hash v \<noteq> account_hash
                then Err (mk_status C_Unauthenticated ''Invalid authentication token'') else Ok (), s')
      | Some (Inl e, s') \<Rightarrow>
          Some (Err (mk_status C_Unauthenticated (''Token validation failed: '' @ auth_error_display e)), s'))"

text \<open>The result: success, account, key and message.\<close>

definition ah_get_account_info ::
  "login_env \<Rightarrow> string \<Rightarrow> storage_data \<Rightarrow> ((status, bool \<times> string \<times> string \<times> string) result \<times> storage_data) option" where
  "ah_get_account_info env auth_token s =
     (if auth_token = [] then Some (Err (mk_status C_InvalidArgument ''Auth token is required''), s)
      else case verify_token (le_auth env) (le_now env) auth_token s of
        None \<Rightarrow> None
      | Some (Inr v, s') \<Rightarrow>
          Some (if \<not> vr_valid v then Err (mk_status C_Unauthenticated ''Invalid authentication token'')
                else Ok (True, vr_account_hash v,
                  case ms_get_encryption_key (vr_account_hash v) s' of Inr (Some key) \<Rightarrow> key | _ \<Rightarrow> '''', ''''), s')
      | Some (Inl e, s') \<Rightarrow>
          Some (Err (mk_status C_Unauthenticated (''Authentication failed: '' @ auth_error_display e)), s'))"

record exchange_request =
  xr_code :: string
  xr_auth_token :: string
  xr_device_hash :: string
  xr_os_version :: string
  xr_app_version :: string

record exchange_response =
  xs_success :: bool
  xs_auth_token :: string
  xs_account_hash :: string
  xs_encryption_key :: "string option"
  xs_return_message :: string

definition ah_oauth_exchange ::
  "(string \<Rightarrow> string) \<Rightarrow> login_env \<Rightarrow> exchange_request \<Rightarrow> storage_data \<Rightarrow>
   ((status, exchange_response) result \<times> storage_data) option" where
  "ah_oauth_exchange ul env req s =
     (if xr_code req = [] then Some (Err (mk_status C_InvalidArgument ''OAuth code is required''), s)
      else do {
        (r, s1) \<leftarrow> process_oauth_code (memory_login ul) env (xr_code req) None s;
        Some (case r of
          Inr (auth_token, account_hash, encryption_key) \<Rightarrow>
            (Ok \<lparr>xs_success = True, xs_auth_token = auth_token, xs_account_hash = account_hash,
               xs_encryption_key = Some encryption_key, xs_return_message = ''''\<rparr>,
             if xr_device_hash req \<noteq> [] then
               snd (auto_register_or_update_device (le_now env) account_hash (xr_device_hash req) (xr_os_version req)
                 (xr_app_version req) s1)
             else s1)
        | Inl e \<Rightarrow>
            (Ok \<lparr>xs_success = False, xs_auth_token = '''', xs_account_hash = '''', xs_encryption_key = None,
               xs_return_message = ''OAuth code exchange failed: '' @ auth_error_display e\<rparr>, s1))
      })"

text \<open>
  The second implementation of the exchange, \<^verbatim>\<open>impl OAuthHandler for SyncServiceImpl\<close>: what it
  puts into the field for the account is the access token.
\<close>

definition sync_service_oauth_exchange :: "login_env \<Rightarrow> exchange_request \<Rightarrow> exchange_response" where
  "sync_service_oauth_exchange env req =
     (case exchange_oauth_code env (xr_code req) of
        Inr account_hash \<Rightarrow>
          \<lparr>xs_success = True, xs_auth_token = xr_auth_token req, xs_account_hash = account_hash,
           xs_encryption_key = None, xs_return_message = ''''\<rparr>
      | Inl e \<Rightarrow>
          \<lparr>xs_success = False, xs_auth_token = '''', xs_account_hash = '''', xs_encryption_key = None,
           xs_return_message = auth_error_display e\<rparr>)"

section \<open>HTTP handlers\<close>

record auth_status_json =
  aj_authenticated :: bool
  aj_token :: "string option"
  aj_error :: "string option"
  aj_account_hash :: "string option"
  aj_encryption_key :: "string option"
  aj_expires_in :: "i64 option"
  aj_session_id :: "string option"

definition http_check_auth_status :: "datetime \<Rightarrow> string \<Rightarrow> string \<Rightarrow> sessions \<Rightarrow> auth_status_json \<times> sessions" where
  "http_check_auth_status now client_uuid device_hash m =
     (case check_auth_status now client_uuid device_hash m of
        (resp, m') \<Rightarrow>
          (if au_is_complete resp \<and> au_auth_token resp \<noteq> [] then
             \<lparr>aj_authenticated = True, aj_token = Some (au_auth_token resp), aj_error = None,
              aj_account_hash = Some (au_account_hash resp), aj_encryption_key = Some (au_encryption_key resp),
              aj_expires_in = Some (au_expires_in resp), aj_session_id = Some (au_session_id resp)\<rparr>
           else
             \<lparr>aj_authenticated = False, aj_token = None, aj_error = Some ''Authentication not complete'',
              aj_account_hash = None, aj_encryption_key = None, aj_expires_in = None, aj_session_id = None\<rparr>, m'))"

record registration_response =
  rr_success :: bool
  rr_message :: string
  rr_session_id :: "string option"
  rr_auth_url :: "string option"

definition http_register_session ::
  "oauth_service \<Rightarrow> datetime \<Rightarrow> string \<Rightarrow> string \<Rightarrow> sessions \<Rightarrow> registration_response \<times> sessions" where
  "http_register_session oc now device_hash client_id m =
     (\<lparr>rr_success = True, rr_message = ''Session registered successfully'', rr_session_id = Some device_hash,
       rr_auth_url = Some (generate_oauth_login_url_with_device oc device_hash)\<rparr>,
      if hm_contains m device_hash then m else hm_insert device_hash (pending_session now device_hash client_id) m)"

text \<open>The address of the redirection.\<close>

definition http_oauth_login :: "crypto_lib \<Rightarrow> bytes \<Rightarrow> oauth_service \<Rightarrow> string option \<Rightarrow> string" where
  "http_oauth_login cl buffer oc device_hash =
     (case device_hash of
        Some h \<Rightarrow> generate_oauth_login_url_with_device oc h
      | None \<Rightarrow> generate_oauth_login_url cl buffer oc)"

text \<open>
  The callback.  \<open>cb_header\<close> gives the raw value of a header and \<open>cb_to_str\<close> its text when it
  has one.
\<close>

record callback_request =
  cb_code :: string
  cb_state :: "string option"
  cb_error :: "string option"
  cb_header :: "string \<Rightarrow> bytes option"
  cb_to_str :: "bytes \<Rightarrow> string option"
  cb_cookie :: "string \<Rightarrow> string option"

definition opt_or :: "'a option \<Rightarrow> 'a option \<Rightarrow> 'a option" where
  "opt_or x y = (case x of Some _ \<Rightarrow> x | None \<Rightarrow> y)"

definition callback_device_hash :: "login_env \<Rightarrow> callback_request \<Rightarrow> string" where
  "callback_device_hash env q =
     (case cb_state q of
        Some token \<Rightarrow> token
      | None \<Rightarrow>
          (case Option.bind (opt_or (cb_header q ''X-Device-Hash'') (cb_header q ''X-Client-Device-Hash'')) (cb_to_str q) of
             Some h \<Rightarrow> h
           | None \<Rightarrow>
               (case cb_cookie q ''device_hash'' of
                  Some v \<Rightarrow> v
                | None \<Rightarrow> ''temp_'' @ show_int (ch_timestamp (le_chrono env) (le_now env)))))"

definition callback_account_hash :: "callback_request \<Rightarrow> string option" where
  "callback_account_hash q =
     (case Option.bind (opt_or (opt_or (cb_header q ''X-Client-Account-Hash'') (cb_header q ''X-Account-Hash''))
               (cb_header q ''Account-Hash'')) (cb_to_str q) of
        Some hash \<Rightarrow> Some hash
      | None \<Rightarrow>
          (case cb_state q of
             Some state \<Rightarrow> if length state = 64 \<and> list_all is_ascii_hexdigit state then Some state else None
           | None \<Rightarrow> None))"

definition update_sessions :: "login_env \<Rightarrow> string list \<Rightarrow> string \<Rightarrow> string \<Rightarrow> string \<Rightarrow> sessions \<Rightarrow> sessions" where
  "update_sessions env ids auth_token account_hash encryption_key m =
     fold (\<lambda>i. update_session (le_now env) (le_client_uuid env) i auth_token account_hash encryption_key) ids m"

definition pending_ids :: "sessions \<Rightarrow> string list" where
  "pending_ids m =
     map fst (filter (\<lambda>(i, session). \<not> starts_with i ''temp_'' \<and> ss_auth_token session = None) m)"

text \<open>
  The answer: a refusal, or the values the success page shows (account, a part of the token,
  device) and hands to the script (token, account, key, device), or the error page.
\<close>

datatype callback_response =
    CB_BadRequest string
  | CB_Ok "string \<times> string \<times> string" "string \<times> string \<times> string \<times> string"
  | CB_Failed string

definition http_oauth_callback ::
  "(string \<Rightarrow> string) \<Rightarrow> login_env \<Rightarrow> callback_request \<Rightarrow> login_app \<Rightarrow> (callback_response \<times> login_app) option" where
  "http_oauth_callback ul env q a =
     (case cb_error q of
        Some err \<Rightarrow> Some (CB_BadRequest err, a)
      | None \<Rightarrow>
          (let device_hash = callback_device_hash env q in do {
             (r, s) \<leftarrow> process_oauth_code (memory_login ul) env (cb_code q) (callback_account_hash q) (la_storage a);
             (case r of
                Inr (auth_token, account_hash, encryption_key) \<Rightarrow>
                  (let m1 = update_sessions env [device_hash] auth_token account_hash encryption_key (la_sessions a);
                       m2 = (if starts_with device_hash ''temp_''
                             then update_sessions env (pending_ids m1) auth_token account_hash encryption_key m1 else m1)
                   in do {
                     shown \<leftarrow> slice_to auth_token (min 20 (length auth_token));
                     Some (CB_Ok (account_hash, shown, device_hash) (auth_token, account_hash, encryption_key, device_hash),
                       a\<lparr>la_storage := s, la_sessions := m2\<rparr>)
                   })
              | Inl e \<Rightarrow> Some (CB_Failed (auth_error_display e), a\<lparr>la_storage := s\<rparr>))
           }))"

section \<open>Retries\<close>

text \<open>\<open>attempts f n s\<close> is the state after \<open>n\<close> calls of a storage operation.\<close>

definition attempts :: "('s \<Rightarrow> 'r \<times> 's) \<Rightarrow> nat \<Rightarrow> 's \<Rightarrow> 's" where
  "attempts f n s = ((\<lambda>s. snd (f s)) ^^ n) s"

lemma attempts_simps [simp]:
  "attempts f 0 s = s" "attempts f (Suc n) s = attempts f n (snd (f s))"
  using funpow_swap1 [of "\<lambda>s. snd (f s)"] by (simp_all add: attempts_def)

lemma save_token_retry_ok:
  "retry < max_retries \<Longrightarrow> ls_create_auth_token ls t s = (Ok (), s') \<Longrightarrow> save_token_retry ls t retry s = (Ok (), s')"
  by (simp add: save_token_retry.simps [of ls t retry s])

lemma save_token_retry_err:
  "retry < max_retries \<Longrightarrow> ls_create_auth_token ls t s = (Err e, s') \<Longrightarrow>
   save_token_retry ls t retry s =
     (if retry + 1 < max_retries then save_token_retry ls t (retry + 1) s'
      else (Err (AE_DatabaseError (''Failed to save auth token after '' @ show_nat max_retries @ '' attempts'')), s'))"
  by (simp add: save_token_retry.simps [of ls t retry s])

lemma save_token_retry_from:
  "retry < max_retries \<Longrightarrow>
   \<exists>n. 1 \<le> n \<and> n \<le> max_retries - retry \<and> snd (save_token_retry ls t retry s) = attempts (ls_create_auth_token ls t) n s \<and>
     (\<forall>m. m + 1 < n \<longrightarrow> isl (fst (ls_create_auth_token ls t (attempts (ls_create_auth_token ls t) m s)))) \<and>
     (isl (fst (save_token_retry ls t retry s)) \<longleftrightarrow>
        isl (fst (ls_create_auth_token ls t (attempts (ls_create_auth_token ls t) (n - 1) s)))) \<and>
     (isl (fst (save_token_retry ls t retry s)) \<longrightarrow> n = max_retries - retry)"
proof (induction "max_retries - retry" arbitrary: retry s)
  case 0
  then show ?case by simp
next
  case (Suc k)
  let ?f = "ls_create_auth_token ls t"
  obtain r s' where f: "?f s = (r, s')" by force
  show ?case
  proof (cases r)
    case (Inr u)
    with f have "save_token_retry ls t retry s = (Ok (), s')" using Suc.prems by (simp add: save_token_retry_ok)
    with f Inr Suc.prems show ?thesis by (intro exI [of _ 1]) auto
  next
    case (Inl e)
    show ?thesis
    proof (cases "retry + 1 < max_retries")
      case False
      with f Inl Suc.prems have "save_token_retry ls t retry s = (Err (AE_DatabaseError
          (''Failed to save auth token after '' @ show_nat max_retries @ '' attempts'')), s')"
        by (simp add: save_token_retry_err)
      with f Inl False Suc.prems show ?thesis by (intro exI [of _ 1]) auto
    next
      case True
      then have eq: "save_token_retry ls t retry s = save_token_retry ls t (retry + 1) s'"
        using f Inl Suc.prems by (simp add: save_token_retry_err)
      obtain n where n: "1 \<le> n" "n \<le> max_retries - (retry + 1)"
        "snd (save_token_retry ls t (retry + 1) s') = attempts ?f n s'"
        "\<forall>m. m + 1 < n \<longrightarrow> isl (fst (?f (attempts ?f m s')))"
        "isl (fst (save_token_retry ls t (retry + 1) s')) \<longleftrightarrow> isl (fst (?f (attempts ?f (n - 1) s')))"
        "isl (fst (save_token_retry ls t (retry + 1) s')) \<longrightarrow> n = max_retries - (retry + 1)"
        using Suc.hyps(1) [OF _ True, of s'] Suc.hyps(2) by (metis Suc_eq_plus1 diff_Suc diff_Suc_1 diff_diff_left)
      have "isl (fst (?f (attempts ?f m s)))" if "m + 1 < Suc n" for m
        using that f Inl n(4) by (cases m) auto
      moreover have "attempts ?f (Suc n - 1) s = attempts ?f (n - 1) s'"
        using n(1) f by (cases n) simp_all
      ultimately show ?thesis unfolding eq using n f by (intro exI [of _ "Suc n"]) auto
    qed
  qed
qed

text \<open>
  Saving the token of a login ends for every storage, after at least one and at most three
  attempts; it stops at the first attempt that succeeds, and it reports the database error only
  when all three have failed.
\<close>
theorem save_token_bounded:
  "\<exists>n. 1 \<le> n \<and> n \<le> 3 \<and> snd (save_token_retry ls t 0 s) = attempts (ls_create_auth_token ls t) n s \<and>
     (\<forall>m. m + 1 < n \<longrightarrow> isl (fst (ls_create_auth_token ls t (attempts (ls_create_auth_token ls t) m s)))) \<and>
     (isl (fst (save_token_retry ls t 0 s)) \<longleftrightarrow>
        isl (fst (ls_create_auth_token ls t (attempts (ls_create_auth_token ls t) (n - 1) s)))) \<and>
     (isl (fst (save_token_retry ls t 0 s)) \<longrightarrow> n = 3)"
  using save_token_retry_from [of 0 ls t s] by (simp add: max_retries_def)

text \<open>A storage whose state counts the calls, and that accepts a token at the given call.\<close>

definition flaky_login :: "nat \<Rightarrow> nat login_store" where
  "flaky_login k = \<lparr>ls_get_account_by_hash = (\<lambda>_ _. Ok None), ls_get_account_by_email = (\<lambda>_ _. Ok None),
     ls_create_account = (\<lambda>_ n. (Ok (), n)), ls_update_account = (\<lambda>_ n. (Ok (), n)),
     ls_create_auth_token = (\<lambda>_ n. (if n = k then Ok () else Err (SE_Database ''down''), n + 1)),
     ls_get_encryption_key = (\<lambda>_ _. Ok None), ls_store_encryption_key = (\<lambda>_ _ n. (Ok (), n))\<rparr>"

theorem save_token_bounded_witness:
  "(\<exists>n. 1 \<le> n \<and> n \<le> 3 \<and> snd (save_token_retry (flaky_login 1) (auth_create_auth_token 0 [] [] []) 0 0) =
      attempts (ls_create_auth_token (flaky_login 1) (auth_create_auth_token 0 [] [] [])) n 0) \<and>
   save_token_retry (flaky_login 1) (auth_create_auth_token 0 [] [] []) 0 0 = (Ok (), 2)"
proof
  show "\<exists>n. 1 \<le> n \<and> n \<le> 3 \<and> snd (save_token_retry (flaky_login 1) (auth_create_auth_token 0 [] [] []) 0 0) =
      attempts (ls_create_auth_token (flaky_login 1) (auth_create_auth_token 0 [] [] [])) n 0"
    using save_token_bounded [of "flaky_login 1" "auth_create_auth_token 0 [] [] []" 0] by blast
  show "save_token_retry (flaky_login 1) (auth_create_auth_token 0 [] [] []) 0 0 = (Ok (), 2)"
    by (simp add: save_token_retry.simps flaky_login_def max_retries_def)
qed

section \<open>What a login leaves behind\<close>

lemma memory_login_sel [simp]:
  "ls_get_account_by_hash (memory_login ul) = ms_get_account_by_hash"
  "ls_get_account_by_email (memory_login ul) = ms_get_account_by_email ul"
  "ls_create_account (memory_login ul) = ms_create_account" "ls_update_account (memory_login ul) = ms_update_account"
  "ls_create_auth_token (memory_login ul) = ms_create_auth_token"
  "ls_get_encryption_key (memory_login ul) = ms_get_encryption_key"
  "ls_store_encryption_key (memory_login ul) = ms_store_encryption_key"
  by (simp_all add: memory_login_def)

lemmas memory_login_simps = ms_create_account_def ms_update_account_def ms_create_auth_token_def
  ms_store_encryption_key_def ms_get_encryption_key_def ms_get_account_by_hash_def

lemma memory_save_token [simp]:
  "save_token_retry (memory_login ul) t 0 s = (Ok (), snd (ms_create_auth_token t s))"
  by (rule save_token_retry_ok) (simp_all add: max_retries_def memory_login_simps)

lemma memory_create_account [simp]:
  "create_account_retry (memory_login ul) acc 0 s = snd (ms_create_account acc s)"
  by (simp add: create_account_retry.simps max_retries_def memory_login_simps)

definition login_account :: "(string \<Rightarrow> string) \<Rightarrow> login_env \<Rightarrow> oauth_user_info \<Rightarrow> string \<Rightarrow> storage_data \<Rightarrow> account" where
  "login_account ul env user account_hash s =
     (case find_login_account (memory_login ul) account_hash (login_email user) s of
        Some account \<Rightarrow> account\<lparr>a_account_hash := account_hash, a_last_login := le_now env, a_updated_at := le_now env\<rparr>
      | None \<Rightarrow> new_login_account env user account_hash)"

lemma record_login_account_memory:
  "record_login_account (memory_login ul) env user h s =
   s\<lparr>sd_accounts := hm_insert h (login_account ul env user h s) (sd_accounts s)\<rparr>"
  by (auto simp: record_login_account_def login_account_def new_login_account_def memory_login_simps split: option.split)

definition login_key :: "login_env \<Rightarrow> string \<Rightarrow> storage_data \<Rightarrow> string" where
  "login_key env account_hash s =
     (case hm_get (sd_encryption_keys s) account_hash of Some k \<Rightarrow> k | None \<Rightarrow> cl_hex (le_crypto env) (le_key_random env))"

text \<open>The storage after a login that succeeds, field by field.\<close>

definition after_login :: "(string \<Rightarrow> string) \<Rightarrow> login_env \<Rightarrow> oauth_user_info \<Rightarrow> string \<Rightarrow> storage_data \<Rightarrow> storage_data" where
  "after_login ul env user h s =
     s\<lparr>sd_accounts := hm_insert h (login_account ul env user h s) (sd_accounts s),
       sd_auth_tokens := hm_insert (login_token env) (login_token_obj env h) (sd_auth_tokens s),
       sd_encryption_keys := (if hm_get (sd_encryption_keys s) h = None
         then hm_insert h (login_key env h s) (sd_encryption_keys s) else sd_encryption_keys s)\<rparr>"

lemma process_oauth_code_memory:
  assumes "exchange_oauth_code_and_authenticate env code = Ok (tok, user)" "h = login_account_hash env user cah"
  shows "process_oauth_code (memory_login ul) env code cah s =
    (if le_info_log env \<and> (token_prefix (login_token env) = None \<or> token_prefix (login_key env h s) = None) then None
     else Some (Ok (login_token env, h, login_key env h s), after_login ul env user h s))"
proof -
  have "oauth_get_encryption_key (memory_login ul) env h
      (snd (ms_create_auth_token (login_token_obj env h) (record_login_account (memory_login ul) env user h s))) =
    (Ok (Some (login_key env h s)), after_login ul env user h s)"
    by (auto simp: oauth_get_encryption_key_def memory_login_simps record_login_account_memory login_key_def
        after_login_def login_token_obj_def Let_def split: option.split)
  then show ?thesis
    by (simp add: process_oauth_code_def assms Let_def)
qed

lemma process_oauth_code_ok:
  assumes "process_oauth_code (memory_login ul) env code cah s = Some (Ok (tok, h, key), s')"
  shows "\<exists>at user. exchange_oauth_code_and_authenticate env code = Ok (at, user) \<and> tok = login_token env \<and>
    h = login_account_hash env user cah \<and> key = login_key env h s \<and> s' = after_login ul env user h s"
proof (cases "exchange_oauth_code_and_authenticate env code")
  case (Inl e)
  with assms show ?thesis by (simp add: process_oauth_code_def)
next
  case (Inr p)
  obtain at user where p: "p = (at, user)" by force
  show ?thesis using assms Inr
    unfolding p process_oauth_code_memory [OF Inr [unfolded p] refl] by (auto split: if_splits)
qed

lemma after_login_token:
  "token_live t (login_token env) (after_login ul env user h s) a \<longleftrightarrow> t \<le> le_now env + hours 24 \<and> a = h"
  by (auto simp: token_live_def ms_get_auth_token_def after_login_def hm_get_insert login_token_obj_def)

lemma after_login_frame:
  "k \<noteq> login_token env \<Longrightarrow> ms_get_auth_token k (after_login ul env user h s) = ms_get_auth_token k s"
  "ms_get_encryption_key h (after_login ul env user h s) = Ok (Some (login_key env h s))"
  "b \<noteq> h \<Longrightarrow> ms_get_encryption_key b (after_login ul env user h s) = ms_get_encryption_key b s"
  "ms_get_account_by_hash h (after_login ul env user h s) = Ok (Some (login_account ul env user h s))"
  "b \<noteq> h \<Longrightarrow> ms_get_account_by_hash b (after_login ul env user h s) = ms_get_account_by_hash b s"
  "sd_devices (after_login ul env user h s) = sd_devices s" "sd_files (after_login ul env user h s) = sd_files s"
  by (auto simp: after_login_def ms_get_auth_token_def ms_get_encryption_key_def ms_get_account_by_hash_def
      hm_get_insert login_key_def split: option.split)

text \<open>
  C9: a login that succeeds leaves a token that works: for the next 24 hours, and not longer, it
  authenticates exactly as the account the login returned, that account exists, and the key the
  login returned is the one stored for it.  A key that was there before is kept, so a second
  login returns the same key.  Apart from the record of the account, its key and the new token nothing changes: other
  tokens, other accounts and their keys are as before, and so are all other tables of the storage.
\<close>
theorem login_leaves_working_token:
  assumes "process_oauth_code (memory_login ul) env code cah s = Some (Ok (tok, acct, key), s')"
  shows "(\<forall>t a. token_live t tok s' a \<longleftrightarrow> t \<le> le_now env + hours 24 \<and> a = acct) \<and>
    (\<exists>acc. ms_get_account_by_hash acct s' = Ok (Some acc) \<and> a_account_hash acc = acct) \<and>
    ms_get_encryption_key acct s' = Ok (Some key) \<and>
    (\<forall>k. ms_get_encryption_key acct s = Ok (Some k) \<longrightarrow> key = k) \<and>
    (\<forall>k. k \<noteq> tok \<longrightarrow> ms_get_auth_token k s' = ms_get_auth_token k s) \<and>
    (\<forall>b. b \<noteq> acct \<longrightarrow> ms_get_account_by_hash b s' = ms_get_account_by_hash b s \<and>
       ms_get_encryption_key b s' = ms_get_encryption_key b s) \<and>
    s'\<lparr>sd_accounts := sd_accounts s, sd_auth_tokens := sd_auth_tokens s, sd_encryption_keys := sd_encryption_keys s\<rparr> = s"
proof -
  obtain at user where eqs: "tok = login_token env" "key = login_key env acct s" "s' = after_login ul env user acct s"
    using process_oauth_code_ok [OF assms] by auto
  have "a_account_hash (login_account ul env user acct s) = acct"
    by (simp add: login_account_def new_login_account_def split: option.split)
  moreover have "\<forall>k. ms_get_encryption_key acct s = Ok (Some k) \<longrightarrow> key = k"
    by (simp add: eqs ms_get_encryption_key_def login_key_def)
  ultimately show ?thesis
    unfolding eqs by (simp add: after_login_token after_login_frame) (simp add: after_login_def)
qed

definition sample_login_env :: login_env where
  "sample_login_env = \<lparr>le_auth = \<lparr>av_debug_log = False, av_debug_assertions = False,
       av_server = \<lparr>as_get = (\<lambda>_. Err ''down''), as_parse_settings = (\<lambda>t. Ok (Some \<lparr>ui_id = None, ui_email = Some t,
         ui_first_name = None, ui_last_name = None\<rparr>))\<rparr>, av_uuid = ''u''\<rparr>,
     le_crypto = sample_lib, le_oauth = oauth_service_new (\<lambda>_. None),
     le_post = (\<lambda>_ _. Ok \<lparr>hr_code = 200, hr_status = ''200 OK'', hr_text = Ok ''access''\<rparr>),
     le_get = (\<lambda>_ _. Ok \<lparr>hr_code = 200, hr_status = ''200 OK'', hr_text = Ok ''mallory@example.com''\<rparr>),
     le_parse_token = Ok, le_env = (\<lambda>_. None),
     le_chrono = \<lparr>ch_from_timestamp = (\<lambda>_ _. None), ch_timestamp = (\<lambda>_. 0), ch_subsec_nanos = (\<lambda>_. 0)\<rparr>,
     le_now = 5, le_token_random = [65], le_key_random = [66], le_fallback_random = [67],
     le_account_uuid = ''ua'', le_token_uuid = ''ut'', le_client_uuid = ''uc'', le_info_log = True\<rparr>"

definition sample_user :: oauth_user_info where
  "sample_user = \<lparr>ou_id = ''mallory@example.com'', ou_user_id = ''mallory@example.com'', ou_name = ''mallory@example.com''\<rparr>"

lemma sample_exchange: "exchange_oauth_code_and_authenticate sample_login_env c = Ok (''access'', sample_user)"
  by (simp add: exchange_oauth_code_and_authenticate_def exchange_oauth_code_def get_user_info_with_token_def
      sample_login_env_def is_success_def text_or_def user_of_settings_def sample_user_def Let_def)

lemma sample_login_token: "login_token sample_login_env = ''A:0''"
  by code_simp

lemma slice_ascii: "list_all is_ascii s \<Longrightarrow> slice_to s (min n (length s)) = Some (take n s)"
proof -
  assume "list_all is_ascii s"
  then have "min n (length s) = length s \<or> (min n (length s) < length s \<and> is_ascii (s ! min n (length s)))"
    by (auto simp: list_all_length min_def)
  then have "is_char_boundary s (min n (length s))" unfolding is_char_boundary_def is_ascii_def by auto
  then show ?thesis by (simp add: slice_to_def min_def)
qed

theorem login_leaves_working_token_witness:
  "\<exists>tok acct key s'. process_oauth_code (memory_login id) sample_login_env ''c'' (Some ''acct'') ms_new =
     Some (Ok (tok, acct, key), s') \<and> token_live 6 tok s' ''acct'' \<and> ms_get_encryption_key ''acct'' s' = Ok (Some key)"
proof -
  let ?s = "after_login id sample_login_env sample_user ''acct'' ms_new"
  have key: "login_key sample_login_env ''acct'' ms_new = ''B''"
    by code_simp
  have tok: "token_prefix ''A:0'' \<noteq> None" "token_prefix ''B'' \<noteq> None"
    by (simp_all add: token_prefix_ascii is_ascii_def)
  have run: "process_oauth_code (memory_login id) sample_login_env ''c'' (Some ''acct'') ms_new =
      Some (Ok (''A:0'', ''acct'', login_key sample_login_env ''acct'' ms_new), ?s)"
    unfolding process_oauth_code_memory [OF sample_exchange refl] login_account_hash_def option.case sample_login_token
    using key tok by simp
  have "6 \<le> le_now sample_login_env + hours 24" by (simp add: sample_login_env_def hours_def)
  then have "token_live 6 ''A:0'' ?s ''acct''" "ms_get_encryption_key ''acct'' ?s = Ok (Some (login_key sample_login_env ''acct'' ms_new))"
    using login_leaves_working_token [OF run] by simp_all
  with run show ?thesis by (intro exI conjI)
qed

section \<open>The browser callback\<close>

lemma http_oauth_callback_ok:
  assumes "cb_error q = None" "exchange_oauth_code_and_authenticate env (cb_code q) = Ok (at, user)"
    and "h = login_account_hash env user (callback_account_hash q)" "key = login_key env h (la_storage a)"
    and "list_all is_ascii (login_token env)" "list_all is_ascii key"
  shows "\<exists>a'. http_oauth_callback ul env q a =
      Some (CB_Ok (h, take 20 (login_token env), callback_device_hash env q)
              (login_token env, h, key, callback_device_hash env q), a') \<and>
    la_storage a' = after_login ul env user h (la_storage a) \<and>
    la_sessions a' = (let d = callback_device_hash env q; m1 = update_sessions env [d] (login_token env) h key (la_sessions a)
      in if starts_with d ''temp_'' then update_sessions env (pending_ids m1) (login_token env) h key m1 else m1)"
proof -
  have "process_oauth_code (memory_login ul) env (cb_code q) (callback_account_hash q) (la_storage a) =
      Some (Ok (login_token env, h, key), after_login ul env user h (la_storage a))"
    unfolding process_oauth_code_memory [OF assms(2,3)] using assms(4-6) by (simp add: token_prefix_ascii)
  then show ?thesis
    using assms(1) by (simp add: http_oauth_callback_def Let_def slice_ascii [OF assms(5)])
qed

text \<open>
  C32: the browser callback believes the account named in a request header.  Whoever the OAuth
  provider has authenticated, a callback with the header \<^verbatim>\<open>X-Client-Account-Hash\<close> answers with a
  token that is valid for the account in the header, and with the encryption key stored for that
  account; nothing relates the account to the user.
\<close>
theorem callback_header_takes_account:
  assumes "cb_error q = None" "exchange_oauth_code_and_authenticate env (cb_code q) = Ok (at, user)"
    and "cb_header q ''X-Client-Account-Hash'' = Some b" "cb_to_str q b = Some victim"
    and "ms_get_encryption_key victim (la_storage a) = Ok (Some key)"
    and "list_all is_ascii (login_token env)" "list_all is_ascii key"
  shows "\<exists>shown d tok a'. http_oauth_callback ul env q a = Some (CB_Ok shown (tok, victim, key, d), a') \<and>
    token_live (le_now env) tok (la_storage a') victim"
proof -
  have victim: "victim = login_account_hash env user (callback_account_hash q)"
    using assms(3,4) by (simp add: callback_account_hash_def opt_or_def login_account_hash_def)
  have key: "key = login_key env victim (la_storage a)"
    using assms(5) by (simp add: login_key_def ms_get_encryption_key_def)
  obtain a' where "http_oauth_callback ul env q a = Some (CB_Ok (victim, take 20 (login_token env),
      callback_device_hash env q) (login_token env, victim, key, callback_device_hash env q), a')"
    "la_storage a' = after_login ul env user victim (la_storage a)"
    using http_oauth_callback_ok [OF assms(1,2) victim key assms(6,7)] by blast
  then show ?thesis by (auto simp: after_login_token hours_def)
qed

definition sample_callback :: callback_request where
  "sample_callback = \<lparr>cb_code = ''c'', cb_state = None, cb_error = None,
     cb_header = (\<lambda>h. if h = ''X-Client-Account-Hash'' then Some [97] else None),
     cb_to_str = (\<lambda>_. Some ''alice''), cb_cookie = (\<lambda>_. None)\<rparr>"

theorem callback_header_takes_account_witness:
  "\<exists>shown d tok a'. http_oauth_callback id sample_login_env sample_callback
      \<lparr>la_storage = snd (ms_store_encryption_key ''alice'' ''secret'' ms_new), la_sessions = []\<rparr> =
     Some (CB_Ok shown (tok, ''alice'', ''secret'', d), a') \<and>
     token_live (le_now sample_login_env) tok (la_storage a') ''alice''"
  by (rule callback_header_takes_account [OF _ sample_exchange, where b = "[97]"])
    (simp_all add: sample_callback_def sample_login_token is_ascii_def ms_get_encryption_key_def
      ms_store_encryption_key_def ms_new_def hm_get_insert)

section \<open>The session table\<close>

text \<open>
  The steps that change the login state, in any order; the session table may also change its
  iteration order.
\<close>

inductive login_step :: "(string \<Rightarrow> string) \<Rightarrow> login_app \<Rightarrow> login_app \<Rightarrow> bool" for ul :: "string \<Rightarrow> string" where
  "http_oauth_callback ul env q a = Some (r, a') \<Longrightarrow> login_step ul a a'"
| "login_step ul a (a\<lparr>la_sessions := snd (check_auth_status now u d (la_sessions a))\<rparr>)"
| "login_step ul a (a\<lparr>la_sessions := snd (http_register_session oc now d c (la_sessions a))\<rparr>)"
| "login_step ul a (snd (process_auth_notification env n a))"
| "ah_oauth_exchange ul env req (la_storage a) = Some (r, s) \<Longrightarrow> login_step ul a (a\<lparr>la_storage := s\<rparr>)"
| "mset (la_sessions a) = mset m \<Longrightarrow> login_step ul a (a\<lparr>la_sessions := m\<rparr>)"

definition login_init :: login_app where
  "login_init = \<lparr>la_storage = ms_new, la_sessions = []\<rparr>"

definition session_ok :: "auth_session \<Rightarrow> string \<Rightarrow> bool" where
  "session_ok ss k \<longleftrightarrow> ss_device_hash ss = k \<and> ss_expires_at ss = ss_created_at ss + hours 24 \<and>
     (ss_auth_token ss = None \<longleftrightarrow> ss_account_hash ss = None) \<and> (ss_auth_token ss = None \<longleftrightarrow> ss_encryption_key ss = None)"

definition sessions_inv :: "login_app \<Rightarrow> bool" where
  "sessions_inv a = keyed_by session_ok (la_sessions a)"

lemma update_session_get:
  "hm_get (update_session now u d t ac k m) d' =
   (if d' = d then Some ((case hm_get m d of Some ss \<Rightarrow> ss | None \<Rightarrow> pending_session now d (''client_'' @ u))
      \<lparr>ss_auth_token := Some t, ss_account_hash := Some ac, ss_encryption_key := Some k\<rparr>)
    else hm_get m d')"
  by (simp add: update_session_def pending_session_def hm_get_insert split: option.split)

lemma update_session_inv: "keyed_by session_ok m \<Longrightarrow> keyed_by session_ok (update_session now u d t ac k m)"
  by (auto simp: update_session_def session_ok_def keyed_by_def hm_get_insert split: option.split)

lemma update_sessions_inv: "keyed_by session_ok m \<Longrightarrow> keyed_by session_ok (update_sessions env ids t ac k m)"
  unfolding update_sessions_def by (induction ids arbitrary: m) (simp_all add: update_session_inv)

lemma clean_get:
  "hm_wf m \<Longrightarrow> hm_get (clean_expired_sessions now m) d =
   (case hm_get m d of Some ss \<Rightarrow> if ss_expires_at ss < now then None else Some ss | None \<Rightarrow> None)"
  by (auto simp: clean_expired_sessions_def Let_def hm_get_remove_all image_iff hm_entry_iff split: option.split)

lemma clean_inv: "keyed_by session_ok m \<Longrightarrow> keyed_by session_ok (clean_expired_sessions now m)"
  by (simp add: clean_expired_sessions_def Let_def)

lemma pending_ok [simp]: "session_ok (pending_session now d c) d"
  by (simp add: session_ok_def pending_session_def)

lemma check_inv: "keyed_by session_ok m \<Longrightarrow> keyed_by session_ok (snd (check_auth_status now u d m))"
  by (simp add: check_auth_status_def Let_def clean_inv split: option.split)

lemma callback_inv:
  "http_oauth_callback ul env q a = Some (r, a') \<Longrightarrow> keyed_by session_ok (la_sessions a) \<Longrightarrow>
   keyed_by session_ok (la_sessions a')"
  by (auto simp: http_oauth_callback_def Let_def update_sessions_inv split: option.splits bind_splits sum.splits if_splits)

lemma sessions_inv_step:
  assumes "sessions_inv a" "login_step ul a a'"
  shows "sessions_inv a'"
  using assms(2)
proof cases
  case (1 env q r)
  then show ?thesis using assms(1) callback_inv [OF 1] by (simp add: sessions_inv_def)
next
  case (6 m)
  then show ?thesis using assms(1) by (auto simp: sessions_inv_def intro: keyed_by_perm)
qed (use assms(1) in \<open>auto simp: sessions_inv_def check_inv http_register_session_def update_session_inv
      process_auth_notification_def Let_def ms_create_auth_token_def\<close>)

interpretation login_sessions: invariant_system login_init "login_step ul" sessions_inv
  by unfold_locales (simp add: login_init_def sessions_inv_def, rule sessions_inv_step)

lemma check_auth_status_get:
  assumes "hm_wf m"
  shows "hm_get (snd (check_auth_status now u d m)) k =
    (case hm_get m k of
       Some ss \<Rightarrow> if now \<le> ss_expires_at ss then Some ss
                  else if k = d \<and> d \<noteq> [] then Some (pending_session now d (''client_'' @ u)) else None
     | None \<Rightarrow> if k = d \<and> d \<noteq> [] then Some (pending_session now d (''client_'' @ u)) else None)"
  using assms by (auto simp: check_auth_status_def Let_def clean_get hm_get_insert split: option.split)

text \<open>
  C11: in every reachable state, polling the login status of a device answers \<open>complete\<close> exactly
  when the device has a session that was authenticated and has not expired, and then it returns
  the token, account and key of that session; a complete session never lacks one of the three.
  Polling removes the expired sessions and leaves every other one as it is, except that it opens
  a pending session for a device that has none.
\<close>
theorem poll_returns_session:
  assumes "reach login_init (login_step ul) a" "check_auth_status now u d (la_sessions a) = (r, m')"
  shows "(au_is_complete r \<longleftrightarrow> (\<exists>ss. hm_get (la_sessions a) d = Some ss \<and> now \<le> ss_expires_at ss \<and> ss_auth_token ss \<noteq> None)) \<and>
    (\<forall>ss. au_is_complete r \<and> hm_get (la_sessions a) d = Some ss \<longrightarrow>
       ss_auth_token ss = Some (au_auth_token r) \<and> ss_account_hash ss = Some (au_account_hash r) \<and>
       ss_encryption_key ss = Some (au_encryption_key r) \<and> au_session_id r = d \<and> 0 \<le> au_expires_in r) \<and>
    (\<forall>k. hm_get m' k =
       (case hm_get (la_sessions a) k of
          Some ss \<Rightarrow> if now \<le> ss_expires_at ss then Some ss
                     else if k = d \<and> d \<noteq> [] then Some (pending_session now d (''client_'' @ u)) else None
        | None \<Rightarrow> if k = d \<and> d \<noteq> [] then Some (pending_session now d (''client_'' @ u)) else None))"
proof -
  have inv: "keyed_by session_ok (la_sessions a)"
    using login_sessions.reach_inv [OF assms(1)] by (simp add: sessions_inv_def)
  then have wf: "hm_wf (la_sessions a)" by (simp add: keyed_by_def)
  have m': "m' = snd (check_auth_status now u d (la_sessions a))" and r: "r = fst (check_auth_status now u d (la_sessions a))"
    using assms(2) by simp_all
  have complete: "au_is_complete r \<longleftrightarrow>
      (\<exists>ss. hm_get (la_sessions a) d = Some ss \<and> now \<le> ss_expires_at ss \<and> ss_auth_token ss \<noteq> None)"
    unfolding r by (auto simp: check_auth_status_def Let_def clean_get [OF wf] split: option.split)
  have stored: "ss_auth_token ss = Some (au_auth_token r) \<and> ss_account_hash ss = Some (au_account_hash r) \<and>
      ss_encryption_key ss = Some (au_encryption_key r) \<and> au_session_id r = d \<and> 0 \<le> au_expires_in r"
    if "au_is_complete r" and ss: "hm_get (la_sessions a) d = Some ss" for ss
  proof -
    have live: "now \<le> ss_expires_at ss" "ss_auth_token ss \<noteq> None" using that complete by auto
    have "session_ok ss d" using inv ss by (simp add: keyed_by_def)
    then show ?thesis unfolding r using ss live
      by (auto simp: check_auth_status_def Let_def clean_get [OF wf] session_ok_def str_or_default_def)
  qed
  show ?thesis
  proof (intro conjI allI impI)
    fix k
    show "hm_get m' k =
       (case hm_get (la_sessions a) k of
          Some ss \<Rightarrow> if now \<le> ss_expires_at ss then Some ss
                     else if k = d \<and> d \<noteq> [] then Some (pending_session now d (''client_'' @ u)) else None
        | None \<Rightarrow> if k = d \<and> d \<noteq> [] then Some (pending_session now d (''client_'' @ u)) else None)"
      unfolding m' by (rule check_auth_status_get [OF wf])
  qed (use complete stored in blast)+
qed

definition polled_app :: login_app where
  "polled_app = login_init\<lparr>la_sessions := snd (check_auth_status 1 ''u'' ''dev'' (la_sessions login_init))\<rparr>"

lemma polled_app_reach: "reach login_init (login_step ul) polled_app"
  unfolding polled_app_def by (rule reach_step [OF reach_init]) (rule login_step.intros(2))

lemma polled_app_get: "hm_get (la_sessions polled_app) k = (if k = ''dev'' then Some (pending_session 1 ''dev'' ''client_u'') else None)"
  by (simp add: polled_app_def login_init_def check_auth_status_get)

theorem poll_returns_session_witness:
  "\<not> au_is_complete (fst (check_auth_status 2 ''u'' ''dev'' (la_sessions polled_app)))"
  using poll_returns_session [OF polled_app_reach [of id], of 2 "''u''" "''dev''"
      "fst (check_auth_status 2 ''u'' ''dev'' (la_sessions polled_app))"
      "snd (check_auth_status 2 ''u'' ''dev'' (la_sessions polled_app))"]
  by (simp add: polled_app_get pending_session_def)

lemma update_sessions_get:
  "hm_get (update_sessions env ids t ac k m) d =
   (if d \<in> set ids then
      Some ((case hm_get m d of Some ss \<Rightarrow> ss | None \<Rightarrow> pending_session (le_now env) d (''client_'' @ le_client_uuid env))
        \<lparr>ss_auth_token := Some t, ss_account_hash := Some ac, ss_encryption_key := Some k\<rparr>)
    else hm_get m d)"
  unfolding update_sessions_def
  by (induction ids arbitrary: m) (auto simp: update_session_get split: option.split)

lemma pending_ids_iff:
  "hm_wf m \<Longrightarrow> d \<in> set (pending_ids m) \<longleftrightarrow>
   \<not> starts_with d ''temp_'' \<and> (\<exists>ss. hm_get m d = Some ss \<and> ss_auth_token ss = None)"
  by (auto simp: pending_ids_def image_iff hm_entry_iff)

text \<open>
  A callback that carries no device at all, neither as state nor in a header or a cookie,
  completes the pending login of every other device: each session that was waiting now holds
  the token, account and key of the user who has just logged in, and its device receives them
  at its next poll.
\<close>
theorem callback_completes_all_pending:
  assumes "reach login_init (login_step ul) a"
    and "cb_error q = None" "cb_state q = None" "cb_header q ''X-Device-Hash'' = None"
      "cb_header q ''X-Client-Device-Hash'' = None" "cb_cookie q ''device_hash'' = None"
    and "http_oauth_callback ul env q a = Some (CB_Ok shown (tok, acct, key, d0), a')"
    and "hm_get (la_sessions a) d = Some ss" "ss_auth_token ss = None" "\<not> starts_with d ''temp_''"
    and "now \<le> ss_expires_at ss"
  shows "\<exists>r. fst (check_auth_status now u d (la_sessions a')) = r \<and> au_is_complete r \<and>
    au_auth_token r = tok \<and> au_account_hash r = acct \<and> au_encryption_key r = key"
proof -
  let ?u = "\<lambda>ids m. update_sessions env ids tok acct key m"
  have inv: "keyed_by session_ok (la_sessions a)"
    using login_sessions.reach_inv [OF assms(1)] by (simp add: sessions_inv_def)
  have temp: "starts_with (callback_device_hash env q) ''temp_''"
    using assms(3-6) by (simp add: callback_device_hash_def opt_or_def starts_with_def)
  let ?m1 = "?u [callback_device_hash env q] (la_sessions a)"
  have m': "la_sessions a' = ?u (pending_ids ?m1) ?m1"
    using assms(2,7) temp
    by (auto simp: http_oauth_callback_def Let_def split: option.splits bind_splits sum.splits if_splits)
  have wf: "hm_wf ?m1" "hm_wf (la_sessions a')"
    using inv update_sessions_inv unfolding m' by (auto simp: keyed_by_def)
  have "d \<noteq> callback_device_hash env q" using temp assms(10) by auto
  then have "hm_get ?m1 d = Some ss" using assms(8) by (simp add: update_sessions_get)
  then have "hm_get (la_sessions a') d =
      Some (ss\<lparr>ss_auth_token := Some tok, ss_account_hash := Some acct, ss_encryption_key := Some key\<rparr>)"
    unfolding m' using assms(9,10) by (subst update_sessions_get) (simp add: pending_ids_iff [OF wf(1)])
  then show ?thesis using assms(11)
    by (simp add: check_auth_status_def Let_def clean_get [OF wf(2)] str_or_default_def)
qed

definition bare_callback :: callback_request where
  "bare_callback = \<lparr>cb_code = ''c'', cb_state = None, cb_error = None, cb_header = (\<lambda>_. None),
     cb_to_str = (\<lambda>_. None), cb_cookie = (\<lambda>_. None)\<rparr>"

theorem callback_completes_all_pending_witness:
  "\<exists>a' shown tok acct key d0. http_oauth_callback id sample_login_env bare_callback polled_app =
      Some (CB_Ok shown (tok, acct, key, d0), a') \<and>
     au_auth_token (fst (check_auth_status 2 ''u'' ''dev'' (la_sessions a'))) = tok"
proof -
  let ?h = "login_account_hash sample_login_env sample_user None"
  have "callback_account_hash bare_callback = None" by (simp add: bare_callback_def callback_account_hash_def opt_or_def)
  then have h: "?h = login_account_hash sample_login_env sample_user (callback_account_hash bare_callback)" by simp
  have key: "login_key sample_login_env ?h (la_storage polled_app) = ''B''" by code_simp
  obtain a' where run: "http_oauth_callback id sample_login_env bare_callback polled_app =
      Some (CB_Ok (?h, take 20 (login_token sample_login_env), callback_device_hash sample_login_env bare_callback)
        (login_token sample_login_env, ?h, ''B'', callback_device_hash sample_login_env bare_callback), a')"
    using http_oauth_callback_ok [OF _ sample_exchange h key [symmetric], of id]
    by (auto simp: bare_callback_def sample_login_token is_ascii_def)
  have "\<exists>r. fst (check_auth_status 2 ''u'' ''dev'' (la_sessions a')) = r \<and> au_is_complete r \<and>
      au_auth_token r = login_token sample_login_env \<and> au_account_hash r = ?h \<and> au_encryption_key r = ''B''"
    by (rule callback_completes_all_pending [OF polled_app_reach _ _ _ _ _ run, where ss = "pending_session 1 ''dev'' ''client_u''"])
      (simp_all add: bare_callback_def polled_app_get pending_session_def starts_with_def hours_def)
  with run show ?thesis by blast
qed

section \<open>The exchange over gRPC\<close>

lemma auto_register_get:
  assumes "keyed_by (\<lambda>d k. device_key (d_account_hash d) (d_device_hash d) = k) (sd_devices s)"
  shows "\<exists>d s'. auto_register_or_update_device now acct dh os app s = (Ok (), s') \<and>
    ms_get_device acct dh s' = Ok (Some d) \<and> d_is_active d \<and> d_os_version d = os \<and> d_app_version d = app \<and>
    s'\<lparr>sd_devices := sd_devices s\<rparr> = s"
  using assms
  by (auto simp: auto_register_or_update_device_def ms_get_device_def ms_register_device_def Let_def hm_get_insert
      device_update_info_def device_new_def keyed_by_def split: option.split)

text \<open>
  C10: the exchange over gRPC takes the account from the provider only: when it succeeds, the
  account is the hash of the e-mail address the provider returned for the code, the token is
  valid for that account, and the device named in the request, if any, is registered to it,
  active and with the versions of the request.  When the provider refuses the code, nothing
  changes.
\<close>
theorem grpc_exchange_account:
  assumes "ah_oauth_exchange ul env req s = Some (Ok resp, s')" "ms_inv s"
  shows "(xs_success resp \<longrightarrow> (\<exists>at user. exchange_oauth_code_and_authenticate env (xr_code req) = Ok (at, user) \<and>
      xs_account_hash resp = generate_account_hash_from_email_only (le_crypto env) (login_email user) \<and>
      token_live (le_now env) (xs_auth_token resp) s' (xs_account_hash resp) \<and>
      (xr_device_hash req \<noteq> [] \<longrightarrow> (\<exists>d. ms_get_device (xs_account_hash resp) (xr_device_hash req) s' = Ok (Some d) \<and>
         d_is_active d \<and> d_os_version d = xr_os_version req \<and> d_app_version d = xr_app_version req)))) \<and>
    (\<not> xs_success resp \<longrightarrow> isl (exchange_oauth_code_and_authenticate env (xr_code req)) \<and> s' = s)"
proof (cases "exchange_oauth_code_and_authenticate env (xr_code req)")
  case (Inl e)
  then show ?thesis using assms(1) by (auto simp: ah_oauth_exchange_def process_oauth_code_def split: if_splits)
next
  case (Inr p)
  obtain at user where p: "p = (at, user)" by force
  let ?h = "login_account_hash env user None"
  let ?s1 = "after_login ul env user ?h s"
  have resp: "resp = \<lparr>xs_success = True, xs_auth_token = login_token env, xs_account_hash = ?h,
      xs_encryption_key = Some (login_key env ?h s), xs_return_message = ''''\<rparr>"
    and s': "s' = (if xr_device_hash req \<noteq> [] then snd (auto_register_or_update_device (le_now env) ?h
      (xr_device_hash req) (xr_os_version req) (xr_app_version req) ?s1) else ?s1)"
    using assms(1) process_oauth_code_memory [where ul = ul and s = s and cah = None, OF Inr [unfolded p] refl]
    by (auto simp: ah_oauth_exchange_def split: if_splits)
  have "keyed_by (\<lambda>d k. device_key (d_account_hash d) (d_device_hash d) = k) (sd_devices ?s1)"
    using assms(2) by (simp add: after_login_frame ms_inv_def)
  then obtain d s2 where d: "auto_register_or_update_device (le_now env) ?h (xr_device_hash req) (xr_os_version req)
      (xr_app_version req) ?s1 = (Ok (), s2)" "ms_get_device ?h (xr_device_hash req) s2 = Ok (Some d)" "d_is_active d"
      "d_os_version d = xr_os_version req" "d_app_version d = xr_app_version req" "s2\<lparr>sd_devices := sd_devices ?s1\<rparr> = ?s1"
    using auto_register_get by blast
  have "sd_auth_tokens s2 = sd_auth_tokens ?s1" using arg_cong [OF d(6), of sd_auth_tokens] by simp
  then have "token_live (le_now env) (login_token env) s' ?h"
    using after_login_token [of "le_now env" env ul user ?h s ?h] d(1)
    by (simp add: s' token_live_def ms_get_auth_token_def hours_def)
  then show ?thesis
    using Inr d(1-5) by (auto simp: resp s' p login_account_hash_def)
qed

definition sample_exchange_request :: exchange_request where
  "sample_exchange_request = \<lparr>xr_code = ''c'', xr_auth_token = '''', xr_device_hash = ''dev'', xr_os_version = ''6.1'',
     xr_app_version = ''1.0''\<rparr>"

theorem grpc_exchange_account_witness:
  "\<exists>resp s'. ah_oauth_exchange id sample_login_env sample_exchange_request ms_new = Some (Ok resp, s') \<and>
     token_live (le_now sample_login_env) (xs_auth_token resp) s' (xs_account_hash resp)"
proof -
  let ?h = "login_account_hash sample_login_env sample_user None"
  have key: "login_key sample_login_env ?h ms_new = ''B''" by code_simp
  have "token_prefix ''A:0'' \<noteq> None" "token_prefix ''B'' \<noteq> None" by (simp_all add: token_prefix_ascii is_ascii_def)
  then have "process_oauth_code (memory_login id) sample_login_env ''c'' None ms_new =
      Some (Ok (''A:0'', ?h, ''B''), after_login id sample_login_env sample_user ?h ms_new)"
    unfolding process_oauth_code_memory [OF sample_exchange refl] sample_login_token key by simp
  then obtain resp s' where run: "ah_oauth_exchange id sample_login_env sample_exchange_request ms_new = Some (Ok resp, s')"
    "xs_success resp"
    by (auto simp: ah_oauth_exchange_def sample_exchange_request_def)
  have "ms_inv ms_new" by (simp add: ms_inv_def ms_new_def)
  from grpc_exchange_account [OF run(1) this] run show ?thesis by auto
qed

end
