(* ===== verification/Notifications.thy ===== *)
theory Notifications
  imports Crypto Connections
begin

text \<open>
  The notification manager (\<^verbatim>\<open>src/server/notification_manager.rs\<close>) and the connection
  handler (\<^verbatim>\<open>src/server/connection_handler.rs\<close>).  A subscriber's sender is the number of its
  channel; a send succeeds when the receiver is alive (\<open>alive\<close>) and the model records what is
  delivered, in order.  A full channel makes the sender wait and changes nothing else.
\<close>

section \<open>Messages and state\<close>

datatype file_update_type = F_Uploaded | F_Updated | F_Deleted

record file_update_notification =
  fn_account_hash :: string
  fn_device_hash :: string
  fn_file_info :: "p_file_info option"
  fn_update_type :: file_update_type
  fn_timestamp :: i64

datatype notification_error = N_SendError string | N_NotFound string | N_Internal string

fun notification_error_display :: "notification_error \<Rightarrow> string" where
  "notification_error_display (N_SendError m) = ''Failed to send notification: '' @ m"
| "notification_error_display (N_NotFound m) = ''Subscriber not found: '' @ m"
| "notification_error_display (N_Internal m) = ''Internal error: '' @ m"

type_synonym chan = nat
type_synonym 'a nres = "(notification_error, 'a) result"

record notification_manager =
  nm_file_update_subscribers :: "(string, chan) hashmap"
  nm_file_update_alias_accounts :: "(string, string) hashmap"
  nm_watcher_group_update_subscribers :: "(string, chan) hashmap"
  nm_watcher_preset_update_subscribers :: "(string, chan) hashmap"
  nm_transport_encrypt_metadata :: bool

definition nm_new_with_storage :: notification_manager where
  "nm_new_with_storage = \<lparr>nm_file_update_subscribers = [], nm_file_update_alias_accounts = [],
     nm_watcher_group_update_subscribers = [], nm_watcher_preset_update_subscribers = [],
     nm_transport_encrypt_metadata = True\<rparr>"

definition set_transport_encrypt_metadata :: "bool \<Rightarrow> notification_manager \<Rightarrow> notification_manager" where
  "set_transport_encrypt_metadata enabled nm = nm\<lparr>nm_transport_encrypt_metadata := enabled\<rparr>"

section \<open>Subscriptions\<close>

definition register_file_update_subscriber ::
  "string \<Rightarrow> chan \<Rightarrow> notification_manager \<Rightarrow> unit nres \<times> notification_manager" where
  "register_file_update_subscriber key sender nm =
     (Ok (), nm\<lparr>nm_file_update_subscribers := hm_insert key sender (nm_file_update_subscribers nm)\<rparr>)"

definition register_file_update_subscriber_with_alias ::
  "string \<Rightarrow> chan \<Rightarrow> string \<Rightarrow> notification_manager \<Rightarrow> unit nres \<times> notification_manager" where
  "register_file_update_subscriber_with_alias key sender original_account_hash nm =
     (Ok (), nm\<lparr>nm_file_update_subscribers := hm_insert key sender (nm_file_update_subscribers nm),
       nm_file_update_alias_accounts := hm_insert key original_account_hash (nm_file_update_alias_accounts nm)\<rparr>)"

definition unregister_file_update_subscriber ::
  "string \<Rightarrow> notification_manager \<Rightarrow> bool nres \<times> notification_manager" where
  "unregister_file_update_subscriber key nm =
     (Ok (hm_contains (nm_file_update_subscribers nm) key),
      nm\<lparr>nm_file_update_subscribers := hm_remove key (nm_file_update_subscribers nm),
        nm_file_update_alias_accounts := hm_remove key (nm_file_update_alias_accounts nm)\<rparr>)"

definition register_watcher_group_update_subscriber ::
  "string \<Rightarrow> chan \<Rightarrow> notification_manager \<Rightarrow> unit nres \<times> notification_manager" where
  "register_watcher_group_update_subscriber key sender nm =
     (Ok (), nm\<lparr>nm_watcher_group_update_subscribers := hm_insert key sender (nm_watcher_group_update_subscribers nm)\<rparr>)"

definition unregister_watcher_group_update_subscriber ::
  "string \<Rightarrow> notification_manager \<Rightarrow> bool nres \<times> notification_manager" where
  "unregister_watcher_group_update_subscriber key nm =
     (Ok (hm_contains (nm_watcher_group_update_subscribers nm) key),
      nm\<lparr>nm_watcher_group_update_subscribers := hm_remove key (nm_watcher_group_update_subscribers nm)\<rparr>)"

definition register_watcher_preset_update_subscriber ::
  "string \<Rightarrow> chan \<Rightarrow> notification_manager \<Rightarrow> unit nres \<times> notification_manager" where
  "register_watcher_preset_update_subscriber key sender nm =
     (Ok (), nm\<lparr>nm_watcher_preset_update_subscribers := hm_insert key sender (nm_watcher_preset_update_subscribers nm)\<rparr>)"

definition unregister_watcher_preset_update_subscriber ::
  "string \<Rightarrow> notification_manager \<Rightarrow> bool nres \<times> notification_manager" where
  "unregister_watcher_preset_update_subscriber key nm =
     (Ok (hm_contains (nm_watcher_preset_update_subscribers nm) key),
      nm\<lparr>nm_watcher_preset_update_subscribers := hm_remove key (nm_watcher_preset_update_subscribers nm)\<rparr>)"

definition is_watcher_group_subscriber_active :: "string \<Rightarrow> notification_manager \<Rightarrow> bool" where
  "is_watcher_group_subscriber_active key nm = hm_contains (nm_watcher_group_update_subscribers nm) key"

definition get_watcher_group_subscribers :: "notification_manager \<Rightarrow> string list nres" where
  "get_watcher_group_subscribers nm = Ok (hm_keys (nm_watcher_group_update_subscribers nm))"

definition get_file_update_alias_account :: "string \<Rightarrow> notification_manager \<Rightarrow> string option" where
  "get_file_update_alias_account key nm = hm_get (nm_file_update_alias_accounts nm) key"

text \<open>The message tokio gives for a send on a closed channel.\<close>

definition channel_closed :: string where
  "channel_closed = ''channel closed''"

definition ping_watcher_group_subscriber ::
  "(chan \<Rightarrow> bool) \<Rightarrow> string \<Rightarrow> 'm \<Rightarrow> notification_manager \<Rightarrow> unit nres \<times> (string \<times> 'm) list" where
  "ping_watcher_group_subscriber alive key notification nm =
     (case hm_get (nm_watcher_group_update_subscribers nm) key of
        Some sender \<Rightarrow>
          (if alive sender then (Ok (), [(key, notification)])
           else (Err (N_SendError (''Failed to send ping to '' @ key @ '': '' @ channel_closed)), []))
      | None \<Rightarrow> (Err (N_NotFound (''Subscriber not found: '' @ key)), []))"

section \<open>Broadcasting file updates\<close>

definition is_target :: "bool \<Rightarrow> string \<Rightarrow> string \<Rightarrow> string \<Rightarrow> bool" where
  "is_target exclude_source account_hash source_device device_key_s \<longleftrightarrow>
     starts_with device_key_s (account_hash @ '':'') \<and>
     (if exclude_source then \<not> ends_with device_key_s (CHR '':'' # source_device) else True)"

definition apply_alias :: "(string, string) hashmap \<Rightarrow> string \<Rightarrow> file_update_notification \<Rightarrow> file_update_notification" where
  "apply_alias aliases device_key_s n =
     (case hm_get aliases device_key_s of Some alias_acc \<Rightarrow> n\<lparr>fn_account_hash := alias_acc\<rparr> | None \<Rightarrow> n)"

text \<open>
  The metadata encryption of one copy; \<open>nonce\<close> gives the two random nonces and \<open>None\<close> is a
  panic of the cipher.
\<close>

definition encrypt_metadata ::
  "crypto_lib \<Rightarrow> bytes \<times> bytes \<Rightarrow> bool \<Rightarrow> string option sres \<Rightarrow> string \<Rightarrow> string \<Rightarrow>
   file_update_notification \<Rightarrow> file_update_notification option" where
  "encrypt_metadata cl nonce enabled stored_key account_hash device_key_s n =
     (case fn_file_info n of
        None \<Rightarrow> Some n
      | Some fi \<Rightarrow>
          (if \<not> enabled then Some n
           else case stored_key of
             Inr (Some kstr) \<Rightarrow>
               (case parse_account_key cl kstr of
                  Some key \<Rightarrow>
                    (let parts = split_char (CHR '':'') device_key_s;
                         dev = (if length parts = 2 then parts ! 1 else fn_device_hash n);
                         aad = as_bytes (account_hash @ '':'' @ dev)
                     in case aead_encrypt cl (fst nonce) key (as_bytes (pf_file_path fi)) aad of
                          None \<Rightarrow> None
                        | Some ct_path \<Rightarrow>
                            (case aead_encrypt cl (snd nonce) key (as_bytes (pf_filename fi)) aad of
                               None \<Rightarrow> None
                             | Some ct_name \<Rightarrow>
                                 Some (n\<lparr>fn_file_info := Some (fi\<lparr>pf_file_path := cl_b64_nopad cl ct_path,
                                   pf_filename := cl_b64_nopad cl ct_name\<rparr>)\<rparr>)))
                | None \<Rightarrow> Some n)
           | _ \<Rightarrow> Some n))"

text \<open>The loop over the subscribers: the delivered copies and the errors, in order.\<close>

fun broadcast_loop ::
  "(string \<Rightarrow> file_update_notification option) \<Rightarrow> (chan \<Rightarrow> bool) \<Rightarrow> (string \<Rightarrow> bool) \<Rightarrow>
   (string \<times> chan) list \<Rightarrow> ((string \<times> file_update_notification) list \<times> string list) option" where
  "broadcast_loop copy alive target [] = Some ([], [])"
| "broadcast_loop copy alive target ((device_key_s, sender) # rest) =
     (if target device_key_s then
        (case copy device_key_s of
           None \<Rightarrow> None
         | Some n \<Rightarrow>
             map_option (\<lambda>(sent, errs).
                 if alive sender then ((device_key_s, n) # sent, errs)
                 else (sent, (''Failed to send notification to '' @ device_key_s @ '': '' @ channel_closed) # errs))
               (broadcast_loop copy alive target rest))
      else broadcast_loop copy alive target rest)"

definition broadcast_file_update_internal ::
  "crypto_lib \<Rightarrow> (string \<Rightarrow> bytes \<times> bytes) \<Rightarrow> (chan \<Rightarrow> bool) \<Rightarrow> file_update_notification \<Rightarrow> bool \<Rightarrow>
   storage_data \<Rightarrow> notification_manager \<Rightarrow> (nat nres \<times> (string \<times> file_update_notification) list) option" where
  "broadcast_file_update_internal cl nonces alive notification exclude_source s nm =
     (let source_device = fn_device_hash notification;
          account_hash = fn_account_hash notification;
          copy = (\<lambda>k. encrypt_metadata cl (nonces k) (nm_transport_encrypt_metadata nm)
                    (ms_get_encryption_key account_hash s) account_hash k
                    (apply_alias (nm_file_update_alias_accounts nm) k notification))
      in case broadcast_loop copy alive (is_target exclude_source account_hash source_device)
                (nm_file_update_subscribers nm) of
           None \<Rightarrow> None
         | Some (sent, errs) \<Rightarrow>
             Some (if errs \<noteq> [] \<and> length sent = 0 then Err (N_SendError (join ''; '' errs)) else Ok (length sent), sent))"

definition broadcast_file_update ::
  "crypto_lib \<Rightarrow> (string \<Rightarrow> bytes \<times> bytes) \<Rightarrow> (chan \<Rightarrow> bool) \<Rightarrow> file_update_notification \<Rightarrow>
   storage_data \<Rightarrow> notification_manager \<Rightarrow> (nat nres \<times> (string \<times> file_update_notification) list) option" where
  "broadcast_file_update cl nonces alive notification s nm =
     broadcast_file_update_internal cl nonces alive notification True s nm"

definition broadcast_file_update_including_source ::
  "crypto_lib \<Rightarrow> (string \<Rightarrow> bytes \<times> bytes) \<Rightarrow> (chan \<Rightarrow> bool) \<Rightarrow> file_update_notification \<Rightarrow>
   storage_data \<Rightarrow> notification_manager \<Rightarrow> (nat nres \<times> (string \<times> file_update_notification) list) option" where
  "broadcast_file_update_including_source cl nonces alive notification s nm =
     broadcast_file_update_internal cl nonces alive notification False s nm"

section \<open>Broadcasting watcher updates\<close>

text \<open>The loop shared by the group and the preset broadcasts; failures are only logged.\<close>

fun watcher_broadcast_loop ::
  "(chan \<Rightarrow> bool) \<Rightarrow> string \<Rightarrow> string option \<Rightarrow> 'm \<Rightarrow> (string \<times> chan) list \<Rightarrow> (string \<times> 'm) list" where
  "watcher_broadcast_loop alive account_hash exclude_device_hash update [] = []"
| "watcher_broadcast_loop alive account_hash exclude_device_hash update ((subscriber_key, sender) # rest) =
     (let key_parts = split_char (CHR '':'') subscriber_key;
          continue = watcher_broadcast_loop alive account_hash exclude_device_hash update rest
      in if length key_parts \<noteq> 2 then continue
         else let subscriber_account_hash = key_parts ! 0; subscriber_device_hash = key_parts ! 1 in
           if subscriber_account_hash \<noteq> account_hash then continue
           else if exclude_device_hash = Some subscriber_device_hash then continue
           else if alive sender then (subscriber_key, update) # continue
           else continue)"

definition broadcast_watcher_group_update ::
  "(chan \<Rightarrow> bool) \<Rightarrow> string \<Rightarrow> string option \<Rightarrow> 'm \<Rightarrow> notification_manager \<Rightarrow> unit nres \<times> (string \<times> 'm) list" where
  "broadcast_watcher_group_update alive account_hash exclude_device_hash update nm =
     (Ok (), watcher_broadcast_loop alive account_hash exclude_device_hash update
        (nm_watcher_group_update_subscribers nm))"

definition broadcast_watcher_preset_update ::
  "(chan \<Rightarrow> bool) \<Rightarrow> string \<Rightarrow> string option \<Rightarrow> 'm \<Rightarrow> notification_manager \<Rightarrow> unit nres \<times> (string \<times> 'm) list" where
  "broadcast_watcher_preset_update alive account_hash exclude_device_hash update nm =
     (Ok (), watcher_broadcast_loop alive account_hash exclude_device_hash update
        (nm_watcher_preset_update_subscribers nm))"

section \<open>Connection handler\<close>

text \<open>\<open>None\<close> in place of the application state is a handler without one.\<close>

record conn_app =
  ca_client_store :: "client_store option"
  ca_notification_manager :: notification_manager

definition handle_disconnect :: "datetime \<Rightarrow> string \<Rightarrow> conn_app option \<Rightarrow> conn_app option" where
  "handle_disconnect now client_id h =
     (case h of
        None \<Rightarrow> None
      | Some a \<Rightarrow> Some (a\<lparr>ca_client_store := map_option (set_client_connected now client_id False) (ca_client_store a),
          ca_notification_manager := snd (unregister_file_update_subscriber client_id (ca_notification_manager a))\<rparr>))"

definition try_reconnect :: "datetime \<Rightarrow> string \<Rightarrow> conn_app option \<Rightarrow> bool \<times> conn_app option" where
  "try_reconnect now client_id h =
     (case h of
        None \<Rightarrow> (False, h)
      | Some a \<Rightarrow>
          (case ca_client_store a of
             Some st \<Rightarrow> (True, Some (a\<lparr>ca_client_store := Some (set_client_connected now client_id True st)\<rparr>))
           | None \<Rightarrow> (False, h)))"

text \<open>
  The retry loop: \<open>clock\<close> lists the current time at each attempt, one per allowed attempt; the
  waiting times before the attempts are returned.  \<^verbatim>\<open>2u64.pow(n)\<close> wraps.
\<close>

fun reconnect_loop :: "nat \<Rightarrow> datetime list \<Rightarrow> string \<Rightarrow> conn_app option \<Rightarrow> bool \<times> u64 list \<times> conn_app option" where
  "reconnect_loop attempts [] client_id h = (False, [], h)"
| "reconnect_loop attempts (now # clock) client_id h =
     (let attempts = attempts + 1; wait_time = 2 ^ attempts in
      case try_reconnect now client_id h of
        (True, h') \<Rightarrow> (True, [wait_time], h')
      | (False, h') \<Rightarrow>
          (case reconnect_loop attempts clock client_id h' of (r, ws, h'') \<Rightarrow> (r, wait_time # ws, h'')))"

definition handle_reconnect :: "datetime list \<Rightarrow> string \<Rightarrow> conn_app option \<Rightarrow> bool \<times> u64 list \<times> conn_app option" where
  "handle_reconnect clock client_id h = reconnect_loop 0 clock client_id h"

section \<open>Who receives what\<close>

definition no_colon :: "string \<Rightarrow> bool" where
  "no_colon s \<longleftrightarrow> CHR '':'' \<notin> set s"

lemma is_target_key:
  assumes "no_colon a" "no_colon d" "no_colon acct" "no_colon src"
  shows "is_target excl acct src (device_key a d) \<longleftrightarrow> a = acct \<and> (excl \<longrightarrow> d \<noteq> src)"
  using assms sep_key_prefix [of "CHR '':''" acct a d] sep_key_suffix [of "CHR '':''" d src a]
  by (auto simp: is_target_def starts_with_def device_key_def no_colon_def)

lemma broadcast_loop_sent:
  "broadcast_loop copy alive target subs = Some (sent, errs) \<Longrightarrow>
   map fst sent = map fst (filter (\<lambda>(k, c). target k \<and> alive c) subs) \<and>
   length errs = length (filter (\<lambda>(k, c). target k \<and> \<not> alive c) subs)"
  by (induction subs arbitrary: sent errs) (auto split: if_splits option.splits)

lemma filter_entry_keys:
  "hm_wf m \<Longrightarrow> k \<in> set (map fst (filter (\<lambda>(k, c). P k \<and> Q c) m)) \<longleftrightarrow> (\<exists>c. hm_get m k = Some c \<and> Q c) \<and> P k"
  by (auto simp: image_iff hm_entry_iff)

lemma broadcast_loop_copy:
  "broadcast_loop copy alive target subs = Some (sent, errs) \<Longrightarrow> (k, n) \<in> set sent \<Longrightarrow> copy k = Some n \<and> target k"
  by (induction subs arbitrary: sent errs) (auto split: if_splits option.splits)

lemma broadcast_loop_total:
  "\<forall>k. \<exists>n. copy k = Some n \<Longrightarrow> \<exists>sent errs. broadcast_loop copy alive target subs = Some (sent, errs)"
proof (induction subs)
  case Nil
  then show ?case by simp
next
  case (Cons e subs)
  then obtain n sent errs where "copy (fst e) = Some n" "broadcast_loop copy alive target subs = Some (sent, errs)"
    by blast
  then show ?case by (cases e) simp
qed

lemma encrypt_metadata_same:
  "encrypt_metadata cl nonce en sk acct k n = Some m \<Longrightarrow>
   fn_account_hash m = fn_account_hash n \<and> fn_device_hash m = fn_device_hash n \<and>
   fn_update_type m = fn_update_type n \<and> fn_timestamp m = fn_timestamp n"
  by (auto simp: encrypt_metadata_def Let_def split: option.splits if_splits sum.splits)

lemma apply_alias_same [simp]:
  "fn_file_info (apply_alias al k n) = fn_file_info n" "fn_device_hash (apply_alias al k n) = fn_device_hash n"
  by (simp_all add: apply_alias_def split: option.split)

text \<open>
  C12: a file update reaches exactly the live subscribers of the same account other than the
  device it came from (or all of them when the source is included): the result counts them,
  and it is an error exactly when there is a target and none of the targets is alive.  Stated
  for subscriber keys, accounts and device hashes without a colon.
\<close>
theorem broadcast_file_update_recipients:
  assumes "broadcast_file_update_internal cl nonces alive n excl s nm = Some (r, sent)"
    and "hm_wf (nm_file_update_subscribers nm)"
    and "no_colon a" "no_colon d" "no_colon (fn_account_hash n)" "no_colon (fn_device_hash n)"
  shows "(device_key a d \<in> fst ` set sent \<longleftrightarrow>
       (\<exists>c. hm_get (nm_file_update_subscribers nm) (device_key a d) = Some c \<and> alive c) \<and>
       a = fn_account_hash n \<and> (excl \<longrightarrow> d \<noteq> fn_device_hash n)) \<and>
    distinct (map fst sent) \<and>
    (\<forall>k. r = Ok k \<longrightarrow> k = length sent) \<and>
    ((\<exists>e. r = Err e) \<longleftrightarrow> sent = [] \<and> (\<exists>(k, c) \<in> set (nm_file_update_subscribers nm).
       is_target excl (fn_account_hash n) (fn_device_hash n) k \<and> \<not> alive c))"
proof -
  let ?subs = "nm_file_update_subscribers nm"
  let ?t = "is_target excl (fn_account_hash n) (fn_device_hash n)"
  obtain copy errs where loop: "broadcast_loop copy alive ?t ?subs = Some (sent, errs)"
    and r: "r = (if errs \<noteq> [] \<and> length sent = 0 then Err (N_SendError (join ''; '' errs)) else Ok (length sent))"
    using assms(1) by (auto simp: broadcast_file_update_internal_def Let_def split: option.splits prod.splits)
  have keys: "map fst sent = map fst (filter (\<lambda>(k, c). ?t k \<and> alive c) ?subs)"
    and errs: "length errs = length (filter (\<lambda>(k, c). ?t k \<and> \<not> alive c) ?subs)"
    using broadcast_loop_sent [OF loop] by simp_all
  have "distinct (map fst sent)"
    unfolding keys using assms(2) by (simp add: hm_wf_def distinct_map_filter)
  moreover have "device_key a d \<in> fst ` set sent \<longleftrightarrow>
      (\<exists>c. hm_get ?subs (device_key a d) = Some c \<and> alive c) \<and> ?t (device_key a d)"
    unfolding set_map [symmetric] keys by (rule filter_entry_keys) (rule assms(2))
  moreover have "errs \<noteq> [] \<longleftrightarrow> (\<exists>(k, c) \<in> set ?subs. ?t k \<and> \<not> alive c)"
  proof -
    have "errs = [] \<longleftrightarrow> filter (\<lambda>(k, c). ?t k \<and> \<not> alive c) ?subs = []" using errs by (metis length_0_conv)
    then show ?thesis by (auto simp: filter_empty_conv)
  qed
  ultimately show ?thesis
    unfolding is_target_key [OF assms(3-6)] r by auto
qed

definition sample_nm :: notification_manager where
  "sample_nm = snd (register_file_update_subscriber ''a:d2'' 2 (snd (register_file_update_subscriber ''a:d1'' 1
     nm_new_with_storage)))"

definition sample_note :: file_update_notification where
  "sample_note = \<lparr>fn_account_hash = ''a'', fn_device_hash = ''d1'',
     fn_file_info = Some (proto_of_file_info (file_info_of_proto \<lparr>ch_from_timestamp = (\<lambda>_ _. None),
       ch_timestamp = (\<lambda>_. 0), ch_subsec_nanos = (\<lambda>_. 0)\<rparr> 0
       \<lparr>pf_file_id = 1, pf_filename = ''f'', pf_file_hash = ''h'', pf_updated_time = None, pf_device_hash = ''d1'',
        pf_group_id = 1, pf_watcher_id = 1, pf_is_encrypted = False, pf_file_path = ''~/p'', pf_revision = 1,
        pf_file_size = 3\<rparr>)),
     fn_update_type = F_Uploaded, fn_timestamp = 0\<rparr>"

lemmas sample_nm_defs = sample_nm_def register_file_update_subscriber_def nm_new_with_storage_def

theorem broadcast_file_update_recipients_witness:
  "\<exists>r sent. broadcast_file_update_internal sample_lib (\<lambda>_. ([], [])) (\<lambda>_. True) sample_note True ms_new sample_nm =
     Some (r, sent) \<and> ''a:d2'' \<in> fst ` set sent"
proof -
  have wf: "hm_wf (nm_file_update_subscribers sample_nm)"
    by (simp add: sample_nm_defs)
  have get: "hm_get (nm_file_update_subscribers sample_nm) ''a:d2'' = Some 2"
    by (simp add: sample_nm_defs hm_get_insert)
  have "\<forall>k. \<exists>m. encrypt_metadata sample_lib ([], []) True (ms_get_encryption_key ''a'' ms_new) ''a'' k
      (apply_alias [] k sample_note) = Some m"
    by (simp add: encrypt_metadata_def ms_get_encryption_key_def ms_new_def split: option.split)
  then obtain r sent where b: "broadcast_file_update_internal sample_lib (\<lambda>_. ([], [])) (\<lambda>_. True)
      sample_note True ms_new sample_nm = Some (r, sent)"
    using broadcast_loop_total [of "\<lambda>k. encrypt_metadata sample_lib ([], []) True (ms_get_encryption_key ''a'' ms_new)
        ''a'' k (apply_alias [] k sample_note)" "\<lambda>_. True" "is_target True ''a'' ''d1''"
        "nm_file_update_subscribers sample_nm"]
    by (auto simp: broadcast_file_update_internal_def sample_note_def sample_nm_defs)
  with broadcast_file_update_recipients [OF b wf, of "''a''" "''d2''"] get
  show ?thesis by (auto simp: no_colon_def sample_note_def device_key_def)
qed

text \<open>
  The encryption of file names in notifications never happens with a key the server
  itself generated.  Such a key has 32 characters, which base64 decodes to at most 24 bytes,
  and the parser requires 32: every subscriber receives the plain path and name, although the
  encryption flag is on.
\<close>
theorem generated_key_sends_plaintext:
  assumes "\<And>str b. cl_b64_decode cl str = Some b \<Longrightarrow> 4 * length b \<le> 3 * length str"
    and "\<And>str b. cl_b64_decode_nopad cl str = Some b \<Longrightarrow> 4 * length b \<le> 3 * length str"
    and "ms_get_encryption_key (fn_account_hash n) s = Ok (Some (es_generate_encryption_key rnd))"
  shows "\<exists>r sent. broadcast_file_update_internal cl nonces alive n excl s nm = Some (r, sent) \<and>
    (\<forall>(k, m) \<in> set sent. fn_file_info m = fn_file_info n)"
proof -
  have "length (es_generate_encryption_key rnd) = 32"
    by (simp add: es_generate_encryption_key_def ENCRYPTION_KEY_LENGTH_def)
  then have none: "parse_account_key cl (es_generate_encryption_key rnd) = None"
    using assms(1,2) [of "es_generate_encryption_key rnd"]
    by (fastforce simp: parse_account_key_def split: option.split)
  let ?copy = "\<lambda>k. encrypt_metadata cl (nonces k) (nm_transport_encrypt_metadata nm)
    (ms_get_encryption_key (fn_account_hash n) s) (fn_account_hash n) k
    (apply_alias (nm_file_update_alias_accounts nm) k n)"
  have copy: "?copy k = Some (apply_alias (nm_file_update_alias_accounts nm) k n)" for k
    by (simp add: encrypt_metadata_def assms(3) none split: option.split)
  obtain sent errs where loop: "broadcast_loop ?copy alive
      (is_target excl (fn_account_hash n) (fn_device_hash n)) (nm_file_update_subscribers nm) = Some (sent, errs)"
    using broadcast_loop_total [of ?copy] copy by blast
  moreover have "fn_file_info m = fn_file_info n" if "(k, m) \<in> set sent" for k m
  proof -
    have "?copy k = Some m" using broadcast_loop_copy [OF loop that] by simp
    then show ?thesis by (auto simp: copy)
  qed
  ultimately show ?thesis by (auto simp: broadcast_file_update_internal_def Let_def)
qed

theorem generated_key_sends_plaintext_witness:
  "\<exists>r sent. broadcast_file_update_internal sample_lib (\<lambda>_. ([], [])) (\<lambda>_. True) sample_note True
     (snd (es_get_or_create_key (\<lambda>_. CHR ''x'') ''a'' ms_new)) sample_nm = Some (r, sent) \<and>
     (\<forall>(k, m) \<in> set sent. fn_file_info m = fn_file_info sample_note)"
proof (rule generated_key_sends_plaintext [where rnd = "\<lambda>_. CHR ''x''"])
  show "ms_get_encryption_key (fn_account_hash sample_note) (snd (es_get_or_create_key (\<lambda>_. CHR ''x'') ''a'' ms_new)) =
      Ok (Some (es_generate_encryption_key (\<lambda>_. CHR ''x'')))"
    by (simp add: sample_note_def es_get_or_create_key_def ms_get_encryption_key_def ms_new_def
        ms_store_encryption_key_def Let_def hm_get_insert)
qed (auto simp: sample_lib_def as_bytes_def)

lemma split_two_iff:
  "length (split_char (CHR '':'') k) = 2 \<longleftrightarrow> (\<exists>a d. k = device_key a d \<and> no_colon a \<and> no_colon d)"
proof
  assume "length (split_char (CHR '':'') k) = 2"
  then obtain a d where ad: "split_char (CHR '':'') k = [a, d]"
    by (auto simp: length_Suc_conv numeral_2_eq_2)
  then have "no_colon a" "no_colon d" using split_char_pieces [of _ "CHR '':''" k] by (auto simp: no_colon_def)
  moreover have "k = device_key a d" using join_split_char [of "CHR '':''" k] ad by (simp add: device_key_def)
  ultimately show "\<exists>a d. k = device_key a d \<and> no_colon a \<and> no_colon d" by blast
qed (auto simp: device_key_def no_colon_def split_char_append split_char_no_sep)

lemma split_device_key:
  "no_colon a \<Longrightarrow> no_colon d \<Longrightarrow> split_char (CHR '':'') (device_key a d) = [a, d]"
  by (simp add: device_key_def no_colon_def split_char_append split_char_no_sep)

definition watcher_target :: "string \<Rightarrow> string option \<Rightarrow> string \<Rightarrow> bool" where
  "watcher_target acct excl k \<longleftrightarrow>
     length (split_char (CHR '':'') k) = 2 \<and> split_char (CHR '':'') k ! 0 = acct \<and>
     excl \<noteq> Some (split_char (CHR '':'') k ! 1)"

lemma watcher_broadcast_loop_eq:
  "watcher_broadcast_loop alive acct excl u subs =
   map (\<lambda>(k, c). (k, u)) (filter (\<lambda>(k, c). watcher_target acct excl k \<and> alive c) subs)"
proof (induction subs)
  case Nil
  then show ?case by simp
next
  case (Cons e subs)
  then show ?case by (cases e) (simp add: watcher_target_def Let_def)
qed

text \<open>
  A watcher-group or preset update is delivered, unchanged and once each, to exactly the
  live subscribers whose key consists of the account, one colon and a device hash other than
  the excluded one; keys of any other shape never receive it.
\<close>
theorem watcher_broadcast_recipients:
  assumes "hm_wf (nm_watcher_group_update_subscribers nm)"
  shows "\<exists>sent. broadcast_watcher_group_update alive acct excl u nm = (Ok (), sent) \<and>
    distinct (map fst sent) \<and> (\<forall>(k, m) \<in> set sent. m = u) \<and>
    (\<forall>k. k \<in> fst ` set sent \<longleftrightarrow>
       (\<exists>c d. hm_get (nm_watcher_group_update_subscribers nm) k = Some c \<and> alive c \<and>
          k = device_key acct d \<and> no_colon acct \<and> no_colon d \<and> excl \<noteq> Some d))"
proof -
  let ?subs = "nm_watcher_group_update_subscribers nm"
  let ?sent = "watcher_broadcast_loop alive acct excl u ?subs"
  have keys: "map fst ?sent = map fst (filter (\<lambda>(k, c). watcher_target acct excl k \<and> alive c) ?subs)"
    by (simp add: watcher_broadcast_loop_eq comp_def case_prod_beta)
  have "distinct (map fst ?sent)" unfolding keys using assms by (simp add: hm_wf_def distinct_map_filter)
  moreover have "\<forall>(k, m) \<in> set ?sent. m = u" by (auto simp: watcher_broadcast_loop_eq)
  moreover have "watcher_target acct excl k \<longleftrightarrow>
      (\<exists>d. k = device_key acct d \<and> no_colon acct \<and> no_colon d \<and> excl \<noteq> Some d)" for k
    using split_two_iff [of k] split_device_key
    unfolding watcher_target_def by fastforce
  then have "k \<in> fst ` set ?sent \<longleftrightarrow> (\<exists>c d. hm_get ?subs k = Some c \<and> alive c \<and> k = device_key acct d \<and>
      no_colon acct \<and> no_colon d \<and> excl \<noteq> Some d)" for k
    unfolding set_map [symmetric] keys filter_entry_keys [OF assms] by blast
  ultimately show ?thesis by (simp add: broadcast_watcher_group_update_def)
qed

theorem watcher_broadcast_recipients_witness:
  "\<exists>sent. broadcast_watcher_group_update (\<lambda>_. True) ''a'' (Some ''d1'') True
      (snd (register_watcher_group_update_subscriber ''a:d2'' 2 nm_new_with_storage)) = (Ok (), sent) \<and>
     ''a:d2'' \<in> fst ` set sent"
proof -
  let ?nm = "snd (register_watcher_group_update_subscriber ''a:d2'' 2 nm_new_with_storage)"
  let ?subs = "nm_watcher_group_update_subscribers ?nm"
  have wf: "hm_wf ?subs" and get: "hm_get ?subs ''a:d2'' = Some 2"
    by (simp_all add: register_watcher_group_update_subscriber_def nm_new_with_storage_def hm_get_insert)
  obtain sent where sent: "broadcast_watcher_group_update (\<lambda>_. True) ''a'' (Some ''d1'') True ?nm = (Ok (), sent)"
    and iff: "\<forall>k. k \<in> fst ` set sent \<longleftrightarrow> (\<exists>c d. hm_get ?subs k = Some c \<and> True \<and>
      k = device_key ''a'' d \<and> no_colon ''a'' \<and> no_colon d \<and> Some ''d1'' \<noteq> Some d)"
    using watcher_broadcast_recipients [OF wf, of "\<lambda>_. True" "''a''" "Some ''d1''" True] by metis
  have "''a:d2'' \<in> fst ` set sent"
    unfolding iff [rule_format]
    by (rule exI [of _ 2], rule exI [of _ "''d2''"]) (simp only: get, simp add: device_key_def no_colon_def)
  with sent show ?thesis by blast
qed

end
