(* ===== verification/Memory_Behaviour.thy ===== *)
theory Memory_Behaviour
  imports Memory_Correct
begin

text \<open>
  What each operation of the in-memory storage does: the table contracts of \<open>Interfaces\<close>
  for accounts, tokens, keys, presets and file contents, and the success and error behaviour of the
  file, watcher-group, watcher and condition operations.
\<close>

section \<open>Table contracts\<close>

text \<open>A record used by the examples.\<close>

definition sample_file :: "string \<Rightarrow> u64 \<Rightarrow> file_info" where
  "sample_file acct i = \<lparr>fi_file_id = i, fi_filename = ''f'', fi_file_hash = ''h'', fi_device_hash = ''d'',
     fi_group_id = 1, fi_watcher_id = 1, fi_is_encrypted = False, fi_file_path = ''/p'',
     fi_updated_time = \<lparr>ts_seconds = 0, ts_nanos = 0\<rparr>, fi_revision = 1, fi_account_hash = acct,
     fi_size = 0, fi_key_id = None\<rparr>"

definition sres_opt :: "'a option sres \<Rightarrow> 'a option" where
  "sres_opt r = (case r of Inr v \<Rightarrow> v | Inl _ \<Rightarrow> None)"

interpretation accounts: keyed_table
  "\<lambda>a s. snd (ms_create_account a s)" "\<lambda>s h. sres_opt (ms_get_account_by_hash h s)"
  a_account_hash "\<lambda>a. a" "\<lambda>h s. snd (ms_delete_account h s)"
  by unfold_locales
    (simp_all add: ms_account_defs ms_get_account_by_hash_def sres_opt_def hm_get_insert hm_get_remove)

interpretation auth_tokens: keyed_table
  "\<lambda>t s. snd (ms_create_auth_token t s)" "\<lambda>s k. sres_opt (ms_get_auth_token k s)"
  t_access_token "\<lambda>t. t" "\<lambda>k s. snd (ms_delete_auth_token k s)"
  by unfold_locales
    (simp_all add: ms_account_defs ms_get_auth_token_def sres_opt_def hm_get_insert hm_get_remove)

interpretation encryption_keys: kv_store
  "\<lambda>(a, k) s. snd (ms_store_encryption_key a k s)" "\<lambda>s a. sres_opt (ms_get_encryption_key a s)" fst snd
  by unfold_locales (auto simp: ms_key_defs ms_get_encryption_key_def sres_opt_def hm_get_insert)

interpretation file_contents: kv_store
  "\<lambda>(i, b) s. snd (ms_store_file_data i b s)" "\<lambda>s i. sres_opt (ms_get_file_data i s)" fst snd
  by unfold_locales (auto simp: ms_file_defs ms_get_file_data_def sres_opt_def hm_get_insert)

text \<open>
  For any sequence of account creations and deletions, looking an account up by its hash
  in the in-memory storage gives what the same sequence of updates gives on a partial
  function from hashes to accounts.
\<close>
theorem account_table_refines:
  "(\<lambda>h. sres_opt (ms_get_account_by_hash h (fold accounts.run_cmd cs s))) =
   fold accounts.abs_cmd cs (\<lambda>h. sres_opt (ms_get_account_by_hash h s))"
  by (rule accounts.get_run_cmds)

text \<open>
  A token is accepted by \<^verbatim>\<open>validate_auth_token\<close> exactly when, over any history of
  creations and deletions, the last command about it created it for that very account.
\<close>
theorem auth_token_history:
  "ms_validate_auth_token tok acct (fold auth_tokens.run_cmd cs ms_new) =
   Ok (case fold auth_tokens.abs_cmd cs (\<lambda>_. None) tok of Some t \<Rightarrow> t_account_hash t = acct | None \<Rightarrow> False)"
proof -
  have new: "(\<lambda>k. sres_opt (ms_get_auth_token k ms_new)) = (\<lambda>_. None)"
    by (simp add: ms_get_auth_token_def sres_opt_def ms_new_def fun_eq_iff)
  have v: "ms_validate_auth_token tok acct s =
      Ok (case sres_opt (ms_get_auth_token tok s) of Some t \<Rightarrow> t_account_hash t = acct | None \<Rightarrow> False)" for s
    by (simp add: ms_validate_auth_token_def ms_get_auth_token_def sres_opt_def split: option.split)
  show ?thesis
    using fun_cong [OF auth_tokens.get_run_cmds [of cs ms_new], of tok]
    by (simp only: v new)
qed

section \<open>Devices\<close>

lemma device_key_inj:
  "CHR '':'' \<notin> set a \<Longrightarrow> CHR '':'' \<notin> set a' \<Longrightarrow>
   device_key a d = device_key a' d' \<longleftrightarrow> a = a' \<and> d = d'"
  unfolding device_key_def using sep_key_inj by metis

text \<open>
  For account hashes without a colon, devices of different accounts never interfere:
  registering a device changes the lookup of that account and device hash only.
\<close>
theorem device_lookup_after_register:
  assumes "CHR '':'' \<notin> set acct" "CHR '':'' \<notin> set (d_account_hash dev)"
  shows "ms_get_device acct dh (snd (ms_register_device dev s)) =
    (if acct = d_account_hash dev \<and> dh = d_device_hash dev then Ok (Some dev) else ms_get_device acct dh s)"
  using assms by (simp add: ms_get_device_def ms_device_defs Let_def hm_get_insert device_key_inj)

theorem device_lookup_after_register_witness:
  "ms_get_device ''b'' ''d''
     (snd (ms_register_device (device_new 0 ''a'' ''d'' True ''6.1'' ''1.0'') ms_new)) = Ok None"
  using device_lookup_after_register [of "''b''" "device_new 0 ''a'' ''d'' True ''6.1'' ''1.0''" "''d''" ms_new]
  by (simp add: device_new_def ms_get_device_def ms_new_def)

section \<open>Files\<close>

text \<open>
  \<^verbatim>\<open>store_file_info\<close> always succeeds and stores the record under the identifier it
  returns, which is the one given or, for 0, the counter; every other record, all file
  contents and the other tables are untouched, and the counter moves only when it was used.
\<close>
theorem store_file_info_spec:
  "\<exists>fid s'. ms_store_file_info f s = (Ok fid, s') \<and>
     fid = (if fi_file_id f = 0 then sd_next_file_id s else fi_file_id f) \<and>
     ms_get_file_info fid s' = Ok (Some (f\<lparr>fi_file_id := fid\<rparr>)) \<and>
     (\<forall>i. i \<noteq> fid \<longrightarrow> ms_get_file_info i s' = ms_get_file_info i s) \<and>
     sd_next_file_id s' = (if fi_file_id f = 0 then sd_next_file_id s + 1 else sd_next_file_id s) \<and>
     s'\<lparr>sd_files := sd_files s, sd_next_file_id := sd_next_file_id s\<rparr> = s"
  by (simp add: ms_store_file_info_def ms_get_file_info_def hm_get_insert)

theorem store_file_info_spec_witness:
  "\<exists>fid s'. ms_store_file_info (sample_file ''a'' 0) ms_new = (Ok fid, s') \<and>
     (\<forall>i. i \<noteq> fid \<longrightarrow> ms_get_file_info i s' = Ok None)"
  using store_file_info_spec [of "sample_file ''a'' 0" ms_new] by (auto simp: ms_get_file_info_def ms_new_def)

text \<open>
  \<^verbatim>\<open>delete_file\<close> succeeds exactly for a stored file of the calling account, and
  then removes its record and its contents and nothing else; for an unknown file or another
  account's file it reports \<^verbatim>\<open>NotFound\<close> or \<^verbatim>\<open>PermissionDenied\<close> and changes nothing.
\<close>
theorem delete_file_spec:
  "case hm_get (sd_files s) fid of
     None \<Rightarrow> ms_delete_file acct fid s = (Err (SE_NotFound (''File not found: '' @ show_u64 fid)), s)
   | Some f \<Rightarrow>
       if fi_account_hash f \<noteq> acct
       then ms_delete_file acct fid s = (Err (SE_PermissionDenied (''File not owned by user: '' @ acct)), s)
       else \<exists>s'. ms_delete_file acct fid s = (Ok (), s') \<and>
              (\<forall>i. ms_get_file_info i s' = (if i = fid then Ok None else ms_get_file_info i s)) \<and>
              (\<forall>i. ms_get_file_data i s' = (if i = fid then Ok None else ms_get_file_data i s)) \<and>
              s'\<lparr>sd_files := sd_files s, sd_file_data := sd_file_data s\<rparr> = s"
  by (simp add: ms_delete_file_def ms_get_file_info_def ms_get_file_data_def hm_get_remove split: option.split)

text \<open>
  The counter of \<^verbatim>\<open>store_file_info\<close> does not look at the stored identifiers: a record
  stored under an explicit identifier is overwritten by the later record that is given the
  same number.
\<close>
theorem store_file_info_overwrites:
  assumes "fi_file_id f = sd_next_file_id s" "fi_file_id f \<noteq> 0" "fi_file_id g = 0"
  shows "\<exists>s'. snd (ms_store_file_info g (snd (ms_store_file_info f s))) = s' \<and>
    ms_get_file_info (fi_file_id f) s' = Ok (Some (g\<lparr>fi_file_id := fi_file_id f\<rparr>))"
  using assms by (simp add: ms_store_file_info_def ms_get_file_info_def hm_get_insert)

theorem store_file_info_overwrites_witness:
  "\<exists>s'. snd (ms_store_file_info (sample_file ''b'' 0) (snd (ms_store_file_info (sample_file ''a'' 1) ms_new))) = s' \<and>
    ms_get_file_info 1 s' = Ok (Some (sample_file ''b'' 1))"
  using store_file_info_overwrites [of "sample_file ''a'' 1" ms_new "sample_file ''b'' 0"]
  by (simp add: sample_file_def ms_new_def)

lemma list_files_char:
  assumes "keyed_by (\<lambda>f k. fi_file_id f = k) (sd_files s)"
  shows "\<exists>fs. ms_list_files_except_device acct grp dev from s = Ok fs \<and> distinct (map fi_file_id fs) \<and>
    (\<forall>f. f \<in> set fs \<longleftrightarrow> ms_get_file_info (fi_file_id f) s = Ok (Some f) \<and> fi_account_hash f = acct \<and>
       fi_group_id f = grp \<and> fi_device_hash f \<noteq> dev \<and> time_ok from f)"
proof -
  let ?m = "sd_files s"
  have wf: "hm_wf ?m" and keys: "\<And>k f. hm_get ?m k = Some f \<Longrightarrow> fi_file_id f = k"
    using assms by (simp_all add: keyed_by_def)
  have "\<And>k f. (k, f) \<in> set ?m \<Longrightarrow> fi_file_id f = k"
    using keys wf by (simp add: hm_entry_iff)
  then have "map fi_file_id (hm_values ?m) = map fst ?m" by (auto simp: hm_values_def)
  then have "distinct (map fi_file_id (hm_values ?m))" using wf by (simp add: hm_wf_def)
  moreover have "f \<in> set (hm_values ?m) \<longleftrightarrow> hm_get ?m (fi_file_id f) = Some f" for f
    using wf keys by (auto simp: hm_values_iff)
  ultimately show ?thesis
    by (auto simp: ms_list_files_except_device_def ms_get_file_info_def distinct_map_filter)
qed

text \<open>
  \<^verbatim>\<open>list_files_except_device\<close> returns each stored file of the account and group that
  another device uploaded at or after the given time, exactly once, and nothing else.
\<close>
theorem list_files_except_device_exact:
  assumes "ms_inv s"
  shows "\<exists>fs. ms_list_files_except_device acct grp dev from s = Ok fs \<and> distinct (map fi_file_id fs) \<and>
    (\<forall>f. f \<in> set fs \<longleftrightarrow> ms_get_file_info (fi_file_id f) s = Ok (Some f) \<and> fi_account_hash f = acct \<and>
       fi_group_id f = grp \<and> fi_device_hash f \<noteq> dev \<and> time_ok from f)"
  using assms by (intro list_files_char) (simp add: ms_inv_def)

theorem list_files_except_device_exact_witness:
  "\<exists>fs. ms_list_files_except_device ''a'' 1 ''other'' None (snd (ms_store_file_info (sample_file ''a'' 0) ms_new)) = Ok fs \<and>
     sample_file ''a'' 1 \<in> set fs"
proof -
  let ?s = "snd (ms_store_file_info (sample_file ''a'' 0) ms_new)"
  obtain fs where fs: "ms_list_files_except_device ''a'' 1 ''other'' None ?s = Ok fs"
    "\<forall>f. f \<in> set fs \<longleftrightarrow> ms_get_file_info (fi_file_id f) ?s = Ok (Some f) \<and> fi_account_hash f = ''a'' \<and>
       fi_group_id f = 1 \<and> fi_device_hash f \<noteq> ''other'' \<and> time_ok None f"
    using list_files_except_device_exact [OF ms_inv_files(1) [OF ms_inv_new], of "''a''" 1 "''other''" None] by blast
  then show ?thesis
    by (simp add: time_ok_def sample_file_def ms_store_file_info_def ms_get_file_info_def ms_new_def hm_get_insert)
qed

section \<open>Watcher groups\<close>

definition id_room :: "(i32, 'v) hashmap \<Rightarrow> bool" where
  "id_room m \<longleftrightarrow> list_all (\<lambda>k. k < 2 ^ 31 - 1) (hm_keys m)"

lemma id_room_fresh:
  assumes "keyed_by P m" "id_room m" "\<And>v k. P v k \<Longrightarrow> in_i32 k"
  shows "hm_get m (next_id_i32 m) = None"
proof -
  have "hm_get m k = Some v \<Longrightarrow> in_i32 k \<and> k < 2 ^ 31 - 1" for k v
    using assms hm_keys_iff [of k m] by (fastforce simp: keyed_by_def id_room_def list_all_iff)
  then show ?thesis using next_id_i32_fresh [of m "next_id_i32 m"] by fastforce
qed

lemma group_id_fresh:
  "ms_inv s \<Longrightarrow> id_room (sd_watcher_groups s) \<Longrightarrow> hm_get (sd_watcher_groups s) (next_id_i32 (sd_watcher_groups s)) = None"
  by (rule id_room_fresh [of "\<lambda>g k. wg_id g = k \<and> in_i32 k"]) (auto simp: ms_inv_def)

lemma watcher_id_fresh:
  "ms_inv s \<Longrightarrow> id_room (sd_watchers s) \<Longrightarrow> hm_get (sd_watchers s) (next_id_i32 (sd_watchers s)) = None"
  by (rule id_room_fresh [of "\<lambda>w k. w_id w = k \<and> in_i32 k"]) (auto simp: ms_inv_def)

text \<open>
  As long as no group has the largest \<^verbatim>\<open>i32\<close> as its identifier, registering a
  watcher group returns an identifier no stored group has; its owner finds the group under it,
  and every other group is kept.
\<close>
theorem register_watcher_group_fresh:
  assumes "ms_inv s" "id_room (sd_watcher_groups s)"
  shows "\<exists>i s'. ms_register_watcher_group acct dev g s = (Ok i, s') \<and> hm_get (sd_watcher_groups s) i = None \<and>
    ms_get_user_watcher_group (wg_account_hash g) i s' = Ok (Some (g\<lparr>wg_id := i\<rparr>)) \<and>
    (\<forall>j. j \<noteq> i \<longrightarrow> hm_get (sd_watcher_groups s') j = hm_get (sd_watcher_groups s) j) \<and>
    s'\<lparr>sd_watcher_groups := sd_watcher_groups s\<rparr> = s"
  using group_id_fresh [OF assms]
  by (simp add: ms_register_watcher_group_def ms_get_user_watcher_group_def Let_def hm_get_insert)

definition sample_group :: "string \<Rightarrow> i32 \<Rightarrow> watcher_group" where
  "sample_group acct gid = \<lparr>wg_id = 0, wg_group_id = gid, wg_account_hash = acct, wg_title = ''group'',
     wg_created_at = 0, wg_updated_at = 0, wg_is_active = True, wg_watcher_ids = []\<rparr>"

theorem register_watcher_group_fresh_witness:
  "\<exists>i s'. ms_register_watcher_group ''a'' ''d'' (sample_group ''a'' 7) ms_new = (Ok i, s') \<and>
     hm_get (sd_watcher_groups ms_new) i = None"
  using register_watcher_group_fresh [OF ms_inv_new, of "''a''" "''d''" "sample_group ''a'' 7"]
  by (auto simp: id_room_def hm_keys_def ms_new_def)

definition watcher_in :: "string \<Rightarrow> i32 \<Rightarrow> storage_data \<Rightarrow> i32 \<Rightarrow> bool" where
  "watcher_in acct gid s i \<longleftrightarrow>
     (case hm_get (sd_watchers s) i of Some w \<Rightarrow> w_account_hash w = acct \<and> w_group_id w = gid | None \<Rightarrow> False)"

lemma group_watcher_ids:
  "hm_wf (sd_watchers s) \<Longrightarrow>
   i \<in> set (map fst (filter (\<lambda>(_, w). w_account_hash w = acct \<and> w_group_id w = gid) (sd_watchers s))) \<longleftrightarrow>
   watcher_in acct gid s i"
  by (force simp: watcher_in_def hm_entry_iff split: option.split)

lemma filter_keys_iff:
  "hm_wf m \<Longrightarrow> i \<in> set (map fst (filter (\<lambda>(_, c). P c) m)) \<longleftrightarrow> (\<exists>c. hm_get m i = Some c \<and> P c)"
  by (force simp: hm_entry_iff)

text \<open>
  Deleting a watcher group the account owns removes the group, its watchers and exactly
  the conditions of those watchers; without ownership, or for an unknown group, nothing
  changes and the error says which.
\<close>
theorem delete_watcher_group_cascade:
  assumes "ms_inv s"
  shows "case hm_get (sd_watcher_groups s) gid of
      None \<Rightarrow> ms_delete_watcher_group acct gid s = (Err (SE_NotFound ''Watcher group not found''), s)
    | Some g \<Rightarrow>
        if wg_account_hash g \<noteq> acct
        then ms_delete_watcher_group acct gid s = (Err (SE_PermissionDenied ''Not the owner of the watcher group''), s)
        else \<exists>s'. ms_delete_watcher_group acct gid s = (Ok (), s') \<and>
          (\<forall>i. hm_get (sd_watcher_groups s') i = (if i = gid then None else hm_get (sd_watcher_groups s) i)) \<and>
          (\<forall>i. hm_get (sd_watchers s') i = (if watcher_in acct gid s i then None else hm_get (sd_watchers s) i)) \<and>
          (\<forall>i. hm_get (sd_watcher_conditions s') i =
             (case hm_get (sd_watcher_conditions s) i of
                Some c \<Rightarrow> if watcher_in acct gid s (wc_watcher_id c) then None else Some c | None \<Rightarrow> None)) \<and>
          s'\<lparr>sd_watcher_groups := sd_watcher_groups s, sd_watchers := sd_watchers s,
              sd_watcher_conditions := sd_watcher_conditions s\<rparr> = s"
proof (cases "hm_get (sd_watcher_groups s) gid")
  case None
  then show ?thesis by (simp add: ms_delete_watcher_group_def)
next
  case (Some g)
  have wf: "hm_wf (sd_watchers s)" "hm_wf (sd_watcher_conditions s)"
    using assms by (simp_all add: ms_inv_def keyed_by_def)
  show ?thesis
  proof (cases "wg_account_hash g = acct")
    case False
    then show ?thesis by (simp add: Some ms_delete_watcher_group_def)
  next
    case True
    show ?thesis unfolding ms_delete_watcher_group_def Let_def group_watcher_ids [OF wf(1)]
      by (simp add: Some True hm_get_remove hm_get_remove_all del: set_map set_filter)
         (auto simp add: group_watcher_ids [OF wf(1)] filter_keys_iff [OF wf(2)] simp del: set_map set_filter
           split: option.split)
  qed
qed

theorem delete_watcher_group_cascade_witness:
  "\<exists>s'. ms_delete_watcher_group ''a'' 1 (snd (ms_register_watcher_group ''a'' ''d'' (sample_group ''a'' 7) ms_new)) =
     (Ok (), s') \<and> hm_get (sd_watcher_groups s') 1 = None"
proof -
  let ?s = "snd (ms_register_watcher_group ''a'' ''d'' (sample_group ''a'' 7) ms_new)"
  have "hm_get (sd_watcher_groups ?s) 1 = Some (sample_group ''a'' 7\<lparr>wg_id := 1\<rparr>)"
    by (simp add: ms_register_watcher_group_def ms_new_def next_id_i32_def hm_keys_def Let_def hm_get_insert)
  with delete_watcher_group_cascade [where s = ?s and gid = 1 and acct = "''a''"] ms_inv_groups(1) [OF ms_inv_new]
  show ?thesis by (auto simp: sample_group_def)
qed

section \<open>Watchers and conditions\<close>

text \<open>
  Condition identifiers come from a counter; \<open>cond_room n\<close> says that \<open>n\<close> more fit below
  \<^verbatim>\<open>i64::MAX\<close>, and \<open>cond_fresh\<close> that the counter is above the stored ones.
\<close>

definition cond_room :: "nat \<Rightarrow> storage_data \<Rightarrow> bool" where
  "cond_room n s \<longleftrightarrow> in_i64 (sd_next_condition_id s) \<and> sd_next_condition_id s + int n < 2 ^ 63"

definition cond_fresh :: "storage_data \<Rightarrow> bool" where
  "cond_fresh s \<longleftrightarrow> list_all (\<lambda>k. k < sd_next_condition_id s) (hm_keys (sd_watcher_conditions s))"

lemma cond_fresh_None: "cond_fresh s \<Longrightarrow> sd_next_condition_id s \<le> k \<Longrightarrow> hm_get (sd_watcher_conditions s) k = None"
  using hm_keys_iff [of k "sd_watcher_conditions s"] by (fastforce simp: cond_fresh_def list_all_iff)

text \<open>
  As long as identifiers remain, creating a watcher returns an unused identifier and
  stores the watcher with its folder normalised; it stores one condition row per condition,
  the union ones first, all naming the new watcher and account, keeps every other watcher and
  condition, and appends the identifier to its group.
\<close>
theorem create_watcher_spec:
  fixes ch :: chrono and now :: datetime and ts :: i64
  assumes inv: "ms_inv s" and room: "id_room (sd_watchers s)" and fresh: "cond_fresh s"
    and croom: "cond_room (length (pw_union_conditions wd) + length (pw_subtracting_conditions wd)) s"
  defines "dt \<equiv> (case ch_from_timestamp ch ts 0 of Some d \<Rightarrow> d | None \<Rightarrow> now)"
    and "base \<equiv> sd_next_condition_id s"
    and "nu \<equiv> int (length (pw_union_conditions wd))"
    and "ns \<equiv> int (length (pw_subtracting_conditions wd))"
  shows "\<exists>i s'. ms_create_watcher_with_conditions ch now acct gid wd ts s = (Ok i, s') \<and>
    hm_get (sd_watchers s) i = None \<and>
    (\<forall>j. hm_get (sd_watchers s') j =
       (if j = i then Some (mk_watcher dt acct gid i wd) else hm_get (sd_watchers s) j)) \<and>
    (\<forall>k. hm_get (sd_watcher_conditions s') k =
       (if base \<le> k \<and> k < base + nu
        then Some (mk_condition dt acct i (pw_watcher_id wd) gid Union k (pw_union_conditions wd ! nat (k - base)))
        else if base + nu \<le> k \<and> k < base + nu + ns
        then Some (mk_condition dt acct i (pw_watcher_id wd) gid Subtract k
               (pw_subtracting_conditions wd ! nat (k - (base + nu))))
        else hm_get (sd_watcher_conditions s) k)) \<and>
    (\<forall>k. base \<le> k \<longrightarrow> hm_get (sd_watcher_conditions s) k = None) \<and>
    (\<forall>g. hm_get (sd_watcher_groups s) gid = Some g \<and> i \<notin> set (wg_watcher_ids g) \<longrightarrow>
       hm_get (sd_watcher_groups s') gid = Some (g\<lparr>wg_watcher_ids := wg_watcher_ids g @ [i]\<rparr>))"
proof -
  let ?i = "next_id_i32 (sd_watchers s)"
  let ?s1 = "s\<lparr>sd_watchers := hm_insert ?i (mk_watcher dt acct gid ?i wd) (sd_watchers s)\<rparr>"
  let ?s2 = "insert_conditions (mk_condition dt acct ?i (pw_watcher_id wd) gid Union) (pw_union_conditions wd) ?s1"
  let ?s3 = "insert_conditions (mk_condition dt acct ?i (pw_watcher_id wd) gid Subtract)
    (pw_subtracting_conditions wd) ?s2"
  have next2: "sd_next_condition_id ?s2 = base + nu"
    using croom by (subst insert_conditions_next) (auto simp: cond_room_def in_i64_def base_def nu_def)
  have get2: "hm_get (sd_watcher_conditions ?s2) k = (if base \<le> k \<and> k < base + nu
      then Some (mk_condition dt acct ?i (pw_watcher_id wd) gid Union k (pw_union_conditions wd ! nat (k - base)))
      else hm_get (sd_watcher_conditions s) k)" for k
    using croom by (subst insert_conditions_get) (auto simp: cond_room_def in_i64_def base_def nu_def)
  have get3: "hm_get (sd_watcher_conditions ?s3) k = (if base + nu \<le> k \<and> k < base + nu + ns
      then Some (mk_condition dt acct ?i (pw_watcher_id wd) gid Subtract k
             (pw_subtracting_conditions wd ! nat (k - (base + nu))))
      else hm_get (sd_watcher_conditions ?s2) k)" for k
    using croom next2
    by (subst insert_conditions_get) (auto simp: cond_room_def in_i64_def base_def nu_def ns_def)
  have new: "hm_get (sd_watchers s) ?i = None" using inv room by (rule watcher_id_fresh)
  have none: "\<forall>k. base \<le> k \<longrightarrow> hm_get (sd_watcher_conditions s) k = None"
    using fresh by (simp add: cond_fresh_None base_def)
  show ?thesis
    unfolding ms_create_watcher_with_conditions_def Let_def dt_def [symmetric]
    by (intro exI conjI, rule refl, rule new) (simp_all add: hm_get_insert hm_get_modify get3 get2 none)
qed

definition sample_watcher :: p_watcher_data where
  "sample_watcher = \<lparr>pw_watcher_id = 5, pw_folder = ''/home/u/docs/'',
     pw_union_conditions = [\<lparr>pc_key = ''extension'', pc_value = [''txt'']\<rparr>],
     pw_subtracting_conditions = [\<lparr>pc_key = ''filename'', pc_value = [''tmp'']\<rparr>],
     pw_recursive_path = True, pw_preset = False, pw_custom_type = '''', pw_update_mode = '''',
     pw_is_active = True, pw_extra_json = ''''\<rparr>"

definition sample_chrono :: chrono where
  "sample_chrono = \<lparr>ch_from_timestamp = (\<lambda>secs nanos. Some (secs * 1000000000 + int nanos)),
     ch_timestamp = (\<lambda>d. d div 1000000000), ch_subsec_nanos = (\<lambda>d. nat (d mod 1000000000))\<rparr>"

lemma new_room: "id_room (sd_watchers ms_new)" "cond_fresh ms_new" "cond_room (Suc (Suc 0)) ms_new" "cond_room (Suc 0) ms_new"
  by (simp_all add: id_room_def cond_fresh_def cond_room_def in_i64_def hm_keys_def ms_new_def)

theorem create_watcher_spec_witness:
  "\<exists>i s'. ms_create_watcher_with_conditions sample_chrono 9 ''a'' 1 sample_watcher 0 ms_new = (Ok i, s') \<and>
     hm_get (sd_watcher_conditions s') 2 =
       Some (mk_condition 0 ''a'' i 5 1 Subtract 2 \<lparr>pc_key = ''filename'', pc_value = [''tmp'']\<rparr>)"
proof -
  have croom: "cond_room (length (pw_union_conditions sample_watcher) +
      length (pw_subtracting_conditions sample_watcher)) ms_new"
    using new_room(3) by (simp add: sample_watcher_def)
  have "sd_next_condition_id ms_new = 1" "ch_from_timestamp sample_chrono 0 0 = Some 0"
    by (simp_all add: ms_new_def sample_chrono_def)
  with create_watcher_spec [OF ms_inv_new new_room(1,2) croom, of sample_chrono 9 "''a''" 1 0]
  show ?thesis by (fastforce simp: sample_watcher_def)
qed

text \<open>
  As long as identifiers remain, saving the conditions of a watcher replaces exactly its
  conditions by the given ones, in order, under new identifiers, and keeps those of every
  other watcher.
\<close>
theorem save_watcher_conditions_replaces:
  assumes inv: "ms_inv s" and fresh: "cond_fresh s" and room: "cond_room (length cs) s"
  defines "base \<equiv> sd_next_condition_id s"
  shows "\<exists>s'. ms_save_watcher_conditions w cs s = (Ok (), s') \<and>
    (\<forall>k. hm_get (sd_watcher_conditions s') k =
      (if base \<le> k \<and> k < base + int (length cs)
       then Some ((cs ! nat (k - base))\<lparr>wc_id := Some k, wc_watcher_id := w\<rparr>)
       else case hm_get (sd_watcher_conditions s) k of
              Some c \<Rightarrow> if wc_watcher_id c = w then None else Some c | None \<Rightarrow> None)) \<and>
    (\<forall>k. base \<le> k \<longrightarrow> hm_get (sd_watcher_conditions s) k = None)"
proof -
  let ?s1 = "s\<lparr>sd_watcher_conditions := hm_remove_all (conditions_of_watcher w s) (sd_watcher_conditions s)\<rparr>"
  let ?mk = "\<lambda>new_id c. c\<lparr>wc_id := Some new_id, wc_watcher_id := w\<rparr>"
  have wf: "hm_wf (sd_watcher_conditions s)" using inv by (simp add: ms_inv_def keyed_by_def)
  have get1: "hm_get (sd_watcher_conditions ?s1) k = (case hm_get (sd_watcher_conditions s) k of
      Some c \<Rightarrow> if wc_watcher_id c = w then None else Some c | None \<Rightarrow> None)" for k
    unfolding conditions_of_watcher_def using filter_keys_iff [OF wf, of k "\<lambda>c. wc_watcher_id c = w"]
    by (auto simp: hm_get_remove_all simp del: set_map set_filter split: option.split)
  have "hm_get (sd_watcher_conditions (insert_conditions ?mk cs ?s1)) k =
      (if base \<le> k \<and> k < base + int (length cs) then Some (?mk k (cs ! nat (k - base)))
       else hm_get (sd_watcher_conditions ?s1) k)" for k
    using room by (subst insert_conditions_get) (auto simp: cond_room_def base_def)
  then show ?thesis
    unfolding get1 using fresh by (simp add: ms_save_watcher_conditions_def cond_fresh_None base_def)
qed

theorem save_watcher_conditions_replaces_witness:
  "\<exists>s'. ms_save_watcher_conditions 4 [mk_condition 0 ''a'' 9 9 1 Union 0 \<lparr>pc_key = ''k'', pc_value = []\<rparr>] ms_new =
       (Ok (), s') \<and>
     hm_get (sd_watcher_conditions s') 1 = Some (mk_condition 0 ''a'' 4 9 1 Union 1 \<lparr>pc_key = ''k'', pc_value = []\<rparr>)"
proof -
  let ?cs = "[mk_condition 0 ''a'' 9 9 1 Union 0 \<lparr>pc_key = ''k'', pc_value = []\<rparr>]"
  have room: "cond_room (length ?cs) ms_new" using new_room(4) by simp
  have "sd_next_condition_id ms_new = 1" by (simp add: ms_new_def)
  with save_watcher_conditions_replaces [OF ms_inv_new new_room(2) room, of 4]
  show ?thesis by (fastforce simp: mk_condition_def)
qed

end
