(* ===== verification/File_Service.thy ===== *)
theory File_Service
  imports Notifications Memory_Behaviour Auth "HOL-Library.Monad_Syntax"
begin

text \<open>
  \<^verbatim>\<open>src/services/file_service.rs\<close> over the in-memory storage.  The state of a server is the
  record \<open>app\<close>: the service's cache of file contents, the storage, the separate file store if
  there is one, the notification manager, and two logs: what subscribers received and which
  events were published.  The separate file store (S3 or a database table) is the parameter
  \<open>file_store\<close>, with an abstract state.  The outer \<open>None\<close> of an operation is a panic.
\<close>

section \<open>State and environment\<close>

record 'x file_store =
  fl_store :: "u64 \<Rightarrow> bytes \<Rightarrow> 'x \<Rightarrow> string sres \<times> 'x"
  fl_get :: "u64 \<Rightarrow> 'x \<Rightarrow> bytes option sres"

record event =
  ev_routing_key :: string
  ev_type :: string
  ev_file_id :: u64
  ev_revision :: i64

record 'x app =
  ap_files :: "(u64, bytes) hashmap"
  ap_storage :: storage_data
  ap_file_storage :: "'x option"
  ap_notification_manager :: "notification_manager option"
  ap_delivered :: "(string \<times> file_update_notification) list"
  ap_published :: "event list"

record 'x sys =
  sy_crypto :: crypto_lib
  sy_nonces :: "string \<Rightarrow> bytes \<times> bytes"
  sy_alive :: "chan \<Rightarrow> bool"
  sy_store :: "'x file_store"
  sy_auth :: auth_env
  sy_chrono :: chrono
  sy_now :: datetime
  sy_random :: nat
  sy_env :: "string \<Rightarrow> string option"
  sy_transport_encrypt_metadata :: bool

section \<open>Storing and reading\<close>

definition fs_store_file_data_internal :: "'x sys \<Rightarrow> u64 \<Rightarrow> bytes \<Rightarrow> 'x app \<Rightarrow> unit sres \<times> 'x app" where
  "fs_store_file_data_internal sys file_id file_bytes a =
     (case ap_file_storage a of
        Some x \<Rightarrow>
          (case fl_store (sy_store sys) file_id file_bytes x of
             (Inr _, x') \<Rightarrow> (Ok (), a\<lparr>ap_file_storage := Some x'\<rparr>)
           | (Inl e, x') \<Rightarrow> (Err e, a\<lparr>ap_file_storage := Some x'\<rparr>))
      | None \<Rightarrow>
          (case ms_store_file_data file_id file_bytes (ap_storage a) of
             (r, s) \<Rightarrow> (r, a\<lparr>ap_storage := s\<rparr>)))"

definition fs_send_notification ::
  "'x sys \<Rightarrow> file_info \<Rightarrow> file_update_type \<Rightarrow> bool \<Rightarrow> 'x app \<Rightarrow> 'x app option" where
  "fs_send_notification sys fi update_type include_source_device a =
     (case ap_notification_manager a of
        None \<Rightarrow> Some a
      | Some nm \<Rightarrow>
          (let notification = \<lparr>fn_account_hash = fi_account_hash fi, fn_device_hash = fi_device_hash fi,
                 fn_file_info = Some (proto_of_file_info fi), fn_update_type = update_type,
                 fn_timestamp = ch_timestamp (sy_chrono sys) (sy_now sys)\<rparr>
           in do {
             (r, sent) \<leftarrow> (if include_source_device
                then broadcast_file_update_including_source (sy_crypto sys) (sy_nonces sys) (sy_alive sys)
                       notification (ap_storage a) nm
                else broadcast_file_update (sy_crypto sys) (sy_nonces sys) (sy_alive sys)
                       notification (ap_storage a) nm);
             Some (a\<lparr>ap_delivered := ap_delivered a @ sent\<rparr>)
           }))"

definition fs_store_file_with_update_type ::
  "'x sys \<Rightarrow> file_info \<Rightarrow> bytes \<Rightarrow> file_update_type \<Rightarrow> 'x app \<Rightarrow> (unit sres \<times> 'x app) option" where
  "fs_store_file_with_update_type sys fi file_bytes update_type a =
     (case ms_store_file_info fi (ap_storage a) of
        (Inl e, s) \<Rightarrow> Some (Err e, a\<lparr>ap_storage := s\<rparr>)
      | (Inr _, s) \<Rightarrow>
          (case fs_store_file_data_internal sys (fi_file_id fi) file_bytes (a\<lparr>ap_storage := s\<rparr>) of
             (Inl e, a1) \<Rightarrow> Some (Err e, a1)
           | (Inr _, a1) \<Rightarrow> do {
               a2 \<leftarrow> fs_send_notification sys fi update_type False
                       (a1\<lparr>ap_files := hm_insert (fi_file_id fi) file_bytes (ap_files a1)\<rparr>);
               Some (Ok (), a2)
             }))"

definition fs_store_file :: "'x sys \<Rightarrow> file_info \<Rightarrow> bytes \<Rightarrow> 'x app \<Rightarrow> (unit sres \<times> 'x app) option" where
  "fs_store_file sys fi file_bytes a = fs_store_file_with_update_type sys fi file_bytes F_Uploaded a"

definition fs_get_file_info :: "u64 \<Rightarrow> 'x app \<Rightarrow> file_info option sres" where
  "fs_get_file_info file_id a = ms_get_file_info file_id (ap_storage a)"

definition fs_get_file_data :: "u64 \<Rightarrow> 'x app \<Rightarrow> bytes option sres" where
  "fs_get_file_data file_id a =
     (case hm_get (ap_files a) file_id of
        Some b \<Rightarrow> Ok (Some b) | None \<Rightarrow> ms_get_file_data file_id (ap_storage a))"

definition fs_get_file :: "'x sys \<Rightarrow> u64 \<Rightarrow> 'x app \<Rightarrow> (file_info \<times> bytes) sres \<times> 'x app" where
  "fs_get_file sys file_id a =
     (let not_found = (Err (SE_NotFound ''File not found''), a);
          slow = (case ms_get_file_info file_id (ap_storage a) of
              Inl e \<Rightarrow> (Err e, a)
            | Inr None \<Rightarrow> not_found
            | Inr (Some info) \<Rightarrow>
                (case (case ap_file_storage a of
                         Some x \<Rightarrow> fl_get (sy_store sys) file_id x
                       | None \<Rightarrow> ms_get_file_data file_id (ap_storage a)) of
                   Inl e \<Rightarrow> (Err e, a)
                 | Inr None \<Rightarrow> not_found
                 | Inr (Some b) \<Rightarrow> (Ok (info, b), a\<lparr>ap_files := hm_insert file_id b (ap_files a)\<rparr>)))
      in case hm_get (ap_files a) file_id of
           Some b \<Rightarrow>
             (case ms_get_file_info file_id (ap_storage a) of
                Inl e \<Rightarrow> (Err e, a)
              | Inr (Some info) \<Rightarrow> (Ok (info, b), a)
              | Inr None \<Rightarrow> slow)
         | None \<Rightarrow> slow)"

definition fs_store_file_info :: "file_info \<Rightarrow> 'x app \<Rightarrow> unit sres \<times> 'x app" where
  "fs_store_file_info fi a =
     (case ms_store_file_info fi (ap_storage a) of
        (Inr _, s) \<Rightarrow> (Ok (), a\<lparr>ap_storage := s\<rparr>) | (Inl e, s) \<Rightarrow> (Err e, a\<lparr>ap_storage := s\<rparr>))"

definition fs_store_file_data :: "u64 \<Rightarrow> bytes \<Rightarrow> 'x app \<Rightarrow> unit sres \<times> 'x app" where
  "fs_store_file_data file_id file_bytes a =
     (case ms_store_file_data file_id file_bytes (ap_storage a) of (r, s) \<Rightarrow> (r, a\<lparr>ap_storage := s\<rparr>))"

definition fs_register_device :: "device \<Rightarrow> 'x app \<Rightarrow> unit sres \<times> 'x app" where
  "fs_register_device device a = (case ms_register_device device (ap_storage a) of (r, s) \<Rightarrow> (r, a\<lparr>ap_storage := s\<rparr>))"

definition fs_list_files :: "i32 \<Rightarrow> string \<Rightarrow> 'x app \<Rightarrow> file_info list sres" where
  "fs_list_files group_id account_hash a = ms_list_files account_hash group_id None (ap_storage a)"

definition fs_list_files_filtered_by_device :: "i32 \<Rightarrow> string \<Rightarrow> string \<Rightarrow> 'x app \<Rightarrow> file_info list sres" where
  "fs_list_files_filtered_by_device group_id account_hash device_hash a =
     ms_list_files_except_device account_hash group_id device_hash None (ap_storage a)"

definition fs_get_file_info_include_deleted :: "u64 \<Rightarrow> 'x app \<Rightarrow> (file_info \<times> bool) option sres" where
  "fs_get_file_info_include_deleted file_id a = ms_get_file_info_include_deleted file_id (ap_storage a)"

section \<open>Copying, deleting, finding\<close>

definition fs_copy_file_data :: "'x sys \<Rightarrow> u64 \<Rightarrow> u64 \<Rightarrow> 'x app \<Rightarrow> unit sres \<times> 'x app" where
  "fs_copy_file_data sys source_file_id target_file_id a =
     (case fs_get_file_data source_file_id a of
        Inl e \<Rightarrow> (Err e, a)
      | Inr None \<Rightarrow> (Err (SE_NotFound (''Source file data not found: '' @ show_u64 source_file_id)), a)
      | Inr (Some b) \<Rightarrow>
          (case fs_store_file_data_internal sys target_file_id b a of
             (Inl e, a1) \<Rightarrow> (Err e, a1)
           | (Inr _, a1) \<Rightarrow> (Ok (), a1\<lparr>ap_files := hm_insert target_file_id b (ap_files a1)\<rparr>)))"

definition fs_restore_file_version :: "'x sys \<Rightarrow> file_info \<Rightarrow> file_info \<Rightarrow> 'x app \<Rightarrow> unit sres \<times> 'x app" where
  "fs_restore_file_version sys source_file_info target_file_info a =
     (case fs_copy_file_data sys (fi_file_id source_file_info) (fi_file_id target_file_info) a of
        (Inl e, a1) \<Rightarrow> (Err e, a1)
      | (Inr _, a1) \<Rightarrow>
          (case fs_get_file_data (fi_file_id target_file_info) a1 of
             Inl e \<Rightarrow> (Err e, a1)
           | Inr d \<Rightarrow>
               (let b = (case d of Some b \<Rightarrow> b | None \<Rightarrow> [])
                in (Ok (), a1\<lparr>ap_files := hm_insert (fi_file_id target_file_info) b (ap_files a1)\<rparr>))))"

definition fs_send_file_restore_notification :: "'x sys \<Rightarrow> file_info \<Rightarrow> 'x app \<Rightarrow> 'x app option" where
  "fs_send_file_restore_notification sys fi a = fs_send_notification sys fi F_Updated True a"

text \<open>The Korean message is \<^emph>\<open>file not found\<close>, in UTF-8.\<close>

definition msg_file_not_found :: string where
  "msg_file_not_found = [CHR 0xED, CHR 0x8C, CHR 0x8C, CHR 0xEC, CHR 0x9D, CHR 0xBC, CHR 0xEC, CHR 0x9D, CHR 0x84,
     CHR 0x20, CHR 0xEC, CHR 0xB0, CHR 0xBE, CHR 0xEC, CHR 0x9D, CHR 0x84, CHR 0x20, CHR 0xEC, CHR 0x88, CHR 0x98,
     CHR 0x20, CHR 0xEC, CHR 0x97, CHR 0x86, CHR 0xEC, CHR 0x9D, CHR 0x8C, CHR 0x3A, CHR 0x20]"

definition fs_delete_file :: "'x sys \<Rightarrow> u64 \<Rightarrow> 'x app \<Rightarrow> (unit sres \<times> 'x app) option" where
  "fs_delete_file sys file_id a =
     (case ms_get_file_info_include_deleted file_id (ap_storage a) of
        Inl e \<Rightarrow> Some (Err e, a)
      | Inr None \<Rightarrow> Some (Err (SE_NotFound (msg_file_not_found @ show_u64 file_id)), a)
      | Inr (Some (fi, is_deleted)) \<Rightarrow>
          (if is_deleted then Some (Ok (), a)
           else case ms_delete_file (fi_account_hash fi) file_id (ap_storage a) of
             (Inl e, s) \<Rightarrow> Some (Err e, a\<lparr>ap_storage := s\<rparr>)
           | (Inr _, s) \<Rightarrow> do {
               a' \<leftarrow> fs_send_notification sys fi F_Deleted False
                       (a\<lparr>ap_storage := s, ap_files := hm_remove file_id (ap_files a)\<rparr>);
               Some (Ok (), a')
             }))"

definition fs_find_file_by_local_path ::
  "string \<Rightarrow> string \<Rightarrow> string \<Rightarrow> i64 \<Rightarrow> 'x app \<Rightarrow> file_info option sres" where
  "fs_find_file_by_local_path account_hash file_path filename revision a =
     ms_find_file_by_path_and_name account_hash (normalize_raw file_path) filename revision (ap_storage a)"

definition search_path_of :: "string \<Rightarrow> string \<Rightarrow> string" where
  "search_path_of normalized_file_path file_name =
     (if ends_with normalized_file_path (CHR ''/'' # file_name) \<or> ends_with normalized_file_path file_name
      then normalized_file_path
      else if ends_with normalized_file_path ''/'' then normalized_file_path @ file_name
      else if normalized_file_path \<noteq> [] then normalized_file_path @ CHR ''/'' # file_name
      else file_name)"

definition fs_find_file_by_criteria ::
  "string \<Rightarrow> i32 \<Rightarrow> i32 \<Rightarrow> string \<Rightarrow> string \<Rightarrow> 'x app \<Rightarrow> file_info option sres" where
  "fs_find_file_by_criteria account_hash group_id watcher_id file_path file_name a =
     ms_find_file_by_criteria account_hash group_id watcher_id
       (search_path_of (normalize_raw file_path) file_name) file_name (ap_storage a)"

definition fs_check_file_exists :: "u64 \<Rightarrow> 'x app \<Rightarrow> (string, bool \<times> bool) result" where
  "fs_check_file_exists file_id a =
     (case ms_check_file_exists file_id (ap_storage a) of
        Inr r \<Rightarrow> Ok r | Inl e \<Rightarrow> Err (''Failed to check file existence: '' @ storage_error_display e))"

definition fs_check_file_exists_rpc :: "u64 \<Rightarrow> 'x app \<Rightarrow> bool sres" where
  "fs_check_file_exists_rpc file_id a =
     (case ms_check_file_exists file_id (ap_storage a) of
        Inr (exists, _) \<Rightarrow> Ok exists
      | Inl e \<Rightarrow> Err (SE_General (''Failed to check file existence: '' @ storage_error_display e)))"

definition fs_convert_client_group_to_server :: "string \<Rightarrow> i32 \<Rightarrow> 'x app \<Rightarrow> i32 option sres" where
  "fs_convert_client_group_to_server account_hash client_group_id a =
     ms_get_server_group_id account_hash client_group_id (ap_storage a)"

definition fs_convert_client_ids_to_server :: "string \<Rightarrow> i32 \<Rightarrow> i32 \<Rightarrow> 'x app \<Rightarrow> (i32 \<times> i32) option sres" where
  "fs_convert_client_ids_to_server account_hash client_group_id client_watcher_id a =
     ms_get_server_ids account_hash client_group_id client_watcher_id (ap_storage a)"

text \<open>The branch for storage other than MySQL.\<close>

definition fs_ensure_server_ids_for_upload :: "string \<Rightarrow> i32 \<Rightarrow> i32 \<Rightarrow> 'x app \<Rightarrow> (i32 \<times> i32) sres" where
  "fs_ensure_server_ids_for_upload account_hash client_group_id client_watcher_id a =
     (case ms_get_server_ids account_hash client_group_id client_watcher_id (ap_storage a) of
        Inl e \<Rightarrow> Err e
      | Inr (Some ids) \<Rightarrow> Ok ids
      | Inr None \<Rightarrow> Ok (0, 0))"

text \<open>Metadata preparation with the server key; \<open>None\<close> is a cipher panic.\<close>

definition fs_prepare_metadata ::
  "crypto_lib \<Rightarrow> bytes \<times> bytes \<Rightarrow> bytes option \<Rightarrow> file_info \<Rightarrow> file_info option" where
  "fs_prepare_metadata cl nonce server_encode_key fi =
     (let aad = as_bytes (fi_account_hash fi @ '':'' @ show_int (fi_group_id fi) @ '':'' @ show_int (fi_watcher_id fi))
      in case server_encode_key of
           None \<Rightarrow> Some fi
         | Some key \<Rightarrow>
             (if length key = 32 then do {
                ct_path \<leftarrow> aead_encrypt cl (fst nonce) key (as_bytes (fi_file_path fi)) aad;
                ct_name \<leftarrow> aead_encrypt cl (snd nonce) key (as_bytes (fi_filename fi)) aad;
                Some (fi\<lparr>fi_file_path := cl_b64_nopad cl ct_path, fi_filename := cl_b64_nopad cl ct_name\<rparr>)
              }
              else Some fi))"

text \<open>
  The file store that is used with the in-memory storage: it accepts every write and keeps
  nothing.
\<close>

definition simple_in_memory_file_storage :: "unit file_store" where
  "simple_in_memory_file_storage =
     \<lparr>fl_store = (\<lambda>file_id file_bytes x. (Ok ''mem'', x)), fl_get = (\<lambda>file_id x. Ok None)\<rparr>"

section \<open>Facts about the operations\<close>

lemma fs_send_notification_state:
  assumes "fs_send_notification sys fi ut incl a = Some a'"
  shows "\<exists>sent. a' = a\<lparr>ap_delivered := ap_delivered a @ sent\<rparr>"
proof (cases "ap_notification_manager a")
  case None
  then have "a' = a\<lparr>ap_delivered := ap_delivered a @ []\<rparr>" using assms by (simp add: fs_send_notification_def)
  then show ?thesis by blast
next
  case (Some nm)
  then show ?thesis using assms
    by (auto simp: fs_send_notification_def Let_def bind_eq_Some_conv split: if_splits)
qed

lemma fs_send_notification_same:
  assumes "fs_send_notification sys fi ut incl a = Some a'"
  shows "ap_files a' = ap_files a" "ap_storage a' = ap_storage a" "ap_file_storage a' = ap_file_storage a"
    "ap_notification_manager a' = ap_notification_manager a" "ap_published a' = ap_published a"
  using fs_send_notification_state [OF assms] by auto

lemma fs_store_file_data_internal_same:
  assumes "fs_store_file_data_internal sys i b a = (r, a')"
  shows "ap_files a' = ap_files a" "sd_files (ap_storage a') = sd_files (ap_storage a)"
    "ap_notification_manager a' = ap_notification_manager a"
    "ap_file_storage a = None \<longleftrightarrow> ap_file_storage a' = None"
    "ms_get_file_data j (ap_storage a') =
       (if ap_file_storage a = None \<and> j = i then Ok (Some b) else ms_get_file_data j (ap_storage a))"
  using assms
  by (auto simp: fs_store_file_data_internal_def ms_store_file_data_def ms_get_file_data_def hm_get_insert
      split: option.splits prod.splits sum.splits)

lemma ms_store_file_info_data [simp]:
  "ms_get_file_data j (snd (ms_store_file_info fi s)) = ms_get_file_data j s"
  by (simp add: ms_store_file_info_def ms_get_file_data_def)

lemma store_file_info_ok: "\<exists>i s'. ms_store_file_info fi s = (Ok i, s')"
  by (simp add: ms_store_file_info_def Let_def split: prod.split)

lemma fs_store_file_ok:
  assumes "fs_store_file_with_update_type sys fi b ut a = Some (Ok (), a')"
  shows "ap_files a' = hm_insert (fi_file_id fi) b (ap_files a)"
    "sd_files (ap_storage a') = sd_files (snd (ms_store_file_info fi (ap_storage a)))"
    "ms_get_file_data j (ap_storage a') =
       (if ap_file_storage a = None \<and> j = fi_file_id fi then Ok (Some b) else ms_get_file_data j (ap_storage a))"
    "ap_file_storage a = None \<longleftrightarrow> ap_file_storage a' = None"
proof -
  obtain i s where s: "ms_store_file_info fi (ap_storage a) = (Ok i, s)"
    using store_file_info_ok by blast
  obtain a1 where a1: "fs_store_file_data_internal sys (fi_file_id fi) b (a\<lparr>ap_storage := s\<rparr>) = (Ok (), a1)"
    and a': "fs_send_notification sys fi ut False (a1\<lparr>ap_files := hm_insert (fi_file_id fi) b (ap_files a1)\<rparr>) = Some a'"
    using assms by (auto simp: fs_store_file_with_update_type_def s bind_eq_Some_conv split: prod.splits sum.splits)
  note n = fs_send_notification_same [OF a'] and d = fs_store_file_data_internal_same [OF a1]
  have s': "s = snd (ms_store_file_info fi (ap_storage a))" by (simp add: s)
  show "ap_files a' = hm_insert (fi_file_id fi) b (ap_files a)" using n d by simp
  show "sd_files (ap_storage a') = sd_files (snd (ms_store_file_info fi (ap_storage a)))"
    using n d(2) by (simp add: s')
  show "ms_get_file_data j (ap_storage a') =
       (if ap_file_storage a = None \<and> j = fi_file_id fi then Ok (Some b) else ms_get_file_data j (ap_storage a))"
    using n d(5) [of j] by (simp add: s')
  show "ap_file_storage a = None \<longleftrightarrow> ap_file_storage a' = None" using n d(4) by simp
qed

section \<open>The cache of file contents\<close>

definition app_new :: "'x option \<Rightarrow> notification_manager option \<Rightarrow> 'x app" where
  "app_new x nm = \<lparr>ap_files = [], ap_storage = ms_new, ap_file_storage = x, ap_notification_manager = nm,
     ap_delivered = [], ap_published = []\<rparr>"

text \<open>
  The operations of the service, with or without a separate file store, each with the files whose cached
  contents it may replace or remove.  \<^verbatim>\<open>store_file_data\<close> writes past the cache.
\<close>

inductive fs_step :: "'x sys \<Rightarrow> u64 set \<Rightarrow> 'x app \<Rightarrow> 'x app \<Rightarrow> bool" for sys :: "'x sys" where
  fss_store: "fs_store_file_with_update_type sys fi b ut a = Some (r, a') \<Longrightarrow> fs_step sys {fi_file_id fi} a a'"
| fss_get: "fs_step sys {} a (snd (fs_get_file sys i a))"
| fss_delete: "fs_delete_file sys i a = Some (r, a') \<Longrightarrow> fs_step sys {i} a a'"
| fss_copy: "fs_step sys {j} a (snd (fs_copy_file_data sys i j a))"
| fss_restore: "fs_step sys {fi_file_id fi'} a (snd (fs_restore_file_version sys fi fi' a))"
| fss_store_info: "fs_step sys {} a (snd (fs_store_file_info fi a))"
| fss_store_data: "fs_step sys {} a (snd (fs_store_file_data i b a))"
| fss_register: "fs_step sys {} a (snd (fs_register_device d a))"
| fss_notification_manager: "fs_step sys {} a (a\<lparr>ap_notification_manager := nm\<rparr>)"

lemma store_keeps_cached:
  assumes "fs_store_file_with_update_type sys fi b ut a = Some (r, a')" "j \<noteq> fi_file_id fi"
  shows "hm_get (ap_files a') j = hm_get (ap_files a) j"
  using assms
  by (auto simp: fs_store_file_with_update_type_def bind_eq_Some_conv hm_get_insert
      dest!: fs_send_notification_same(1) fs_store_file_data_internal_same(1) split: prod.splits sum.splits)

lemma delete_keeps_cached:
  "fs_delete_file sys i a = Some (r, a') \<Longrightarrow> j \<noteq> i \<Longrightarrow> hm_get (ap_files a') j = hm_get (ap_files a) j"
  by (auto simp: fs_delete_file_def bind_eq_Some_conv hm_get_remove
      dest!: fs_send_notification_same(1) split: sum.splits option.splits prod.splits if_splits)

lemma copy_keeps_cached:
  "k \<noteq> j \<Longrightarrow> hm_get (ap_files (snd (fs_copy_file_data sys i j a))) k = hm_get (ap_files a) k"
  by (auto simp: fs_copy_file_data_def hm_get_insert
      dest!: fs_store_file_data_internal_same(1) split: sum.split option.split prod.splits)

lemma restore_keeps_cached:
  assumes "k \<noteq> fi_file_id fi'"
  shows "hm_get (ap_files (snd (fs_restore_file_version sys fi fi' a))) k = hm_get (ap_files a) k"
proof -
  obtain r a1 where c: "fs_copy_file_data sys (fi_file_id fi) (fi_file_id fi') a = (r, a1)" by fastforce
  then have "hm_get (ap_files a1) k = hm_get (ap_files a) k"
    using copy_keeps_cached [OF assms, of sys "fi_file_id fi" a] by simp
  then show ?thesis using assms by (simp add: fs_restore_file_version_def c hm_get_insert Let_def split: sum.split)
qed

lemma get_keeps_cached:
  "hm_get (ap_files a) k = Some b \<Longrightarrow> hm_get (ap_files (snd (fs_get_file sys i a))) k = Some b"
  by (auto simp: fs_get_file_def Let_def ms_get_file_info_def hm_get_insert split: option.split sum.split)

lemma fs_step_keeps_cached:
  assumes "fs_step sys S a a'" "i \<notin> S" "hm_get (ap_files a) i = Some b"
  shows "hm_get (ap_files a') i = Some b"
  using assms
  by cases (auto simp: store_keeps_cached delete_keeps_cached copy_keeps_cached restore_keeps_cached get_keeps_cached
      fs_store_file_info_def fs_store_file_data_def fs_register_device_def split: prod.splits sum.splits)

definition fs_other :: "u64 \<Rightarrow> 'x app \<Rightarrow> 'x app \<Rightarrow> bool" where
  "fs_other i a a' \<longleftrightarrow> (\<exists>sys S. fs_step sys S a a' \<and> i \<notin> S)"

lemma fs_other_keeps_cached: "(fs_other i)\<^sup>*\<^sup>* a a' \<Longrightarrow> hm_get (ap_files a) i = Some b \<Longrightarrow> hm_get (ap_files a') i = Some b"
  by (induction rule: rtranclp_induct) (auto simp: fs_other_def intro: fs_step_keeps_cached)

text \<open>
  C16: the contents of an uploaded file stay readable through the service.  After a successful upload, with or
  without a separate file store and whatever that does, every read of the contents returns the uploaded bytes over any later sequence of service
  operations that do not upload, copy to, restore to or delete that file; so does \<^verbatim>\<open>get_file\<close> while the record exists.  Writing other contents
  with \<^verbatim>\<open>store_file_data\<close>, which passes the cache by, is among these operations and is not seen.
\<close>
theorem upload_stays_readable:
  assumes "fs_store_file sys fi b a = Some (Ok (), a1)" "(fs_other (fi_file_id fi))\<^sup>*\<^sup>* a1 a2"
  shows "fs_get_file_data (fi_file_id fi) a2 = Ok (Some b) \<and>
    (\<forall>f. fs_get_file_info (fi_file_id fi) a2 = Ok (Some f) \<longrightarrow> fs_get_file sys' (fi_file_id fi) a2 = (Ok (f, b), a2))"
proof -
  have "hm_get (ap_files a1) (fi_file_id fi) = Some b"
    using fs_store_file_ok(1) [OF assms(1) [unfolded fs_store_file_def]] by (simp add: hm_get_insert)
  with assms(2) have "hm_get (ap_files a2) (fi_file_id fi) = Some b" by (rule fs_other_keeps_cached)
  then show ?thesis by (simp add: fs_get_file_data_def fs_get_file_info_def fs_get_file_def Let_def)
qed

definition sample_sys :: "unit sys" where
  "sample_sys = \<lparr>sy_crypto = sample_lib, sy_nonces = (\<lambda>_. (replicate 12 0, replicate 12 0)), sy_alive = (\<lambda>_. True),
     sy_store = simple_in_memory_file_storage, sy_auth = sample_env, sy_chrono = sample_chrono, sy_now = 0,
     sy_random = 0, sy_env = (\<lambda>_. None), sy_transport_encrypt_metadata = True\<rparr>"

lemma fs_store_file_no_nm:
  assumes "ap_notification_manager a = None" "ap_file_storage a = None"
  shows "\<exists>a'. fs_store_file sys fi b a = Some (Ok (), a')"
  using assms store_file_info_ok [of fi "ap_storage a"]
  by (auto simp: fs_store_file_def fs_store_file_with_update_type_def fs_store_file_data_internal_def
      ms_store_file_data_def fs_send_notification_def)

lemma sample_stored:
  "\<exists>a. fs_store_file sample_sys (sample_file ''a'' 7) [1, 2] (app_new None None) = Some (Ok (), a)"
  by (rule fs_store_file_no_nm) (simp_all add: app_new_def)

theorem upload_stays_readable_witness:
  "\<exists>a1 a2. fs_store_file sample_sys (sample_file ''a'' 7) [1, 2] (app_new None None) = Some (Ok (), a1) \<and>
     a2 = snd (fs_store_file_data 7 [9] (snd (fs_copy_file_data sample_sys 7 8 a1))) \<and> fs_get_file_data 7 a2 = Ok (Some [1, 2])"
proof -
  obtain a1 where a1: "fs_store_file sample_sys (sample_file ''a'' 7) [1, 2] (app_new None None) = Some (Ok (), a1)"
    using sample_stored by blast
  let ?b = "snd (fs_copy_file_data sample_sys 7 8 a1)" and ?i = "fi_file_id (sample_file ''a'' 7)"
  have "fs_other ?i a1 ?b" using fss_copy [of sample_sys 8 a1 7] by (force simp: fs_other_def sample_file_def)
  moreover have "fs_other ?i ?b (snd (fs_store_file_data 7 [9] ?b))"
    using fss_store_data [of sample_sys ?b 7 "[9]"] by (force simp: fs_other_def)
  ultimately have "(fs_other ?i)\<^sup>*\<^sup>* a1 (snd (fs_store_file_data 7 [9] ?b))" by (rule rtranclp.rtrancl_into_rtrancl [OF r_into_rtranclp])
  from conjunct1 [OF upload_stays_readable [OF a1 this]] have
    "fs_get_file_data 7 (snd (fs_store_file_data 7 [9] ?b)) = Ok (Some [1, 2])" unfolding sample_file_def file_info.simps .
  with a1 show ?thesis by blast
qed

lemma store_file_get_char:
  assumes "fs_store_file sys fi b a = Some (Ok (), a')" "fi_file_id fi \<noteq> 0"
  shows "fs_get_file sys (fi_file_id fi) a' = (Ok (fi, b), a') \<and> fs_get_file_data (fi_file_id fi) a' = Ok (Some b) \<and>
    (\<forall>j. j \<noteq> fi_file_id fi \<longrightarrow> fs_get_file_data j a' = fs_get_file_data j a \<and> fs_get_file_info j a' = fs_get_file_info j a)"
proof -
  note ok = fs_store_file_ok [OF assms(1) [unfolded fs_store_file_def]]
  have info: "ms_get_file_info j (ap_storage a') =
      (if j = fi_file_id fi then Ok (Some fi) else ms_get_file_info j (ap_storage a))" for j
    using assms(2) by (simp add: ms_get_file_info_def ok(2) ms_store_file_info_def hm_get_insert)
  show ?thesis
    using ok(1) by (simp add: fs_get_file_def Let_def fs_get_file_data_def fs_get_file_info_def hm_get_insert info
        ok(3) split: option.split)
qed

lemma store_file_get:
  assumes "fs_store_file sys fi b a = Some (Ok (), a')" "fi_file_id fi \<noteq> 0"
  shows "ms_get_file_info (fi_file_id fi) (ap_storage a') = Ok (Some fi)" "hm_get (ap_files a') (fi_file_id fi) = Some b"
  using store_file_get_char [OF assms] fs_store_file_ok(1) [OF assms(1) [unfolded fs_store_file_def]]
  by (auto simp: fs_get_file_def Let_def hm_get_insert ms_get_file_info_def split: option.splits)

text \<open>
  After a successful upload the service returns exactly the uploaded bytes and the stored
  record for that file, whatever the separate file store does, and the contents and records of
  all other files are as before.
\<close>
theorem store_file_then_get:
  assumes "fs_store_file sys fi b a = Some (Ok (), a')" "fi_file_id fi \<noteq> 0"
  shows "fs_get_file sys (fi_file_id fi) a' = (Ok (fi, b), a') \<and> fs_get_file_data (fi_file_id fi) a' = Ok (Some b) \<and>
    (\<forall>j. j \<noteq> fi_file_id fi \<longrightarrow> fs_get_file_data j a' = fs_get_file_data j a \<and> fs_get_file_info j a' = fs_get_file_info j a)"
  using assms by (rule store_file_get_char)

theorem store_file_then_get_witness:
  "\<exists>a'. fs_store_file sample_sys (sample_file ''a'' 7) [1, 2] (app_new None None) = Some (Ok (), a') \<and>
     fs_get_file_data 7 a' = Ok (Some [1, 2])"
proof -
  obtain a where a: "fs_store_file sample_sys (sample_file ''a'' 7) [1, 2] (app_new None None) = Some (Ok (), a)"
    using sample_stored by blast
  from store_file_then_get [OF this] a show ?thesis by (simp add: sample_file_def)
qed

text \<open>A restart of the process loses the cache and keeps the storage and the file store.\<close>

definition restart :: "'x app \<Rightarrow> 'x app" where
  "restart a = a\<lparr>ap_files := []\<rparr>"

text \<open>
  With a separate file store that returns what was stored, a file uploaded before a
  restart is still found by \<^verbatim>\<open>get_file\<close> but not by \<^verbatim>\<open>get_file_data\<close>, which the download
  handler uses and which never asks the file store.
\<close>
theorem restart_loses_download:
  assumes "fs_store_file sys fi b a = Some (Ok (), a')" "fi_file_id fi \<noteq> 0" "ap_file_storage a' = Some x"
    and "fl_get (sy_store sys) (fi_file_id fi) x = Ok (Some b)"
    and "ap_file_storage a \<noteq> None" "ms_get_file_data (fi_file_id fi) (ap_storage a) = Ok None"
  shows "fst (fs_get_file sys (fi_file_id fi) (restart a')) = Ok (fi, b) \<and>
    fs_get_file_data (fi_file_id fi) (restart a') = Ok None"
proof -
  note ok = fs_store_file_ok [OF assms(1) [unfolded fs_store_file_def]]
  have "ms_get_file_info (fi_file_id fi) (ap_storage a') = Ok (Some fi)"
    using assms(2) by (simp add: ms_get_file_info_def ok(2) ms_store_file_info_def hm_get_insert)
  moreover have "ms_get_file_data (fi_file_id fi) (ap_storage a') = Ok None"
    using assms(5,6) by (simp add: ok(3))
  ultimately show ?thesis using assms(3,4) by (simp add: restart_def fs_get_file_def Let_def fs_get_file_data_def)
qed

text \<open>A file store that keeps what it is given.\<close>

definition map_file_store :: "(u64, bytes) hashmap file_store" where
  "map_file_store = \<lparr>fl_store = (\<lambda>i b m. (Ok ''ok'', hm_insert i b m)), fl_get = (\<lambda>i m. Ok (hm_get m i))\<rparr>"

theorem restart_loses_download_witness:
  "\<exists>sys a'. fs_store_file sys (sample_file ''a'' 7) [1, 2] (app_new (Some []) None) = Some (Ok (), a') \<and>
     sy_store sys = map_file_store \<and> fs_get_file_data 7 (restart a') = Ok None"
proof -
  let ?sys = "\<lparr>sy_crypto = sample_lib, sy_nonces = (\<lambda>_. (replicate 12 0, replicate 12 0)), sy_alive = (\<lambda>_. True),
     sy_store = map_file_store, sy_auth = sample_env, sy_chrono = sample_chrono, sy_now = 0,
     sy_random = 0, sy_env = (\<lambda>_. None), sy_transport_encrypt_metadata = True\<rparr>"
  let ?fi = "sample_file ''a'' 7"
  let ?a = "app_new (Some []) None :: (u64, bytes) hashmap app"
  let ?a' = "?a\<lparr>ap_storage := snd (ms_store_file_info ?fi (ap_storage ?a)),
    ap_file_storage := Some (hm_insert 7 [1, 2] []), ap_files := hm_insert 7 [1, 2] []\<rparr>"
  have a': "fs_store_file ?sys ?fi [1, 2] ?a = Some (Ok (), ?a')"
    by (simp add: fs_store_file_def fs_store_file_with_update_type_def fs_store_file_data_internal_def
        fs_send_notification_def app_new_def map_file_store_def ms_store_file_info_def sample_file_def)
  have "fs_get_file_data (fi_file_id ?fi) (restart ?a') = Ok None"
    using restart_loses_download [OF a', of "hm_insert 7 [1, 2] []"]
    by (simp add: sample_file_def map_file_store_def hm_get_insert app_new_def ms_get_file_data_def ms_new_def)
  then show ?thesis using a' by (intro exI [of _ ?sys] exI [of _ ?a']) (simp add: sample_file_def)
qed

lemma fs_delete_file_char:
  assumes "fs_delete_file sys i a = Some (Ok (), a')"
  shows "fs_get_file_info i a' = Ok None \<and> fs_get_file_data i a' = Ok None \<and>
    (\<forall>j. j \<noteq> i \<longrightarrow> fs_get_file_info j a' = fs_get_file_info j a \<and> fs_get_file_data j a' = fs_get_file_data j a) \<and>
    ap_file_storage a' = ap_file_storage a"
proof -
  obtain fi where fi: "hm_get (sd_files (ap_storage a)) i = Some fi"
    using assms by (auto simp: fs_delete_file_def ms_get_file_info_include_deleted_def ms_get_file_info_def
        split: option.splits)
  let ?s = "ap_storage a\<lparr>sd_file_data := hm_remove i (sd_file_data (ap_storage a)),
    sd_files := hm_remove i (sd_files (ap_storage a))\<rparr>"
  have "fs_send_notification sys fi F_Deleted False (a\<lparr>ap_storage := ?s, ap_files := hm_remove i (ap_files a)\<rparr>) = Some a'"
    using assms fi by (auto simp: fs_delete_file_def ms_get_file_info_include_deleted_def ms_get_file_info_def
        ms_delete_file_def bind_eq_Some_conv)
  note n = fs_send_notification_same [OF this]
  show ?thesis
    by (simp add: n fs_get_file_info_def fs_get_file_data_def ms_get_file_info_def ms_get_file_data_def hm_get_remove
        split: option.split)
qed

lemma fs_delete_file_gone: "fs_delete_file sys i a = Some (Ok (), a') \<Longrightarrow> fs_get_file_info i a' = Ok None"
  using fs_delete_file_char by blast

text \<open>
  Deleting a stored file through the service removes its record, its contents and its
  cache entry and no other file's, but leaves the separate file store as it is, so the stored
  blob remains there.
\<close>
theorem delete_file_leaves_blob:
  assumes "fs_delete_file sys i a = Some (Ok (), a')"
  shows "fs_get_file_info i a' = Ok None \<and> fs_get_file_data i a' = Ok None \<and>
    (\<forall>j. j \<noteq> i \<longrightarrow> fs_get_file_info j a' = fs_get_file_info j a \<and> fs_get_file_data j a' = fs_get_file_data j a) \<and>
    ap_file_storage a' = ap_file_storage a"
  using assms by (rule fs_delete_file_char)

theorem delete_file_leaves_blob_witness:
  "\<exists>a'. fs_delete_file sample_sys 7 (snd (fs_store_file_info (sample_file ''a'' 7) (app_new None None))) = Some (Ok (), a') \<and>
     fs_get_file_info 7 a' = Ok None"
proof -
  let ?a = "snd (fs_store_file_info (sample_file ''a'' 7) (app_new None None))"
  have "\<exists>a'. fs_delete_file sample_sys 7 ?a = Some (Ok (), a')"
    by (simp add: fs_delete_file_def fs_store_file_info_def ms_store_file_info_def app_new_def ms_new_def sample_file_def
        ms_get_file_info_include_deleted_def ms_get_file_info_def ms_delete_file_def hm_get_insert fs_send_notification_def)
  then show ?thesis using delete_file_leaves_blob by blast
qed

end
