(* ===== verification/File_Handlers.thy ===== *)
theory File_Handlers
  imports File_Service
begin

text \<open>
  The gRPC handlers for files: \<^verbatim>\<open>src/handlers/file/*.rs\<close>, \<^verbatim>\<open>src/handlers/file_handler.rs\<close>
  and the response constructors of \<^verbatim>\<open>src/utils/response.rs\<close>.  A handler takes the request
  and the server state and returns the response and the new state; an outer \<open>None\<close> is a panic.
\<close>

section \<open>Requests and responses\<close>

record upload_request =
  up_account_hash :: string
  up_device_hash :: string
  up_filename :: string
  up_file_path :: string
  up_file_data :: bytes
  up_file_hash :: string
  up_auth_token :: string
  up_group_id :: i32
  up_watcher_id :: i32
  up_is_encrypted :: bool
  up_revision :: i64
  up_file_size :: u64
  up_key_id :: string

record upload_response =
  ur_success :: bool
  ur_file_id :: u64
  ur_new_revision :: i64
  ur_return_message :: string

record download_request =
  dr_account_hash :: string
  dr_device_hash :: string
  dr_file_id :: u64
  dr_auth_token :: string

record download_response =
  dp_success :: bool
  dp_filename :: string
  dp_file_path :: string
  dp_file_data :: bytes
  dp_file_hash :: string
  dp_is_encrypted :: bool
  dp_return_message :: string
  dp_updated_time :: "timestamp option"
  dp_file_size :: u64
  dp_key_id :: string

record delete_request =
  de_account_hash :: string
  de_device_hash :: string
  de_filename :: string
  de_file_path :: string
  de_file_id :: u64
  de_revision :: i64
  de_auth_token :: string

record delete_response =
  dl_success :: bool
  dl_return_message :: string

record exists_response =
  ex_success :: bool
  ex_exists :: bool
  ex_is_deleted :: bool
  ex_return_message :: string

record find_request =
  fr_account_hash :: string
  fr_auth_token :: string
  fr_group_id :: i32
  fr_watcher_id :: i32
  fr_file_path :: string
  fr_file_name :: string

record find_response =
  ff_success :: bool
  ff_return_message :: string
  ff_file_id :: u64
  ff_revision :: i64
  ff_file_info :: "p_file_info option"

record list_request =
  lr_account_hash :: string
  lr_device_hash :: string
  lr_group_id :: i32
  lr_auth_token :: string
  lr_upload_time_from :: "timestamp option"

record list_response =
  ls_success :: bool
  ls_files :: "p_file_info list"
  ls_return_message :: string

definition file_upload_error :: "string \<Rightarrow> upload_response" where
  "file_upload_error message = \<lparr>ur_success = False, ur_file_id = 0, ur_new_revision = 0, ur_return_message = message\<rparr>"

definition file_upload_success :: "u64 \<Rightarrow> i64 \<Rightarrow> upload_response" where
  "file_upload_success file_id new_revision =
     \<lparr>ur_success = True, ur_file_id = file_id, ur_new_revision = new_revision, ur_return_message = ''OK''\<rparr>"

definition file_download_error :: "string \<Rightarrow> download_response" where
  "file_download_error message = \<lparr>dp_success = False, dp_filename = '''', dp_file_path = '''', dp_file_data = [],
     dp_file_hash = '''', dp_is_encrypted = False, dp_return_message = message, dp_updated_time = None,
     dp_file_size = 0, dp_key_id = ''''\<rparr>"

definition file_delete_error :: "string \<Rightarrow> delete_response" where
  "file_delete_error message = \<lparr>dl_success = False, dl_return_message = message\<rparr>"

definition file_delete_success :: "string \<Rightarrow> delete_response" where
  "file_delete_success message = \<lparr>dl_success = True, dl_return_message = message\<rparr>"

definition find_failure :: "string \<Rightarrow> find_response" where
  "find_failure message = \<lparr>ff_success = False, ff_return_message = message, ff_file_id = 0, ff_revision = 0,
     ff_file_info = None\<rparr>"

section \<open>Helpers of the handler\<close>

definition validate_upload_input :: "upload_request \<Rightarrow> (string, unit) result" where
  "validate_upload_input req =
     (if up_account_hash req = [] \<or> up_device_hash req = [] \<or> up_file_hash req = []
      then Err ''Missing required fields: account_hash/device_hash/file_hash''
      else if up_group_id req \<le> 0 \<or> up_watcher_id req \<le> 0 then Err ''Invalid group_id/watcher_id''
      else if trim (up_filename req) = [] \<or> trim (up_file_path req) = []
      then Err ''filename/file_path must not be empty''
      else if up_is_encrypted req \<and> trim (up_key_id req) = []
      then Err ''key_id is required when is_encrypted is true''
      else if \<not> up_is_encrypted req \<and> trim (up_key_id req) \<noteq> []
      then Err ''key_id must be empty when is_encrypted is false''
      else Ok ())"

definition fh_normalize_file_path :: "string \<Rightarrow> (string, string) result" where
  "fh_normalize_file_path file_path =
     (let normalized_file_path = (if file_path = [] then ''~/'' else normalize_raw file_path)
      in if length normalized_file_path > 1024 then Err ''File path too long'' else Ok normalized_file_path)"

text \<open>
  \<^verbatim>\<open>SystemTime::now().duration_since(UNIX_EPOCH)\<close> as seconds and nanoseconds, zero before the
  epoch.
\<close>

definition epoch_secs :: "datetime \<Rightarrow> u64" where
  "epoch_secs now = (if now < 0 then 0 else of_int (now div 1000000000))"

definition epoch_nanos :: "datetime \<Rightarrow> nat" where
  "epoch_nanos now = (if now < 0 then 0 else nat (now mod 1000000000))"

definition fh_generate_file_id :: "'x sys \<Rightarrow> upload_request \<Rightarrow> u64" where
  "fh_generate_file_id sys req =
     generate_file_id (sy_crypto sys) (epoch_secs (sy_now sys)) (epoch_nanos (sy_now sys)) (sy_random sys)
       (up_account_hash req) (up_filename req) (up_file_hash req)"

text \<open>
  \<^verbatim>\<open>Path::parent\<close> for Unix paths: empty and \<^verbatim>\<open>.\<close> components are skipped, except a leading
  \<^verbatim>\<open>.\<close>, and the root has no parent.
\<close>

definition path_parent :: "string \<Rightarrow> string option" where
  "path_parent s =
     (let ps = split_char (CHR ''/'') s; root = starts_with s ''/'';
          skip = dropWhile (\<lambda>p. p = [] \<or> p = ''.'')
      in case skip (rev (tl ps)) of
           [] \<Rightarrow> if root \<or> hd ps = [] then None else Some []
         | _ # rest \<Rightarrow>
             (let kept = rev (skip rest)
              in Some (if kept = [] \<and> root then ''/'' else join ''/'' (hd ps # kept))))"

definition get_watcher_info_once :: "string \<Rightarrow> i32 \<Rightarrow> i32 \<Rightarrow> 'x app \<Rightarrow> (string, p_watcher_data) result" where
  "get_watcher_info_once account_hash group_id watcher_id a =
     (case ms_get_watcher_by_group_and_id account_hash group_id watcher_id (ap_storage a) of
        Inr (Some w) \<Rightarrow> Ok w
      | Inr None \<Rightarrow> Err (''Watcher not found: group_id='' @ show_int group_id @ '', watcher_id='' @ show_int watcher_id)
      | Inl e \<Rightarrow> Err (''Database error: '' @ storage_error_display e))"

definition validate_file_path_with_watcher :: "upload_request \<Rightarrow> string \<Rightarrow> 'x app \<Rightarrow> (string, unit) result" where
  "validate_file_path_with_watcher req normalized_file_path a =
     (case get_watcher_info_once (up_account_hash req) (up_group_id req) (up_watcher_id req) a of
        Inl e \<Rightarrow> Err ''Watcher not found or validation failed''
      | Inr w \<Rightarrow>
          (let folder = normalize_raw (pw_folder w);
               inside = (if pw_recursive_path w
                  then starts_with normalized_file_path folder \<or> normalized_file_path = folder
                  else (case path_parent normalized_file_path of Some p \<Rightarrow> p | None \<Rightarrow> '''') = folder)
           in if \<not> inside
              then Err (''File path '' @ [CHR 0x27] @ normalized_file_path @ [CHR 0x27] @ '' is not within watcher folder ''
                     @ [CHR 0x27] @ folder @ [CHR 0x27])
              else Ok ()))"

definition build_file_info_for_upload ::
  "'x sys \<Rightarrow> upload_request \<Rightarrow> u64 \<Rightarrow> string \<Rightarrow> i32 \<Rightarrow> i32 \<Rightarrow> file_info" where
  "build_file_info_for_upload sys req file_id normalized_file_path server_group_id server_watcher_id =
     \<lparr>fi_file_id = file_id, fi_filename = up_filename req, fi_file_hash = up_file_hash req,
      fi_device_hash = up_device_hash req, fi_group_id = server_group_id, fi_watcher_id = server_watcher_id,
      fi_is_encrypted = up_is_encrypted req, fi_file_path = normalized_file_path,
      fi_updated_time = \<lparr>ts_seconds = ch_timestamp (sy_chrono sys) (sy_now sys), ts_nanos = 0\<rparr>,
      fi_revision = up_revision req, fi_account_hash = up_account_hash req, fi_size = up_file_size req,
      fi_key_id = (if up_key_id req = [] then None else Some (up_key_id req))\<rparr>"

text \<open>
  The authentication step of every handler, \<^verbatim>\<open>match verify_token { Ok(v) if v.valid => ...\<close>:
  the account of a valid token, or nothing.
\<close>

definition fh_authenticate :: "'x sys \<Rightarrow> string \<Rightarrow> 'x app \<Rightarrow> (string option \<times> 'x app) option" where
  "fh_authenticate sys token a =
     (case verify_token (sy_auth sys) (sy_now sys) token (ap_storage a) of
        None \<Rightarrow> None
      | Some (Inr v, s) \<Rightarrow> Some (if vr_valid v then Some (vr_account_hash v) else None, a\<lparr>ap_storage := s\<rparr>)
      | Some (Inl _, s) \<Rightarrow> Some (None, a\<lparr>ap_storage := s\<rparr>))"

text \<open>Publishing an event; a failure of the bus is only logged.\<close>

definition publish :: "string \<Rightarrow> string \<Rightarrow> u64 \<Rightarrow> i64 \<Rightarrow> 'x app \<Rightarrow> 'x app" where
  "publish routing_key typ file_id revision a =
     a\<lparr>ap_published := ap_published a @
       [\<lparr>ev_routing_key = routing_key, ev_type = typ, ev_file_id = file_id, ev_revision = revision\<rparr>]\<rparr>"

section \<open>Upload\<close>

definition handle_upload_file :: "'x sys \<Rightarrow> upload_request \<Rightarrow> 'x app \<Rightarrow> (upload_response \<times> 'x app) option" where
  "handle_upload_file sys req a =
     (if length (up_file_data req) \<noteq> unat (up_file_size req)
      then Some (file_upload_error ''File data size mismatch'', a)
      else do {
        (auth, a1) \<leftarrow> fh_authenticate sys (up_auth_token req) a;
        (case auth of
           None \<Rightarrow> Some (file_upload_error ''Authentication failed'', a1)
         | Some server_account_hash \<Rightarrow>
             (case validate_upload_input req of
                Inl msg \<Rightarrow> Some (file_upload_error msg, a1)
              | Inr _ \<Rightarrow>
                  (case fh_normalize_file_path (up_file_path req) of
                     Inl msg \<Rightarrow> Some (file_upload_error msg, a1)
                   | Inr normalized_file_path \<Rightarrow>
                       (let _ = validate_file_path_with_watcher req normalized_file_path a1;
                            file_id = fh_generate_file_id sys req
                        in case fs_ensure_server_ids_for_upload server_account_hash (up_group_id req)
                                  (up_watcher_id req) a1 of
                             Inl e \<Rightarrow> Some (file_upload_error (''Failed to ensure server IDs: '' @ storage_error_display e), a1)
                           | Inr (server_group_id, server_watcher_id) \<Rightarrow>
                               (let fi = build_file_info_for_upload sys (req\<lparr>up_account_hash := server_account_hash\<rparr>)
                                           file_id normalized_file_path server_group_id server_watcher_id
                                in do {
                                  (r, a2) \<leftarrow> fs_store_file sys fi (up_file_data req) a1;
                                  (case r of
                                     Inr _ \<Rightarrow>
                                       (let rev = wrap_i64 (up_revision req + 1);
                                            a3 = publish (''file.uploaded.'' @ server_account_hash @ ''.'' @
                                                   show_int server_group_id @ ''.'' @ show_int server_watcher_id)
                                                   ''file_uploaded'' file_id rev a2;
                                            a4 = publish (''version.created.'' @ server_account_hash @ ''.'' @ show_u64 file_id)
                                                   ''version_created'' file_id rev a3
                                        in Some (file_upload_success file_id rev, a4))
                                   | Inl e \<Rightarrow> Some (file_upload_error (''File storage failed: '' @ storage_error_display e), a2))
                                })))))
      })"

section \<open>Download\<close>

definition transport_metadata ::
  "'x sys \<Rightarrow> bytes option \<Rightarrow> bytes \<Rightarrow> string \<Rightarrow> file_info \<Rightarrow> (string \<times> string) option" where
  "transport_metadata sys account_key aad nonce_key fi =
     (case account_key of
        Some key \<Rightarrow> do {
          ct_path \<leftarrow> aead_encrypt (sy_crypto sys) (fst (sy_nonces sys nonce_key)) key (as_bytes (fi_file_path fi)) aad;
          ct_name \<leftarrow> aead_encrypt (sy_crypto sys) (snd (sy_nonces sys nonce_key)) key (as_bytes (fi_filename fi)) aad;
          Some (cl_b64_nopad (sy_crypto sys) ct_path, cl_b64_nopad (sy_crypto sys) ct_name)
        }
      | None \<Rightarrow> Some (fi_file_path fi, fi_filename fi))"

definition account_transport_key ::
  "(string \<Rightarrow> bytes option) \<Rightarrow> 'x sys \<Rightarrow> string \<Rightarrow> 'x app \<Rightarrow> bytes option" where
  "account_transport_key parse sys account_hash a =
     (if sy_transport_encrypt_metadata sys
      then (case ms_get_encryption_key account_hash (ap_storage a) of Inr (Some k) \<Rightarrow> parse k | _ \<Rightarrow> None)
      else None)"

definition handle_download_file :: "'x sys \<Rightarrow> download_request \<Rightarrow> 'x app \<Rightarrow> (download_response \<times> 'x app) option" where
  "handle_download_file sys req a = do {
     (auth, a1) \<leftarrow> fh_authenticate sys (dr_auth_token req) a;
     (case auth of
        None \<Rightarrow> Some (file_download_error ''Authentication failed'', a1)
      | Some _ \<Rightarrow>
          (case fs_get_file_info (dr_file_id req) a1 of
             Inr None \<Rightarrow> Some (file_download_error ''File not found'', a1)
           | Inl e \<Rightarrow> Some (file_download_error (''Failed to get file info: '' @ storage_error_display e), a1)
           | Inr (Some fi) \<Rightarrow>
               (let key = account_transport_key (parse_account_key_download (sy_crypto sys)) sys (fi_account_hash fi) a1;
                    aad = as_bytes (fi_account_hash fi @ '':'' @ dr_device_hash req)
                in case fs_get_file_data (dr_file_id req) a1 of
                     Inr (Some b) \<Rightarrow> do {
                       (enc_path, enc_name) \<leftarrow> transport_metadata sys key aad ''download'' fi;
                       Some (\<lparr>dp_success = True, dp_filename = enc_name, dp_file_path = enc_path, dp_file_data = b,
                         dp_file_hash = fi_file_hash fi, dp_is_encrypted = fi_is_encrypted fi, dp_return_message = '''',
                         dp_updated_time = Some \<lparr>ts_seconds = ts_seconds (fi_updated_time fi), ts_nanos = 0\<rparr>,
                         dp_file_size = fi_size fi, dp_key_id = (case fi_key_id fi of Some k \<Rightarrow> k | None \<Rightarrow> '''')\<rparr>, a1)
                     }
                   | Inr None \<Rightarrow> Some (file_download_error ''File data not found'', a1)
                   | Inl e \<Rightarrow> Some (file_download_error (''Failed to get file data: '' @ storage_error_display e), a1))))
   }"

section \<open>Delete\<close>

definition validate_file_for_deletion :: "u64 \<Rightarrow> 'x app \<Rightarrow> (delete_response, u64) result" where
  "validate_file_for_deletion file_id a =
     (case fs_check_file_exists file_id a of
        Inr (exists, is_deleted) \<Rightarrow>
          (if \<not> exists then Err (file_delete_error ''File not found'')
           else if is_deleted then Err (file_delete_success ''File already deleted'')
           else Ok file_id)
      | Inl e \<Rightarrow> Err (file_delete_error (''Failed to check file status: '' @ e)))"

definition find_file_by_path :: "delete_request \<Rightarrow> 'x app \<Rightarrow> (delete_response, u64) result" where
  "find_file_by_path req a =
     (let normalized_file_path = normalize_raw (de_file_path req) in
      case fs_find_file_by_local_path (de_account_hash req) normalized_file_path (de_filename req) (de_revision req) a of
        Inr (Some info) \<Rightarrow> Ok (fi_file_id info)
      | Inr None \<Rightarrow> Err (file_delete_error (''File not found: '' @ de_filename req))
      | Inl e \<Rightarrow> Err (file_delete_error (''Failed to search file: '' @ storage_error_display e)))"

definition handle_delete_file :: "'x sys \<Rightarrow> delete_request \<Rightarrow> 'x app \<Rightarrow> (delete_response \<times> 'x app) option" where
  "handle_delete_file sys req a = do {
     (auth, a1) \<leftarrow> fh_authenticate sys (de_auth_token req) a;
     (case auth of
        None \<Rightarrow> Some (file_delete_error ''Authentication failed'', a1)
      | Some _ \<Rightarrow>
          (case (if de_file_id req > 0 then validate_file_for_deletion (de_file_id req) a1 else find_file_by_path req a1) of
             Inl resp \<Rightarrow> Some (resp, a1)
           | Inr file_id \<Rightarrow> do {
               (r, a2) \<leftarrow> fs_delete_file sys file_id a1;
               (case r of
                  Inr _ \<Rightarrow>
                    (let rev = wrap_i64 (de_revision req + 1);
                         a3 = publish (''file.deleted.'' @ de_account_hash req) ''file_deleted'' file_id rev a2;
                         a4 = publish (''version.deleted.'' @ de_account_hash req @ ''.'' @ show_u64 file_id)
                                ''version_deleted'' file_id rev a3
                     in Some (file_delete_success ''File deleted successfully'', a4))
                | Inl e \<Rightarrow> Some (file_delete_error (''File deletion failed: '' @ storage_error_display e), a2))
             }))
   }"

section \<open>Exists and find\<close>

definition handle_check_file_exists :: "'x sys \<Rightarrow> string \<Rightarrow> u64 \<Rightarrow> 'x app \<Rightarrow> (exists_response \<times> 'x app) option" where
  "handle_check_file_exists sys auth_token file_id a = do {
     (auth, a1) \<leftarrow> fh_authenticate sys auth_token a;
     (case auth of
        None \<Rightarrow> Some (\<lparr>ex_success = False, ex_exists = False, ex_is_deleted = False,
                  ex_return_message = ''Authentication failed''\<rparr>, a1)
      | Some _ \<Rightarrow>
          (case fs_check_file_exists file_id a1 of
             Inr (exists, is_deleted) \<Rightarrow>
               Some (\<lparr>ex_success = True, ex_exists = exists, ex_is_deleted = is_deleted,
                 ex_return_message = (if exists
                   then (if is_deleted then ''File exists but is deleted'' else ''File exists and is active'')
                   else ''File does not exist'')\<rparr>, a1)
           | Inl e \<Rightarrow> Some (\<lparr>ex_success = False, ex_exists = False, ex_is_deleted = False,
                 ex_return_message = ''Failed to check file existence: '' @ e\<rparr>, a1)))
   }"

definition handle_find_file_by_criteria :: "'x sys \<Rightarrow> find_request \<Rightarrow> 'x app \<Rightarrow> (find_response \<times> 'x app) option" where
  "handle_find_file_by_criteria sys req a = do {
     (auth, a1) \<leftarrow> fh_authenticate sys (fr_auth_token req) a;
     (case auth of
        None \<Rightarrow> Some (find_failure ''Authentication failed'', a1)
      | Some _ \<Rightarrow>
          (case (if fr_group_id req > 0 \<and> fr_watcher_id req > 0
                 then (case fs_convert_client_ids_to_server (fr_account_hash req) (fr_group_id req) (fr_watcher_id req) a1 of
                         Inr (Some ids) \<Rightarrow> Ok ids
                       | Inr None \<Rightarrow> Err ''Group or watcher not found''
                       | Inl e \<Rightarrow> Err (''Failed to convert IDs: '' @ storage_error_display e))
                 else Ok (0, 0)) of
             Inl msg \<Rightarrow> Some (find_failure msg, a1)
           | Inr (server_group_id, server_watcher_id) \<Rightarrow>
               (let normalized_file_path = normalize_raw (fr_file_path req) in
                case fs_find_file_by_criteria (fr_account_hash req) server_group_id server_watcher_id
                       normalized_file_path (fr_file_name req) a1 of
                  Inr (Some fi) \<Rightarrow>
                    Some (\<lparr>ff_success = True, ff_return_message = ''File found'', ff_file_id = fi_file_id fi,
                      ff_revision = fi_revision fi,
                      ff_file_info = Some (\<lparr>pf_file_id = fi_file_id fi, pf_filename = fi_filename fi,
                        pf_file_hash = fi_file_hash fi,
                        pf_updated_time = Some \<lparr>ts_seconds = ts_seconds (fi_updated_time fi), ts_nanos = 0\<rparr>,
                        pf_device_hash = fi_device_hash fi, pf_group_id = fr_group_id req,
                        pf_watcher_id = fr_watcher_id req, pf_is_encrypted = fi_is_encrypted fi,
                        pf_file_path = fi_file_path fi, pf_revision = fi_revision fi, pf_file_size = fi_size fi\<rparr>)\<rparr>, a1)
                | Inr None \<Rightarrow> Some (find_failure ''File not found'', a1)
                | Inl e \<Rightarrow> Some (find_failure (''File search error: '' @ storage_error_display e), a1))))
   }"

section \<open>List\<close>

definition list_time_ok :: "'x sys \<Rightarrow> datetime option \<Rightarrow> file_info \<Rightarrow> bool" where
  "list_time_ok sys time_filter fi =
     (case time_filter of
        Some filter_time \<Rightarrow>
          \<not> timestamp_to_datetime (sy_chrono sys) (sy_now sys)
              \<lparr>ts_seconds = ts_seconds (fi_updated_time fi), ts_nanos = 0\<rparr> \<le> filter_time
      | None \<Rightarrow> True)"

fun list_loop ::
  "'x sys \<Rightarrow> list_request \<Rightarrow> bytes option \<Rightarrow> i32 \<Rightarrow> datetime option \<Rightarrow> 'x app \<Rightarrow> file_info list \<Rightarrow> p_file_info list option" where
  "list_loop sys req account_key server_group_id time_filter a [] = Some []"
| "list_loop sys req account_key server_group_id time_filter a (fi # fs) =
     (if \<not> list_time_ok sys time_filter fi then list_loop sys req account_key server_group_id time_filter a fs
      else let client_watcher_id =
             (case ms_get_client_watcher_id (lr_account_hash req) server_group_id (fi_watcher_id fi) (ap_storage a) of
                Inr (Some (_, w)) \<Rightarrow> w | Inr None \<Rightarrow> fi_watcher_id fi | Inl _ \<Rightarrow> fi_watcher_id fi)
        in do {
          (enc_path, enc_name) \<leftarrow> transport_metadata sys account_key
             (as_bytes (lr_account_hash req @ '':'' @ lr_device_hash req)) (show_u64 (fi_file_id fi)) fi;
          rest \<leftarrow> list_loop sys req account_key server_group_id time_filter a fs;
          Some (\<lparr>pf_file_id = fi_file_id fi, pf_filename = enc_name, pf_file_hash = fi_file_hash fi,
             pf_updated_time = Some \<lparr>ts_seconds = ts_seconds (fi_updated_time fi), ts_nanos = 0\<rparr>,
             pf_device_hash = fi_device_hash fi, pf_group_id = lr_group_id req, pf_watcher_id = client_watcher_id,
             pf_is_encrypted = fi_is_encrypted fi, pf_file_path = enc_path, pf_revision = fi_revision fi,
             pf_file_size = fi_size fi\<rparr> # rest)
        })"

definition handle_list_files ::
  "'x sys \<Rightarrow> list_request \<Rightarrow> 'x app \<Rightarrow> ((status, list_response) result \<times> 'x app) option" where
  "handle_list_files sys req a = do {
     (auth, a1) \<leftarrow> fh_authenticate sys (lr_auth_token req) a;
     (case auth of
        None \<Rightarrow> Some (Ok \<lparr>ls_success = False, ls_files = [], ls_return_message = ''Authentication failed''\<rparr>, a1)
      | Some _ \<Rightarrow>
          (case fs_convert_client_group_to_server (lr_account_hash req) (lr_group_id req) a1 of
             Inr None \<Rightarrow> Some (Ok \<lparr>ls_success = True, ls_files = [], ls_return_message = ''No files found''\<rparr>, a1)
           | Inl e \<Rightarrow> Some (Err (mk_status C_Internal (''Failed to convert group_id: '' @ storage_error_display e)), a1)
           | Inr (Some server_group_id) \<Rightarrow>
               (let time_filter = map_option (timestamp_to_datetime (sy_chrono sys) (sy_now sys)) (lr_upload_time_from req);
                    account_key = account_transport_key (parse_account_key (sy_crypto sys)) sys (lr_account_hash req) a1
                in case fs_list_files_filtered_by_device server_group_id (lr_account_hash req) (lr_device_hash req) a1 of
                     Inr files \<Rightarrow> do {
                       sync_files \<leftarrow> list_loop sys req account_key server_group_id time_filter a1 files;
                       Some (Ok \<lparr>ls_success = True, ls_files = sync_files, ls_return_message = ''''\<rparr>, a1)
                     }
                   | Inl e \<Rightarrow> Some (Err (mk_status C_Internal (''File list retrieval failed: '' @ storage_error_display e)), a1))))
   }"

section \<open>Authentication\<close>

lemma fh_authenticate_frame:
  assumes "fh_authenticate sys token a = Some (r, a')"
  shows "\<exists>accs. a' = a\<lparr>ap_storage := (ap_storage a)\<lparr>sd_accounts := accs\<rparr>\<rparr>"
proof -
  obtain v s where s: "verify_token (sy_auth sys) (sy_now sys) token (ap_storage a) = Some (v, s)"
    and a': "a' = a\<lparr>ap_storage := s\<rparr>"
    using assms by (auto simp: fh_authenticate_def split: option.splits sum.splits)
  have "\<exists>accs. s = (ap_storage a)\<lparr>sd_accounts := accs\<rparr>"
  proof -
    have "s = ap_storage a \<or> (\<exists>acc. s = snd (ms_create_account acc (ap_storage a)))"
      using s by (auto simp: verify_token_def Let_def split: option.splits sum.splits)
    then show ?thesis by (metis ms_create_account_def snd_conv storage_data.surjective storage_data.update_convs(1))
  qed
  then show ?thesis using a' by auto
qed

lemma fh_authenticate_same:
  assumes "fh_authenticate sys token a = Some (r, a')"
  shows "fs_get_file_info i a' = fs_get_file_info i a" "fs_get_file_data i a' = fs_get_file_data i a"
    "ms_get_encryption_key h (ap_storage a') = ms_get_encryption_key h (ap_storage a)"
    "ap_files a' = ap_files a" "ap_file_storage a' = ap_file_storage a" "ap_delivered a' = ap_delivered a"
    "sd_files (ap_storage a') = sd_files (ap_storage a)"
  using fh_authenticate_frame [OF assms]
  by (auto simp: fs_get_file_info_def fs_get_file_data_def ms_get_file_info_def ms_get_file_data_def
      ms_get_encryption_key_def split: option.split)

definition token_dead :: "'x sys \<Rightarrow> string \<Rightarrow> 'x app \<Rightarrow> bool" where
  "token_dead sys token a \<longleftrightarrow> list_all is_ascii token \<and> \<not> av_debug_assertions (sy_auth sys) \<and>
     (case ms_get_auth_token token (ap_storage a) of
        Inr (Some t) \<Rightarrow> t_expires_at t < sy_now sys \<or> \<not> t_is_valid t | _ \<Rightarrow> True)"

lemma fh_authenticate_dead:
  assumes "token_dead sys token a"
  shows "fh_authenticate sys token a = Some (None, a)"
proof -
  have none: "\<not> token_live (sy_now sys) token (ap_storage a) h" for h
    using assms by (auto simp: token_dead_def token_live_def split: sum.splits option.splits)
  obtain v s where "verify_token (sy_auth sys) (sy_now sys) token (ap_storage a) = Some (Ok v, s)"
    "\<not> vr_valid v" "s = ap_storage a"
    using verify_token_char [of token "sy_auth sys" "sy_now sys" "ap_storage a"] assms none
    by (auto simp: token_dead_def)
  then show ?thesis by (simp add: fh_authenticate_def)
qed

text \<open>
  A request whose token is unknown, expired or deactivated is refused by every file
  handler with a response that carries no data, and the server state, logs included, is
  exactly as before.
\<close>
theorem dead_token_refused:
  assumes "token_dead sys tok a"
  shows "(\<exists>r. handle_upload_file sys (u\<lparr>up_auth_token := tok\<rparr>) a = Some (r, a) \<and> \<not> ur_success r) \<and>
    handle_download_file sys (d\<lparr>dr_auth_token := tok\<rparr>) a = Some (file_download_error ''Authentication failed'', a) \<and>
    handle_delete_file sys (e\<lparr>de_auth_token := tok\<rparr>) a = Some (file_delete_error ''Authentication failed'', a) \<and>
    handle_find_file_by_criteria sys (f\<lparr>fr_auth_token := tok\<rparr>) a = Some (find_failure ''Authentication failed'', a) \<and>
    (\<exists>r. handle_list_files sys (l\<lparr>lr_auth_token := tok\<rparr>) a = Some (Ok r, a) \<and> \<not> ls_success r \<and> ls_files r = []) \<and>
    (\<exists>r. handle_check_file_exists sys tok i a = Some (r, a) \<and> \<not> ex_success r \<and> \<not> ex_exists r)"
  using fh_authenticate_dead [OF assms]
  by (simp add: handle_upload_file_def handle_download_file_def handle_delete_file_def
      handle_find_file_by_criteria_def handle_list_files_def handle_check_file_exists_def file_upload_error_def)

definition sample_upload :: upload_request where
  "sample_upload = \<lparr>up_account_hash = ''x'', up_device_hash = ''d'', up_filename = ''f.txt'', up_file_path = ''/home/u/docs/f.txt'',
     up_file_data = [1, 2, 3], up_file_hash = ''h'', up_auth_token = ''tok'', up_group_id = 1, up_watcher_id = 1,
     up_is_encrypted = False, up_revision = 0, up_file_size = 3, up_key_id = []\<rparr>"

definition sample_download :: download_request where
  "sample_download = \<lparr>dr_account_hash = ''y'', dr_device_hash = ''d2'', dr_file_id = 0, dr_auth_token = ''tok''\<rparr>"

lemma sample_token_dead: "token_dead sample_sys ''none'' (app_new None None)"
  by (simp add: token_dead_def is_ascii_def sample_sys_def sample_env_def ms_get_auth_token_def app_new_def ms_new_def)

theorem dead_token_refused_witness:
  "handle_download_file sample_sys (sample_download\<lparr>dr_auth_token := ''none''\<rparr>) (app_new None None) =
     Some (file_download_error ''Authentication failed'', app_new None None)"
  using dead_token_refused [OF sample_token_dead, of _ sample_download] by blast

section \<open>Upload and download\<close>

lemma normalize_raw_Nil: "normalize_raw [] = ''~/''"
  by (simp add: normalize_raw_def)

lemma handle_upload_success:
  assumes "handle_upload_file sys req a = Some (r, a')" "ur_success r"
  shows "\<exists>acct a1 path gid wid a2 fi. fh_authenticate sys (up_auth_token req) a = Some (Some acct, a1) \<and>
    validate_upload_input req = Ok () \<and> fh_normalize_file_path (up_file_path req) = Ok path \<and>
    fi = build_file_info_for_upload sys (req\<lparr>up_account_hash := acct\<rparr>) (fh_generate_file_id sys req) path gid wid \<and>
    fs_store_file sys fi (up_file_data req) a1 = Some (Ok (), a2) \<and>
    r = file_upload_success (fh_generate_file_id sys req) (wrap_i64 (up_revision req + 1)) \<and>
    ap_files a' = ap_files a2 \<and> ap_storage a' = ap_storage a2 \<and> ap_file_storage a' = ap_file_storage a2 \<and>
    ap_delivered a' = ap_delivered a2"
proof -
  note d = handle_upload_file_def file_upload_error_def
  have size: "length (up_file_data req) = unat (up_file_size req)"
    using assms by (auto simp: d split: if_splits)
  obtain auth a1 where auth: "fh_authenticate sys (up_auth_token req) a = Some (auth, a1)"
    using assms(1) size by (auto simp: d bind_eq_Some_conv)
  obtain acct where acct: "auth = Some acct" using assms size auth by (cases auth) (auto simp: d)
  have val: "validate_upload_input req = Ok ()"
    using assms size auth acct by (cases "validate_upload_input req") (auto simp: d)
  obtain path where path: "fh_normalize_file_path (up_file_path req) = Ok path"
    using assms size auth acct val by (cases "fh_normalize_file_path (up_file_path req)") (auto simp: d)
  obtain gid wid where ids: "fs_ensure_server_ids_for_upload acct (up_group_id req) (up_watcher_id req) a1 = Ok (gid, wid)"
    using assms size auth acct val path
    by (cases "fs_ensure_server_ids_for_upload acct (up_group_id req) (up_watcher_id req) a1") (auto simp: d)
  let ?fi = "build_file_info_for_upload sys (req\<lparr>up_account_hash := acct\<rparr>) (fh_generate_file_id sys req) path gid wid"
  obtain r2 a2 where store: "fs_store_file sys ?fi (up_file_data req) a1 = Some (r2, a2)"
    using assms(1) size auth acct val path ids by (auto simp: d Let_def bind_eq_Some_conv)
  have r2: "r2 = Ok ()" using assms size auth acct val path ids store by (cases r2) (auto simp: d)
  have "r = file_upload_success (fh_generate_file_id sys req) (wrap_i64 (up_revision req + 1)) \<and>
      ap_files a' = ap_files a2 \<and> ap_storage a' = ap_storage a2 \<and> ap_file_storage a' = ap_file_storage a2 \<and>
      ap_delivered a' = ap_delivered a2"
    using assms(1) size auth acct val path ids store r2 by (auto simp: d publish_def Let_def)
  then show ?thesis using auth acct val path store r2 by blast
qed

text \<open>
  How paths and names travel: in plain text without an account key, and otherwise as the base64 text of a
  ciphertext that the account key opens.  The nonces are 12 random bytes.
\<close>

definition transport_ok :: "'x sys \<Rightarrow> bool" where
  "transport_ok sys \<longleftrightarrow> cipher_total (sy_crypto sys) \<and> cipher_inverse (sy_crypto sys) \<and>
     (\<forall>k. length (fst (sy_nonces sys k)) = 12 \<and> length (snd (sy_nonces sys k)) = 12)"

definition transported :: "crypto_lib \<Rightarrow> bytes option \<Rightarrow> bytes \<Rightarrow> string \<times> string \<Rightarrow> string \<times> string \<Rightarrow> bool" where
  "transported cl account_key aad plain shown \<longleftrightarrow>
     (case account_key of
        None \<Rightarrow> shown = plain
      | Some key \<Rightarrow> \<exists>ct_path ct_name. shown = (cl_b64_nopad cl ct_path, cl_b64_nopad cl ct_name) \<and>
          aead_decrypt cl key ct_path aad = Ok (as_bytes (fst plain)) \<and>
          aead_decrypt cl key ct_name aad = Ok (as_bytes (snd plain)))"

lemma transport_metadata_total: "cipher_total (sy_crypto sys) \<Longrightarrow> \<exists>m. transport_metadata sys key aad k fi = Some m"
proof (cases key)
  case (Some b)
  assume "cipher_total (sy_crypto sys)"
  note t = aead_encrypt_total [OF this]
  obtain cp cn where "aead_encrypt (sy_crypto sys) (fst (sy_nonces sys k)) b (as_bytes (fi_file_path fi)) aad = Some cp"
    "aead_encrypt (sy_crypto sys) (snd (sy_nonces sys k)) b (as_bytes (fi_filename fi)) aad = Some cn"
    using t by metis
  then show ?thesis by (simp add: Some transport_metadata_def)
qed (simp add: transport_metadata_def)

lemma transport_metadata_transported:
  assumes "transport_ok sys"
  shows "\<exists>m. transport_metadata sys key aad k fi = Some m \<and>
    transported (sy_crypto sys) key aad (fi_file_path fi, fi_filename fi) m"
proof (cases key)
  case (Some b)
  obtain cp cn where c: "aead_encrypt (sy_crypto sys) (fst (sy_nonces sys k)) b (as_bytes (fi_file_path fi)) aad = Some cp"
    "aead_encrypt (sy_crypto sys) (snd (sy_nonces sys k)) b (as_bytes (fi_filename fi)) aad = Some cn"
    using assms aead_encrypt_total by (metis transport_ok_def)
  have "aead_decrypt (sy_crypto sys) b cp aad = Ok (as_bytes (fi_file_path fi))"
    "aead_decrypt (sy_crypto sys) b cn aad = Ok (as_bytes (fi_filename fi))"
    using assms by (auto simp: transport_ok_def cipher_inverse_def intro!: aead_decrypt_encrypt [OF _ c(1)] aead_decrypt_encrypt [OF _ c(2)])
  with c show ?thesis by (auto simp: Some transport_metadata_def transported_def)
qed (simp add: transport_metadata_def transported_def)

text \<open>
  The requests that leave file \<open>i\<close> as it is: every file request except a deletion of that file and an upload
  under its identifier (or under zero, for which the storage counts identifiers of its own), and whatever
  else the server does that touches neither the file records nor the cache.  Each may come at its own time.
\<close>

inductive leaves_file :: "u64 \<Rightarrow> 'x app \<Rightarrow> 'x app \<Rightarrow> bool" for i :: u64 where
  lf_upload: "handle_upload_file sys u a = Some (r, a') \<Longrightarrow> fh_generate_file_id sys u \<notin> {0, i} \<Longrightarrow> leaves_file i a a'"
| lf_download: "handle_download_file sys d a = Some (p, a') \<Longrightarrow> leaves_file i a a'"
| lf_delete: "handle_delete_file sys e a = Some (q, a') \<Longrightarrow>
    (if de_file_id e > 0 then Ok (de_file_id e) else find_file_by_path e a) \<noteq> Ok i \<Longrightarrow> leaves_file i a a'"
| lf_exists: "handle_check_file_exists sys tok j a = Some (x, a') \<Longrightarrow> leaves_file i a a'"
| lf_find: "handle_find_file_by_criteria sys f a = Some (y, a') \<Longrightarrow> leaves_file i a a'"
| lf_list: "handle_list_files sys l a = Some (z, a') \<Longrightarrow> leaves_file i a a'"
| lf_other: "sd_files (ap_storage a') = sd_files (ap_storage a) \<Longrightarrow> ap_files a' = ap_files a \<Longrightarrow> leaves_file i a a'"

definition file_kept :: "u64 \<Rightarrow> 'x app \<Rightarrow> 'x app \<Rightarrow> bool" where
  "file_kept i a a' \<longleftrightarrow> hm_get (sd_files (ap_storage a')) i = hm_get (sd_files (ap_storage a)) i \<and>
     hm_get (ap_files a') i = hm_get (ap_files a) i"

lemma store_file_kept:
  assumes "fs_store_file sys fi b a = Some (r, a')" "fi_file_id fi \<notin> {0, i}"
  shows "file_kept i a a'"
proof -
  have "hm_get (sd_files (ap_storage a')) i = hm_get (sd_files (ap_storage a)) i"
    using assms
    by (auto simp: fs_store_file_def fs_store_file_with_update_type_def ms_store_file_info_def bind_eq_Some_conv
        hm_get_insert dest!: fs_send_notification_same(2) fs_store_file_data_internal_same(2) split: prod.splits sum.splits)
  with assms show ?thesis by (auto simp: file_kept_def fs_store_file_def store_keeps_cached)
qed

lemma delete_file_kept:
  assumes "fs_delete_file sys j a = Some (r, a')" "j \<noteq> i"
  shows "file_kept i a a'"
proof -
  have "hm_get (sd_files (ap_storage a')) i = hm_get (sd_files (ap_storage a)) i"
    using assms
    by (auto simp: fs_delete_file_def ms_delete_file_def bind_eq_Some_conv hm_get_remove
        dest!: fs_send_notification_same(2) split: sum.splits option.splits prod.splits if_splits)
  with assms show ?thesis by (auto simp: file_kept_def delete_keeps_cached)
qed

lemma authenticate_kept: "fh_authenticate sys tok a = Some (r, a') \<Longrightarrow> file_kept i a a'"
  by (simp add: file_kept_def fh_authenticate_same)

lemma file_kept_trans: "file_kept i a b \<Longrightarrow> file_kept i b c \<Longrightarrow> file_kept i a c"
  by (simp add: file_kept_def)

lemma file_kept_publish [simp]: "file_kept i a (publish k t f v b) = file_kept i a b"
  by (simp add: file_kept_def publish_def)

lemma find_file_by_path_auth: "fh_authenticate sys tok a = Some (x, a') \<Longrightarrow> find_file_by_path e a' = find_file_by_path e a"
  by (drule fh_authenticate_same(7))
    (simp add: find_file_by_path_def fs_find_file_by_local_path_def ms_find_file_by_path_and_name_def)

lemma upload_kept:
  assumes "handle_upload_file sys u a = Some (r, a')" "fh_generate_file_id sys u \<notin> {0, i}"
  shows "file_kept i a a'"
proof (cases "length (up_file_data u) = unat (up_file_size u)")
  case size: True
  obtain auth a1 where a1: "fh_authenticate sys (up_auth_token u) a = Some (auth, a1)"
    using assms(1) size by (auto simp: handle_upload_file_def bind_eq_Some_conv)
  note k1 = authenticate_kept [OF a1, of i]
  show ?thesis
  proof (cases "\<exists>acct path ids. auth = Some acct \<and> validate_upload_input u = Ok () \<and>
      fh_normalize_file_path (up_file_path u) = Ok path \<and>
      fs_ensure_server_ids_for_upload acct (up_group_id u) (up_watcher_id u) a1 = Ok ids")
    case False
    then have "a' = a1" using assms(1) size a1
      by (auto simp: handle_upload_file_def Let_def split: option.splits sum.splits)
    with k1 show ?thesis by simp
  next
    case True
    then obtain acct path gid wid where ok: "auth = Some acct" "validate_upload_input u = Ok ()"
      "fh_normalize_file_path (up_file_path u) = Ok path"
      "fs_ensure_server_ids_for_upload acct (up_group_id u) (up_watcher_id u) a1 = Ok (gid, wid)" by auto
    let ?fi = "build_file_info_for_upload sys (u\<lparr>up_account_hash := acct\<rparr>) (fh_generate_file_id sys u) path gid wid"
    obtain x a2 where a2: "fs_store_file sys ?fi (up_file_data u) a1 = Some (x, a2)"
      using assms(1) size a1 ok by (auto simp: handle_upload_file_def Let_def bind_eq_Some_conv)
    have "file_kept i a1 a2" using store_file_kept [OF a2] assms(2) by (simp add: build_file_info_for_upload_def)
    with k1 have "file_kept i a a2" by (rule file_kept_trans)
    then show ?thesis using assms(1) size a1 ok a2 by (cases x) (auto simp: handle_upload_file_def Let_def)
  qed
qed (use assms(1) in \<open>auto simp: handle_upload_file_def file_kept_def\<close>)

lemma delete_kept:
  assumes "handle_delete_file sys e a = Some (q, a')"
    and "(if de_file_id e > 0 then Ok (de_file_id e) else find_file_by_path e a) \<noteq> Ok i"
  shows "file_kept i a a'"
proof -
  obtain auth a1 where a1: "fh_authenticate sys (de_auth_token e) a = Some (auth, a1)"
    using assms(1) by (auto simp: handle_delete_file_def bind_eq_Some_conv)
  note k1 = authenticate_kept [OF a1, of i]
  let ?t = "if de_file_id e > 0 then validate_file_for_deletion (de_file_id e) a1 else find_file_by_path e a1"
  show ?thesis
  proof (cases "auth = None \<or> (\<exists>m. ?t = Err m)")
    case True
    then show ?thesis using assms(1) a1 k1 by (auto simp: handle_delete_file_def split: option.splits)
  next
    case False
    then obtain acct j where j: "auth = Some acct" "?t = Ok j" by (cases ?t) auto
    have "j \<noteq> i"
      using assms(2) j(2) by (auto simp: validate_file_for_deletion_def find_file_by_path_auth [OF a1] split: if_splits sum.splits)
    moreover obtain r a2 where a2: "fs_delete_file sys j a1 = Some (r, a2)"
      using assms(1) a1 j by (auto simp: handle_delete_file_def bind_eq_Some_conv)
    ultimately have "file_kept i a a2" using delete_file_kept [of sys j a1 r a2 i] k1 by (auto intro: file_kept_trans)
    then show ?thesis using assms(1) a1 a2 j by (cases r) (auto simp: handle_delete_file_def Let_def)
  qed
qed

lemma leaves_file_kept: "leaves_file i a a' \<Longrightarrow> file_kept i a a'"
  by (erule leaves_file.cases)
    (auto simp: upload_kept delete_kept handle_download_file_def handle_check_file_exists_def
      handle_find_file_by_criteria_def handle_list_files_def bind_eq_Some_conv Let_def file_kept_def [of i a a']
      dest!: authenticate_kept [of _ _ _ _ _ i, unfolded file_kept_def]
      split: option.splits sum.splits prod.splits)

lemma leaves_files_kept: "(leaves_file i)\<^sup>*\<^sup>* a a' \<Longrightarrow> file_kept i a a'"
  by (induction rule: rtranclp_induct) (auto simp: file_kept_def dest!: leaves_file_kept)

text \<open>
  C1: a file uploaded successfully stays available.  After any later requests that neither delete it nor upload
  under its identifier, a download with a valid token returns the uploaded bytes, hash, size, encryption flag and key
  identifier; the name and the normalised path come in plain text when the account has no usable key or the metadata
  encryption is off, and otherwise as base64 of ciphertexts that the account key opens to them.  The file is filed under
  the account of the uploader's token, whatever account the request names, and its identifier is at most
  \<^verbatim>\<open>i64::MAX\<close>.  The identifier must not be zero, for which the storage would choose another one.
\<close>
theorem upload_then_download:
  assumes "handle_upload_file sys u a = Some (r, a1)" "ur_success r" "ur_file_id r \<noteq> 0"
    and "(leaves_file (ur_file_id r))\<^sup>*\<^sup>* a1 a2"
    and "fh_authenticate sys' (dr_auth_token d) a2 = Some (Some who, a3)"
    and "dr_file_id d = ur_file_id r" "transport_ok sys'"
  shows "\<exists>p acct a0. fh_authenticate sys (up_auth_token u) a = Some (Some acct, a0) \<and> unat (ur_file_id r) < 2 ^ 63 \<and>
    handle_download_file sys' d a2 = Some (p, a3) \<and> dp_success p \<and>
    dp_file_data p = up_file_data u \<and> dp_file_hash p = up_file_hash u \<and> dp_file_size p = up_file_size u \<and>
    dp_is_encrypted p = up_is_encrypted u \<and> dp_key_id p = up_key_id u \<and>
    transported (sy_crypto sys') (account_transport_key (parse_account_key_download (sy_crypto sys')) sys' acct a3)
      (as_bytes (acct @ '':'' @ dr_device_hash d)) (normalize_raw (up_file_path u), up_filename u)
      (dp_file_path p, dp_filename p)"
proof -
  obtain acct a0 path gid wid b fi where auth: "fh_authenticate sys (up_auth_token u) a = Some (Some acct, a0)"
    and path: "fh_normalize_file_path (up_file_path u) = Ok path"
    and fi: "fi = build_file_info_for_upload sys (u\<lparr>up_account_hash := acct\<rparr>) (fh_generate_file_id sys u) path gid wid"
    and store: "fs_store_file sys fi (up_file_data u) a0 = Some (Ok (), b)"
    and r: "r = file_upload_success (fh_generate_file_id sys u) (wrap_i64 (up_revision u + 1))"
    and same: "ap_files a1 = ap_files b" "ap_storage a1 = ap_storage b"
    using handle_upload_success [OF assms(1,2)] by blast
  have id: "fi_file_id fi = ur_file_id r" by (simp add: fi r build_file_info_for_upload_def file_upload_success_def)
  have "fs_get_file_info (ur_file_id r) a2 = Ok (Some fi)" "fs_get_file_data (ur_file_id r) a2 = Ok (Some (up_file_data u))"
    using store_file_get [OF store] assms(3) same leaves_files_kept [OF assms(4)]
    by (simp_all add: id fs_get_file_info_def fs_get_file_data_def file_kept_def ms_get_file_info_def)
  then have got: "fs_get_file_info (ur_file_id r) a3 = Ok (Some fi)" "fs_get_file_data (ur_file_id r) a3 = Ok (Some (up_file_data u))"
    by (simp_all add: fh_authenticate_same [OF assms(5)])
  have np: "path = normalize_raw (up_file_path u)"
    using path by (auto simp: fh_normalize_file_path_def normalize_raw_Nil Let_def split: if_splits)
  have bound: "unat (ur_file_id r) < 2 ^ 63"
    using file_id_bound by (simp add: r file_upload_success_def fh_generate_file_id_def)
  let ?key = "account_transport_key (parse_account_key_download (sy_crypto sys')) sys' acct a3"
  let ?aad = "as_bytes (acct @ '':'' @ dr_device_hash d)"
  obtain m where m: "transport_metadata sys' ?key ?aad ''download'' fi = Some m"
    and t: "transported (sy_crypto sys') ?key ?aad (fi_file_path fi, fi_filename fi) m"
    using transport_metadata_transported [OF assms(7)] by blast
  have f: "fi_account_hash fi = acct" "fi_file_path fi = normalize_raw (up_file_path u)" "fi_filename fi = up_filename u"
    "fi_file_hash fi = up_file_hash u" "fi_size fi = up_file_size u" "fi_is_encrypted fi = up_is_encrypted u"
    "(case fi_key_id fi of Some k \<Rightarrow> k | None \<Rightarrow> '''') = up_key_id u"
    by (simp_all add: fi build_file_info_for_upload_def np)
  show ?thesis
    using auth bound t m by (cases m) (simp add: handle_download_file_def assms(5,6) got f Let_def)
qed

definition sample_server_sys :: "unit sys" where
  "sample_server_sys = sample_sys\<lparr>sy_now := 5\<rparr>"

definition sample_app :: "unit app" where
  "sample_app = (app_new None None)\<lparr>ap_storage :=
     snd (auth_save_token (auth_create_auth_token 0 ''tok'' ''i'' ''acct'') ms_new)\<rparr>"

lemma sample_app_plain: "ap_notification_manager sample_app = None" "ap_file_storage sample_app = None"
  by (simp_all add: sample_app_def app_new_def)

lemma sample_live: "fh_authenticate sample_server_sys ''tok'' a = Some (Some ''acct'', a)"
  if "hm_get (sd_auth_tokens (ap_storage a)) ''tok'' = Some (auth_create_auth_token 0 ''tok'' ''i'' ''acct'')"
    "hm_get (sd_accounts (ap_storage a)) ''acct'' = None"
  using that
  by (simp add: fh_authenticate_def verify_token_def oauth_validate_token_def sample_server_sys_def sample_sys_def
      sample_env_def sample_server_def ms_get_auth_token_def auth_create_auth_token_def days_def
      ms_get_account_by_hash_def get_user_info_from_external_server_def Let_def)

lemma sample_upload_valid: "validate_upload_input sample_upload = Ok ()"
  by code_simp

lemma sample_upload_path: "fh_normalize_file_path (up_file_path sample_upload) = Ok ''~/docs/f.txt''"
  by code_simp

lemma char_of_x: "char_of (120::nat) = CHR ''x''"
proof -
  have "(of_char (CHR ''x'') :: nat) = 120" by simp
  then show ?thesis by (metis char_of_char)
qed

lemma sample_hash: "sha256_as_string_truncated sample_lib (CHR ''x'' # t) 8 =
    CHR ''x'' # map (\<lambda>c. char_of (unat (of_char c :: 8 word))) (take 7 t)"
  by (simp add: sha256_as_string_truncated_def sample_lib_def as_bytes_def take_map char_of_x)

lemma sample_not_hex: "u64_from_hex (CHR ''x'' # t) = None"
  by (simp add: u64_from_hex_def is_ascii_hexdigit_def is_ascii_digit_def)

lemma sample_upload_id: "fh_generate_file_id sample_server_sys sample_upload = 5"
  by (simp add: fh_generate_file_id_def generate_file_id_def sample_server_sys_def sample_sys_def sample_upload_def
      sample_hash sample_not_hex epoch_secs_def epoch_nanos_def clamp_i64_def i64_max_def Let_def)

lemma sample_transport_ok: "transport_ok sample_server_sys" "cipher_total (sy_crypto sample_server_sys)"
  by (auto simp: transport_ok_def cipher_total_def cipher_inverse_def sample_server_sys_def sample_sys_def sample_lib_def)

theorem upload_then_download_witness:
  "\<exists>r a1 a2 p. handle_upload_file sample_server_sys sample_upload sample_app = Some (r, a1) \<and>
     a2 = a1\<lparr>ap_storage := snd (ms_store_encryption_key ''acct'' (replicate 43 CHR ''k'') (ap_storage a1))\<rparr> \<and>
     handle_download_file sample_server_sys (sample_download\<lparr>dr_file_id := 5\<rparr>) a2 = Some (p, a2) \<and>
     dp_file_data p = [1, 2, 3]"
proof -
  have tok: "hm_get (sd_auth_tokens (ap_storage sample_app)) ''tok'' = Some (auth_create_auth_token 0 ''tok'' ''i'' ''acct'')"
    and acc: "hm_get (sd_accounts (ap_storage sample_app)) ''acct'' = None"
    by (simp_all add: sample_app_def auth_save_token_def ms_create_auth_token_def ms_new_def hm_get_insert
        auth_create_auth_token_def)
  have ids: "fs_ensure_server_ids_for_upload ''acct'' 1 1 sample_app = Ok (0, 0)"
    by (simp add: fs_ensure_server_ids_for_upload_def ms_get_server_ids_def sample_app_def auth_save_token_def
        ms_create_auth_token_def ms_new_def)
  let ?fi = "build_file_info_for_upload sample_server_sys (sample_upload\<lparr>up_account_hash := ''acct''\<rparr>) 5 ''~/docs/f.txt'' 0 0"
  obtain b where b: "fs_store_file sample_server_sys ?fi [1, 2, 3] sample_app = Some (Ok (), b)"
    using fs_store_file_no_nm [OF sample_app_plain] by blast
  have st: "sd_auth_tokens (ap_storage b) = sd_auth_tokens (ap_storage sample_app) \<and>
      sd_accounts (ap_storage b) = sd_accounts (ap_storage sample_app)"
    using b by (auto simp: fs_store_file_def fs_store_file_with_update_type_def fs_store_file_data_internal_def
        ms_store_file_info_def ms_store_file_data_def fs_send_notification_def sample_app_def app_new_def
        build_file_info_for_upload_def)
  obtain a1 where up: "handle_upload_file sample_server_sys sample_upload sample_app = Some (file_upload_success 5 1, a1)"
    and a1: "ap_storage a1 = ap_storage b"
    using b ids sample_live [OF tok acc] sample_upload_valid sample_upload_path sample_upload_id
    by (simp add: handle_upload_file_def sample_upload_def publish_def wrap_i64_def)
  let ?a2 = "a1\<lparr>ap_storage := snd (ms_store_encryption_key ''acct'' (replicate 43 CHR ''k'') (ap_storage a1))\<rparr>"
  have later: "(leaves_file 5)\<^sup>*\<^sup>* a1 ?a2"
    by (intro r_into_rtranclp lf_other) (simp_all add: ms_store_encryption_key_def)
  have "fh_authenticate sample_server_sys ''tok'' ?a2 = Some (Some ''acct'', ?a2)"
    using sample_live [of ?a2] tok acc st a1 by (simp add: ms_store_encryption_key_def)
  then have auth: "fh_authenticate sample_server_sys (dr_auth_token (sample_download\<lparr>dr_file_id := 5\<rparr>)) ?a2 = Some (Some ''acct'', ?a2)"
    by (simp add: sample_download_def)
  have "\<exists>p. handle_download_file sample_server_sys (sample_download\<lparr>dr_file_id := 5\<rparr>) ?a2 = Some (p, ?a2) \<and>
      dp_file_data p = up_file_data sample_upload"
    using upload_then_download [OF up _ _ _ auth _ sample_transport_ok(1)] later by (auto simp: file_upload_success_def)
  with up show ?thesis by (auto simp: sample_upload_def)
qed

lemma encrypt_metadata_total: "cipher_total cl \<Longrightarrow> \<exists>m. encrypt_metadata cl nonce en sk acct k n = Some m"
proof -
  assume "cipher_total cl"
  then have "aead_encrypt cl n k p a \<noteq> None" for n k p a using aead_encrypt_total [of cl n k p a] by auto
  then show ?thesis
    by (auto simp: encrypt_metadata_def Let_def simp del: not_None_eq split: option.splits sum.splits)
qed

lemma fs_send_notification_total:
  assumes "cipher_total (sy_crypto sys)"
  shows "\<exists>a'. fs_send_notification sys fi ut incl a = Some a'"
proof (cases "ap_notification_manager a")
  case (Some nm)
  have "\<exists>r sent. broadcast_file_update_internal (sy_crypto sys) (sy_nonces sys) (sy_alive sys) n ex s nm = Some (r, sent)" for n ex s
  proof -
    let ?copy = "\<lambda>k. encrypt_metadata (sy_crypto sys) (sy_nonces sys k) (nm_transport_encrypt_metadata nm)
      (ms_get_encryption_key (fn_account_hash n) s) (fn_account_hash n) k (apply_alias (nm_file_update_alias_accounts nm) k n)"
    obtain sent errs where "broadcast_loop ?copy (sy_alive sys) (is_target ex (fn_account_hash n) (fn_device_hash n))
        (nm_file_update_subscribers nm) = Some (sent, errs)"
      using broadcast_loop_total [of ?copy] encrypt_metadata_total [OF assms] by blast
    then show ?thesis by (simp add: broadcast_file_update_internal_def Let_def)
  qed
  then have "\<exists>x. broadcast_file_update_internal (sy_crypto sys) (sy_nonces sys) (sy_alive sys) n ex s nm = Some x" for n ex s by blast
  then show ?thesis
    by (auto simp: fs_send_notification_def Some Let_def broadcast_file_update_def broadcast_file_update_including_source_def
        bind_eq_Some_conv split: prod.splits)
qed (simp add: fs_send_notification_def)

text \<open>
  C34: the download and delete handlers check that the token is valid but not whose file it
  is.  With a valid token of one account, and an identifier other than zero, the bytes of a stored file of another
  account are returned, and the file is deleted; both whatever the notification manager and the metadata encryption.
\<close>
theorem no_ownership_check:
  assumes "fh_authenticate sys tok a = Some (Some who, a1)" "fs_get_file_info i a = Ok (Some fi)"
    and "fi_account_hash fi \<noteq> who" "fs_get_file_data i a = Ok (Some b)" "i \<noteq> 0" "cipher_total (sy_crypto sys)"
  shows "\<exists>p q a2. handle_download_file sys (d\<lparr>dr_auth_token := tok, dr_file_id := i\<rparr>) a = Some (p, a1) \<and>
    dp_success p \<and> dp_file_data p = b \<and>
    handle_delete_file sys (e\<lparr>de_auth_token := tok, de_file_id := i\<rparr>) a = Some (q, a2) \<and>
    dl_success q \<and> fs_get_file_info i a2 = Ok None"
proof -
  note same = fh_authenticate_same [OF assms(1)]
  have fi: "hm_get (sd_files (ap_storage a1)) i = Some fi"
    using assms(2) same(7) by (simp add: fs_get_file_info_def ms_get_file_info_def)
  let ?s = "(ap_storage a1)\<lparr>sd_file_data := hm_remove i (sd_file_data (ap_storage a1)), sd_files := hm_remove i (sd_files (ap_storage a1))\<rparr>"
  obtain a2 where "fs_send_notification sys fi F_Deleted False (a1\<lparr>ap_storage := ?s, ap_files := hm_remove i (ap_files a1)\<rparr>) = Some a2"
    using fs_send_notification_total [OF assms(6)] by blast
  then have a2: "fs_delete_file sys i a1 = Some (Ok (), a2)"
    using fi by (simp add: fs_delete_file_def ms_get_file_info_include_deleted_def ms_get_file_info_def ms_delete_file_def)
  have gone: "fs_get_file_info i a2 = Ok None" using fs_delete_file_gone [OF a2] .
  have chk: "validate_file_for_deletion i a1 = Ok i"
    using fi by (simp add: validate_file_for_deletion_def fs_check_file_exists_def ms_check_file_exists_def)
  have pos: "i > 0" using assms(5) by (simp add: word_neq_0_conv)
  obtain m where "transport_metadata sys (account_transport_key (parse_account_key_download (sy_crypto sys)) sys (fi_account_hash fi) a1)
      (as_bytes (fi_account_hash fi @ '':'' @ dr_device_hash d)) ''download'' fi = Some m"
    using transport_metadata_total [OF assms(6)] by blast
  then have down: "\<exists>p. handle_download_file sys (d\<lparr>dr_auth_token := tok, dr_file_id := i\<rparr>) a = Some (p, a1) \<and>
      dp_success p \<and> dp_file_data p = b"
    using assms(1,2,4) by (cases m) (simp add: handle_download_file_def same)
  have "\<exists>a3. handle_delete_file sys (e\<lparr>de_auth_token := tok, de_file_id := i\<rparr>) a =
      Some (file_delete_success ''File deleted successfully'', a3) \<and> ap_storage a3 = ap_storage a2"
    using assms(1) a2 chk pos by (simp add: handle_delete_file_def publish_def Let_def)
  with down gone show ?thesis by (auto simp: fs_get_file_info_def file_delete_success_def)
qed

definition sample_victim_app :: "unit app" where
  "sample_victim_app = sample_app\<lparr>ap_storage := snd (ms_store_file_info (sample_file ''victim'' 9) (ap_storage sample_app)),
     ap_files := [(9, [7])], ap_notification_manager := Some nm_new_with_storage\<rparr>"

theorem no_ownership_check_witness:
  "\<exists>p q a2. handle_download_file sample_server_sys (sample_download\<lparr>dr_auth_token := ''tok'', dr_file_id := 9\<rparr>) sample_victim_app =
       Some (p, sample_victim_app) \<and> dp_file_data p = [7] \<and>
     handle_delete_file sample_server_sys \<lparr>de_account_hash = ''x'', de_device_hash = ''d'', de_filename = '''', de_file_path = '''',
       de_file_id = 9, de_revision = 0, de_auth_token = ''tok''\<rparr> sample_victim_app = Some (q, a2) \<and> fs_get_file_info 9 a2 = Ok None"
proof -
  have auth: "fh_authenticate sample_server_sys ''tok'' sample_victim_app = Some (Some ''acct'', sample_victim_app)"
    by (rule sample_live) (simp_all add: sample_victim_app_def ms_store_file_info_def sample_file_def sample_app_def auth_save_token_def
        ms_create_auth_token_def ms_new_def hm_get_insert auth_create_auth_token_def)
  have info: "fs_get_file_info 9 sample_victim_app = Ok (Some (sample_file ''victim'' 9))"
    by (simp add: sample_victim_app_def fs_get_file_info_def ms_get_file_info_def ms_store_file_info_def sample_file_def hm_get_insert)
  have data: "fs_get_file_data 9 sample_victim_app = Ok (Some [7])" by (simp add: sample_victim_app_def fs_get_file_data_def hm_get_def)
  show ?thesis
    using no_ownership_check [OF auth info _ data _ sample_transport_ok(2), of sample_download "\<lparr>de_account_hash = ''x'', de_device_hash = ''d'',
       de_filename = '''', de_file_path = '''', de_file_id = 9, de_revision = 0, de_auth_token = ''tok''\<rparr>"]
    by (auto simp: sample_file_def)
qed

section \<open>Listing\<close>

text \<open>
  The entry of a file: its record under the requested group, with the path and the name as they travel.
\<close>

definition listed_as :: "'x sys \<Rightarrow> bytes option \<Rightarrow> list_request \<Rightarrow> file_info \<Rightarrow> p_file_info \<Rightarrow> bool" where
  "listed_as sys key req fi p \<longleftrightarrow>
     transported (sy_crypto sys) key (as_bytes (lr_account_hash req @ '':'' @ lr_device_hash req))
       (fi_file_path fi, fi_filename fi) (pf_file_path p, pf_filename p) \<and>
     p = \<lparr>pf_file_id = fi_file_id fi, pf_filename = pf_filename p, pf_file_hash = fi_file_hash fi,
       pf_updated_time = Some \<lparr>ts_seconds = ts_seconds (fi_updated_time fi), ts_nanos = 0\<rparr>,
       pf_device_hash = fi_device_hash fi, pf_group_id = lr_group_id req, pf_watcher_id = fi_watcher_id fi,
       pf_is_encrypted = fi_is_encrypted fi, pf_file_path = pf_file_path p, pf_revision = fi_revision fi,
       pf_file_size = fi_size fi\<rparr>"

lemma list_loop_listed:
  assumes "transport_ok sys"
  shows "\<exists>ps. list_loop sys req key gid tf a fs = Some ps \<and>
    list_all2 (listed_as sys key req) (filter (list_time_ok sys tf) fs) ps"
proof (induction fs)
  case (Cons fi fs)
  then obtain ps where ps: "list_loop sys req key gid tf a fs = Some ps"
    "list_all2 (listed_as sys key req) (filter (list_time_ok sys tf) fs) ps" by blast
  obtain m where "transport_metadata sys key (as_bytes (lr_account_hash req @ '':'' @ lr_device_hash req)) (show_u64 (fi_file_id fi)) fi = Some m"
    "transported (sy_crypto sys) key (as_bytes (lr_account_hash req @ '':'' @ lr_device_hash req)) (fi_file_path fi, fi_filename fi) m"
    using transport_metadata_transported [OF assms] by blast
  with ps show ?case by (cases m) (simp add: listed_as_def [of sys key req fi] ms_get_client_watcher_id_def)
qed simp

text \<open>
  C13: for a valid token and a group the account has registered, the list handler returns exactly one entry per stored file
  of the requested account and group that another device uploaded and whose time, cut to whole
  seconds, is strictly after the requested one, if a time is requested, and no other; each entry is the record of its file, with the path and name
  in plain text or opened by the account key.  The state changes at most by the token check.
\<close>
theorem list_files_exact:
  assumes "ms_inv (ap_storage a)" "fh_authenticate sys (lr_auth_token req) a = Some (Some who, a1)"
    and "ms_get_server_group_id (lr_account_hash req) (lr_group_id req) (ap_storage a1) = Ok (Some gid)"
    and "transport_ok sys"
  defines "tf \<equiv> map_option (timestamp_to_datetime (sy_chrono sys) (sy_now sys)) (lr_upload_time_from req)"
    and "key \<equiv> account_transport_key (parse_account_key (sy_crypto sys)) sys (lr_account_hash req) a1"
  shows "\<exists>fs ps. handle_list_files sys req a = Some (Ok \<lparr>ls_success = True, ls_files = ps, ls_return_message = ''''\<rparr>, a1) \<and>
    list_all2 (listed_as sys key req) fs ps \<and> distinct (map fi_file_id fs) \<and>
    (\<forall>fi. fi \<in> set fs \<longleftrightarrow> fs_get_file_info (fi_file_id fi) a = Ok (Some fi) \<and> fi_account_hash fi = lr_account_hash req \<and>
       fi_group_id fi = gid \<and> fi_device_hash fi \<noteq> lr_device_hash req \<and> list_time_ok sys tf fi)"
proof -
  have inv: "keyed_by (\<lambda>f k. fi_file_id f = k) (sd_files (ap_storage a))" using assms(1) by (simp add: ms_inv_def)
  obtain fs where fs: "ms_list_files_except_device (lr_account_hash req) gid (lr_device_hash req) None (ap_storage a) = Ok fs"
    "distinct (map fi_file_id fs)"
    "\<And>f. f \<in> set fs \<longleftrightarrow> ms_get_file_info (fi_file_id f) (ap_storage a) = Ok (Some f) \<and> fi_account_hash f = lr_account_hash req \<and>
       fi_group_id f = gid \<and> fi_device_hash f \<noteq> lr_device_hash req"
    using list_files_char [OF inv, of "lr_account_hash req" gid "lr_device_hash req" None] by (auto simp: time_ok_def)
  have l: "ms_list_files_except_device (lr_account_hash req) gid (lr_device_hash req) None (ap_storage a1) = Ok fs"
    using fs(1) fh_authenticate_same(7) [OF assms(2)] by (simp add: ms_list_files_except_device_def)
  obtain ps where ps: "list_loop sys req key gid tf a1 fs = Some ps"
    "list_all2 (listed_as sys key req) (filter (list_time_ok sys tf) fs) ps"
    using list_loop_listed [OF assms(4)] by blast
  have "handle_list_files sys req a = Some (Ok \<lparr>ls_success = True, ls_files = ps, ls_return_message = ''''\<rparr>, a1)"
    using assms(2,3) l ps(1) by (simp add: handle_list_files_def fs_convert_client_group_to_server_def
        fs_list_files_filtered_by_device_def tf_def key_def)
  then show ?thesis
    using fs(2,3) ps(2) by (intro exI [of _ "filter (list_time_ok sys tf) fs"] exI [of _ ps])
      (auto simp: fs_get_file_info_def distinct_map_filter)
qed

definition sample_listed :: file_info where
  "sample_listed = (sample_file ''acct'' 7)\<lparr>fi_group_id := 1\<rparr>"

definition sample_list_app :: "unit app" where
  "sample_list_app = sample_app\<lparr>ap_storage := snd (ms_store_file_info sample_listed
     (snd (ms_register_watcher_group ''acct'' ''d'' (sample_group ''acct'' 3) (ap_storage sample_app))))\<rparr>"

definition sample_list :: list_request where
  "sample_list = \<lparr>lr_account_hash = ''acct'', lr_device_hash = ''d2'', lr_group_id = 3, lr_auth_token = ''tok'', lr_upload_time_from = None\<rparr>"

theorem list_files_exact_witness:
  "\<exists>ps. handle_list_files sample_server_sys sample_list sample_list_app =
       Some (Ok \<lparr>ls_success = True, ls_files = ps, ls_return_message = ''''\<rparr>, sample_list_app) \<and> 7 \<in> pf_file_id ` set ps"
proof -
  have st: "ap_storage sample_app = snd (ms_create_auth_token (auth_create_auth_token 0 ''tok'' ''i'' ''acct'') ms_new)"
    by (simp add: sample_app_def auth_save_token_def)
  have inv: "ms_inv (ap_storage sample_list_app)"
    by (simp add: sample_list_app_def st ms_inv_files ms_inv_groups(1) ms_inv_accounts(4) ms_inv_new)
  note d = sample_list_app_def sample_listed_def sample_file_def st ms_register_watcher_group_def ms_create_auth_token_def
    ms_new_def auth_create_auth_token_def ms_store_file_info_def Let_def
  have "fh_authenticate sample_server_sys ''tok'' sample_list_app = Some (Some ''acct'', sample_list_app)"
    by (rule sample_live) (simp_all add: d hm_get_insert)
  then have auth: "fh_authenticate sample_server_sys (lr_auth_token sample_list) sample_list_app = Some (Some ''acct'', sample_list_app)"
    by (simp add: sample_list_def)
  have gid: "ms_get_server_group_id (lr_account_hash sample_list) (lr_group_id sample_list) (ap_storage sample_list_app) = Ok (Some 1)"
    by (simp add: d ms_get_server_group_id_def next_id_i32_def hm_keys_def hm_insert_def sample_group_def sample_list_def)
  have stored: "fs_get_file_info (fi_file_id sample_listed) sample_list_app = Ok (Some sample_listed)"
    by (simp add: fs_get_file_info_def ms_get_file_info_def d hm_get_insert)
  obtain fs ps where l: "handle_list_files sample_server_sys sample_list sample_list_app =
      Some (Ok \<lparr>ls_success = True, ls_files = ps, ls_return_message = ''''\<rparr>, sample_list_app)"
    "list_all2 (listed_as sample_server_sys (account_transport_key (parse_account_key (sy_crypto sample_server_sys)) sample_server_sys
       (lr_account_hash sample_list) sample_list_app) sample_list) fs ps"
    "sample_listed \<in> set fs"
    using list_files_exact [OF inv auth gid sample_transport_ok(1)] stored
    by (auto simp: sample_listed_def sample_file_def sample_list_def list_time_ok_def)
  then obtain p where "p \<in> set ps" "pf_file_id p = fi_file_id sample_listed"
    by (metis list_all2_conv_all_nth in_set_conv_nth listed_as_def p_file_info.select_convs(1))
  with l(1) show ?thesis by (force simp: sample_listed_def sample_file_def)
qed

end
