(* ===== verification/Watcher_Handlers.thy ===== *)
theory Watcher_Handlers
  imports Notifications Memory_Behaviour Auth "HOL-Library.Monad_Syntax"
begin

text \<open>
  The watcher handlers (\<^verbatim>\<open>src/handlers/watcher_handler.rs\<close>) and the watcher operations of
  \<^verbatim>\<open>AppState\<close> they use (\<^verbatim>\<open>src/server/app_state.rs\<close>), over the in-memory storage.  A handler
  returns a gRPC status or a response, and the new state; an outer \<open>None\<close> is a panic of the
  token check.
\<close>

section \<open>State, messages, environment\<close>

datatype watcher_update_type = W_Created | W_Updated | W_Deleted

record group_notification =
  gn_account_hash :: string
  gn_device_hash :: string
  gn_group_data :: "p_watcher_group_data option"
  gn_update_type :: watcher_update_type
  gn_timestamp :: i64

record preset_notification =
  pn_account_hash :: string
  pn_device_hash :: string
  pn_presets :: "string list"
  pn_update_type :: watcher_update_type
  pn_timestamp :: i64

record wapp =
  wa_storage :: storage_data
  wa_notification_manager :: notification_manager
  wa_group_notes :: "(string \<times> group_notification) list"
  wa_preset_notes :: "(string \<times> preset_notification) list"
  wa_published :: "string list"

record wenv =
  we_auth :: auth_env
  we_now :: datetime
  we_chrono :: chrono
  we_alive :: "chan \<Rightarrow> bool"
  we_env :: "string \<Rightarrow> string option"
  we_regex :: regex_lib

type_synonym 'r handler_result = "(status, 'r) result \<times> wapp"

definition we_timestamp :: "wenv \<Rightarrow> i64" where
  "we_timestamp env = ch_timestamp (we_chrono env) (we_now env)"

section \<open>Watcher operations of the application state\<close>

text \<open>The loop that turns the conditions of a request into rows without identifier.\<close>

definition conditions_of_request ::
  "datetime \<Rightarrow> string \<Rightarrow> i32 \<Rightarrow> i32 \<Rightarrow> p_watcher_data \<Rightarrow> watcher_condition list" where
  "conditions_of_request now account_hash watcher_id group_id wd =
     map (\<lambda>cd. (mk_condition now account_hash watcher_id (pw_watcher_id wd) group_id Union 0 cd)\<lparr>wc_id := None\<rparr>)
       (pw_union_conditions wd) @
     map (\<lambda>cd. (mk_condition now account_hash watcher_id (pw_watcher_id wd) group_id Subtract 0 cd)\<lparr>wc_id := None\<rparr>)
       (pw_subtracting_conditions wd)"

definition create_or_get_watcher ::
  "wenv \<Rightarrow> string \<Rightarrow> i32 \<Rightarrow> p_watcher_data \<Rightarrow> storage_data \<Rightarrow> i32 sres \<times> storage_data" where
  "create_or_get_watcher env account_hash group_id wd s =
     (case validate_watcher_folder (we_regex env) (we_env env) (pw_folder wd) of
        Inl msg \<Rightarrow> (Err (SE_ValidationError msg), s)
      | Inr _ \<Rightarrow>
          (case ms_find_watcher_by_folder account_hash group_id (pw_folder wd) s of
             Inl e \<Rightarrow> (Err e, s)
           | Inr (Some watcher_id) \<Rightarrow>
               (if \<not> (pw_union_conditions wd = [] \<and> pw_subtracting_conditions wd = []) then
                  (case ms_save_watcher_conditions watcher_id
                          (conditions_of_request (we_now env) account_hash watcher_id group_id wd) s of
                     (Inl e, s') \<Rightarrow> (Err e, s')
                   | (Inr _, s') \<Rightarrow> (Ok watcher_id, s'))
                else (Ok watcher_id, s))
           | Inr None \<Rightarrow>
               ms_create_watcher_with_conditions (we_chrono env) (we_now env) account_hash group_id wd
                 (we_timestamp env) s))"

definition app_broadcast_watcher_group_update ::
  "wenv \<Rightarrow> string \<Rightarrow> string \<Rightarrow> i32 \<Rightarrow> watcher_update_type \<Rightarrow> wapp \<Rightarrow> unit sres \<times> wapp" where
  "app_broadcast_watcher_group_update env account_hash device_hash group_id update_type a =
     (case ms_get_watcher_group_by_account_and_id account_hash group_id (wa_storage a) of
        Inl e \<Rightarrow> (Err e, a)
      | Inr group_data \<Rightarrow>
          (let notification = \<lparr>gn_account_hash = account_hash, gn_device_hash = device_hash,
                 gn_group_data = group_data, gn_update_type = update_type, gn_timestamp = we_timestamp env\<rparr>;
               sent = snd (broadcast_watcher_group_update (we_alive env) account_hash (Some device_hash) notification
                        (wa_notification_manager a))
           in (Ok (), a\<lparr>wa_group_notes := wa_group_notes a @ sent,
                 wa_published := wa_published a @ [''watcher.group.update.'' @ account_hash]\<rparr>)))"

definition app_broadcast_watcher_preset_update ::
  "wenv \<Rightarrow> string \<Rightarrow> string \<Rightarrow> string list \<Rightarrow> watcher_update_type \<Rightarrow> wapp \<Rightarrow> unit sres \<times> wapp" where
  "app_broadcast_watcher_preset_update env account_hash device_hash presets update_type a =
     (let notification = \<lparr>pn_account_hash = account_hash, pn_device_hash = device_hash, pn_presets = presets,
            pn_update_type = update_type, pn_timestamp = we_timestamp env\<rparr>;
          sent = snd (broadcast_watcher_preset_update (we_alive env) account_hash (Some device_hash) notification
                   (wa_notification_manager a))
      in (Ok (), a\<lparr>wa_preset_notes := wa_preset_notes a @ sent,
            wa_published := wa_published a @ [''watcher.preset.update.'' @ account_hash]\<rparr>))"

section \<open>Handlers that read the account from the token\<close>

text \<open>
  \<^verbatim>\<open>verify_token(..).map_err(..)?\<close> followed by \<^verbatim>\<open>verified.account_hash\<close>: the flag
  \<^verbatim>\<open>valid\<close> of the result is not looked at.
\<close>

definition wh_account :: "wenv \<Rightarrow> string \<Rightarrow> wapp \<Rightarrow> string handler_result option" where
  "wh_account env token a =
     (case verify_token (we_auth env) (we_now env) token (wa_storage a) of
        None \<Rightarrow> None
      | Some (Inr verified, s) \<Rightarrow> Some (Ok (vr_account_hash verified), a\<lparr>wa_storage := s\<rparr>)
      | Some (Inl _, s) \<Rightarrow> Some (Err (mk_status C_Unauthenticated ''Invalid authentication token''), a\<lparr>wa_storage := s\<rparr>))"

text \<open>The token check and the device check, then the body.\<close>

definition with_account ::
  "wenv \<Rightarrow> string \<Rightarrow> string \<Rightarrow> (string \<Rightarrow> wapp \<Rightarrow> 'r handler_result) \<Rightarrow> wapp \<Rightarrow> 'r handler_result option" where
  "with_account env token device_hash body a = do {
     (r, a1) \<leftarrow> wh_account env token a;
     Some (case r of
       Inl st \<Rightarrow> (Err st, a1)
     | Inr account_hash \<Rightarrow>
         (case validate_device_if_required (we_env env) account_hash device_hash (wa_storage a1) of
            Inl st \<Rightarrow> (Err st, a1) | Inr _ \<Rightarrow> body account_hash a1))
   }"

definition wh_get_watcher_group ::
  "wenv \<Rightarrow> string \<Rightarrow> string \<Rightarrow> i32 \<Rightarrow> wapp \<Rightarrow> p_watcher_group_data handler_result option" where
  "wh_get_watcher_group env token device_hash group_id a =
     with_account env token device_hash (\<lambda>account_hash a1.
       (case ms_get_watcher_group_by_account_and_id account_hash group_id (wa_storage a1) of
          Inr (Some g) \<Rightarrow> (Ok g, a1)
        | Inr None \<Rightarrow> (Err (mk_status C_NotFound (''Watcher group not found: '' @ show_int group_id)), a1)
        | Inl _ \<Rightarrow> (Err (mk_status C_Internal ''Error getting watcher group''), a1))) a"

text \<open>The loop that looks each group up again, by its client identifier.\<close>

definition group_data_of :: "string \<Rightarrow> storage_data \<Rightarrow> watcher_group list \<Rightarrow> p_watcher_group_data list" where
  "group_data_of account_hash s groups =
     concat (map (\<lambda>g. case ms_get_watcher_group_by_account_and_id account_hash (wg_group_id g) s of
                        Inr (Some d) \<Rightarrow> [d] | _ \<Rightarrow> []) groups)"

definition wh_get_watcher_groups ::
  "wenv \<Rightarrow> string \<Rightarrow> string \<Rightarrow> wapp \<Rightarrow> p_watcher_group_data list handler_result option" where
  "wh_get_watcher_groups env token device_hash a =
     with_account env token device_hash (\<lambda>user_id a1.
       (case ms_get_watcher_groups user_id (wa_storage a1) of
          Inr groups \<Rightarrow> (Ok (group_data_of user_id (wa_storage a1) groups), a1)
        | Inl _ \<Rightarrow> (Err (mk_status C_Internal ''Error getting watcher groups''), a1))) a"

definition wh_register_watcher_preset ::
  "wenv \<Rightarrow> string \<Rightarrow> string \<Rightarrow> string list \<Rightarrow> wapp \<Rightarrow> unit handler_result option" where
  "wh_register_watcher_preset env token device_hash presets a =
     with_account env token device_hash (\<lambda>account_hash a1.
       (case ms_register_watcher_preset_proto account_hash device_hash presets (wa_storage a1) of
          (Inl _, s) \<Rightarrow> (Err (mk_status C_Internal ''Error registering watcher preset''), a1\<lparr>wa_storage := s\<rparr>)
        | (Inr _, s) \<Rightarrow> (Ok (), snd (app_broadcast_watcher_preset_update env account_hash device_hash presets W_Created
                           (a1\<lparr>wa_storage := s\<rparr>))))) a"

definition wh_update_watcher_preset ::
  "wenv \<Rightarrow> string \<Rightarrow> string \<Rightarrow> string list \<Rightarrow> wapp \<Rightarrow> unit handler_result option" where
  "wh_update_watcher_preset env token device_hash presets a =
     with_account env token device_hash (\<lambda>account_hash a1.
       (case ms_update_watcher_preset_proto account_hash device_hash presets (wa_storage a1) of
          (Inl _, s) \<Rightarrow> (Err (mk_status C_Internal ''Error updating watcher preset''), a1\<lparr>wa_storage := s\<rparr>)
        | (Inr _, s) \<Rightarrow> (Ok (), snd (app_broadcast_watcher_preset_update env account_hash device_hash presets W_Updated
                           (a1\<lparr>wa_storage := s\<rparr>))))) a"

definition wh_get_watcher_preset ::
  "wenv \<Rightarrow> string \<Rightarrow> string \<Rightarrow> wapp \<Rightarrow> string list handler_result option" where
  "wh_get_watcher_preset env token device_hash a =
     with_account env token device_hash (\<lambda>account_hash a1.
       (Ok (case ms_get_watcher_preset account_hash (wa_storage a1) of Inr ps \<Rightarrow> ps | Inl _ \<Rightarrow> []), a1)) a"

section \<open>Handlers that trust the account of the request\<close>

definition wh_register_watcher_group ::
  "wenv \<Rightarrow> string \<Rightarrow> string \<Rightarrow> i32 \<Rightarrow> string \<Rightarrow> p_watcher_data option \<Rightarrow> wapp \<Rightarrow> i32 handler_result" where
  "wh_register_watcher_group env account_hash device_hash group_id title watcher_data a =
     (case validate_device_if_required (we_env env) account_hash device_hash (wa_storage a) of
        Inl st \<Rightarrow> (Err st, a)
      | Inr _ \<Rightarrow>
          (let grp = \<lparr>wg_id = 0, wg_group_id = group_id, wg_account_hash = account_hash, wg_title = title,
                 wg_created_at = we_now env, wg_updated_at = we_now env, wg_is_active = True, wg_watcher_ids = []\<rparr>
           in case (case watcher_data of
                      Some wd \<Rightarrow> validate_watcher_folder (we_regex env) (we_env env) (pw_folder wd) | None \<Rightarrow> Ok ()) of
                Inl msg \<Rightarrow> (Err (mk_status C_InvalidArgument msg), a)
              | Inr _ \<Rightarrow>
                  (case ms_register_watcher_group account_hash device_hash grp (wa_storage a) of
                     (Inl e, s) \<Rightarrow> (Err (mk_status C_Internal (''Failed to register watcher group: '' @
                                        storage_error_display e)), a\<lparr>wa_storage := s\<rparr>)
                   | (Inr registered_group_id, s) \<Rightarrow>
                       (case (case watcher_data of
                                None \<Rightarrow> (Ok 0, s)
                              | Some wd \<Rightarrow> ms_create_watcher_with_conditions (we_chrono env) (we_now env) account_hash
                                             registered_group_id wd (we_timestamp env) s) of
                          (Inl e, s') \<Rightarrow> (Err (mk_status C_Internal (''Failed to create watcher: '' @
                                             storage_error_display e)), a\<lparr>wa_storage := s'\<rparr>)
                        | (Inr _, s') \<Rightarrow>
                            (Ok group_id, snd (app_broadcast_watcher_group_update env account_hash device_hash
                               registered_group_id W_Created (a\<lparr>wa_storage := s'\<rparr>)))))))"

text \<open>The part of the update handler for the watcher in the request: its identifier and the new storage.\<close>

definition update_group_watcher ::
  "wenv \<Rightarrow> string \<Rightarrow> i32 \<Rightarrow> p_watcher_data \<Rightarrow> storage_data \<Rightarrow> (status, i32) result \<times> storage_data" where
  "update_group_watcher env account_hash group_id wd s =
     (case create_or_get_watcher env account_hash group_id wd s of
        (Inl e, s1) \<Rightarrow> (Err (mk_status C_Internal (''Failed to create watcher: '' @ storage_error_display e)), s1)
      | (Inr watcher_id, s1) \<Rightarrow>
          (if \<not> (pw_union_conditions wd = [] \<and> pw_subtracting_conditions wd = []) then
             (case ms_save_watcher_conditions watcher_id
                     (conditions_of_request (we_now env) account_hash watcher_id group_id wd) s1 of
                (Inl e, s2) \<Rightarrow> (Err (mk_status C_Internal ''Failed to save watcher conditions''), s2)
              | (Inr _, s2) \<Rightarrow> (Ok watcher_id, s2))
           else (Ok watcher_id, s1)))"

definition wh_update_watcher_group ::
  "wenv \<Rightarrow> string \<Rightarrow> string \<Rightarrow> i32 \<Rightarrow> string \<Rightarrow> p_watcher_data option \<Rightarrow> wapp \<Rightarrow> i32 handler_result" where
  "wh_update_watcher_group env account_hash device_hash group_id title watcher_data a =
     (case validate_device_if_required (we_env env) account_hash device_hash (wa_storage a) of
        Inl st \<Rightarrow> (Err st, a)
      | Inr _ \<Rightarrow>
          (case ms_get_user_watcher_group account_hash group_id (wa_storage a) of
             Inr None \<Rightarrow> (Err (mk_status C_NotFound (''Watcher group '' @ show_int group_id @ '' not found'')), a)
           | Inl _ \<Rightarrow> (Err (mk_status C_Internal ''Error getting watcher group''), a)
           | Inr (Some existing) \<Rightarrow>
               (case (case watcher_data of
                        None \<Rightarrow> (Ok (wg_watcher_ids existing), wa_storage a)
                      | Some wd \<Rightarrow>
                          (case update_group_watcher env account_hash group_id wd (wa_storage a) of
                             (Inl st, s1) \<Rightarrow> (Err st, s1)
                           | (Inr wid, s1) \<Rightarrow>
                               (Ok (if wid \<in> set (wg_watcher_ids existing) then wg_watcher_ids existing
                                    else wg_watcher_ids existing @ [wid]), s1))) of
                  (Inl st, s1) \<Rightarrow> (Err st, a\<lparr>wa_storage := s1\<rparr>)
                | (Inr watcher_ids, s1) \<Rightarrow>
                    (let grp = \<lparr>wg_id = group_id, wg_group_id = wg_group_id existing, wg_account_hash = account_hash,
                           wg_title = title, wg_created_at = wg_created_at existing, wg_updated_at = we_now env,
                           wg_is_active = True, wg_watcher_ids = watcher_ids\<rparr>
                     in case ms_update_watcher_group account_hash grp s1 of
                          (Inl e, s2) \<Rightarrow> (Err (mk_status C_Internal (''Failed to update watcher group: '' @
                                             storage_error_display e)), a\<lparr>wa_storage := s2\<rparr>)
                        | (Inr _, s2) \<Rightarrow> (Ok group_id, snd (app_broadcast_watcher_group_update env account_hash device_hash
                                             group_id W_Created (a\<lparr>wa_storage := s2\<rparr>)))))))"

definition wh_delete_watcher_group ::
  "wenv \<Rightarrow> string \<Rightarrow> string \<Rightarrow> i32 \<Rightarrow> wapp \<Rightarrow> i32 handler_result" where
  "wh_delete_watcher_group env account_hash device_hash group_id a =
     (case validate_device_if_required (we_env env) account_hash device_hash (wa_storage a) of
        Inl st \<Rightarrow> (Err st, a)
      | Inr _ \<Rightarrow>
          (case ms_get_watcher_group_by_account_and_id account_hash group_id (wa_storage a) of
             Inr None \<Rightarrow> (Err (mk_status C_NotFound (''Watcher group '' @ show_int group_id @ '' not found'')), a)
           | Inl _ \<Rightarrow> (Err (mk_status C_Internal ''Error getting watcher group''), a)
           | Inr (Some group_data) \<Rightarrow>
               (case ms_delete_watcher_group account_hash group_id (wa_storage a) of
                  (Inl _, s) \<Rightarrow> (Err (mk_status C_Internal ''Error deleting watcher group''), a\<lparr>wa_storage := s\<rparr>)
                | (Inr _, s) \<Rightarrow>
                    (let notification = \<lparr>gn_account_hash = account_hash, gn_device_hash = device_hash,
                           gn_group_data = Some group_data, gn_update_type = W_Deleted, gn_timestamp = we_timestamp env\<rparr>;
                         sent = snd (broadcast_watcher_group_update (we_alive env) account_hash (Some device_hash)
                                  notification (wa_notification_manager a))
                     in (Ok group_id, a\<lparr>wa_storage := s, wa_group_notes := wa_group_notes a @ sent\<rparr>)))))"

section \<open>Configuration synchronisation\<close>

text \<open>
  The counters of \<^verbatim>\<open>SyncStats\<close>, the conflict report and the state, as the handler threads
  them through its loops.  \<^verbatim>\<open>groups_deleted\<close> is always 0 and the measured duration is left out.
\<close>

record sync_progress =
  sp_app :: wapp
  sp_groups_updated :: i32
  sp_groups_created :: i32
  sp_presets_updated :: i32
  sp_total_operations :: i32
  sp_conflicts_detected :: bool
  sp_conflict_details :: "string list"

definition sp_conflict :: "string \<Rightarrow> sync_progress \<Rightarrow> sync_progress" where
  "sp_conflict msg p = p\<lparr>sp_conflicts_detected := True, sp_conflict_details := sp_conflict_details p @ [msg]\<rparr>"

definition sp_set_storage :: "storage_data \<Rightarrow> sync_progress \<Rightarrow> sync_progress" where
  "sp_set_storage s p = p\<lparr>sp_app := (sp_app p)\<lparr>wa_storage := s\<rparr>\<rparr>"

primrec sync_watchers ::
  "wenv \<Rightarrow> string \<Rightarrow> i32 \<Rightarrow> string \<Rightarrow> p_watcher_data list \<Rightarrow> sync_progress \<Rightarrow> sync_progress" where
  "sync_watchers env account_hash group_id msg [] p = p"
| "sync_watchers env account_hash group_id msg (watcher # ws) p =
     sync_watchers env account_hash group_id msg ws
       (case create_or_get_watcher env account_hash group_id watcher (wa_storage (sp_app p)) of
          (Inr _, s) \<Rightarrow> sp_set_storage s p
        | (Inl e, s) \<Rightarrow> sp_conflict (msg @ show_int group_id @ '': '' @ storage_error_display e) (sp_set_storage s p))"

definition sp_broadcast :: "wenv \<Rightarrow> string \<Rightarrow> string \<Rightarrow> i32 \<Rightarrow> watcher_update_type \<Rightarrow> sync_progress \<Rightarrow> sync_progress" where
  "sp_broadcast env account_hash device_hash group_id ut p =
     p\<lparr>sp_app := snd (app_broadcast_watcher_group_update env account_hash device_hash group_id ut (sp_app p))\<rparr>"

definition sync_existing_group ::
  "wenv \<Rightarrow> string \<Rightarrow> string \<Rightarrow> p_watcher_group_data \<Rightarrow> watcher_group \<Rightarrow> sync_progress \<Rightarrow> sync_progress" where
  "sync_existing_group env account_hash device_hash gd existing p =
     (let updated_group = \<lparr>wg_id = wg_id existing, wg_group_id = wg_group_id existing, wg_account_hash = account_hash,
            wg_title = (if pg_title gd = [] then wg_title existing else pg_title gd),
            wg_created_at = wg_created_at existing, wg_updated_at = we_now env, wg_is_active = True,
            wg_watcher_ids = wg_watcher_ids existing\<rparr>
      in case ms_update_watcher_group account_hash updated_group (wa_storage (sp_app p)) of
           (Inl e, s) \<Rightarrow> sp_conflict (''Failed to update group '' @ show_int (pg_group_id gd) @ '': '' @
                            storage_error_display e) (sp_set_storage s p)
         | (Inr _, s) \<Rightarrow>
             sp_broadcast env account_hash device_hash (pg_group_id gd) W_Updated
               (sync_watchers env account_hash (pg_group_id gd) ''Watcher upsert failed in group '' (pg_watchers gd)
                 ((sp_set_storage s p)\<lparr>sp_groups_updated := wrap_i32 (sp_groups_updated p + 1),
                    sp_total_operations := wrap_i32 (sp_total_operations p + 1)\<rparr>)))"

definition sync_new_group ::
  "wenv \<Rightarrow> string \<Rightarrow> string \<Rightarrow> p_watcher_group_data \<Rightarrow> sync_progress \<Rightarrow> sync_progress" where
  "sync_new_group env account_hash device_hash gd p =
     (let new_group = \<lparr>wg_id = 0, wg_group_id = pg_group_id gd, wg_account_hash = account_hash,
            wg_title = (if pg_title gd = [] then ''Synced Group'' else pg_title gd),
            wg_created_at = we_now env, wg_updated_at = we_now env, wg_is_active = True, wg_watcher_ids = []\<rparr>
      in case ms_register_watcher_group account_hash device_hash new_group (wa_storage (sp_app p)) of
           (Inl e, s) \<Rightarrow> sp_conflict (''Failed to create group '' @ show_int (pg_group_id gd) @ '': '' @
                            storage_error_display e) (sp_set_storage s p)
         | (Inr _, s) \<Rightarrow>
             sp_broadcast env account_hash device_hash (pg_group_id gd) W_Created
               (sync_watchers env account_hash (pg_group_id gd) ''Watcher create failed in new group '' (pg_watchers gd)
                 ((sp_set_storage s p)\<lparr>sp_groups_created := wrap_i32 (sp_groups_created p + 1),
                    sp_total_operations := wrap_i32 (sp_total_operations p + 1)\<rparr>)))"

definition sync_group ::
  "wenv \<Rightarrow> string \<Rightarrow> string \<Rightarrow> bool \<Rightarrow> bool \<Rightarrow> p_watcher_group_data \<Rightarrow> sync_progress \<Rightarrow> sync_progress" where
  "sync_group env account_hash device_hash incremental force_update gd p =
     (case ms_get_user_watcher_group account_hash (pg_group_id gd) (wa_storage (sp_app p)) of
        Inr (Some existing) \<Rightarrow>
          (if force_update \<or> \<not> incremental then sync_existing_group env account_hash device_hash gd existing p else p)
      | Inr None \<Rightarrow> sync_new_group env account_hash device_hash gd p
      | Inl e \<Rightarrow> sp_conflict (''Error checking group '' @ show_int (pg_group_id gd) @ '': '' @
                   storage_error_display e) p)"

definition sync_presets :: "wenv \<Rightarrow> string \<Rightarrow> string \<Rightarrow> string list \<Rightarrow> sync_progress \<Rightarrow> sync_progress" where
  "sync_presets env account_hash device_hash presets p =
     (if presets = [] then p
      else case ms_register_watcher_preset_proto account_hash device_hash presets (wa_storage (sp_app p)) of
          (Inl e, s) \<Rightarrow> sp_conflict (''Failed to sync presets: '' @ storage_error_display e) (sp_set_storage s p)
        | (Inr _, s) \<Rightarrow>
            (let p' = (sp_set_storage s p)\<lparr>sp_presets_updated := 1,
                    sp_total_operations := wrap_i32 (sp_total_operations p + 1)\<rparr>
             in p'\<lparr>sp_app := snd (app_broadcast_watcher_preset_update env account_hash device_hash presets W_Updated
                     (sp_app p'))\<rparr>))"

record sync_response =
  sr_success :: bool
  sr_return_message :: string
  sr_groups_updated :: i32
  sr_groups_created :: i32
  sr_presets_updated :: i32
  sr_sync_timestamp :: i64
  sr_total_operations :: i32
  sr_server_watcher_groups :: "p_watcher_group_data list"
  sr_server_presets :: "string list"
  sr_server_timestamp :: i64
  sr_conflicts_detected :: bool
  sr_conflict_details :: "string list"

definition sync_body ::
  "wenv \<Rightarrow> string \<Rightarrow> bool \<Rightarrow> bool \<Rightarrow> p_watcher_group_data list \<Rightarrow> string list \<Rightarrow> string \<Rightarrow> wapp \<Rightarrow>
     sync_response handler_result" where
  "sync_body env device_hash incremental force_update groups presets account_hash a =
     (let p0 = \<lparr>sp_app = a, sp_groups_updated = 0, sp_groups_created = 0, sp_presets_updated = 0,
            sp_total_operations = 0, sp_conflicts_detected = False, sp_conflict_details = []\<rparr>;
          p = sync_presets env account_hash device_hash presets
                (fold (sync_group env account_hash device_hash incremental force_update) groups p0);
          s = wa_storage (sp_app p);
          server_groups = (case ms_get_watcher_groups account_hash s of Inr gs \<Rightarrow> gs | Inl _ \<Rightarrow> [])
      in (Ok \<lparr>sr_success = (\<not> sp_conflicts_detected p),
           sr_return_message = (if sp_conflicts_detected p
              then ''Partial sync completed with '' @ show_int (int (length (sp_conflict_details p))) @ '' conflicts''
              else ''Configuration sync completed successfully''),
           sr_groups_updated = sp_groups_updated p, sr_groups_created = sp_groups_created p,
           sr_presets_updated = sp_presets_updated p, sr_sync_timestamp = we_timestamp env,
           sr_total_operations = sp_total_operations p,
           sr_server_watcher_groups = group_data_of account_hash s server_groups,
           sr_server_presets = (case ms_get_watcher_preset account_hash s of Inr ps \<Rightarrow> ps | Inl _ \<Rightarrow> []),
           sr_server_timestamp = we_timestamp env,
           sr_conflicts_detected = sp_conflicts_detected p, sr_conflict_details = sp_conflict_details p\<rparr>, sp_app p))"

definition wh_sync_configuration ::
  "wenv \<Rightarrow> string \<Rightarrow> string \<Rightarrow> bool \<Rightarrow> bool \<Rightarrow> p_watcher_group_data list \<Rightarrow> string list \<Rightarrow> wapp \<Rightarrow>
     sync_response handler_result option" where
  "wh_sync_configuration env token device_hash incremental force_update groups presets a =
     with_account env token device_hash
       (sync_body env device_hash incremental force_update groups presets) a"

section \<open>The synchronisation report\<close>

lemma ms_inv_results:
  assumes "ms_inv s"
  shows "ms_save_watcher_conditions w cs s = (r, s') \<Longrightarrow> ms_inv s'"
    "ms_create_watcher_with_conditions ch now acct gid wd t s = (r', s') \<Longrightarrow> ms_inv s'"
    "ms_update_watcher_group acct g s = (r, s') \<Longrightarrow> ms_inv s'"
    "ms_register_watcher_group acct dev g s = (r', s') \<Longrightarrow> ms_inv s'"
    "ms_register_watcher_preset_proto acct dev ps s = (r, s') \<Longrightarrow> ms_inv s'"
  using ms_inv_ops [OF assms] by (metis snd_conv)+

lemma create_or_get_watcher_inv:
  assumes "ms_inv s" shows "ms_inv (snd (create_or_get_watcher env acct gid wd s))"
  using assms by (auto simp: create_or_get_watcher_def ms_inv_watchers split: sum.split option.split prod.split
      dest: ms_inv_results(1,2) [OF assms])

text \<open>What the loops keep of the progress: the storage invariant and an honest report.\<close>

definition sp_ok :: "sync_progress \<Rightarrow> bool" where
  "sp_ok p \<longleftrightarrow> ms_inv (wa_storage (sp_app p)) \<and>
     (sp_conflicts_detected p \<longleftrightarrow> sp_conflict_details p \<noteq> []) \<and>
     sp_total_operations p = wrap_i32 (sp_groups_updated p + sp_groups_created p + sp_presets_updated p)"

lemma sp_ok_conflict [simp]: "sp_ok p \<Longrightarrow> sp_ok (sp_conflict msg p)"
  by (simp add: sp_ok_def sp_conflict_def)

lemma sp_ok_set_storage [simp]: "sp_ok p \<Longrightarrow> ms_inv s \<Longrightarrow> sp_ok (sp_set_storage s p)"
  by (simp add: sp_ok_def sp_set_storage_def)

lemma sp_set_storage_simps [simp]:
  "sp_groups_updated (sp_set_storage s p) = sp_groups_updated p"
  "sp_groups_created (sp_set_storage s p) = sp_groups_created p"
  "sp_presets_updated (sp_set_storage s p) = sp_presets_updated p"
  "wa_storage (sp_app (sp_set_storage s p)) = s"
  by (simp_all add: sp_set_storage_def)

lemma sync_watchers_ok: "sp_ok p \<Longrightarrow> sp_ok (sync_watchers env acct gid msg ws p)"
proof (induction ws arbitrary: p)
  case Nil
  then show ?case by simp
next
  case (Cons w ws)
  have "ms_inv (wa_storage (sp_app p))" using Cons.prems by (simp add: sp_ok_def)
  from create_or_get_watcher_inv [OF this, of env acct gid w] Cons show ?case
    by (auto split: prod.split sum.split)
qed

lemma sp_broadcast_ok [simp]: "sp_ok p \<Longrightarrow> sp_ok (sp_broadcast env acct dev gid ut p)"
  by (auto simp: sp_ok_def sp_broadcast_def app_broadcast_watcher_group_update_def Let_def split: sum.split)

lemma wrap_i32_add: "wrap_i32 (wrap_i32 x + y) = wrap_i32 (x + y)"
proof -
  have "((x + 2 ^ 31) mod 2 ^ 32 - 2 ^ 31 + y + 2 ^ 31) mod 2 ^ 32 = (x + y + 2 ^ 31) mod (2 ^ 32 :: int)"
    using mod_add_left_eq [of "x + 2 ^ 31" "2 ^ 32" y] by (simp add: algebra_simps)
  then show ?thesis by (simp add: wrap_i32_def)
qed

lemma sp_count_step:
  assumes "sp_ok p" "ms_inv s"
  shows "sp_ok ((sp_set_storage s p)\<lparr>sp_groups_updated := wrap_i32 (sp_groups_updated p + 1),
      sp_total_operations := wrap_i32 (sp_total_operations p + 1)\<rparr>)"
    "sp_ok ((sp_set_storage s p)\<lparr>sp_groups_created := wrap_i32 (sp_groups_created p + 1),
      sp_total_operations := wrap_i32 (sp_total_operations p + 1)\<rparr>)"
  using assms wrap_i32_add [of "sp_groups_updated p + 1" "sp_groups_created p + sp_presets_updated p"]
    wrap_i32_add [of "sp_groups_created p + 1" "sp_groups_updated p + sp_presets_updated p"]
    wrap_i32_add [of "sp_groups_updated p + sp_groups_created p + sp_presets_updated p" 1]
  by (simp_all add: sp_ok_def sp_set_storage_def algebra_simps)

lemma sync_group_ok: "sp_ok p \<Longrightarrow> sp_ok (sync_group env acct dev inc frc gd p)"
proof -
  assume ok: "sp_ok p"
  then have inv: "ms_inv (wa_storage (sp_app p))" by (simp add: sp_ok_def)
  have "sp_ok (sync_existing_group env acct dev gd ex p)" for ex
    using ok unfolding sync_existing_group_def Let_def
    by (auto intro!: sp_broadcast_ok sync_watchers_ok sp_count_step split: prod.split sum.split dest: ms_inv_results(3) [OF inv])
  moreover have "sp_ok (sync_new_group env acct dev gd p)"
    using ok unfolding sync_new_group_def Let_def
    by (auto intro!: sp_broadcast_ok sync_watchers_ok sp_count_step split: prod.split sum.split dest: ms_inv_results(4) [OF inv])
  ultimately show ?thesis using ok by (simp add: sync_group_def split: sum.split option.split)
qed

lemma sync_groups_ok: "sp_ok p \<Longrightarrow> sp_ok (fold (sync_group env acct dev inc frc) gds p)"
  by (induction gds arbitrary: p) (simp_all add: sync_group_ok)

lemma sync_presets_ok:
  assumes "sp_ok p" "sp_presets_updated p = 0"
  shows "sp_ok (sync_presets env acct dev ps p) \<and>
    (ps \<noteq> [] \<longrightarrow> sp_presets_updated (sync_presets env acct dev ps p) = 1 \<and>
       ms_get_watcher_preset acct (wa_storage (sp_app (sync_presets env acct dev ps p))) = Ok ps)"
  using assms ms_inv_keys(2) [of "wa_storage (sp_app p)" acct dev ps]
    wrap_i32_add [of "sp_groups_updated p + sp_groups_created p" 1]
  by (simp add: sync_presets_def sp_ok_def ms_register_watcher_preset_proto_def ms_get_watcher_preset_def
      app_broadcast_watcher_preset_update_def Let_def sp_set_storage_def hm_get_insert)

lemma sync_watchers_presets [simp]:
  "sp_presets_updated (sync_watchers env acct gid msg ws p) = sp_presets_updated p"
  by (induction ws arbitrary: p) (simp_all add: sp_conflict_def split: prod.split sum.split)

lemma sync_groups_presets [simp]:
  "sp_presets_updated (fold (sync_group env acct dev inc frc) gds p) = sp_presets_updated p"
proof (induction gds arbitrary: p)
  case Nil
  then show ?case by simp
next
  case (Cons gd gds)
  have "sp_presets_updated (sync_group env acct dev inc frc gd p) = sp_presets_updated p"
    by (simp add: sync_group_def sync_existing_group_def sync_new_group_def Let_def sp_conflict_def sp_broadcast_def
        split: prod.split sum.split option.split)
  with Cons show ?case by simp
qed

lemma wh_account_inv:
  assumes "ms_inv (wa_storage a)" "wh_account env token a = Some (r, a')"
  shows "ms_inv (wa_storage a')"
  using assms by (auto simp: wh_account_def verify_token_def ms_inv_accounts Let_def
      split: option.splits sum.splits)

lemma with_account_Ok:
  assumes "with_account env token dev body a = Some (Ok r, a')"
  obtains acct a1 where "wh_account env token a = Some (Ok acct, a1)" "body acct a1 = (Ok r, a')"
  using assms by (auto simp: with_account_def split: bind_splits prod.splits sum.splits)

text \<open>
  Whatever groups, watchers and presets a client sends, a configuration
  synchronisation that answers leaves the storage well formed, reports success exactly when
  its list of conflicts is empty, counts in the total every group and preset operation it
  counts elsewhere, and, when the client sent presets, returns exactly these presets as the
  server's.
\<close>
theorem sync_configuration_report:
  assumes "ms_inv (wa_storage a)"
    and "wh_sync_configuration env token dev inc frc groups presets a = Some (Ok r, a')"
  shows "ms_inv (wa_storage a') \<and> (sr_success r \<longleftrightarrow> sr_conflict_details r = []) \<and>
    (sr_conflicts_detected r \<longleftrightarrow> sr_conflict_details r \<noteq> []) \<and>
    sr_total_operations r = wrap_i32 (sr_groups_updated r + sr_groups_created r + sr_presets_updated r) \<and>
    (presets \<noteq> [] \<longrightarrow> sr_server_presets r = presets \<and> sr_presets_updated r = 1)"
proof -
  obtain acct a1 where a1: "wh_account env token a = Some (Ok acct, a1)"
    and body: "sync_body env dev inc frc groups presets acct a1 = (Ok r, a')"
    using assms(2) unfolding wh_sync_configuration_def by (rule with_account_Ok)
  define p0 where "p0 = \<lparr>sp_app = a1, sp_groups_updated = 0, sp_groups_created = 0, sp_presets_updated = 0,
    sp_total_operations = 0, sp_conflicts_detected = False, sp_conflict_details = []\<rparr>"
  define p1 where "p1 = fold (sync_group env acct dev inc frc) groups p0"
  have "sp_ok p0" using wh_account_inv [OF assms(1) a1] by (simp add: sp_ok_def p0_def wrap_i32_def)
  then have ok: "sp_ok p1" and zero: "sp_presets_updated p1 = 0"
    unfolding p1_def by (simp_all add: sync_groups_ok) (simp add: p0_def)
  from sync_presets_ok [OF ok zero, of env acct dev presets] body show ?thesis
    unfolding sync_body_def p0_def [symmetric] p1_def [symmetric] Let_def
    by (auto simp: sp_ok_def)
qed

definition sample_wenv :: wenv where
  "sample_wenv = \<lparr>we_auth = sample_env, we_now = 5, we_chrono = sample_chrono, we_alive = (\<lambda>_. True),
     we_env = (\<lambda>v. if v = ''COSMIC_SYNC_DEV_MODE'' then Some ''1'' else None),
     we_regex = (\<lambda>_. None)\<rparr>"

definition sample_wapp :: wapp where
  "sample_wapp = \<lparr>wa_storage = ms_new, wa_notification_manager = nm_new_with_storage, wa_group_notes = [],
     wa_preset_notes = [], wa_published = []\<rparr>"

lemma dev_mode_sample [simp]: "is_dev_or_test_mode (we_env sample_wenv)"
  by (simp add: is_dev_or_test_mode_def sample_wenv_def)

lemma dead_token_account:
  assumes "list_all is_ascii token" "\<not> av_debug_assertions (we_auth env)"
    "\<forall>acct. \<not> token_live (we_now env) token (wa_storage a) acct"
  shows "wh_account env token a = Some (Ok '''', a)"
  using verify_token_char [OF assms(1,2), of "we_now env" "wa_storage a"] assms(3)
  by (auto simp: wh_account_def)

theorem sync_configuration_report_witness:
  "\<exists>r a'. wh_sync_configuration sample_wenv ''tok'' ''d'' False False [] [''home''] sample_wapp = Some (Ok r, a') \<and>
     sr_server_presets r = [''home'']"
proof -
  have "wh_account sample_wenv ''tok'' sample_wapp = Some (Ok '''', sample_wapp)"
    by (rule dead_token_account)
       (simp_all add: is_ascii_def sample_wenv_def sample_env_def token_live_def ms_get_auth_token_def
         sample_wapp_def ms_new_def)
  then obtain r a' where ret: "wh_sync_configuration sample_wenv ''tok'' ''d'' False False [] [''home''] sample_wapp =
      Some (Ok r, a')"
    by (simp add: wh_sync_configuration_def with_account_def validate_device_if_required_def sync_body_def Let_def)
  with sync_configuration_report [OF _ ret] show ?thesis
    by (simp add: sample_wapp_def ms_inv_new)
qed

section \<open>Requests with a dead token\<close>

text \<open>
  The watcher handlers ignore the validity flag of a verified token: with a token that is
  live for no account the request is carried out for the account with the empty name, and it
  is refused only when the device check refuses that account.  In development or test mode it
  always succeeds and stores its presets there.
\<close>
theorem dead_token_registers_preset:
  assumes "list_all is_ascii token" "\<not> av_debug_assertions (we_auth env)"
    and "\<forall>acct. \<not> token_live (we_now env) token (wa_storage a) acct"
  shows "\<exists>r a'. wh_register_watcher_preset env token dev presets a = Some (r, a') \<and>
    (r = Ok () \<longleftrightarrow> is_dev_or_test_mode (we_env env) \<or> ms_validate_device '''' dev (wa_storage a) = Ok True) \<and>
    (r = Ok () \<longrightarrow> ms_get_watcher_preset '''' (wa_storage a') = Ok presets)"
  using dead_token_account [OF assms]
  by (auto simp: wh_register_watcher_preset_def with_account_def validate_device_if_required_def
      ms_register_watcher_preset_proto_def app_broadcast_watcher_preset_update_def Let_def
      ms_get_watcher_preset_def hm_get_insert split: sum.split)

theorem dead_token_registers_preset_witness:
  "\<exists>a'. wh_register_watcher_preset sample_wenv ''tok'' ''d'' [''home''] sample_wapp = Some (Ok (), a') \<and>
     ms_get_watcher_preset '''' (wa_storage a') = Ok [''home'']"
proof -
  have "list_all is_ascii ''tok''" "\<not> av_debug_assertions (we_auth sample_wenv)"
    "\<forall>acct. \<not> token_live (we_now sample_wenv) ''tok'' (wa_storage sample_wapp) acct"
    by (simp_all add: is_ascii_def sample_wenv_def sample_env_def token_live_def ms_get_auth_token_def
        sample_wapp_def ms_new_def)
  from dead_token_registers_preset [OF this, of "''d''" "[''home'']"] show ?thesis by auto
qed

section \<open>Creating or reusing a watcher\<close>

lemma hm_insert_fresh: "hm_get m k = None \<Longrightarrow> hm_insert k v m = m @ [(k, v)]"
  by (induction m) (auto simp: hm_get_def hm_insert_def split: if_splits)

lemma find_after_create:
  assumes inv: "ms_inv s" "id_room (sd_watchers s)"
    and none: "ms_find_watcher_by_folder acct gid (pw_folder wd) s = Ok None"
    and create: "ms_create_watcher_with_conditions ch now acct gid wd t s = (r, s')"
    and folder: "normalize_raw f = normalize_raw (pw_folder wd)"
  shows "\<exists>i. r = Ok i \<and> ms_find_watcher_by_folder acct gid f s' = Ok (Some i)"
  using none create folder hm_insert_fresh [OF watcher_id_fresh [OF inv]]
  by (auto simp: ms_create_watcher_with_conditions_def ms_find_watcher_by_folder_def Let_def find_append
      mk_watcher_def)

lemma create_or_get_existing:
  assumes "validate_watcher_folder (we_regex env) (we_env env) (pw_folder wd) = Ok ()"
    and "ms_find_watcher_by_folder acct gid (pw_folder wd) s = Ok (Some i)"
  shows "\<exists>s'. create_or_get_watcher env acct gid wd s = (Ok i, s') \<and> sd_watchers s' = sd_watchers s \<and>
    sd_watcher_groups s' = sd_watcher_groups s"
  using assms by (auto simp: create_or_get_watcher_def ms_save_watcher_conditions_def Let_def)

lemma find_cong: "sd_watchers s' = sd_watchers s \<Longrightarrow>
    ms_find_watcher_by_folder acct gid f s' = ms_find_watcher_by_folder acct gid f s"
  by (simp add: ms_find_watcher_by_folder_def)

lemma create_or_get_then_find:
  assumes inv: "ms_inv s" "id_room (sd_watchers s)"
    and call: "create_or_get_watcher env acct gid wd s = (Ok i, s')"
    and folder: "normalize_raw f = normalize_raw (pw_folder wd)"
  shows "ms_find_watcher_by_folder acct gid f s' = Ok (Some i)"
proof -
  have valid: "validate_watcher_folder (we_regex env) (we_env env) (pw_folder wd) = Ok ()"
    using call by (auto simp: create_or_get_watcher_def split: sum.splits)
  have same: "ms_find_watcher_by_folder acct gid f t = ms_find_watcher_by_folder acct gid (pw_folder wd) t" for t
    by (simp add: ms_find_watcher_by_folder_def folder)
  obtain o1 where o1: "ms_find_watcher_by_folder acct gid (pw_folder wd) s = Ok o1"
    by (simp add: ms_find_watcher_by_folder_def)
  show ?thesis
  proof (cases o1)
    case None
    then have "ms_create_watcher_with_conditions (we_chrono env) (we_now env) acct gid wd (we_timestamp env) s =
        (Ok i, s')"
      using call valid o1 by (simp add: create_or_get_watcher_def)
    from find_after_create [OF inv _ this folder] None o1 show ?thesis by auto
  next
    case (Some j)
    then show ?thesis
      using create_or_get_existing [OF valid, of acct gid s j] call o1 find_cong [of s' s] by (auto simp: same)
  qed
qed

text \<open>
  Once \<^verbatim>\<open>create_or_get_watcher\<close> returned a watcher for a folder, a later request for a
  folder that normalises to the same path returns the same watcher, adds no watcher and
  changes no group, whatever its conditions are.
\<close>
theorem create_or_get_watcher_reuses:
  assumes "ms_inv s" "id_room (sd_watchers s)"
    and "create_or_get_watcher env acct gid wd s = (Ok i, s')"
    and "normalize_raw (pw_folder wd') = normalize_raw (pw_folder wd)"
    and "validate_watcher_folder (we_regex env') (we_env env') (pw_folder wd') = Ok ()"
  shows "\<exists>s''. create_or_get_watcher env' acct gid wd' s' = (Ok i, s'') \<and> sd_watchers s'' = sd_watchers s' \<and>
    sd_watcher_groups s'' = sd_watcher_groups s'"
  using assms(5) create_or_get_then_find [OF assms(1-4)] by (rule create_or_get_existing)

lemma sample_folder_valid:
  "validate_watcher_folder (we_regex sample_wenv) (we_env sample_wenv) (pw_folder sample_watcher) = Ok ()"
  unfolding sample_wenv_def sample_watcher_def by code_simp

theorem create_or_get_watcher_reuses_witness:
  "\<exists>i s' s''. create_or_get_watcher sample_wenv ''a'' 1 sample_watcher ms_new = (Ok i, s') \<and>
     create_or_get_watcher sample_wenv ''a'' 1 sample_watcher s' = (Ok i, s'') \<and> sd_watchers s'' = sd_watchers s'"
proof -
  have "ms_find_watcher_by_folder ''a'' 1 (pw_folder sample_watcher) ms_new = Ok None"
    by (simp add: ms_find_watcher_by_folder_def ms_new_def)
  then obtain i s' where call: "create_or_get_watcher sample_wenv ''a'' 1 sample_watcher ms_new = (Ok i, s')"
    using sample_folder_valid
    by (auto simp: create_or_get_watcher_def ms_create_watcher_with_conditions_def Let_def)
  from create_or_get_watcher_reuses [OF ms_inv_new new_room(1) call refl sample_folder_valid] call
  show ?thesis by blast
qed

section \<open>Group identifiers in a synchronisation\<close>

text \<open>
  The storage files a group under the identifier it assigned, but the synchronisation looks it
  up, and creates its watchers, under the identifier of the client.
\<close>

lemma app_broadcast_group_storage [simp]:
  "wa_storage (snd (app_broadcast_watcher_group_update env acct dev gid ut a)) = wa_storage a"
  by (simp add: app_broadcast_watcher_group_update_def Let_def split: sum.split)

lemma sync_body_single:
  assumes "ms_get_user_watcher_group acct (pg_group_id gd) (wa_storage a) = Ok None"
  shows "\<exists>g. wg_account_hash g = acct \<and> wg_group_id g = pg_group_id gd \<and>
    (\<exists>r. fst (sync_body env dev inc frc [gd] [] acct a) = Ok r \<and> sr_groups_created r = 1) \<and>
    wa_storage (snd (sync_body env dev inc frc [gd] [] acct a)) = wa_storage (sp_app (sync_watchers env acct (pg_group_id gd) ''Watcher create failed in new group ''
      (pg_watchers gd) \<lparr>sp_app = a\<lparr>wa_storage := (wa_storage a)\<lparr>sd_watcher_groups :=
        hm_insert (next_id_i32 (sd_watcher_groups (wa_storage a))) (g\<lparr>wg_id := next_id_i32 (sd_watcher_groups (wa_storage a))\<rparr>)
          (sd_watcher_groups (wa_storage a))\<rparr>\<rparr>, sp_groups_updated = 0, sp_groups_created = 1, sp_presets_updated = 0,
        sp_total_operations = 1, sp_conflicts_detected = False, sp_conflict_details = []\<rparr>))"
proof -
  let ?g = "\<lparr>wg_id = 0, wg_group_id = pg_group_id gd, wg_account_hash = acct,
      wg_title = (if pg_title gd = [] then ''Synced Group'' else pg_title gd),
      wg_created_at = we_now env, wg_updated_at = we_now env, wg_is_active = True, wg_watcher_ids = []\<rparr>"
  have [simp]: "sp_groups_created (sync_watchers env acct gid msg ws p) = sp_groups_created p" for gid msg ws p
    by (induction ws arbitrary: p) (simp_all add: sp_conflict_def split: prod.split sum.split)
  have w: "wrap_i32 1 = 1" by (simp add: wrap_i32_def)
  show ?thesis
    using assms
    by (intro exI [of _ ?g])
       (simp add: sync_body_def sync_group_def sync_new_group_def sync_presets_def Let_def
         ms_register_watcher_group_def sp_broadcast_def sp_set_storage_def w)
qed

definition copies :: "string \<Rightarrow> i32 \<Rightarrow> storage_data \<Rightarrow> nat" where
  "copies acct gid s =
     length (filter (\<lambda>g. wg_account_hash g = acct \<and> wg_group_id g = gid) (hm_values (sd_watcher_groups s)))"

text \<open>
  When the identifier the storage assigns differs from the client's, synchronising a group
  the account has not stored under the client's identifier adds a copy of it and still does
  not find it afterwards: the next synchronisation of the same group adds another one.
\<close>
theorem sync_duplicates_group:
  assumes "ms_inv (wa_storage a)" "id_room (sd_watcher_groups (wa_storage a))"
    and "pg_watchers gd = []" "pg_group_id gd \<noteq> next_id_i32 (sd_watcher_groups (wa_storage a))"
    and "ms_get_user_watcher_group acct (pg_group_id gd) (wa_storage a) = Ok None"
  shows "\<exists>r a'. sync_body env dev inc frc [gd] [] acct a = (Ok r, a') \<and> sr_groups_created r = 1 \<and>
    copies acct (pg_group_id gd) (wa_storage a') = copies acct (pg_group_id gd) (wa_storage a) + 1 \<and>
    ms_get_user_watcher_group acct (pg_group_id gd) (wa_storage a') = Ok None"
proof -
  let ?m = "sd_watcher_groups (wa_storage a)"
  obtain g r where g: "wg_account_hash g = acct" "wg_group_id g = pg_group_id gd"
    and r: "fst (sync_body env dev inc frc [gd] [] acct a) = Ok r" "sr_groups_created r = 1"
    and st: "wa_storage (snd (sync_body env dev inc frc [gd] [] acct a)) = (wa_storage a)\<lparr>sd_watcher_groups :=
        hm_insert (next_id_i32 ?m) (g\<lparr>wg_id := next_id_i32 ?m\<rparr>) ?m\<rparr>"
    using sync_body_single [OF assms(5), of env dev inc frc] assms(3) by auto
  have "copies acct (pg_group_id gd) (wa_storage (snd (sync_body env dev inc frc [gd] [] acct a))) =
      copies acct (pg_group_id gd) (wa_storage a) + 1"
    unfolding st using g by (simp add: copies_def hm_values_def hm_insert_fresh [OF group_id_fresh [OF assms(1,2)]])
  moreover have "ms_get_user_watcher_group acct (pg_group_id gd)
      (wa_storage (snd (sync_body env dev inc frc [gd] [] acct a))) = Ok None"
    unfolding st using assms(4,5) by (simp add: ms_get_user_watcher_group_def hm_get_insert)
  ultimately show ?thesis using r by (metis prod.collapse)
qed

definition sample_group_data :: "i32 \<Rightarrow> p_watcher_data list \<Rightarrow> p_watcher_group_data" where
  "sample_group_data gid ws = \<lparr>pg_group_id = gid, pg_title = ''photos'', pg_watchers = ws, pg_last_updated = None\<rparr>"

theorem sync_duplicates_group_witness:
  "\<exists>r a'. sync_body sample_wenv ''d'' False False [sample_group_data 7 []] [] ''a'' sample_wapp = (Ok r, a') \<and>
     copies ''a'' 7 (wa_storage a') = copies ''a'' 7 (wa_storage sample_wapp) + 1"
  using sync_duplicates_group [of sample_wapp "sample_group_data 7 []" "''a''" sample_wenv "''d''" False False] ms_inv_new
  by (auto simp: sample_wapp_def sample_group_data_def ms_new_def id_room_def hm_keys_def next_id_i32_def
      ms_get_user_watcher_group_def)

lemma sync_watchers_one:
  "wa_storage (sp_app (sync_watchers env acct gid msg [wd] p)) =
     snd (create_or_get_watcher env acct gid wd (wa_storage (sp_app p)))"
  by (simp add: sp_conflict_def split: prod.split sum.split)

text \<open>
  A synchronisation can change a group of another account: when the client's identifier is
  the one under which another account's group is stored, the watcher it sends is created for
  the sender but entered into the list of the other account's group.
\<close>
theorem sync_enters_foreign_group:
  assumes inv: "ms_inv (wa_storage a)" "id_room (sd_watcher_groups (wa_storage a))"
    and foreign: "hm_get (sd_watcher_groups (wa_storage a)) (pg_group_id gd) = Some g" "wg_account_hash g \<noteq> acct"
    and w: "pg_watchers gd = [wd]" "validate_watcher_folder (we_regex env) (we_env env) (pw_folder wd) = Ok ()"
      "ms_find_watcher_by_folder acct (pg_group_id gd) (pw_folder wd) (wa_storage a) = Ok None"
  shows "\<exists>r a' i g' v. sync_body env dev inc frc [gd] [] acct a = (Ok r, a') \<and>
    hm_get (sd_watcher_groups (wa_storage a')) (pg_group_id gd) = Some g' \<and>
    wg_account_hash g' = wg_account_hash g \<and> i \<in> set (wg_watcher_ids g') \<and>
    hm_get (sd_watchers (wa_storage a')) i = Some v \<and> w_account_hash v = acct"
proof -
  let ?m = "sd_watcher_groups (wa_storage a)" let ?n = "next_id_i32 ?m"
  let ?b = "sync_body env dev inc frc [gd] [] acct a" and ?i = "next_id_i32 (sd_watchers (wa_storage a))"
  have none: "ms_get_user_watcher_group acct (pg_group_id gd) (wa_storage a) = Ok None"
    using foreign by (simp add: ms_get_user_watcher_group_def)
  obtain gn r where r: "fst ?b = Ok r" and st: "wa_storage (snd ?b) =
      snd (create_or_get_watcher env acct (pg_group_id gd) wd
        ((wa_storage a)\<lparr>sd_watcher_groups := hm_insert ?n (gn\<lparr>wg_id := ?n\<rparr>) ?m\<rparr>))"
    using sync_body_single [OF none, of env dev inc frc] unfolding w(1) sync_watchers_one by auto
  have "pg_group_id gd \<noteq> ?n" using foreign(1) group_id_fresh [OF inv] by auto
  then have grp: "hm_get (sd_watcher_groups (wa_storage (snd ?b))) (pg_group_id gd) =
      Some (if ?i \<in> set (wg_watcher_ids g) then g else g\<lparr>wg_watcher_ids := wg_watcher_ids g @ [?i]\<rparr>)"
    using w(2,3) foreign unfolding st
    by (auto simp: create_or_get_watcher_def ms_create_watcher_with_conditions_def Let_def hm_get_modify
        hm_get_insert ms_find_watcher_by_folder_def)
  have wat: "\<exists>v. hm_get (sd_watchers (wa_storage (snd ?b))) ?i = Some v \<and> w_account_hash v = acct"
    using w(2,3) unfolding st
    by (auto simp: create_or_get_watcher_def ms_create_watcher_with_conditions_def Let_def
        hm_get_insert ms_find_watcher_by_folder_def mk_watcher_def)
  have "?b = (Ok r, snd ?b)" using r by (metis prod.collapse)
  then show ?thesis using grp wat by fastforce
qed

theorem sync_enters_foreign_group_witness:
  "\<exists>a s r a' i g' v. s = snd (ms_register_watcher_group ''b'' ''x'' (sample_group ''b'' 1) ms_new) \<and> a = sample_wapp\<lparr>wa_storage := s\<rparr> \<and>
     sync_body sample_wenv ''d'' False False [sample_group_data 1 [sample_watcher]] [] ''a'' a = (Ok r, a') \<and>
     hm_get (sd_watcher_groups (wa_storage a')) 1 = Some g' \<and> wg_account_hash g' = ''b'' \<and>
     i \<in> set (wg_watcher_ids g') \<and> hm_get (sd_watchers (wa_storage a')) i = Some v \<and> w_account_hash v = ''a''"
proof -
  let ?s = "snd (ms_register_watcher_group ''b'' ''x'' (sample_group ''b'' 1) ms_new)"
  let ?a = "sample_wapp\<lparr>wa_storage := ?s\<rparr>" and ?gd = "sample_group_data 1 [sample_watcher]"
  have grp: "sd_watcher_groups ?s = hm_insert 1 (sample_group ''b'' 1\<lparr>wg_id := 1\<rparr>) []" "sd_watchers ?s = []"
    by (simp_all add: ms_register_watcher_group_def ms_new_def Let_def next_id_i32_def hm_keys_def)
  have room: "id_room (sd_watcher_groups (wa_storage ?a))"
    using grp by (simp add: id_room_def hm_keys_def hm_insert_def)
  have get: "hm_get (sd_watcher_groups (wa_storage ?a)) (pg_group_id ?gd) = Some (sample_group ''b'' 1\<lparr>wg_id := 1\<rparr>)"
    using grp by (simp add: sample_group_data_def hm_get_insert)
  have none: "ms_find_watcher_by_folder ''a'' (pg_group_id ?gd) (pw_folder sample_watcher) (wa_storage ?a) = Ok None"
    using grp by (simp add: ms_find_watcher_by_folder_def)
  have inv: "ms_inv (wa_storage ?a)" using ms_inv_groups(1) [OF ms_inv_new] by simp
  have ws: "pg_watchers ?gd = [sample_watcher]" by (simp add: sample_group_data_def)
  have "wg_account_hash (sample_group ''b'' 1\<lparr>wg_id := 1\<rparr>) \<noteq> ''a''" by (simp add: sample_group_def)
  from sync_enters_foreign_group [OF inv room get this ws sample_folder_valid none, of "''d''" False False]
  show ?thesis by (fastforce simp: sample_group_data_def sample_group_def)
qed

end
