(* ===== verification/Subscriptions.thy ===== *)
theory Subscriptions
  imports Login File_Handlers Watcher_Handlers
begin

text \<open>
  The streams of the gRPC service (\<^verbatim>\<open>src/server/service.rs\<close>): subscribing to file updates with
  the initial synchronisation, subscribing to watcher updates with the keep-alive loop, and the
  timers that end a subscription.  \<open>server\<close> is the shared \<^verbatim>\<open>AppState\<close>; a new channel gets the
  next number, and what is delivered is recorded under the key of the subscriber.  The tasks the
  service spawns are functions of their own: the timer of a file subscription is one step, the
  keep-alive loop runs over the ticks of its interval.  An outer \<open>None\<close> is a request that
  panics or never returns.
\<close>

section \<open>The server state\<close>

record 'x server =
  sv_storage :: storage_data
  sv_files :: "(u64, bytes) hashmap"
  sv_file_storage :: "'x option"
  sv_nm :: notification_manager
  sv_sessions :: sessions
  sv_connections :: connections
  sv_next_chan :: chan
  sv_file_notes :: "(string \<times> file_update_notification) list"
  sv_group_notes :: "(string \<times> group_notification) list"
  sv_preset_notes :: "(string \<times> preset_notification) list"
  sv_file_events :: "event list"
  sv_events :: "string list"

record 'x service_env =
  sx_sys :: "'x sys"
  sx_regex :: regex_lib
  sx_dev_mode :: bool
  sx_test_mode :: bool

definition as_app :: "'x server \<Rightarrow> 'x app" where
  "as_app sv = \<lparr>ap_files = sv_files sv, ap_storage = sv_storage sv, ap_file_storage = sv_file_storage sv,
     ap_notification_manager = Some (sv_nm sv), ap_delivered = sv_file_notes sv, ap_published = sv_file_events sv\<rparr>"

definition set_app :: "'x server \<Rightarrow> 'x app \<Rightarrow> 'x server" where
  "set_app sv a = sv\<lparr>sv_storage := ap_storage a, sv_files := ap_files a, sv_file_storage := ap_file_storage a,
     sv_file_notes := ap_delivered a, sv_file_events := ap_published a\<rparr>"

definition as_wapp :: "'x server \<Rightarrow> wapp" where
  "as_wapp sv = \<lparr>wa_storage = sv_storage sv, wa_notification_manager = sv_nm sv, wa_group_notes = sv_group_notes sv,
     wa_preset_notes = sv_preset_notes sv, wa_published = sv_events sv\<rparr>"

definition set_wapp :: "'x server \<Rightarrow> wapp \<Rightarrow> 'x server" where
  "set_wapp sv a = sv\<lparr>sv_storage := wa_storage a, sv_nm := wa_notification_manager a, sv_group_notes := wa_group_notes a,
     sv_preset_notes := wa_preset_notes a, sv_events := wa_published a\<rparr>"

definition server_new :: "'x option \<Rightarrow> 'x server" where
  "server_new x = \<lparr>sv_storage = ms_new, sv_files = [], sv_file_storage = x, sv_nm = nm_new_with_storage,
     sv_sessions = [], sv_connections = [], sv_next_chan = 0, sv_file_notes = [], sv_group_notes = [],
     sv_preset_notes = [], sv_file_events = [], sv_events = []\<rparr>"

section \<open>Authentication\<close>

definition sv_verify :: "'x service_env \<Rightarrow> string \<Rightarrow> 'x server \<Rightarrow> (verification_result ares \<times> 'x server) option" where
  "sv_verify env token sv =
     (case verify_token (sy_auth (sx_sys env)) (sy_now (sx_sys env)) token (sv_storage sv) of
        None \<Rightarrow> None | Some (r, s) \<Rightarrow> Some (r, sv\<lparr>sv_storage := s\<rparr>))"

definition validate_auth ::
  "'x service_env \<Rightarrow> string \<Rightarrow> string \<Rightarrow> 'x server \<Rightarrow> ((status, unit) result \<times> 'x server) option" where
  "validate_auth env auth_token account_hash sv =
     (if auth_token = [] then Some (Err (mk_status C_Unauthenticated ''Empty authentication token''), sv)
      else case sv_verify env auth_token sv of
        None \<Rightarrow> None
      | Some (Inr v, sv') \<Rightarrow>
          Some (if vr_valid v \<and> vr_account_hash v = account_hash then Ok ()
                else Err (mk_status C_Unauthenticated ''Invalid authentication''), sv')
      | Some (Inl _, sv') \<Rightarrow> Some (Err (mk_status C_Unauthenticated ''Invalid authentication''), sv'))"

text \<open>The check at the start of a subscription: the account of a valid token.\<close>

definition subscriber_account ::
  "'x service_env \<Rightarrow> string \<Rightarrow> 'x server \<Rightarrow> ((status, string) result \<times> 'x server) option" where
  "subscriber_account env token sv =
     (case sv_verify env token sv of
        None \<Rightarrow> None
      | Some (Inr v, sv') \<Rightarrow>
          Some (if \<not> vr_valid v then Err (mk_status C_Unauthenticated ''Invalid authentication token'')
                else Ok (vr_account_hash v), sv')
      | Some (Inl _, sv') \<Rightarrow> Some (Err (mk_status C_Unauthenticated ''Invalid authentication''), sv'))"

section \<open>Initial synchronisation\<close>

definition BATCH_SIZE :: nat where
  "BATCH_SIZE = 50"

text \<open>\<^verbatim>\<open>slice::chunks\<close>, for a positive size.\<close>

function chunks :: "nat \<Rightarrow> 'a list \<Rightarrow> 'a list list" where
  "chunks n xs = (if n = 0 \<or> xs = [] then [] else take n xs # chunks n (drop n xs))"
  by pat_completeness auto
termination by (relation "measure (\<lambda>(_, xs). length xs)") auto

declare chunks.simps [simp del]

definition effective_since :: "'x service_env \<Rightarrow> string \<Rightarrow> string \<Rightarrow> i64 option \<Rightarrow> 'x server \<Rightarrow> i64 \<times> i64" where
  "effective_since env account_hash device_hash since_ts sv =
     (let stored_last_sync = (case ms_get_device account_hash device_hash (sv_storage sv) of
            Inr (Some dev) \<Rightarrow> ch_timestamp (sy_chrono (sx_sys env)) (d_last_sync dev)
          | _ \<Rightarrow> 0)
      in (stored_last_sync, max (case since_ts of Some t \<Rightarrow> t | None \<Rightarrow> 0) stored_last_sync))"

text \<open>The files of all groups of the account; a group that cannot be listed is left out.\<close>

definition initial_files :: "string \<Rightarrow> i64 \<Rightarrow> watcher_group list \<Rightarrow> storage_data \<Rightarrow> file_info list" where
  "initial_files account_hash since groups s =
     concat (map (\<lambda>g. case ms_list_files account_hash (wg_id g) (Some since) s of Inr fs \<Rightarrow> fs | Inl _ \<Rightarrow> []) groups)"

definition initial_file_info :: "file_info \<Rightarrow> p_file_info" where
  "initial_file_info f =
     \<lparr>pf_file_id = fi_file_id f, pf_filename = fi_filename f, pf_file_hash = fi_file_hash f,
      pf_updated_time = Some \<lparr>ts_seconds = ts_seconds (fi_updated_time f), ts_nanos = ts_nanos (fi_updated_time f)\<rparr>,
      pf_device_hash = fi_device_hash f, pf_group_id = fi_group_id f, pf_watcher_id = fi_watcher_id f,
      pf_is_encrypted = fi_is_encrypted f, pf_file_path = fi_file_path f, pf_revision = fi_revision f,
      pf_file_size = fi_size f\<rparr>"

text \<open>The message for one file; the nonces of its encryption are drawn for the file.\<close>

definition initial_notification ::
  "'x service_env \<Rightarrow> string \<Rightarrow> string \<Rightarrow> 'x server \<Rightarrow> file_info \<Rightarrow> file_update_notification option" where
  "initial_notification env account_hash device_hash sv f =
     (let fi = initial_file_info f; sys = sx_sys env;
          key = (if sy_transport_encrypt_metadata sys
                 then (case ms_get_encryption_key account_hash (sv_storage sv) of
                         Inr (Some kstr) \<Rightarrow> parse_account_key (sy_crypto sys) kstr | _ \<Rightarrow> None)
                 else None);
          aad = as_bytes (account_hash @ '':'' @ device_hash);
          nonce = sy_nonces sys (show_u64 (fi_file_id f))
      in do {
        fi' \<leftarrow> (case key of
           None \<Rightarrow> Some fi
         | Some k \<Rightarrow> do {
             ct_path \<leftarrow> aead_encrypt (sy_crypto sys) (fst nonce) k (as_bytes (pf_file_path fi)) aad;
             ct_name \<leftarrow> aead_encrypt (sy_crypto sys) (snd nonce) k (as_bytes (pf_filename fi)) aad;
             Some (fi\<lparr>pf_file_path := cl_b64_nopad (sy_crypto sys) ct_path,
               pf_filename := cl_b64_nopad (sy_crypto sys) ct_name\<rparr>)
           });
        Some \<lparr>fn_account_hash = (case get_file_update_alias_account (device_key account_hash device_hash) (sv_nm sv) of
                Some alias_acc \<Rightarrow> alias_acc | None \<Rightarrow> account_hash),
          fn_device_hash = fi_device_hash f, fn_file_info = Some fi', fn_update_type = F_Uploaded,
          fn_timestamp = ts_seconds (fi_updated_time f)\<rparr>
      })"

text \<open>
  One batch: what is sent, and the largest time delivered so far.  A missing or closed
  subscriber ends the batch, not the loop over the batches.
\<close>

fun initial_batch ::
  "(file_info \<Rightarrow> file_update_notification option) \<Rightarrow> string \<Rightarrow> bool \<Rightarrow> file_info list \<Rightarrow> i64 \<Rightarrow>
   (file_update_notification list \<times> i64) option" where
  "initial_batch note device_hash live [] ts = Some ([], ts)"
| "initial_batch note device_hash live (f # fs) ts =
     (if fi_device_hash f = device_hash then initial_batch note device_hash live fs ts
      else do {
        n \<leftarrow> note f;
        (if live then do {
           (sent, ts') \<leftarrow> initial_batch note device_hash live fs
             (if ts_seconds (fi_updated_time f) > ts then ts_seconds (fi_updated_time f) else ts);
           Some (n # sent, ts')
         } else Some ([], ts))
      })"

fun initial_batches ::
  "(file_info \<Rightarrow> file_update_notification option) \<Rightarrow> string \<Rightarrow> bool \<Rightarrow> file_info list list \<Rightarrow> i64 \<Rightarrow>
   (file_update_notification list \<times> i64) option" where
  "initial_batches note device_hash live [] ts = Some ([], ts)"
| "initial_batches note device_hash live (b # bs) ts = do {
     (sent, ts1) \<leftarrow> initial_batch note device_hash live b ts;
     (sent', ts2) \<leftarrow> initial_batches note device_hash live bs ts1;
     Some (sent @ sent', ts2)
   }"

definition subscriber_live :: "'x service_env \<Rightarrow> string \<Rightarrow> 'x server \<Rightarrow> bool" where
  "subscriber_live env key sv =
     (case hm_get (nm_file_update_subscribers (sv_nm sv)) key of Some sender \<Rightarrow> sy_alive (sx_sys env) sender | None \<Rightarrow> False)"

text \<open>
  A channel holds 1024 messages.  The client gets the receiver only with the answer to its
  request, so nobody reads the new channel during the initial synchronisation, and the send that
  finds it full waits forever: the request does not return.
\<close>

definition channel_capacity :: nat where
  "channel_capacity = 1024"

definition send_initial_file_sync ::
  "'x service_env \<Rightarrow> string \<Rightarrow> string \<Rightarrow> i64 option \<Rightarrow> 'x server \<Rightarrow> ((status, unit) result \<times> 'x server) option" where
  "send_initial_file_sync env account_hash device_hash since_ts sv0 =
     (let key = device_key account_hash device_hash; now = sy_now (sx_sys env);
          sv = sv0\<lparr>sv_connections := ct_update_sync_time now key (sv_connections sv0)\<rparr>;
          (stored_last_sync, since) = effective_since env account_hash device_hash since_ts sv
      in case ms_get_watcher_groups account_hash (sv_storage sv) of
           Inl _ \<Rightarrow> Some (Err (mk_status C_Internal ''Failed to retrieve watcher groups for initial sync''), sv)
         | Inr groups \<Rightarrow> do {
             (sent, max_delivered_ts) \<leftarrow> initial_batches (initial_notification env account_hash device_hash sv) device_hash
               (subscriber_live env key sv) (chunks BATCH_SIZE (initial_files account_hash since groups (sv_storage sv))) since;
             let sv1 = sv\<lparr>sv_file_notes := sv_file_notes sv @ map (Pair key) sent\<rparr>;
             if channel_capacity < length sent then None
             else Some (Ok (),
               (if max_delivered_ts > stored_last_sync then
                  (case ms_get_device account_hash device_hash (sv_storage sv1) of
                     Inr (Some dev) \<Rightarrow> sv1\<lparr>sv_storage := snd (ms_update_device (dev\<lparr>d_last_sync := now\<rparr>) (sv_storage sv1))\<rparr>
                   | _ \<Rightarrow> sv1)
                else sv1))
           })"

section \<open>Subscribing to file updates\<close>

record subscribe_request =
  sb_account_hash :: string
  sb_device_hash :: string
  sb_auth_token :: string
  sb_since_ts :: i64

text \<open>The answer is the channel whose receiver the client reads.\<close>

definition subscribe_to_file_updates ::
  "'x service_env \<Rightarrow> subscribe_request \<Rightarrow> 'x server \<Rightarrow> ((status, chan) result \<times> 'x server) option" where
  "subscribe_to_file_updates env req sv0 = do {
     (auth, sv) \<leftarrow> subscriber_account env (sb_auth_token req) sv0;
     (case auth of
        Inl st \<Rightarrow> Some (Err st, sv)
      | Inr account_hash \<Rightarrow>
          (let c = sv_next_chan sv; key = device_key account_hash (sb_device_hash req);
               sv1 = sv\<lparr>sv_next_chan := c + 1, sv_connections := snd (ct_register_connection (sy_now (sx_sys env))
                 (sb_device_hash req) account_hash (sv_connections sv))\<rparr>
           in case register_file_update_subscriber_with_alias key c (sb_account_hash req) (sv_nm sv1) of
                (Inl e, nm) \<Rightarrow> Some (Err (mk_status C_Internal (''Failed to register subscriber: '' @
                  notification_error_display e)), sv1\<lparr>sv_nm := nm\<rparr>)
              | (Inr _, nm) \<Rightarrow> do {
                  (_, sv2) \<leftarrow> send_initial_file_sync env account_hash (sb_device_hash req)
                    (if sb_since_ts req > 0 then Some (sb_since_ts req) else None) (sv1\<lparr>sv_nm := nm\<rparr>);
                  Some (Ok c, sv2)
                }))
   }"

text \<open>What the task spawned for the subscription does when its seven days are over.\<close>

definition subscription_timeout :: "datetime \<Rightarrow> string \<Rightarrow> 'x server \<Rightarrow> 'x server" where
  "subscription_timeout now key sv =
     sv\<lparr>sv_nm := snd (unregister_file_update_subscriber key (sv_nm sv)),
        sv_connections := ct_mark_disconnected now key (sv_connections sv)\<rparr>"

section \<open>Subscribing to watcher updates\<close>

definition subscriber_device_ok :: "'x service_env \<Rightarrow> string \<Rightarrow> string \<Rightarrow> 'x server \<Rightarrow> (status, unit) result" where
  "subscriber_device_ok env account_hash device_hash sv =
     (if \<not> sx_dev_mode env \<and> \<not> sx_test_mode env then
        (case ms_validate_device account_hash device_hash (sv_storage sv) of
           Inr is_valid_device \<Rightarrow>
             if \<not> is_valid_device then Err (mk_status C_Unauthenticated ''Invalid device'') else Ok ()
         | Inl _ \<Rightarrow> Err (mk_status C_Internal ''Error validating device''))
      else Ok ())"

definition subscribe_to_watcher_preset_updates ::
  "'x service_env \<Rightarrow> subscribe_request \<Rightarrow> 'x server \<Rightarrow> ((status, chan) result \<times> 'x server) option" where
  "subscribe_to_watcher_preset_updates env req sv0 = do {
     (auth, sv) \<leftarrow> subscriber_account env (sb_auth_token req) sv0;
     Some (case auth of
        Inl st \<Rightarrow> (Err st, sv)
      | Inr account_hash \<Rightarrow>
          (case subscriber_device_ok env account_hash (sb_device_hash req) sv of
             Inl st \<Rightarrow> (Err st, sv)
           | Inr _ \<Rightarrow>
               (let c = sv_next_chan sv; key = device_key account_hash (sb_device_hash req);
                    nm = snd (unregister_watcher_preset_update_subscriber key (sv_nm sv));
                    sv1 = sv\<lparr>sv_next_chan := c + 1\<rparr>
                in case register_watcher_preset_update_subscriber key c nm of
                     (Inl e, nm') \<Rightarrow> (Err (mk_status C_Internal (''Failed to register preset subscriber: '' @
                       notification_error_display e)), sv1\<lparr>sv_nm := nm'\<rparr>)
                   | (Inr _, nm') \<Rightarrow> (Ok c, sv1\<lparr>sv_nm := nm'\<rparr>))))
   }"

definition subscribe_to_watcher_group_updates ::
  "'x service_env \<Rightarrow> subscribe_request \<Rightarrow> 'x server \<Rightarrow> ((status, chan) result \<times> 'x server) option" where
  "subscribe_to_watcher_group_updates env req sv0 = do {
     (auth, sv) \<leftarrow> subscriber_account env (sb_auth_token req) sv0;
     Some (case auth of
        Inl st \<Rightarrow> (Err st, sv)
      | Inr account_hash \<Rightarrow>
          (case subscriber_device_ok env account_hash (sb_device_hash req) sv of
             Inl st \<Rightarrow> (Err st, sv)
           | Inr _ \<Rightarrow>
               (let c = sv_next_chan sv; key = device_key account_hash (sb_device_hash req);
                    nm = snd (unregister_watcher_group_update_subscriber key (sv_nm sv));
                    sv1 = sv\<lparr>sv_next_chan := c + 1\<rparr>
                in case register_watcher_group_update_subscriber key c nm of
                     (Inl e, nm') \<Rightarrow> (Err (mk_status C_Internal (''Failed to register subscriber: '' @
                       notification_error_display e)), sv1\<lparr>sv_nm := nm'\<rparr>)
                   | (Inr _, nm') \<Rightarrow> (Ok c, sv1\<lparr>sv_nm := nm'\<rparr>))))
   }"

section \<open>The keep-alive loop\<close>

text \<open>
  At each tick of its interval the loop sees the subscribers and channels of that moment.  It
  ends when the subscriber is gone or after three failed pings in a row, and then unregisters.
\<close>

record ka_tick =
  kt_nm :: notification_manager
  kt_alive :: "chan \<Rightarrow> bool"
  kt_timestamp :: i64

datatype ka_state = KA_Running nat | KA_Stopped

definition max_failures :: nat where
  "max_failures = 3"

definition ping_notification :: "string \<Rightarrow> string \<Rightarrow> i64 \<Rightarrow> group_notification" where
  "ping_notification account_hash device_hash ts =
     \<lparr>gn_account_hash = account_hash, gn_device_hash = device_hash, gn_group_data = None, gn_update_type = W_Created,
      gn_timestamp = ts\<rparr>"

definition ka_step :: "string \<Rightarrow> string \<Rightarrow> ka_tick \<Rightarrow> nat \<Rightarrow> ka_state \<times> (string \<times> group_notification) list" where
  "ka_step account_hash device_hash t failure_count =
     (let key = device_key account_hash device_hash in
      if \<not> is_watcher_group_subscriber_active key (kt_nm t) then (KA_Stopped, [])
      else case ping_watcher_group_subscriber (kt_alive t) key
                  (ping_notification account_hash device_hash (kt_timestamp t)) (kt_nm t) of
        (Inr _, sent) \<Rightarrow> (KA_Running 0, sent)
      | (Inl _, sent) \<Rightarrow>
          (if failure_count + 1 \<ge> max_failures then KA_Stopped else KA_Running (failure_count + 1), sent))"

text \<open>The number of the tick at which the loop ends, if it ends within the given ones.\<close>

fun ka_run :: "string \<Rightarrow> string \<Rightarrow> nat \<Rightarrow> ka_tick list \<Rightarrow> nat option" where
  "ka_run account_hash device_hash failure_count [] = None"
| "ka_run account_hash device_hash failure_count (t # ts) =
     (case fst (ka_step account_hash device_hash t failure_count) of
        KA_Stopped \<Rightarrow> Some 0
      | KA_Running n \<Rightarrow> map_option Suc (ka_run account_hash device_hash n ts))"

definition keep_alive_end :: "string \<Rightarrow> 'x server \<Rightarrow> 'x server" where
  "keep_alive_end key sv = sv\<lparr>sv_nm := snd (unregister_watcher_group_update_subscriber key (sv_nm sv))\<rparr>"

definition tick_gone :: "string \<Rightarrow> ka_tick \<Rightarrow> bool" where
  "tick_gone key t \<longleftrightarrow> hm_get (nm_watcher_group_update_subscribers (kt_nm t)) key = None"

definition tick_lost :: "string \<Rightarrow> ka_tick \<Rightarrow> bool" where
  "tick_lost key t \<longleftrightarrow> (\<exists>c. hm_get (nm_watcher_group_update_subscribers (kt_nm t)) key = Some c \<and> \<not> kt_alive t c)"

lemma ka_step_cases:
  "fst (ka_step a d t n) =
   (if tick_gone (device_key a d) t then KA_Stopped
    else if tick_lost (device_key a d) t then if 2 \<le> n then KA_Stopped else KA_Running (n + 1)
    else KA_Running 0)"
  by (auto simp: ka_step_def Let_def is_watcher_group_subscriber_active_def hm_contains_def tick_gone_def tick_lost_def
      ping_watcher_group_subscriber_def max_failures_def split: option.split)

lemma ka_run_sound:
  "ka_run a d fc ts = Some n \<Longrightarrow> n < length ts \<and>
   (tick_gone (device_key a d) (ts ! n) \<or> 2 \<le> n + fc \<and> (\<forall>i. i \<le> n \<and> n < i + 3 \<longrightarrow> tick_lost (device_key a d) (ts ! i)))"
proof (induction ts arbitrary: fc n)
  case Nil
  then show ?case by simp
next
  case (Cons t ts)
  let ?k = "device_key a d"
  show ?case
  proof (cases "fst (ka_step a d t fc)")
    case KA_Stopped
    then show ?thesis using Cons.prems by (auto simp: ka_step_cases split: if_splits)
  next
    case (KA_Running fc')
    then obtain m where m: "n = Suc m" "ka_run a d fc' ts = Some m" using Cons.prems by auto
    from Cons.IH [OF m(2)] have m': "m < length ts"
      "tick_gone ?k (ts ! m) \<or> 2 \<le> m + fc' \<and> (\<forall>i. i \<le> m \<and> m < i + 3 \<longrightarrow> tick_lost ?k (ts ! i))" by auto
    have fc': "fc' = 0 \<or> fc' = fc + 1 \<and> tick_lost ?k t" using KA_Running by (auto simp: ka_step_cases split: if_splits)
    have "tick_lost ?k ((t # ts) ! i)" if "i \<le> n" "n < i + 3" "2 \<le> m + fc'"
        "\<forall>i. i \<le> m \<and> m < i + 3 \<longrightarrow> tick_lost ?k (ts ! i)" for i
      using that fc' m(1) by (cases i) auto
    then show ?thesis using m' fc' m(1) by auto
  qed
qed

lemma ka_run_live:
  "n < length ts \<Longrightarrow>
   tick_gone (device_key a d) (ts ! n) \<or> 2 \<le> n + fc \<and> (\<forall>i. i \<le> n \<and> n < i + 3 \<longrightarrow> tick_lost (device_key a d) (ts ! i)) \<Longrightarrow>
   \<exists>m \<le> n. ka_run a d fc ts = Some m"
proof (induction ts arbitrary: fc n)
  case Nil
  then show ?case by simp
next
  case (Cons t ts)
  let ?k = "device_key a d"
  show ?case
  proof (cases "fst (ka_step a d t fc)")
    case KA_Stopped
    then show ?thesis by auto
  next
    case (KA_Running fc')
    have "\<not> (tick_gone ?k t)" and fc': "fc' = 0 \<and> \<not> tick_lost ?k t \<or> fc' = fc + 1 \<and> fc < 2"
      using KA_Running by (auto simp: ka_step_cases split: if_splits)
    then obtain m where n: "n = Suc m" using Cons.prems by (cases n) auto
    have "2 \<le> m + fc' \<and> (\<forall>i. i \<le> m \<and> m < i + 3 \<longrightarrow> tick_lost ?k (ts ! i))" if "\<not> tick_gone ?k (ts ! m)"
    proof -
      have all: "2 \<le> n + fc" "\<forall>i. i \<le> n \<and> n < i + 3 \<longrightarrow> tick_lost ?k ((t # ts) ! i)" using that Cons.prems(2) n by auto
      have "tick_lost ?k t" if "n < 3" using all(2) [rule_format, of 0] that by simp
      moreover have "tick_lost ?k (ts ! i)" if "i \<le> m" "m < i + 3" for i
        using all(2) [rule_format, of "Suc i"] that n by simp
      ultimately show ?thesis using all(1) fc' n by force
    qed
    then obtain j where "j \<le> m" "ka_run a d fc' ts = Some j" using Cons.IH [of m fc'] Cons.prems(1) n by auto
    then show ?thesis using KA_Running n by auto
  qed
qed

definition ends_at :: "string \<Rightarrow> ka_tick list \<Rightarrow> nat \<Rightarrow> bool" where
  "ends_at key ts n \<longleftrightarrow> n < length ts \<and> (tick_gone key (ts ! n) \<or>
     2 \<le> n \<and> tick_lost key (ts ! (n - 2)) \<and> tick_lost key (ts ! (n - 1)) \<and> tick_lost key (ts ! n))"

text \<open>
  C17: the keep-alive loop of a watcher-group subscription ends exactly when it should: at the
  first tick at which the subscriber is gone, or at which the last three pings in a row could
  not be delivered.  It never ends for fewer failures, a successful ping starts the count again,
  and when it ends the subscriber is unregistered.
\<close>
theorem keep_alive_ends:
  "(ka_run a d 0 ts = Some n \<longleftrightarrow> ends_at (device_key a d) ts n \<and> (\<forall>m < n. \<not> ends_at (device_key a d) ts m)) \<and>
   \<not> is_watcher_group_subscriber_active (device_key a d) (sv_nm (keep_alive_end (device_key a d) sv))"
proof -
  let ?key = "device_key a d" and ?ends = "ends_at (device_key a d) ts"
  have three: "(\<forall>i. i \<le> m \<and> m < i + 3 \<longrightarrow> P i) \<longleftrightarrow> P (m - 2) \<and> P (m - 1) \<and> P m" if "2 \<le> m" for P and m :: nat
  proof -
    have "i \<le> m \<and> m < i + 3 \<longleftrightarrow> i = m - 2 \<or> i = m - 1 \<or> i = m" for i using that by auto
    then show ?thesis by auto
  qed
  have ends: "?ends m \<longleftrightarrow> m < length ts \<and>
      (tick_gone ?key (ts ! m) \<or> 2 \<le> m + 0 \<and> (\<forall>i. i \<le> m \<and> m < i + 3 \<longrightarrow> tick_lost ?key (ts ! i)))" for m
    using three [of m "\<lambda>i. tick_lost ?key (ts ! i)"] unfolding ends_at_def by auto
  have sound: "?ends m" if "ka_run a d 0 ts = Some m" for m
    using ka_run_sound [OF that] unfolding ends by simp
  have live: "\<exists>k \<le> m. ka_run a d 0 ts = Some k" if "?ends m" for m
    using ka_run_live [of m ts a d 0] that unfolding ends by blast
  have "ka_run a d 0 ts = Some n \<longleftrightarrow> ?ends n \<and> (\<forall>m < n. \<not> ?ends m)"
    using sound live by (metis linorder_not_le option.inject order_antisym_conv order_le_imp_less_or_eq)
  moreover have "\<not> is_watcher_group_subscriber_active ?key (sv_nm (keep_alive_end ?key sv))"
    by (simp add: keep_alive_end_def is_watcher_group_subscriber_active_def unregister_watcher_group_update_subscriber_def
        hm_contains_def hm_get_remove)
  ultimately show ?thesis by blast
qed

definition lost_tick :: ka_tick where
  "lost_tick = \<lparr>kt_nm = snd (register_watcher_group_update_subscriber ''a:d'' 1 nm_new_with_storage), kt_alive = (\<lambda>_. False),
     kt_timestamp = 0\<rparr>"

lemma lost_tick: "tick_lost ''a:d'' lost_tick" "\<not> tick_gone ''a:d'' lost_tick"
  by (simp_all add: tick_lost_def tick_gone_def lost_tick_def register_watcher_group_update_subscriber_def
      nm_new_with_storage_def hm_get_insert)

theorem keep_alive_ends_witness: "ka_run ''a'' ''d'' 0 [lost_tick, lost_tick, lost_tick] = Some 2"
proof -
  let ?ts = "[lost_tick, lost_tick, lost_tick]"
  have "\<not> ends_at ''a:d'' ?ts m" if "m < 2" for m
    using that lost_tick less_2_cases [of m] by (auto simp: ends_at_def)
  moreover have "ends_at ''a:d'' ?ts 2" using lost_tick by (simp add: ends_at_def)
  ultimately show ?thesis
    using keep_alive_ends [of "''a''" "''d''" ?ts 2 "server_new (None :: unit option)"] by (simp add: device_key_def)
qed

section \<open>What the initial synchronisation delivers\<close>

lemma concat_chunks: "0 < n \<Longrightarrow> concat (chunks n xs) = xs"
proof (induction n xs rule: chunks.induct)
  case (1 n xs)
  then show ?case by (subst chunks.simps) auto
qed

lemma initial_batch_append:
  "initial_batch note d True (xs @ ys) ts =
   Option.bind (initial_batch note d True xs ts) (\<lambda>(sent, ts1).
     Option.bind (initial_batch note d True ys ts1) (\<lambda>(sent', ts2). Some (sent @ sent', ts2)))"
proof (induction xs arbitrary: ts)
  case Nil
  then show ?case by (simp split: option.split bind_split)
next
  case (Cons f xs)
  then show ?case by (auto split: bind_split)
qed

lemma initial_batches_live: "initial_batches note d True bs ts = initial_batch note d True (concat bs) ts"
proof (induction bs arbitrary: ts)
  case Nil
  then show ?case by simp
next
  case (Cons b bs)
  then show ?case by (simp add: initial_batch_append)
qed

lemma initial_batch_sent:
  "initial_batch note d True fs ts = Some (sent, ts') \<Longrightarrow>
   list_all2 (\<lambda>f n. note f = Some n) (filter (\<lambda>f. fi_device_hash f \<noteq> d) fs) sent"
  by (induction fs arbitrary: ts sent ts') (auto split: bind_splits if_splits)

lemma initial_notification_id:
  "initial_notification env acct d sv f = Some n \<Longrightarrow> \<exists>fi. fn_file_info n = Some fi \<and> pf_file_id fi = fi_file_id f"
  by (auto simp: initial_notification_def initial_file_info_def Let_def split: bind_splits option.splits)

definition note_file_id :: "file_update_notification \<Rightarrow> u64 option" where
  "note_file_id n = map_option pf_file_id (fn_file_info n)"

lemma list_all2_ids:
  "list_all2 (\<lambda>f n. initial_notification env acct d sv f = Some n) fs ns \<Longrightarrow>
   map note_file_id ns = map (\<lambda>f. Some (fi_file_id f)) fs"
  by (induction rule: list_all2_induct) (auto simp: note_file_id_def dest!: initial_notification_id)

text \<open>The files of the groups of an account: each of them once.\<close>

lemma initial_files_iff:
  assumes "ms_inv s" "ms_get_watcher_groups acct s = Ok groups"
  shows "f \<in> set (initial_files acct since groups s) \<longleftrightarrow>
    hm_get (sd_files s) (fi_file_id f) = Some f \<and> fi_account_hash f = acct \<and> since \<le> ts_seconds (fi_updated_time f) \<and>
    (\<exists>g. hm_get (sd_watcher_groups s) (fi_group_id f) = Some g \<and> wg_account_hash g = acct)"
proof -
  have wf: "hm_wf (sd_files s)" "hm_wf (sd_watcher_groups s)"
    and key: "hm_get (sd_files s) k = Some f \<Longrightarrow> fi_file_id f = k"
    and grp: "hm_get (sd_watcher_groups s) gi = Some g \<Longrightarrow> wg_id g = gi" for k gi g
    using assms(1) by (auto simp: ms_inv_def keyed_by_def)
  have groups: "groups = filter (\<lambda>g. wg_account_hash g = acct) (hm_values (sd_watcher_groups s))"
    using assms(2) by (simp add: ms_get_watcher_groups_def)
  show ?thesis
    unfolding initial_files_def groups ms_list_files_def
    using key grp by (auto simp: time_ok_def hm_values_iff [OF wf(1)] hm_values_iff [OF wf(2)])
qed

lemma distinct_map_concat:
  assumes "distinct (map kg gs)" "\<forall>g. distinct (map ident (fs g))" "\<forall>g. \<forall>f \<in> set (fs g). grp f = kg g \<and> f \<in> X"
    and "inj_on ident X"
  shows "distinct (map ident (concat (map fs gs)))"
  using assms(1)
proof (induction gs)
  case Nil
  then show ?case by simp
next
  case (Cons g gs)
  have "ident f \<noteq> ident f'" if f: "f \<in> set (fs g)" and f': "f' \<in> set (concat (map fs gs))" for f f'
  proof -
    obtain g' where g': "g' \<in> set gs" "f' \<in> set (fs g')" using f' by auto
    then have "grp f \<noteq> grp f'" using f Cons.prems assms(3) by fastforce
    then have "f \<noteq> f'" by blast
    then show ?thesis using assms(3) f g'(2) inj_onD [OF assms(4), of f f'] by blast
  qed
  then show ?case using Cons assms(2) by fastforce
qed

lemma keyed_ids_distinct: "keyed_by (\<lambda>v k. ident v = k \<and> Q k) m \<Longrightarrow> distinct (map ident (hm_values m))"
proof -
  assume k: "keyed_by (\<lambda>v k. ident v = k \<and> Q k) m"
  then have "map ident (hm_values m) = map fst m"
    by (auto simp: hm_values_def keyed_by_def hm_entry_iff [symmetric])
  then show ?thesis using k by (simp add: keyed_by_def hm_wf_def)
qed

lemma initial_files_distinct:
  assumes "ms_inv s" "ms_get_watcher_groups acct s = Ok groups"
  shows "distinct (map fi_file_id (initial_files acct since groups s))"
proof -
  have files: "distinct (map fi_file_id (hm_values (sd_files s)))"
    using assms(1) keyed_ids_distinct [of fi_file_id "\<lambda>_. True" "sd_files s"] by (simp add: ms_inv_def)
  have "distinct (map wg_id groups)"
    using assms keyed_ids_distinct [of wg_id in_i32 "sd_watcher_groups s"]
    by (auto simp: ms_inv_def ms_get_watcher_groups_def distinct_map_filter)
  then show ?thesis
    unfolding initial_files_def
    by (rule distinct_map_concat [where grp = fi_group_id and X = "set (hm_values (sd_files s))"])
      (use files in \<open>auto simp: ms_list_files_def distinct_map_filter distinct_map intro: inj_on_subset\<close>)
qed

text \<open>The backlog of a device: the files it is told about when it subscribes.\<close>

definition backlog :: "string \<Rightarrow> string \<Rightarrow> i64 \<Rightarrow> storage_data \<Rightarrow> u64 \<Rightarrow> bool" where
  "backlog acct d since s i \<longleftrightarrow>
     (case hm_get (sd_files s) i of
        None \<Rightarrow> False
      | Some f \<Rightarrow> fi_account_hash f = acct \<and> fi_device_hash f \<noteq> d \<and> since \<le> ts_seconds (fi_updated_time f) \<and>
          (case hm_get (sd_watcher_groups s) (fi_group_id f) of None \<Rightarrow> False | Some g \<Rightarrow> wg_account_hash g = acct))"

lemma initial_notification_cong:
  "sv_storage sv = sv_storage sv' \<Longrightarrow> sv_nm sv = sv_nm sv' \<Longrightarrow>
   initial_notification env acct d sv = initial_notification env acct d sv'"
  by (simp add: initial_notification_def fun_eq_iff Let_def)

lemma send_initial_cases:
  assumes "send_initial_file_sync env acct d since_ts sv = Some (r, sv')"
  obtains sent ts groups where "r = Ok ()" "ms_get_watcher_groups acct (sv_storage sv) = Ok groups"
    "initial_batches (initial_notification env acct d sv) d (subscriber_live env (device_key acct d) sv)
       (chunks BATCH_SIZE (initial_files acct (snd (effective_since env acct d since_ts sv)) groups (sv_storage sv)))
       (snd (effective_since env acct d since_ts sv)) = Some (sent, ts)"
    "sv_file_notes sv' = sv_file_notes sv @ map (Pair (device_key acct d)) sent" "sv_nm sv' = sv_nm sv"
    "sv_storage sv' = sv_storage sv \<or> (\<exists>dev. ms_get_device acct d (sv_storage sv) = Ok (Some dev) \<and>
       sv_storage sv' = snd (ms_update_device (dev\<lparr>d_last_sync := sy_now (sx_sys env)\<rparr>) (sv_storage sv)))"
    "sv_connections sv' = ct_update_sync_time (sy_now (sx_sys env)) (device_key acct d) (sv_connections sv)"
    "sv_sessions sv' = sv_sessions sv" "sv_files sv' = sv_files sv" "sv_next_chan sv' = sv_next_chan sv"
proof -
  let ?sv = "sv\<lparr>sv_connections := ct_update_sync_time (sy_now (sx_sys env)) (device_key acct d) (sv_connections sv)\<rparr>"
  have eqs: "effective_since env acct d since_ts ?sv = effective_since env acct d since_ts sv"
    "initial_notification env acct d ?sv = initial_notification env acct d sv"
    "subscriber_live env k ?sv = subscriber_live env k sv" for k
    by (simp_all add: effective_since_def subscriber_live_def initial_notification_cong [of ?sv sv])
  show thesis using assms that
    unfolding send_initial_file_sync_def Let_def eqs
    by (auto simp: ms_get_watcher_groups_def ms_get_device_def eqs split: prod.splits bind_splits if_splits option.splits)
qed

lemma send_initial_exact:
  assumes "ms_inv (sv_storage sv)" "subscriber_live env (device_key acct d) sv"
    and "send_initial_file_sync env acct d since_ts sv = Some (r, sv')"
  shows "\<exists>ns. sv_file_notes sv' = sv_file_notes sv @ map (Pair (device_key acct d)) ns \<and>
    distinct (map note_file_id ns) \<and> (\<forall>n \<in> set ns. note_file_id n \<noteq> None) \<and>
    (\<forall>i. Some i \<in> set (map note_file_id ns) \<longleftrightarrow>
       backlog acct d (snd (effective_since env acct d since_ts sv)) (sv_storage sv) i)"
  using assms(3)
proof (rule send_initial_cases)
  fix sent ts groups
  let ?since = "snd (effective_since env acct d since_ts sv)"
  let ?fs = "initial_files acct ?since groups (sv_storage sv)"
  let ?note = "initial_notification env acct d sv"
  assume groups: "ms_get_watcher_groups acct (sv_storage sv) = Ok groups"
    and run: "initial_batches ?note d (subscriber_live env (device_key acct d) sv) (chunks BATCH_SIZE ?fs) ?since = Some (sent, ts)"
    and log: "sv_file_notes sv' = sv_file_notes sv @ map (Pair (device_key acct d)) sent"
  have "initial_batch ?note d True ?fs ?since = Some (sent, ts)"
    using run assms(2) by (simp add: initial_batches_live concat_chunks BATCH_SIZE_def)
  then have ids: "map note_file_id sent = map (\<lambda>f. Some (fi_file_id f)) (filter (\<lambda>f. fi_device_hash f \<noteq> d) ?fs)"
    using list_all2_ids initial_batch_sent by blast
  have "distinct (map fi_file_id (filter (\<lambda>f. fi_device_hash f \<noteq> d) ?fs))"
    by (rule distinct_map_filter) (rule initial_files_distinct [OF assms(1) groups])
  then have dist: "distinct (map note_file_id sent)" unfolding ids by (auto simp: distinct_map inj_on_def)
  have "set (map note_file_id sent) \<subseteq> range Some" unfolding ids by auto
  then have some: "\<forall>n \<in> set sent. note_file_id n \<noteq> None" by auto
  have "Some i \<in> set (map note_file_id sent) \<longleftrightarrow> backlog acct d ?since (sv_storage sv) i" for i
  proof -
    have "Some i \<in> set (map note_file_id sent) \<longleftrightarrow> (\<exists>f \<in> set ?fs. fi_device_hash f \<noteq> d \<and> fi_file_id f = i)"
      unfolding ids by auto
    also have "\<dots> \<longleftrightarrow> backlog acct d ?since (sv_storage sv) i"
    proof
      assume "\<exists>f \<in> set ?fs. fi_device_hash f \<noteq> d \<and> fi_file_id f = i"
      then show "backlog acct d ?since (sv_storage sv) i"
        by (auto simp: initial_files_iff [OF assms(1) groups] backlog_def)
    next
      assume b: "backlog acct d ?since (sv_storage sv) i"
      then obtain f where f: "hm_get (sd_files (sv_storage sv)) i = Some f" by (auto simp: backlog_def split: option.splits)
      then have "fi_file_id f = i" using assms(1) by (auto simp: ms_inv_def keyed_by_def)
      with f b have "f \<in> set ?fs" "fi_device_hash f \<noteq> d"
        unfolding initial_files_iff [OF assms(1) groups] backlog_def by (auto split: option.splits)
      with \<open>fi_file_id f = i\<close> show "\<exists>f \<in> set ?fs. fi_device_hash f \<noteq> d \<and> fi_file_id f = i" by blast
    qed
    finally show ?thesis .
  qed
  then show ?thesis using log dist some by blast
qed

section \<open>Subscriptions end to end\<close>

lemma verify_token_inv: "verify_token env now token s = Some (r, s') \<Longrightarrow> ms_inv s \<Longrightarrow> ms_inv s'"
  by (auto simp: verify_token_def ms_inv_accounts Let_def split: option.splits sum.splits if_splits)

lemma subscriber_account_ok:
  assumes "subscriber_account env token sv = Some (Ok acct, sv1)"
    and "list_all is_ascii token" "\<not> av_debug_assertions (sy_auth (sx_sys env))"
  shows "\<exists>s. sv1 = sv\<lparr>sv_storage := s\<rparr> \<and> s\<lparr>sd_accounts := sd_accounts (sv_storage sv)\<rparr> = sv_storage sv \<and>
    (ms_inv (sv_storage sv) \<longrightarrow> ms_inv s) \<and> token_live (sy_now (sx_sys env)) token (sv_storage sv) acct"
proof -
  let ?v = "verify_token (sy_auth (sx_sys env)) (sy_now (sx_sys env)) token (sv_storage sv)"
  obtain v s where v: "?v = Some (Ok v, s)"
    "\<forall>a. vr_valid v \<and> vr_account_hash v = a \<longleftrightarrow> token \<noteq> [] \<and> token_live (sy_now (sx_sys env)) token (sv_storage sv) a"
    "s\<lparr>sd_accounts := sd_accounts (sv_storage sv)\<rparr> = sv_storage sv"
    using verify_token_char [OF assms(2,3), of "sy_now (sx_sys env)" "sv_storage sv"] by blast
  then show ?thesis using assms(1) verify_token_inv [OF v(1)]
    by (auto simp: subscriber_account_def sv_verify_def split: if_splits)
qed

lemma same_but_accounts:
  assumes "s\<lparr>sd_accounts := sd_accounts t\<rparr> = t"
  shows "sd_files s = sd_files t" "sd_watcher_groups s = sd_watcher_groups t" "sd_devices s = sd_devices t"
    "sd_encryption_keys s = sd_encryption_keys t" "sd_auth_tokens s = sd_auth_tokens t"
    "sd_watchers s = sd_watchers t" "sd_file_data s = sd_file_data t"
  using arg_cong [OF assms, of sd_files] arg_cong [OF assms, of sd_watcher_groups] arg_cong [OF assms, of sd_devices]
    arg_cong [OF assms, of sd_encryption_keys] arg_cong [OF assms, of sd_auth_tokens] arg_cong [OF assms, of sd_watchers]
    arg_cong [OF assms, of sd_file_data] by simp_all

text \<open>The files a subscription has to deliver, as the list the loop walks through.\<close>

definition backlog_files :: "'x service_env \<Rightarrow> string \<Rightarrow> string \<Rightarrow> i64 option \<Rightarrow> 'x server \<Rightarrow> file_info list" where
  "backlog_files env acct d since_ts sv =
     (case ms_get_watcher_groups acct (sv_storage sv) of
        Inl _ \<Rightarrow> []
      | Inr groups \<Rightarrow> filter (\<lambda>f. fi_device_hash f \<noteq> d)
          (initial_files acct (snd (effective_since env acct d since_ts sv)) groups (sv_storage sv)))"

lemma backlog_files_cong:
  assumes "sd_files (sv_storage sv) = sd_files (sv_storage sv')"
    "sd_watcher_groups (sv_storage sv) = sd_watcher_groups (sv_storage sv')"
    "sd_devices (sv_storage sv) = sd_devices (sv_storage sv')"
  shows "backlog_files env acct d since_ts sv = backlog_files env acct d since_ts sv'"
  by (simp add: backlog_files_def initial_files_def effective_since_def ms_get_watcher_groups_def ms_list_files_def
      ms_get_device_def assms)

lemma backlog_files_backlog:
  assumes "ms_inv (sv_storage sv)" "f \<in> set (backlog_files env acct d since_ts sv)"
  shows "backlog acct d (snd (effective_since env acct d since_ts sv)) (sv_storage sv) (fi_file_id f)"
proof -
  obtain groups where groups: "ms_get_watcher_groups acct (sv_storage sv) = Ok groups"
    by (simp add: ms_get_watcher_groups_def)
  then show ?thesis using assms(2) by (auto simp: backlog_files_def initial_files_iff [OF assms(1) groups] backlog_def)
qed

definition backlog_of :: "'x service_env \<Rightarrow> string \<Rightarrow> subscribe_request \<Rightarrow> 'x server \<Rightarrow> file_info list" where
  "backlog_of env acct req sv =
     backlog_files env acct (sb_device_hash req) (if sb_since_ts req > 0 then Some (sb_since_ts req) else None) sv"

definition since_of :: "'x service_env \<Rightarrow> string \<Rightarrow> subscribe_request \<Rightarrow> 'x server \<Rightarrow> i64" where
  "since_of env acct req sv =
     snd (effective_since env acct (sb_device_hash req) (if sb_since_ts req > 0 then Some (sb_since_ts req) else None) sv)"

lemma subscribe_ok:
  assumes "subscribe_to_file_updates env req sv = Some (Ok c, sv')"
    and "list_all is_ascii (sb_auth_token req)" "\<not> av_debug_assertions (sy_auth (sx_sys env))"
  obtains acct sv2 where "token_live (sy_now (sx_sys env)) (sb_auth_token req) (sv_storage sv) acct" "c = sv_next_chan sv"
    "ms_inv (sv_storage sv) \<longrightarrow> ms_inv (sv_storage sv2)"
    "(sv_storage sv2)\<lparr>sd_accounts := sd_accounts (sv_storage sv)\<rparr> = sv_storage sv"
    "sv_nm sv2 = snd (register_file_update_subscriber_with_alias (device_key acct (sb_device_hash req)) c
       (sb_account_hash req) (sv_nm sv))" "sv_file_notes sv2 = sv_file_notes sv"
    "send_initial_file_sync env acct (sb_device_hash req) (if sb_since_ts req > 0 then Some (sb_since_ts req) else None)
       sv2 = Some (Ok (), sv')"
    "sv_connections sv2 = snd (ct_register_connection (sy_now (sx_sys env)) (sb_device_hash req) acct (sv_connections sv))"
    "sv_sessions sv2 = sv_sessions sv" "sv_files sv2 = sv_files sv" "sv_next_chan sv2 = Suc c"
proof -
  obtain acct sv1 where auth: "subscriber_account env (sb_auth_token req) sv = Some (Ok acct, sv1)"
    using assms(1) by (auto simp: subscribe_to_file_updates_def split: bind_splits sum.splits)
  obtain s where s: "sv1 = sv\<lparr>sv_storage := s\<rparr>" "s\<lparr>sd_accounts := sd_accounts (sv_storage sv)\<rparr> = sv_storage sv"
    "ms_inv (sv_storage sv) \<longrightarrow> ms_inv s" "token_live (sy_now (sx_sys env)) (sb_auth_token req) (sv_storage sv) acct"
    using subscriber_account_ok [OF auth assms(2,3)] by blast
  let ?key = "device_key acct (sb_device_hash req)"
  let ?sv2 = "sv1\<lparr>sv_next_chan := sv_next_chan sv1 + 1, sv_connections := snd (ct_register_connection (sy_now (sx_sys env))
      (sb_device_hash req) acct (sv_connections sv1)),
      sv_nm := snd (register_file_update_subscriber_with_alias ?key (sv_next_chan sv1) (sb_account_hash req) (sv_nm sv1))\<rparr>"
  obtain r where run: "send_initial_file_sync env acct (sb_device_hash req)
      (if sb_since_ts req > 0 then Some (sb_since_ts req) else None) ?sv2 = Some (r, sv')" "c = sv_next_chan sv1"
    using assms(1) auth
    by (auto simp: subscribe_to_file_updates_def register_file_update_subscriber_with_alias_def Let_def split: bind_splits)
  moreover have "r = Ok ()" using run(1) by (rule send_initial_cases) simp
  ultimately show thesis using s by (intro that [of acct ?sv2]) simp_all
qed

lemma initial_notification_total:
  assumes "cipher_total (sy_crypto (sx_sys env))"
  shows "\<exists>n. initial_notification env acct d sv f = Some n"
proof -
  have enc: "aead_encrypt (sy_crypto (sx_sys env)) n k p a \<noteq> None" for n k p a
    using assms by (auto simp: aead_encrypt_def cipher_total_def split: option.split)
  show ?thesis by (auto simp: initial_notification_def Let_def enc split: option.splits bind_splits)
qed

lemma initial_batch_total: "\<forall>f. note f \<noteq> None \<Longrightarrow> initial_batch note d live fs ts \<noteq> None"
proof (induction fs arbitrary: ts live)
  case Nil
  then show ?case by simp
next
  case (Cons f fs)
  then have rest: "initial_batch note d l fs t \<noteq> None" for l t by blast
  show ?case using Cons.prems by (cases "note f") (auto simp del: not_None_eq simp: rest split: bind_splits)
qed

lemma initial_batches_total: "\<forall>f. note f \<noteq> None \<Longrightarrow> initial_batches note d live bs ts \<noteq> None"
proof (induction bs arbitrary: ts)
  case Nil
  then show ?case by simp
next
  case (Cons b bs)
  then have "initial_batch note d live b ts \<noteq> None" "\<And>t. initial_batches note d live bs t \<noteq> None"
    using initial_batch_total by blast+
  then show ?case by (auto simp del: not_None_eq split: bind_splits)
qed

lemma sent_length:
  "initial_batches note d True (chunks BATCH_SIZE fs) ts = Some (sent, ts') \<Longrightarrow>
   length sent = length (filter (\<lambda>f. fi_device_hash f \<noteq> d) fs)"
  by (auto simp: initial_batches_live concat_chunks BATCH_SIZE_def dest!: initial_batch_sent list_all2_lengthD)

lemma send_initial_None:
  assumes "cipher_total (sy_crypto (sx_sys env))" "subscriber_live env (device_key acct d) sv"
  shows "send_initial_file_sync env acct d since_ts sv = None \<longleftrightarrow>
    channel_capacity < length (backlog_files env acct d since_ts sv)"
proof -
  let ?sv = "sv\<lparr>sv_connections := ct_update_sync_time (sy_now (sx_sys env)) (device_key acct d) (sv_connections sv)\<rparr>"
  let ?since = "snd (effective_since env acct d since_ts sv)"
  obtain groups where groups: "ms_get_watcher_groups acct (sv_storage sv) = Ok groups"
    by (simp add: ms_get_watcher_groups_def)
  let ?fs = "initial_files acct ?since groups (sv_storage sv)"
  have eqs: "effective_since env acct d since_ts ?sv = effective_since env acct d since_ts sv"
    "initial_notification env acct d ?sv = initial_notification env acct d sv"
    "subscriber_live env k ?sv = subscriber_live env k sv" for k
    by (simp_all add: effective_since_def subscriber_live_def initial_notification_cong [of ?sv sv])
  have "initial_batches (initial_notification env acct d sv) d True (chunks BATCH_SIZE ?fs) ?since \<noteq> None"
    by (rule initial_batches_total) (simp add: initial_notification_total assms)
  then obtain sent ts where run: "initial_batches (initial_notification env acct d sv) d True (chunks BATCH_SIZE ?fs) ?since = Some (sent, ts)"
    by auto
  then have len: "length sent = length (backlog_files env acct d since_ts sv)"
    using sent_length [OF run] by (simp add: backlog_files_def groups)
  obtain st since where es: "effective_since env acct d since_ts sv = (st, since)" by fastforce
  show ?thesis using run assms(2) groups
    unfolding send_initial_file_sync_def Let_def eqs len [symmetric] by (simp add: es eqs)
qed

lemma subscriber_account_total:
  assumes "token_live (sy_now (sx_sys env)) token (sv_storage sv) acct" "token \<noteq> []"
    and "list_all is_ascii token" "\<not> av_debug_assertions (sy_auth (sx_sys env))"
  shows "\<exists>sv1. subscriber_account env token sv = Some (Ok acct, sv1)"
proof -
  obtain v s where v: "verify_token (sy_auth (sx_sys env)) (sy_now (sx_sys env)) token (sv_storage sv) = Some (Ok v, s)"
    "vr_valid v \<and> vr_account_hash v = acct"
    using verify_token_char [OF assms(3,4), of "sy_now (sx_sys env)" "sv_storage sv"] assms(1,2) by blast
  then show ?thesis by (simp add: subscriber_account_def sv_verify_def)
qed

lemma subscribe_None:
  assumes "cipher_total (sy_crypto (sx_sys env))" "sy_alive (sx_sys env) (sv_next_chan sv)"
    and "token_live (sy_now (sx_sys env)) (sb_auth_token req) (sv_storage sv) acct" "sb_auth_token req \<noteq> []"
    and "list_all is_ascii (sb_auth_token req)" "\<not> av_debug_assertions (sy_auth (sx_sys env))"
  shows "subscribe_to_file_updates env req sv = None \<longleftrightarrow> channel_capacity < length (backlog_of env acct req sv)"
    "length (backlog_of env acct req sv) \<le> channel_capacity \<Longrightarrow> \<exists>c sv'. subscribe_to_file_updates env req sv = Some (Ok c, sv')"
proof -
  obtain sv1 where auth: "subscriber_account env (sb_auth_token req) sv = Some (Ok acct, sv1)"
    using subscriber_account_total [OF assms(3-6)] by blast
  then obtain s where s: "sv1 = sv\<lparr>sv_storage := s\<rparr>" "s\<lparr>sd_accounts := sd_accounts (sv_storage sv)\<rparr> = sv_storage sv"
    using subscriber_account_ok [OF auth assms(5,6)] by blast
  let ?d = "sb_device_hash req"
  let ?since = "if sb_since_ts req > 0 then Some (sb_since_ts req) else None"
  let ?sv2 = "sv1\<lparr>sv_next_chan := sv_next_chan sv1 + 1, sv_connections := snd (ct_register_connection (sy_now (sx_sys env))
      ?d acct (sv_connections sv1)),
      sv_nm := snd (register_file_update_subscriber_with_alias (device_key acct ?d) (sv_next_chan sv1) (sb_account_hash req) (sv_nm sv1))\<rparr>"
  have "subscriber_live env (device_key acct ?d) ?sv2"
    using assms(2) by (simp add: subscriber_live_def s register_file_update_subscriber_with_alias_def hm_get_insert)
  moreover have "backlog_files env acct ?d ?since ?sv2 = backlog_of env acct req sv"
    unfolding backlog_of_def by (rule backlog_files_cong) (simp_all add: s same_but_accounts [OF s(2)])
  ultimately have send: "send_initial_file_sync env acct ?d ?since ?sv2 = None \<longleftrightarrow>
      channel_capacity < length (backlog_of env acct req sv)"
    using send_initial_None [OF assms(1), of acct ?d ?sv2 ?since] by simp
  have step: "subscribe_to_file_updates env req sv =
      Option.bind (send_initial_file_sync env acct ?d ?since ?sv2) (\<lambda>(_, sv'). Some (Ok (sv_next_chan sv1), sv'))"
    using auth by (simp add: subscribe_to_file_updates_def register_file_update_subscriber_with_alias_def Let_def)
  show "subscribe_to_file_updates env req sv = None \<longleftrightarrow> channel_capacity < length (backlog_of env acct req sv)"
    unfolding step send [symmetric] by (auto split: bind_splits)
  show "length (backlog_of env acct req sv) \<le> channel_capacity \<Longrightarrow> \<exists>c sv'. subscribe_to_file_updates env req sv = Some (Ok c, sv')"
    using send unfolding step by (cases "send_initial_file_sync env acct ?d ?since ?sv2") auto
qed

lemma token_live_unique: "token_live t tok s a \<Longrightarrow> token_live t tok s b \<Longrightarrow> a = b"
  by (auto simp: token_live_def split: sum.splits option.splits)

lemma subscribe_backlog:
  assumes "cipher_total (sy_crypto (sx_sys env))" "ms_inv (sv_storage sv)" "sy_alive (sx_sys env) (sv_next_chan sv)"
    and "token_live (sy_now (sx_sys env)) (sb_auth_token req) (sv_storage sv) acct" "sb_auth_token req \<noteq> []"
    and "list_all is_ascii (sb_auth_token req)" "\<not> av_debug_assertions (sy_auth (sx_sys env))"
    and "length (backlog_of env acct req sv) \<le> channel_capacity"
  shows "\<exists>sv' ns. subscribe_to_file_updates env req sv = Some (Ok (sv_next_chan sv), sv') \<and>
    hm_get (nm_file_update_subscribers (sv_nm sv')) (device_key acct (sb_device_hash req)) = Some (sv_next_chan sv) \<and>
    sv_file_notes sv' = sv_file_notes sv @ map (Pair (device_key acct (sb_device_hash req))) ns \<and>
    distinct (map note_file_id ns) \<and> (\<forall>n \<in> set ns. note_file_id n \<noteq> None) \<and>
    (\<forall>i. Some i \<in> set (map note_file_id ns) \<longleftrightarrow>
       backlog acct (sb_device_hash req) (since_of env acct req sv) (sv_storage sv) i)"
proof -
  obtain c sv' where sub: "subscribe_to_file_updates env req sv = Some (Ok c, sv')"
    using subscribe_None(2) [OF assms(1,3-8)] by blast
  from sub assms(6,7) show ?thesis
  proof (rule subscribe_ok)
    fix acct' sv2
    let ?key = "device_key acct (sb_device_hash req)"
    let ?since = "if sb_since_ts req > 0 then Some (sb_since_ts req) else None"
    assume live: "token_live (sy_now (sx_sys env)) (sb_auth_token req) (sv_storage sv) acct'" and c: "c = sv_next_chan sv"
      and inv: "ms_inv (sv_storage sv) \<longrightarrow> ms_inv (sv_storage sv2)"
      and same: "(sv_storage sv2)\<lparr>sd_accounts := sd_accounts (sv_storage sv)\<rparr> = sv_storage sv"
      and nm: "sv_nm sv2 = snd (register_file_update_subscriber_with_alias (device_key acct' (sb_device_hash req)) c
        (sb_account_hash req) (sv_nm sv))"
      and log: "sv_file_notes sv2 = sv_file_notes sv"
      and run': "send_initial_file_sync env acct' (sb_device_hash req) ?since sv2 = Some (Ok (), sv')"
    have acct: "acct' = acct" using live assms(4) by (rule token_live_unique)
    note run = run' [unfolded acct]
    have reg: "hm_get (nm_file_update_subscribers (sv_nm sv2)) ?key = Some c"
      by (simp add: nm acct register_file_update_subscriber_with_alias_def hm_get_insert)
    then have "subscriber_live env ?key sv2" using assms(3) by (simp add: subscriber_live_def c)
    then obtain ns where n: "sv_file_notes sv' = sv_file_notes sv @ map (Pair ?key) ns" "distinct (map note_file_id ns)"
      "\<forall>n \<in> set ns. note_file_id n \<noteq> None"
      "\<forall>i. Some i \<in> set (map note_file_id ns) \<longleftrightarrow>
         backlog acct (sb_device_hash req) (snd (effective_since env acct (sb_device_hash req) ?since sv2)) (sv_storage sv2) i"
      using send_initial_exact [OF _ _ run] inv assms(2) log by auto
    have "snd (effective_since env acct (sb_device_hash req) ?since sv2) = since_of env acct req sv"
      by (simp add: since_of_def effective_since_def ms_get_device_def same_but_accounts [OF same] Let_def)
    moreover have "backlog acct d t (sv_storage sv2) i = backlog acct d t (sv_storage sv) i" for d t i
      unfolding backlog_def same_but_accounts [OF same] ..
    moreover have "sv_nm sv' = sv_nm sv2" using run by (rule send_initial_cases)
    ultimately show ?thesis using sub c reg n by auto
  qed
qed

text \<open>
  C5: subscribing to file updates with a live ASCII token of the account (in a release build), when at most 1024 files are to be
  delivered, registers the new channel under the account of the token and the device and tells the device, once each,
  about precisely the stored files of the account that are filed under a registered group of the account and that another
  device uploaded no earlier than both the device's own last synchronisation and the time in the request.
\<close>
theorem subscribe_delivers_backlog:
  assumes "cipher_total (sy_crypto (sx_sys env))" "ms_inv (sv_storage sv)" "sy_alive (sx_sys env) (sv_next_chan sv)"
    and "token_live (sy_now (sx_sys env)) (sb_auth_token req) (sv_storage sv) acct" "sb_auth_token req \<noteq> []"
    and "list_all is_ascii (sb_auth_token req)" "\<not> av_debug_assertions (sy_auth (sx_sys env))"
    and "length (backlog_of env acct req sv) \<le> channel_capacity"
  shows "\<exists>sv' ns. subscribe_to_file_updates env req sv = Some (Ok (sv_next_chan sv), sv') \<and>
    hm_get (nm_file_update_subscribers (sv_nm sv')) (device_key acct (sb_device_hash req)) = Some (sv_next_chan sv) \<and>
    sv_file_notes sv' = sv_file_notes sv @ map (Pair (device_key acct (sb_device_hash req))) ns \<and>
    distinct (map note_file_id ns) \<and>
    (\<forall>i. Some i \<in> set (map note_file_id ns) \<longleftrightarrow>
       backlog acct (sb_device_hash req) (since_of env acct req sv) (sv_storage sv) i)"
  using subscribe_backlog [OF assms] by blast

text \<open>
  C31: a subscription whose backlog does not fit into the channel never gets an answer.  The
  service writes the backlog into the channel before it hands the receiver to the client, and
  waits for room that nobody makes: with a valid token the request returns exactly when at most
  1024 files are to be delivered.
\<close>
theorem large_backlog_blocks:
  assumes "cipher_total (sy_crypto (sx_sys env))" "sy_alive (sx_sys env) (sv_next_chan sv)"
    and "token_live (sy_now (sx_sys env)) (sb_auth_token req) (sv_storage sv) acct" "sb_auth_token req \<noteq> []"
    and "list_all is_ascii (sb_auth_token req)" "\<not> av_debug_assertions (sy_auth (sx_sys env))"
  shows "subscribe_to_file_updates env req sv = None \<longleftrightarrow> 1024 < length (backlog_of env acct req sv)"
  using subscribe_None(1) [OF assms] by (simp add: channel_capacity_def)

section \<open>A subscribed device hears of an upload\<close>

lemma encrypt_metadata_file_id:
  "encrypt_metadata cl nonce en sk acct k n = Some m \<Longrightarrow> note_file_id m = note_file_id n"
  by (auto simp: encrypt_metadata_def note_file_id_def Let_def split: option.splits if_splits sum.splits)

lemma apply_alias_file_id [simp]:
  "note_file_id (apply_alias al k n) = note_file_id n" "fn_update_type (apply_alias al k n) = fn_update_type n"
  by (simp_all add: note_file_id_def apply_alias_def split: option.split)

lemma broadcast_reaches:
  assumes "broadcast_file_update cl nonces alive n s nm = Some (r, sent)" "hm_wf (nm_file_update_subscribers nm)"
    and "hm_get (nm_file_update_subscribers nm) k = Some c" "alive c" "is_target True (fn_account_hash n) (fn_device_hash n) k"
  shows "\<exists>m. (k, m) \<in> set sent \<and> note_file_id m = note_file_id n \<and> fn_update_type m = fn_update_type n"
    "distinct (map fst sent)"
proof -
  let ?t = "is_target True (fn_account_hash n) (fn_device_hash n)"
  let ?copy = "\<lambda>k. encrypt_metadata cl (nonces k) (nm_transport_encrypt_metadata nm)
    (ms_get_encryption_key (fn_account_hash n) s) (fn_account_hash n) k (apply_alias (nm_file_update_alias_accounts nm) k n)"
  obtain errs where loop: "broadcast_loop ?copy alive ?t (nm_file_update_subscribers nm) = Some (sent, errs)"
    using assms(1)
    by (auto simp: broadcast_file_update_def broadcast_file_update_internal_def Let_def split: option.splits prod.splits)
  have keys: "map fst sent = map fst (filter (\<lambda>(k, c). ?t k \<and> alive c) (nm_file_update_subscribers nm))"
    using broadcast_loop_sent [OF loop] by blast
  then have "k \<in> set (map fst sent)"
    unfolding keys filter_entry_keys [OF assms(2)] using assms(3-5) by blast
  then obtain m where m: "(k, m) \<in> set sent" by auto
  then have copy: "?copy k = Some m" using broadcast_loop_copy [OF loop] by simp
  show "\<exists>m. (k, m) \<in> set sent \<and> note_file_id m = note_file_id n \<and> fn_update_type m = fn_update_type n"
    using m encrypt_metadata_file_id [OF copy] encrypt_metadata_same [OF copy] by auto
  show "distinct (map fst sent)"
    unfolding keys using assms(2) by (simp add: hm_wf_def distinct_map_filter)
qed

lemma store_file_broadcasts:
  assumes "fs_store_file sys fi b a = Some (Ok (), a')" "ap_notification_manager a = Some nm"
  shows "\<exists>n r sent s. broadcast_file_update (sy_crypto sys) (sy_nonces sys) (sy_alive sys) n s nm = Some (r, sent) \<and>
    ap_delivered a' = ap_delivered a @ sent \<and> fn_account_hash n = fi_account_hash fi \<and>
    fn_device_hash n = fi_device_hash fi \<and> note_file_id n = Some (fi_file_id fi) \<and> fn_update_type n = F_Uploaded"
proof -
  obtain i s where s: "ms_store_file_info fi (ap_storage a) = (Ok i, s)" using store_file_info_ok by blast
  obtain a1 where a1: "fs_store_file_data_internal sys (fi_file_id fi) b (a\<lparr>ap_storage := s\<rparr>) = (Ok (), a1)"
    and a': "fs_send_notification sys fi F_Uploaded False (a1\<lparr>ap_files := hm_insert (fi_file_id fi) b (ap_files a1)\<rparr>) = Some a'"
    using assms(1) by (auto simp: fs_store_file_def fs_store_file_with_update_type_def s bind_eq_Some_conv
        split: prod.splits sum.splits)
  have a1': "ap_notification_manager a1 = Some nm \<and> ap_delivered a1 = ap_delivered a"
    using a1 assms(2) by (auto simp: fs_store_file_data_internal_def split: option.splits prod.splits sum.splits)
  let ?n = "\<lparr>fn_account_hash = fi_account_hash fi, fn_device_hash = fi_device_hash fi,
    fn_file_info = Some (proto_of_file_info fi), fn_update_type = F_Uploaded,
    fn_timestamp = ch_timestamp (sy_chrono sys) (sy_now sys)\<rparr>"
  obtain r sent where "broadcast_file_update (sy_crypto sys) (sy_nonces sys) (sy_alive sys) ?n (ap_storage a1) nm =
      Some (r, sent)" "ap_delivered a' = ap_delivered a @ sent"
    using a' a1' by (auto simp: fs_send_notification_def Let_def bind_eq_Some_conv)
  then show ?thesis
    by (intro exI [of _ ?n] exI [of _ r] exI [of _ sent] exI [of _ "ap_storage a1"])
      (simp add: note_file_id_def proto_of_file_info_def)
qed

lemma is_target_own: "no_colon d \<Longrightarrow> no_colon src \<Longrightarrow> d \<noteq> src \<Longrightarrow> is_target True acct src (device_key acct d)"
  using sep_key_suffix [of "CHR '':''" d src acct]
  by (auto simp: is_target_def starts_with_def device_key_def no_colon_def)

lemma upload_reaches:
  assumes "handle_upload_file sys u (as_app sv) = Some (r, a')" "ur_success r"
    and "fh_authenticate sys (up_auth_token u) (as_app sv) = Some (Some acct, a0)"
    and "hm_wf (nm_file_update_subscribers (sv_nm sv))"
    and "hm_get (nm_file_update_subscribers (sv_nm sv)) (device_key acct d) = Some c" "sy_alive sys c"
    and "no_colon d" "no_colon (up_device_hash u)" "d \<noteq> up_device_hash u"
  shows "\<exists>m sent. ap_delivered a' = sv_file_notes sv @ sent \<and> distinct (map fst sent) \<and>
    (device_key acct d, m) \<in> set sent \<and> note_file_id m = Some (ur_file_id r) \<and> fn_update_type m = F_Uploaded"
proof -
  obtain a1 path gid wid a2 fi where auth: "fh_authenticate sys (up_auth_token u) (as_app sv) = Some (Some acct, a1)"
    and fi: "fi = build_file_info_for_upload sys (u\<lparr>up_account_hash := acct\<rparr>) (fh_generate_file_id sys u) path gid wid"
    and store: "fs_store_file sys fi (up_file_data u) a1 = Some (Ok (), a2)"
    and r: "r = file_upload_success (fh_generate_file_id sys u) (wrap_i64 (up_revision u + 1))"
    and out: "ap_delivered a' = ap_delivered a2"
    using handle_upload_success [OF assms(1,2)] assms(3) by auto
  obtain accs where a1: "a1 = (as_app sv)\<lparr>ap_storage := (ap_storage (as_app sv))\<lparr>sd_accounts := accs\<rparr>\<rparr>"
    using fh_authenticate_frame [OF auth] by blast
  then have nm: "ap_notification_manager a1 = Some (sv_nm sv)" "ap_delivered a1 = sv_file_notes sv"
    by (simp_all add: as_app_def)
  obtain n r' sent s where b: "broadcast_file_update (sy_crypto sys) (sy_nonces sys) (sy_alive sys) n s (sv_nm sv) = Some (r', sent)"
    and n: "ap_delivered a2 = sv_file_notes sv @ sent" "fn_account_hash n = fi_account_hash fi"
    "fn_device_hash n = fi_device_hash fi" "note_file_id n = Some (fi_file_id fi)" "fn_update_type n = F_Uploaded"
    using store_file_broadcasts [OF store nm(1)] nm(2) by auto
  have "is_target True (fn_account_hash n) (fn_device_hash n) (device_key acct d)"
    using assms(7-9) is_target_own by (simp add: n fi build_file_info_for_upload_def)
  from broadcast_reaches [OF b assms(4-6) this] show ?thesis
    using n out by (auto simp: r fi build_file_info_for_upload_def file_upload_success_def)
qed

text \<open>
  C4: a subscribed device hears of the uploads of the account's other devices.  In every state whose subscriber
  table has one channel per key, as every state the server reaches has, and in which the device is registered with an open
  channel, an upload that succeeds with a token verified for the same account and comes from another device puts exactly one message for that file
  on the device's stream.  Stated for device hashes without a colon, at which the code cuts the keys.
\<close>
theorem subscriber_hears_upload:
  assumes "hm_wf (nm_file_update_subscribers (sv_nm sv))"
    and "hm_get (nm_file_update_subscribers (sv_nm sv)) (device_key acct d) = Some c" "sy_alive sys c"
    and "handle_upload_file sys u (as_app sv) = Some (r, a')" "ur_success r"
    and "fh_authenticate sys (up_auth_token u) (as_app sv) = Some (Some acct, a0)"
    and "d \<noteq> up_device_hash u" "no_colon d" "no_colon (up_device_hash u)"
  shows "\<exists>m sent. sv_file_notes (set_app sv a') = sv_file_notes sv @ sent \<and> distinct (map fst sent) \<and>
    (device_key acct d, m) \<in> set sent \<and> note_file_id m = Some (ur_file_id r) \<and> fn_update_type m = F_Uploaded"
  using upload_reaches [OF assms(4-6,1-3,8,9,7)] by (simp add: set_app_def)

lemma upload_stored:
  assumes "handle_upload_file sys u a = Some (r, a')" "ur_success r" "ur_file_id r \<noteq> 0"
    and "fh_authenticate sys (up_auth_token u) a = Some (Some acct, a0)"
  shows "\<exists>f. hm_get (sd_files (ap_storage a')) (ur_file_id r) = Some f \<and> fi_account_hash f = acct \<and>
    fi_device_hash f = up_device_hash u \<and> ts_seconds (fi_updated_time f) = ch_timestamp (sy_chrono sys) (sy_now sys)"
proof -
  obtain a1 path gid wid a2 fi where
    fi: "fi = build_file_info_for_upload sys (u\<lparr>up_account_hash := acct\<rparr>) (fh_generate_file_id sys u) path gid wid"
    and store: "fs_store_file sys fi (up_file_data u) a1 = Some (Ok (), a2)"
    and r: "r = file_upload_success (fh_generate_file_id sys u) (wrap_i64 (up_revision u + 1))"
    and out: "ap_storage a' = ap_storage a2"
    using handle_upload_success [OF assms(1,2)] assms(4) by auto
  have id: "fi_file_id fi = ur_file_id r" by (simp add: fi r build_file_info_for_upload_def file_upload_success_def)
  then have "ms_get_file_info (ur_file_id r) (ap_storage a2) = Ok (Some fi)"
    using store_file_get(1) [OF store] assms(3) by simp
  then show ?thesis using out by (simp add: ms_get_file_info_def fi build_file_info_for_upload_def)
qed

text \<open>
  C6: an update is not lost while a device is away.  A file that another device has uploaded with
  success, under an identifier other than zero, is on the device's stream when it subscribes, however many requests
  came in between that neither deleted the file nor uploaded under its identifier.  The conditions are those of the
  subscription: a live token of the account, a group of the account under which the file is filed, at most 1024 files to
  deliver, and an upload not before the device's last synchronisation and the time it asks for.
\<close>
theorem offline_upload_delivered_later:
  assumes "handle_upload_file sys u a = Some (r, a1)" "ur_success r" "ur_file_id r \<noteq> 0"
    and "fh_authenticate sys (up_auth_token u) a = Some (Some acct, a0)"
    and "(leaves_file (ur_file_id r))\<^sup>*\<^sup>* a1 (as_app sv)"
    and "\<exists>f g. hm_get (sd_files (sv_storage sv)) (ur_file_id r) = Some f \<and>
      hm_get (sd_watcher_groups (sv_storage sv)) (fi_group_id f) = Some g \<and> wg_account_hash g = acct"
    and "cipher_total (sy_crypto (sx_sys env))" "ms_inv (sv_storage sv)" "sy_alive (sx_sys env) (sv_next_chan sv)"
    and "token_live (sy_now (sx_sys env)) (sb_auth_token req) (sv_storage sv) acct" "sb_auth_token req \<noteq> []"
    and "list_all is_ascii (sb_auth_token req)" "\<not> av_debug_assertions (sy_auth (sx_sys env))"
    and "sb_device_hash req \<noteq> up_device_hash u"
    and "since_of env acct req sv \<le> ch_timestamp (sy_chrono sys) (sy_now sys)"
    and "length (backlog_of env acct req sv) \<le> channel_capacity"
  shows "\<exists>sv' m. subscribe_to_file_updates env req sv = Some (Ok (sv_next_chan sv), sv') \<and>
    (device_key acct (sb_device_hash req), m) \<in> set (sv_file_notes sv') \<and> note_file_id m = Some (ur_file_id r)"
proof -
  obtain sv' ns where sub: "subscribe_to_file_updates env req sv = Some (Ok (sv_next_chan sv), sv')"
    and log: "sv_file_notes sv' = sv_file_notes sv @ map (Pair (device_key acct (sb_device_hash req))) ns"
    and ids: "\<forall>i. Some i \<in> set (map note_file_id ns) \<longleftrightarrow>
      backlog acct (sb_device_hash req) (since_of env acct req sv) (sv_storage sv) i"
    using subscribe_backlog [of env sv req acct] assms(7-13,16) by blast
  have "hm_get (sd_files (sv_storage sv)) (ur_file_id r) = hm_get (sd_files (ap_storage a1)) (ur_file_id r)"
    using leaves_files_kept [OF assms(5)] by (simp add: file_kept_def as_app_def)
  then have "backlog acct (sb_device_hash req) (since_of env acct req sv) (sv_storage sv) (ur_file_id r)"
    using upload_stored [OF assms(1-4)] assms(6,14,15) by (auto simp: backlog_def)
  then obtain m where "m \<in> set ns" "note_file_id m = Some (ur_file_id r)" using ids by force
  then show ?thesis using sub log by (intro exI [of _ sv'] exI [of _ m]) auto
qed

text \<open>
  A device that is new to an account is told about none of the files the account already
  has.  Registering the device sets its last synchronisation to the moment of the registration,
  and the subscription leaves out every file older than that, whatever time it asks for.
\<close>
theorem new_device_hears_nothing:
  assumes "ms_get_device acct (sb_device_hash req) s = Ok None" "ms_inv s"
    and "sv_storage sv = snd (auto_register_or_update_device reg acct (sb_device_hash req) os app s)"
    and "\<forall>i f. hm_get (sd_files s) i = Some f \<longrightarrow> ts_seconds (fi_updated_time f) < ch_timestamp (sy_chrono (sx_sys env)) reg"
    and "cipher_total (sy_crypto (sx_sys env))" "sy_alive (sx_sys env) (sv_next_chan sv)"
    and "token_live (sy_now (sx_sys env)) (sb_auth_token req) (sv_storage sv) acct" "sb_auth_token req \<noteq> []"
    and "list_all is_ascii (sb_auth_token req)" "\<not> av_debug_assertions (sy_auth (sx_sys env))"
  shows "\<exists>sv'. subscribe_to_file_updates env req sv = Some (Ok (sv_next_chan sv), sv') \<and>
    sv_file_notes sv' = sv_file_notes sv"
proof -
  let ?d = "sb_device_hash req"
  let ?dev = "device_new reg acct ?d True os app"
  have sv: "sv_storage sv = snd (ms_register_device ?dev s)"
    using assms(1,3) by (simp add: auto_register_or_update_device_def ms_register_device_def Let_def)
  then have inv: "ms_inv (sv_storage sv)" using assms(2) by (simp add: ms_inv_devices)
  have dev: "ms_get_device acct ?d (sv_storage sv) = Ok (Some ?dev)" and files: "sd_files (sv_storage sv) = sd_files s"
    by (simp_all add: sv ms_register_device_def ms_get_device_def device_new_def Let_def hm_get_insert)
  have since: "ch_timestamp (sy_chrono (sx_sys env)) reg \<le> since_of env acct req sv"
    by (simp add: since_of_def effective_since_def dev device_new_def Let_def)
  have none: "\<not> backlog acct ?d (since_of env acct req sv) (sv_storage sv) i" for i
    using assms(4) [rule_format, of i] since by (auto simp: backlog_def files split: option.split)
  have "f \<notin> set (backlog_of env acct req sv)" for f
    using none backlog_files_backlog [OF inv] unfolding backlog_of_def since_of_def by blast
  then have few: "backlog_of env acct req sv = []" by (cases "backlog_of env acct req sv") auto
  obtain sv' ns where sub: "subscribe_to_file_updates env req sv = Some (Ok (sv_next_chan sv), sv')"
    and log: "sv_file_notes sv' = sv_file_notes sv @ map (Pair (device_key acct ?d)) ns"
    and ids: "\<forall>i. Some i \<in> set (map note_file_id ns) \<longleftrightarrow> backlog acct ?d (since_of env acct req sv) (sv_storage sv) i"
    and some: "\<forall>n \<in> set ns. note_file_id n \<noteq> None"
    using subscribe_backlog [OF assms(5) inv assms(6-10)] few by (auto simp: channel_capacity_def)
  have "ns = []" using ids some none by (cases ns) auto
  then show ?thesis using sub log by simp
qed

text \<open>
  The timer of a subscription does not know whether the subscription is still the one it was
  started for.  When a device has subscribed again in the meantime, the timer of its first
  subscription removes the second one, although its stream is open, and marks the device as
  disconnected.
\<close>
theorem stale_timer_drops_new_subscription:
  assumes "subscribe_to_file_updates env req sv = Some (Ok c, sv')"
    and "list_all is_ascii (sb_auth_token req)" "\<not> av_debug_assertions (sy_auth (sx_sys env))"
    and "token_live (sy_now (sx_sys env)) (sb_auth_token req) (sv_storage sv) acct"
  shows "let k = device_key acct (sb_device_hash req); sv'' = subscription_timeout later k sv' in
    hm_get (nm_file_update_subscribers (sv_nm sv')) k = Some c \<and>
    hm_get (nm_file_update_subscribers (sv_nm sv'')) k = None \<and>
    (\<exists>cs. hm_get (sv_connections sv'') k = Some cs \<and> \<not> cs_is_active cs)"
  using assms(1-3)
proof (rule subscribe_ok)
  fix acct' sv2
  let ?k = "device_key acct (sb_device_hash req)"
  assume live: "token_live (sy_now (sx_sys env)) (sb_auth_token req) (sv_storage sv) acct'"
    and nm: "sv_nm sv2 = snd (register_file_update_subscriber_with_alias (device_key acct' (sb_device_hash req)) c
      (sb_account_hash req) (sv_nm sv))"
    and con: "sv_connections sv2 = snd (ct_register_connection (sy_now (sx_sys env)) (sb_device_hash req) acct' (sv_connections sv))"
    and run: "send_initial_file_sync env acct' (sb_device_hash req)
      (if sb_since_ts req > 0 then Some (sb_since_ts req) else None) sv2 = Some (Ok (), sv')"
  have acct: "acct' = acct" using live assms(4) by (rule token_live_unique)
  have same: "sv_nm sv' = sv_nm sv2" using run by (rule send_initial_cases)
  have "sv_connections sv' = ct_update_sync_time (sy_now (sx_sys env)) (device_key acct' (sb_device_hash req)) (sv_connections sv2)"
    using run by (rule send_initial_cases)
  then have "\<exists>cs. hm_get (sv_connections sv') ?k = Some cs"
    by (auto simp: con acct ct_update_sync_time_def ct_register_connection_def Let_def hm_get_modify hm_get_insert split: option.split)
  then show ?thesis
    by (auto simp: subscription_timeout_def unregister_file_update_subscriber_def hm_get_remove same nm acct
        register_file_update_subscriber_with_alias_def hm_get_insert ct_mark_disconnected_def hm_get_modify
        cs_mark_disconnected_def)
qed

section \<open>A small server\<close>

definition sample_senv :: "unit service_env" where
  "sample_senv = \<lparr>sx_sys = sample_server_sys, sx_regex = (\<lambda>_. None), sx_dev_mode = False, sx_test_mode = False\<rparr>"

definition sample_group :: watcher_group where
  "sample_group = \<lparr>wg_id = 0, wg_group_id = 9, wg_account_hash = ''acct'', wg_title = ''Docs'', wg_created_at = 0, wg_updated_at = 0,
     wg_is_active = True, wg_watcher_ids = []\<rparr>"

definition sample_store :: storage_data where
  "sample_store = ms_new\<lparr>sd_auth_tokens := [(''tok'', auth_create_auth_token 0 ''tok'' ''i'' ''acct'')],
     sd_watcher_groups := [(0, sample_group)]\<rparr>"

definition sample_sv :: "unit server" where
  "sample_sv = (server_new None)\<lparr>sv_storage := sample_store\<rparr>"

definition sample_sub :: subscribe_request where
  "sample_sub = \<lparr>sb_account_hash = ''x'', sb_device_hash = ''d2'', sb_auth_token = ''tok'', sb_since_ts = 0\<rparr>"

lemma sample_store_inv: "ms_inv sample_store"
  by (auto simp: ms_inv_def sample_store_def ms_new_def keyed_by_def hm_wf_def hm_get_def sample_group_def in_i32_def
      auth_create_auth_token_def split: if_splits)

lemma sample_sys_facts:
  "cipher_total (sy_crypto (sx_sys sample_senv))" "sy_alive (sx_sys sample_senv) c"
  "\<not> av_debug_assertions (sy_auth (sx_sys sample_senv))" "sx_sys sample_senv = sample_server_sys"
  by (simp_all add: sample_senv_def sample_server_sys_def sample_sys_def sample_lib_def cipher_total_def sample_env_def)

lemma sample_sub_facts: "sb_auth_token sample_sub \<noteq> []" "list_all is_ascii (sb_auth_token sample_sub)"
  by (simp_all add: sample_sub_def is_ascii_def)

lemma sample_token_live:
  "sd_auth_tokens s = sd_auth_tokens sample_store \<Longrightarrow>
   token_live (sy_now (sx_sys sample_senv)) (sb_auth_token sample_sub) s ''acct''"
  by (simp add: token_live_def ms_get_auth_token_def sample_store_def sample_sub_def hm_get_def sample_senv_def
      sample_server_sys_def sample_sys_def auth_create_auth_token_def days_def)

lemma sample_sv_storage [simp]: "sv_storage sample_sv = sample_store"
  by (simp add: sample_sv_def)

lemma sample_backlog:
  "sd_files (sv_storage sv) = fs \<Longrightarrow> length fs \<le> 1 \<Longrightarrow> sd_watcher_groups (sv_storage sv) = [(0, sample_group)] \<Longrightarrow>
   length (backlog_of sample_senv ''acct'' sample_sub sv) \<le> channel_capacity"
  by (auto simp: backlog_of_def backlog_files_def ms_get_watcher_groups_def initial_files_def ms_list_files_def hm_values_def
      channel_capacity_def sample_group_def intro!: order_trans [OF length_filter_le])

lemma sample_sv_backlog: "length (backlog_of sample_senv ''acct'' sample_sub sample_sv) \<le> channel_capacity"
  by (rule sample_backlog [OF refl]) (simp_all add: sample_store_def ms_new_def)

definition waiting_sv :: "unit server" where
  "waiting_sv = sample_sv\<lparr>sv_storage := sample_store\<lparr>sd_files := [(7, (sample_file ''acct'' 7)\<lparr>fi_group_id := 0\<rparr>)]\<rparr>\<rparr>"

theorem subscribe_delivers_backlog_witness:
  "\<exists>sv' m. subscribe_to_file_updates sample_senv sample_sub waiting_sv = Some (Ok 0, sv') \<and>
     hm_get (nm_file_update_subscribers (sv_nm sv')) ''acct:d2'' = Some 0 \<and>
     (''acct:d2'', m) \<in> set (sv_file_notes sv') \<and> note_file_id m = Some 7"
proof -
  have inv: "ms_inv (sv_storage waiting_sv)"
    using sample_store_inv by (auto simp: waiting_sv_def ms_inv_def keyed_by_def hm_wf_def hm_get_def sample_file_def)
  have few: "length (backlog_of sample_senv ''acct'' sample_sub waiting_sv) \<le> channel_capacity"
    by (rule sample_backlog [OF refl]) (simp_all add: waiting_sv_def sample_store_def)
  have tok: "token_live (sy_now (sx_sys sample_senv)) (sb_auth_token sample_sub) (sv_storage waiting_sv) ''acct''"
    by (rule sample_token_live) (simp add: waiting_sv_def)
  have "backlog ''acct'' (sb_device_hash sample_sub) (since_of sample_senv ''acct'' sample_sub waiting_sv) (sv_storage waiting_sv) 7"
    by (simp add: backlog_def waiting_sv_def hm_get_def sample_file_def sample_sub_def sample_store_def sample_group_def
        since_of_def effective_since_def ms_get_device_def ms_new_def)
  then obtain sv' ns where sub: "subscribe_to_file_updates sample_senv sample_sub waiting_sv = Some (Ok (sv_next_chan waiting_sv), sv')"
      "hm_get (nm_file_update_subscribers (sv_nm sv')) (device_key ''acct'' (sb_device_hash sample_sub)) = Some (sv_next_chan waiting_sv)"
      "sv_file_notes sv' = sv_file_notes waiting_sv @ map (Pair (device_key ''acct'' (sb_device_hash sample_sub))) ns"
    and "Some 7 \<in> set (map note_file_id ns)"
    using subscribe_delivers_backlog [OF sample_sys_facts(1) inv sample_sys_facts(2) tok sample_sub_facts sample_sys_facts(3) few] by blast
  then obtain m where "m \<in> set ns" "note_file_id m = Some 7" by auto
  then show ?thesis using sub
    by (intro exI [of _ sv'] exI [of _ m]) (auto simp: waiting_sv_def sample_sv_def server_new_def sample_sub_def device_key_def)
qed

definition crowded_sv :: "unit server" where
  "crowded_sv = sample_sv\<lparr>sv_storage := sample_store\<lparr>sd_files :=
     map (\<lambda>i. (of_nat i, (sample_file ''acct'' (of_nat i))\<lparr>fi_group_id := 0\<rparr>)) [0..<1025]\<rparr>\<rparr>"

lemma crowded_backlog: "length (backlog_of sample_senv ''acct'' sample_sub crowded_sv) = 1025"
  by (simp add: backlog_of_def backlog_files_def ms_get_watcher_groups_def initial_files_def ms_list_files_def hm_values_def
      crowded_sv_def sample_store_def sample_group_def effective_since_def ms_get_device_def ms_new_def sample_sub_def
      time_ok_def sample_file_def o_def del: upt_Suc upt_rec_numeral)

theorem large_backlog_blocks_witness: "subscribe_to_file_updates sample_senv sample_sub crowded_sv = None"
  using large_backlog_blocks [of sample_senv crowded_sv sample_sub "''acct''"] sample_sys_facts(1,3)
    sample_sys_facts(2) [of "sv_next_chan crowded_sv"] sample_token_live [of "sv_storage crowded_sv"] sample_sub_facts
    crowded_backlog
  by (simp add: crowded_sv_def)

lemma sample_upload_run:
  assumes "ap_file_storage a = None" "sd_auth_tokens (ap_storage a) = sd_auth_tokens sample_store"
    and "sd_watcher_groups (ap_storage a) = [(0, sample_group)]" "sd_accounts (ap_storage a) = []"
  shows "fh_authenticate sample_server_sys (up_auth_token sample_upload) a = Some (Some ''acct'', a)"
    "\<exists>a1 f. handle_upload_file sample_server_sys sample_upload a = Some (file_upload_success 5 1, a1) \<and>
      ap_storage a1 = snd (ms_store_file_data 5 [1, 2, 3] (snd (ms_store_file_info f (ap_storage a)))) \<and>
      fi_file_id f = 5 \<and> fi_group_id f = 0"
proof -
  let ?fi = "build_file_info_for_upload sample_server_sys (sample_upload\<lparr>up_account_hash := ''acct''\<rparr>) 5 ''~/docs/f.txt'' 0 0"
  have auth: "fh_authenticate sample_server_sys ''tok'' a = Some (Some ''acct'', a)"
    by (rule sample_live) (simp_all add: assms sample_store_def hm_get_def)
  then show "fh_authenticate sample_server_sys (up_auth_token sample_upload) a = Some (Some ''acct'', a)"
    by (simp add: sample_upload_def)
  have ids: "fs_ensure_server_ids_for_upload ''acct'' 1 1 a = Ok (0, 0)"
    by (simp add: fs_ensure_server_ids_for_upload_def ms_get_server_ids_def assms sample_group_def hm_values_def)
  let ?s = "snd (ms_store_file_data 5 [1, 2, 3] (snd (ms_store_file_info ?fi (ap_storage a))))"
  obtain a2 where a2: "fs_send_notification sample_server_sys ?fi F_Uploaded False
      (a\<lparr>ap_storage := ?s, ap_files := hm_insert 5 [1, 2, 3] (ap_files a)\<rparr>) = Some a2"
    using fs_send_notification_total [OF sample_transport_ok(2)] by blast
  have "fs_store_file sample_server_sys ?fi [1, 2, 3] a = Some (Ok (), a2)"
    using a2 assms(1) by (simp add: fs_store_file_def fs_store_file_with_update_type_def fs_store_file_data_internal_def
        ms_store_file_data_def ms_store_file_info_def build_file_info_for_upload_def)
  moreover have "ap_storage a2 = ?s" using fs_send_notification_same(2) [OF a2] by simp
  ultimately have "\<exists>a1. handle_upload_file sample_server_sys sample_upload a = Some (file_upload_success 5 1, a1) \<and> ap_storage a1 = ?s"
    using sample_upload_valid sample_upload_path sample_upload_id auth ids
    by (auto simp: handle_upload_file_def sample_upload_def publish_def wrap_i64_def)
  then show "\<exists>a1 f. handle_upload_file sample_server_sys sample_upload a = Some (file_upload_success 5 1, a1) \<and>
      ap_storage a1 = snd (ms_store_file_data 5 [1, 2, 3] (snd (ms_store_file_info f (ap_storage a)))) \<and>
      fi_file_id f = 5 \<and> fi_group_id f = 0"
    by (elim exE, intro exI [of _ ?fi] exI conjI) (auto simp: build_file_info_for_upload_def)
qed

lemma sample_view:
  "ap_file_storage (as_app sample_sv) = None" "sd_auth_tokens (ap_storage (as_app sample_sv)) = sd_auth_tokens sample_store"
  "sd_watcher_groups (ap_storage (as_app sample_sv)) = [(0, sample_group)]" "sd_accounts (ap_storage (as_app sample_sv)) = []"
  by (simp_all add: as_app_def sample_sv_def server_new_def sample_store_def ms_new_def)

definition subscribed_sv :: "unit server" where
  "subscribed_sv = sample_sv\<lparr>sv_nm := snd (register_file_update_subscriber_with_alias ''acct:d2'' 0 ''x'' nm_new_with_storage),
     sv_next_chan := 1\<rparr>"

theorem subscriber_hears_upload_witness:
  "\<exists>a' m. handle_upload_file sample_server_sys sample_upload (as_app subscribed_sv) = Some (file_upload_success 5 1, a') \<and>
     (''acct:d2'', m) \<in> set (sv_file_notes (set_app subscribed_sv a')) \<and> note_file_id m = Some 5"
proof -
  have v: "ap_file_storage (as_app subscribed_sv) = None" "sd_auth_tokens (ap_storage (as_app subscribed_sv)) = sd_auth_tokens sample_store"
    "sd_watcher_groups (ap_storage (as_app subscribed_sv)) = [(0, sample_group)]" "sd_accounts (ap_storage (as_app subscribed_sv)) = []"
    by (simp_all add: subscribed_sv_def as_app_def sample_sv_def server_new_def sample_store_def ms_new_def)
  obtain a' where run: "handle_upload_file sample_server_sys sample_upload (as_app subscribed_sv) = Some (file_upload_success 5 1, a')"
    using sample_upload_run(2) [OF v] by blast
  have nm: "sv_nm subscribed_sv = snd (register_file_update_subscriber_with_alias ''acct:d2'' 0 ''x'' nm_new_with_storage)"
    by (simp add: subscribed_sv_def)
  have "hm_wf (nm_file_update_subscribers (sv_nm subscribed_sv))"
    "hm_get (nm_file_update_subscribers (sv_nm subscribed_sv)) (device_key ''acct'' ''d2'') = Some 0"
    by (simp_all add: nm register_file_update_subscriber_with_alias_def nm_new_with_storage_def device_key_def hm_get_insert)
  from subscriber_hears_upload [OF this _ run _ sample_upload_run(1) [OF v]] run
  show ?thesis
    by (fastforce simp: file_upload_success_def sample_upload_def no_colon_def device_key_def sample_server_sys_def sample_sys_def)
qed

theorem offline_upload_delivered_later_witness:
  "\<exists>a1 sv' m. handle_upload_file sample_server_sys sample_upload (as_app sample_sv) = Some (file_upload_success 5 1, a1) \<and>
     subscribe_to_file_updates sample_senv sample_sub (set_app sample_sv a1) = Some (Ok 0, sv') \<and>
     (''acct:d2'', m) \<in> set (sv_file_notes sv') \<and> note_file_id m = Some 5"
proof -
  obtain a1 f where run: "handle_upload_file sample_server_sys sample_upload (as_app sample_sv) = Some (file_upload_success 5 1, a1)"
    and s: "ap_storage a1 = snd (ms_store_file_data 5 [1, 2, 3] (snd (ms_store_file_info f sample_store)))"
      "fi_file_id f = 5" "fi_group_id f = 0"
    using sample_upload_run(2) [OF sample_view] by (auto simp: as_app_def)
  let ?sv = "set_app sample_sv a1"
  have st: "sv_storage ?sv = ap_storage a1" by (simp add: set_app_def)
  have files: "sd_files (sv_storage ?sv) = [(5, f)]" and same: "sd_auth_tokens (sv_storage ?sv) = sd_auth_tokens sample_store"
      "sd_watcher_groups (sv_storage ?sv) = [(0, sample_group)]" "sd_devices (sv_storage ?sv) = []"
    using s(2) by (simp_all add: st s(1) ms_store_file_data_def ms_store_file_info_def sample_store_def ms_new_def hm_insert_def)
  have inv: "ms_inv (sv_storage ?sv)" unfolding st s(1) by (intro ms_inv_files sample_store_inv)
  have few: "length (backlog_of sample_senv ''acct'' sample_sub ?sv) \<le> channel_capacity"
    by (rule sample_backlog [OF refl]) (simp_all add: files same)
  have since: "since_of sample_senv ''acct'' sample_sub ?sv = 0"
    by (simp add: since_of_def effective_since_def sample_sub_def ms_get_device_def same hm_get_def)
  have later: "(leaves_file (ur_file_id (file_upload_success 5 1)))\<^sup>*\<^sup>* a1 (as_app ?sv)"
    by (rule r_into_rtranclp, rule lf_other) (simp_all add: as_app_def set_app_def)
  have "\<exists>sv' m. subscribe_to_file_updates sample_senv sample_sub ?sv = Some (Ok (sv_next_chan ?sv), sv') \<and>
      (device_key ''acct'' (sb_device_hash sample_sub), m) \<in> set (sv_file_notes sv') \<and>
      note_file_id m = Some (ur_file_id (file_upload_success 5 1))"
    by (rule offline_upload_delivered_later [OF run _ _ sample_upload_run(1) [OF sample_view] later _ sample_sys_facts(1) inv sample_sys_facts(2)
          sample_token_live [OF same(1)] sample_sub_facts(1) sample_sub_facts(2) sample_sys_facts(3) _ _ few])
      (use files same s(3) since in \<open>simp_all add: file_upload_success_def hm_get_def sample_group_def sample_sub_def
        sample_upload_def sample_server_sys_def sample_sys_def sample_chrono_def\<close>)
  then show ?thesis using run
    by (auto simp: sample_sub_def device_key_def file_upload_success_def sample_sv_def server_new_def set_app_def)
qed

theorem new_device_hears_nothing_witness:
  "\<exists>sv'. subscribe_to_file_updates sample_senv sample_sub
       (sample_sv\<lparr>sv_storage := snd (auto_register_or_update_device 5000000000 ''acct'' ''d2'' ''6.1'' ''1.0'' sample_store)\<rparr>) =
     Some (Ok 0, sv') \<and> sv_file_notes sv' = []"
proof -
  let ?s = "snd (auto_register_or_update_device 5000000000 ''acct'' ''d2'' ''6.1'' ''1.0'' sample_store)"
  let ?sv = "sample_sv\<lparr>sv_storage := ?s\<rparr>"
  have tok: "sd_auth_tokens ?s = sd_auth_tokens sample_store"
    by (simp add: auto_register_or_update_device_def ms_get_device_def sample_store_def ms_new_def ms_register_device_def Let_def)
  have "\<exists>sv'. subscribe_to_file_updates sample_senv sample_sub ?sv = Some (Ok (sv_next_chan ?sv), sv') \<and>
      sv_file_notes sv' = sv_file_notes ?sv"
    by (rule new_device_hears_nothing [where s = sample_store and acct = "''acct''" and reg = 5000000000 and os = "''6.1''"
          and app = "''1.0''", OF _ sample_store_inv _ _ sample_sys_facts(1) sample_sys_facts(2) _ sample_sub_facts sample_sys_facts(3)])
      (use sample_token_live [OF tok] in \<open>simp_all add: ms_get_device_def sample_store_def ms_new_def sample_sub_def\<close>)
  then show ?thesis by (simp add: sample_sv_def server_new_def)
qed

theorem stale_timer_drops_new_subscription_witness:
  "\<exists>sv'. subscribe_to_file_updates sample_senv sample_sub sample_sv = Some (Ok 0, sv') \<and>
     hm_get (nm_file_update_subscribers (sv_nm (subscription_timeout 9 ''acct:d2'' sv'))) ''acct:d2'' = None"
proof -
  obtain c sv' where run: "subscribe_to_file_updates sample_senv sample_sub sample_sv = Some (Ok c, sv')"
    using subscribe_None(2) [OF sample_sys_facts(1,2) sample_token_live sample_sub_facts sample_sys_facts(3) sample_sv_backlog]
    by auto
  then have "c = 0"
    by (rule subscribe_ok [OF _ sample_sub_facts(2) sample_sys_facts(3)]) (simp add: sample_sv_def server_new_def)
  then show ?thesis
    using run stale_timer_drops_new_subscription [OF run sample_sub_facts(2) sample_sys_facts(3) sample_token_live, of 9]
    by (auto simp: Let_def sample_sub_def device_key_def)
qed

end
