(* ===== verification/Mysql_Files.thy ===== *)
theory Mysql_Files
  imports Crypto "HOL-Library.Monad_Syntax"
begin

text \<open>
  The table \<^verbatim>\<open>files\<close> of the MySQL storage: the statements of
  \<^verbatim>\<open>src/storage/mysql_file.rs\<close> and the version queries of \<^verbatim>\<open>src/storage/mysql.rs\<close>, as
  functions on the list of rows.  The list is in whatever order the database scans the table; a
  statement with \<^verbatim>\<open>LIMIT 1\<close>, or a \<^verbatim>\<open>fetch_optional\<close>, takes the first matching row.  Times
  are the seconds that \<^verbatim>\<open>FROM_UNIXTIME\<close> and \<^verbatim>\<open>UNIX_TIMESTAMP\<close> convert, and the columns
  compared as text hold hashes and numbers.  What the database and the driver may do is in
  the parameter \<open>mysql\<close>: the error of each statement and the decoding of two column types.  An
  outer \<open>None\<close> is the panic of the cipher.
\<close>

section \<open>Rows and environment\<close>

record file_row =
  r_file_id :: u64
  r_account_hash :: string
  r_device_hash :: string
  r_file_path :: bytes
  r_filename :: bytes
  r_file_hash :: string
  r_size :: i64
  r_is_deleted :: bool
  r_revision :: i64
  r_created_time :: i64
  r_updated_time :: i64
  r_group_id :: i32
  r_watcher_id :: i32
  r_server_group_id :: i32
  r_server_watcher_id :: i32
  r_eq_index :: "bytes option"
  r_token_path :: "string option"
  r_key_id :: "string option"

type_synonym files = "file_row list"

record mysql =
  my_fault :: "nat \<Rightarrow> string option" \<comment> \<open>the error of the statement with this number, if any\<close>
  my_range_error :: string \<comment> \<open>the error for a number out of range of its column\<close>
  my_u64_of_bigint :: "i64 \<Rightarrow> u64 option" \<comment> \<open>reading a signed column as \<open>u64\<close>\<close>
  my_text_of_varbinary :: "bytes \<Rightarrow> (string, string) result" \<comment> \<open>reading a binary column as text\<close>
  my_crypto :: crypto_lib
  my_unicode_lower :: "string \<Rightarrow> string"
  my_server_encode_key :: "bytes option"
  my_nonces :: "bytes \<times> bytes"
  my_random_id :: u64
  my_now :: datetime
  my_chrono :: chrono

definition my_now_secs :: "mysql \<Rightarrow> i64" where
  "my_now_secs my = ch_timestamp (my_chrono my) (my_now my)"

text \<open>\<^verbatim>\<open>v as i64\<close> for an unsigned \<open>v\<close>.\<close>

definition as_i64 :: "u64 \<Rightarrow> i64" where
  "as_i64 v = sint v"

text \<open>A statement: its error when it has one, the continuation otherwise.\<close>

definition stmt :: "mysql \<Rightarrow> nat \<Rightarrow> string \<Rightarrow> 'a sres \<Rightarrow> 'a sres" where
  "stmt my n msg k = (case my_fault my n of Some e \<Rightarrow> Err (SE_Database (msg @ e)) | None \<Rightarrow> k)"

text \<open>A transaction that ends in an error is rolled back when it is dropped.\<close>

definition in_transaction :: "files \<Rightarrow> ('a \<times> files) sres \<Rightarrow> 'a sres \<times> files" where
  "in_transaction t r = (case r of Inr (x, t') \<Rightarrow> (Ok x, t') | Inl e \<Rightarrow> (Err e, t))"

section \<open>Lossy decoding of text\<close>

text \<open>
  \<^verbatim>\<open>String::from_utf8_lossy\<close>: at each position either a well-formed character of \<open>n\<close> bytes, or
  \<open>n\<close> bytes that are replaced by the replacement character.
\<close>

definition is_cont :: "8 word \<Rightarrow> bool" where
  "is_cont b \<longleftrightarrow> 0x80 \<le> b \<and> b \<le> 0xBF"

definition second_ok :: "8 word \<Rightarrow> 8 word \<Rightarrow> bool" where
  "second_ok b x \<longleftrightarrow>
     (if b = 0xE0 then 0xA0 \<le> x \<and> x \<le> 0xBF else if b = 0xED then 0x80 \<le> x \<and> x \<le> 0x9F
      else if b = 0xF0 then 0x90 \<le> x \<and> x \<le> 0xBF else if b = 0xF4 then 0x80 \<le> x \<and> x \<le> 0x8F
      else is_cont x)"

definition utf8_next :: "8 word \<Rightarrow> bytes \<Rightarrow> bool \<times> nat" where
  "utf8_next b bs =
     (let ok = (\<lambda>i. i < length bs \<and> is_cont (bs ! i)); ok1 = (bs \<noteq> [] \<and> second_ok b (bs ! 0))
      in if b < 0x80 then (True, 1)
         else if 0xC2 \<le> b \<and> b \<le> 0xDF then (if ok1 then (True, 2) else (False, 1))
         else if 0xE0 \<le> b \<and> b \<le> 0xEF then
           (if \<not> ok1 then (False, 1) else if ok 1 then (True, 3) else (False, 2))
         else if 0xF0 \<le> b \<and> b \<le> 0xF4 then
           (if \<not> ok1 then (False, 1) else if \<not> ok 1 then (False, 2) else if ok 2 then (True, 4) else (False, 3))
         else (False, 1))"

function from_utf8_lossy :: "bytes \<Rightarrow> string" where
  "from_utf8_lossy [] = []"
| "from_utf8_lossy (b # bs) =
     (case utf8_next b bs of (valid, n) \<Rightarrow>
        (if valid then map (\<lambda>w. char_of (unat w)) (take n (b # bs)) else [CHR 0xEF, CHR 0xBF, CHR 0xBD]) @
        from_utf8_lossy (drop (n - 1) bs))"
  by pat_completeness auto
termination by (relation "measure length") (auto simp: utf8_next_def)

definition is_utf8 :: "string \<Rightarrow> bool" where
  "is_utf8 s \<longleftrightarrow> from_utf8_lossy (as_bytes s) = s"

section \<open>Encoding of paths and names\<close>

definition my_key :: "mysql \<Rightarrow> bytes option" where
  "my_key my = (case my_server_encode_key my of Some kv \<Rightarrow> if length kv = 32 then Some kv else None | None \<Rightarrow> None)"

definition row_aad :: "string \<Rightarrow> i32 \<Rightarrow> i32 \<Rightarrow> bytes" where
  "row_aad account_hash group_id watcher_id =
     as_bytes (account_hash @ '':'' @ show_int group_id @ '':'' @ show_int watcher_id)"

definition decrypt_text :: "mysql \<Rightarrow> string \<Rightarrow> i32 \<Rightarrow> i32 \<Rightarrow> bytes \<Rightarrow> string" where
  "decrypt_text my account_hash group_id watcher_id b =
     (case my_key my of
        Some key \<Rightarrow>
          (case aead_decrypt (my_crypto my) key b (row_aad account_hash group_id watcher_id) of
             Inr pt \<Rightarrow> from_utf8_lossy pt | Inl _ \<Rightarrow> from_utf8_lossy b)
      | None \<Rightarrow> from_utf8_lossy b)"

definition meta_salt :: "mysql \<Rightarrow> string \<Rightarrow> bytes" where
  "meta_salt my account_hash =
     (case my_key my of Some key \<Rightarrow> derive_salt (my_crypto my) key ''meta-index'' account_hash
                      | None \<Rightarrow> as_bytes account_hash)"

definition path_eq_index :: "mysql \<Rightarrow> string \<Rightarrow> string \<Rightarrow> bytes" where
  "path_eq_index my account_hash file_path = make_eq_index (my_crypto my) (meta_salt my account_hash) file_path"

text \<open>The columns for path and name, plain or encrypted.\<close>

definition encode_names :: "mysql \<Rightarrow> file_info \<Rightarrow> (bytes \<times> bytes) option" where
  "encode_names my fi =
     (case my_key my of
        Some key \<Rightarrow>
          (let aad = row_aad (fi_account_hash fi) (fi_group_id fi) (fi_watcher_id fi) in do {
             ct_path \<leftarrow> aead_encrypt (my_crypto my) (fst (my_nonces my)) key (as_bytes (fi_file_path fi)) aad;
             ct_name \<leftarrow> aead_encrypt (my_crypto my) (snd (my_nonces my)) key (as_bytes (fi_filename fi)) aad;
             Some (ct_path, ct_name)
           })
      | None \<Rightarrow> Some (as_bytes (fi_file_path fi), as_bytes (fi_filename fi)))"

section \<open>Messages\<close>

text \<open>The prefixes of the error messages, as UTF-8 bytes.\<close>

definition msg_begin :: string where
  "msg_begin = map (char_of :: nat \<Rightarrow> char) [
     237, 138, 184, 235, 158, 156, 236, 158, 173, 236, 133, 152, 32, 236, 139, 156, 236, 158, 145,
     32, 236, 139, 164, 237, 140, 168, 40, 115, 113, 108, 120, 41, 58, 32]"

definition msg_check_id :: string where
  "msg_check_id = map (char_of :: nat \<Rightarrow> char) [
     102, 105, 108, 101, 95, 105, 100, 235, 161, 156, 32, 237, 140, 140, 236, 157, 188, 32, 237,
     153, 149, 236, 157, 184, 32, 236, 139, 164, 237, 140, 168, 58, 32]"

definition msg_update :: string where
  "msg_update = map (char_of :: nat \<Rightarrow> char) [
     237, 140, 140, 236, 157, 188, 32, 236, 160, 149, 235, 179, 180, 32, 236, 151, 133, 235, 141,
     176, 236, 157, 180, 237, 138, 184, 32, 236, 139, 164, 237, 140, 168, 58, 32]"

definition msg_commit :: string where
  "msg_commit = map (char_of :: nat \<Rightarrow> char) [
     237, 138, 184, 235, 158, 156, 236, 158, 173, 236, 133, 152, 32, 236, 187, 164, 235, 176, 139,
     32, 236, 139, 164, 237, 140, 168, 58, 32]"

definition msg_max :: string where
  "msg_max = map (char_of :: nat \<Rightarrow> char) [
     236, 181, 156, 235, 140, 128, 32, 114, 101, 118, 105, 115, 105, 111, 110, 32, 236, 161, 176,
     237, 154, 140, 32, 236, 139, 164, 237, 140, 168, 58, 32]"

definition msg_active :: string where
  "msg_active = map (char_of :: nat \<Rightarrow> char) [
     237, 153, 156, 236, 132, 177, 32, 237, 140, 140, 236, 157, 188, 32, 236, 161, 180, 236, 158,
     172, 32, 236, 151, 172, 235, 182, 128, 32, 237, 153, 149, 236, 157, 184, 32, 236, 139, 164,
     237, 140, 168, 58, 32]"

definition msg_mark :: string where
  "msg_mark = map (char_of :: nat \<Rightarrow> char) [
     234, 184, 176, 236, 161, 180, 32, 237, 140, 140, 236, 157, 188, 32, 236, 130, 173, 236, 160,
     156, 32, 237, 145, 156, 236, 139, 156, 32, 236, 139, 164, 237, 140, 168, 58, 32]"

definition msg_info :: string where
  "msg_info = map (char_of :: nat \<Rightarrow> char) [
     237, 140, 140, 236, 157, 188, 32, 236, 160, 149, 235, 179, 180, 32, 236, 161, 176, 237, 154,
     140, 32, 236, 139, 164, 237, 140, 168, 40, 115, 113, 108, 120, 41, 58, 32]"

definition msg_search :: string where
  "msg_search = map (char_of :: nat \<Rightarrow> char) [
     237, 140, 140, 236, 157, 188, 32, 234, 178, 128, 236, 131, 137, 32, 236, 139, 164, 237, 140,
     168, 40, 115, 113, 108, 120, 41, 58, 32]"

definition msg_search_exact :: string where
  "msg_search_exact = map (char_of :: nat \<Rightarrow> char) [
     237, 140, 140, 236, 157, 188, 32, 234, 178, 128, 236, 131, 137, 32, 236, 139, 164, 237, 140,
     168, 40, 236, 160, 149, 237, 153, 149, 237, 149, 156, 32, 234, 178, 128, 236, 131, 137, 44, 32,
     115, 113, 108, 120, 41, 58, 32]"

definition msg_list :: string where
  "msg_list = map (char_of :: nat \<Rightarrow> char) [
     237, 140, 140, 236, 157, 188, 32, 235, 170, 169, 235, 161, 157, 32, 236, 161, 176, 237, 154,
     140, 32, 236, 139, 164, 237, 140, 168, 40, 115, 113, 108, 120, 41, 58, 32]"

definition msg_exists :: string where
  "msg_exists = map (char_of :: nat \<Rightarrow> char) [
     237, 140, 140, 236, 157, 188, 32, 236, 161, 180, 236, 158, 172, 32, 236, 161, 176, 237, 154,
     140, 32, 83, 81, 76, 32, 236, 152, 164, 235, 165, 152, 58, 32]"

definition msg_exists_check :: string where
  "msg_exists_check = map (char_of :: nat \<Rightarrow> char) [
     237, 140, 140, 236, 157, 188, 32, 236, 161, 180, 236, 158, 172, 32, 236, 151, 172, 235, 182,
     128, 32, 237, 153, 149, 236, 157, 184, 32, 236, 139, 164, 237, 140, 168, 40, 115, 113, 108,
     120, 41, 58, 32]"

definition msg_not_found :: string where
  "msg_not_found = map (char_of :: nat \<Rightarrow> char) [
     237, 140, 140, 236, 157, 188, 236, 157, 132, 32, 236, 176, 190, 236, 157, 132, 32, 236, 136,
     152, 32, 236, 151, 134, 236, 157, 140, 58, 32]"

definition msg_mark_sqlx :: string where
  "msg_mark_sqlx = map (char_of :: nat \<Rightarrow> char) [
     234, 184, 176, 236, 161, 180, 32, 237, 140, 140, 236, 157, 188, 32, 236, 130, 173, 236, 160,
     156, 32, 237, 145, 156, 236, 139, 156, 32, 236, 139, 164, 237, 140, 168, 40, 115, 113, 108,
     120, 41, 58, 32]"

definition msg_mark_old :: string where
  "msg_mark_old = map (char_of :: nat \<Rightarrow> char) [
     236, 157, 180, 236, 160, 132, 32, 235, 178, 132, 236, 160, 132, 32, 237, 140, 140, 236, 157,
     188, 32, 236, 130, 173, 236, 160, 156, 32, 237, 145, 156, 236, 139, 156, 32, 236, 139, 164,
     237, 140, 168, 40, 115, 113, 108, 120, 41, 58, 32]"

definition msg_history1 :: string where
  "msg_history1 = map (char_of :: nat \<Rightarrow> char) [
     236, 130, 173, 236, 160, 156, 32, 236, 157, 180, 235, 160, 165, 32, 236, 182, 148, 234, 176,
     128, 32, 236, 139, 164, 237, 140, 168, 32, 40, 49, 235, 139, 168, 234, 179, 132, 44, 32, 115,
     113, 108, 120, 41, 58, 32]"

definition msg_history2 :: string where
  "msg_history2 = map (char_of :: nat \<Rightarrow> char) [
     236, 130, 173, 236, 160, 156, 32, 236, 157, 180, 235, 160, 165, 32, 236, 182, 148, 234, 176,
     128, 32, 236, 139, 164, 237, 140, 168, 32, 40, 50, 235, 139, 168, 234, 179, 132, 44, 32, 115,
     113, 108, 120, 41, 58, 32]"

definition msg_commit_sqlx :: string where
  "msg_commit_sqlx = map (char_of :: nat \<Rightarrow> char) [
     237, 138, 184, 235, 158, 156, 236, 158, 173, 236, 133, 152, 32, 236, 187, 164, 235, 176, 139,
     32, 236, 139, 164, 237, 140, 168, 40, 115, 113, 108, 120, 41, 58, 32]"

definition msg_criteria :: string where
  "msg_criteria = map (char_of :: nat \<Rightarrow> char) [
     237, 140, 140, 236, 157, 188, 32, 234, 178, 128, 236, 131, 137, 32, 236, 191, 188, 235, 166,
     172, 32, 236, 139, 164, 237, 150, 137, 32, 236, 139, 164, 237, 140, 168, 58, 32]"

definition msg_insert :: string where
  "msg_insert = map (char_of :: nat \<Rightarrow> char) [
     236, 131, 136, 32, 237, 140, 140, 236, 157, 188, 32, 236, 160, 149, 235, 179, 180, 32, 236,
     130, 189, 236, 158, 133, 32, 236, 139, 164, 237, 140, 168, 58, 32]"


section \<open>Storing a file record\<close>

text \<open>\<open>same_file\<close> is the condition on account, path, name and server group.\<close>

definition same_file :: "file_info \<Rightarrow> file_row \<Rightarrow> bool" where
  "same_file fi r \<longleftrightarrow> r_account_hash r = fi_account_hash fi \<and> r_file_path r = as_bytes (fi_file_path fi) \<and>
     r_filename r = as_bytes (fi_filename fi) \<and> r_server_group_id r = fi_group_id fi"

definition max_revision :: "file_row list \<Rightarrow> i64" where
  "max_revision rs = (case rs of [] \<Rightarrow> 0 | r # rs' \<Rightarrow> fold max (map r_revision rs') (r_revision r))"

definition mark_deleted :: "(file_row \<Rightarrow> bool) \<Rightarrow> files \<Rightarrow> files" where
  "mark_deleted P t = map (\<lambda>r. if P r then r\<lparr>r_is_deleted := True\<rparr> else r) t"

definition update_row :: "file_info \<Rightarrow> file_row \<Rightarrow> file_row" where
  "update_row fi r =
     (if r_file_id r = fi_file_id fi
      then r\<lparr>r_file_hash := fi_file_hash fi, r_device_hash := fi_device_hash fi,
             r_updated_time := ts_seconds (fi_updated_time fi), r_size := as_i64 (fi_size fi),
             r_revision := r_revision r + 1,
             r_key_id := (case fi_key_id fi of Some k \<Rightarrow> Some k | None \<Rightarrow> r_key_id r)\<rparr>
      else r)"

definition new_row :: "mysql \<Rightarrow> file_info \<Rightarrow> bytes \<Rightarrow> bytes \<Rightarrow> i64 \<Rightarrow> file_row" where
  "new_row my fi path_b name_b revision =
     \<lparr>r_file_id = fi_file_id fi, r_account_hash = fi_account_hash fi, r_device_hash = fi_device_hash fi,
      r_file_path = path_b, r_filename = name_b, r_file_hash = fi_file_hash fi, r_size = as_i64 (fi_size fi),
      r_is_deleted = False, r_revision = revision, r_created_time = my_now_secs my,
      r_updated_time = ts_seconds (fi_updated_time fi), r_group_id = fi_group_id fi,
      r_watcher_id = fi_watcher_id fi, r_server_group_id = fi_group_id fi, r_server_watcher_id = fi_watcher_id fi,
      r_eq_index = Some (path_eq_index my (fi_account_hash fi) (fi_file_path fi)),
      r_token_path = Some (make_token_path (my_crypto my) (my_unicode_lower my)
        (meta_salt my (fi_account_hash fi)) (fi_file_path fi)),
      r_key_id = fi_key_id fi\<rparr>"

text \<open>The identifier is bound as a signed number; a negative one is out of range of the column.\<close>

definition my_store_file_info :: "mysql \<Rightarrow> file_info \<Rightarrow> files \<Rightarrow> (u64 sres \<times> files) option" where
  "my_store_file_info my fi t =
     (case find (\<lambda>r. r_file_id r = fi_file_id fi \<and> \<not> r_is_deleted r) t of
        Some _ \<Rightarrow>
          Some (in_transaction t
            (stmt my 0 msg_begin (stmt my 1 msg_check_id (stmt my 2 msg_update (stmt my 3 msg_commit
              (Ok (fi_file_id fi, map (update_row fi) t)))))))
      | None \<Rightarrow>
          (let new_revision = wrap_i64 (max_revision (filter (same_file fi) t) + 1);
               t1 = (case find (\<lambda>r. same_file fi r \<and> \<not> r_is_deleted r) t of
                       Some r0 \<Rightarrow> mark_deleted (\<lambda>r. r_file_id r = r_file_id r0) t | None \<Rightarrow> t);
               before = stmt my 0 msg_begin (stmt my 1 msg_check_id (stmt my 4 msg_max (stmt my 5 msg_active
                 (if find (\<lambda>r. same_file fi r \<and> \<not> r_is_deleted r) t \<noteq> None then stmt my 6 msg_mark (Ok ()) else Ok ()))))
           in case before of
                Inl e \<Rightarrow> Some (Err e, t)
              | Inr _ \<Rightarrow> do {
                  (path_b, name_b) \<leftarrow> encode_names my fi;
                  Some (in_transaction t
                    (if as_i64 (fi_file_id fi) < 0 then Err (SE_Database (msg_insert @ my_range_error my))
                     else stmt my 7 msg_insert (stmt my 8 msg_commit
                       (Ok (fi_file_id fi, t1 @ [new_row my fi path_b name_b new_revision])))))
                }))"

section \<open>Reading file records\<close>

definition file_info_of_row :: "mysql \<Rightarrow> file_row \<Rightarrow> file_info" where
  "file_info_of_row my r =
     \<lparr>fi_file_id = r_file_id r,
      fi_filename = decrypt_text my (r_account_hash r) (r_group_id r) (r_watcher_id r) (r_filename r),
      fi_file_hash = r_file_hash r, fi_device_hash = r_device_hash r, fi_group_id = r_group_id r,
      fi_watcher_id = r_watcher_id r, fi_is_encrypted = False,
      fi_file_path = decrypt_text my (r_account_hash r) (r_group_id r) (r_watcher_id r) (r_file_path r),
      fi_updated_time = \<lparr>ts_seconds = r_updated_time r, ts_nanos = 0\<rparr>, fi_revision = r_revision r,
      fi_account_hash = r_account_hash r,
      fi_size = (case my_u64_of_bigint my (r_size r) of Some v \<Rightarrow> v | None \<Rightarrow> 0),
      fi_key_id = r_key_id r\<rparr>"

text \<open>\<^verbatim>\<open>ORDER BY revision DESC LIMIT 1\<close>: some row of the largest revision, the first one here.\<close>

fun first_max :: "('a \<Rightarrow> int) \<Rightarrow> 'a list \<Rightarrow> 'a option" where
  "first_max f [] = None"
| "first_max f (x # xs) = (case first_max f xs of Some y \<Rightarrow> if f x < f y then Some y else Some x | None \<Rightarrow> Some x)"

text \<open>\<^verbatim>\<open>ORDER BY f DESC\<close>, rows with the same value in table order.\<close>

definition order_desc :: "('a \<Rightarrow> int) \<Rightarrow> 'a list \<Rightarrow> 'a list" where
  "order_desc f xs = sort_key (\<lambda>x. - f x) xs"

definition my_get_file_info :: "mysql \<Rightarrow> u64 \<Rightarrow> files \<Rightarrow> file_info option sres" where
  "my_get_file_info my file_id t =
     stmt my 0 msg_info (Ok (map_option (file_info_of_row my)
       (find (\<lambda>r. r_file_id r = file_id \<and> \<not> r_is_deleted r) t)))"

definition my_get_file_info_include_deleted :: "mysql \<Rightarrow> u64 \<Rightarrow> files \<Rightarrow> (file_info \<times> bool) option sres" where
  "my_get_file_info_include_deleted my file_id t =
     stmt my 0 msg_info (Ok (map_option (\<lambda>r. (file_info_of_row my r, r_is_deleted r))
       (find (\<lambda>r. r_file_id r = file_id) t)))"

definition my_get_file_info_by_path :: "mysql \<Rightarrow> string \<Rightarrow> string \<Rightarrow> i32 \<Rightarrow> files \<Rightarrow> file_info option sres" where
  "my_get_file_info_by_path my account_hash file_path group_id t =
     (let eq_index = path_eq_index my account_hash file_path in
      stmt my 0 msg_info (Ok (map_option (file_info_of_row my) (first_max r_revision
        (filter (\<lambda>r. r_account_hash r = account_hash \<and> r_eq_index r = Some eq_index \<and>
           r_server_group_id r = group_id \<and> \<not> r_is_deleted r) t)))))"

definition my_get_file_by_hash :: "mysql \<Rightarrow> string \<Rightarrow> string \<Rightarrow> files \<Rightarrow> file_info option sres" where
  "my_get_file_by_hash my account_hash file_hash t =
     stmt my 0 msg_search (Ok (map_option (file_info_of_row my) (first_max r_revision
       (filter (\<lambda>r. r_account_hash r = account_hash \<and> r_file_hash r = file_hash \<and> \<not> r_is_deleted r) t))))"

definition my_find_file_by_path_and_name ::
  "mysql \<Rightarrow> string \<Rightarrow> string \<Rightarrow> string \<Rightarrow> i64 \<Rightarrow> files \<Rightarrow> file_info option sres" where
  "my_find_file_by_path_and_name my account_hash file_path filename revision t =
     (let eq_index = path_eq_index my account_hash file_path in
      stmt my 0 msg_search_exact (Ok (map_option (file_info_of_row my) (first_max r_revision
        (filter (\<lambda>r. r_account_hash r = account_hash \<and> r_eq_index r = Some eq_index \<and> \<not> r_is_deleted r \<and>
           (revision > 0 \<longrightarrow> r_revision r = revision)) t)))))"

definition my_list_files :: "mysql \<Rightarrow> string \<Rightarrow> i32 \<Rightarrow> i64 option \<Rightarrow> files \<Rightarrow> file_info list sres" where
  "my_list_files my account_hash group_id upload_time_from t =
     stmt my 0 msg_list (Ok (map (file_info_of_row my) (order_desc r_updated_time
       (filter (\<lambda>r. r_account_hash r = account_hash \<and> r_server_group_id r = group_id \<and> \<not> r_is_deleted r) t))))"

definition my_list_files_except_device ::
  "mysql \<Rightarrow> string \<Rightarrow> i32 \<Rightarrow> string \<Rightarrow> i64 option \<Rightarrow> files \<Rightarrow> file_info list sres" where
  "my_list_files_except_device my account_hash group_id exclude_device_hash upload_time_from t =
     stmt my 0 msg_list (Ok (map (file_info_of_row my) (order_desc r_updated_time
       (filter (\<lambda>r. r_account_hash r = account_hash \<and> r_server_group_id r = group_id \<and>
          r_device_hash r \<noteq> exclude_device_hash \<and> \<not> r_is_deleted r) t))))"

definition my_check_file_exists :: "mysql \<Rightarrow> u64 \<Rightarrow> files \<Rightarrow> (bool \<times> bool) sres" where
  "my_check_file_exists my file_id t =
     stmt my 0 msg_exists (Ok (case find (\<lambda>r. uint (r_file_id r) = as_i64 file_id) t of
       Some r \<Rightarrow> (True, r_is_deleted r) | None \<Rightarrow> (False, False)))"

text \<open>The path and name searched for: split at the last slash when the path already has the name.\<close>

definition split_criteria :: "string \<Rightarrow> string \<Rightarrow> string \<times> string" where
  "split_criteria file_path filename =
     (if ends_with file_path (CHR ''/'' # filename) \<or> ends_with file_path filename then
        (if CHR ''/'' \<in> set file_path
         then (rev (tl (dropWhile (\<lambda>c. c \<noteq> CHR ''/'') (rev file_path))), rev (takeWhile (\<lambda>c. c \<noteq> CHR ''/'') (rev file_path)))
         else ([], file_path))
      else (file_path, filename))"

definition my_find_file_by_criteria ::
  "mysql \<Rightarrow> string \<Rightarrow> i32 \<Rightarrow> i32 \<Rightarrow> string \<Rightarrow> string \<Rightarrow> files \<Rightarrow> file_info option sres" where
  "my_find_file_by_criteria my account_hash group_id watcher_id file_path filename t =
     (let (search_path, search_filename) = split_criteria file_path filename;
          txt = (\<lambda>b. case my_text_of_varbinary my b of Inr s \<Rightarrow> s | Inl _ \<Rightarrow> []) in
      stmt my 0 msg_criteria (Ok (map_option
        (\<lambda>r. (file_info_of_row my r)\<lparr>fi_file_path := txt (r_file_path r), fi_filename := txt (r_filename r)\<rparr>)
        (first_max r_revision
          (filter (\<lambda>r. r_account_hash r = account_hash \<and> r_server_group_id r = group_id \<and>
             r_server_watcher_id r = watcher_id \<and> \<not> r_is_deleted r \<and>
             (r_file_path r = as_bytes search_path \<and> r_filename r = as_bytes search_filename \<or>
              r_file_path r = as_bytes file_path \<and> r_filename r = as_bytes filename)) t)))))"

section \<open>Deleting a file\<close>

text \<open>
  The record of the deletion as the insert leaves it; the columns it does not name have their
  defaults, and the update that follows sets the rest.
\<close>

definition tombstone :: "mysql \<Rightarrow> string \<Rightarrow> string \<Rightarrow> string \<Rightarrow> string \<Rightarrow> file_row" where
  "tombstone my account_hash device_hash file_path filename =
     \<lparr>r_file_id = my_random_id my, r_account_hash = account_hash, r_device_hash = device_hash,
      r_file_path = as_bytes file_path, r_filename = as_bytes filename, r_file_hash = file_path, r_size = 0,
      r_is_deleted = False, r_revision = 1, r_created_time = my_now_secs my, r_updated_time = my_now_secs my,
      r_group_id = 0, r_watcher_id = 0, r_server_group_id = 0, r_server_watcher_id = 0, r_eq_index = None,
      r_token_path = None, r_key_id = None\<rparr>"

definition my_delete_file :: "mysql \<Rightarrow> string \<Rightarrow> u64 \<Rightarrow> files \<Rightarrow> unit sres \<times> files" where
  "my_delete_file my account_hash file_id t =
     in_transaction t (stmt my 0 msg_begin (stmt my 1 msg_exists_check
       (case find (\<lambda>r. r_file_id r = file_id \<and> r_account_hash r = account_hash) t of
          None \<Rightarrow> Err (SE_NotFound (msg_not_found @ show_u64 file_id))
        | Some r0 \<Rightarrow>
            (case (my_text_of_varbinary my (r_file_path r0), my_text_of_varbinary my (r_filename r0)) of
               (Inl e, _) \<Rightarrow> Err (SE_Database (msg_exists_check @ e))
             | (Inr _, Inl e) \<Rightarrow> Err (SE_Database (msg_exists_check @ e))
             | (Inr file_path, Inr filename) \<Rightarrow>
                 (let new_revision = wrap_i64 (r_revision r0 + 1);
                      t1 = mark_deleted (\<lambda>r. r_file_id r = file_id) t;
                      t2 = mark_deleted (\<lambda>r. r_account_hash r = account_hash \<and> r_file_path r = as_bytes file_path \<and>
                             r_filename r = as_bytes filename \<and> r_group_id r = r_group_id r0) t1;
                      t3 = t2 @ [tombstone my account_hash (r_device_hash r0) file_path filename];
                      t4 = map (\<lambda>r. if r_file_id r = my_random_id my
                             then r\<lparr>r_is_deleted := True, r_revision := new_revision,
                                    r_created_time := my_now_secs my, r_updated_time := my_now_secs my,
                                    r_group_id := r_group_id r0, r_watcher_id := r_watcher_id r0\<rparr>
                             else r) t3
                  in stmt my 2 msg_mark_sqlx (stmt my 3 msg_mark_old (stmt my 4 msg_history1 (stmt my 5 msg_history2
                       (stmt my 6 msg_commit_sqlx (Ok ((), t4)))))))))))"

section \<open>Versions\<close>

definition sync_file_of_row :: "mysql \<Rightarrow> file_row \<Rightarrow> sync_file" where
  "sync_file_of_row my r =
     (let from_ts = (\<lambda>ts. case ch_from_timestamp (my_chrono my) ts 0 of Some d \<Rightarrow> d | None \<Rightarrow> my_now my);
          txt = (\<lambda>b. case my_text_of_varbinary my b of Inr s \<Rightarrow> s | Inl _ \<Rightarrow> '''')
      in \<lparr>sf_id = show_u64 (r_file_id r) @ ''_'' @ show_int (r_revision r), sf_user_id = r_account_hash r,
          sf_device_hash = r_device_hash r, sf_group_id = r_group_id r, sf_watcher_id = r_watcher_id r,
          sf_file_id = r_file_id r, sf_filename = txt (r_filename r), sf_file_hash = r_file_hash r,
          sf_file_path = txt (r_file_path r), sf_file_size = r_size r,
          sf_mime_type = ''application/octet-stream'', sf_modified_time = r_updated_time r,
          sf_is_encrypted = False, sf_upload_time = from_ts (r_created_time r),
          sf_last_updated = from_ts (r_updated_time r), sf_is_deleted = r_is_deleted r,
          sf_revision = r_revision r\<rparr>)"

definition my_get_file_history :: "mysql \<Rightarrow> string \<Rightarrow> string \<Rightarrow> i32 \<Rightarrow> files \<Rightarrow> sync_file list sres" where
  "my_get_file_history my account_hash file_path group_id t =
     stmt my 0 ''Failed to get file history: '' (Ok (map (sync_file_of_row my) (order_desc r_revision
       (filter (\<lambda>r. r_account_hash r = account_hash \<and> r_file_path r = as_bytes file_path \<and> r_group_id r = group_id) t))))"

definition my_get_file_versions_by_id :: "mysql \<Rightarrow> string \<Rightarrow> u64 \<Rightarrow> files \<Rightarrow> sync_file list sres" where
  "my_get_file_versions_by_id my account_hash file_id t =
     stmt my 0 ''Failed to get file versions: '' (Ok (map (sync_file_of_row my) (order_desc r_revision
       (filter (\<lambda>r. r_account_hash r = account_hash \<and> uint (r_file_id r) = as_i64 file_id) t))))"

definition my_get_file_by_revision :: "mysql \<Rightarrow> string \<Rightarrow> u64 \<Rightarrow> i64 \<Rightarrow> files \<Rightarrow> sync_file sres" where
  "my_get_file_by_revision my account_hash file_id revision t =
     stmt my 0 ''Failed to get file by revision: ''
       (case find (\<lambda>r. r_account_hash r = account_hash \<and> uint (r_file_id r) = as_i64 file_id \<and> r_revision r = revision) t of
          Some r \<Rightarrow> Ok (sync_file_of_row my r)
        | None \<Rightarrow> Err (SE_NotFound (''File not found: file_id='' @ show_u64 file_id @ '', revision='' @ show_int revision)))"

text \<open>The statement leaves the index columns out; where they are required the insert fails.\<close>

definition my_store_file :: "mysql \<Rightarrow> sync_file \<Rightarrow> files \<Rightarrow> unit sres \<times> files" where
  "my_store_file my f t =
     (let prev_key_id = (case first_max r_updated_time
              (filter (\<lambda>r. r_account_hash r = sf_user_id f \<and> r_file_id r = sf_file_id f) t) of
            Some r \<Rightarrow> r_key_id r | None \<Rightarrow> None);
          row = \<lparr>r_file_id = sf_file_id f, r_account_hash = sf_user_id f, r_device_hash = sf_device_hash f,
            r_file_path = as_bytes (sf_file_path f), r_filename = as_bytes (sf_filename f),
            r_file_hash = sf_file_hash f, r_size = sf_file_size f, r_is_deleted = sf_is_deleted f,
            r_revision = sf_revision f, r_created_time = ch_timestamp (my_chrono my) (sf_upload_time f),
            r_updated_time = ch_timestamp (my_chrono my) (sf_last_updated f), r_group_id = sf_group_id f,
            r_watcher_id = sf_watcher_id f, r_server_group_id = sf_group_id f,
            r_server_watcher_id = sf_watcher_id f, r_eq_index = None, r_token_path = None, r_key_id = prev_key_id\<rparr>
      in case stmt my 0 ''Failed to fetch previous key_id: '' (stmt my 1 ''Failed to store file: '' (Ok ())) of
           Inl e \<Rightarrow> (Err e, t) | Inr _ \<Rightarrow> (Ok (), t @ [row]))"

section \<open>Retention\<close>

definition my_purge_deleted_files_older_than :: "mysql \<Rightarrow> i64 \<Rightarrow> files \<Rightarrow> nat sres \<times> files" where
  "my_purge_deleted_files_older_than my ttl_secs t =
     (let old = (\<lambda>r. r_is_deleted r \<and> r_updated_time r < my_now_secs my - ttl_secs)
      in case stmt my 0 ''Failed to purge deleted files: '' (Ok ()) of
           Inl e \<Rightarrow> (Err e, t) | Inr _ \<Rightarrow> (Ok (length (filter old t)), filter (\<lambda>r. \<not> old r) t))"

definition same_slot :: "file_row \<Rightarrow> file_row \<Rightarrow> bool" where
  "same_slot i r \<longleftrightarrow> r_account_hash i = r_account_hash r \<and> r_file_path i = r_file_path r \<and>
     r_server_group_id i = r_server_group_id r"

definition surplus :: "i32 \<Rightarrow> files \<Rightarrow> file_row \<Rightarrow> bool" where
  "surplus max_revisions t r \<longleftrightarrow> \<not> r_is_deleted r \<and>
     int (length (filter (\<lambda>i. same_slot i r \<and> \<not> r_is_deleted i \<and> r_updated_time r \<le> r_updated_time i) t)) > max_revisions"

text \<open>The number of rows the update reports is left out.\<close>

definition my_trim_old_revisions :: "mysql \<Rightarrow> i32 \<Rightarrow> files \<Rightarrow> unit sres \<times> files" where
  "my_trim_old_revisions my max_revisions t =
     (let hit = (\<lambda>f. list_ex (\<lambda>x. surplus max_revisions t x \<and> same_slot f x \<and> r_file_id f = r_file_id x \<and>
                    r_revision f = r_revision x) t)
      in case stmt my 0 ''Failed to trim old revisions: '' (Ok ()) of
           Inl e \<Rightarrow> (Err e, t)
         | Inr _ \<Rightarrow> (Ok (), mark_deleted hit t))"

section \<open>Contents and keys\<close>

text \<open>
  The tables \<^verbatim>\<open>file_data\<close> and \<^verbatim>\<open>encryption_keys\<close>, as rows of key and value; the time columns
  are never read.  Both are written by a lookup followed by an update or an insert.
\<close>

definition upsert :: "'k \<Rightarrow> 'v \<Rightarrow> ('k \<times> 'v) list \<Rightarrow> ('k \<times> 'v) list" where
  "upsert k v t =
     (if find (\<lambda>(k', _). k' = k) t \<noteq> None then map (\<lambda>(k', v'). if k' = k then (k', v) else (k', v')) t else t @ [(k, v)])"

definition my_store_file_data ::
  "mysql \<Rightarrow> u64 \<Rightarrow> bytes \<Rightarrow> (u64 \<times> bytes) list \<Rightarrow> unit sres \<times> (u64 \<times> bytes) list" where
  "my_store_file_data my file_id b t =
     (case stmt my 0 [] (stmt my 1 [] (Ok ())) of Inl e \<Rightarrow> (Err e, t) | Inr _ \<Rightarrow> (Ok (), upsert file_id b t))"

definition my_get_file_data :: "mysql \<Rightarrow> u64 \<Rightarrow> (u64 \<times> bytes) list \<Rightarrow> bytes option sres" where
  "my_get_file_data my file_id t =
     stmt my 0 [] (Ok (map_option snd (find (\<lambda>(k, _). uint k = as_i64 file_id) t)))"

definition my_store_encryption_key ::
  "mysql \<Rightarrow> string \<Rightarrow> string \<Rightarrow> (string \<times> string) list \<Rightarrow> unit sres \<times> (string \<times> string) list" where
  "my_store_encryption_key my account_hash encryption_key t =
     (case stmt my 0 [] (stmt my 1 [] (Ok ())) of
        Inl e \<Rightarrow> (Err e, t) | Inr _ \<Rightarrow> (Ok (), upsert account_hash encryption_key t))"

definition my_get_encryption_key :: "mysql \<Rightarrow> string \<Rightarrow> (string \<times> string) list \<Rightarrow> string option sres" where
  "my_get_encryption_key my account_hash t =
     stmt my 0 [] (Ok (map_option snd (find (\<lambda>(k, _). k = account_hash) t)))"

end
