(* ===== verification/Mysql_Correct.thy ===== *)
theory Mysql_Correct
  imports Mysql_Files Memory_Behaviour
begin

text \<open>
  Properties of the table \<^verbatim>\<open>files\<close>: at most one active row per file as long as paths are stored
  in plain text, reading back what was stored, deletion and retention, and what goes wrong with
  encrypted paths and with restored versions.
\<close>

section \<open>Marking rows and active rows\<close>

definition active :: "files \<Rightarrow> files" where
  "active t = filter (\<lambda>r. \<not> r_is_deleted r) t"

definition slot :: "file_row \<Rightarrow> string \<times> bytes \<times> bytes \<times> i32" where
  "slot r = (r_account_hash r, r_file_path r, r_filename r, r_server_group_id r)"

lemma active_Nil [simp]: "active [] = []"
  by (simp add: active_def)

lemma active_Cons [simp]: "active (r # t) = (if r_is_deleted r then active t else r # active t)"
  by (simp add: active_def)

lemma active_append [simp]: "active (s @ t) = active s @ active t"
  by (simp add: active_def)

lemma active_mark_deleted: "active (mark_deleted P t) = filter (\<lambda>r. \<not> P r) (active t)"
  unfolding active_def mark_deleted_def by (induction t) simp_all

lemma active_update_row: "active (map (update_row fi) t) = map (update_row fi) (active t)"
  unfolding active_def by (induction t) (simp_all add: update_row_def)

lemma active_overwrite:
  assumes "\<And>r. r_is_deleted (f r)"
  shows "active (map (\<lambda>r. if r_file_id r = k then f r else r) s) = filter (\<lambda>r. r_file_id r \<noteq> k) (active s)"
  using assms by (induction s) simp_all

lemma slot_update_row [simp]: "slot (update_row fi r) = slot r"
  by (simp add: slot_def update_row_def)

definition one_active :: "files \<Rightarrow> bool" where
  "one_active t \<longleftrightarrow> distinct (map slot (active t))"

lemma one_active_filter: "one_active t \<Longrightarrow> active t' = filter P (active t) \<Longrightarrow> one_active t'"
  by (simp add: one_active_def distinct_map_filter)

lemma one_active_mark: "one_active t \<Longrightarrow> one_active (mark_deleted P t)"
  by (erule one_active_filter) (rule active_mark_deleted)

lemma same_file_slot: "same_file fi r \<longleftrightarrow>
    slot r = (fi_account_hash fi, as_bytes (fi_file_path fi), as_bytes (fi_filename fi), fi_group_id fi)"
  by (auto simp: same_file_def slot_def)

lemma one_active_eq:
  assumes "one_active t" "r \<in> set (active t)" "r' \<in> set (active t)" "slot r = slot r'"
  shows "r = r'"
  using assms unfolding one_active_def distinct_map by (meson inj_onD)

section \<open>Statements without errors\<close>

definition no_faults :: "mysql \<Rightarrow> bool" where
  "no_faults my \<longleftrightarrow> (\<forall>n. my_fault my n = None)"

lemma stmt_ok [simp]: "no_faults my \<Longrightarrow> stmt my n msg k = k"
  by (simp add: stmt_def no_faults_def)

lemma stmt_Ok_iff: "stmt my n msg k = Ok x \<longleftrightarrow> my_fault my n = None \<and> k = Ok x"
  by (simp add: stmt_def split: option.split)

lemma in_transaction_cases:
  assumes "in_transaction t r = (q, t')"
  obtains (Done) x where "r = Ok (x, t')" "q = Ok x" | (Back) e where "q = Err e" "t' = t"
  using assms by (auto simp: in_transaction_def split: sum.splits prod.splits)

lemma find_active: "find (\<lambda>r. P r \<and> \<not> r_is_deleted r) t = find P (active t)"
  unfolding active_def by (induction t) simp_all

text \<open>What a call that inserts leaves: the old table, or the new row after the marked old ones.\<close>

definition superseded :: "file_info \<Rightarrow> files \<Rightarrow> files" where
  "superseded fi t = (case find (same_file fi) (active t) of
     Some r0 \<Rightarrow> mark_deleted (\<lambda>r. r_file_id r = r_file_id r0) t | None \<Rightarrow> t)"

lemma store_file_info_cases:
  assumes "my_store_file_info my fi t = Some (q, t')"
  obtains (Same) "t' = t"
    | (Update) "t' = map (update_row fi) t"
    | (Insert) pb nb where "encode_names my fi = Some (pb, nb)"
        "t' = superseded fi t @ [new_row my fi pb nb (wrap_i64 (max_revision (filter (same_file fi) t) + 1))]"
  using assms
  by (auto simp: my_store_file_info_def Let_def superseded_def find_active in_transaction_def stmt_Ok_iff
      split: option.splits sum.splits prod.splits if_splits bind_splits)

lemma active_superseded:
  assumes "one_active t"
  shows "active (superseded fi t) = filter (\<lambda>r. find (same_file fi) (active t) = None \<or>
      r_file_id r \<noteq> r_file_id (the (find (same_file fi) (active t)))) (active t)"
    and "r \<in> set (active (superseded fi t)) \<Longrightarrow> \<not> same_file fi r"
proof -
  show eq: "active (superseded fi t) = filter (\<lambda>r. find (same_file fi) (active t) = None \<or>
      r_file_id r \<noteq> r_file_id (the (find (same_file fi) (active t)))) (active t)"
    by (simp add: superseded_def active_mark_deleted split: option.split)
  assume r: "r \<in> set (active (superseded fi t))"
  show "\<not> same_file fi r"
  proof
    assume same: "same_file fi r"
    have act: "r \<in> set (active t)" using r eq by simp
    then obtain r0 where r0: "find (same_file fi) (active t) = Some r0"
      using same by (metis find_None_iff option.exhaust)
    then have "r0 \<in> set (active t)" "same_file fi r0" by (auto simp: find_Some_iff)
    then have "r = r0" using one_active_eq [OF assms act] same by (simp add: same_file_slot)
    with r eq r0 show False by simp
  qed
qed

section \<open>One active row per file\<close>

text \<open>
  The steps of a server that stores paths in plain text: any upload, deletion or retention run,
  with any errors of the database, and any change of the scan order.
\<close>

inductive my_step :: "files \<Rightarrow> files \<Rightarrow> bool" where
  my_store: "my_key my = None \<Longrightarrow> my_store_file_info my fi t = Some (q, t') \<Longrightarrow> my_step t t'"
| my_delete: "my_delete_file my acct i t = (u, t') \<Longrightarrow> my_step t t'"
| my_purge: "my_purge_deleted_files_older_than my ttl t = (n, t') \<Longrightarrow> my_step t t'"
| my_trim: "my_trim_old_revisions my m t = (u, t') \<Longrightarrow> my_step t t'"
| my_reorder: "mset t = mset t' \<Longrightarrow> my_step t t'"

lemma one_active_store:
  assumes "one_active t" "my_key my = None" "my_store_file_info my fi t = Some (q, t')"
  shows "one_active t'"
  using assms(3)
proof (cases rule: store_file_info_cases)
  case Same
  then show ?thesis using assms(1) by simp
next
  case Update
  then show ?thesis using assms(1) by (simp add: one_active_def active_update_row comp_def)
next
  case (Insert pb nb)
  have names: "pb = as_bytes (fi_file_path fi)" "nb = as_bytes (fi_filename fi)"
    using Insert(1) assms(2) by (simp_all add: encode_names_def)
  have "same_file fi r \<longleftrightarrow> slot r = slot (new_row my fi pb nb n)" for r n
    by (simp add: same_file_slot names) (simp add: slot_def new_row_def)
  then have new: "slot (new_row my fi pb nb n) \<notin> slot ` set (active (superseded fi t))" for n
    using active_superseded(2) [OF assms(1), of _ fi] by (metis image_iff)
  have "one_active (superseded fi t)" using one_active_filter [OF assms(1) active_superseded(1) [OF assms(1)]] .
  then show ?thesis using new unfolding Insert(2) one_active_def
    by (simp add: active_def)
qed

lemma one_active_delete:
  assumes "one_active t" "my_delete_file my acct i t = (u, t')"
  shows "one_active t'"
proof -
  from assms(2) show ?thesis
    unfolding my_delete_file_def
  proof (cases rule: in_transaction_cases)
    case (Done x)
    then have "\<exists>P. active t' = filter P (active t)"
      by (auto simp: stmt_Ok_iff Let_def active_overwrite tombstone_def active_mark_deleted filter_filter
          split: option.splits sum.splits)
    then show ?thesis using one_active_filter [OF assms(1)] by blast
  next
    case (Back e)
    then show ?thesis using assms(1) by simp
  qed
qed

lemma one_active_step:
  assumes "one_active t" "my_step t t'"
  shows "one_active t'"
  using assms(2)
proof (cases rule: my_step.cases)
  case (my_store my fi q)
  then show ?thesis using one_active_store [OF assms(1)] by blast
next
  case (my_delete my acct i u)
  then show ?thesis using one_active_delete [OF assms(1)] by blast
next
  case (my_purge my ttl n)
  have "active (filter P t) = filter P (active t)" for P by (induction t) simp_all
  with my_purge assms(1) show ?thesis
    by (auto simp: my_purge_deleted_files_older_than_def Let_def split: sum.splits elim: one_active_filter)
next
  case (my_trim my m u)
  then show ?thesis using assms(1) by (auto simp: my_trim_old_revisions_def Let_def one_active_mark split: sum.splits)
next
  case my_reorder
  then have "mset (map slot (active t)) = mset (map slot (active t'))" by (simp add: active_def)
  then show ?thesis using assms(1) unfolding one_active_def by (metis mset_eq_imp_distinct_iff)
qed

interpretation plain_files: invariant_system "[] :: files" my_step one_active
  by unfold_locales (simp_all add: one_active_def [of "[]"] one_active_step)

text \<open>
  C8: on a server that stores paths in plain text, whatever is uploaded, deleted, purged or
  trimmed, and whatever statements fail, there is at most one active row for each account,
  path, name and server group.
\<close>
theorem mysql_one_active:
  assumes "reach [] my_step t"
  shows "distinct (map slot (active t))"
  using plain_files.reach_inv [OF assms] by (simp add: one_active_def)

text \<open>A cipher with a fixed tag, for examples.\<close>

definition sealed_lib :: crypto_lib where
  "sealed_lib = sample_lib\<lparr>cl_gcm_encrypt := (\<lambda>k n p a. Some (p @ replicate 16 0)),
     cl_gcm_decrypt := (\<lambda>k n c a. Some (take (length c - 16) c))\<rparr>"

definition sample_my :: "bytes option \<Rightarrow> mysql" where
  "sample_my key = \<lparr>my_fault = (\<lambda>_. None), my_range_error = ''range'',
     my_u64_of_bigint = (\<lambda>n. if 0 \<le> n then Some (word_of_int n) else None),
     my_text_of_varbinary = (\<lambda>b. Ok (map (\<lambda>w. char_of (unat w)) b)), my_crypto = sealed_lib,
     my_unicode_lower = id, my_server_encode_key = key, my_nonces = (replicate 12 1, replicate 12 2),
     my_random_id = 99, my_now = 5, my_chrono = sample_chrono\<rparr>"

definition sample_upload_info :: "u64 \<Rightarrow> file_info" where
  "sample_upload_info i = \<lparr>fi_file_id = i, fi_filename = ''f.txt'', fi_file_hash = ''h'', fi_device_hash = ''d'',
     fi_group_id = 1, fi_watcher_id = 2, fi_is_encrypted = False, fi_file_path = ''~/docs'',
     fi_updated_time = \<lparr>ts_seconds = 7, ts_nanos = 0\<rparr>, fi_revision = 0, fi_account_hash = ''a'', fi_size = 3,
     fi_key_id = None\<rparr>"

lemma sample_my_simps [simp]:
  "no_faults (sample_my k)" "my_key (sample_my None) = None"
  by (simp_all add: no_faults_def sample_my_def my_key_def)

theorem mysql_one_active_witness:
  "\<exists>t. my_store_file_info (sample_my None) (sample_upload_info 3) [] = Some (Ok 3, t) \<and> distinct (map slot (active t))"
proof -
  obtain t where t: "my_store_file_info (sample_my None) (sample_upload_info 3) [] = Some (Ok 3, t)"
    by (simp add: my_store_file_info_def encode_names_def in_transaction_def as_i64_def sample_upload_info_def Let_def)
  have "reach [] my_step t" using reach_init my_store [OF _ t] by (rule reach_step) simp
  with t mysql_one_active show ?thesis by blast
qed

section \<open>Reading back what was stored\<close>

lemma decrypt_encode_names:
  assumes law: "\<And>k n p a c. cl_gcm_encrypt (my_crypto my) k n p a = Some c \<Longrightarrow> cl_gcm_decrypt (my_crypto my) k n c a = Some p"
    and nonces: "length (fst (my_nonces my)) = 12" "length (snd (my_nonces my)) = 12"
    and enc: "encode_names my fi = Some (pb, nb)"
    and utf8: "is_utf8 (fi_file_path fi)" "is_utf8 (fi_filename fi)"
  shows "decrypt_text my (fi_account_hash fi) (fi_group_id fi) (fi_watcher_id fi) pb = fi_file_path fi \<and>
    decrypt_text my (fi_account_hash fi) (fi_group_id fi) (fi_watcher_id fi) nb = fi_filename fi"
proof (cases "my_key my")
  case None
  then show ?thesis using enc utf8 by (auto simp: encode_names_def decrypt_text_def is_utf8_def)
next
  case (Some key)
  let ?aad = "row_aad (fi_account_hash fi) (fi_group_id fi) (fi_watcher_id fi)"
  have "aead_encrypt (my_crypto my) (fst (my_nonces my)) key (as_bytes (fi_file_path fi)) ?aad = Some pb"
    "aead_encrypt (my_crypto my) (snd (my_nonces my)) key (as_bytes (fi_filename fi)) ?aad = Some nb"
    using enc Some by (auto simp: encode_names_def Let_def split: bind_splits)
  from aead_decrypt_encrypt [OF law this(1) nonces(1)] aead_decrypt_encrypt [OF law this(2) nonces(2)] Some
  show ?thesis using utf8 by (simp add: decrypt_text_def is_utf8_def)
qed

text \<open>What the database keeps of an uploaded record.\<close>

definition kept :: "mysql \<Rightarrow> i64 \<Rightarrow> file_info \<Rightarrow> file_info" where
  "kept my n fi = fi\<lparr>fi_revision := n, fi_is_encrypted := False,
     fi_updated_time := \<lparr>ts_seconds = ts_seconds (fi_updated_time fi), ts_nanos = 0\<rparr>,
     fi_size := (case my_u64_of_bigint my (as_i64 (fi_size fi)) of Some v \<Rightarrow> v | None \<Rightarrow> 0)\<rparr>"

lemma file_info_of_new_row:
  assumes "\<And>k n p a c. cl_gcm_encrypt (my_crypto my) k n p a = Some c \<Longrightarrow> cl_gcm_decrypt (my_crypto my) k n c a = Some p"
    and "length (fst (my_nonces my)) = 12" "length (snd (my_nonces my)) = 12"
    and "encode_names my fi = Some (pb, nb)" "is_utf8 (fi_file_path fi)" "is_utf8 (fi_filename fi)"
  shows "file_info_of_row my (new_row my fi pb nb n) = kept my n fi"
  using decrypt_encode_names [OF assms] by (simp add: file_info_of_row_def new_row_def kept_def)

lemma store_new_file:
  assumes "no_faults my" "0 \<le> as_i64 (fi_file_id fi)" "find (\<lambda>r. r_file_id r = fi_file_id fi) (active t) = None"
    and "encode_names my fi = Some (pb, nb)"
  shows "my_store_file_info my fi t = Some (Ok (fi_file_id fi),
    superseded fi t @ [new_row my fi pb nb (wrap_i64 (max_revision (filter (same_file fi) t) + 1))])"
  using assms by (simp add: my_store_file_info_def find_active superseded_def in_transaction_def Let_def)

lemma max_revision_upper: "r \<in> set rs \<Longrightarrow> r_revision r \<le> max_revision rs"
  by (cases rs) (auto simp: max_revision_def simp flip: Max.set_eq_fold)

lemma max_revision_in: "rs \<noteq> [] \<Longrightarrow> \<exists>r \<in> set rs. max_revision rs = r_revision r"
proof (cases rs)
  case (Cons r rs')
  have "Max (set (map r_revision rs)) \<in> set (map r_revision rs)" using Cons by (intro Max_in) auto
  then show ?thesis using Cons by (auto simp: max_revision_def simp flip: Max.set_eq_fold)
qed simp

text \<open>
  C7: uploading a file under a new identifier, in plain text or encrypted, when no statement fails, at most one row of each
  file is active and the stored revisions are in range, returns that identifier,
  and the record read back under it is the uploaded one, path and name included, with the revision
  the database assigned, the time cut to seconds, the encryption flag cleared and the size as the driver reads the signed
  column as an unsigned number (zero when it refuses to).  The revision is larger than that of every earlier row of
  the same plain path and name, and without a server key the new row is the only active one of the file.
\<close>
theorem mysql_store_then_get:
  assumes ok: "no_faults my" "0 \<le> as_i64 (fi_file_id fi)" "find (\<lambda>r. r_file_id r = fi_file_id fi) (active t) = None"
    and enc: "encode_names my fi = Some (pb, nb)"
    and law: "\<And>k n p a c. cl_gcm_encrypt (my_crypto my) k n p a = Some c \<Longrightarrow> cl_gcm_decrypt (my_crypto my) k n c a = Some p"
      "length (fst (my_nonces my)) = 12" "length (snd (my_nonces my)) = 12"
      "is_utf8 (fi_file_path fi)" "is_utf8 (fi_filename fi)"
    and rev: "\<forall>r \<in> set t. 0 \<le> r_revision r \<and> r_revision r < 2 ^ 63 - 1"
    and one: "distinct (map slot (active t))"
  shows "\<exists>n t'. my_store_file_info my fi t = Some (Ok (fi_file_id fi), t') \<and>
    my_get_file_info my (fi_file_id fi) t' = Ok (Some (kept my n fi)) \<and>
    (\<forall>r \<in> set t. same_file fi r \<longrightarrow> r_revision r < n) \<and>
    (my_key my = None \<longrightarrow> (\<exists>r. filter (same_file fi) (active t') = [r] \<and> file_info_of_row my r = kept my n fi))"
proof -
  let ?n = "wrap_i64 (max_revision (filter (same_file fi) t) + 1)"
  let ?row = "new_row my fi pb nb ?n" and ?t = "superseded fi t @ [new_row my fi pb nb ?n]"
  have row: "file_info_of_row my ?row = kept my ?n fi" by (rule file_info_of_new_row [OF law(1-3) enc law(4,5)])
  have one': "one_active t" using one by (simp add: one_active_def)
  have "find (\<lambda>r. r_file_id r = fi_file_id fi) (active (superseded fi t)) = None"
    using ok(3) unfolding active_superseded(1) [OF one'] by (auto simp: find_None_iff)
  then have get: "my_get_file_info my (fi_file_id fi) ?t = Ok (Some (kept my ?n fi))"
    using ok(1) row by (simp add: my_get_file_info_def find_active find_append new_row_def)
  have max: "-1 < max_revision (filter (same_file fi) t) + 1 \<and> max_revision (filter (same_file fi) t) + 1 < 2 ^ 63"
    using rev max_revision_in [of "filter (same_file fi) t"]
    by (cases "filter (same_file fi) t = []") (auto simp: max_revision_def)
  then have n: "?n = max_revision (filter (same_file fi) t) + 1" by (intro wrap_i64_id) (simp add: in_i64_def)
  have later: "\<forall>r \<in> set t. same_file fi r \<longrightarrow> r_revision r < ?n"
    unfolding n using max_revision_upper [of _ "filter (same_file fi) t"] by fastforce
  have "filter (same_file fi) (active ?t) = [?row]" if "my_key my = None"
  proof -
    have "same_file fi ?row" using enc that by (auto simp: encode_names_def same_file_def new_row_def)
    moreover have "filter (same_file fi) (active (superseded fi t)) = []"
      using active_superseded(2) [OF one', of _ fi] by (simp add: filter_empty_conv)
    ultimately show ?thesis by (simp add: new_row_def)
  qed
  with store_new_file [OF ok enc] get later row show ?thesis
    by - (rule exI [of _ ?n], rule exI [of _ ?t], blast)
qed

lemma sealed_law:
  "cl_gcm_encrypt (my_crypto (sample_my key)) k n p a = Some c \<Longrightarrow> cl_gcm_decrypt (my_crypto (sample_my key)) k n c a = Some p"
  by (auto simp: sample_my_def sealed_lib_def)

lemma ascii_char_byte:
  assumes "is_ascii c"
  shows "char_of (unat (of_char c :: 8 word)) = c" "(of_char c :: 8 word) < 0x80"
proof -
  have lt: "of_char c < (128 :: nat)" using assms by (simp add: is_ascii_def)
  moreover have "unat (of_nat n :: 8 word) = n" if "n < 128" for n
    using that by (simp add: unat_of_nat take_bit_nat_eq_self)
  ultimately have u: "unat (of_char c :: 8 word) = of_char c" by (metis of_nat_of_char)
  then show "char_of (unat (of_char c :: 8 word)) = c" "(of_char c :: 8 word) < 0x80"
    using lt by (simp_all add: word_less_nat_alt)
qed

lemma is_utf8_ascii: "list_all is_ascii s \<Longrightarrow> is_utf8 s"
  by (induction s) (simp_all add: is_utf8_def as_bytes_def utf8_next_def ascii_char_byte)

lemma sample_my_facts:
  "length (fst (my_nonces (sample_my key))) = 12" "length (snd (my_nonces (sample_my key))) = 12"
  "is_utf8 (fi_file_path (sample_upload_info i))" "is_utf8 (fi_filename (sample_upload_info i))"
  by (simp_all add: sample_my_def sample_upload_info_def is_utf8_ascii is_ascii_def as_i64_def)

theorem mysql_store_then_get_witness:
  "\<exists>n t'. my_store_file_info (sample_my None) (sample_upload_info 3) [] = Some (Ok 3, t') \<and>
     my_get_file_info (sample_my None) 3 t' = Ok (Some (kept (sample_my None) n (sample_upload_info 3)))"
proof -
  have enc: "encode_names (sample_my None) (sample_upload_info 3) =
      Some (as_bytes (fi_file_path (sample_upload_info 3)), as_bytes (fi_filename (sample_upload_info 3)))"
    by (simp add: encode_names_def)
  have i: "fi_file_id (sample_upload_info 3) = 3" "0 \<le> as_i64 (fi_file_id (sample_upload_info 3))"
    by (simp_all add: sample_upload_info_def as_i64_def)
  from mysql_store_then_get [OF _ i(2) _ enc sealed_law sample_my_facts, of "[]"] show ?thesis
    unfolding i(1) by (simp, blast)
qed

section \<open>Encrypted paths\<close>

lemma aead_encrypt_length:
  assumes "\<And>k n p a c. cl_gcm_encrypt cl k n p a = Some c \<Longrightarrow> length c = length p + 16"
    and "aead_encrypt cl nonce key pt aad = Some b"
  shows "length pt < length b"
  using assms by (auto simp: aead_encrypt_def split: option.splits)

lemma encoded_row_differs:
  assumes "\<And>k n p a c. cl_gcm_encrypt (my_crypto my) k n p a = Some c \<Longrightarrow> length c = length p + 16"
    and "my_key my = Some key" "encode_names my fi = Some (pb, nb)" "fi_file_path fi' = fi_file_path fi"
  shows "\<not> same_file fi' (new_row my fi pb nb n)"
proof -
  have "aead_encrypt (my_crypto my) (fst (my_nonces my)) key (as_bytes (fi_file_path fi))
      (row_aad (fi_account_hash fi) (fi_group_id fi) (fi_watcher_id fi)) = Some pb"
    using assms(2,3) by (auto simp: encode_names_def Let_def split: bind_splits)
  from aead_encrypt_length [OF assms(1) this] show ?thesis
    by (auto simp: same_file_def new_row_def assms(4))
qed

text \<open>
  With a server key, the search for earlier versions compares the plain path with the
  stored ciphertext, which is longer, so it never finds any: two uploads of the same file give two
  active rows, both with revision 1.
\<close>
theorem mysql_encrypted_versions_unlinked:
  assumes len: "\<And>k n p a c. cl_gcm_encrypt (my_crypto my) k n p a = Some c \<Longrightarrow> length c = length p + 16"
    and key: "my_key my = Some key" "no_faults my" "no_faults my'"
    and enc: "encode_names my fi \<noteq> None" "encode_names my' fi' \<noteq> None"
    and ids: "0 \<le> as_i64 (fi_file_id fi)" "0 \<le> as_i64 (fi_file_id fi')" "fi_file_id fi' \<noteq> fi_file_id fi"
    and same: "fi_file_path fi' = fi_file_path fi"
  shows "\<exists>t1 t2. my_store_file_info my fi [] = Some (Ok (fi_file_id fi), t1) \<and>
    my_store_file_info my' fi' t1 = Some (Ok (fi_file_id fi'), t2) \<and>
    map (\<lambda>r. (r_file_id r, r_revision r, r_is_deleted r)) t2 =
      [(fi_file_id fi, 1, False), (fi_file_id fi', 1, False)]"
proof -
  obtain pb nb pb' nb' where e: "encode_names my fi = Some (pb, nb)" "encode_names my' fi' = Some (pb', nb')"
    using enc by auto
  have one: "wrap_i64 1 = 1" by (simp add: wrap_i64_def)
  let ?r = "new_row my fi pb nb 1"
  have t1: "my_store_file_info my fi [] = Some (Ok (fi_file_id fi), [?r])"
    using store_new_file [OF key(2) ids(1) _ e(1), of "[]"] by (simp add: superseded_def max_revision_def one)
  have other: "\<not> same_file fi' ?r" by (rule encoded_row_differs [OF len key(1) e(1) same])
  have "my_store_file_info my' fi' [?r] = Some (Ok (fi_file_id fi'), [?r, new_row my' fi' pb' nb' 1])"
    using store_new_file [OF key(3) ids(2) _ e(2), of "[?r]"] ids(3) other
    by (simp add: superseded_def max_revision_def one active_def) (simp add: new_row_def)
  with t1 show ?thesis by (simp add: new_row_def)
qed

theorem mysql_encrypted_versions_unlinked_witness:
  "\<exists>t1 t2. my_store_file_info (sample_my (Some (replicate 32 7))) (sample_upload_info 3) [] = Some (Ok 3, t1) \<and>
     my_store_file_info (sample_my (Some (replicate 32 7))) (sample_upload_info 4) t1 = Some (Ok 4, t2) \<and>
     map (\<lambda>r. (r_file_id r, r_revision r, r_is_deleted r)) t2 = [(3, 1, False), (4, 1, False)]"
proof -
  let ?my = "sample_my (Some (replicate 32 7))"
  have len: "cl_gcm_encrypt (my_crypto ?my) k n p a = Some c \<Longrightarrow> length c = length p + 16" for k n p a c
    by (auto simp: sample_my_def sealed_lib_def)
  have key: "my_key ?my = Some (replicate 32 7)" by (simp add: my_key_def sample_my_def)
  have enc: "encode_names ?my fi \<noteq> None" for fi
    by (simp add: encode_names_def key aead_encrypt_def Let_def) (simp add: sample_my_def sealed_lib_def)
  show ?thesis
    using mysql_encrypted_versions_unlinked [OF len key, where my' = ?my and fi = "sample_upload_info 3" and
        fi' = "sample_upload_info 4"] enc
    by (simp add: sample_upload_info_def as_i64_def)
qed

section \<open>Deletion\<close>

text \<open>What the driver makes of a binary column when it reads it as text at all: the bytes of the column.\<close>

definition text_is_bytes :: "mysql \<Rightarrow> bool" where
  "text_is_bytes my \<longleftrightarrow> (\<forall>b s. my_text_of_varbinary my b = Ok s \<longrightarrow> as_bytes s = b)"

text \<open>The rows a deletion makes inactive.\<close>

definition deleted_with :: "mysql \<Rightarrow> string \<Rightarrow> u64 \<Rightarrow> file_row \<Rightarrow> file_row \<Rightarrow> bool" where
  "deleted_with my acct i r0 r \<longleftrightarrow> r_file_id r = i \<or> r_file_id r = my_random_id my \<or>
     r_account_hash r = acct \<and> r_file_path r = r_file_path r0 \<and> r_filename r = r_filename r0 \<and> r_group_id r = r_group_id r0"

lemma delete_success:
  assumes "text_is_bytes my" "my_delete_file my acct i t = (Ok (), t')"
  shows "\<exists>r0. find (\<lambda>r. r_file_id r = i \<and> r_account_hash r = acct) t = Some r0 \<and>
    active t' = filter (\<lambda>r. \<not> deleted_with my acct i r0 r) (active t) \<and> length t' = length t + 1 \<and>
    (\<exists>r \<in> set t'. r_is_deleted r \<and> r_account_hash r = acct \<and> r_file_path r = r_file_path r0 \<and>
       r_filename r = r_filename r0 \<and> r_revision r = wrap_i64 (r_revision r0 + 1))"
proof -
  obtain r0 p q where r0: "find (\<lambda>r. r_file_id r = i \<and> r_account_hash r = acct) t = Some r0"
    and pq: "my_text_of_varbinary my (r_file_path r0) = Ok p" "my_text_of_varbinary my (r_filename r0) = Ok q"
    using assms(2) by (auto simp: my_delete_file_def in_transaction_def stmt_def split: option.splits sum.splits prod.splits)
  have bytes: "as_bytes p = r_file_path r0" "as_bytes q = r_filename r0" using assms(1) pq by (auto simp: text_is_bytes_def)
  let ?del = "\<lambda>r. r\<lparr>r_is_deleted := True, r_revision := wrap_i64 (r_revision r0 + 1), r_created_time := my_now_secs my,
      r_updated_time := my_now_secs my, r_group_id := r_group_id r0, r_watcher_id := r_watcher_id r0\<rparr>"
  let ?t2 = "mark_deleted (\<lambda>r. r_account_hash r = acct \<and> r_file_path r = r_file_path r0 \<and> r_filename r = r_filename r0 \<and>
      r_group_id r = r_group_id r0) (mark_deleted (\<lambda>r. r_file_id r = i) t)"
  let ?ow = "\<lambda>r. if r_file_id r = my_random_id my then ?del r else r"
  let ?tomb = "tombstone my acct (r_device_hash r0) p q"
  have t': "t' = map ?ow (?t2 @ [?tomb])"
    using assms(2) pq r0 bytes by (auto simp: my_delete_file_def in_transaction_def Let_def stmt_def split: option.splits)
  have tomb: "?ow ?tomb = ?del ?tomb" by (simp add: tombstone_def)
  have "active t' = filter (\<lambda>r. \<not> deleted_with my acct i r0 r) (active t)"
    unfolding t' map_append active_append list.map tomb
    by (simp add: active_overwrite active_mark_deleted filter_filter deleted_with_def, rule filter_cong) auto
  moreover have "?del ?tomb \<in> set t'" using tomb by (simp add: t')
  then have "\<exists>r \<in> set t'. r_is_deleted r \<and> r_account_hash r = acct \<and> r_file_path r = r_file_path r0 \<and>
      r_filename r = r_filename r0 \<and> r_revision r = wrap_i64 (r_revision r0 + 1)"
    by (rule rev_bexI) (simp add: tombstone_def bytes)
  moreover have "length t' = length t + 1" by (simp add: t' mark_deleted_def)
  ultimately show ?thesis using r0 by blast
qed

text \<open>
  C18: deleting a file is all or nothing, whichever statements fail and whatever the driver makes of the binary columns that it
  is asked for as text.  An error leaves the table as it was.  A success
  has made exactly the rows with the identifier, and the other
  rows of the account with the same path, name and group, inactive (and a row that happens to have
  the random identifier of the new one), so that no active row has the identifier, and has added one row that records the
  deletion with the next revision.  A file the account does not have is never a success, and a file whose path or
  name the driver does not read as text, as it documents for binary columns, is never deleted; when it reads them and no statement fails, the
  deletion succeeds.
\<close>
theorem mysql_delete_file_spec:
  fixes i :: u64 and acct :: string and t :: files
  assumes "text_is_bytes my"
  defines "found \<equiv> find (\<lambda>r. r_file_id r = i \<and> r_account_hash r = acct) t"
    and "text \<equiv> (\<lambda>r. \<not> isl (my_text_of_varbinary my (r_file_path r)) \<and> \<not> isl (my_text_of_varbinary my (r_filename r)))"
  shows "(case my_delete_file my acct i t of
       (Inl e, t') \<Rightarrow> t' = t
     | (Inr _, t') \<Rightarrow> \<exists>r0. found = Some r0 \<and> text r0 \<and>
         active t' = filter (\<lambda>r. \<not> deleted_with my acct i r0 r) (active t) \<and>
         (\<forall>r \<in> set (active t'). r_file_id r \<noteq> i) \<and> length t' = length t + 1 \<and>
         (\<exists>r \<in> set t'. r_is_deleted r \<and> r_account_hash r = acct \<and> r_file_path r = r_file_path r0 \<and>
            r_filename r = r_filename r0 \<and> r_revision r = wrap_i64 (r_revision r0 + 1))) \<and>
    (no_faults my \<longrightarrow>
       (case found of
          None \<Rightarrow> my_delete_file my acct i t = (Err (SE_NotFound (msg_not_found @ show_u64 i)), t)
        | Some r0 \<Rightarrow> text r0 \<longrightarrow> fst (my_delete_file my acct i t) = Ok ()))"
proof -
  obtain x t' where run: "my_delete_file my acct i t = (x, t')" by fastforce
  have fail: "t' = t" if "x = Inl e" for e
    using run that by (auto simp: my_delete_file_def in_transaction_def split: sum.splits)
  have ok: "\<exists>r0. found = Some r0 \<and> text r0 \<and>
      active t' = filter (\<lambda>r. \<not> deleted_with my acct i r0 r) (active t) \<and>
      (\<forall>r \<in> set (active t'). r_file_id r \<noteq> i) \<and> length t' = length t + 1 \<and>
      (\<exists>r \<in> set t'. r_is_deleted r \<and> r_account_hash r = acct \<and> r_file_path r = r_file_path r0 \<and>
         r_filename r = r_filename r0 \<and> r_revision r = wrap_i64 (r_revision r0 + 1))" if "x = Inr ()"
  proof -
    note run' = run [unfolded that]
    from delete_success [OF assms(1) run'] obtain r0 where r0: "found = Some r0"
      "active t' = filter (\<lambda>r. \<not> deleted_with my acct i r0 r) (active t)" "length t' = length t + 1"
      "\<exists>r \<in> set t'. r_is_deleted r \<and> r_account_hash r = acct \<and> r_file_path r = r_file_path r0 \<and>
         r_filename r = r_filename r0 \<and> r_revision r = wrap_i64 (r_revision r0 + 1)"
      unfolding found_def by blast
    have "text r0" using run' r0(1) unfolding found_def text_def
      by (auto simp: my_delete_file_def in_transaction_def stmt_def split: option.splits sum.splits prod.splits)
    moreover have "\<forall>r \<in> set (active t'). r_file_id r \<noteq> i" unfolding r0(2) by (simp add: deleted_with_def)
    ultimately show ?thesis using r0 by blast
  qed
  have live: "case found of None \<Rightarrow> my_delete_file my acct i t = (Err (SE_NotFound (msg_not_found @ show_u64 i)), t)
      | Some r0 \<Rightarrow> text r0 \<longrightarrow> fst (my_delete_file my acct i t) = Ok ()" if "no_faults my"
    using that unfolding found_def text_def
    by (auto simp: my_delete_file_def in_transaction_def Let_def split: option.split sum.split)
  show ?thesis using fail ok live by (auto simp: run split: sum.split)
qed

lemma bytes_of_chars: "as_bytes (map (\<lambda>w :: 8 word. char_of (unat w)) ws) = ws"
proof -
  have "(of_char (char_of (unat w) :: char) :: 8 word) = w" for w :: "8 word"
  proof -
    have small: "unat w < 2 ^ LENGTH(8)" by (rule unsigned_less)
    have "(of_char (char_of (unat w) :: char) :: 8 word) = of_nat (of_char (char_of (unat w) :: char))"
      by (simp only: of_nat_of_char)
    also have "of_char (char_of (unat w) :: char) = unat w mod 256" by (rule of_char_of)
    finally show ?thesis using small by simp
  qed
  then show ?thesis by (simp add: as_bytes_def comp_def)
qed

lemma sample_text: "text_is_bytes (sample_my k)" "\<not> isl (my_text_of_varbinary (sample_my k) b)"
  using bytes_of_chars by (auto simp: text_is_bytes_def sample_my_def)

lemma sample_row_stored:
  "my_store_file_info (sample_my None) (sample_upload_info 3) [] =
     Some (Ok 3, [new_row (sample_my None) (sample_upload_info 3) (as_bytes ''~/docs'') (as_bytes ''f.txt'') 1])"
proof -
  have "encode_names (sample_my None) (sample_upload_info 3) = Some (as_bytes ''~/docs'', as_bytes ''f.txt'')"
    by (simp add: encode_names_def sample_upload_info_def)
  from store_new_file [OF _ _ _ this, of "[]"] show ?thesis
    by (simp add: superseded_def max_revision_def wrap_i64_def sample_upload_info_def as_i64_def)
qed

theorem mysql_delete_file_spec_witness:
  "\<exists>t t'. my_store_file_info (sample_my None) (sample_upload_info 3) [] = Some (Ok 3, t) \<and>
     my_delete_file (sample_my None) ''a'' 3 t = (Ok (), t') \<and> active t' = []"
proof -
  let ?my = "sample_my None" and ?fi = "sample_upload_info 3"
  let ?r = "new_row ?my ?fi (as_bytes ''~/docs'') (as_bytes ''f.txt'') 1"
  have r: "find (\<lambda>r. r_file_id r = 3 \<and> r_account_hash r = ''a'') [?r] = Some ?r"
    by (simp add: new_row_def sample_upload_info_def)
  note spec = mysql_delete_file_spec [OF sample_text(1), where k1 = None and i = 3 and acct = "''a''" and t = "[?r]"]
  have "fst (my_delete_file ?my ''a'' 3 [?r]) = Ok ()" using spec r sample_text(2) by simp
  then obtain t' where t': "my_delete_file ?my ''a'' 3 [?r] = (Ok (), t')" by (metis prod.collapse)
  then have "active t' = []" using spec r by (auto simp: deleted_with_def active_def new_row_def sample_upload_info_def split: if_splits)
  with t' sample_row_stored show ?thesis by blast
qed

section \<open>Retention\<close>

text \<open>
  After trimming with a limit, no account, path and server group has more active rows than the
  limit, and trimming never makes a deleted row active or changes anything else of a row.
\<close>
theorem mysql_trim_bounds:
  assumes "my_trim_old_revisions my m t = (Ok (), t')" "0 \<le> m"
  shows "int (length (filter (\<lambda>r. same_slot r x) (active t'))) \<le> m \<and>
    (\<exists>P. active t' = filter P (active t) \<and> t' = mark_deleted (\<lambda>r. \<not> P r) t)"
proof -
  define hit where "hit = (\<lambda>f. list_ex (\<lambda>x. surplus m t x \<and> same_slot f x \<and> r_file_id f = r_file_id x \<and>
      r_revision f = r_revision x) t)"
  have t': "t' = mark_deleted hit t"
    using assms(1) by (auto simp: my_trim_old_revisions_def Let_def hit_def split: sum.splits)
  let ?s = "filter (\<lambda>r. same_slot r x) (active t')"
  have act: "active t' = filter (\<lambda>r. \<not> hit r) (active t)" by (simp add: t' active_mark_deleted)
  have s: "?s = filter (\<lambda>i. \<not> r_is_deleted i \<and> \<not> hit i \<and> same_slot i x) t"
    unfolding act by (simp add: active_def conj_ac)
  have "int (length ?s) \<le> m"
  proof (cases "?s = []")
    case True
    then show ?thesis using assms(2) by simp
  next
    case False
    then have "set ?s \<noteq> {}" by (metis set_empty)
    then have "Min (r_updated_time ` set ?s) \<in> r_updated_time ` set ?s" by (intro Min_in) blast+
    then obtain r where r: "r \<in> set ?s" and min: "\<forall>i \<in> set ?s. r_updated_time r \<le> r_updated_time i"
      by (metis (no_types, lifting) List.finite_set Min_le finite_imageI imageE imageI)
    then have rt: "r \<in> set t" "\<not> r_is_deleted r" "\<not> hit r" "same_slot r x" unfolding s by auto
    then have few: "\<not> surplus m t r" by (auto simp: hit_def list_ex_iff same_slot_def)
    let ?c = "filter (\<lambda>i. same_slot i r \<and> \<not> r_is_deleted i \<and> r_updated_time r \<le> r_updated_time i) t"
    have "?s = filter (\<lambda>i. \<not> hit i \<and> same_slot i x) ?c"
      using min rt(4) unfolding s by (auto simp: filter_filter same_slot_def intro!: filter_cong)
    then have "length ?s \<le> length ?c" by (metis length_filter_le)
    then show ?thesis using few rt(2) by (simp add: surplus_def)
  qed
  moreover have "\<exists>P. active t' = filter P (active t) \<and> t' = mark_deleted (\<lambda>r. \<not> P r) t"
    using act t' by (intro exI [of _ "\<lambda>r. \<not> hit r"]) simp
  ultimately show ?thesis by blast
qed

theorem mysql_trim_bounds_witness:
  "\<exists>t t' x. my_store_file_info (sample_my None) (sample_upload_info 3) [] = Some (Ok 3, t) \<and>
     my_trim_old_revisions (sample_my None) 1 t = (Ok (), t') \<and>
     int (length (filter (\<lambda>r. same_slot r x) (active t'))) \<le> 1"
proof -
  let ?t = "[new_row (sample_my None) (sample_upload_info 3) (as_bytes ''~/docs'') (as_bytes ''f.txt'') 1]"
  obtain t' where t': "my_trim_old_revisions (sample_my None) 1 ?t = (Ok (), t')"
    by (simp add: my_trim_old_revisions_def Let_def)
  from mysql_trim_bounds [OF t'] t' sample_row_stored show ?thesis by auto
qed

section \<open>Restored versions\<close>

lemma my_store_file_appends:
  assumes "my_store_file my f t = (Ok (), t')"
  obtains row where "t' = t @ [row]" "r_file_id row = sf_file_id f" "r_revision row = sf_revision f"
    "r_is_deleted row = sf_is_deleted f" "r_account_hash row = sf_user_id f"
    "r_file_path row = as_bytes (sf_file_path f)" "r_group_id row = sf_group_id f" "my_fault my 0 = None"
  using assms by (auto simp: my_store_file_def Let_def stmt_Ok_iff split: sum.splits)

text \<open>
  Storing a restored version adds a second active row under the identifier of the file and
  leaves the old one active, so the current record of the file is still the old one.
\<close>
theorem mysql_restored_not_current:
  assumes "my_get_file_info my i t = Ok (Some fi)" "my_store_file my f t = (Ok (), t')"
    and "sf_file_id f = i" "\<not> sf_is_deleted f"
  shows "my_get_file_info my i t' = Ok (Some fi) \<and>
    (\<exists>row. active t' = active t @ [row] \<and> r_file_id row = i \<and> r_revision row = sf_revision f)"
proof -
  obtain row where row: "t' = t @ [row]" "r_file_id row = i" "r_revision row = sf_revision f" "\<not> r_is_deleted row"
    using assms(2-) by (auto elim: my_store_file_appends)
  have "my_get_file_info my i t' = Ok (Some fi)"
    using assms(1) unfolding row(1) by (auto simp: my_get_file_info_def stmt_Ok_iff find_append)
  then show ?thesis using row by simp
qed

theorem mysql_restored_not_current_witness:
  "\<exists>t t' f fi. my_store_file_info (sample_my None) (sample_upload_info 3) [] = Some (Ok 3, t) \<and>
     my_get_file_by_revision (sample_my None) ''a'' 3 1 t = Ok f \<and>
     my_store_file (sample_my None) (f\<lparr>sf_revision := 2\<rparr>) t = (Ok (), t') \<and>
     my_get_file_info (sample_my None) 3 t' = Ok (Some fi) \<and> fi_revision fi = 1"
proof -
  let ?my = "sample_my None"
  let ?r = "new_row ?my (sample_upload_info 3) (as_bytes ''~/docs'') (as_bytes ''f.txt'') 1"
  have i: "r_file_id ?r = 3" "\<not> r_is_deleted ?r" "r_account_hash ?r = ''a''" "r_revision ?r = 1"
    by (simp_all add: new_row_def sample_upload_info_def)
  have get: "my_get_file_info ?my 3 [?r] = Ok (Some (file_info_of_row ?my ?r))"
    using i by (simp add: my_get_file_info_def)
  have f: "my_get_file_by_revision ?my ''a'' 3 1 [?r] = Ok (sync_file_of_row ?my ?r)"
    using i by (simp add: my_get_file_by_revision_def as_i64_def)
  obtain t' where t': "my_store_file ?my ((sync_file_of_row ?my ?r)\<lparr>sf_revision := 2\<rparr>) [?r] = (Ok (), t')"
    by (simp add: my_store_file_def Let_def)
  have "sf_file_id ((sync_file_of_row ?my ?r)\<lparr>sf_revision := 2\<rparr>) = 3"
    "\<not> sf_is_deleted ((sync_file_of_row ?my ?r)\<lparr>sf_revision := 2\<rparr>)"
    using i by (simp_all add: sync_file_of_row_def Let_def)
  from mysql_restored_not_current [OF get t' this] sample_row_stored f t' i
  have "my_get_file_info ?my 3 t' = Ok (Some (file_info_of_row ?my ?r)) \<and> fi_revision (file_info_of_row ?my ?r) = 1"
    by (simp add: file_info_of_row_def)
  with sample_row_stored f t' show ?thesis by blast
qed

section \<open>Contents and keys\<close>

definition row_value :: "('k \<times> 'v) list \<Rightarrow> 'k \<Rightarrow> 'v option" where
  "row_value t k = map_option snd (find (\<lambda>(k', _). k' = k) t)"

lemma row_value_map_of: "row_value t k = map_of t k"
  unfolding row_value_def by (induction t) auto

lemma map_of_overwrite:
  "map_of (map (\<lambda>(k', v'). if k' = k then (k', v) else (k', v')) t) j =
     (if j = k then map_option (\<lambda>_. v) (map_of t k) else map_of t j)"
  by (induction t) auto

lemma find_key: "find (\<lambda>(k', _). k' = k) t \<noteq> None \<longleftrightarrow> map_of t k \<noteq> None"
  by (induction t) auto

lemma row_value_upsert: "row_value (upsert k v t) j = (if j = k then Some v else row_value t j)"
  unfolding row_value_map_of upsert_def find_key
  by (auto simp: map_of_overwrite map_add_def split: option.split)

interpretation my_rows: kv_store "\<lambda>(k, v) t. upsert k v t" row_value fst snd
  by unfold_locales (simp add: row_value_upsert case_prod_beta)

lemma my_encryption_key_roundtrip:
  "no_faults my \<Longrightarrow> my_get_encryption_key my acct (snd (my_store_encryption_key my acct k t)) = Ok (Some k)"
  using my_rows.get_put_same [of "(acct, k)" t]
  by (simp add: my_get_encryption_key_def my_store_encryption_key_def row_value_def)

end
