(* ===== verification/Version_Service.thy ===== *)
theory Version_Service
  imports File_Handlers Mysql_Correct
begin

text \<open>
  File versions: \<^verbatim>\<open>src/services/version_service.rs\<close> and the handlers of
  \<^verbatim>\<open>src/handlers/sync_handler.rs\<close>.  The version methods of the \<^verbatim>\<open>Storage\<close> trait are a
  parameter of the service, a record of functions on the state \<open>'v\<close> of the storage that holds the
  version rows; their contract is a locale, interpreted on the in-memory storage, whose version
  methods are stubs, and on the MySQL storage.
\<close>

section \<open>The version methods of the storage\<close>

record 'v version_store =
  vs_history :: "string \<Rightarrow> string \<Rightarrow> i32 \<Rightarrow> 'v \<Rightarrow> sync_file list sres"
  vs_by_revision :: "string \<Rightarrow> u64 \<Rightarrow> i64 \<Rightarrow> 'v \<Rightarrow> sync_file sres"
  vs_versions_by_id :: "string \<Rightarrow> u64 \<Rightarrow> 'v \<Rightarrow> sync_file list sres"
  vs_store :: "sync_file \<Rightarrow> 'v \<Rightarrow> unit sres \<times> 'v"

definition memory_versions :: "storage_data version_store" where
  "memory_versions = \<lparr>vs_history = ms_get_file_history, vs_by_revision = ms_get_file_by_revision,
     vs_versions_by_id = ms_get_file_versions_by_id, vs_store = ms_store_file\<rparr>"

definition mysql_versions :: "mysql \<Rightarrow> files version_store" where
  "mysql_versions my = \<lparr>vs_history = my_get_file_history my, vs_by_revision = my_get_file_by_revision my,
     vs_versions_by_id = my_get_file_versions_by_id my, vs_store = my_store_file my\<rparr>"

section \<open>Messages\<close>

record history_request =
  hq_account_hash :: string
  hq_auth_token :: string
  hq_file_path :: string
  hq_start_time :: "timestamp option"
  hq_end_time :: "timestamp option"
  hq_max_versions :: "i32 option"
  hq_group_id :: i32

record version_info =
  vi_file_id :: u64
  vi_revision :: i64
  vi_filename :: string
  vi_file_path :: string
  vi_file_hash :: string
  vi_created_time :: "timestamp option"
  vi_device_hash :: string
  vi_group_id :: i32
  vi_watcher_id :: i32
  vi_file_size :: u64
  vi_change_description :: string
  vi_is_deleted :: bool

record history_response =
  hr_success :: bool
  hr_return_message :: string
  hr_versions :: "version_info list"
  hr_total_versions :: i32
  hr_has_more :: bool

record restore_request =
  rq_account_hash :: string
  rq_device_hash :: string
  rq_auth_token :: string
  rq_file_id :: u64
  rq_target_revision :: i64
  rq_broadcast_to_all_devices :: bool
  rq_restore_reason :: string

record restore_response =
  rr_success :: bool
  rr_return_message :: string
  rr_new_revision :: i64
  rr_restored_file_info :: "p_file_info option"
  rr_notified_devices :: i32

record broadcast_request =
  bq_account_hash :: string
  bq_source_device_hash :: string
  bq_auth_token :: string
  bq_file_id :: u64
  bq_restored_revision :: i64
  bq_new_revision :: i64
  bq_file_info :: "p_file_info option"
  bq_restore_reason :: string

record broadcast_response =
  br_success :: bool
  br_return_message :: string
  br_notified_device_hashes :: "string list"
  br_total_notified :: i32

section \<open>Conversions and filters\<close>

text \<open>\<^verbatim>\<open>v as u64\<close> for a signed \<open>v\<close>.\<close>

definition as_u64 :: "i64 \<Rightarrow> u64" where
  "as_u64 v = word_of_int v"

definition sync_file_to_version_info :: "chrono \<Rightarrow> sync_file \<Rightarrow> string option \<Rightarrow> version_info" where
  "sync_file_to_version_info ch f change_description =
     \<lparr>vi_file_id = sf_file_id f, vi_revision = sf_revision f, vi_filename = sf_filename f,
      vi_file_path = sf_file_path f, vi_file_hash = sf_file_hash f,
      vi_created_time = Some (datetime_to_timestamp ch (sf_upload_time f)), vi_device_hash = sf_device_hash f,
      vi_group_id = sf_group_id f, vi_watcher_id = sf_watcher_id f, vi_file_size = as_u64 (sf_file_size f),
      vi_change_description = (case change_description of Some d \<Rightarrow> d | None \<Rightarrow> ''''),
      vi_is_deleted = sf_is_deleted f\<rparr>"

definition sync_file_to_file_info :: "chrono \<Rightarrow> sync_file \<Rightarrow> p_file_info" where
  "sync_file_to_file_info ch f =
     \<lparr>pf_file_id = sf_file_id f, pf_filename = sf_filename f, pf_file_hash = sf_file_hash f,
      pf_updated_time = Some (datetime_to_timestamp ch (sf_last_updated f)), pf_device_hash = sf_device_hash f,
      pf_group_id = sf_group_id f, pf_watcher_id = sf_watcher_id f, pf_is_encrypted = sf_is_encrypted f,
      pf_file_path = sf_file_path f, pf_revision = sf_revision f, pf_file_size = as_u64 (sf_file_size f)\<rparr>"

definition sync_file_to_file_info_model :: "chrono \<Rightarrow> sync_file \<Rightarrow> file_info" where
  "sync_file_to_file_info_model ch f =
     \<lparr>fi_file_id = sf_file_id f, fi_filename = sf_filename f, fi_file_hash = sf_file_hash f,
      fi_device_hash = sf_device_hash f, fi_group_id = sf_group_id f, fi_watcher_id = sf_watcher_id f,
      fi_is_encrypted = sf_is_encrypted f, fi_file_path = sf_file_path f,
      fi_updated_time = datetime_to_timestamp ch (sf_last_updated f), fi_revision = sf_revision f,
      fi_account_hash = sf_user_id f, fi_size = as_u64 (sf_file_size f), fi_key_id = None\<rparr>"

definition in_range :: "chrono \<Rightarrow> datetime \<Rightarrow> history_request \<Rightarrow> sync_file \<Rightarrow> bool" where
  "in_range ch now req f \<longleftrightarrow>
     (case hq_start_time req of Some t \<Rightarrow> timestamp_to_datetime ch now t \<le> sf_upload_time f | None \<Rightarrow> True) \<and>
     (case hq_end_time req of Some t \<Rightarrow> sf_upload_time f \<le> timestamp_to_datetime ch now t | None \<Rightarrow> True)"

definition apply_history_filters :: "chrono \<Rightarrow> datetime \<Rightarrow> history_request \<Rightarrow> sync_file list \<Rightarrow> sync_file list" where
  "apply_history_filters ch now req fs =
     (let sorted_files = order_desc sf_revision (filter (in_range ch now req) fs)
      in case hq_max_versions req of
           Some max_versions \<Rightarrow> if max_versions > 0 then take (nat max_versions) sorted_files else sorted_files
         | None \<Rightarrow> take 50 sorted_files)"

section \<open>The service\<close>

definition vsv_get_file_history ::
  "'v version_store \<Rightarrow> chrono \<Rightarrow> datetime \<Rightarrow> history_request \<Rightarrow> 'v \<Rightarrow> (sync_error, history_response) result" where
  "vsv_get_file_history vs ch now req v =
     (if hq_account_hash req = [] \<or> hq_file_path req = [] then
        Ok \<lparr>hr_success = False, hr_return_message = ''Account hash and file path are required'', hr_versions = [],
            hr_total_versions = 0, hr_has_more = False\<rparr>
      else case vs_history vs (hq_account_hash req) (hq_file_path req) (hq_group_id req) v of
        Inl e \<Rightarrow> Err (Storage (''Failed to get file history: '' @ storage_error_display e))
      | Inr fs \<Rightarrow>
          (let total_before_filter = wrap_i32 (int (length fs));
               shown = apply_history_filters ch now req fs;
               has_more = (int (length shown) < total_before_filter mod 2 ^ 64)
           in Ok \<lparr>hr_success = True, hr_return_message = ''Found '' @ show_int (int (length shown)) @ '' versions'',
                  hr_versions = map (\<lambda>f. sync_file_to_version_info ch f None) shown,
                  hr_total_versions = total_before_filter, hr_has_more = has_more\<rparr>))"

definition vsv_broadcast_file_restore :: "broadcast_request \<Rightarrow> storage_data \<Rightarrow> (sync_error, broadcast_response) result" where
  "vsv_broadcast_file_restore req s =
     (case ms_get_devices_for_account (bq_account_hash req) s of
        Inl e \<Rightarrow> Err (Storage (''Failed to get devices: '' @ storage_error_display e))
      | Inr devices \<Rightarrow>
          (let hashes = map d_device_hash (filter (\<lambda>d. d_device_hash d \<noteq> bq_source_device_hash req) devices);
               total_notified = wrap_i32 (int (length hashes))
           in Ok \<lparr>br_success = True, br_return_message = ''Notified '' @ show_int total_notified @ '' devices'',
                  br_notified_device_hashes = hashes, br_total_notified = total_notified\<rparr>))"

definition max_sync_revision :: "sync_file list \<Rightarrow> i64" where
  "max_sync_revision fs = (case fs of [] \<Rightarrow> 0 | f # fs' \<Rightarrow> fold max (map sf_revision fs') (sf_revision f))"

text \<open>The restored version before it is stored.\<close>

definition restored_version :: "datetime \<Rightarrow> restore_request \<Rightarrow> i64 \<Rightarrow> sync_file \<Rightarrow> sync_file" where
  "restored_version now req new_revision target_file =
     target_file\<lparr>sf_revision := new_revision, sf_device_hash := rq_device_hash req, sf_upload_time := now,
       sf_last_updated := now, sf_is_deleted := False\<rparr>"

definition restore_failure :: "string \<Rightarrow> restore_response" where
  "restore_failure msg = \<lparr>rr_success = False, rr_return_message = msg, rr_new_revision = 0,
     rr_restored_file_info = None, rr_notified_devices = 0\<rparr>"

definition vsv_restore_file_version ::
  "'v version_store \<Rightarrow> 'x sys \<Rightarrow> restore_request \<Rightarrow> 'v \<Rightarrow> 'x app \<Rightarrow>
     ((sync_error, restore_response) result \<times> 'v \<times> 'x app) option" where
  "vsv_restore_file_version vs sys req v a =
     (if rq_account_hash req = [] \<or> rq_file_id req = 0
      then Some (Ok (restore_failure ''Account hash and file ID are required''), v, a)
      else case vs_by_revision vs (rq_account_hash req) (rq_file_id req) (rq_target_revision req) v of
        Inl e \<Rightarrow> Some (Err (Storage (''Failed to get file version: '' @ storage_error_display e)), v, a)
      | Inr target_file \<Rightarrow>
          (case vs_history vs (rq_account_hash req) (sf_file_path target_file) (sf_group_id target_file) v of
             Inl e \<Rightarrow> Some (Err (Storage (''Failed to get current file versions: '' @ storage_error_display e)), v, a)
           | Inr current_files \<Rightarrow>
               (let new_revision = wrap_i64 (max_sync_revision current_files + 1);
                    restored_file = restored_version (sy_now sys) req new_revision target_file;
                    source_info = sync_file_to_file_info_model (sy_chrono sys) target_file;
                    target_info = sync_file_to_file_info_model (sy_chrono sys) restored_file
                in case fs_restore_file_version sys source_info target_info a of
                     (Inl e, a1) \<Rightarrow> Some (Err (Storage (''Failed to restore file data: '' @ storage_error_display e)), v, a1)
                   | (Inr _, a1) \<Rightarrow>
                       (case vs_store vs restored_file v of
                          (Inl e, v1) \<Rightarrow> Some (Err (Storage (''Failed to store restored file version: '' @
                                            storage_error_display e)), v1, a1)
                        | (Inr _, v1) \<Rightarrow> do {
                            a2 \<leftarrow> fs_send_file_restore_notification sys target_info a1;
                            let info = sync_file_to_file_info (sy_chrono sys) restored_file;
                            let notified = (if rq_broadcast_to_all_devices req then
                                  (case vsv_broadcast_file_restore \<lparr>bq_account_hash = rq_account_hash req,
                                       bq_source_device_hash = rq_device_hash req, bq_auth_token = rq_auth_token req,
                                       bq_file_id = rq_file_id req, bq_restored_revision = rq_target_revision req,
                                       bq_new_revision = new_revision, bq_file_info = Some info,
                                       bq_restore_reason = rq_restore_reason req\<rparr> (ap_storage a2) of
                                     Inr r \<Rightarrow> br_total_notified r | Inl _ \<Rightarrow> 0)
                                 else 0);
                            Some (Ok \<lparr>rr_success = True,
                              rr_return_message = ''File restored to revision '' @ show_int new_revision,
                              rr_new_revision = new_revision, rr_restored_file_info = Some info,
                              rr_notified_devices = notified\<rparr>, v1, a2)
                          }))))"

definition vsv_get_file_versions ::
  "'v version_store \<Rightarrow> chrono \<Rightarrow> string \<Rightarrow> u64 \<Rightarrow> 'v \<Rightarrow> (sync_error, version_info list) result" where
  "vsv_get_file_versions vs ch account_hash file_id v =
     (case vs_versions_by_id vs account_hash file_id v of
        Inl e \<Rightarrow> Err (Storage (''Failed to get file versions: '' @ storage_error_display e))
      | Inr fs \<Rightarrow> Ok (map (\<lambda>f. sync_file_to_version_info ch f None) fs))"

definition vsv_create_file_version ::
  "'v version_store \<Rightarrow> sync_file \<Rightarrow> string option \<Rightarrow> 'v \<Rightarrow> (sync_error, i64) result \<times> 'v" where
  "vsv_create_file_version vs f change_description v =
     (case vs_store vs f v of
        (Inl e, v') \<Rightarrow> (Err (Storage (''Failed to create file version: '' @ storage_error_display e)), v')
      | (Inr _, v') \<Rightarrow> (Ok (sf_revision f), v'))"

section \<open>The sync handlers\<close>

text \<open>The common start of the handlers; \<open>fail\<close> builds the response for a refused request.\<close>

definition with_sync_auth ::
  "'x sys \<Rightarrow> string \<Rightarrow> string \<Rightarrow> (string \<Rightarrow> 'r) \<Rightarrow> ('v \<Rightarrow> 'x app \<Rightarrow> ('r \<times> 'v \<times> 'x app) option) \<Rightarrow>
     'v \<Rightarrow> 'x app \<Rightarrow> ((status, 'r) result \<times> 'v \<times> 'x app) option" where
  "with_sync_auth sys token account_hash fail body v a =
     (if token = [] then Some (Err (mk_status C_Unauthenticated ''Authentication token is required''), v, a)
      else case verify_token (sy_auth sys) (sy_now sys) token (ap_storage a) of
        None \<Rightarrow> None
      | Some (Inl _, s) \<Rightarrow> Some (Ok (fail ''Authentication failed''), v, a\<lparr>ap_storage := s\<rparr>)
      | Some (Inr r, s) \<Rightarrow>
          (if \<not> vr_valid r \<or> vr_account_hash r \<noteq> account_hash
           then Some (Ok (fail ''Account authentication failed''), v, a\<lparr>ap_storage := s\<rparr>)
           else do {
             (resp, v', a') \<leftarrow> body v (a\<lparr>ap_storage := s\<rparr>);
             Some (Ok resp, v', a')
           }))"

definition history_failure :: "string \<Rightarrow> history_response" where
  "history_failure msg = \<lparr>hr_success = False, hr_return_message = msg, hr_versions = [], hr_total_versions = 0,
     hr_has_more = False\<rparr>"

definition broadcast_failure :: "string \<Rightarrow> broadcast_response" where
  "broadcast_failure msg = \<lparr>br_success = False, br_return_message = msg, br_notified_device_hashes = [],
     br_total_notified = 0\<rparr>"

record key_response =
  kr_success :: bool
  kr_encryption_key :: string
  kr_return_message :: string

definition sh_request_encryption_key ::
  "'x sys \<Rightarrow> (nat \<Rightarrow> char) \<Rightarrow> string \<Rightarrow> string \<Rightarrow> 'x app \<Rightarrow> ((status, key_response) result \<times> unit \<times> 'x app) option" where
  "sh_request_encryption_key sys sample token account_hash a =
     with_sync_auth sys token account_hash
       (\<lambda>msg. \<lparr>kr_success = False, kr_encryption_key = [], kr_return_message = msg\<rparr>)
       (\<lambda>v a1. case es_get_or_create_key sample account_hash (ap_storage a1) of
          (Inr key, s) \<Rightarrow> Some (\<lparr>kr_success = True, kr_encryption_key = key, kr_return_message = []\<rparr>, v, a1\<lparr>ap_storage := s\<rparr>)
        | (Inl e, s) \<Rightarrow> Some (\<lparr>kr_success = False, kr_encryption_key = [],
            kr_return_message = ''Encryption key processing error: '' @ storage_error_display e\<rparr>, v, a1\<lparr>ap_storage := s\<rparr>))
       () a"

definition sh_get_file_history ::
  "'v version_store \<Rightarrow> 'x sys \<Rightarrow> history_request \<Rightarrow> 'v \<Rightarrow> 'x app \<Rightarrow>
     ((status, history_response) result \<times> 'v \<times> 'x app) option" where
  "sh_get_file_history vs sys req v a =
     with_sync_auth sys (hq_auth_token req) (hq_account_hash req) history_failure
       (\<lambda>v1 a1. Some (case vsv_get_file_history vs (sy_chrono sys) (sy_now sys) req v1 of
            Inr r \<Rightarrow> r
          | Inl e \<Rightarrow> history_failure (''Failed to get file history: '' @ sync_error_display e), v1, a1))
       v a"

definition sh_restore_file_version ::
  "'v version_store \<Rightarrow> 'x sys \<Rightarrow> restore_request \<Rightarrow> 'v \<Rightarrow> 'x app \<Rightarrow>
     ((status, restore_response) result \<times> 'v \<times> 'x app) option" where
  "sh_restore_file_version vs sys req v a =
     with_sync_auth sys (rq_auth_token req) (rq_account_hash req) restore_failure
       (\<lambda>v1 a1. do {
          (r, v2, a2) \<leftarrow> vsv_restore_file_version vs sys req v1 a1;
          Some (case r of Inr resp \<Rightarrow> resp
                | Inl e \<Rightarrow> restore_failure (''Failed to restore file version: '' @ sync_error_display e), v2, a2)
        })
       v a"

definition sh_broadcast_file_restore ::
  "'x sys \<Rightarrow> broadcast_request \<Rightarrow> 'x app \<Rightarrow> ((status, broadcast_response) result \<times> unit \<times> 'x app) option" where
  "sh_broadcast_file_restore sys req a =
     with_sync_auth sys (bq_auth_token req) (bq_account_hash req) broadcast_failure
       (\<lambda>v a1. Some (case vsv_broadcast_file_restore req (ap_storage a1) of
            Inr r \<Rightarrow> (r, v, publish (''version.restored.'' @ bq_account_hash req @ ''.'' @ show_u64 (bq_file_id req))
                        ''version_restored'' (bq_file_id req) (bq_new_revision req) a1)
          | Inl e \<Rightarrow> (broadcast_failure (''Failed to broadcast file restore: '' @ sync_error_display e), v, a1)))
       () a"

definition sh_health_check :: "string option \<Rightarrow> string \<times> string" where
  "sh_health_check pkg_version = (''SERVING'', case pkg_version of Some v \<Rightarrow> v | None \<Rightarrow> ''unknown'')"

section \<open>The contract of the version methods\<close>

text \<open>Answers belong to the question: every version returned is of the account, file or group asked for.\<close>

locale version_table =
  fixes history :: "string \<Rightarrow> string \<Rightarrow> i32 \<Rightarrow> 'v \<Rightarrow> sync_file list sres"
    and by_revision :: "string \<Rightarrow> u64 \<Rightarrow> i64 \<Rightarrow> 'v \<Rightarrow> sync_file sres"
    and store :: "sync_file \<Rightarrow> 'v \<Rightarrow> unit sres \<times> 'v"
  assumes history_sound: "history acct path gid v = Ok fs \<Longrightarrow> f \<in> set fs \<Longrightarrow> sf_user_id f = acct \<and> sf_group_id f = gid"
    and by_revision_sound: "by_revision acct i n v = Ok f \<Longrightarrow> sf_user_id f = acct \<and> sf_revision f = n"
begin

lemma restored_owner:
  "by_revision acct i n v = Ok f \<Longrightarrow> sf_user_id (restored_version now req m f) = acct"
  using by_revision_sound by (simp add: restored_version_def)

end

text \<open>A table that records what is stored: it appears in the history of its path, which only grows.\<close>

locale recording_table = version_table +
  assumes store_recorded: "store f v = (Ok (), v') \<Longrightarrow> history (sf_user_id f) (sf_file_path f) (sf_group_id f) v = Ok fs \<Longrightarrow>
      \<exists>fs'. history (sf_user_id f) (sf_file_path f) (sf_group_id f) v' = Ok fs' \<and>
        sf_revision ` set fs' = insert (sf_revision f) (sf_revision ` set fs)"
begin

lemma restore_newest:
  assumes "store f v = (Ok (), v')" "history (sf_user_id f) (sf_file_path f) (sf_group_id f) v = Ok fs"
    and "\<forall>g \<in> set fs. sf_revision g < sf_revision f"
  shows "\<exists>fs'. history (sf_user_id f) (sf_file_path f) (sf_group_id f) v' = Ok fs' \<and>
    Max (sf_revision ` set fs') = sf_revision f"
proof -
  obtain fs' where fs': "history (sf_user_id f) (sf_file_path f) (sf_group_id f) v' = Ok fs'"
    "sf_revision ` set fs' = insert (sf_revision f) (sf_revision ` set fs)"
    using store_recorded [OF assms(1,2)] by blast
  have "Max (insert (sf_revision f) (sf_revision ` set fs)) = sf_revision f"
    using assms(3) by (intro Max_eqI) (auto simp: less_imp_le)
  with fs' show ?thesis by auto
qed

end

interpretation memory_versions: version_table ms_get_file_history ms_get_file_by_revision ms_store_file
  by unfold_locales (simp_all add: ms_get_file_history_def ms_get_file_by_revision_def)

lemma set_order_desc [simp]: "set (order_desc f xs) = set xs"
  by (simp add: order_desc_def)

interpretation mysql_versions: recording_table "my_get_file_history my" "my_get_file_by_revision my" "my_store_file my"
proof
  fix acct path gid v fs f
  assume "my_get_file_history my acct path gid v = Ok fs" "f \<in> set fs"
  then show "sf_user_id f = acct \<and> sf_group_id f = gid"
    by (auto simp: my_get_file_history_def stmt_Ok_iff sync_file_of_row_def Let_def)
next
  fix acct i n v f
  assume "my_get_file_by_revision my acct i n v = Ok f"
  then show "sf_user_id f = acct \<and> sf_revision f = n"
    by (auto simp: my_get_file_by_revision_def stmt_Ok_iff sync_file_of_row_def Let_def find_Some_iff split: option.splits)
next
  fix f v v' fs
  assume st: "my_store_file my f v = (Ok (), v')"
    and "my_get_file_history my (sf_user_id f) (sf_file_path f) (sf_group_id f) v = Ok fs"
  then have fs: "fs = map (sync_file_of_row my) (order_desc r_revision (filter (\<lambda>r. r_account_hash r = sf_user_id f \<and>
      r_file_path r = as_bytes (sf_file_path f) \<and> r_group_id r = sf_group_id f) v))"
    by (simp add: my_get_file_history_def stmt_Ok_iff)
  have rev: "sf_revision (sync_file_of_row my r) = r_revision r" for r by (simp add: sync_file_of_row_def Let_def)
  from st obtain row where "v' = v @ [row]" "r_revision row = sf_revision f" "r_account_hash row = sf_user_id f"
    "r_file_path row = as_bytes (sf_file_path f)" "r_group_id row = sf_group_id f" "my_fault my 0 = None"
    by (rule my_store_file_appends)
  then show "\<exists>fs'. my_get_file_history my (sf_user_id f) (sf_file_path f) (sf_group_id f) v' = Ok fs' \<and>
      sf_revision ` set fs' = insert (sf_revision f) (sf_revision ` set fs)"
    by (auto simp: my_get_file_history_def stmt_def fs rev image_image)
qed

section \<open>History\<close>

lemma sorted_order_desc: "sorted_wrt (\<lambda>x y. f y \<le> f x) (order_desc f xs)"
proof -
  have "sorted (map (\<lambda>x. - f x) (order_desc f xs))" unfolding order_desc_def by (rule sorted_sort_key)
  then show ?thesis by (simp add: sorted_wrt_map)
qed

lemma length_order_desc [simp]: "length (order_desc f xs) = length xs"
  by (simp add: order_desc_def)

definition version_limit :: "history_request \<Rightarrow> nat option" where
  "version_limit req = (case hq_max_versions req of Some m \<Rightarrow> if m > 0 then Some (nat m) else None | None \<Rightarrow> Some 50)"

lemma apply_history_filters_eq:
  "apply_history_filters ch now req fs =
     (case version_limit req of Some n \<Rightarrow> take n (order_desc sf_revision (filter (in_range ch now req) fs))
                              | None \<Rightarrow> order_desc sf_revision (filter (in_range ch now req) fs))"
  by (auto simp: apply_history_filters_def version_limit_def Let_def split: option.split)

text \<open>Taking the front of a descending list leaves out only smaller elements.\<close>

lemma take_desc:
  assumes "sorted_wrt (\<lambda>x y. f y \<le> f x) xs" "x \<in> set xs" "x \<notin> set (take n xs)" "y \<in> set (take n xs)"
  shows "f x \<le> (f y :: int)"
proof -
  have "x \<in> set (drop n xs)" using assms(2,3) by (metis Un_iff append_take_drop_id set_append)
  moreover have "sorted_wrt (\<lambda>x y. f y \<le> f x) (take n xs @ drop n xs)" using assms(1) by simp
  ultimately show ?thesis using assms(4) unfolding sorted_wrt_append by blast
qed

lemma history_shown:
  fixes ch now req fs
  defines "shown \<equiv> apply_history_filters ch now req fs"
  shows "sorted_wrt (\<lambda>x y. sf_revision y \<le> sf_revision x) shown \<and>
    (\<forall>f \<in> set shown. f \<in> set fs \<and> in_range ch now req f) \<and>
    (\<forall>f \<in> set fs. in_range ch now req f \<longrightarrow> f \<in> set shown \<or> (\<forall>g \<in> set shown. sf_revision f \<le> sf_revision g)) \<and>
    length shown = (case version_limit req of Some n \<Rightarrow> min n (length (filter (in_range ch now req) fs))
                                            | None \<Rightarrow> length (filter (in_range ch now req) fs))"
proof -
  let ?l = "order_desc sf_revision (filter (in_range ch now req) fs)"
  have sorted: "sorted_wrt (\<lambda>x y. sf_revision y \<le> sf_revision x) ?l" by (rule sorted_order_desc)
  show ?thesis
  proof (cases "version_limit req")
    case None
    then show ?thesis using sorted by (simp add: shown_def apply_history_filters_eq)
  next
    case (Some n)
    have "\<forall>f \<in> set fs. in_range ch now req f \<longrightarrow> f \<in> set (take n ?l) \<or> (\<forall>g \<in> set (take n ?l). sf_revision f \<le> sf_revision g)"
      using take_desc [OF sorted, of _ n] by auto
    then show ?thesis using sorted Some
      by (auto simp: shown_def apply_history_filters_eq sorted_wrt_take min.commute dest: in_set_takeD)
  qed
qed

text \<open>
  For a request with an account and a path, the history contains only stored versions inside
  the requested time range, newest first; at most the requested number (50 by default, all of them
  for a number that is not positive), and what is left out is never newer than what is shown.  It
  says that there is more exactly when some stored version is not shown.
\<close>
theorem history_response_exact:
  assumes "hq_account_hash req \<noteq> []" "hq_file_path req \<noteq> []"
    and "vs_history vs (hq_account_hash req) (hq_file_path req) (hq_group_id req) v = Ok fs" "length fs < 2 ^ 31"
  shows "\<exists>shown r. vsv_get_file_history vs ch now req v = Ok r \<and> hr_success r \<and>
    hr_versions r = map (\<lambda>f. sync_file_to_version_info ch f None) shown \<and>
    sorted_wrt (\<lambda>x y. sf_revision y \<le> sf_revision x) shown \<and>
    (\<forall>f \<in> set shown. f \<in> set fs \<and> in_range ch now req f) \<and>
    (\<forall>f \<in> set fs. in_range ch now req f \<longrightarrow> f \<in> set shown \<or> (\<forall>g \<in> set shown. sf_revision f \<le> sf_revision g)) \<and>
    length shown = (case version_limit req of Some n \<Rightarrow> min n (length (filter (in_range ch now req) fs))
                                            | None \<Rightarrow> length (filter (in_range ch now req) fs)) \<and>
    (hr_has_more r \<longleftrightarrow> length shown < length fs)"
proof -
  let ?shown = "apply_history_filters ch now req fs"
  have "wrap_i32 (int (length fs)) = int (length fs)"
    using assms(4) by (intro wrap_i32_id) (simp add: in_i32_def)
  then have "\<exists>r. vsv_get_file_history vs ch now req v = Ok r \<and> hr_success r \<and>
      hr_versions r = map (\<lambda>f. sync_file_to_version_info ch f None) ?shown \<and> (hr_has_more r \<longleftrightarrow> length ?shown < length fs)"
    using assms by (simp add: vsv_get_file_history_def Let_def)
  with history_shown [of ch now req fs] show ?thesis by blast
qed

definition sample_history_request :: history_request where
  "sample_history_request = \<lparr>hq_account_hash = ''a'', hq_auth_token = ''tok'', hq_file_path = ''~/docs'',
     hq_start_time = None, hq_end_time = None, hq_max_versions = Some 1, hq_group_id = 1\<rparr>"

theorem history_response_exact_witness:
  "\<exists>t f fs r. my_store_file_info (sample_my None) (sample_upload_info 3) [] = Some (Ok 3, t) \<and>
     vs_history (mysql_versions (sample_my None)) ''a'' ''~/docs'' 1 t = Ok fs \<and>
     vsv_get_file_history (mysql_versions (sample_my None)) sample_chrono 5 sample_history_request t = Ok r \<and>
     hr_versions r = [f] \<and> \<not> hr_has_more r"
proof -
  let ?my = "sample_my None"
  let ?r = "new_row ?my (sample_upload_info 3) (as_bytes ''~/docs'') (as_bytes ''f.txt'') 1"
  have h: "vs_history (mysql_versions ?my) ''a'' ''~/docs'' 1 [?r] = Ok [sync_file_of_row ?my ?r]"
    by (simp add: mysql_versions_def my_get_file_history_def new_row_def sample_upload_info_def order_desc_def)
  have rng: "filter (in_range sample_chrono 5 sample_history_request) [sync_file_of_row ?my ?r] = [sync_file_of_row ?my ?r]"
    "version_limit sample_history_request = Some 1"
    by (simp_all add: in_range_def sample_history_request_def version_limit_def)
  have req: "hq_account_hash sample_history_request = ''a''" "hq_file_path sample_history_request = ''~/docs''"
    "hq_group_id sample_history_request = 1" by (simp_all add: sample_history_request_def)
  obtain shown r where "vsv_get_file_history (mysql_versions ?my) sample_chrono 5 sample_history_request [?r] = Ok r"
    "hr_versions r = map (\<lambda>f. sync_file_to_version_info sample_chrono f None) shown" "length shown = 1"
    "\<not> hr_has_more r"
    using history_response_exact [where req = sample_history_request and vs = "mysql_versions ?my" and v = "[?r]"
        and ch = sample_chrono and now = 5, unfolded req, OF _ _ h] unfolding rng by auto
  then show ?thesis using sample_row_stored h by (auto simp: length_Suc_conv)
qed

section \<open>Restoring a version\<close>

lemma max_sync_revision_upper: "f \<in> set fs \<Longrightarrow> sf_revision f \<le> max_sync_revision fs"
  by (cases fs) (auto simp: max_sync_revision_def simp flip: Max.set_eq_fold)

lemma max_sync_revision_bound:
  assumes "\<forall>f \<in> set fs. - (2 ^ 63) \<le> sf_revision f \<and> sf_revision f < 2 ^ 63 - 1"
  shows "in_i64 (max_sync_revision fs + 1)"
proof (cases fs)
  case (Cons f fs')
  have "Max (set (map sf_revision fs)) \<in> set (map sf_revision fs)" using Cons by (intro Max_in) auto
  then have "max_sync_revision fs \<in> sf_revision ` set fs"
    using Cons by (simp add: max_sync_revision_def flip: Max.set_eq_fold)
  with assms show ?thesis by (auto simp: in_i64_def)
qed (simp add: max_sync_revision_def in_i64_def)

text \<open>What a restoration that reports success did to the version rows.\<close>

lemma restore_success:
  assumes "vsv_restore_file_version vs sys req v a = Some (Ok r, v', a')" "rr_success r"
  obtains f fs where "vs_by_revision vs (rq_account_hash req) (rq_file_id req) (rq_target_revision req) v = Ok f"
    "vs_history vs (rq_account_hash req) (sf_file_path f) (sf_group_id f) v = Ok fs"
    "rr_new_revision r = wrap_i64 (max_sync_revision fs + 1)"
    "vs_store vs (restored_version (sy_now sys) req (rr_new_revision r) f) v = (Ok (), v')"
  using assms
  by (auto simp: vsv_restore_file_version_def restore_failure_def Let_def
      split: if_splits sum.splits prod.splits bind_splits)

lemma revision_row:
  assumes "my_get_file_by_revision my acct i n t = Ok f"
  shows "\<exists>row \<in> set t. r_file_id row = i \<and> r_account_hash row = acct \<and> r_revision row = n \<and> f = sync_file_of_row my row"
proof -
  have eq: "u = v" if "uint u = as_i64 v" for u v :: u64
  proof -
    have "(of_int (uint u) :: u64) = of_int (sint v)" by (simp only: that as_i64_def)
    then show ?thesis by simp
  qed
  show ?thesis using assms by (auto simp: my_get_file_by_revision_def stmt_Ok_iff find_Some_iff dest: eq split: option.splits if_splits)
qed

lemma history_rows:
  assumes "my_get_file_history my acct p gid t = Ok fs" "x \<in> set t" "r_account_hash x = acct" "r_file_path x = as_bytes p"
    "r_group_id x = gid"
  shows "sync_file_of_row my x \<in> set fs \<and> sf_revision (sync_file_of_row my x) = r_revision x"
  using assms by (auto simp: my_get_file_history_def stmt_Ok_iff order_desc_def sync_file_of_row_def Let_def)

text \<open>
  C19: over the MySQL storage, a restoration that reports success, with the stored revisions in range, gives the restored version a
  revision above every revision in the history of the path of the restored row, as the driver reads that binary column as text (the
  empty path when it refuses to), and afterwards this history has the
  version as its newest.  When the driver reads the column, the history is that of the rows of the account with the same
  path and group, so that the new revision is above all of theirs.
\<close>
theorem mysql_restore_newest:
  assumes "vsv_restore_file_version (mysql_versions my) sys req t a = Some (Ok r, t', a')" "rr_success r"
    and "\<forall>row \<in> set t. - (2 ^ 63) \<le> r_revision row \<and> r_revision row < 2 ^ 63 - 1"
  shows "\<exists>row fs fs'. row \<in> set t \<and> r_file_id row = rq_file_id req \<and> r_account_hash row = rq_account_hash req \<and>
    r_revision row = rq_target_revision req \<and>
    (let p = (case my_text_of_varbinary my (r_file_path row) of Inr s \<Rightarrow> s | Inl _ \<Rightarrow> '''') in
      my_get_file_history my (rq_account_hash req) p (r_group_id row) t = Ok fs \<and>
      my_get_file_history my (rq_account_hash req) p (r_group_id row) t' = Ok fs' \<and>
      (\<forall>g \<in> set fs. sf_revision g < rr_new_revision r) \<and> Max (sf_revision ` set fs') = rr_new_revision r) \<and>
    (text_is_bytes my \<and> \<not> isl (my_text_of_varbinary my (r_file_path row)) \<longrightarrow>
      (\<forall>x \<in> set t. r_account_hash x = rq_account_hash req \<and> r_file_path x = r_file_path row \<and> r_group_id x = r_group_id row \<longrightarrow>
        r_revision x < rr_new_revision r))"
proof -
  obtain f fs where f: "my_get_file_by_revision my (rq_account_hash req) (rq_file_id req) (rq_target_revision req) t = Ok f"
    and fs: "my_get_file_history my (rq_account_hash req) (sf_file_path f) (sf_group_id f) t = Ok fs"
    and n: "rr_new_revision r = wrap_i64 (max_sync_revision fs + 1)"
    and st: "my_store_file my (restored_version (sy_now sys) req (rr_new_revision r) f) t = (Ok (), t')"
    using restore_success [OF assms(1,2)] by (metis (no_types, lifting) mysql_versions_def version_store.select_convs(1,2,4))
  have "\<forall>g \<in> set fs. - (2 ^ 63) \<le> sf_revision g \<and> sf_revision g < 2 ^ 63 - 1"
    using fs assms(3) by (auto simp: my_get_file_history_def stmt_Ok_iff sync_file_of_row_def Let_def)
  then have "rr_new_revision r = max_sync_revision fs + 1" unfolding n by (intro wrap_i64_id max_sync_revision_bound)
  then have less: "\<forall>g \<in> set fs. sf_revision g < rr_new_revision r"
    using max_sync_revision_upper [of _ fs] by fastforce
  let ?f = "restored_version (sy_now sys) req (rr_new_revision r) f"
  have same: "sf_user_id ?f = rq_account_hash req" "sf_file_path ?f = sf_file_path f" "sf_group_id ?f = sf_group_id f"
    "sf_revision ?f = rr_new_revision r"
    using mysql_versions.restored_owner [OF f] by (simp_all add: restored_version_def)
  obtain row where row: "row \<in> set t" "r_file_id row = rq_file_id req" "r_account_hash row = rq_account_hash req"
    "r_revision row = rq_target_revision req" "f = sync_file_of_row my row"
    using revision_row [OF f] by blast
  then have p: "sf_file_path f = (case my_text_of_varbinary my (r_file_path row) of Inr s \<Rightarrow> s | Inl _ \<Rightarrow> '''')"
    "sf_group_id f = r_group_id row" by (simp_all add: sync_file_of_row_def Let_def)
  have own: "r_revision x < rr_new_revision r" if "text_is_bytes my" "\<not> isl (my_text_of_varbinary my (r_file_path row))"
      "x \<in> set t" "r_account_hash x = rq_account_hash req" "r_file_path x = r_file_path row" "r_group_id x = r_group_id row" for x
    using history_rows [OF fs, of x] less that p by (auto simp: text_is_bytes_def split: sum.splits)
  obtain fs' where "my_get_file_history my (rq_account_hash req) (sf_file_path f) (sf_group_id f) t' = Ok fs'"
    "Max (sf_revision ` set fs') = rr_new_revision r"
    using mysql_versions.restore_newest [OF st] fs less unfolding same by blast
  with fs less row own show ?thesis unfolding p Let_def by (intro exI [of _ row] exI [of _ fs] exI [of _ fs']) blast
qed

definition sample_restore_request :: restore_request where
  "sample_restore_request = \<lparr>rq_account_hash = ''a'', rq_device_hash = ''d2'', rq_auth_token = ''tok'', rq_file_id = 3,
     rq_target_revision = 1, rq_broadcast_to_all_devices = False, rq_restore_reason = ''undo''\<rparr>"

theorem mysql_restore_newest_witness:
  "\<exists>t t' r a'. my_store_file_info (sample_my None) (sample_upload_info 3) [] = Some (Ok 3, t) \<and>
     vsv_restore_file_version (mysql_versions (sample_my None)) sample_sys sample_restore_request t
       (sample_app\<lparr>ap_files := [(3, [1])]\<rparr>) = Some (Ok r, t', a') \<and> (\<forall>row \<in> set t. r_revision row < rr_new_revision r)"
proof -
  let ?my = "sample_my None" and ?a = "sample_app\<lparr>ap_files := [(3, [1])]\<rparr>"
  let ?r = "new_row ?my (sample_upload_info 3) (as_bytes ''~/docs'') (as_bytes ''f.txt'') 1"
  let ?f = "sync_file_of_row ?my ?r"
  have row: "r_file_id ?r = 3" "r_account_hash ?r = ''a''" "r_revision ?r = 1"
    by (simp_all add: new_row_def sample_upload_info_def)
  then have f: "my_get_file_by_revision ?my ''a'' 3 1 [?r] = Ok ?f" "sf_file_id ?f = 3"
    by (simp_all add: my_get_file_by_revision_def as_i64_def sync_file_of_row_def Let_def)
  obtain fs where fs: "my_get_file_history ?my ''a'' (sf_file_path ?f) (sf_group_id ?f) [?r] = Ok fs"
    by (simp add: my_get_file_history_def)
  have copy: "\<exists>a1. fs_restore_file_version sample_sys x y ?a = (Ok (), a1) \<and> ap_notification_manager a1 = None"
    if "fi_file_id x = 3" "fi_file_id y = 3" for x y
    using that by (simp add: fs_restore_file_version_def fs_copy_file_data_def fs_get_file_data_def Let_def
        fs_store_file_data_internal_def sample_app_def app_new_def ms_store_file_data_def hm_get_def hm_insert_def)
  let ?f2 = "restored_version (sy_now sample_sys) sample_restore_request (wrap_i64 (max_sync_revision fs + 1)) ?f"
  obtain a1 where a1: "fs_restore_file_version sample_sys (sync_file_to_file_info_model (sy_chrono sample_sys) ?f)
      (sync_file_to_file_info_model (sy_chrono sample_sys) ?f2) ?a = (Ok (), a1)" "ap_notification_manager a1 = None"
    using copy [of "sync_file_to_file_info_model (sy_chrono sample_sys) ?f"
        "sync_file_to_file_info_model (sy_chrono sample_sys) ?f2"] f(2)
    by (auto simp: sync_file_to_file_info_model_def restored_version_def)
  obtain t' where t': "my_store_file ?my ?f2 [?r] = (Ok (), t')" by (simp add: my_store_file_def Let_def)
  have "\<exists>r a'. vsv_restore_file_version (mysql_versions ?my) sample_sys sample_restore_request [?r] ?a = Some (Ok r, t', a') \<and>
      rr_success r"
    using f fs a1 t' by (simp add: vsv_restore_file_version_def mysql_versions_def sample_restore_request_def Let_def
        fs_send_file_restore_notification_def fs_send_notification_def)
  then obtain r a' where ret: "vsv_restore_file_version (mysql_versions ?my) sample_sys sample_restore_request [?r] ?a =
      Some (Ok r, t', a')" "rr_success r" by blast
  have "\<forall>row \<in> set [?r]. - (2 ^ 63) \<le> r_revision row \<and> r_revision row < 2 ^ 63 - 1" using row by simp
  from mysql_restore_newest [OF ret this] sample_text
  have "r_revision ?r < rr_new_revision r" by (auto simp: row)
  with sample_row_stored ret(1) row show ?thesis by auto
qed

section \<open>Requests for another account\<close>

text \<open>
  C15: the four sync handlers answer only for the account of the token: for a non-empty token
  that is not live for the account of the request, each returns a failure without any key, version
  or device, sends and publishes nothing, and changes at most the table of accounts.
\<close>
theorem sync_handlers_own_account:
  assumes "list_all is_ascii token" "\<not> av_debug_assertions (sy_auth sys)" "token \<noteq> []"
    and "\<not> token_live (sy_now sys) token (ap_storage a) acct"
  shows "\<exists>s. s\<lparr>sd_accounts := sd_accounts (ap_storage a)\<rparr> = ap_storage a \<and>
    (\<exists>r. sh_request_encryption_key sys smp token acct a = Some (Ok r, (), a\<lparr>ap_storage := s\<rparr>) \<and>
       \<not> kr_success r \<and> kr_encryption_key r = []) \<and>
    (\<exists>r. sh_get_file_history vs sys (h\<lparr>hq_auth_token := token, hq_account_hash := acct\<rparr>) v a =
         Some (Ok r, v, a\<lparr>ap_storage := s\<rparr>) \<and> \<not> hr_success r \<and> hr_versions r = []) \<and>
    (\<exists>r. sh_restore_file_version vs sys (q\<lparr>rq_auth_token := token, rq_account_hash := acct\<rparr>) v a =
         Some (Ok r, v, a\<lparr>ap_storage := s\<rparr>) \<and> \<not> rr_success r) \<and>
    (\<exists>r. sh_broadcast_file_restore sys (b\<lparr>bq_auth_token := token, bq_account_hash := acct\<rparr>) a =
         Some (Ok r, (), a\<lparr>ap_storage := s\<rparr>) \<and> \<not> br_success r \<and> br_notified_device_hashes r = [])"
proof -
  obtain w s where ver: "verify_token (sy_auth sys) (sy_now sys) token (ap_storage a) = Some (Ok w, s)"
    and bad: "\<not> vr_valid w \<or> vr_account_hash w \<noteq> acct"
    and s: "s\<lparr>sd_accounts := sd_accounts (ap_storage a)\<rparr> = ap_storage a"
    using verify_token_char [OF assms(1,2), of "sy_now sys" "ap_storage a"] assms(3,4) by blast
  have refused: "with_sync_auth sys token acct fail body v' a =
      Some (Ok (fail ''Account authentication failed''), v', a\<lparr>ap_storage := s\<rparr>)" for fail body v'
    using ver bad assms(3) by (auto simp: with_sync_auth_def)
  show ?thesis
    by (rule exI [of _ s])
       (simp add: s sh_request_encryption_key_def sh_get_file_history_def sh_restore_file_version_def
         sh_broadcast_file_restore_def refused history_failure_def restore_failure_def broadcast_failure_def)
qed

theorem sync_handlers_own_account_witness:
  "\<exists>s r. sh_request_encryption_key sample_server_sys (\<lambda>_. CHR ''k'') ''tok'' ''other'' sample_app =
     Some (Ok r, (), sample_app\<lparr>ap_storage := s\<rparr>) \<and> kr_encryption_key r = []"
proof -
  have "list_all is_ascii ''tok''" "\<not> av_debug_assertions (sy_auth sample_server_sys)" "''tok'' \<noteq> []"
    "\<not> token_live (sy_now sample_server_sys) ''tok'' (ap_storage sample_app) ''other''"
    by (auto simp: is_ascii_def sample_server_sys_def sample_sys_def sample_env_def token_live_def sample_app_def
        auth_save_token_def auth_create_auth_token_def ms_create_auth_token_def ms_get_auth_token_def hm_get_insert)
  from sync_handlers_own_account [OF this, of "\<lambda>_. CHR ''k''" memory_versions _ ms_new] show ?thesis by blast
qed

end
