(* ===== verification/Device_Handlers.thy ===== *)
theory Device_Handlers
  imports Watcher_Handlers
begin

text \<open>
  The device service (\<^verbatim>\<open>src/services/device_service.rs\<close>) and the device handlers
  (\<^verbatim>\<open>src/handlers/device_handler.rs\<close>), over the in-memory storage, and what they mean together
  with the watcher handlers.  The map of registrations the service keeps besides the storage is
  never written; it is an argument of the lookup.
\<close>

section \<open>Device service\<close>

text \<open>The three UUIDs are the account's identifier, the one in its address, and its hash.\<close>

definition ds_create_account :: "datetime \<Rightarrow> string \<Rightarrow> string \<Rightarrow> string \<Rightarrow> string option \<Rightarrow> account" where
  "ds_create_account now account_id email_uuid hash_uuid nm =
     (let user_email = ''user_'' @ email_uuid @ ''@example.com''
      in \<lparr>a_account_hash = hash_uuid, a_id = account_id, a_email = user_email,
          a_name = (case nm of Some n \<Rightarrow> n | None \<Rightarrow> ''New User''), a_user_type = [], a_password_hash = [], a_salt = [],
          a_is_active = True, a_created_at = now, a_last_login = now, a_updated_at = now, a_user_id = user_email\<rparr>)"

definition ds_get_account :: "string \<Rightarrow> storage_data \<Rightarrow> account option sres" where
  "ds_get_account account_hash s = ms_get_account_by_hash account_hash s"

definition ds_save_encryption_key :: "string \<Rightarrow> string \<Rightarrow> storage_data \<Rightarrow> unit sres \<times> storage_data" where
  "ds_save_encryption_key account_hash encryption_key s = ms_store_encryption_key account_hash encryption_key s"

definition ds_register_device :: "device \<Rightarrow> storage_data \<Rightarrow> unit sres \<times> storage_data" where
  "ds_register_device device s = ms_register_device device s"

definition ds_get_device :: "(string, device) hashmap \<Rightarrow> string \<Rightarrow> string \<Rightarrow> storage_data \<Rightarrow> device option sres" where
  "ds_get_device registrations device_hash account_hash s =
     (case ms_get_device account_hash device_hash s of
        Inl e \<Rightarrow> Err e
      | Inr (Some device) \<Rightarrow> Ok (Some device)
      | Inr None \<Rightarrow>
          (case hm_get registrations device_hash of
             Some device \<Rightarrow> if d_account_hash device = account_hash then Ok (Some device) else Ok None
           | None \<Rightarrow> Ok None))"

definition ds_update_device :: "device \<Rightarrow> storage_data \<Rightarrow> unit sres \<times> storage_data" where
  "ds_update_device device s = ms_update_device device s"

definition ds_list_devices :: "string \<Rightarrow> storage_data \<Rightarrow> device list sres" where
  "ds_list_devices account_hash s = ms_list_devices account_hash s"

definition ds_delete_device :: "string \<Rightarrow> string \<Rightarrow> storage_data \<Rightarrow> unit sres \<times> storage_data" where
  "ds_delete_device account_hash device_hash s = ms_delete_device account_hash device_hash s"

definition to_proto_device_info :: "chrono \<Rightarrow> device \<Rightarrow> p_device_info" where
  "to_proto_device_info ch d =
     \<lparr>pd_account_hash = d_account_hash d, pd_is_active = d_is_active d, pd_device_hash = d_device_hash d,
      pd_os_version = d_os_version d, pd_app_version = d_app_version d,
      pd_registered_at = Some \<lparr>ts_seconds = ch_timestamp ch (d_registered_at d), ts_nanos = 0\<rparr>,
      pd_last_sync_time = Some \<lparr>ts_seconds = ch_timestamp ch (d_last_sync d), ts_nanos = 0\<rparr>\<rparr>"

text \<open>
  A time is read as whole unsigned seconds after the epoch; the addition panics for seconds beyond
  \<^verbatim>\<open>i64::MAX\<close>, which negative ones become, and for a time chrono does not represent.
\<close>

definition from_unix_secs :: "chrono \<Rightarrow> datetime \<Rightarrow> timestamp option \<Rightarrow> datetime option" where
  "from_unix_secs ch now t =
     (case t of None \<Rightarrow> Some now
      | Some ts \<Rightarrow> if ts_seconds ts < 0 then None else ch_from_timestamp ch (ts_seconds ts) 0)"

definition from_proto_device_info :: "chrono \<Rightarrow> datetime \<Rightarrow> p_device_info \<Rightarrow> device option" where
  "from_proto_device_info ch now i = do {
     registered_at \<leftarrow> from_unix_secs ch now (pd_registered_at i);
     last_sync \<leftarrow> from_unix_secs ch now (pd_last_sync_time i);
     Some \<lparr>d_user_id = [], d_account_hash = pd_account_hash i, d_device_hash = pd_device_hash i,
       d_updated_at = last_sync, d_registered_at = registered_at, d_last_sync = last_sync,
       d_is_active = pd_is_active i, d_os_version = pd_os_version i, d_app_version = pd_app_version i\<rparr>
   }"

section \<open>Device handlers\<close>

record device_request =
  dq_account_hash :: string
  dq_device_hash :: string
  dq_auth_token :: string
  dq_is_active :: bool
  dq_os_version :: string
  dq_app_version :: string

record register_device_response =
  rd_success :: bool
  rd_device_hash :: string
  rd_return_message :: string

definition register_failure :: "string \<Rightarrow> register_device_response" where
  "register_failure msg = \<lparr>rd_success = False, rd_device_hash = [], rd_return_message = msg\<rparr>"

definition we_validate_token :: "wenv \<Rightarrow> string \<Rightarrow> storage_data \<Rightarrow> string ares option" where
  "we_validate_token env token s =
     oauth_validate_token (av_debug_log (we_auth env)) (av_debug_assertions (we_auth env)) (we_now env) token s"

definition wa_publish :: "string \<Rightarrow> wapp \<Rightarrow> wapp" where
  "wa_publish routing_key a = a\<lparr>wa_published := wa_published a @ [routing_key]\<rparr>"

definition dh_register_device ::
  "wenv \<Rightarrow> device_request \<Rightarrow> wapp \<Rightarrow> (register_device_response \<times> wapp) option" where
  "dh_register_device env req a =
     (if dq_account_hash req = [] then Some (register_failure ''Account hash cannot be empty'', a)
      else if dq_device_hash req = [] then Some (register_failure ''Device hash cannot be empty'', a)
      else if length (dq_device_hash req) > 128 then Some (register_failure ''Device hash too long (max 128 characters)'', a)
      else if dq_auth_token req = [] then Some (register_failure ''Authentication token required'', a)
      else case we_validate_token env (dq_auth_token req) (wa_storage a) of
        None \<Rightarrow> None
      | Some (Inl e) \<Rightarrow> Some (register_failure (''authentication failed: '' @ auth_error_display e), a)
      | Some (Inr server_account_hash) \<Rightarrow>
          (let device = device_new (we_now env) server_account_hash (dq_device_hash req) (dq_is_active req)
                 (dq_os_version req) (dq_app_version req)
           in case ds_register_device device (wa_storage a) of
                (Inr _, s) \<Rightarrow>
                  Some (\<lparr>rd_success = True, rd_device_hash = d_device_hash device,
                         rd_return_message = ''device registration/update successful''\<rparr>,
                        wa_publish (''device.registered.'' @ server_account_hash) (a\<lparr>wa_storage := s\<rparr>))
              | (Inl e, s) \<Rightarrow>
                  Some (register_failure (''device registration/update failed: '' @ storage_error_display e),
                        a\<lparr>wa_storage := s\<rparr>)))"

definition dh_update_device_info ::
  "wenv \<Rightarrow> (string, device) hashmap \<Rightarrow> device_request \<Rightarrow> wapp \<Rightarrow> (bool \<times> string) \<times> wapp" where
  "dh_update_device_info env registrations req a =
     (case ds_get_device registrations (dq_device_hash req) (dq_account_hash req) (wa_storage a) of
        Inr (Some device) \<Rightarrow>
          (let device' = device\<lparr>d_is_active := dq_is_active req, d_os_version := dq_os_version req,
                 d_app_version := dq_app_version req, d_updated_at := we_now env\<rparr>
           in case ds_update_device device' (wa_storage a) of
                (Inr _, s) \<Rightarrow> ((True, ''device info updated successfully''),
                              wa_publish (''device.updated.'' @ dq_account_hash req) (a\<lparr>wa_storage := s\<rparr>))
              | (Inl e, s) \<Rightarrow> ((False, ''device info update failed: '' @ storage_error_display e), a\<lparr>wa_storage := s\<rparr>))
      | Inr None \<Rightarrow>
          (let new_device = device_new (we_now env) (dq_account_hash req) (dq_device_hash req) (dq_is_active req)
                 (dq_os_version req) (dq_app_version req)
           in case ds_register_device new_device (wa_storage a) of
                (Inr _, s) \<Rightarrow> ((True, ''new device registered successfully''),
                              wa_publish (''device.registered.'' @ dq_account_hash req) (a\<lparr>wa_storage := s\<rparr>))
              | (Inl e, s) \<Rightarrow> ((False, ''device registration failed: '' @ storage_error_display e), a\<lparr>wa_storage := s\<rparr>))
      | Inl e \<Rightarrow> ((False, ''device info lookup failed: '' @ storage_error_display e), a))"

text \<open>A response of the list handler: success, the devices, the message.\<close>

definition dh_list_devices ::
  "wenv \<Rightarrow> string \<Rightarrow> wapp \<Rightarrow> (status, bool \<times> p_device_info list \<times> string) result option" where
  "dh_list_devices env token a =
     (case we_validate_token env token (wa_storage a) of
        None \<Rightarrow> None
      | Some (Inl _) \<Rightarrow> Some (Err (mk_status C_Unauthenticated ''Authentication failed''))
      | Some (Inr account_hash) \<Rightarrow>
          Some (Ok (case ds_list_devices account_hash (wa_storage a) of
            Inr device_list \<Rightarrow> (True, map (to_proto_device_info (we_chrono env)) device_list, [])
          | Inl e \<Rightarrow> (False, [], ''Failed to get devices: '' @ storage_error_display e))))"

definition dh_delete_device :: "wenv \<Rightarrow> string \<Rightarrow> string \<Rightarrow> wapp \<Rightarrow> ((bool \<times> string) \<times> wapp) option" where
  "dh_delete_device env token device_hash a =
     (case we_validate_token env token (wa_storage a) of
        None \<Rightarrow> None
      | Some (Inl e) \<Rightarrow> Some ((False, ''Authentication failed: '' @ auth_error_display e), a)
      | Some (Inr account_hash) \<Rightarrow>
          Some (case ds_delete_device account_hash device_hash (wa_storage a) of
            (Inr _, s) \<Rightarrow> ((True, []), a\<lparr>wa_storage := s\<rparr>)
          | (Inl e, s) \<Rightarrow> ((False, ''Device deletion failed: '' @ storage_error_display e), a\<lparr>wa_storage := s\<rparr>)))"

text \<open>The key request of the device handler checks no token; the gRPC service does not route to it.\<close>

definition dh_request_encryption_key ::
  "(nat \<Rightarrow> char) \<Rightarrow> string \<Rightarrow> string \<Rightarrow> wapp \<Rightarrow> (bool \<times> string \<times> string) \<times> wapp" where
  "dh_request_encryption_key smp account_hash device_hash a =
     (case es_request_encryption_key smp account_hash device_hash (wa_storage a) of
        (Inr key, s) \<Rightarrow> ((True, key, []), a\<lparr>wa_storage := s\<rparr>)
      | (Inl e, s) \<Rightarrow> ((False, [], ''Failed to get encryption key: '' @ storage_error_display e), a\<lparr>wa_storage := s\<rparr>))"

section \<open>Registration belongs to the token\<close>

lemma we_validate_token_Ok:
  assumes "list_all is_ascii token" "\<not> av_debug_assertions (we_auth env)"
  shows "\<exists>r. we_validate_token env token s = Some r \<and> (\<forall>acct. r = Ok acct \<longleftrightarrow> token \<noteq> [] \<and> token_live (we_now env) token s acct)"
  using validate_token_ascii [OF assms(1), of "av_debug_log (we_auth env)" "we_now env" s] assms(2)
  unfolding we_validate_token_def by (metis (full_types) option.inject)

text \<open>
  In a release build, a device registration with an ASCII token succeeds only for a live token
  and registers the device for the account of the token, whatever account the request names;
  no other device, of this or any other account, is changed.  Stated for account hashes without a
  colon.
\<close>
theorem register_device_own_account:
  assumes "dh_register_device env req a = Some (r, a')" "rd_success r"
    and "list_all is_ascii (dq_auth_token req)" "\<not> av_debug_assertions (we_auth env)"
  shows "\<exists>acct. token_live (we_now env) (dq_auth_token req) (wa_storage a) acct \<and>
    (no_colon acct \<longrightarrow> (\<forall>b dh. no_colon b \<longrightarrow> ms_get_device b dh (wa_storage a') =
       (if b = acct \<and> dh = dq_device_hash req
        then Ok (Some (device_new (we_now env) acct dh (dq_is_active req) (dq_os_version req) (dq_app_version req)))
        else ms_get_device b dh (wa_storage a)))) \<and>
    (wa_storage a')\<lparr>sd_devices := sd_devices (wa_storage a)\<rparr> = wa_storage a"
proof -
  obtain v where v: "we_validate_token env (dq_auth_token req) (wa_storage a) = Some v"
    and live: "\<forall>acct. v = Ok acct \<longleftrightarrow> dq_auth_token req \<noteq> [] \<and> token_live (we_now env) (dq_auth_token req) (wa_storage a) acct"
    using we_validate_token_Ok [OF assms(3,4)] by blast
  obtain acct where "v = Ok acct"
    and st: "wa_storage a' = snd (ms_register_device (device_new (we_now env) acct (dq_device_hash req) (dq_is_active req)
      (dq_os_version req) (dq_app_version req)) (wa_storage a))"
    using assms(1,2) v by (auto simp: dh_register_device_def register_failure_def ds_register_device_def Let_def
        wa_publish_def split: if_splits sum.splits prod.splits)
  moreover have "ms_get_device b dh (wa_storage a') =
       (if b = acct \<and> dh = dq_device_hash req
        then Ok (Some (device_new (we_now env) acct dh (dq_is_active req) (dq_os_version req) (dq_app_version req)))
        else ms_get_device b dh (wa_storage a))" if "no_colon acct" "no_colon b" for b dh
    using that unfolding st no_colon_def by (auto simp: ms_get_device_def ms_register_device_def Let_def hm_get_insert
        device_key_inj device_new_def)
  ultimately show ?thesis using live by (auto simp: ms_register_device_def Let_def)
qed

definition sample_device_request :: "string \<Rightarrow> device_request" where
  "sample_device_request acct = \<lparr>dq_account_hash = acct, dq_device_hash = ''dev'', dq_auth_token = ''tok'',
     dq_is_active = True, dq_os_version = ''6.1'', dq_app_version = ''1.0''\<rparr>"

theorem register_device_own_account_witness:
  "\<exists>r a'. dh_register_device sample_wenv (sample_device_request ''other'') (sample_wapp\<lparr>wa_storage :=
       snd (auth_save_token (auth_create_auth_token 0 ''tok'' ''i'' ''acct'') ms_new)\<rparr>) = Some (r, a') \<and>
     ms_get_device ''acct'' ''dev'' (wa_storage a') = Ok (Some (device_new 5 ''acct'' ''dev'' True ''6.1'' ''1.0''))"
proof -
  let ?s = "snd (auth_save_token (auth_create_auth_token 0 ''tok'' ''i'' ''acct'') ms_new)"
  let ?a = "sample_wapp\<lparr>wa_storage := ?s\<rparr>" and ?q = "sample_device_request ''other''"
  have live: "token_live (we_now sample_wenv) ''tok'' ?s acct \<longleftrightarrow> acct = ''acct''" for acct
    by (auto simp: token_live_def auth_save_token_def auth_create_auth_token_def ms_create_auth_token_def
        ms_get_auth_token_def ms_new_def hm_get_insert days_def sample_wenv_def)
  have q: "dq_auth_token ?q = ''tok''" "dq_device_hash ?q = ''dev''" "dq_is_active ?q" "dq_os_version ?q = ''6.1''"
    "dq_app_version ?q = ''1.0''" "dq_account_hash ?q \<noteq> []"
    by (simp_all add: sample_device_request_def)
  have tok: "list_all is_ascii ''tok''" "\<not> av_debug_assertions (we_auth sample_wenv)"
    by (simp_all add: is_ascii_def sample_wenv_def sample_env_def)
  have "we_validate_token sample_wenv ''tok'' ?s = Some (Ok ''acct'')"
    using we_validate_token_Ok [OF tok, of ?s] live by (metis (no_types) list.distinct(1))
  then obtain r a' where ret: "dh_register_device sample_wenv ?q ?a = Some (r, a')" "rd_success r"
    using q by (simp add: dh_register_device_def ds_register_device_def ms_register_device_def Let_def)
  have "ms_get_device ''acct'' ''dev'' (wa_storage a') = Ok (Some (device_new (we_now sample_wenv) ''acct'' ''dev'' True ''6.1'' ''1.0''))"
    using register_device_own_account [OF ret] tok live q by (auto simp: no_colon_def)
  with ret show ?thesis by (auto simp: sample_wenv_def)
qed

section \<open>What no token is needed for\<close>

text \<open>Updating a device that does not exist registers it, for any account, without a token.\<close>

lemma update_device_info_validates:
  obtains ds where "wa_storage (snd (dh_update_device_info env [] (req\<lparr>dq_account_hash := acct\<rparr>) a)) =
      (wa_storage a)\<lparr>sd_devices := ds\<rparr>" "hm_contains ds (device_key acct (dq_device_hash req))"
    "wa_notification_manager (snd (dh_update_device_info env [] (req\<lparr>dq_account_hash := acct\<rparr>) a)) = wa_notification_manager a"
proof (cases "hm_get (sd_devices (wa_storage a)) (device_key acct (dq_device_hash req))")
  case None
  with that show ?thesis
    by (simp add: dh_update_device_info_def ds_get_device_def ms_get_device_def ds_register_device_def
        ms_register_device_def Let_def wa_publish_def device_new_def hm_contains_def hm_get_insert)
next
  case (Some d)
  with that show ?thesis
    by (simp add: dh_update_device_info_def ds_get_device_def ms_get_device_def ds_update_device_def
        ms_update_device_def Let_def wa_publish_def hm_contains_def hm_get_insert)
qed

text \<open>
  C33: nobody needs a token to delete a watcher group of any account: the device update, which
  checks no token, registers a device for the account, and the deletion, which checks no token
  either, then accepts it and removes the group.
\<close>
theorem group_deleted_without_token:
  assumes "hm_get (sd_watcher_groups (wa_storage a)) gid = Some g"
  shows "\<exists>a1 a2. snd (dh_update_device_info env [] (req\<lparr>dq_account_hash := wg_account_hash g\<rparr>) a) = a1 \<and>
    wh_delete_watcher_group env (wg_account_hash g) (dq_device_hash req) gid a1 = (Ok gid, a2) \<and>
    hm_get (sd_watcher_groups (wa_storage a2)) gid = None"
proof -
  let ?a1 = "snd (dh_update_device_info env [] (req\<lparr>dq_account_hash := wg_account_hash g\<rparr>) a)"
  obtain ds where st: "wa_storage ?a1 = (wa_storage a)\<lparr>sd_devices := ds\<rparr>"
    "hm_contains ds (device_key (wg_account_hash g) (dq_device_hash req))"
    by (rule update_device_info_validates)
  have "validate_device_if_required (we_env env) (wg_account_hash g) (dq_device_hash req) (wa_storage ?a1) = Ok ()"
    by (simp add: validate_device_if_required_def ms_validate_device_def st)
  then show ?thesis using assms
    by (simp add: wh_delete_watcher_group_def ms_get_watcher_group_by_account_and_id_def ms_delete_watcher_group_def
        st Let_def hm_get_remove)
qed

theorem group_deleted_without_token_witness:
  "\<exists>a1 a2. snd (dh_update_device_info sample_wenv [] (sample_device_request ''victim'')
       (sample_wapp\<lparr>wa_storage := snd (ms_register_watcher_group ''victim'' ''x'' (sample_group ''victim'' 1) ms_new)\<rparr>)) = a1 \<and>
     wh_delete_watcher_group sample_wenv ''victim'' ''dev'' 1 a1 = (Ok 1, a2) \<and>
     hm_get (sd_watcher_groups (wa_storage a2)) 1 = None"
proof -
  let ?a = "sample_wapp\<lparr>wa_storage := snd (ms_register_watcher_group ''victim'' ''x'' (sample_group ''victim'' 1) ms_new)\<rparr>"
  have g: "hm_get (sd_watcher_groups (wa_storage ?a)) 1 = Some (sample_group ''victim'' 1\<lparr>wg_id := 1\<rparr>)"
    by (simp add: ms_register_watcher_group_def ms_new_def next_id_i32_def hm_keys_def Let_def hm_get_insert)
  have q: "(sample_device_request ''victim'')\<lparr>dq_account_hash := ''victim''\<rparr> = sample_device_request ''victim''" "dq_device_hash (sample_device_request ''victim'') = ''dev''"
    "wg_account_hash (sample_group ''victim'' 1\<lparr>wg_id := 1\<rparr>) = ''victim''"
    by (simp_all add: sample_device_request_def sample_group_def)
  from group_deleted_without_token [OF g, of sample_wenv "sample_device_request ''victim''", unfolded q]
  show ?thesis .
qed

end
