(* ===== verification/Grpc_Service.thy ===== *)
theory Grpc_Service
  imports Subscriptions Version_Service Device_Handlers
begin

text \<open>
  The gRPC service as a whole (\<^verbatim>\<open>src/server/service.rs\<close>): one constructor of \<open>request\<close> per method
  of \<^verbatim>\<open>SyncService\<close> and \<^verbatim>\<open>SyncClientService\<close>, routed to the handler the service calls, on the one
  shared state.  The handlers are those of the other theories; the methods a handler does not
  override are those of the trait \<^verbatim>\<open>Handler\<close> (\<^verbatim>\<open>src/services/mod.rs\<close>).  The step relation adds
  the HTTP login handlers, the timers and the passing of time.
\<close>

section \<open>Requests and replies\<close>

datatype request =
    R_ExchangeOauthCode exchange_request
  | R_RegisterDevice device_request
  | R_ListDevices string
  | R_DeleteDevice string string
  | R_UpdateDeviceInfo device_request
  | R_RequestEncryptionKey string string
  | R_UploadFile upload_request
  | R_DownloadFile download_request
  | R_ListFiles list_request
  | R_DeleteFile delete_request
  | R_FindFileByCriteria find_request
  | R_CheckFileExists string u64
  | R_RegisterWatcherPreset string string "string list"
  | R_UpdateWatcherPreset string string "string list"
  | R_GetWatcherPreset string string
  | R_RegisterWatcherGroup string string i32 string "p_watcher_data option"
  | R_UpdateWatcherGroup string string i32 string "p_watcher_data option"
  | R_DeleteWatcherGroup string string i32
  | R_GetWatcherGroup string string i32
  | R_GetWatcherGroups string string
  | R_HealthCheck
  | R_ValidateToken string
  | R_CheckAuthStatus string
  | R_Login
  | R_VerifyLogin string
  | R_GetAccountInfo string
  | R_SyncConfiguration string string bool bool "p_watcher_group_data list" "string list"
  | R_SubscribeToAuthUpdates subscribe_request
  | R_SubscribeToDeviceUpdates subscribe_request
  | R_SubscribeToEncryptionKeyUpdates subscribe_request
  | R_SubscribeToFileUpdates subscribe_request
  | R_SubscribeToWatcherPresetUpdates subscribe_request
  | R_SubscribeToWatcherGroupUpdates subscribe_request
  | R_GetFileHistory history_request
  | R_RestoreFileVersion restore_request
  | R_BroadcastFileRestore broadcast_request
  | R_SubscribeToVersionUpdates subscribe_request
  | R_NotifyAuthSuccess auth_notification

text \<open>
  A stream is the channel the client reads.  \<open>P_ClosedStream\<close> is a stream whose sender was
  dropped when the method returned: it ends at once.
\<close>

datatype reply =
    P_Exchange "(status, exchange_response) result"
  | P_RegisterDevice register_device_response
  | P_ListDevices "(status, bool \<times> p_device_info list \<times> string) result"
  | P_Device "bool \<times> string"
  | P_Key "(status, key_response) result"
  | P_Upload upload_response
  | P_Download download_response
  | P_ListFiles "(status, list_response) result"
  | P_Delete delete_response
  | P_Find find_response
  | P_Exists exists_response
  | P_Unit "(status, unit) result"
  | P_Preset "(status, string list) result"
  | P_GroupId "(status, i32) result"
  | P_Group "(status, p_watcher_group_data) result"
  | P_Groups "(status, p_watcher_group_data list) result"
  | P_Health "string \<times> string"
  | P_ValidateToken "(status, bool \<times> string) result"
  | P_AuthStatus auth_status
  | P_Login login_response
  | P_VerifyLogin "bool \<times> string"
  | P_AccountInfo "(status, bool \<times> string \<times> string \<times> string) result"
  | P_Sync "(status, sync_response) result"
  | P_Stream "(status, chan) result"
  | P_ClosedStream
  | P_History "(status, history_response) result"
  | P_Restore "(status, restore_response) result"
  | P_Broadcast "(status, broadcast_response) result"
  | P_Notified "bool \<times> string"

section \<open>Environment\<close>

text \<open>
  What a request finds outside the state: the clock, the features and libraries, the random
  values it draws, \<^verbatim>\<open>str::to_lowercase\<close> and the version the binary was built with.  The device
  service keeps a table of its own that nothing writes to.
\<close>

record 'x grpc_env =
  gv_service :: "'x service_env"
  gv_login :: login_env
  gv_lower :: "string \<Rightarrow> string"
  gv_sample :: "nat \<Rightarrow> char"
  gv_pkg_version :: "string option"

definition gv_sys :: "'x grpc_env \<Rightarrow> 'x sys" where
  "gv_sys g = sx_sys (gv_service g)"

definition gv_now :: "'x grpc_env \<Rightarrow> datetime" where
  "gv_now g = sy_now (gv_sys g)"

definition gv_wenv :: "'x grpc_env \<Rightarrow> wenv" where
  "gv_wenv g = \<lparr>we_auth = sy_auth (gv_sys g), we_now = gv_now g, we_chrono = sy_chrono (gv_sys g),
     we_alive = sy_alive (gv_sys g), we_env = sy_env (gv_sys g), we_regex = sx_regex (gv_service g)\<rparr>"

definition gv_lenv :: "'x grpc_env \<Rightarrow> login_env" where
  "gv_lenv g = (gv_login g)\<lparr>le_auth := sy_auth (gv_sys g), le_now := gv_now g, le_chrono := sy_chrono (gv_sys g),
     le_crypto := sy_crypto (gv_sys g)\<rparr>"

text \<open>A handler runs on its view of the state; what it changed is put back.\<close>

definition on_storage :: "('r \<Rightarrow> reply) \<Rightarrow> 'x server \<Rightarrow> ('r \<times> storage_data) option \<Rightarrow> (reply \<times> 'x server) option" where
  "on_storage P sv = map_option (\<lambda>(r, s). (P r, sv\<lparr>sv_storage := s\<rparr>))"

definition on_app :: "('r \<Rightarrow> reply) \<Rightarrow> 'x server \<Rightarrow> ('r \<times> 'x app) option \<Rightarrow> (reply \<times> 'x server) option" where
  "on_app P sv = map_option (\<lambda>(r, a). (P r, set_app sv a))"

definition on_wapp :: "('r \<Rightarrow> reply) \<Rightarrow> 'x server \<Rightarrow> ('r \<times> wapp) option \<Rightarrow> (reply \<times> 'x server) option" where
  "on_wapp P sv = map_option (\<lambda>(r, a). (P r, set_wapp sv a))"

definition on_stream :: "((status, chan) result \<times> 'x server) option \<Rightarrow> (reply \<times> 'x server) option" where
  "on_stream = map_option (\<lambda>(r, sv). (P_Stream r, sv))"

section \<open>Routing\<close>

text \<open>
  \<^verbatim>\<open>AuthHandler\<close> has a method \<^verbatim>\<open>handle_validate_token\<close> (\<open>ah_validate_token\<close>), but it is private to
  its module and no part of the trait implementation, so the call in the service resolves to the
  default method of the trait.
\<close>

definition handler_handle_validate_token :: "(status, bool \<times> string) result" where
  "handler_handle_validate_token = Err (mk_status C_Unimplemented ''handle_validate_token method is not implemented'')"

fun rpc :: "'x grpc_env \<Rightarrow> request \<Rightarrow> 'x server \<Rightarrow> (reply \<times> 'x server) option" where
  "rpc g (R_ExchangeOauthCode q) sv =
     on_storage P_Exchange sv (ah_oauth_exchange (gv_lower g) (gv_lenv g) q (sv_storage sv))"
| "rpc g (R_RegisterDevice q) sv = on_wapp P_RegisterDevice sv (dh_register_device (gv_wenv g) q (as_wapp sv))"
| "rpc g (R_ListDevices token) sv =
     map_option (\<lambda>r. (P_ListDevices r, sv)) (dh_list_devices (gv_wenv g) token (as_wapp sv))"
| "rpc g (R_DeleteDevice token d) sv = on_wapp P_Device sv (dh_delete_device (gv_wenv g) token d (as_wapp sv))"
| "rpc g (R_UpdateDeviceInfo q) sv = on_wapp P_Device sv (Some (dh_update_device_info (gv_wenv g) [] q (as_wapp sv)))"
| "rpc g (R_RequestEncryptionKey token account) sv =
     map_option (\<lambda>(r, _, a). (P_Key r, set_app sv a))
       (sh_request_encryption_key (gv_sys g) (gv_sample g) token account (as_app sv))"
| "rpc g (R_UploadFile q) sv = on_app P_Upload sv (handle_upload_file (gv_sys g) q (as_app sv))"
| "rpc g (R_DownloadFile q) sv = on_app P_Download sv (handle_download_file (gv_sys g) q (as_app sv))"
| "rpc g (R_ListFiles q) sv = on_app P_ListFiles sv (handle_list_files (gv_sys g) q (as_app sv))"
| "rpc g (R_DeleteFile q) sv = on_app P_Delete sv (handle_delete_file (gv_sys g) q (as_app sv))"
| "rpc g (R_FindFileByCriteria q) sv = on_app P_Find sv (handle_find_file_by_criteria (gv_sys g) q (as_app sv))"
| "rpc g (R_CheckFileExists token i) sv = on_app P_Exists sv (handle_check_file_exists (gv_sys g) token i (as_app sv))"
| "rpc g (R_RegisterWatcherPreset token d ps) sv =
     on_wapp P_Unit sv (wh_register_watcher_preset (gv_wenv g) token d ps (as_wapp sv))"
| "rpc g (R_UpdateWatcherPreset token d ps) sv =
     on_wapp P_Unit sv (wh_update_watcher_preset (gv_wenv g) token d ps (as_wapp sv))"
| "rpc g (R_GetWatcherPreset token d) sv = on_wapp P_Preset sv (wh_get_watcher_preset (gv_wenv g) token d (as_wapp sv))"
| "rpc g (R_RegisterWatcherGroup account d gid title wd) sv =
     on_wapp P_GroupId sv (Some (wh_register_watcher_group (gv_wenv g) account d gid title wd (as_wapp sv)))"
| "rpc g (R_UpdateWatcherGroup account d gid title wd) sv =
     on_wapp P_GroupId sv (Some (wh_update_watcher_group (gv_wenv g) account d gid title wd (as_wapp sv)))"
| "rpc g (R_DeleteWatcherGroup account d gid) sv =
     on_wapp P_GroupId sv (Some (wh_delete_watcher_group (gv_wenv g) account d gid (as_wapp sv)))"
| "rpc g (R_GetWatcherGroup token d gid) sv =
     on_wapp P_Group sv (wh_get_watcher_group (gv_wenv g) token d gid (as_wapp sv))"
| "rpc g (R_GetWatcherGroups token d) sv = on_wapp P_Groups sv (wh_get_watcher_groups (gv_wenv g) token d (as_wapp sv))"
| "rpc g R_HealthCheck sv = Some (P_Health (sh_health_check (gv_pkg_version g)), sv)"
| "rpc g (R_ValidateToken token) sv = Some (P_ValidateToken handler_handle_validate_token, sv)"
| "rpc g (R_CheckAuthStatus d) sv =
     (case check_auth_status (gv_now g) (le_client_uuid (gv_lenv g)) d (sv_sessions sv) of
        (r, m) \<Rightarrow> Some (P_AuthStatus r, sv\<lparr>sv_sessions := m\<rparr>))"
| "rpc g R_Login sv = Some (P_Login ah_login, sv)"
| "rpc g (R_VerifyLogin token) sv = on_storage P_VerifyLogin sv (ah_verify_login (gv_lenv g) token (sv_storage sv))"
| "rpc g (R_GetAccountInfo token) sv = on_storage P_AccountInfo sv (ah_get_account_info (gv_lenv g) token (sv_storage sv))"
| "rpc g (R_SyncConfiguration token d inc frc gs ps) sv =
     on_wapp P_Sync sv (wh_sync_configuration (gv_wenv g) token d inc frc gs ps (as_wapp sv))"
| "rpc g (R_SubscribeToAuthUpdates _) sv = Some (P_ClosedStream, sv)"
| "rpc g (R_SubscribeToDeviceUpdates _) sv = Some (P_ClosedStream, sv)"
| "rpc g (R_SubscribeToEncryptionKeyUpdates _) sv = Some (P_ClosedStream, sv)"
| "rpc g (R_SubscribeToFileUpdates q) sv = on_stream (subscribe_to_file_updates (gv_service g) q sv)"
| "rpc g (R_SubscribeToWatcherPresetUpdates q) sv = on_stream (subscribe_to_watcher_preset_updates (gv_service g) q sv)"
| "rpc g (R_SubscribeToWatcherGroupUpdates q) sv = on_stream (subscribe_to_watcher_group_updates (gv_service g) q sv)"
| "rpc g (R_GetFileHistory q) sv =
     map_option (\<lambda>(r, _, a). (P_History r, set_app sv a))
       (sh_get_file_history memory_versions (gv_sys g) q (sv_storage sv) (as_app sv))"
| "rpc g (R_RestoreFileVersion q) sv =
     map_option (\<lambda>(r, _, a). (P_Restore r, set_app sv a))
       (sh_restore_file_version memory_versions (gv_sys g) q (sv_storage sv) (as_app sv))"
| "rpc g (R_BroadcastFileRestore q) sv =
     map_option (\<lambda>(r, _, a). (P_Broadcast r, set_app sv a)) (sh_broadcast_file_restore (gv_sys g) q (as_app sv))"
| "rpc g (R_SubscribeToVersionUpdates _) sv = Some (P_ClosedStream, sv)"
| "rpc g (R_NotifyAuthSuccess _) sv = Some (P_Notified (True, ''Notification received''), sv)"

section \<open>The handlers keep the storage well formed\<close>

text \<open>The operations of the storage, in the form a case split on their result leaves.\<close>

lemma ms_inv_run:
  assumes "ms_inv s"
  shows "ms_create_account a s = (u, s') \<Longrightarrow> ms_inv s'" "ms_update_account a s = (u, s') \<Longrightarrow> ms_inv s'"
    "ms_create_auth_token t s = (u, s') \<Longrightarrow> ms_inv s'" "ms_register_device dv s = (u, s') \<Longrightarrow> ms_inv s'"
    "ms_update_device dv s = (u, s') \<Longrightarrow> ms_inv s'" "ms_delete_device h d s = (u, s') \<Longrightarrow> ms_inv s'"
    "ms_store_file_info f s = (i, s') \<Longrightarrow> ms_inv s'" "ms_delete_file h j s = (u, s') \<Longrightarrow> ms_inv s'"
    "ms_store_file_data j b s = (u, s') \<Longrightarrow> ms_inv s'" "ms_store_encryption_key h k s = (u, s') \<Longrightarrow> ms_inv s'"
    "ms_register_watcher_preset_proto h d ps s = (u, s') \<Longrightarrow> ms_inv s'"
    "ms_update_watcher_preset_proto h d ps s = (u, s') \<Longrightarrow> ms_inv s'"
    "ms_register_watcher_group h d wg s = (n, s') \<Longrightarrow> ms_inv s'" "ms_update_watcher_group h wg s = (u, s') \<Longrightarrow> ms_inv s'"
    "ms_delete_watcher_group h wi s = (u, s') \<Longrightarrow> ms_inv s'"
    "ms_create_watcher_with_conditions ch now h wi wd ts s = (n, s') \<Longrightarrow> ms_inv s'"
    "ms_save_watcher_conditions wi cs s = (u, s') \<Longrightarrow> ms_inv s'"
    "create_or_get_watcher env h wi wd s = (n, s') \<Longrightarrow> ms_inv s'"
  using ms_inv_ops [OF assms] create_or_get_watcher_inv [OF assms] by (metis snd_conv)+

lemma process_oauth_code_inv:
  assumes "process_oauth_code (memory_login ul) env code h s = Some (r, s')" "ms_inv s"
  shows "ms_inv s'"
proof -
  have create: "ms_inv (create_account_retry (memory_login ul) acc n t)" if "ms_inv t" for acc n t
    using that
  proof (induction "memory_login ul" acc n t rule: create_account_retry.induct)
    case (1 acc n t)
    then show ?case
      by (subst create_account_retry.simps) (auto simp: memory_login_def dest: ms_inv_run(1) split: prod.splits sum.splits)
  qed
  have save: "ms_inv (snd (save_token_retry (memory_login ul) tok n t))" if "ms_inv t" for tok n t
    using that
  proof (induction "memory_login ul" tok n t rule: save_token_retry.induct)
    case (1 tok n t)
    then show ?case
      by (subst save_token_retry.simps) (auto simp: memory_login_def dest: ms_inv_run(3) split: prod.splits sum.splits)
  qed
  have acct: "ms_inv (record_login_account (memory_login ul) env user acc t)" if "ms_inv t" for user acc t
    using that by (auto simp: record_login_account_def create ms_inv_accounts split: option.split)
  have key: "ms_inv (snd (oauth_get_encryption_key (memory_login ul) env acc t))" if "ms_inv t" for acc t
    using that by (auto simp: oauth_get_encryption_key_def memory_login_def ms_inv_keys Let_def split: sum.split option.split)
  show ?thesis
  proof (cases "exchange_oauth_code_and_authenticate env code")
    case (Inl e)
    then show ?thesis using assms by (auto simp: process_oauth_code_def)
  next
    case (Inr u)
    obtain t user where u: "u = (t, user)" by fastforce
    let ?h = "login_account_hash env user h"
    let ?s1 = "record_login_account (memory_login ul) env user ?h s"
    obtain x s2 where s2: "save_token_retry (memory_login ul) (login_token_obj env ?h) 0 ?s1 = (x, s2)" by fastforce
    then have inv2: "ms_inv s2" using save [OF acct [OF assms(2)], of "login_token_obj env ?h" 0 user ?h] by simp
    obtain y s3 where "oauth_get_encryption_key (memory_login ul) env ?h s2 = (y, s3)" by fastforce
    with key [OF inv2, of ?h] inv2 s2 Inr u assms(1) show ?thesis
      by (auto simp: process_oauth_code_def Let_def split: sum.splits if_splits)
  qed
qed

lemma login_handlers_inv:
  assumes "ms_inv s"
  shows "ah_oauth_exchange ul env q s = Some (r, s') \<Longrightarrow> ms_inv s'"
    "ah_verify_login env token s = Some (v, s') \<Longrightarrow> ms_inv s'"
    "ah_get_account_info env token s = Some (i, s') \<Longrightarrow> ms_inv s'"
proof -
  have "ms_inv (snd (auto_register_or_update_device now acct d os app t))" if "ms_inv t" for now acct d os app t
    using that by (auto simp: auto_register_or_update_device_def dest: ms_inv_run split: sum.split option.split prod.split)
  then show "ah_oauth_exchange ul env q s = Some (r, s') \<Longrightarrow> ms_inv s'"
    using assms by (auto simp: ah_oauth_exchange_def dest!: process_oauth_code_inv split: if_splits bind_splits sum.splits)
qed (use assms verify_token_inv in \<open>auto simp: ah_verify_login_def ah_get_account_info_def
      split: if_splits option.splits sum.splits\<close>)

lemma store_data_inv:
  "fs_store_file_data_internal sys i b a = (r, a') \<Longrightarrow> ms_inv (ap_storage a) \<Longrightarrow> ms_inv (ap_storage a')"
  by (auto simp: fs_store_file_data_internal_def dest: ms_inv_run split: option.splits prod.splits sum.splits)

lemma send_notification_storage:
  "fs_send_notification sys fi ut inc a = Some a' \<Longrightarrow> ap_storage a' = ap_storage a"
  by (auto simp: fs_send_notification_def Let_def split: option.splits bind_splits if_splits)

lemma file_service_inv:
  assumes "ms_inv (ap_storage a)"
  shows "fs_store_file sys fi b a = Some (r, a') \<Longrightarrow> ms_inv (ap_storage a')"
    "fs_delete_file sys i a = Some (r, a') \<Longrightarrow> ms_inv (ap_storage a')"
proof -
  obtain x s y a1 where s: "ms_store_file_info fi (ap_storage a) = (x, s)"
    and a1: "fs_store_file_data_internal sys (fi_file_id fi) b (a\<lparr>ap_storage := s\<rparr>) = (y, a1)" by fastforce
  have "ms_inv s" using ms_inv_run(7) [OF assms s] .
  moreover have "ms_inv (ap_storage a1)" using store_data_inv [OF a1] \<open>ms_inv s\<close> by simp
  ultimately show "fs_store_file sys fi b a = Some (r, a') \<Longrightarrow> ms_inv (ap_storage a')"
    using s a1 by (auto simp: fs_store_file_def fs_store_file_with_update_type_def dest!: send_notification_storage
        split: sum.splits bind_splits)
  show "fs_delete_file sys i a = Some (r, a') \<Longrightarrow> ms_inv (ap_storage a')"
    using assms by (auto simp: fs_delete_file_def dest!: send_notification_storage dest: ms_inv_run
        split: prod.splits sum.splits bind_splits option.splits if_splits)
qed

lemma authenticate_inv:
  "fh_authenticate sys token a = Some (r, a') \<Longrightarrow> ms_inv (ap_storage a) \<Longrightarrow> ms_inv (ap_storage a')"
  by (fastforce simp: fh_authenticate_def dest: verify_token_inv split: option.splits sum.splits)

lemma file_handlers_inv:
  assumes "ms_inv (ap_storage a)"
  shows "handle_upload_file sys u a = Some (r1, a') \<Longrightarrow> ms_inv (ap_storage a')"
    "handle_download_file sys d a = Some (r2, a') \<Longrightarrow> ms_inv (ap_storage a')"
    "handle_delete_file sys e a = Some (r3, a') \<Longrightarrow> ms_inv (ap_storage a')"
    "handle_find_file_by_criteria sys f a = Some (r4, a') \<Longrightarrow> ms_inv (ap_storage a')"
    "handle_check_file_exists sys token i a = Some (r5, a') \<Longrightarrow> ms_inv (ap_storage a')"
    "handle_list_files sys l a = Some (r6, a') \<Longrightarrow> ms_inv (ap_storage a')"
  using assms
  by (auto simp: handle_upload_file_def handle_download_file_def handle_delete_file_def handle_find_file_by_criteria_def
      handle_check_file_exists_def handle_list_files_def publish_def Let_def
      dest!: authenticate_inv dest: file_service_inv
      split: if_splits bind_splits option.splits sum.splits prod.splits)

lemma with_sync_auth_inv:
  assumes "with_sync_auth sys token h fail body v a = Some (r, v', a')" "ms_inv (ap_storage a)"
    and "\<And>w c x w' c'. body w c = Some (x, w', c') \<Longrightarrow> ms_inv (ap_storage c) \<Longrightarrow> ms_inv (ap_storage c')"
  shows "ms_inv (ap_storage a')"
proof (cases "token = []")
  case True
  then show ?thesis using assms(1,2) by (simp add: with_sync_auth_def)
next
  case False
  then obtain x s where s: "verify_token (sy_auth sys) (sy_now sys) token (ap_storage a) = Some (x, s)"
    using assms(1) by (auto simp: with_sync_auth_def split: option.splits)
  then have "ms_inv s" using assms(2) by (rule verify_token_inv)
  then show ?thesis using False s assms(1) assms(3) [of v "a\<lparr>ap_storage := s\<rparr>"]
    by (auto simp: with_sync_auth_def split: sum.splits if_splits bind_splits)
qed

lemma sync_handlers_inv:
  assumes "ms_inv (ap_storage a)"
  shows "sh_request_encryption_key sys smp token h a = Some (r1, u, a') \<Longrightarrow> ms_inv (ap_storage a')"
    "sh_get_file_history vs sys q1 v a = Some (r2, v', a') \<Longrightarrow> ms_inv (ap_storage a')"
    "sh_restore_file_version memory_versions sys q2 w a = Some (r3, w', a') \<Longrightarrow> ms_inv (ap_storage a')"
    "sh_broadcast_file_restore sys q3 a = Some (r4, u, a') \<Longrightarrow> ms_inv (ap_storage a')"
proof -
  have key: "es_get_or_create_key smp h s = (x, s') \<Longrightarrow> ms_inv s \<Longrightarrow> ms_inv s'" for h s x s'
    by (auto simp: es_get_or_create_key_def Let_def dest: ms_inv_run split: sum.splits option.splits prod.splits)
  show "sh_request_encryption_key sys smp token h a = Some (r1, u, a') \<Longrightarrow> ms_inv (ap_storage a')"
    unfolding sh_request_encryption_key_def
    by (erule with_sync_auth_inv [OF _ assms]) (auto dest: key split: prod.splits sum.splits)
  show "sh_get_file_history vs sys q1 v a = Some (r2, v', a') \<Longrightarrow> ms_inv (ap_storage a')"
    unfolding sh_get_file_history_def by (erule with_sync_auth_inv [OF _ assms]) simp
  show "sh_restore_file_version memory_versions sys q2 w a = Some (r3, w', a') \<Longrightarrow> ms_inv (ap_storage a')"
    unfolding sh_restore_file_version_def
    by (erule with_sync_auth_inv [OF _ assms])
      (auto simp: vsv_restore_file_version_def memory_versions_def ms_get_file_by_revision_def split: if_splits bind_splits)
  show "sh_broadcast_file_restore sys q3 a = Some (r4, u, a') \<Longrightarrow> ms_inv (ap_storage a')"
    unfolding sh_broadcast_file_restore_def
    by (erule with_sync_auth_inv [OF _ assms]) (auto simp: publish_def split: sum.splits)
qed

text \<open>The watcher and device handlers keep the storage well formed and leave the subscribers alone.\<close>

definition wapp_kept :: "wapp \<Rightarrow> wapp \<Rightarrow> bool" where
  "wapp_kept a a' \<longleftrightarrow> (ms_inv (wa_storage a) \<longrightarrow> ms_inv (wa_storage a')) \<and>
     wa_notification_manager a' = wa_notification_manager a"

lemma wapp_kept_refl [simp]: "wapp_kept a a"
  and wapp_kept_trans: "wapp_kept a b \<Longrightarrow> wapp_kept b c \<Longrightarrow> wapp_kept a c"
  by (simp_all add: wapp_kept_def)

lemma broadcast_kept:
  "wapp_kept a (snd (app_broadcast_watcher_group_update env h d gi ut a))"
  "wapp_kept a (snd (app_broadcast_watcher_preset_update env h d ps ut a))"
  by (auto simp: wapp_kept_def app_broadcast_watcher_group_update_def app_broadcast_watcher_preset_update_def Let_def
      split: sum.split)

lemma device_handlers_kept:
  "dh_register_device env q a = Some (r1, a') \<Longrightarrow> wapp_kept a a'"
  "dh_delete_device env token d a = Some (r2, a') \<Longrightarrow> wapp_kept a a'"
  "wapp_kept a (snd (dh_update_device_info env regs q a))"
  by (auto simp: wapp_kept_def dh_register_device_def dh_delete_device_def dh_update_device_info_def ds_register_device_def
      ds_delete_device_def ds_update_device_def wa_publish_def Let_def dest: ms_inv_run
      split: if_splits option.splits sum.splits prod.splits)

lemma with_account_kept:
  assumes "with_account env token d body a = Some (r, a')" "\<And>acct c. wapp_kept c (snd (body acct c))"
  shows "wapp_kept a a'"
proof -
  obtain x a1 where x: "wh_account env token a = Some (x, a1)"
    using assms(1) by (auto simp: with_account_def split: bind_splits)
  then have a1: "wapp_kept a a1" unfolding wapp_kept_def using wh_account_inv [OF _ x]
    by (auto simp: wh_account_def split: option.splits sum.splits)
  show ?thesis
  proof (cases x)
    case (Inl st)
    then show ?thesis using x assms(1) a1 by (simp add: with_account_def)
  next
    case (Inr acct)
    then have "a' = a1 \<or> a' = snd (body acct a1)"
      using x assms(1) by (auto simp: with_account_def split: sum.splits)
    then show ?thesis using a1 assms(2) [of a1 acct] wapp_kept_trans by blast
  qed
qed

lemma set_storage_kept: "(ms_inv (wa_storage a) \<Longrightarrow> ms_inv s) \<Longrightarrow> wapp_kept a (a\<lparr>wa_storage := s\<rparr>)"
  by (simp add: wapp_kept_def)

lemma set_broadcast_kept:
  assumes "ms_inv (wa_storage a) \<Longrightarrow> ms_inv s"
  shows "wapp_kept a (snd (app_broadcast_watcher_group_update env h d gi ut (a\<lparr>wa_storage := s\<rparr>)))"
    "wapp_kept a (snd (app_broadcast_watcher_preset_update env h d ps ut (a\<lparr>wa_storage := s\<rparr>)))"
  using set_storage_kept [OF assms] broadcast_kept wapp_kept_trans by blast+

lemma preset_handlers_kept:
  "wh_register_watcher_preset env token d ps a = Some (r1, a') \<Longrightarrow> wapp_kept a a'"
  "wh_update_watcher_preset env token d ps a = Some (r1, a') \<Longrightarrow> wapp_kept a a'"
  "wh_get_watcher_preset env token d a = Some (r2, a') \<Longrightarrow> wapp_kept a a'"
  "wh_get_watcher_group env token d gi a = Some (r3, a') \<Longrightarrow> wapp_kept a a'"
  "wh_get_watcher_groups env token d a = Some (r4, a') \<Longrightarrow> wapp_kept a a'"
  unfolding wh_register_watcher_preset_def wh_update_watcher_preset_def wh_get_watcher_preset_def wh_get_watcher_group_def
    wh_get_watcher_groups_def
  by (erule with_account_kept; auto intro!: set_broadcast_kept set_storage_kept dest: ms_inv_run
      split: prod.splits sum.splits option.splits)+

lemma group_handlers_kept:
  "wapp_kept a (snd (wh_register_watcher_group env h d gi title wd a))"
  "wapp_kept a (snd (wh_delete_watcher_group env h d gi a))"
  by (auto simp: wh_register_watcher_group_def wh_delete_watcher_group_def Let_def intro!: set_broadcast_kept set_storage_kept
      dest: ms_inv_run split: prod.splits sum.splits option.splits) (auto simp: wapp_kept_def dest: ms_inv_run)

lemma update_group_kept: "wapp_kept a (snd (wh_update_watcher_group env h d gi title wd a))"
proof -
  have w: "update_group_watcher env h gi w s = (x, s') \<Longrightarrow> ms_inv s \<Longrightarrow> ms_inv s'" for w s x s'
    by (auto simp: update_group_watcher_def dest: ms_inv_run split: prod.splits sum.splits if_splits)
  show ?thesis
    by (auto simp: wh_update_watcher_group_def Let_def intro!: set_broadcast_kept set_storage_kept
        dest: ms_inv_run w split: prod.splits sum.splits option.splits)
qed

lemma sync_watchers_nm:
  "wa_notification_manager (sp_app (sync_watchers env h gi msg ws p)) = wa_notification_manager (sp_app p)"
  by (induction ws arbitrary: p) (simp_all add: sp_conflict_def sp_set_storage_def split: prod.split sum.split)

lemma sync_groups_nm:
  "wa_notification_manager (sp_app (fold (sync_group env h d inc frc) gds p)) = wa_notification_manager (sp_app p)"
proof (induction gds arbitrary: p)
  case Nil
  then show ?case by simp
next
  case (Cons gd gds)
  have "wa_notification_manager (sp_app (sync_group env h d inc frc gd p)) = wa_notification_manager (sp_app p)"
    using broadcast_kept(1) by (auto simp: sync_group_def sync_existing_group_def sync_new_group_def Let_def sp_conflict_def
        sp_broadcast_def sp_set_storage_def wapp_kept_def sync_watchers_nm split: prod.split sum.split option.split)
  then show ?case using Cons by simp
qed

lemma sync_body_kept: "wapp_kept a (snd (sync_body env d inc frc gs ps h a))"
proof -
  let ?a = "\<lparr>sp_app = a, sp_groups_updated = 0, sp_groups_created = 0, sp_presets_updated = 0,
            sp_total_operations = 0, sp_conflicts_detected = False, sp_conflict_details = []\<rparr>"
  let ?b = "fold (sync_group env h d inc frc) gs ?a"
  let ?p = "sync_presets env h d ps ?b"
  have out: "snd (sync_body env d inc frc gs ps h a) = sp_app ?p" by (simp add: sync_body_def Let_def)
  have start: "ms_inv (wa_storage a) \<Longrightarrow> sp_ok ?a" by (simp add: sp_ok_def wrap_i32_def)
  have "sp_presets_updated ?b = 0" by simp
  then have "ms_inv (wa_storage a) \<Longrightarrow> sp_ok ?p"
    using sync_presets_ok [of ?b env h d ps] sync_groups_ok [OF start] by blast
  then have "ms_inv (wa_storage a) \<Longrightarrow> ms_inv (wa_storage (sp_app ?p))" unfolding sp_ok_def by blast
  moreover have "wa_notification_manager (sp_app ?p) = wa_notification_manager a"
    using broadcast_kept(2) sync_groups_nm [of env h d inc frc gs ?a]
    by (simp add: sync_presets_def sp_set_storage_def sp_conflict_def Let_def wapp_kept_def split: prod.split sum.split)
  ultimately show ?thesis by (simp add: out wapp_kept_def)
qed

lemma sync_configuration_kept:
  "wh_sync_configuration env token d inc frc gs ps a = Some (r, a') \<Longrightarrow> wapp_kept a a'"
  unfolding wh_sync_configuration_def by (erule with_account_kept) (rule sync_body_kept)

section \<open>The invariant of the server\<close>

text \<open>
  The storage is well formed; every subscriber table has one channel per key; no channel serves
  two subscriptions and none has a number that is still to be given out; every login session is
  filed under its device and is either pending or complete; every tracked connection is filed
  under its own account and device, with its times in order.
\<close>

definition channels :: "notification_manager \<Rightarrow> chan list" where
  "channels nm = map snd (nm_file_update_subscribers nm) @ map snd (nm_watcher_group_update_subscribers nm) @
     map snd (nm_watcher_preset_update_subscribers nm)"

definition nm_inv :: "chan \<Rightarrow> notification_manager \<Rightarrow> bool" where
  "nm_inv n nm \<longleftrightarrow> hm_wf (nm_file_update_subscribers nm) \<and> hm_wf (nm_watcher_group_update_subscribers nm) \<and>
     hm_wf (nm_watcher_preset_update_subscribers nm) \<and> distinct (channels nm) \<and> (\<forall>c \<in> set (channels nm). c < n)"

definition server_inv :: "'x server \<times> datetime \<Rightarrow> bool" where
  "server_inv = (\<lambda>(sv, clk). ms_inv (sv_storage sv) \<and> nm_inv (sv_next_chan sv) (sv_nm sv) \<and>
     keyed_by session_ok (sv_sessions sv) \<and> ct_inv (sv_connections sv, clk))"

lemma insert_channels:
  assumes "hm_wf m" "distinct (map snd m)" "c \<notin> set (map snd m)"
  shows "distinct (map snd (hm_insert k c m))" "set (map snd (hm_insert k c m)) \<subseteq> insert c (set (map snd m))"
  using assms by (induction m) (auto simp: hm_insert_def hm_wf_def image_iff split: if_splits)

lemma remove_channels:
  "distinct (map snd m) \<Longrightarrow> distinct (map snd (hm_remove k m))" "set (map snd (hm_remove k m)) \<subseteq> set (map snd m)"
  for m :: "('k, chan) hashmap"
  by (induction m) (auto simp: hm_remove_def AList.delete_eq)

lemma nm_inv_Suc: "nm_inv n nm \<Longrightarrow> nm_inv (Suc n) nm"
  by (auto simp: nm_inv_def less_Suc_eq)

lemma swap_channels:
  fixes n :: chan
  assumes "distinct (pre @ A @ post)" "\<forall>c \<in> set (pre @ A @ post). c < n" "distinct R" "set R \<subseteq> insert n (set A)"
  shows "distinct (pre @ R @ post)" "\<forall>c \<in> set (pre @ R @ post). c < Suc n"
proof -
  have "n \<notin> set pre" "n \<notin> set post" using assms(2) by auto
  then show "distinct (pre @ R @ post)" using assms(1,3,4) by (simp add: disjoint_iff) blast
  show "\<forall>c \<in> set (pre @ R @ post). c < Suc n" using assms(2,4) less_Suc_eq by fastforce
qed

lemma insert_fresh:
  assumes "hm_wf m" "distinct (pre @ map snd m @ post)" "\<forall>c \<in> set (pre @ map snd m @ post). c < n"
  shows "distinct (pre @ map snd (hm_insert k n m) @ post) \<and> (\<forall>c \<in> set (pre @ map snd (hm_insert k n m) @ post). c < Suc n)"
proof -
  have "distinct (map snd m)" "n \<notin> set (map snd m)" using assms(2,3) by auto
  from insert_channels [OF assms(1) this, of k] show ?thesis using swap_channels [OF assms(2,3)] by blast
qed

lemma nm_inv_insert:
  assumes "nm_inv n nm"
  shows "nm_inv (Suc n) (nm\<lparr>nm_file_update_subscribers := hm_insert k n (nm_file_update_subscribers nm),
      nm_file_update_alias_accounts := al\<rparr>)"
    "nm_inv (Suc n) (nm\<lparr>nm_watcher_group_update_subscribers := hm_insert k n (nm_watcher_group_update_subscribers nm)\<rparr>)"
    "nm_inv (Suc n) (nm\<lparr>nm_watcher_preset_update_subscribers := hm_insert k n (nm_watcher_preset_update_subscribers nm)\<rparr>)"
proof -
  have wf: "hm_wf (nm_file_update_subscribers nm)" "hm_wf (nm_watcher_group_update_subscribers nm)"
      "hm_wf (nm_watcher_preset_update_subscribers nm)"
    and ch: "distinct (channels nm)" "\<forall>c \<in> set (channels nm). c < n"
    using assms by (simp_all add: nm_inv_def)
  note fresh = ch [unfolded channels_def]
  show "nm_inv (Suc n) (nm\<lparr>nm_file_update_subscribers := hm_insert k n (nm_file_update_subscribers nm),
      nm_file_update_alias_accounts := al\<rparr>)"
    using wf insert_fresh [OF wf(1), of "[]" "map snd (nm_watcher_group_update_subscribers nm) @
        map snd (nm_watcher_preset_update_subscribers nm)" n k] fresh by (simp add: nm_inv_def channels_def)
  show "nm_inv (Suc n) (nm\<lparr>nm_watcher_group_update_subscribers := hm_insert k n (nm_watcher_group_update_subscribers nm)\<rparr>)"
    using wf insert_fresh [OF wf(2) fresh, of k] by (simp add: nm_inv_def channels_def)
  show "nm_inv (Suc n) (nm\<lparr>nm_watcher_preset_update_subscribers := hm_insert k n (nm_watcher_preset_update_subscribers nm)\<rparr>)"
    using wf insert_fresh [OF wf(3), of "map snd (nm_file_update_subscribers nm) @ map snd (nm_watcher_group_update_subscribers nm)"
        "[]" n k] fresh by (simp add: nm_inv_def channels_def)
qed

lemma remove_kept:
  assumes "distinct (pre @ map snd m @ post)" "\<forall>c \<in> set (pre @ map snd m @ post). c < n"
  shows "distinct (pre @ map snd (hm_remove k m) @ post) \<and> (\<forall>c \<in> set (pre @ map snd (hm_remove k m) @ post). c < (n :: chan))"
proof -
  have sub: "set (map snd (hm_remove k m)) \<subseteq> set (map snd m)" by (rule remove_channels)
  moreover have "distinct (map snd (hm_remove k m))" by (rule remove_channels) (use assms(1) in simp)
  ultimately have "distinct (pre @ map snd (hm_remove k m) @ post)" using assms(1) unfolding distinct_append set_append by blast
  moreover have "\<forall>c \<in> set (pre @ map snd (hm_remove k m) @ post). c < n" using sub assms(2) unfolding set_append by blast
  ultimately show ?thesis ..
qed

lemma nm_inv_remove:
  assumes "nm_inv n nm"
  shows "nm_inv n (nm\<lparr>nm_file_update_subscribers := hm_remove k (nm_file_update_subscribers nm),
      nm_file_update_alias_accounts := al\<rparr>)"
    "nm_inv n (nm\<lparr>nm_watcher_group_update_subscribers := hm_remove k (nm_watcher_group_update_subscribers nm)\<rparr>)"
    "nm_inv n (nm\<lparr>nm_watcher_preset_update_subscribers := hm_remove k (nm_watcher_preset_update_subscribers nm)\<rparr>)"
proof -
  have wf: "hm_wf (nm_file_update_subscribers nm)" "hm_wf (nm_watcher_group_update_subscribers nm)"
      "hm_wf (nm_watcher_preset_update_subscribers nm)"
    and ch: "distinct (channels nm)" "\<forall>c \<in> set (channels nm). c < n"
    using assms by (simp_all add: nm_inv_def)
  note fresh = ch [unfolded channels_def]
  show "nm_inv n (nm\<lparr>nm_file_update_subscribers := hm_remove k (nm_file_update_subscribers nm),
      nm_file_update_alias_accounts := al\<rparr>)"
    using wf remove_kept [of "[]" "nm_file_update_subscribers nm" "map snd (nm_watcher_group_update_subscribers nm) @
        map snd (nm_watcher_preset_update_subscribers nm)" n k] fresh by (simp add: nm_inv_def channels_def)
  show "nm_inv n (nm\<lparr>nm_watcher_group_update_subscribers := hm_remove k (nm_watcher_group_update_subscribers nm)\<rparr>)"
    using wf remove_kept [OF fresh, of k] by (simp add: nm_inv_def channels_def)
  show "nm_inv n (nm\<lparr>nm_watcher_preset_update_subscribers := hm_remove k (nm_watcher_preset_update_subscribers nm)\<rparr>)"
    using wf remove_kept [of "map snd (nm_file_update_subscribers nm) @ map snd (nm_watcher_group_update_subscribers nm)"
        "nm_watcher_preset_update_subscribers nm" "[]" n k] fresh by (simp add: nm_inv_def channels_def)
qed

text \<open>Requests leave the sessions and connections to the few methods that own them.\<close>

lemma app_view: "sv_nm (set_app sv a) = sv_nm sv" "sv_sessions (set_app sv a) = sv_sessions sv"
  "sv_connections (set_app sv a) = sv_connections sv" "sv_next_chan (set_app sv a) = sv_next_chan sv"
  "sv_storage (set_app sv a) = ap_storage a" "ap_storage (as_app sv) = sv_storage sv"
  by (simp_all add: set_app_def as_app_def)

lemma wapp_view: "sv_nm (set_wapp sv a) = wa_notification_manager a" "sv_sessions (set_wapp sv a) = sv_sessions sv"
  "sv_connections (set_wapp sv a) = sv_connections sv" "sv_next_chan (set_wapp sv a) = sv_next_chan sv"
  "sv_storage (set_wapp sv a) = wa_storage a" "wa_storage (as_wapp sv) = sv_storage sv"
  "wa_notification_manager (as_wapp sv) = sv_nm sv"
  by (simp_all add: set_wapp_def as_wapp_def)

lemma ct_inv_later:
  assumes "ct_inv (m, clk)" "clk \<le> now"
  shows "ct_inv (m, now)" "ct_inv (snd (ct_register_connection now d h m), now)" "ct_inv (ct_update_sync_time now k m, now)"
    "ct_inv (ct_mark_disconnected now k m, now)" "ct_inv (ct_cleanup_old_connections now hrs m, now)"
proof -
  show "ct_inv (m, now)" using assms by (auto simp: ct_inv_def intro: keyed_by_mono conn_ok_mono)
qed (rule ct_inv_step [OF assms(1)], rule ct_step.intros, rule assms(2))+

lemma server_inv_storage:
  assumes "server_inv (sv, clk)" "clk \<le> now"
  shows "ms_inv s \<Longrightarrow> server_inv (sv\<lparr>sv_storage := s\<rparr>, now)" "server_inv (sv, now)"
    "ms_inv (ap_storage a) \<Longrightarrow> server_inv (set_app sv a, now)" "wapp_kept (as_wapp sv) b \<Longrightarrow> server_inv (set_wapp sv b, now)"
  using assms ct_inv_later(1) [OF _ assms(2)]
  by (auto simp: server_inv_def app_view wapp_view wapp_kept_def)

lemma subscriber_account_inv:
  assumes "subscriber_account env token sv = Some (r, sv')" "ms_inv (sv_storage sv)"
  shows "\<exists>s. sv' = sv\<lparr>sv_storage := s\<rparr> \<and> ms_inv s"
proof -
  obtain v s where s: "verify_token (sy_auth (sx_sys env)) (sy_now (sx_sys env)) token (sv_storage sv) = Some (v, s)"
    using assms(1) by (auto simp: subscriber_account_def sv_verify_def split: option.splits)
  then have "ms_inv s" using assms(2) by (rule verify_token_inv)
  then show ?thesis using s assms(1) by (auto simp: subscriber_account_def sv_verify_def split: sum.splits)
qed

lemma subscribe_files_inv:
  assumes "subscribe_to_file_updates env req sv = Some (r, sv')" "server_inv (sv, clk)" "clk \<le> sy_now (sx_sys env)"
  shows "server_inv (sv', sy_now (sx_sys env))"
proof -
  let ?now = "sy_now (sx_sys env)"
  obtain auth sv1 where auth: "subscriber_account env (sb_auth_token req) sv = Some (auth, sv1)"
    using assms(1) by (auto simp: subscribe_to_file_updates_def split: bind_splits)
  then obtain s where s: "sv1 = sv\<lparr>sv_storage := s\<rparr>" "ms_inv s"
    using subscriber_account_inv assms(2) by (fastforce simp: server_inv_def)
  show ?thesis
  proof (cases auth)
    case (Inl st)
    then show ?thesis using assms auth s server_inv_storage(1) [OF assms(2,3) s(2)] by (simp add: subscribe_to_file_updates_def)
  next
    case (Inr acct)
    let ?sv2 = "sv1\<lparr>sv_next_chan := sv_next_chan sv1 + 1, sv_connections := snd (ct_register_connection ?now
        (sb_device_hash req) acct (sv_connections sv1)),
        sv_nm := snd (register_file_update_subscriber_with_alias (device_key acct (sb_device_hash req)) (sv_next_chan sv1)
          (sb_account_hash req) (sv_nm sv1))\<rparr>"
    obtain x where run: "send_initial_file_sync env acct (sb_device_hash req)
        (if sb_since_ts req > 0 then Some (sb_since_ts req) else None) ?sv2 = Some (x, sv')"
      using assms(1) auth Inr
      by (auto simp: subscribe_to_file_updates_def register_file_update_subscriber_with_alias_def Let_def split: bind_splits)
    have "server_inv (?sv2, ?now)"
      using assms(2) s ct_inv_later(2) [OF _ assms(3)]
      by (auto simp: server_inv_def register_file_update_subscriber_with_alias_def nm_inv_insert(1))
    then show ?thesis using run by (elim send_initial_cases)
        (auto simp: server_inv_def ms_inv_devices ct_inv_later(3))
  qed
qed

lemma subscribe_watchers_inv:
  assumes "server_inv (sv, clk)" "clk \<le> now"
  shows "subscribe_to_watcher_preset_updates env req sv = Some (r, sv') \<Longrightarrow> server_inv (sv', now)"
    "subscribe_to_watcher_group_updates env req sv = Some (r, sv') \<Longrightarrow> server_inv (sv', now)"
proof -
  have nm: "nm_inv (sv_next_chan sv) (sv_nm sv)" and inv: "ms_inv (sv_storage sv)" and ct: "ct_inv (sv_connections sv, now)"
    using assms ct_inv_later(1) by (auto simp: server_inv_def)
  show "subscribe_to_watcher_preset_updates env req sv = Some (r, sv') \<Longrightarrow> server_inv (sv', now)"
    using assms(1) nm_inv_insert(3) [OF nm_inv_remove(3) [OF nm]] nm ct
    by (auto simp: subscribe_to_watcher_preset_updates_def unregister_watcher_preset_update_subscriber_def
        register_watcher_preset_update_subscriber_def Let_def server_inv_def dest!: subscriber_account_inv [OF _ inv]
        split: bind_splits sum.splits)
  show "subscribe_to_watcher_group_updates env req sv = Some (r, sv') \<Longrightarrow> server_inv (sv', now)"
    using assms(1) nm_inv_insert(2) [OF nm_inv_remove(2) [OF nm]] nm ct
    by (auto simp: subscribe_to_watcher_group_updates_def unregister_watcher_group_update_subscriber_def
        register_watcher_group_update_subscriber_def Let_def server_inv_def dest!: subscriber_account_inv [OF _ inv]
        split: bind_splits sum.splits)
qed

lemma handlers_kept_run:
  "wh_register_watcher_group env h d gi title wd a = (r, a') \<Longrightarrow> wapp_kept a a'"
  "wh_update_watcher_group env h d gi title wd a = (r, a') \<Longrightarrow> wapp_kept a a'"
  "wh_delete_watcher_group env h d gi a = (r, a') \<Longrightarrow> wapp_kept a a'"
  "dh_update_device_info env regs q a = (u, a') \<Longrightarrow> wapp_kept a a'"
  using group_handlers_kept update_group_kept device_handlers_kept(3) by (metis snd_conv)+

lemma rpc_inv:
  assumes "rpc g q sv = Some (r, sv')" "server_inv (sv, clk)" "clk \<le> gv_now g"
  shows "server_inv (sv', gv_now g)"
proof -
  note keep = server_inv_storage [OF assms(2,3)]
  have inv: "ms_inv (sv_storage sv)" "ms_inv (ap_storage (as_app sv))" using assms(2) by (simp_all add: server_inv_def app_view)
  have sessions: "server_inv (sv\<lparr>sv_sessions := m\<rparr>, gv_now g)" if "keyed_by session_ok m" for m
    using keep(2) that by (simp add: server_inv_def)
  have sess: "keyed_by session_ok (sv_sessions sv)" using assms(2) by (simp add: server_inv_def)
  have files: "subscribe_to_file_updates (gv_service g) req sv = Some (x, sv') \<Longrightarrow> server_inv (sv', gv_now g)" for req x
    using subscribe_files_inv assms(2,3) unfolding gv_now_def gv_sys_def by blast
  note watchers = subscribe_watchers_inv [OF assms(2,3)]
  note views = on_storage_def on_app_def on_wapp_def on_stream_def
  show ?thesis
  proof (cases q)
    case (R_CheckAuthStatus d)
    then show ?thesis using assms(1) sessions [OF check_inv [OF sess]] by (auto split: prod.splits) (metis snd_conv)
  qed (use assms(1) keep(2) in \<open>auto simp: views intro!: keep(1,3,4)
      dest!: login_handlers_inv [OF inv(1)] file_handlers_inv [OF inv(2)] sync_handlers_inv [OF inv(2)]
      device_handlers_kept(1,2) preset_handlers_kept handlers_kept_run sync_configuration_kept files watchers
      split: prod.splits\<close>)
qed

section \<open>Runs of the server\<close>

text \<open>
  A run interleaves requests, the HTTP login handlers, the timers of the subscriptions and the
  cleanup of old connections, each at a time not before the last one; hash maps may be reordered
  at any moment.  A request is one step: the handlers hold the locks they need only briefly, and
  what another request does in between is another interleaving of the same operations.
\<close>

definition as_login :: "'x server \<Rightarrow> login_app" where
  "as_login sv = \<lparr>la_storage = sv_storage sv, la_sessions = sv_sessions sv\<rparr>"

definition set_login :: "'x server \<Rightarrow> login_app \<Rightarrow> 'x server" where
  "set_login sv a = sv\<lparr>sv_storage := la_storage a, sv_sessions := la_sessions a\<rparr>"

inductive server_step :: "'x server \<times> datetime \<Rightarrow> 'x server \<times> datetime \<Rightarrow> bool" where
  request: "rpc g q sv = Some (r, sv') \<Longrightarrow> clk \<le> gv_now g \<Longrightarrow> server_step (sv, clk) (sv', gv_now g)"
| callback: "http_oauth_callback ul env q (as_login sv) = Some (r, a) \<Longrightarrow> clk \<le> now \<Longrightarrow>
    server_step (sv, clk) (set_login sv a, now)"
| session: "clk \<le> now \<Longrightarrow>
    server_step (sv, clk) (sv\<lparr>sv_sessions := snd (http_register_session oc now d c (sv_sessions sv))\<rparr>, now)"
| poll: "clk \<le> now \<Longrightarrow>
    server_step (sv, clk) (sv\<lparr>sv_sessions := snd (http_check_auth_status now u d (sv_sessions sv))\<rparr>, now)"
| timeout: "clk \<le> now \<Longrightarrow> server_step (sv, clk) (subscription_timeout now k sv, now)"
| keep_alive: "server_step (sv, clk) (keep_alive_end k sv, clk)"
| cleanup: "clk \<le> now \<Longrightarrow>
    server_step (sv, clk) (sv\<lparr>sv_connections := ct_cleanup_old_connections now hrs (sv_connections sv)\<rparr>, now)"
| reorder: "ms_reorder (sv_storage sv) s \<Longrightarrow> server_step (sv, clk) (sv\<lparr>sv_storage := s\<rparr>, clk)"

lemma callback_storage:
  assumes "http_oauth_callback ul env q a = Some (r, a')" "ms_inv (la_storage a)"
  shows "ms_inv (la_storage a')"
proof -
  have p: "process_oauth_code (memory_login ul) env c h (la_storage a) = Some (x, s) \<Longrightarrow> ms_inv s" for c h x s
    using process_oauth_code_inv assms(2) by blast
  show ?thesis using assms
    by (auto simp: http_oauth_callback_def Let_def dest!: p split: option.splits bind_splits sum.splits)
qed

lemma server_inv_step: "server_inv s \<Longrightarrow> server_step s t \<Longrightarrow> server_inv t"
proof (erule server_step.cases, goal_cases)
  case (1 g q sv r sv' clk)
  then show ?case using rpc_inv by blast
next
  case (2 ul env q sv r a clk now)
  then show ?case using callback_storage [OF 2(4)] callback_inv [OF 2(4)] ct_inv_later(1)
    by (auto simp: server_inv_def as_login_def set_login_def)
next
  case (4 clk now sv u d)
  then show ?case using check_inv ct_inv_later(1)
    by (auto simp: server_inv_def http_check_auth_status_def split: prod.splits) (metis snd_conv)+
qed (auto simp: server_inv_def http_register_session_def subscription_timeout_def keep_alive_end_def
    unregister_file_update_subscriber_def unregister_watcher_group_update_subscriber_def nm_inv_remove ct_inv_later
    intro: ms_inv_reorder)

definition server_start :: "'x option \<Rightarrow> datetime \<Rightarrow> 'x server \<times> datetime" where
  "server_start x clk = (server_new x, clk)"

interpretation server: invariant_system "server_start x clk" server_step server_inv
proof
  show "server_inv (server_start x clk)"
    by (simp add: server_inv_def server_start_def server_new_def ms_inv_new nm_inv_def channels_def nm_new_with_storage_def ct_inv_def)
qed (rule server_inv_step)

text \<open>
  C2: in every state the server can reach from its start, whatever requests, logins, polls,
  timeouts and cleanups happened in whatever order, the storage is well formed, every subscriber
  table has one channel per key, no channel serves two subscriptions or is still to be given out,
  every login session is filed under its device with a lifetime of 24 hours and is either pending
  or complete, and every tracked connection is filed under its own account and device with its
  times in order.
\<close>
theorem server_well_formed:
  assumes "reach (server_start x clk) server_step (sv, now)"
  shows "ms_inv (sv_storage sv) \<and> hm_wf (nm_file_update_subscribers (sv_nm sv)) \<and>
    distinct (channels (sv_nm sv)) \<and> (\<forall>c \<in> set (channels (sv_nm sv)). c < sv_next_chan sv) \<and>
    keyed_by session_ok (sv_sessions sv) \<and> keyed_by (conn_ok now) (sv_connections sv)"
  using server.reach_inv [OF assms] by (simp add: server_inv_def nm_inv_def ct_inv_def)

theorem server_well_formed_witness:
  "keyed_by session_ok [(''d'', pending_session 7 ''d'' ''c'')]"
proof -
  let ?sv = "(server_new None :: unit server)\<lparr>sv_sessions := [(''d'', pending_session 7 ''d'' ''c'')]\<rparr>"
  have "server_step (server_new None :: unit server, 5) (server_new None\<lparr>sv_sessions :=
      snd (http_register_session oc 7 ''d'' ''c'' (sv_sessions (server_new None :: unit server)))\<rparr>, 7)" for oc
    by (rule session) simp
  then have "server_step (server_start None 5) (?sv, 7)"
    by (simp add: server_start_def server_new_def http_register_session_def hm_contains_def hm_get_def hm_insert_def)
  then have "reach (server_start None 5) server_step (?sv, 7)" by (intro reach_step [OF reach_init])
  from server_well_formed [OF this] show ?thesis by simp
qed

section \<open>Requests without a valid token\<close>





lemma set_as [simp]: "set_app sv (as_app sv) = sv" "set_wapp sv (as_wapp sv) = sv"
  by (simp_all add: set_app_def as_app_def set_wapp_def as_wapp_def)





section \<open>Token validation\<close>

text \<open>
  The method \<^verbatim>\<open>ValidateToken\<close> answers every request with \<^verbatim>\<open>Unimplemented\<close>, also one with a live
  token for which the handler written for it reports the account.
\<close>

lemma validate_token_unimplemented:
  assumes "list_all is_ascii token" "\<not> av_debug_assertions (sy_auth (gv_sys g))" "token \<noteq> []"
    and "token_live (gv_now g) token (sv_storage sv) acct"
  shows "\<exists>s. ah_validate_token (gv_lenv g) token (sv_storage sv) = Some (Ok (True, acct), s)"
    "rpc g (R_ValidateToken token) sv =
       Some (P_ValidateToken (Err (mk_status C_Unimplemented ''handle_validate_token method is not implemented'')), sv)"
proof -
  have lenv: "le_auth (gv_lenv g) = sy_auth (gv_sys g)" "le_now (gv_lenv g) = gv_now g" by (simp_all add: gv_lenv_def)
  obtain v s where "verify_token (sy_auth (gv_sys g)) (gv_now g) token (sv_storage sv) = Some (Ok v, s)"
    "vr_valid v \<and> vr_account_hash v = acct"
    using verify_token_char [OF assms(1,2), of "gv_now g" "sv_storage sv"] assms(3,4) by blast
  then show "\<exists>s. ah_validate_token (gv_lenv g) token (sv_storage sv) = Some (Ok (True, acct), s)"
    using assms(3) by (simp add: ah_validate_token_def lenv)
qed (simp add: handler_handle_validate_token_def)

section \<open>A small service\<close>



end
