(* ===== verification/File_Store.thy ===== *)
theory File_Store
  imports Settings
begin

text \<open>
  The stores of file contents of \<^verbatim>\<open>src/storage/file_storage.rs\<close>: as rows of the database and as
  objects of S3.  The S3 service is a parameter: one function per request, on an abstract state of the
  service, whose answer distinguishes the cases the code distinguishes and carries the text of an error.
\<close>

section \<open>The contract of a store\<close>

text \<open>
  What a client may expect: \<open>view\<close> is the stored content of an identifier.  A store that succeeds has
  stored the content, other files are not touched, and a read that succeeds returns what is stored.
  \<open>valid\<close> are the identifiers for which this holds.
\<close>

locale blob_store =
  fixes store :: "u64 \<Rightarrow> bytes \<Rightarrow> 's \<Rightarrow> string sres \<times> 's"
    and read :: "u64 \<Rightarrow> 's \<Rightarrow> bytes option sres \<times> 's"
    and view :: "'s \<Rightarrow> u64 \<Rightarrow> bytes option"
    and valid :: "u64 \<Rightarrow> bool"
  assumes store_stores: "store i d s = (Ok l, s') \<Longrightarrow> valid i \<Longrightarrow> view s' i = Some d"
    and store_other: "store i d s = (r, s') \<Longrightarrow> j \<noteq> i \<Longrightarrow> view s' j = view s j"
    and read_sound: "read i s = (Ok x, s') \<Longrightarrow> x = view s i"
    and read_keeps: "read i s = (r', s') \<Longrightarrow> view s' = view s"
begin

text \<open>Other requests between a write and a read: reads, and writes of other files.\<close>

inductive others :: "u64 \<Rightarrow> 's \<Rightarrow> 's \<Rightarrow> bool" for i where
  done_here: "others i s s"
| other_store: "others i s s' \<Longrightarrow> store j d s' = (r, s'') \<Longrightarrow> j \<noteq> i \<Longrightarrow> others i s s''"
| other_read: "others i s s' \<Longrightarrow> read j s' = (r', s'') \<Longrightarrow> others i s s''"

lemma others_view: "others i s s' \<Longrightarrow> view s' i = view s i"
proof (induction rule: others.induct)
  case (other_store s s' j d r s'')
  then show ?case using store_other [of j d s' r s'' i] by simp
next
  case (other_read s s' j r' s'')
  then show ?case using read_keeps by metis
qed simp

lemma read_your_write:
  assumes "store i d s = (Ok l, s1)" "valid i" "others i s1 s2" "read i s2 = (Ok x, s3)"
  shows "x = Some d"
  using read_sound [OF assms(4)] others_view [OF assms(3)] store_stores [OF assms(1, 2)] by simp

end

section \<open>Contents in the database\<close>

definition db_store_file_data :: "mysql \<Rightarrow> u64 \<Rightarrow> bytes \<Rightarrow> (u64 \<times> bytes) list \<Rightarrow> string sres \<times> (u64 \<times> bytes) list" where
  "db_store_file_data my file_id data t =
     (case my_store_file_data my file_id data t of (Inl e, t') \<Rightarrow> (Err e, t') | (Inr _, t') \<Rightarrow> (Ok (''db:'' @ show_u64 file_id), t'))"

definition db_store_file_data_with_options ::
  "mysql \<Rightarrow> u64 \<Rightarrow> bytes \<Rightarrow> bool \<Rightarrow> (u64 \<times> bytes) list \<Rightarrow> string sres \<times> (u64 \<times> bytes) list" where
  "db_store_file_data_with_options my file_id data compress t = db_store_file_data my file_id data t"

definition db_get_file_data :: "mysql \<Rightarrow> u64 \<Rightarrow> (u64 \<times> bytes) list \<Rightarrow> bytes option sres" where
  "db_get_file_data my file_id t = my_get_file_data my file_id t"

text \<open>Nothing is deleted.\<close>

definition db_delete_file_data :: "u64 \<Rightarrow> (u64 \<times> bytes) list \<Rightarrow> unit sres \<times> (u64 \<times> bytes) list" where
  "db_delete_file_data file_id t = (Ok (), t)"

fun db_batch_delete_file_data :: "u64 list \<Rightarrow> (u64 \<times> bytes) list \<Rightarrow> (u64 \<times> bool) list sres \<times> (u64 \<times> bytes) list" where
  "db_batch_delete_file_data [] t = (Ok [], t)"
| "db_batch_delete_file_data (i # is) t =
     (case db_delete_file_data i t of (r, t1) \<Rightarrow>
        (case db_batch_delete_file_data is t1 of
           (Inr rs, t2) \<Rightarrow> (Ok ((i, case r of Inr _ \<Rightarrow> True | Inl _ \<Rightarrow> False) # rs), t2)
         | (Inl e, t2) \<Rightarrow> (Err e, t2)))"

definition db_file_data_exists :: "mysql \<Rightarrow> u64 \<Rightarrow> (u64 \<times> bytes) list \<Rightarrow> bool sres" where
  "db_file_data_exists my file_id t = (case my_get_file_data my file_id t of Inl e \<Rightarrow> Err e | Inr x \<Rightarrow> Ok (x \<noteq> None))"

definition db_get_file_size :: "mysql \<Rightarrow> u64 \<Rightarrow> (u64 \<times> bytes) list \<Rightarrow> u64 option sres" where
  "db_get_file_size my file_id t =
     (case my_get_file_data my file_id t of Inl e \<Rightarrow> Err e | Inr x \<Rightarrow> Ok (map_option (\<lambda>d. of_nat (length d)) x))"

definition db_health_check :: "mysql \<Rightarrow> (u64 \<times> bytes) list \<Rightarrow> unit sres" where
  "db_health_check my t =
     (case my_get_file_data my 0 t of Inr _ \<Rightarrow> Ok () | Inl (SE_NotFound _) \<Rightarrow> Ok () | Inl e \<Rightarrow> Err e)"

text \<open>Rows are found by the identifier as a signed number.\<close>

definition db_view :: "(u64 \<times> bytes) list \<Rightarrow> u64 \<Rightarrow> bytes option" where
  "db_view t i = map_option snd (find (\<lambda>(k, _). uint k = as_i64 i) t)"

text \<open>The store over time: \<open>mys n\<close> is the database at request \<open>n\<close>.\<close>

definition db_store_at :: "(nat \<Rightarrow> mysql) \<Rightarrow> u64 \<Rightarrow> bytes \<Rightarrow> (u64 \<times> bytes) list \<times> nat \<Rightarrow> string sres \<times> (u64 \<times> bytes) list \<times> nat" where
  "db_store_at mys i d s = (case db_store_file_data (mys (snd s)) i d (fst s) of (r, t) \<Rightarrow> (r, t, snd s + 1))"

definition db_read_at :: "(nat \<Rightarrow> mysql) \<Rightarrow> u64 \<Rightarrow> (u64 \<times> bytes) list \<times> nat \<Rightarrow> bytes option sres \<times> (u64 \<times> bytes) list \<times> nat" where
  "db_read_at mys i s = (db_get_file_data (mys (snd s)) i (fst s), fst s, snd s + 1)"

lemma as_i64_nonneg: "0 \<le> as_i64 i \<Longrightarrow> as_i64 i = uint i"
  using uint_sint [of i] sint_lt [of i] by (simp add: as_i64_def take_bit_int_eq_self)

lemma db_view_value: "db_view t i = (if 0 \<le> as_i64 i then row_value t i else None)"
proof (cases "0 \<le> as_i64 i")
  case True
  then have "(\<lambda>(k, _ :: bytes). uint k = as_i64 i) = (\<lambda>(k, _). k = i)" by (auto simp: as_i64_nonneg fun_eq_iff word_uint_eq_iff)
  then show ?thesis using True by (simp add: db_view_def row_value_def)
next
  case False
  then have "uint k \<noteq> as_i64 i" for k :: u64 using uint_ge_0 [of k] by linarith
  then show ?thesis using False by (simp add: db_view_def find_None_iff)
qed

interpretation db_blobs: blob_store "db_store_at mys" "db_read_at mys" "\<lambda>s. db_view (fst s)" "\<lambda>i. 0 \<le> as_i64 i" for mys
  by unfold_locales
    (auto simp: db_store_at_def db_read_at_def db_store_file_data_def db_get_file_data_def my_store_file_data_def my_get_file_data_def
      stmt_def db_view_value db_view_value [unfolded db_view_def] row_value_upsert split: sum.splits prod.splits option.splits)

section \<open>Contents in S3\<close>

text \<open>The settings of a client.\<close>

record s3_client =
  sl_region :: string
  sl_credentials :: "(string \<times> string \<times> string option) option"
  sl_endpoint_url :: "string option"
  sl_force_path_style :: bool

datatype head_bucket_answer = HB_Ok | HB_NotFound string | HB_Error string
datatype create_bucket_answer = CB_Ok | CB_AlreadyExists | CB_OwnedByYou | CB_Error string
datatype get_answer = GO_Body bytes | GO_Broken string | GO_NoSuchKey | GO_Error string
datatype head_object_answer = HO_Ok "i64 option" | HO_NotFound | HO_Error string

text \<open>
  The requests, each by the client and the bucket.  A bucket is created with an optional location
  constraint; the other arguments are the key of the object and its content.
\<close>

record 'w s3_service =
  sv_head_bucket :: "s3_client \<Rightarrow> string \<Rightarrow> 'w \<Rightarrow> head_bucket_answer \<times> 'w"
  sv_create_bucket :: "s3_client \<Rightarrow> string \<Rightarrow> string option \<Rightarrow> 'w \<Rightarrow> create_bucket_answer \<times> 'w"
  sv_put_object :: "s3_client \<Rightarrow> string \<Rightarrow> string \<Rightarrow> bytes \<Rightarrow> 'w \<Rightarrow> (string, unit) result \<times> 'w"
  sv_get_object :: "s3_client \<Rightarrow> string \<Rightarrow> string \<Rightarrow> 'w \<Rightarrow> get_answer \<times> 'w"
  sv_delete_object :: "s3_client \<Rightarrow> string \<Rightarrow> string \<Rightarrow> 'w \<Rightarrow> (string, unit) result \<times> 'w"
  sv_head_object :: "s3_client \<Rightarrow> string \<Rightarrow> string \<Rightarrow> 'w \<Rightarrow> head_object_answer \<times> 'w"
  sv_list_objects :: "s3_client \<Rightarrow> string \<Rightarrow> 'w \<Rightarrow> (string, unit) result \<times> 'w"

text \<open>The state of the store: the two cells that are filled once, and the service.\<close>

record 'w s3_store =
  ss_client :: "(storage_error, s3_client) result option"
  ss_bucket_ready :: "unit sres option"
  ss_service :: 'w

definition s3_new :: "'w \<Rightarrow> 'w s3_store" where
  "s3_new w = \<lparr>ss_client = None, ss_bucket_ready = None, ss_service = w\<rparr>"

definition create_s3_client :: "s3_config \<Rightarrow> s3_client sres" where
  "create_s3_client c =
     Ok \<lparr>sl_region = s3_region c,
         sl_credentials =
           (case (s3_access_key_id c, s3_secret_access_key c) of
              (Some a, Some k) \<Rightarrow> Some (a, k, s3_session_token c) | _ \<Rightarrow> None),
         sl_endpoint_url = s3_endpoint_url c, sl_force_path_style = s3_force_path_style c\<rparr>"

definition get_client :: "s3_config \<Rightarrow> 'w s3_store \<Rightarrow> s3_client sres \<times> 'w s3_store" where
  "get_client c st =
     (let r = (case ss_client st of Some r \<Rightarrow> r | None \<Rightarrow> create_s3_client c); st' = st\<lparr>ss_client := Some r\<rparr> in
      case r of
        Inr cl \<Rightarrow> (Ok cl, st')
      | Inl e \<Rightarrow> (Err (SE_S3Error (''Failed to initialize S3 client: '' @ storage_error_display e)), st'))"

definition is_minio :: "s3_config \<Rightarrow> bool" where
  "is_minio c =
     (case s3_endpoint_url c of
        Some url \<Rightarrow> str_contains url ''minio'' \<or> str_contains url ''localhost'' \<or> str_contains url ''127.0.0.1''
      | None \<Rightarrow> False)"

text \<open>A request with the client: the service advances.\<close>

definition with_client ::
  "s3_config \<Rightarrow> (s3_client \<Rightarrow> 'w \<Rightarrow> 'a \<times> 'w) \<Rightarrow> ('a \<Rightarrow> 'b sres) \<Rightarrow> 'w s3_store \<Rightarrow> 'b sres \<times> 'w s3_store" where
  "with_client c request answer st =
     (case get_client c st of
        (Inl e, st1) \<Rightarrow> (Err e, st1)
      | (Inr cl, st1) \<Rightarrow> (case request cl (ss_service st1) of (a, w) \<Rightarrow> (answer a, st1\<lparr>ss_service := w\<rparr>)))"

definition create_bucket :: "'w s3_service \<Rightarrow> s3_config \<Rightarrow> 'w s3_store \<Rightarrow> unit sres \<times> 'w s3_store" where
  "create_bucket sv c =
     (let constraint = (if s3_region c \<noteq> ''us-east-1'' \<and> \<not> is_minio c then Some (s3_region c) else None) in
      with_client c (\<lambda>cl. sv_create_bucket sv cl (s3_bucket c) constraint)
        (\<lambda>a. case a of
           CB_Ok \<Rightarrow> Ok ()
         | CB_AlreadyExists \<Rightarrow> Err (SE_S3Error (''Bucket already exists: '' @ s3_bucket c))
         | CB_OwnedByYou \<Rightarrow> Ok ()
         | CB_Error e \<Rightarrow> Err (SE_S3Error (''Failed to create bucket: '' @ e))))"

definition ensure_bucket_exists :: "'w s3_service \<Rightarrow> s3_config \<Rightarrow> 'w s3_store \<Rightarrow> unit sres \<times> 'w s3_store" where
  "ensure_bucket_exists sv c st =
     (case with_client c (\<lambda>cl. sv_head_bucket sv cl (s3_bucket c)) Ok st of
        (Inl e, st1) \<Rightarrow> (Err e, st1)
      | (Inr HB_Ok, st1) \<Rightarrow> (Ok (), st1)
      | (Inr (HB_NotFound _), st1) \<Rightarrow> create_bucket sv c st1
      | (Inr (HB_Error e), st1) \<Rightarrow> (Err (SE_S3Error (''Failed to check bucket existence: '' @ e)), st1))"

text \<open>The cell keeps the first result, also when it is an error.\<close>

definition ensure_bucket_exists_once :: "'w s3_service \<Rightarrow> s3_config \<Rightarrow> 'w s3_store \<Rightarrow> unit sres \<times> 'w s3_store" where
  "ensure_bucket_exists_once sv c st =
     (case (case ss_bucket_ready st of
              Some r \<Rightarrow> (r, st)
            | None \<Rightarrow> (case ensure_bucket_exists sv c st of (r, st1) \<Rightarrow> (r, st1\<lparr>ss_bucket_ready := Some r\<rparr>))) of
        (Inr _, st1) \<Rightarrow> (Ok (), st1)
      | (Inl e, st1) \<Rightarrow> (Err (SE_S3Error (''Bucket ensure failed: '' @ storage_error_display e)), st1))"

definition upload_to_s3 :: "'w s3_service \<Rightarrow> s3_config \<Rightarrow> string \<Rightarrow> bytes \<Rightarrow> 'w s3_store \<Rightarrow> string sres \<times> 'w s3_store" where
  "upload_to_s3 sv c s3_key data st =
     (case ensure_bucket_exists_once sv c st of
        (Inl e, st1) \<Rightarrow> (Err e, st1)
      | (Inr _, st1) \<Rightarrow>
          with_client c (\<lambda>cl. sv_put_object sv cl (s3_bucket c) s3_key data)
            (\<lambda>a. case a of Inr _ \<Rightarrow> Ok (''s3:'' @ s3_key) | Inl e \<Rightarrow> Err (SE_S3Error (''Failed to store file in S3: '' @ e))) st1)"

definition generate_s3_key :: "s3_config \<Rightarrow> u64 \<Rightarrow> string" where
  "generate_s3_key c file_id = s3_key_prefix c @ show_u64 file_id"

definition bucket_missing :: "storage_error \<Rightarrow> bool" where
  "bucket_missing e \<longleftrightarrow>
     (case e of SE_S3Error msg \<Rightarrow> str_contains msg ''NoSuchBucket'' \<or> str_contains msg ''BucketNotFound'' | _ \<Rightarrow> False)"

definition s3_store_file_data :: "'w s3_service \<Rightarrow> s3_config \<Rightarrow> u64 \<Rightarrow> bytes \<Rightarrow> 'w s3_store \<Rightarrow> string sres \<times> 'w s3_store" where
  "s3_store_file_data sv c file_id data st =
     (let s3_key = generate_s3_key c file_id in
      case upload_to_s3 sv c s3_key data st of
        (Inr l, st1) \<Rightarrow> (Ok l, st1)
      | (Inl e, st1) \<Rightarrow>
          (if bucket_missing e then
             (case create_bucket sv c st1 of
                (Inl e', st2) \<Rightarrow> (Err e', st2)
              | (Inr _, st2) \<Rightarrow> upload_to_s3 sv c s3_key data st2)
           else (Err e, st1)))"

definition s3_get_file_data :: "'w s3_service \<Rightarrow> s3_config \<Rightarrow> u64 \<Rightarrow> 'w s3_store \<Rightarrow> bytes option sres \<times> 'w s3_store" where
  "s3_get_file_data sv c file_id =
     with_client c (\<lambda>cl. sv_get_object sv cl (s3_bucket c) (generate_s3_key c file_id))
       (\<lambda>a. case a of
          GO_Body d \<Rightarrow> Ok (Some d)
        | GO_Broken e \<Rightarrow> Err (SE_S3Error (''Failed to read response: '' @ e))
        | GO_NoSuchKey \<Rightarrow> Ok None
        | GO_Error e \<Rightarrow> Err (SE_S3Error (''Failed to download file: '' @ e)))"

text \<open>Every error of the deletion counts as success.\<close>

definition s3_delete_file_data :: "'w s3_service \<Rightarrow> s3_config \<Rightarrow> u64 \<Rightarrow> 'w s3_store \<Rightarrow> unit sres \<times> 'w s3_store" where
  "s3_delete_file_data sv c file_id =
     with_client c (\<lambda>cl. sv_delete_object sv cl (s3_bucket c) (generate_s3_key c file_id)) (\<lambda>_. Ok ())"

definition s3_file_data_exists :: "'w s3_service \<Rightarrow> s3_config \<Rightarrow> u64 \<Rightarrow> 'w s3_store \<Rightarrow> bool sres \<times> 'w s3_store" where
  "s3_file_data_exists sv c file_id =
     with_client c (\<lambda>cl. sv_head_object sv cl (s3_bucket c) (generate_s3_key c file_id))
       (\<lambda>a. case a of
          HO_Ok _ \<Rightarrow> Ok True
        | HO_NotFound \<Rightarrow> Ok False
        | HO_Error e \<Rightarrow> Err (SE_S3Error (''Failed to check file existence: '' @ e)))"

definition s3_get_file_size :: "'w s3_service \<Rightarrow> s3_config \<Rightarrow> u64 \<Rightarrow> 'w s3_store \<Rightarrow> u64 option sres \<times> 'w s3_store" where
  "s3_get_file_size sv c file_id =
     with_client c (\<lambda>cl. sv_head_object sv cl (s3_bucket c) (generate_s3_key c file_id))
       (\<lambda>a. case a of
          HO_Ok n \<Rightarrow> Ok (Some (word_of_int (case n of Some n \<Rightarrow> n | None \<Rightarrow> 0)))
        | HO_NotFound \<Rightarrow> Ok None
        | HO_Error e \<Rightarrow> Err (SE_S3Error (''Failed to get file size: '' @ e)))"

definition s3_health_check :: "'w s3_service \<Rightarrow> s3_config \<Rightarrow> 'w s3_store \<Rightarrow> unit sres \<times> 'w s3_store" where
  "s3_health_check sv c st =
     (case with_client c (\<lambda>cl. sv_head_bucket sv cl (s3_bucket c)) Ok st of
        (Inl e, st1) \<Rightarrow> (Err e, st1)
      | (Inr HB_Ok, st1) \<Rightarrow>
          with_client c (\<lambda>cl. sv_list_objects sv cl (s3_bucket c))
            (\<lambda>a. case a of Inr _ \<Rightarrow> Ok () | Inl e \<Rightarrow> Err (SE_S3Error (''Health check failed: '' @ e))) st1
      | (Inr (HB_NotFound e), st1) \<Rightarrow> (Err (SE_S3Error (''Bucket health check failed: '' @ e)), st1)
      | (Inr (HB_Error e), st1) \<Rightarrow> (Err (SE_S3Error (''Bucket health check failed: '' @ e)), st1))"

definition s3_store_file_data_with_options ::
  "'w s3_service \<Rightarrow> s3_config \<Rightarrow> u64 \<Rightarrow> bytes \<Rightarrow> bool \<Rightarrow> 'w s3_store \<Rightarrow> string sres \<times> 'w s3_store" where
  "s3_store_file_data_with_options sv c file_id data compress = s3_store_file_data sv c file_id data"

fun s3_batch_delete_file_data :: "'w s3_service \<Rightarrow> s3_config \<Rightarrow> u64 list \<Rightarrow> 'w s3_store \<Rightarrow> (u64 \<times> bool) list sres \<times> 'w s3_store" where
  "s3_batch_delete_file_data sv c [] st = (Ok [], st)"
| "s3_batch_delete_file_data sv c (i # is) st =
     (case s3_delete_file_data sv c i st of (r, st1) \<Rightarrow>
        (case s3_batch_delete_file_data sv c is st1 of
           (Inr rs, st2) \<Rightarrow> (Ok ((i, case r of Inr _ \<Rightarrow> True | Inl _ \<Rightarrow> False) # rs), st2)
         | (Inl e, st2) \<Rightarrow> (Err e, st2)))"

section \<open>What S3 promises\<close>

text \<open>
  \<open>objs w b k\<close> is the object with the key \<open>k\<close> in the bucket \<open>b\<close>.  A successful write has written, a
  successful deletion deleted, and one that fails may have done so or not, but touched nothing else; a
  read returns what is there.  Requests about buckets change no object.
\<close>

definition s3_objects :: "'w s3_service \<Rightarrow> ('w \<Rightarrow> string \<Rightarrow> string \<Rightarrow> bytes option) \<Rightarrow> bool" where
  "s3_objects sv objs \<longleftrightarrow>
     (\<forall>cl b w. objs (snd (sv_head_bucket sv cl b w)) = objs w \<and> objs (snd (sv_list_objects sv cl b w)) = objs w) \<and>
     (\<forall>cl b l w. objs (snd (sv_create_bucket sv cl b l w)) = objs w) \<and>
     (\<forall>cl b k d w r w'. sv_put_object sv cl b k d w = (r, w') \<longrightarrow>
        (\<forall>k'. k' \<noteq> k \<longrightarrow> objs w' b k' = objs w b k') \<and> (r = Ok () \<longrightarrow> objs w' b k = Some d)) \<and>
     (\<forall>cl b k w r w'. sv_get_object sv cl b k w = (r, w') \<longrightarrow> objs w' = objs w \<and>
        (\<forall>d. r = GO_Body d \<longrightarrow> objs w b k = Some d) \<and> (r = GO_NoSuchKey \<longrightarrow> objs w b k = None)) \<and>
     (\<forall>cl b k w r w'. sv_delete_object sv cl b k w = (r, w') \<longrightarrow>
        (\<forall>k'. k' \<noteq> k \<longrightarrow> objs w' b k' = objs w b k') \<and> (r = Ok () \<longrightarrow> objs w' b k = None)) \<and>
     (\<forall>cl b k w r w'. sv_head_object sv cl b k w = (r, w') \<longrightarrow> objs w' = objs w \<and>
        (\<forall>n. r = HO_Ok n \<longrightarrow> (\<exists>d. objs w b k = Some d \<and> (\<forall>m. n = Some m \<longrightarrow> m = int (length d)))) \<and> (r = HO_NotFound \<longrightarrow> objs w b k = None))"

definition s3_view :: "s3_config \<Rightarrow> ('w \<Rightarrow> string \<Rightarrow> string \<Rightarrow> bytes option) \<Rightarrow> 'w s3_store \<Rightarrow> u64 \<Rightarrow> bytes option" where
  "s3_view c objs st i = objs (ss_service st) (s3_bucket c) (generate_s3_key c i)"

lemma key_inj: "generate_s3_key c i = generate_s3_key c j \<longleftrightarrow> i = j"
proof
  assume "generate_s3_key c i = generate_s3_key c j"
  then have "show_nat (unat i) = show_nat (unat j)" by (simp add: generate_s3_key_def show_u64_def)
  then have "unat i = unat j" using digits_value_show by (metis option.inject)
  then show "i = j" by (simp add: word_unat_eq_iff)
qed simp

lemma get_client_cases: "get_client c st = (r, st') \<Longrightarrow> ss_service st' = ss_service st \<and> ss_bucket_ready st' = ss_bucket_ready st"
  by (auto simp: get_client_def Let_def split: sum.splits)

lemma with_client_cases:
  assumes "with_client c request answer st = (r, st')"
  shows "ss_bucket_ready st' = ss_bucket_ready st \<and>
    ((\<exists>e. r = Err e) \<and> ss_service st' = ss_service st \<or> (\<exists>cl a. request cl (ss_service st) = (a, ss_service st') \<and> r = answer a))"
proof -
  obtain x st1 where x: "get_client c st = (x, st1)" by fastforce
  show ?thesis using assms get_client_cases [OF x] x by (cases x) (auto simp: with_client_def split: prod.splits, blast+)
qed

lemma bucket_requests:
  assumes "s3_objects sv objs"
  shows "create_bucket sv c st = (r, st') \<Longrightarrow> objs (ss_service st') = objs (ss_service st)"
    and "ensure_bucket_exists sv c st = (r, st') \<Longrightarrow> objs (ss_service st') = objs (ss_service st)"
    and "ensure_bucket_exists_once sv c st = (r, st') \<Longrightarrow> objs (ss_service st') = objs (ss_service st)"
proof -
  have head: "objs (snd (sv_head_bucket sv cl b w)) = objs w" and create: "objs (snd (sv_create_bucket sv cl b l w)) = objs w" for cl b l w
    using assms by (simp_all add: s3_objects_def)
  have made: "objs (ss_service st') = objs (ss_service st)" if "create_bucket sv c st = (r, st')" for st r st'
    using with_client_cases [OF that [unfolded create_bucket_def Let_def]] create by (metis snd_conv)
  then show "create_bucket sv c st = (r, st') \<Longrightarrow> objs (ss_service st') = objs (ss_service st)" .
  have ensured: "objs (ss_service st') = objs (ss_service st)" if "ensure_bucket_exists sv c st = (r, st')" for st r st'
  proof -
    obtain x st1 where x: "with_client c (\<lambda>cl. sv_head_bucket sv cl (s3_bucket c)) Ok st = (x, st1)" by fastforce
    have "objs (ss_service st1) = objs (ss_service st)" using with_client_cases [OF x] head by (metis snd_conv)
    then show ?thesis using that x made by (auto simp: ensure_bucket_exists_def split: sum.splits head_bucket_answer.splits)
  qed
  then show "ensure_bucket_exists sv c st = (r, st') \<Longrightarrow> objs (ss_service st') = objs (ss_service st)" .
  show "objs (ss_service st') = objs (ss_service st)" if "ensure_bucket_exists_once sv c st = (r, st')"
    using that by (auto simp: ensure_bucket_exists_once_def dest: ensured split: option.splits prod.splits sum.splits)
qed

lemma upload_cases:
  assumes "s3_objects sv objs" "upload_to_s3 sv c k d st = (r, st')"
  shows "(\<forall>k'. k' \<noteq> k \<longrightarrow> objs (ss_service st') (s3_bucket c) k' = objs (ss_service st) (s3_bucket c) k') \<and>
    (\<forall>l. r = Ok l \<longrightarrow> objs (ss_service st') (s3_bucket c) k = Some d)"
proof -
  obtain x st1 where x: "ensure_bucket_exists_once sv c st = (x, st1)" by fastforce
  have put: "(\<forall>k'. k' \<noteq> k \<longrightarrow> objs w' b k' = objs w b k') \<and> (a = Ok () \<longrightarrow> objs w' b k = Some d)" if "sv_put_object sv cl b k d w = (a, w')" for cl b w a w'
    using assms(1) that by (simp add: s3_objects_def)
  have "objs (ss_service st1) = objs (ss_service st)" by (rule bucket_requests(3) [OF assms(1) x])
  then show ?thesis
    using assms(2) x by (cases x) (auto simp: upload_to_s3_def dest!: with_client_cases put split: sum.splits)
qed

lemma s3_blob_store:
  assumes "s3_objects sv objs"
  shows "blob_store (s3_store_file_data sv c) (s3_get_file_data sv c) (s3_view c objs) (\<lambda>_. True)"
proof
  have store: "(\<forall>k'. k' \<noteq> generate_s3_key c i \<longrightarrow> objs (ss_service st') (s3_bucket c) k' = objs (ss_service st) (s3_bucket c) k') \<and>
      (\<forall>l. r = Ok l \<longrightarrow> objs (ss_service st') (s3_bucket c) (generate_s3_key c i) = Some d)"
    if "s3_store_file_data sv c i d st = (r, st')" for i d st r st'
    using that upload_cases [OF assms] bucket_requests(1) [OF assms]
    by (auto simp: s3_store_file_data_def Let_def split: prod.splits sum.splits if_splits)
  show "s3_view c objs s' i = Some d" if "s3_store_file_data sv c i d s = (Ok l, s')" for i d s l s'
    using store [OF that] by (simp add: s3_view_def)
  show "s3_view c objs s' j = s3_view c objs s j" if "s3_store_file_data sv c i d s = (r, s')" "j \<noteq> i" for i d s r s' j
    using store [OF that(1)] that(2) key_inj [of c j i] by (simp add: s3_view_def)
  have read: "objs w' = objs w \<and> (\<forall>d. a = GO_Body d \<longrightarrow> objs w b k = Some d) \<and> (a = GO_NoSuchKey \<longrightarrow> objs w b k = None)"
    if "sv_get_object sv cl b k w = (a, w')" for cl b k w a w'
    using assms that by (simp add: s3_objects_def)
  show "x = s3_view c objs s i" if got: "s3_get_file_data sv c i s = (Ok x, s')" for i s x s'
  proof -
    obtain cl a where a: "sv_get_object sv cl (s3_bucket c) (generate_s3_key c i) (ss_service s) = (a, ss_service s')"
      "Ok x = (case a of GO_Body d \<Rightarrow> Ok (Some d) | GO_Broken e \<Rightarrow> Err (SE_S3Error (''Failed to read response: '' @ e))
        | GO_NoSuchKey \<Rightarrow> Ok None | GO_Error e \<Rightarrow> Err (SE_S3Error (''Failed to download file: '' @ e)))"
      using with_client_cases [OF got [unfolded s3_get_file_data_def]] by auto
    then show ?thesis using read [OF a(1)] by (cases a) (auto simp: s3_view_def)
  qed
  show "s3_view c objs s' = s3_view c objs s" if "s3_get_file_data sv c i s = (r, s')" for i s r s'
    using with_client_cases [OF that [unfolded s3_get_file_data_def]] by (auto simp: s3_view_def fun_eq_iff dest!: read)
qed

text \<open>
  C26: a file stored in S3 is read back.  When an upload has succeeded, then after any reads and any
  uploads of other files, successful or not, a download that succeeds returns exactly the uploaded
  bytes, provided the service keeps the promises of an object store.
\<close>
theorem s3_read_your_write:
  assumes "s3_objects sv objs" "s3_store_file_data sv c i d st = (Ok l, st1)"
    and "blob_store.others (s3_store_file_data sv c) (s3_get_file_data sv c) i st1 st2"
    and "s3_get_file_data sv c i st2 = (Ok x, st3)"
  shows "x = Some d"
  using blob_store.read_your_write [OF s3_blob_store [OF assms(1)] assms(2) TrueI assms(3, 4)] .

text \<open>
  In the database, too, a successful read after a successful write of an identifier below \<open>2 ^ 63\<close>
  returns the bytes written, whatever requests for other files came between; for larger identifiers
  every read finds nothing.
\<close>
theorem db_read_your_write:
  assumes "db_store_at mys i d s = (Ok l, s1)" "blob_store.others (db_store_at mys) (db_read_at mys) i s1 s2"
    and "db_read_at mys i s2 = (Ok x, s3)"
  shows "x = (if 0 \<le> as_i64 i then Some d else None)"
proof (cases "0 \<le> as_i64 i")
  case True
  then show ?thesis using db_blobs.read_your_write [OF assms(1) True assms(2, 3)] by simp
next
  case False
  then show ?thesis using db_blobs.read_sound [OF assms(3)] by (simp add: db_view_value)
qed

section \<open>A failed check of the bucket\<close>

text \<open>The requests of the store.\<close>

inductive s3_step :: "'w s3_service \<Rightarrow> s3_config \<Rightarrow> 'w s3_store \<Rightarrow> 'w s3_store \<Rightarrow> bool" for sv c where
  s3_step_store: "s3_store_file_data sv c i d st = (r, st') \<Longrightarrow> s3_step sv c st st'"
| s3_step_get: "s3_get_file_data sv c i st = (x, st') \<Longrightarrow> s3_step sv c st st'"
| s3_step_delete: "s3_delete_file_data sv c i st = (u, st') \<Longrightarrow> s3_step sv c st st'"
| s3_step_exists: "s3_file_data_exists sv c i st = (b, st') \<Longrightarrow> s3_step sv c st st'"
| s3_step_size: "s3_get_file_size sv c i st = (n, st') \<Longrightarrow> s3_step sv c st st'"
| s3_step_health: "s3_health_check sv c st = (u, st') \<Longrightarrow> s3_step sv c st st'"

lemma create_bucket_cell: "create_bucket sv c st = (r, st') \<Longrightarrow> ss_bucket_ready st' = ss_bucket_ready st"
  unfolding create_bucket_def Let_def by (drule with_client_cases) simp

lemma upload_refused: "ss_bucket_ready st = Some (Err e) \<Longrightarrow> \<exists>e'. upload_to_s3 sv c k d st = (Err e', st)"
  by (simp add: upload_to_s3_def ensure_bucket_exists_once_def)

lemma store_refused:
  assumes "ss_bucket_ready st = Some (Err e)" "s3_store_file_data sv c i d st = (r, st')"
  shows "(\<exists>e'. r = Err e') \<and> ss_bucket_ready st' = Some (Err e)"
proof -
  let ?k = "generate_s3_key c i"
  obtain e1 where up: "upload_to_s3 sv c ?k d st = (Err e1, st)" using upload_refused [OF assms(1)] by blast
  obtain x st2 where made: "create_bucket sv c st = (x, st2)" by fastforce
  then have cell: "ss_bucket_ready st2 = Some (Err e)" using create_bucket_cell assms(1) by metis
  then obtain e2 where "upload_to_s3 sv c ?k d st2 = (Err e2, st2)" using upload_refused by blast
  then show ?thesis using assms up made cell by (cases x) (auto simp: s3_store_file_data_def split: if_splits)
qed

lemma s3_step_cell: "ss_bucket_ready st = Some (Err e) \<Longrightarrow> s3_step sv c st st' \<Longrightarrow> ss_bucket_ready st' = Some (Err e)"
proof (erule s3_step.cases, goal_cases)
  case (6 st u st')
  then show ?case
    by (auto simp: s3_health_check_def split: prod.splits sum.splits head_bucket_answer.splits dest!: with_client_cases)
qed (auto simp: s3_get_file_data_def s3_delete_file_data_def s3_file_data_exists_def s3_get_file_size_def
    dest!: with_client_cases dest: store_refused)

text \<open>
  One failed check of the bucket ends all uploads.  The result of the first check is kept for ever,
  also when it is an error: after a check that failed, whatever the reason, every later upload fails,
  however many other requests come between and whatever the service answers from then on.
\<close>
theorem s3_failed_check_final:
  assumes "ensure_bucket_exists_once sv c st = (Err e, st1)" "reach st1 (s3_step sv c) st2"
  shows "\<exists>e' st3. s3_store_file_data sv c i d st2 = (Err e', st3)"
proof -
  obtain e0 where e0: "ss_bucket_ready st1 = Some (Err e0)"
    using assms(1) by (auto simp: ensure_bucket_exists_once_def split: option.splits prod.splits sum.splits)
  have "ss_bucket_ready st2 = Some (Err e0)" using assms(2) by (induction rule: reach.induct) (auto simp: e0 dest: s3_step_cell)
  then show ?thesis using store_refused by (metis surj_pair)
qed

text \<open>
  A deletion of several files always reports that each of them is deleted, also when the service
  refuses every request, and in the database, where nothing is deleted at all.
\<close>
theorem batch_delete_reports_success:
  assumes "\<And>e. ss_client st \<noteq> Some (Err e)"
  shows "fst (s3_batch_delete_file_data sv c is st) = Ok (map (\<lambda>i. (i, True)) is) \<and>
    db_batch_delete_file_data is t = (Ok (map (\<lambda>i. (i, True)) is), t)"
proof
  have client: "\<exists>cl. get_client c st = (Ok cl, st\<lparr>ss_client := Some (Ok cl)\<rparr>)" if "\<And>e. ss_client st \<noteq> Some (Err e)" for st :: "'a s3_store"
    using that by (auto simp: get_client_def create_s3_client_def Let_def split: option.split sum.split)
  show "fst (s3_batch_delete_file_data sv c is st) = Ok (map (\<lambda>i. (i, True)) is)" using assms
  proof (induction "is" arbitrary: st)
    case (Cons i "is")
    obtain cl where cl: "get_client c st = (Ok cl, st\<lparr>ss_client := Some (Ok cl)\<rparr>)" using client [OF Cons.prems] by blast
    obtain a w where w: "sv_delete_object sv cl (s3_bucket c) (generate_s3_key c i) (ss_service st) = (a, w)" by fastforce
    have "s3_delete_file_data sv c i st = (Ok (), st\<lparr>ss_client := Some (Ok cl), ss_service := w\<rparr>)"
      by (simp add: s3_delete_file_data_def with_client_def cl w)
    then show ?case using Cons.IH [of "st\<lparr>ss_client := Some (Ok cl), ss_service := w\<rparr>"]
      by (cases "s3_batch_delete_file_data sv c is (st\<lparr>ss_client := Some (Ok cl), ss_service := w\<rparr>)") simp
  qed simp
  show "db_batch_delete_file_data is t = (Ok (map (\<lambda>i. (i, True)) is), t)"
    by (induction "is") (simp_all add: db_delete_file_data_def)
qed

section \<open>Examples\<close>

text \<open>A service that keeps its objects, with a bucket that exists or cannot be checked; deletions are refused.\<close>

definition demo_s3 :: "bool \<Rightarrow> ((string \<times> string) \<times> bytes) list s3_service" where
  "demo_s3 up = \<lparr>sv_head_bucket = (\<lambda>cl b w. (if up then HB_Ok else HB_Error ''timeout'', w)),
     sv_create_bucket = (\<lambda>cl b l w. (CB_Ok, w)), sv_put_object = (\<lambda>cl b k d w. (Ok (), ((b, k), d) # w)),
     sv_get_object = (\<lambda>cl b k w. (case map_of w (b, k) of Some d \<Rightarrow> GO_Body d | None \<Rightarrow> GO_NoSuchKey, w)),
     sv_delete_object = (\<lambda>cl b k w. (Err ''denied'', w)),
     sv_head_object = (\<lambda>cl b k w. (case map_of w (b, k) of Some d \<Rightarrow> HO_Ok (Some (int (length d))) | None \<Rightarrow> HO_NotFound, w)),
     sv_list_objects = (\<lambda>cl b w. (Ok (), w))\<rparr>"

lemma demo_s3_objects: "s3_objects (demo_s3 up) (\<lambda>w b k. map_of w (b, k))"
  by (auto simp: s3_objects_def demo_s3_def split: option.splits)

theorem s3_read_your_write_witness:
  "\<exists>l st1 x st3. s3_store_file_data (demo_s3 True) s3_config_default 5 [1, 2] (s3_new []) = (Ok l, st1) \<and>
     s3_get_file_data (demo_s3 True) s3_config_default 5 st1 = (Ok x, st3) \<and> x = Some [1, 2]"
proof -
  let ?c = s3_config_default and ?st = "s3_new [] :: ((string \<times> string) \<times> bytes) list s3_store"
  obtain l st1 where st1: "s3_store_file_data (demo_s3 True) ?c 5 [1, 2] ?st = (Ok l, st1)"
    by (simp add: s3_store_file_data_def upload_to_s3_def ensure_bucket_exists_once_def ensure_bucket_exists_def with_client_def
        get_client_def create_s3_client_def demo_s3_def s3_new_def Let_def)
  obtain x st3 where st3: "s3_get_file_data (demo_s3 True) ?c 5 st1 = (Ok x, st3)"
    using st1 by (auto simp: s3_store_file_data_def s3_get_file_data_def upload_to_s3_def ensure_bucket_exists_once_def ensure_bucket_exists_def
        with_client_def get_client_def create_s3_client_def demo_s3_def s3_new_def Let_def)
  have "blob_store.others (s3_store_file_data (demo_s3 True) ?c) (s3_get_file_data (demo_s3 True) ?c) 5 st1 st1"
    by (rule blob_store.done_here [OF s3_blob_store [OF demo_s3_objects]])
  from s3_read_your_write [OF demo_s3_objects st1 this st3] show ?thesis using st1 st3 by blast
qed

theorem db_read_your_write_witness:
  "\<exists>l s1 x s3. db_store_at (\<lambda>_. sample_my None) 5 [1, 2] ([], 0) = (Ok l, s1) \<and> db_read_at (\<lambda>_. sample_my None) 5 s1 = (Ok x, s3) \<and> x = Some [1, 2]"
proof -
  let ?my = "\<lambda>_ :: nat. sample_my None"
  have st: "db_store_at ?my 5 [1, 2] ([], 0) = (Ok (''db:'' @ show_u64 5), [(5, [1, 2])], 1)"
    by (simp add: db_store_at_def db_store_file_data_def my_store_file_data_def stmt_def sample_my_def upsert_def)
  have "0 \<le> as_i64 5" by (simp add: as_i64_def)
  moreover obtain x s3 where rd: "db_read_at ?my 5 ([(5, [1, 2])], 1) = (Ok x, s3)"
    by (simp add: db_read_at_def db_get_file_data_def my_get_file_data_def stmt_def sample_my_def)
  ultimately have "x = Some [1, 2]" using db_read_your_write [OF st db_blobs.done_here rd] by simp
  then show ?thesis using st rd by blast
qed

theorem s3_failed_check_final_witness:
  "\<exists>e st1. ensure_bucket_exists_once (demo_s3 False) s3_config_default (s3_new []) = (Err e, st1) \<and>
     (\<exists>e' st3. s3_store_file_data (demo_s3 True) s3_config_default 5 [1] st1 = (Err e', st3))"
proof -
  let ?c = s3_config_default and ?st = "s3_new [] :: ((string \<times> string) \<times> bytes) list s3_store"
  obtain e st1 where fail: "ensure_bucket_exists_once (demo_s3 False) ?c ?st = (Err e, st1)"
    by (simp add: ensure_bucket_exists_once_def ensure_bucket_exists_def with_client_def get_client_def create_s3_client_def demo_s3_def s3_new_def Let_def)
  then obtain e0 where "ss_bucket_ready st1 = Some (Err e0)"
    by (auto simp: ensure_bucket_exists_once_def split: option.splits prod.splits sum.splits)
  then obtain e2 where again: "ensure_bucket_exists_once (demo_s3 True) ?c st1 = (Err e2, st1)" by (simp add: ensure_bucket_exists_once_def)
  show ?thesis using s3_failed_check_final [OF again reach_init, of 5 "[1]"] fail by blast
qed

theorem batch_delete_reports_success_witness:
  "fst (s3_batch_delete_file_data (demo_s3 True) s3_config_default [3, 4] (s3_new [])) = Ok [(3, True), (4, True)]"
  using batch_delete_reports_success [of "s3_new []" "demo_s3 True" s3_config_default "[3, 4]" "[]"] by (simp add: s3_new_def)

end
