(* ===== verification/Mysql_Schema.thy ===== *)
theory Mysql_Schema
  imports Memory_Storage "HOL-Library.Monad_Syntax"
begin

text \<open>
  The schema of the MySQL database: \<^verbatim>\<open>init_schema\<close> and \<^verbatim>\<open>migrate_schema\<close> of
  \<^verbatim>\<open>src/storage/mysql.rs\<close> and their callers, as functions on the catalogue of the database, which
  holds for every table its columns with their types, its indexes and its foreign keys.  A
  statement is refused when the catalogue does not allow it (a table or column that is missing or
  already there, a name that is taken); it may also fail for any other reason, such as a lost
  connection or rows that violate a constraint: that is the parameter \<open>db_fault\<close>, which gives the
  error of the statement with a number.  Data-definition statements commit on their own, so what
  was done before an error stays.  The rows are not part of the catalogue.
\<close>

section \<open>The catalogue\<close>

record table_def =
  td_columns :: "(string \<times> string) list" \<comment> \<open>name and data type\<close>
  td_indexes :: "(string \<times> bool \<times> string list) list" \<comment> \<open>name, unique, columns\<close>
  td_references :: "(string \<times> string) list" \<comment> \<open>column and table of the foreign keys\<close>
  td_constraints :: "string list" \<comment> \<open>the constraints that were given a name\<close>

type_synonym catalogue = "(string, table_def) hashmap"

record dbms =
  db_fault :: "nat \<Rightarrow> string option" \<comment> \<open>the error of the statement with this number, if any\<close>
  db_refusal :: "nat \<Rightarrow> string" \<comment> \<open>the message when the catalogue does not allow the statement\<close>
  db_text_default :: bool \<comment> \<open>whether a text column may have a default\<close>

definition has_table :: "string \<Rightarrow> catalogue \<Rightarrow> bool" where
  "has_table t c \<longleftrightarrow> hm_get c t \<noteq> None"

definition columns_of :: "string \<Rightarrow> catalogue \<Rightarrow> string list" where
  "columns_of t c = (case hm_get c t of Some d \<Rightarrow> map fst (td_columns d) | None \<Rightarrow> [])"

definition has_column :: "string \<Rightarrow> string \<Rightarrow> catalogue \<Rightarrow> bool" where
  "has_column t col c \<longleftrightarrow> col \<in> set (columns_of t c)"

definition data_type :: "string \<Rightarrow> string \<Rightarrow> catalogue \<Rightarrow> string option" where
  "data_type t col c = (case hm_get c t of Some d \<Rightarrow> map_of (td_columns d) col | None \<Rightarrow> None)"

text \<open>The rows of \<^verbatim>\<open>information_schema.statistics\<close> for a table.\<close>

definition indexes_of :: "string \<Rightarrow> catalogue \<Rightarrow> (string \<times> bool \<times> string list) list" where
  "indexes_of t c = (case hm_get c t of Some d \<Rightarrow> td_indexes d | None \<Rightarrow> [])"

subsection \<open>Data-definition statements\<close>

text \<open>\<open>None\<close> is a statement the catalogue does not allow.\<close>

definition create_table :: "string \<Rightarrow> table_def \<Rightarrow> catalogue \<Rightarrow> catalogue option" where
  "create_table t d c =
     (if has_table t c \<or> \<not> list_all (\<lambda>(_, r). has_table r c) (td_references d) then None
      else Some (hm_insert t d c))"

definition create_table_if_not_exists :: "string \<Rightarrow> table_def \<Rightarrow> catalogue \<Rightarrow> catalogue option" where
  "create_table_if_not_exists t d c = (if has_table t c then Some c else create_table t d c)"

definition alter_table :: "string \<Rightarrow> (table_def \<Rightarrow> table_def option) \<Rightarrow> catalogue \<Rightarrow> catalogue option" where
  "alter_table t f c = do { d \<leftarrow> hm_get c t; d' \<leftarrow> f d; Some (hm_insert t d' c) }"

definition add_column :: "string \<Rightarrow> string \<Rightarrow> string \<Rightarrow> catalogue \<Rightarrow> catalogue option" where
  "add_column t col ty = alter_table t (\<lambda>d.
     if col \<in> set (map fst (td_columns d)) then None else Some (d\<lparr>td_columns := td_columns d @ [(col, ty)]\<rparr>))"

text \<open>\<^verbatim>\<open>ADD COLUMN .. AFTER prev\<close>.\<close>

definition add_column_after :: "string \<Rightarrow> string \<Rightarrow> string \<Rightarrow> string \<Rightarrow> catalogue \<Rightarrow> catalogue option" where
  "add_column_after t col ty prev c = (if has_column t prev c then add_column t col ty c else None)"

definition change_column :: "string \<Rightarrow> string \<Rightarrow> string \<Rightarrow> string \<Rightarrow> catalogue \<Rightarrow> catalogue option" where
  "change_column t col col' ty = alter_table t (\<lambda>d.
     if col \<notin> set (map fst (td_columns d)) \<or> col' \<noteq> col \<and> col' \<in> set (map fst (td_columns d)) then None
     else Some (d\<lparr>td_columns := map (\<lambda>(k, v). if k = col then (col', ty) else (k, v)) (td_columns d)\<rparr>))"

definition modify_column :: "string \<Rightarrow> string \<Rightarrow> string \<Rightarrow> catalogue \<Rightarrow> catalogue option" where
  "modify_column t col ty = change_column t col col ty"

definition create_index :: "string \<Rightarrow> string \<Rightarrow> bool \<Rightarrow> string list \<Rightarrow> catalogue \<Rightarrow> catalogue option" where
  "create_index t nm unique cols = alter_table t (\<lambda>d.
     if nm \<in> set (map fst (td_indexes d)) \<or> \<not> set cols \<subseteq> set (map fst (td_columns d)) then None
     else Some (d\<lparr>td_indexes := td_indexes d @ [(nm, unique, cols)]\<rparr>))"

definition add_foreign_key :: "string \<Rightarrow> string \<Rightarrow> string \<Rightarrow> string \<Rightarrow> catalogue \<Rightarrow> catalogue option" where
  "add_foreign_key t nm col r c =
     (if has_table r c then alter_table t (\<lambda>d.
        if nm \<in> set (td_constraints d) \<or> col \<notin> set (map fst (td_columns d)) then None
        else Some (d\<lparr>td_constraints := td_constraints d @ [nm], td_references := td_references d @ [(col, r)]\<rparr>)) c
      else None)"

text \<open>An \<^verbatim>\<open>UPDATE\<close> leaves the catalogue alone; its columns have to exist.\<close>

definition update_rows :: "(string \<times> string) list \<Rightarrow> catalogue \<Rightarrow> catalogue option" where
  "update_rows cols c = (if list_all (\<lambda>(t, col). has_column t col c) cols then Some c else None)"

section \<open>Statements and steps\<close>

type_synonym step = "catalogue \<Rightarrow> unit sres \<times> catalogue"

definition exec :: "dbms \<Rightarrow> nat \<Rightarrow> (catalogue \<Rightarrow> catalogue option) \<Rightarrow> catalogue \<Rightarrow> (string, catalogue) result" where
  "exec db n f c =
     (case db_fault db n of
        Some e \<Rightarrow> Err e
      | None \<Rightarrow> (case f c of Some c' \<Rightarrow> Ok c' | None \<Rightarrow> Err (db_refusal db n)))"

text \<open>\<^verbatim>\<open>.map_err(..)?\<close>, and \<^verbatim>\<open>.ok()\<close> or a warning.\<close>

definition must :: "dbms \<Rightarrow> nat \<Rightarrow> string \<Rightarrow> (catalogue \<Rightarrow> catalogue option) \<Rightarrow> step" where
  "must db n msg f c = (case exec db n f c of Inr c' \<Rightarrow> (Ok (), c') | Inl e \<Rightarrow> (Err (SE_Database (msg @ e)), c))"

definition may :: "dbms \<Rightarrow> nat \<Rightarrow> (catalogue \<Rightarrow> catalogue option) \<Rightarrow> step" where
  "may db n f c = (Ok (), case exec db n f c of Inr c' \<Rightarrow> c' | Inl _ \<Rightarrow> c)"

fun steps :: "step list \<Rightarrow> step" where
  "steps [] c = (Ok (), c)"
| "steps (f # fs) c = (case f c of (Inr _, c') \<Rightarrow> steps fs c' | (Inl e, c') \<Rightarrow> (Err e, c'))"

text \<open>A question to the catalogue, its error returned or taken as \<open>d\<close>, and the steps for each answer.\<close>

definition ask :: "dbms \<Rightarrow> nat \<Rightarrow> string \<Rightarrow> (catalogue \<Rightarrow> bool) \<Rightarrow> step list \<Rightarrow> step list \<Rightarrow> step" where
  "ask db n msg q yes no c =
     (case db_fault db n of
        Some e \<Rightarrow> (Err (SE_Database (msg @ e)), c)
      | None \<Rightarrow> if q c then steps yes c else steps no c)"

definition ask_or :: "dbms \<Rightarrow> nat \<Rightarrow> bool \<Rightarrow> (catalogue \<Rightarrow> bool) \<Rightarrow> step list \<Rightarrow> step list \<Rightarrow> step" where
  "ask_or db n d q yes no c =
     (if (case db_fault db n of Some _ \<Rightarrow> d | None \<Rightarrow> q c) then steps yes c else steps no c)"

section \<open>Creating the tables\<close>

definition accounts_table :: table_def where
  "accounts_table = \<lparr>td_columns = [(''id'', ''varchar''), (''email'', ''varchar''), (''account_hash'', ''varchar''),
       (''name'', ''varchar''), (''password_hash'', ''varchar''), (''salt'', ''varchar''), (''created_at'', ''bigint''),
       (''updated_at'', ''bigint''), (''last_login'', ''bigint''), (''is_active'', ''tinyint'')],
     td_indexes = [(''PRIMARY'', True, [''account_hash''])], td_references = [], td_constraints = []\<rparr>"

definition auth_tokens_table :: table_def where
  "auth_tokens_table = \<lparr>td_columns = [(''id'', ''varchar''), (''token'', ''varchar''), (''account_hash'', ''varchar''),
       (''created_at'', ''bigint''), (''expires_at'', ''bigint''), (''is_active'', ''tinyint'')],
     td_indexes = [(''PRIMARY'', True, [''token'']), (''account_hash'', False, [''account_hash''])],
     td_references = [(''account_hash'', ''accounts'')], td_constraints = []\<rparr>"

definition devices_table :: table_def where
  "devices_table = \<lparr>td_columns = [(''id'', ''varchar''), (''account_hash'', ''varchar''), (''device_hash'', ''varchar''),
       (''device_name'', ''varchar''), (''device_type'', ''varchar''), (''os_type'', ''varchar''), (''os_version'', ''varchar''),
       (''app_version'', ''varchar''), (''last_sync'', ''bigint''), (''created_at'', ''bigint''), (''updated_at'', ''bigint''),
       (''is_active'', ''tinyint'')],
     td_indexes = [(''PRIMARY'', True, [''device_hash'']), (''account_hash'', False, [''account_hash''])],
     td_references = [(''account_hash'', ''accounts'')], td_constraints = []\<rparr>"

definition files_table :: table_def where
  "files_table = \<lparr>td_columns = [(''id'', ''bigint''), (''file_id'', ''bigint''), (''account_hash'', ''varchar''),
       (''device_hash'', ''varchar''), (''file_path'', ''varbinary''), (''filename'', ''varbinary''), (''file_hash'', ''varchar''),
       (''size'', ''bigint''), (''is_deleted'', ''tinyint''), (''is_encrypted'', ''tinyint''), (''revision'', ''bigint''),
       (''modified_time'', ''bigint''), (''upload_time'', ''bigint''), (''group_id'', ''int''), (''watcher_id'', ''int''),
       (''server_group_id'', ''int''), (''server_watcher_id'', ''int''), (''eq_index'', ''varbinary''),
       (''token_path'', ''varchar''), (''key_id'', ''varchar'')],
     td_indexes = [(''PRIMARY'', True, [''id'']), (''account_hash'', False, [''account_hash'']), (''file_id'', False, [''file_id'']),
       (''file_hash'', False, [''file_hash'']), (''account_hash_2'', False, [''account_hash'', ''group_id'']),
       (''eq_index'', False, [''eq_index'']), (''token_path_prefix'', False, [''token_path'']),
       (''account_hash_3'', False, [''account_hash'', ''key_id''])],
     td_references = [(''account_hash'', ''accounts'')], td_constraints = []\<rparr>"

definition encryption_keys_table :: table_def where
  "encryption_keys_table = \<lparr>td_columns = [(''id'', ''bigint''), (''account_hash'', ''varchar''), (''encryption_key'', ''varchar''),
       (''created_at'', ''bigint''), (''updated_at'', ''bigint'')],
     td_indexes = [(''PRIMARY'', True, [''id'']), (''account_hash'', True, [''account_hash''])],
     td_references = [(''account_hash'', ''accounts'')], td_constraints = []\<rparr>"

definition create_named :: "dbms \<Rightarrow> nat \<Rightarrow> string \<Rightarrow> table_def \<Rightarrow> step" where
  "create_named db n t d = must db n (''Failed to create '' @ t @ '' table: '') (create_table_if_not_exists t d)"

definition init_schema :: "dbms \<Rightarrow> step" where
  "init_schema db = steps [create_named db 0 ''accounts'' accounts_table, create_named db 1 ''auth_tokens'' auth_tokens_table,
     create_named db 2 ''devices'' devices_table, create_named db 3 ''files'' files_table,
     create_named db 4 ''encryption_keys'' encryption_keys_table]"

section \<open>Migrating an older schema\<close>

text \<open>The texts of the error messages, as UTF-8 bytes.\<close>

definition ko_column_check :: string where
  "ko_column_check = map (char_of :: nat \<Rightarrow> char) [
     236, 187, 172, 235, 159, 188, 32, 236, 161, 180, 236, 158, 172, 32, 236, 151, 172, 235, 182,
     128, 32, 237, 153, 149, 236, 157, 184, 32, 236, 139, 164, 237, 140, 168, 58, 32]"

definition ko_rename :: string where
  "ko_rename = map (char_of :: nat \<Rightarrow> char) [
     32, 236, 187, 172, 235, 159, 188, 32, 236, 157, 180, 235, 166, 132, 32, 235, 179, 128, 234,
     178, 189, 32, 236, 139, 164, 237, 140, 168, 58, 32]"

definition ko_add_column :: string where
  "ko_add_column = map (char_of :: nat \<Rightarrow> char) [
     32, 236, 187, 172, 235, 159, 188, 32, 236, 182, 148, 234, 176, 128, 32, 236, 139, 164, 237,
     140, 168, 58, 32]"

definition ko_default :: string where
  "ko_default = map (char_of :: nat \<Rightarrow> char) [
     32, 234, 184, 176, 235, 179, 184, 234, 176, 146, 32, 236, 132, 164, 236, 160, 149, 32, 236,
     139, 164, 237, 140, 168, 58, 32]"

definition ko_index_check :: string where
  "ko_index_check = map (char_of :: nat \<Rightarrow> char) [
     32, 236, 157, 184, 235, 141, 177, 236, 138, 164, 32, 237, 153, 149, 236, 157, 184, 32, 236,
     139, 164, 237, 140, 168, 58, 32]"

definition ko_index_create :: string where
  "ko_index_create = map (char_of :: nat \<Rightarrow> char) [
     32, 236, 157, 184, 235, 141, 177, 236, 138, 164, 32, 236, 131, 157, 236, 132, 177, 32, 236,
     139, 164, 237, 140, 168, 58, 32]"

definition ko_retype :: string where
  "ko_retype = map (char_of :: nat \<Rightarrow> char) [
     32, 236, 187, 172, 235, 159, 188, 32, 237, 152, 149, 236, 139, 157, 32, 235, 179, 128, 234,
     178, 189, 32, 236, 139, 164, 237, 140, 168, 58, 32]"

definition ko_table_check :: string where
  "ko_table_check = map (char_of :: nat \<Rightarrow> char) [
     237, 133, 140, 236, 157, 180, 235, 184, 148, 32, 236, 161, 180, 236, 158, 172, 32, 236, 151,
     172, 235, 182, 128, 32, 237, 153, 149, 236, 157, 184, 32, 236, 139, 164, 237, 140, 168, 58, 32]"

definition ko_table_create :: string where
  "ko_table_create = map (char_of :: nat \<Rightarrow> char) [
     32, 237, 133, 140, 236, 157, 180, 235, 184, 148, 32, 236, 131, 157, 236, 132, 177, 32, 236,
     139, 164, 237, 140, 168, 58, 32]"

definition ko_update :: string where
  "ko_update = map (char_of :: nat \<Rightarrow> char) [
     32, 236, 151, 133, 235, 141, 176, 236, 157, 180, 237, 138, 184, 32, 236, 139, 164, 237, 140,
     168, 58, 32]"

definition ko_foreign_key :: string where
  "ko_foreign_key = map (char_of :: nat \<Rightarrow> char) [
     236, 153, 184, 235, 158, 152, 237, 130, 164, 32, 236, 160, 156, 236, 149, 189, 236, 161, 176,
     234, 177, 180, 32, 236, 182, 148, 234, 176, 128, 32, 236, 139, 164, 237, 140, 168, 58, 32]"

definition ko_index_add :: string where
  "ko_index_add = map (char_of :: nat \<Rightarrow> char) [
     236, 157, 184, 235, 141, 177, 236, 138, 164, 32, 236, 182, 148, 234, 176, 128, 32, 236, 139,
     164, 237, 140, 168, 58, 32]"

definition ko_composite_add :: string where
  "ko_composite_add = map (char_of :: nat \<Rightarrow> char) [
     235, 179, 181, 237, 149, 169, 32, 236, 157, 184, 235, 141, 177, 236, 138, 164, 32, 236, 182,
     148, 234, 176, 128, 32, 236, 139, 164, 237, 140, 168, 58, 32]"

definition ko_add :: string where
  "ko_add = map (char_of :: nat \<Rightarrow> char) [
     32, 236, 182, 148, 234, 176, 128, 32, 236, 139, 164, 237, 140, 168, 58, 32]"

definition ko_presets_check :: string where
  "ko_presets_check = map (char_of :: nat \<Rightarrow> char) [
     119, 97, 116, 99, 104, 101, 114, 95, 112, 114, 101, 115, 101, 116, 115, 32, 237, 133, 140, 236,
     157, 180, 235, 184, 148, 32, 237, 153, 149, 236, 157, 184, 32, 236, 139, 164, 237, 140, 168,
     58, 32]"

text \<open>\<^verbatim>\<open>watcher_presets.presets\<close> becomes \<^verbatim>\<open>preset_json\<close>.\<close>

definition migrate_presets_name :: "dbms \<Rightarrow> step" where
  "migrate_presets_name db = ask db 5 ko_column_check (has_column ''watcher_presets'' ''presets'')
     [must db 6 (''presets'' @ ko_rename) (change_column ''watcher_presets'' ''presets'' ''preset_json'' ''text'')] []"

text \<open>A column that is added when it is missing.\<close>

definition ensure_column :: "dbms \<Rightarrow> nat \<Rightarrow> string \<Rightarrow> string \<Rightarrow> string \<Rightarrow> string \<Rightarrow> step list \<Rightarrow> step" where
  "ensure_column db n msg t col ty rest = ask db n msg (has_column t col) []
     (must db (n + 1) (col @ ko_add_column) (add_column t col ty) # rest)"

definition files_column_steps :: "dbms \<Rightarrow> step list" where
  "files_column_steps db = [
     ensure_column db 7 ko_column_check ''files'' ''is_encrypted'' ''tinyint'' [],
     ensure_column db 9 ko_column_check ''files'' ''operation_type'' ''varchar''
       [must db 11 (''operation_type'' @ ko_default) (update_rows [(''files'', ''operation_type'')])],
     ensure_column db 12 ko_column_check ''files'' ''eq_index'' ''varbinary''
       [ask db 14 (''eq_index'' @ ko_index_check) (\<lambda>c. list_ex (\<lambda>(_, _, cols). ''eq_index'' \<in> set cols) (indexes_of ''files'' c)) []
          [must db 15 (''eq_index'' @ ko_index_create) (create_index ''files'' ''idx_files_eq_index'' False [''eq_index''])]],
     ask db 16 ko_column_check (has_column ''files'' ''token_path'') []
       [may db 17 (add_column ''files'' ''token_path'' ''varchar''),
        may db 18 (create_index ''files'' ''idx_files_account_keyid'' False [''account_hash'', ''key_id'']),
        may db 19 (add_column ''files'' ''server_group_id'' ''int'')],
     ensure_column db 20 ko_column_check ''files'' ''key_id'' ''varchar''
       [may db 22 (create_index ''files'' ''idx_files_account_keyid'' False [''account_hash'', ''key_id''])],
     ensure_column db 23 (''server_group_id '' @ ko_column_check) ''files'' ''server_group_id'' ''int'' [],
     ensure_column db 25 (''server_watcher_id '' @ ko_column_check) ''files'' ''server_watcher_id'' ''int'' []]"

definition migrate_files_columns :: "dbms \<Rightarrow> step" where
  "migrate_files_columns db = steps (files_column_steps db)"

definition migrate_files_types :: "dbms \<Rightarrow> step" where
  "migrate_files_types db = steps [
     ask_or db 27 False (\<lambda>c. data_type ''files'' ''file_path'' c = Some ''varbinary'') []
       [must db 28 (''file_path'' @ ko_retype) (modify_column ''files'' ''file_path'' ''varbinary'')],
     ask_or db 29 False (\<lambda>c. data_type ''files'' ''filename'' c = Some ''varbinary'') []
       [must db 30 (''filename'' @ ko_retype) (modify_column ''files'' ''filename'' ''varbinary'')]]"

definition watcher_conditions_table :: table_def where
  "watcher_conditions_table = \<lparr>td_columns = [(''id'', ''bigint''), (''account_hash'', ''varchar''), (''watcher_id'', ''int''),
       (''condition_type'', ''enum''), (''key'', ''varchar''), (''value'', ''json''), (''operator'', ''varchar''),
       (''created_at'', ''bigint''), (''updated_at'', ''bigint'')],
     td_indexes = [(''PRIMARY'', True, [''id'']), (''account_hash'', False, [''account_hash'']),
       (''watcher_id'', False, [''watcher_id'']), (''account_hash_2'', False, [''account_hash'', ''watcher_id''])],
     td_references = [(''account_hash'', ''accounts'')], td_constraints = []\<rparr>"

definition migrate_conditions :: "dbms \<Rightarrow> step" where
  "migrate_conditions db = ask db 31 ko_table_check (has_table ''watcher_conditions'')
     [ask db 33 ko_column_check (has_column ''watcher_conditions'' ''account_hash'') []
        [must db 34 (''account_hash'' @ ko_add_column) (add_column ''watcher_conditions'' ''account_hash'' ''varchar''),
         must db 35 (''account_hash'' @ ko_update) (update_rows [(''watcher_conditions'', ''account_hash''),
           (''watcher_conditions'', ''watcher_id''), (''watchers'', ''id''), (''watchers'', ''account_hash'')]),
         must db 36 ko_foreign_key
           (add_foreign_key ''watcher_conditions'' ''fk_watcher_conditions_account'' ''account_hash'' ''accounts''),
         must db 37 ko_index_add
           (create_index ''watcher_conditions'' ''idx_watcher_conditions_account_hash'' False [''account_hash'']),
         must db 38 ko_composite_add
           (create_index ''watcher_conditions'' ''idx_watcher_conditions_account_watcher'' False [''account_hash'', ''watcher_id''])]]
     [must db 32 (''watcher_conditions'' @ ko_table_create) (create_table ''watcher_conditions'' watcher_conditions_table)]"

definition watcher_groups_table :: table_def where
  "watcher_groups_table = \<lparr>td_columns = [(''id'', ''int''), (''account_hash'', ''varchar''), (''group_id'', ''int''),
       (''title'', ''varchar''), (''created_at'', ''bigint''), (''updated_at'', ''bigint''), (''is_active'', ''tinyint'')],
     td_indexes = [(''PRIMARY'', True, [''id'']), (''uniq_account_group'', True, [''account_hash'', ''group_id'']),
       (''account_hash'', False, [''account_hash''])],
     td_references = [(''account_hash'', ''accounts'')], td_constraints = []\<rparr>"

definition migrate_groups :: "dbms \<Rightarrow> step" where
  "migrate_groups db = ask db 39 ko_table_check (has_table ''watcher_groups'') []
     [must db 40 (''watcher_groups'' @ ko_table_create) (create_table ''watcher_groups'' watcher_groups_table)]"

definition watchers_table :: table_def where
  "watchers_table = \<lparr>td_columns = [(''id'', ''int''), (''watcher_id'', ''int''), (''account_hash'', ''varchar''),
       (''group_id'', ''int''), (''local_group_id'', ''int''), (''folder'', ''varchar''), (''title'', ''varchar''),
       (''is_recursive'', ''tinyint''), (''created_at'', ''bigint''), (''updated_at'', ''bigint''), (''is_active'', ''tinyint''),
       (''extra_json'', ''text'')],
     td_indexes = [(''PRIMARY'', True, [''id'']), (''account_hash'', False, [''account_hash'']), (''group_id'', False, [''group_id'']),
       (''account_hash_2'', False, [''account_hash'', ''local_group_id'', ''watcher_id''])],
     td_references = [(''account_hash'', ''accounts''), (''group_id'', ''watcher_groups'')], td_constraints = []\<rparr>"

definition migrate_watchers_table :: "dbms \<Rightarrow> step" where
  "migrate_watchers_table db = ask db 41 ko_table_check (has_table ''watchers'') []
     [must db 42 (''watchers'' @ ko_table_create) (create_table ''watchers'' watchers_table),
      may db 43 (add_foreign_key ''watcher_conditions'' ''fk_watcher_conditions_watcher'' ''watcher_id'' ''watchers'')]"

text \<open>The unique index; a question that fails counts as \<open>no such index\<close>.\<close>

definition migrate_watchers_index :: "dbms \<Rightarrow> step" where
  "migrate_watchers_index db = ask_or db 44 False
     (\<lambda>c. list_ex (\<lambda>(nm, unique, _). nm = ''uniq_watchers_acc_local_wid'' \<and> unique) (indexes_of ''watchers'' c)) []
     [may db 45 (create_index ''watchers'' ''uniq_watchers_acc_local_wid'' True
        [''account_hash'', ''local_group_id'', ''watcher_id''])]"

definition migrate_watcher_id :: "dbms \<Rightarrow> step" where
  "migrate_watcher_id db = ask db 46 ko_column_check (has_column ''watchers'' ''watcher_id'') []
     [must db 47 (''watcher_id'' @ ko_add_column) (add_column_after ''watchers'' ''watcher_id'' ''int'' ''id''),
      must db 48 (''watcher_id'' @ ko_default) (update_rows [(''watchers'', ''watcher_id''), (''watchers'', ''id'')])]"

text \<open>
  \<^verbatim>\<open>SELECT COUNT(*) = 0 .. unwrap_or(false)\<close>: a question that fails means that the column is not
  needed.
\<close>

definition need :: "dbms \<Rightarrow> nat \<Rightarrow> string \<Rightarrow> step list \<Rightarrow> step" where
  "need db n col yes = ask_or db n False (\<lambda>c. \<not> has_column ''watchers'' col c) yes []"

definition watchers_column_steps :: "dbms \<Rightarrow> step list" where
  "watchers_column_steps db = [
     need db 49 ''local_group_id''
       [must db 50 (''local_group_id'' @ ko_add) (add_column_after ''watchers'' ''local_group_id'' ''int'' ''group_id''),
        may db 51 (create_index ''watchers'' ''idx_watchers_account_local_wid'' False
          [''account_hash'', ''local_group_id'', ''watcher_id''])],
     need db 52 ''is_recursive'' [must db 53 (''is_recursive'' @ ko_add) (add_column ''watchers'' ''is_recursive'' ''tinyint'')],
     need db 54 ''extra_json'' [must db 55 (''extra_json'' @ ko_add)
       (\<lambda>c. if db_text_default db then add_column ''watchers'' ''extra_json'' ''text'' c else None)],
     need db 56 ''title'' [must db 57 (''title'' @ ko_add) (add_column_after ''watchers'' ''title'' ''varchar'' ''folder'')],
     need db 58 ''folder'' [must db 59 (''folder'' @ ko_add)
       (add_column_after ''watchers'' ''folder'' ''varchar'' ''local_group_id'')],
     need db 60 ''created_at'' [may db 61 (add_column ''watchers'' ''created_at'' ''bigint'')],
     need db 62 ''updated_at'' [may db 63 (add_column ''watchers'' ''updated_at'' ''bigint'')],
     need db 64 ''is_active'' [may db 65 (add_column ''watchers'' ''is_active'' ''tinyint'')]]"

definition migrate_watchers_columns :: "dbms \<Rightarrow> step" where
  "migrate_watchers_columns db = steps (watchers_column_steps db)"

definition watcher_presets_table :: table_def where
  "watcher_presets_table = \<lparr>td_columns = [(''id'', ''bigint''), (''account_hash'', ''varchar''), (''preset_json'', ''text''),
       (''created_at'', ''bigint''), (''updated_at'', ''bigint'')],
     td_indexes = [(''PRIMARY'', True, [''id'']), (''account_hash'', True, [''account_hash''])],
     td_references = [(''account_hash'', ''accounts'')], td_constraints = []\<rparr>"

definition migrate_presets :: "dbms \<Rightarrow> step" where
  "migrate_presets db = ask db 66 ko_presets_check (has_table ''watcher_presets'')
     [ask_or db 68 False (has_column ''watcher_presets'' ''preset_json'') []
        [may db 69 (add_column ''watcher_presets'' ''preset_json'' ''text'')],
      ask db 70 (''watcher_presets'' @ ko_index_check)
        (\<lambda>c. list_ex (\<lambda>(_, unique, cols). unique \<and> ''account_hash'' \<in> set cols) (indexes_of ''watcher_presets'' c)) []
        [may db 71 (create_index ''watcher_presets'' ''uniq_account_hash'' True [''account_hash''])]]
     [must db 67 (''watcher_presets'' @ ko_table_create) (create_table ''watcher_presets'' watcher_presets_table)]"

definition migrate_schema :: "dbms \<Rightarrow> step" where
  "migrate_schema db = steps [migrate_presets_name db, migrate_files_columns db, migrate_files_types db,
     migrate_conditions db, migrate_groups db, migrate_watchers_table db, migrate_watchers_index db,
     migrate_watcher_id db, migrate_watchers_columns db, migrate_presets db]"

text \<open>
  What the server does at its start, and the storage factory, which goes on after an error.  The
  error is a message of the application.
\<close>

definition start_schema :: "dbms \<Rightarrow> dbms \<Rightarrow> catalogue \<Rightarrow> (string, unit) result \<times> catalogue" where
  "start_schema db db' c =
     (case init_schema db c of
        (Inl e, c1) \<Rightarrow> (Err (''Failed to initialize MySQL schema: '' @ storage_error_display e), c1)
      | (Inr _, c1) \<Rightarrow>
          (case migrate_schema db' c1 of
             (Inl e, c2) \<Rightarrow> (Err (''Failed to migrate MySQL schema: '' @ storage_error_display e), c2)
           | (Inr _, c2) \<Rightarrow> (Ok (), c2)))"

definition factory_schema :: "dbms \<Rightarrow> dbms \<Rightarrow> catalogue \<Rightarrow> catalogue" where
  "factory_schema db db' c = snd (migrate_schema db' (snd (init_schema db c)))"

section \<open>What a step keeps\<close>

text \<open>
  A relation between the catalogue before and after that every accepted statement of a step has,
  the step has as a whole, however it ends.
\<close>

locale catalogue_relation =
  fixes rel :: "catalogue \<Rightarrow> catalogue \<Rightarrow> bool"
  assumes rel_refl: "rel c c"
    and rel_trans: "rel c c' \<Longrightarrow> rel c' c'' \<Longrightarrow> rel c c''"
begin

definition keeps :: "step \<Rightarrow> bool" where
  "keeps f \<longleftrightarrow> (\<forall>c. rel c (snd (f c)))"

definition accepts :: "(catalogue \<Rightarrow> catalogue option) \<Rightarrow> bool" where
  "accepts f \<longleftrightarrow> (\<forall>c c'. f c = Some c' \<longrightarrow> rel c c')"

lemma keeps_statement: "accepts f \<Longrightarrow> keeps (must db n msg f)" "accepts f \<Longrightarrow> keeps (may db n f)"
  by (auto simp: keeps_def accepts_def must_def may_def exec_def rel_refl split: option.split)

lemma keeps_steps: "list_all keeps fs \<Longrightarrow> keeps (steps fs)"
proof (induction fs)
  case Nil
  then show ?case by (simp add: keeps_def rel_refl)
next
  case (Cons f fs)
  then have f: "rel c (snd (f c))" and fs: "rel c (snd (steps fs c))" for c by (simp_all add: keeps_def)
  show ?case
    unfolding keeps_def
  proof
    fix c
    show "rel c (snd (steps (f # fs) c))"
      using f [of c] fs [of "snd (f c)"] by (auto split: prod.split sum.split intro: rel_trans)
  qed
qed

lemma keeps_ask: "list_all keeps yes \<Longrightarrow> list_all keeps no \<Longrightarrow> keeps (ask db n msg q yes no)"
  "list_all keeps yes \<Longrightarrow> list_all keeps no \<Longrightarrow> keeps (ask_or db n d q yes no)"
  using keeps_steps [of yes] keeps_steps [of no] by (auto simp: keeps_def ask_def ask_or_def rel_refl split: option.split)

lemmas keeps_intros = keeps_statement keeps_steps keeps_ask

end

text \<open>
  Tables and columns stay, except for the column that is renamed; that one does not come back, and
  a path column that is binary stays binary.
\<close>

definition grows :: "catalogue \<Rightarrow> catalogue \<Rightarrow> bool" where
  "grows c c' \<longleftrightarrow> (\<forall>t. has_table t c \<longrightarrow> has_table t c') \<and>
     (\<forall>t col. has_column t col c \<and> (t, col) \<noteq> (''watcher_presets'', ''presets'') \<longrightarrow> has_column t col c') \<and>
     (has_column ''watcher_presets'' ''presets'' c' \<longrightarrow> has_column ''watcher_presets'' ''presets'' c) \<and>
     (\<forall>col. data_type ''files'' col c = Some ''varbinary'' \<longrightarrow> data_type ''files'' col c' = Some ''varbinary'')"

text \<open>A table that is only ever created, with one definition.\<close>

definition table_kept :: "string \<Rightarrow> table_def \<Rightarrow> catalogue \<Rightarrow> catalogue \<Rightarrow> bool" where
  "table_kept t d c c' \<longleftrightarrow> hm_get c' t = hm_get c t \<or> \<not> has_table t c \<and> hm_get c' t = Some d"

lemma grows_trans: "grows c c' \<Longrightarrow> grows c' c'' \<Longrightarrow> grows c c''"
  unfolding grows_def by (intro conjI) blast+

interpretation growing: catalogue_relation grows
  by unfold_locales (simp add: grows_def, rule grows_trans)

interpretation kept: catalogue_relation "table_kept t d" for t d
  by unfold_locales (auto simp: table_kept_def has_table_def)

lemma alter_table_get:
  "alter_table t f c = Some c' \<Longrightarrow> \<exists>d d'. hm_get c t = Some d \<and> f d = Some d' \<and> hm_get c' t = Some d' \<and>
     (\<forall>u. u \<noteq> t \<longrightarrow> hm_get c' u = hm_get c u)"
  by (auto simp: alter_table_def hm_get_insert split: bind_splits)

text \<open>The change of one table that keeps what \<open>grows\<close> asks for.\<close>

definition table_grows :: "string \<Rightarrow> table_def \<Rightarrow> table_def \<Rightarrow> bool" where
  "table_grows t d d' \<longleftrightarrow>
     (\<forall>col \<in> set (map fst (td_columns d)). (t, col) \<noteq> (''watcher_presets'', ''presets'') \<longrightarrow> col \<in> set (map fst (td_columns d'))) \<and>
     (t = ''watcher_presets'' \<longrightarrow> ''presets'' \<in> set (map fst (td_columns d')) \<longrightarrow> ''presets'' \<in> set (map fst (td_columns d))) \<and>
     (t = ''files'' \<longrightarrow> (\<forall>col. map_of (td_columns d) col = Some ''varbinary'' \<longrightarrow> map_of (td_columns d') col = Some ''varbinary''))"

lemma alter_grows:
  assumes "\<And>d d'. f d = Some d' \<Longrightarrow> table_grows t d d'"
  shows "growing.accepts (alter_table t f)"
  unfolding growing.accepts_def
proof (intro allI impI)
  fix c c'
  assume "alter_table t f c = Some c'"
  from alter_table_get [OF this] obtain d d' where d: "hm_get c t = Some d" "f d = Some d'" "hm_get c' t = Some d'"
    "\<And>u. u \<noteq> t \<Longrightarrow> hm_get c' u = hm_get c u" by blast
  have [simp]: "has_table u c' \<longleftrightarrow> has_table u c" for u using d by (cases "u = t") (auto simp: has_table_def)
  have [simp]: "columns_of u c' = (if u = t then map fst (td_columns d') else columns_of u c)"
    "data_type u col c' = (if u = t then map_of (td_columns d') col else data_type u col c)" for u col
    using d by (auto simp: columns_of_def data_type_def)
  have [simp]: "columns_of t c = map fst (td_columns d)" "data_type t col c = map_of (td_columns d) col" for col
    using d by (auto simp: columns_of_def data_type_def)
  show "grows c c'"
    using assms [OF d(2)] by (auto simp: grows_def table_grows_def has_column_def split: if_splits)
qed

lemma create_grows:
  assumes "t = ''watcher_presets'' \<longrightarrow> ''presets'' \<notin> set (map fst (td_columns d))"
  shows "growing.accepts (create_table t d)" "growing.accepts (create_table_if_not_exists t d)"
  using assms by (auto simp: growing.accepts_def grows_def create_table_def create_table_if_not_exists_def has_table_def
      has_column_def columns_of_def data_type_def hm_get_insert split: if_splits option.splits)

lemma map_of_retyped:
  "map_of (map (\<lambda>(k, v). (k, if k = col then ty else v)) xs) k = map_option (\<lambda>v. if k = col then ty else v) (map_of xs k)"
  by (induction xs) auto

lemma ddl_grows:
  "(t, col) \<noteq> (''watcher_presets'', ''presets'') \<Longrightarrow> growing.accepts (add_column t col ty)"
  "(t, col) \<noteq> (''watcher_presets'', ''presets'') \<Longrightarrow> growing.accepts (add_column_after t col ty prev)"
  "(t, col) \<noteq> (''watcher_presets'', ''presets'') \<Longrightarrow> growing.accepts (\<lambda>c. if b then add_column t col ty c else None)"
  "growing.accepts (change_column ''watcher_presets'' ''presets'' ''preset_json'' ty)"
  "growing.accepts (modify_column ''files'' col ''varbinary'')"
  "growing.accepts (create_index t nm un cols)" "growing.accepts (add_foreign_key t nm col r)"
  "growing.accepts (update_rows us)"
proof -
  show add: "growing.accepts (add_column t col ty)" if "(t, col) \<noteq> (''watcher_presets'', ''presets'')"
    unfolding add_column_def by (rule alter_grows) (use that in \<open>auto simp: table_grows_def map_add_def split: if_splits option.split\<close>)
  show "growing.accepts (add_column_after t col ty prev)" "growing.accepts (\<lambda>c. if b then add_column t col ty c else None)"
    if "(t, col) \<noteq> (''watcher_presets'', ''presets'')"
    using add [OF that] by (auto simp: growing.accepts_def add_column_after_def split: if_splits)
  show "growing.accepts (change_column ''watcher_presets'' ''presets'' ''preset_json'' ty)"
    unfolding change_column_def by (rule alter_grows) (force simp: table_grows_def split: if_splits)
  show "growing.accepts (modify_column ''files'' col ''varbinary'')"
    unfolding modify_column_def change_column_def
  proof (rule alter_grows)
    fix d d' :: table_def
    assume "(if col \<notin> set (map fst (td_columns d)) \<or> col \<noteq> col \<and> col \<in> set (map fst (td_columns d)) then None
      else Some (d\<lparr>td_columns := map (\<lambda>(k, v). if k = col then (col, ''varbinary'') else (k, v)) (td_columns d)\<rparr>)) = Some d'"
    then have d': "td_columns d' = map (\<lambda>(k, v). (k, if k = col then ''varbinary'' else v)) (td_columns d)"
      by (auto split: if_splits intro: map_cong)
    then show "table_grows ''files'' d d'"
      by (auto simp: table_grows_def map_of_retyped image_image case_prod_beta)
  qed
  show "growing.accepts (create_index t nm un cols)"
    unfolding create_index_def by (rule alter_grows) (auto simp: table_grows_def split: if_splits)
  show "growing.accepts (add_foreign_key t nm col r)"
  proof -
    have "growing.accepts (alter_table t (\<lambda>d. if nm \<in> set (td_constraints d) \<or> col \<notin> set (map fst (td_columns d)) then None
        else Some (d\<lparr>td_constraints := td_constraints d @ [nm], td_references := td_references d @ [(col, r)]\<rparr>)))"
      by (rule alter_grows) (auto simp: table_grows_def split: if_splits)
    then show ?thesis by (auto simp: growing.accepts_def add_foreign_key_def split: if_splits)
  qed
  show "growing.accepts (update_rows us)"
    by (auto simp: growing.accepts_def update_rows_def grows_def split: if_splits)
qed

lemmas migrate_defs = migrate_presets_name_def migrate_files_columns_def files_column_steps_def migrate_files_types_def migrate_conditions_def
  migrate_groups_def migrate_watchers_table_def migrate_watchers_index_def migrate_watcher_id_def
  migrate_watchers_columns_def watchers_column_steps_def migrate_presets_def ensure_column_def need_def

lemma schema_grows: "growing.keeps (init_schema db)" "growing.keeps (migrate_schema db)"
  unfolding init_schema_def create_named_def migrate_schema_def migrate_defs
  by (intro growing.keeps_intros; simp add: growing.keeps_intros create_grows ddl_grows watcher_presets_table_def)+

text \<open>
  No start of the server loses a table or a column.  Whatever the database held before, and
  whichever statements of the initialisation and of the migration fail, every table is still
  there afterwards with all its columns, apart from the column \<^verbatim>\<open>presets\<close> of \<^verbatim>\<open>watcher_presets\<close>
  that the migration renames.
\<close>
theorem migration_keeps_columns:
  "(has_table t c \<longrightarrow> has_table t (snd (start_schema db db' c)) \<and> has_table t (factory_schema db db' c)) \<and>
   (has_column t col c \<and> (t, col) \<noteq> (''watcher_presets'', ''presets'') \<longrightarrow>
      has_column t col (snd (start_schema db db' c)) \<and> has_column t col (factory_schema db db' c))"
proof -
  have init: "grows c (snd (init_schema db c))" for c using schema_grows(1) by (simp add: growing.keeps_def)
  have mig: "grows c (snd (migrate_schema db' c))" for c using schema_grows(2) by (simp add: growing.keeps_def)
  have f: "grows c (factory_schema db db' c)"
    unfolding factory_schema_def using init mig by (rule growing.rel_trans)
  have "grows c (snd (start_schema db db' c))"
    using init [of c] growing.rel_trans [OF init [of c] mig [of "snd (init_schema db c)"]]
    by (auto simp: start_schema_def split: prod.split sum.split)
  with f show ?thesis by (simp add: grows_def)
qed

theorem migration_keeps_columns_witness:
  "has_column ''watchers'' ''note'' (snd (start_schema \<lparr>db_fault = \<lambda>n. if n = 3 then Some ''gone away'' else None,
       db_refusal = \<lambda>_. ''refused'', db_text_default = False\<rparr> \<lparr>db_fault = \<lambda>_. None, db_refusal = \<lambda>_. ''refused'', db_text_default = False\<rparr>
     [(''watchers'', watchers_table\<lparr>td_columns := [(''note'', ''text'')]\<rparr>)]))"
proof -
  have "has_column ''watchers'' ''note'' [(''watchers'', watchers_table\<lparr>td_columns := [(''note'', ''text'')]\<rparr>)]" by code_simp
  then show ?thesis using migration_keeps_columns by simp
qed


text \<open>
  The tables of tokens and of groups have the columns of their first creation for ever: no
  statement of the migration changes them.
\<close>

lemma alter_kept: "u \<noteq> t \<Longrightarrow> kept.accepts t d (alter_table u f)"
  by (auto simp: kept.accepts_def table_kept_def dest!: alter_table_get)

lemma ddl_kept:
  assumes "u \<noteq> t"
  shows "kept.accepts t d (add_column u col ty)" "kept.accepts t d (add_column_after u col ty prev)"
    "kept.accepts t d (\<lambda>c. if b then add_column u col ty c else None)" "kept.accepts t d (change_column u col col' ty)"
    "kept.accepts t d (modify_column u col ty)" "kept.accepts t d (create_index u nm un cols)"
    "kept.accepts t d (add_foreign_key u nm col r)"
proof -
  note alter = alter_kept [OF assms]
  show "kept.accepts t d (add_column u col ty)" "kept.accepts t d (change_column u col col' ty)"
    "kept.accepts t d (modify_column u col ty)" "kept.accepts t d (create_index u nm un cols)"
    by (simp_all add: add_column_def change_column_def modify_column_def create_index_def alter)
  then show "kept.accepts t d (add_column_after u col ty prev)" "kept.accepts t d (\<lambda>c. if b then add_column u col ty c else None)"
    by (auto simp: kept.accepts_def add_column_after_def split: if_splits)
  show "kept.accepts t d (add_foreign_key u nm col r)"
    using alter by (auto simp: kept.accepts_def add_foreign_key_def split: if_splits)
qed

lemma create_kept:
  "kept.accepts t d (update_rows us)"
  "u = t \<longrightarrow> e = d \<Longrightarrow> kept.accepts t d (create_table u e)"
  "u = t \<longrightarrow> e = d \<Longrightarrow> kept.accepts t d (create_table_if_not_exists u e)"
  by (auto simp: kept.accepts_def table_kept_def update_rows_def create_table_def create_table_if_not_exists_def has_table_def
      hm_get_insert split: if_splits option.splits)

lemma schema_kept:
  "kept.keeps ''auth_tokens'' auth_tokens_table (init_schema db)" "kept.keeps ''auth_tokens'' auth_tokens_table (migrate_schema db)"
  "kept.keeps ''watcher_groups'' watcher_groups_table (init_schema db)" "kept.keeps ''watcher_groups'' watcher_groups_table (migrate_schema db)"
  unfolding init_schema_def create_named_def migrate_schema_def migrate_defs
  by (intro kept.keeps_intros; simp add: kept.keeps_intros ddl_kept create_kept)+

lemma start_kept:
  assumes "\<And>db. kept.keeps t d (init_schema db)" "\<And>db. kept.keeps t d (migrate_schema db)"
  shows "table_kept t d c (snd (start_schema db db' c))" "table_kept t d c (factory_schema db db' c)"
proof -
  have init: "table_kept t d c (snd (init_schema db c))" for c using assms(1) by (simp add: kept.keeps_def)
  have mig: "table_kept t d c (snd (migrate_schema db' c))" for c using assms(2) by (simp add: kept.keeps_def)
  show "table_kept t d c (factory_schema db db' c)" unfolding factory_schema_def using init mig by (rule kept.rel_trans)
  show "table_kept t d c (snd (start_schema db db' c))"
    using init [of c] kept.rel_trans [OF init [of c] mig [of "snd (init_schema db c)"]]
    by (auto simp: start_schema_def split: prod.split sum.split)
qed

lemmas start_tokens = start_kept [OF schema_kept(1, 2)]
lemmas start_groups = start_kept [OF schema_kept(3, 4)]

text \<open>The table is missing, or it is the one the server creates; then so it is after a start.\<close>

definition own_table :: "string \<Rightarrow> table_def \<Rightarrow> catalogue \<Rightarrow> bool" where
  "own_table t d c \<longleftrightarrow> \<not> has_table t c \<or> hm_get c t = Some d"

lemma own_columns: "own_table t d c \<Longrightarrow> table_kept t d c c' \<Longrightarrow> set (columns_of t c') \<subseteq> set (map fst (td_columns d))"
  by (auto simp: own_table_def table_kept_def has_table_def columns_of_def split: option.splits)

section \<open>What a step establishes\<close>


definition monotone_fact :: "(catalogue \<Rightarrow> bool) \<Rightarrow> bool" where
  "monotone_fact p \<longleftrightarrow> (\<forall>c c'. grows c c' \<longrightarrow> p c \<longrightarrow> p c')"

lemma monotone_facts [simp]:
  "monotone_fact (has_table t)" "(t, col) \<noteq> (''watcher_presets'', ''presets'') \<Longrightarrow> monotone_fact (has_column t col)"
  "monotone_fact (\<lambda>_. b)"
  by (auto simp: monotone_fact_def grows_def)




































lemma catalogue_insert [simp]:
  "has_table t (hm_insert u d c) \<longleftrightarrow> t = u \<or> has_table t c"
  "columns_of t (hm_insert u d c) = (if t = u then map fst (td_columns d) else columns_of t c)"
  "indexes_of t (hm_insert u d c) = (if t = u then td_indexes d else indexes_of t c)"
  "data_type t col (hm_insert u d c) = (if t = u then map_of (td_columns d) col else data_type t col c)"
  "has_table t [] = False" "columns_of t [] = []" "indexes_of t [] = []" "data_type t col [] = None"
  by (auto simp: has_table_def columns_of_def indexes_of_def data_type_def hm_get_insert)







subsection \<open>Starting again\<close>


lemma monotone_settled [simp]:
  "monotone_fact (\<lambda>c. \<not> has_column ''watcher_presets'' ''presets'' c)"
  "monotone_fact (\<lambda>c. data_type ''files'' col c = Some ''varbinary'')"
  by (auto simp: monotone_fact_def grows_def)












end
