(* ===== verification/Startup.thy ===== *)
theory Startup
  imports File_Store Mysql_Schema Connections
begin

text \<open>
  Start and end of the server: which storage and which file store it opens
  (\<^verbatim>\<open>src/server/startup.rs\<close>, \<^verbatim>\<open>src/storage/mod.rs\<close>, \<^verbatim>\<open>src/server/app_state.rs\<close>), the event bus it
  takes, the background tasks, and the wait for open connections when it stops.  The
  driver's connect, the parser of URLs, RabbitMQ and S3 are parameters.
\<close>

section \<open>The storage\<close>

record parsed_url =
  ur_host_str :: "string option"
  ur_port :: "16 word option"
  ur_username :: string
  ur_password :: "string option"
  ur_path :: string

record drivers =
  dr_url_parse :: "string \<Rightarrow> (string, parsed_url) result" \<comment> \<open>\<^verbatim>\<open>url::Url::parse\<close>\<close>
  dr_connect :: "string \<Rightarrow> (string, unit) result" \<comment> \<open>\<^verbatim>\<open>connect\<close> of the connection pool\<close>
  dr_broker :: "broker_config \<Rightarrow> (string, unit) result" \<comment> \<open>the connection to RabbitMQ and its set-up\<close>

datatype storage_backend = Memory_Backend | Mysql_Backend string \<comment> \<open>in memory, or the URL of the database\<close>

definition parse_mysql_url :: "drivers \<Rightarrow> string \<Rightarrow> (sync_error, database_config) result" where
  "parse_mysql_url dr text =
     (case dr_url_parse dr text of
        Inl e \<Rightarrow> Err (Config (''Invalid MySQL URL: '' @ e))
      | Inr url \<Rightarrow>
          (case ur_host_str url of
             None \<Rightarrow> Err (Config ''Missing host in MySQL URL'')
           | Some host \<Rightarrow>
               (let database = dropWhile (\<lambda>c. c = CHR ''/'') (ur_path url) in
                if database = [] then Err (Config ''Missing database name in MySQL URL'')
                else Ok \<lparr>dc_user = ur_username url, dc_password = or_default (ur_password url) [], dc_name = database,
                         dc_host = host, dc_port = or_default (ur_port url) 3306, dc_max_connections = 50,
                         dc_connection_timeout = 30, dc_log_queries = False, dc_ssl_mode = None, dc_ssl_ca_path = None\<rparr>)))"

definition new_with_url :: "drivers \<Rightarrow> string \<Rightarrow> unit sres" where
  "new_with_url dr url =
     (case dr_connect dr url of
        Inr _ \<Rightarrow> Ok () | Inl e \<Rightarrow> Err (SE_Connection (''Failed to connect via sqlx: '' @ e)))"

text \<open>Errors of the schema are only logged; the health check of the MySQL storage always succeeds.\<close>

definition create_mysql_storage ::
    "drivers \<Rightarrow> dbms \<Rightarrow> dbms \<Rightarrow> database_config \<Rightarrow> catalogue \<Rightarrow> (sync_error, storage_backend) result \<times> catalogue" where
  "create_mysql_storage dr db db' c cat =
     (case new_with_url dr (database_url c) of
        Inl e \<Rightarrow> (Err (Storage (''Failed to create MySQL storage: '' @ storage_error_display e)), cat)
      | Inr _ \<Rightarrow> (Ok (Mysql_Backend (database_url c)), factory_schema db db' cat))"

definition my_health_check :: "bool sres" where
  "my_health_check = Ok True"

definition init_storage ::
    "drivers \<Rightarrow> dbms \<Rightarrow> dbms \<Rightarrow> database_config \<Rightarrow> catalogue \<Rightarrow> (sync_error, storage_backend) result \<times> catalogue" where
  "init_storage dr db db' c cat =
     (case create_mysql_storage dr db db' c cat of
        (Inl e, cat1) \<Rightarrow> (Err e, cat1)
      | (Inr b, cat1) \<Rightarrow>
          (case my_health_check of
             Inl e \<Rightarrow> (Err (Storage (''Storage health check failed: '' @ storage_error_display e)), cat1)
           | Inr _ \<Rightarrow> (Ok b, cat1)))"

definition init_storage_from_config ::
    "drivers \<Rightarrow> dbms \<Rightarrow> dbms \<Rightarrow> server_config \<Rightarrow> catalogue \<Rightarrow> (sync_error, storage_backend) result \<times> catalogue" where
  "init_storage_from_config dr db db' c cat =
     (case sc_storage_path c of
        Some path \<Rightarrow>
          if starts_with path ''mysql://'' then
            (case parse_mysql_url dr path of Inl e \<Rightarrow> (Err e, cat) | Inr dc \<Rightarrow> init_storage dr db db' dc cat)
          else (Ok Memory_Backend, cat)
      | None \<Rightarrow> (Ok Memory_Backend, cat))"

definition init_storage_legacy ::
    "drivers \<Rightarrow> dbms \<Rightarrow> dbms \<Rightarrow> string option \<Rightarrow> catalogue \<Rightarrow> storage_backend \<times> catalogue" where
  "init_storage_legacy dr db db' db_url cat =
     (case db_url of
        Some url \<Rightarrow>
          if starts_with url ''mysql://'' then
            (case parse_mysql_url dr url of
               Inr dc \<Rightarrow>
                 (case init_storage dr db db' dc cat of
                    (Inr b, cat1) \<Rightarrow> (b, cat1) | (Inl _, cat1) \<Rightarrow> (Memory_Backend, cat1))
             | Inl _ \<Rightarrow> (Memory_Backend, cat))
          else (Memory_Backend, cat)
      | None \<Rightarrow> (Memory_Backend, cat))"

definition server_ready_check :: "bool sres \<Rightarrow> (sync_error, unit) result" where
  "server_ready_check health =
     (case health of Inl e \<Rightarrow> Err (ServiceUnavailable (''Storage not ready: '' @ storage_error_display e)) | Inr _ \<Rightarrow> Ok ())"

section \<open>The file store\<close>

text \<open>The store of the contents: the discarding one beside the storage in memory, the database, or S3.\<close>

datatype 'w blob_backend = Discarding_Blobs | Database_Blobs string | S3_Blobs "'w s3_store"

text \<open>\<^verbatim>\<open>utils/db.rs\<close>\<close>

definition checked_mysql_url :: "string \<Rightarrow> string sres" where
  "checked_mysql_url url =
     (if \<not> starts_with url ''mysql://'' then Err (SE_ConfigurationError ''Only MySQL URLs are supported'') else Ok url)"

definition database_file_storage_new :: "process_env \<Rightarrow> drivers \<Rightarrow> string sres" where
  "database_file_storage_new env dr =
     (let c = (case config_load_async env of Inr c \<Rightarrow> c | Inl _ \<Rightarrow> config_load env) in
      case checked_mysql_url (database_url (cf_database c)) of
        Inl e \<Rightarrow> Err e
      | Inr url \<Rightarrow> (case new_with_url dr url of Inl e \<Rightarrow> Err e | Inr _ \<Rightarrow> Ok url))"

text \<open>\<open>my\<close> and \<open>t\<close> are the database of the contents, \<open>sv\<close> and \<open>w\<close> the service S3 at the time of the check.\<close>

definition create_file_storage ::
    "process_env \<Rightarrow> drivers \<Rightarrow> mysql \<Rightarrow> (u64 \<times> bytes) list \<Rightarrow> 'w s3_service \<Rightarrow> 'w \<Rightarrow> storage_config \<Rightarrow> (sync_error, 'w blob_backend) result" where
  "create_file_storage env dr my t sv w c =
     (case st_storage_type c of
        ST_Database \<Rightarrow>
          (case database_file_storage_new env dr of
             Inl e \<Rightarrow> Err (Storage (''Failed to create DB file storage: '' @ storage_error_display e))
           | Inr url \<Rightarrow>
               (case db_health_check my t of
                  Inl e \<Rightarrow> Err (Storage (''File storage health check failed: '' @ storage_error_display e))
                | Inr _ \<Rightarrow> Ok (Database_Blobs url)))
      | ST_S3 \<Rightarrow>
          (case s3_health_check sv (st_s3 c) (s3_new w) of
             (Inl e, _) \<Rightarrow> Err (Storage (''File storage health check failed: '' @ storage_error_display e))
           | (Inr _, st) \<Rightarrow> Ok (S3_Blobs st)))"

definition create_file_storage_with_mysql :: "string \<Rightarrow> 'w \<Rightarrow> storage_config \<Rightarrow> (sync_error, 'w blob_backend) result" where
  "create_file_storage_with_mysql url w c =
     (case st_storage_type c of ST_Database \<Rightarrow> Ok (Database_Blobs url) | ST_S3 \<Rightarrow> Ok (S3_Blobs (s3_new w)))"

definition initialize_file_storage ::
    "process_env \<Rightarrow> drivers \<Rightarrow> mysql \<Rightarrow> (u64 \<times> bytes) list \<Rightarrow> 'w s3_service \<Rightarrow> 'w \<Rightarrow> (sync_error, 'w blob_backend) result" where
  "initialize_file_storage env dr my t sv w =
     (case create_file_storage env dr my t sv w (storage_config_load env) of
        Inr b \<Rightarrow> Ok b | Inl e \<Rightarrow> Err (Storage (''Failed to initialize file storage: '' @ sync_error_display e)))"

definition initialize_file_storage_with_storage ::
    "process_env \<Rightarrow> drivers \<Rightarrow> mysql \<Rightarrow> (u64 \<times> bytes) list \<Rightarrow> 'w s3_service \<Rightarrow> 'w \<Rightarrow> storage_backend
     \<Rightarrow> (sync_error, 'w blob_backend) result" where
  "initialize_file_storage_with_storage env dr my t sv w storage =
     (if storage = Memory_Backend then Ok Discarding_Blobs else initialize_file_storage env dr my t sv w)"

section \<open>The event bus\<close>

datatype event_bus = Noop_Bus | Rabbit_Bus broker_config

definition create_event_bus :: "process_env \<Rightarrow> drivers \<Rightarrow> event_bus" where
  "create_event_bus env dr =
     (let cfg = broker_config_load env in
      if mb_enabled cfg then (case dr_broker dr cfg of Inr _ \<Rightarrow> Rabbit_Bus cfg | Inl _ \<Rightarrow> Noop_Bus) else Noop_Bus)"

section \<open>The start without the container\<close>

text \<open>
  What a start opens, in the order of the code: the configuration, the storage with its schema, the
  configuration again, the file store, the event bus.
\<close>

record 'w opened =
  op_config :: config
  op_storage :: storage_backend
  op_file_storage :: "'w blob_backend"
  op_event_bus :: event_bus

definition start_legacy ::
    "process_env \<Rightarrow> drivers \<Rightarrow> dbms \<Rightarrow> dbms \<Rightarrow> mysql \<Rightarrow> (u64 \<times> bytes) list \<Rightarrow> 'w s3_service \<Rightarrow> 'w \<Rightarrow> catalogue
     \<Rightarrow> (sync_error, 'w opened) result \<times> catalogue" where
  "start_legacy env dr db db' my t sv w cat =
     (case build_config env of
        Inl e \<Rightarrow> (Err e, cat)
      | Inr c \<Rightarrow>
          (case init_storage dr db db' (cf_database c) cat of
             (Inl e, cat1) \<Rightarrow> (Err e, cat1)
           | (Inr storage, cat1) \<Rightarrow>
               (let full = fst (app_state_new_with_storage env (cf_server c) None) in
                case initialize_file_storage_with_storage env dr my t sv w storage of
                  Inl e \<Rightarrow> (Err e, cat1)
                | Inr blobs \<Rightarrow>
                    (Ok \<lparr>op_config = full, op_storage = storage, op_file_storage = blobs,
                         op_event_bus = create_event_bus env dr\<rparr>, cat1))))"

section \<open>Background tasks and the end\<close>

text \<open>One round of the cleanup of clients, and of the retention task, whose start is commented out.\<close>

definition client_cleanup_tick :: "datetime \<Rightarrow> client_store \<Rightarrow> client_store" where
  "client_cleanup_tick now m = cleanup_disconnected_clients now 24 m"

definition retention_tick :: "mysql \<Rightarrow> mysql \<Rightarrow> storage_config \<Rightarrow> files \<Rightarrow> files" where
  "retention_tick my my' c t =
     snd (my_purge_deleted_files_older_than my' (st_file_ttl_secs c) (snd (my_trim_old_revisions my (st_max_file_revisions c) t)))"

text \<open>
  The wait of \<^verbatim>\<open>graceful_shutdown\<close>: \<open>conns k\<close> is the table of connections after \<open>k\<close> pauses of 100
  milliseconds; the result is the number of pauses.
\<close>

function shutdown_wait :: "(nat \<Rightarrow> connections) \<Rightarrow> nat \<Rightarrow> nat" where
  "shutdown_wait conns wait_count =
     (if ct_get_total_active_connections (conns wait_count) > 0 \<and> wait_count < 100
      then shutdown_wait conns (wait_count + 1) else wait_count)"
  by pat_completeness auto
termination by (relation "measure (\<lambda>(_, k). 100 - k)") auto

declare shutdown_wait.simps [simp del]

definition graceful_shutdown :: "(nat \<Rightarrow> connections) \<Rightarrow> nat \<times> nat" where
  "graceful_shutdown conns =
     (let k = shutdown_wait conns 0 in (100 * k, ct_get_total_active_connections (conns k)))"

section \<open>What a start opens\<close>

lemma init_storage_cases:
  "init_storage dr db db' c cat =
     (case dr_connect dr (database_url c) of
        Inl e \<Rightarrow> (Err (Storage (''Failed to create MySQL storage: '' @ storage_error_display (SE_Connection (''Failed to connect via sqlx: '' @ e)))), cat)
      | Inr _ \<Rightarrow> (Ok (Mysql_Backend (database_url c)), factory_schema db db' cat))"
  by (simp add: init_storage_def create_mysql_storage_def new_with_url_def my_health_check_def split: sum.split)

text \<open>The store of contents that was opened is the one the environment names.\<close>

lemma create_file_storage_kind:
  assumes "create_file_storage env dr my t sv w c = Ok b"
  shows "(case st_storage_type c of ST_Database \<Rightarrow> \<exists>url. b = Database_Blobs url | ST_S3 \<Rightarrow> \<exists>st. b = S3_Blobs st)"
  using assms by (auto simp: create_file_storage_def split: storage_type.splits sum.splits prod.splits)

lemma initialize_file_storage_kind:
  assumes "initialize_file_storage env dr my t sv w = Ok b"
  shows "(case st_storage_type (storage_config_load env) of ST_Database \<Rightarrow> \<exists>url. b = Database_Blobs url | ST_S3 \<Rightarrow> \<exists>st. b = S3_Blobs st)"
  using assms create_file_storage_kind by (auto simp: initialize_file_storage_def split: sum.splits)

text \<open>
  A start without the container that succeeds has a checked configuration and a connection to
  the configured database, on which it has run the creation and the migration of the tables, and it keeps the contents of
  files in the kind of store that the environment names; it never falls back to the storage in
  memory.  Whether the tables could be created does not matter: any two databases that answer the connection
  start alike.
\<close>
theorem start_legacy_opens:
  assumes "start_legacy env dr db db' my t sv w cat = (Ok o', cat')"
  shows "\<exists>c. build_config env = Ok c \<and> op_storage o' = Mysql_Backend (database_url (cf_database c)) \<and>
    dr_connect dr (database_url (cf_database c)) = Ok () \<and> cat' = factory_schema db db' cat \<and>
    (case st_storage_type (storage_config_load env) of
       ST_Database \<Rightarrow> \<exists>url. op_file_storage o' = Database_Blobs url | ST_S3 \<Rightarrow> \<exists>st. op_file_storage o' = S3_Blobs st) \<and>
    start_legacy env dr db2 db2' my t sv w cat = (Ok o', factory_schema db2 db2' cat)"
proof -
  obtain c where c: "build_config env = Ok c" using assms by (auto simp: start_legacy_def split: sum.splits)
  have conn: "dr_connect dr (database_url (cf_database c)) = Ok ()"
    using assms c by (auto simp: start_legacy_def init_storage_cases split: sum.splits)
  then have init: "init_storage dr x y (cf_database c) cat = (Ok (Mysql_Backend (database_url (cf_database c))), factory_schema x y cat)" for x y
    by (simp add: init_storage_cases)
  obtain b where b: "initialize_file_storage env dr my t sv w = Ok b"
    using assms c init by (auto simp: start_legacy_def initialize_file_storage_with_storage_def Let_def split: sum.splits)
  have run: "start_legacy env dr x y my t sv w cat =
      (Ok \<lparr>op_config = fst (app_state_new_with_storage env (cf_server c) None), op_storage = Mysql_Backend (database_url (cf_database c)),
         op_file_storage = b, op_event_bus = create_event_bus env dr\<rparr>, factory_schema x y cat)" for x y
    by (simp add: start_legacy_def c init initialize_file_storage_with_storage_def b)
  from assms run [of db db'] have o': "o' = \<lparr>op_config = fst (app_state_new_with_storage env (cf_server c) None),
      op_storage = Mysql_Backend (database_url (cf_database c)), op_file_storage = b, op_event_bus = create_event_bus env dr\<rparr>"
    and cat': "cat' = factory_schema db db' cat" by simp_all
  have kind: "case st_storage_type (storage_config_load env) of
       ST_Database \<Rightarrow> \<exists>url. op_file_storage o' = Database_Blobs url | ST_S3 \<Rightarrow> \<exists>st. op_file_storage o' = S3_Blobs st"
    using initialize_file_storage_kind [OF b] by (simp add: o' split: storage_type.splits)
  show ?thesis using c conn cat' kind run [of db2 db2'] by (intro exI [of _ c]) (simp add: o')
qed

text \<open>
  A service that reports, at the time of the check, that the bucket does not exist fails the check of the file store; the code that
  creates a missing bucket succeeds there whenever the service allows the creation.
\<close>

lemma missing_bucket:
  assumes s3: "st_storage_type (storage_config_load env) = ST_S3"
    and cl: "create_s3_client (st_s3 (storage_config_load env)) = Ok cl"
    and head: "sv_head_bucket sv cl (s3_bucket (st_s3 (storage_config_load env))) w = (HB_NotFound e, w1)"
  shows "\<exists>e. initialize_file_storage env dr my t sv w = Err e"
    "(\<And>l. \<exists>w2. sv_create_bucket sv cl (s3_bucket (st_s3 (storage_config_load env))) l w1 = (CB_Ok, w2)) \<Longrightarrow>
     fst (ensure_bucket_exists_once sv (st_s3 (storage_config_load env)) (s3_new w)) = Ok ()"
proof -
  let ?c = "st_s3 (storage_config_load env)"
  have client: "get_client ?c (s3_new w) = (Ok cl, (s3_new w)\<lparr>ss_client := Some (Ok cl)\<rparr>)"
    by (simp add: get_client_def s3_new_def cl Let_def)
  have "isl (fst (s3_health_check sv ?c (s3_new w)))"
    by (simp add: s3_health_check_def with_client_def client) (simp add: s3_new_def head)
  then show "\<exists>e. initialize_file_storage env dr my t sv w = Err e"
    by (auto simp: initialize_file_storage_def create_file_storage_def s3 isl_def split: prod.splits)
  assume "\<And>l. \<exists>w2. sv_create_bucket sv cl (s3_bucket ?c) l w1 = (CB_Ok, w2)"
  then obtain w2 where "sv_create_bucket sv cl (s3_bucket ?c)
      (if s3_region ?c \<noteq> ''us-east-1'' \<and> \<not> is_minio ?c then Some (s3_region ?c) else None) w1 = (CB_Ok, w2)" by blast
  then show "fst (ensure_bucket_exists_once sv ?c (s3_new w)) = Ok ()"
    by (simp add: ensure_bucket_exists_once_def ensure_bucket_exists_def create_bucket_def with_client_def s3_new_def
        get_client_def cl head Let_def)
qed

section \<open>The end of the server\<close>

lemma shutdown_wait_spec:
  "k \<le> 100 \<Longrightarrow> let n = shutdown_wait conns k in k \<le> n \<and> n \<le> 100 \<and>
     (\<forall>i. k \<le> i \<and> i < n \<longrightarrow> ct_get_total_active_connections (conns i) > 0) \<and>
     (ct_get_total_active_connections (conns n) = 0 \<or> n = 100)"
proof (induction conns k rule: shutdown_wait.induct)
  case (1 conns k)
  show ?case
  proof (cases "ct_get_total_active_connections (conns k) > 0 \<and> k < 100")
    case True
    then have step: "shutdown_wait conns k = shutdown_wait conns (k + 1)" by (subst shutdown_wait.simps) simp
    let ?n = "shutdown_wait conns (k + 1)"
    have IH: "k + 1 \<le> ?n" "?n \<le> 100" "\<forall>i. k + 1 \<le> i \<and> i < ?n \<longrightarrow> ct_get_total_active_connections (conns i) > 0"
      "ct_get_total_active_connections (conns ?n) = 0 \<or> ?n = 100"
      using 1(1) [OF True] True by (simp_all add: Let_def)
    have "ct_get_total_active_connections (conns i) > 0" if "k \<le> i" "i < ?n" for i
      using that True IH(3) by (cases "i = k") auto
    then show ?thesis unfolding step Let_def using IH by auto
  next
    case False
    then have "shutdown_wait conns k = k" by (subst shutdown_wait.simps) (simp only: if_False)
    then show ?thesis using False 1(2) by (auto simp: Let_def)
  qed
qed

text \<open>
  C30: stopping the server ends.  It waits exactly until no connection is active, and at most ten
  seconds; it goes on with open connections only after the full ten seconds.
\<close>
theorem shutdown_bounded:
  assumes "graceful_shutdown conns = (ms, left)"
  shows "ms \<le> 10000 \<and> (\<forall>i < ms div 100. ct_get_total_active_connections (conns i) > 0) \<and>
    left = ct_get_total_active_connections (conns (ms div 100)) \<and> (left = 0 \<or> ms = 10000)"
  using assms shutdown_wait_spec [of 0 conns] by (auto simp: graceful_shutdown_def Let_def)

section \<open>Examples\<close>

definition demo_drivers :: drivers where
  "demo_drivers = \<lparr>dr_url_parse = (\<lambda>_. Err ''relative URL''), dr_connect = (\<lambda>_. Ok ()), dr_broker = (\<lambda>_. Err ''refused'')\<rparr>"

definition demo_dbms :: dbms where
  "demo_dbms = \<lparr>db_fault = \<lambda>_. Some ''gone away'', db_refusal = \<lambda>_. ''refused'', db_text_default = False\<rparr>"

lemma demo_build: "\<exists>c. build_config demo_env = Ok c"
proof -
  have "\<not> env_flag demo_env ''COSMIC_SYNC_USE_CONTAINER'' False" by (simp add: env_flag_def or_default_def demo_env_def)
  then show ?thesis using demo_main by (auto simp: server_main_def main_config_def split: sum.splits)
qed

lemma database_url_checked: "checked_mysql_url (database_url c) = Ok (database_url c)"
  by (simp add: checked_mysql_url_def database_url_def starts_with_def Let_def)

lemma demo_files: "initialize_file_storage demo_env demo_drivers (sample_my None) [] sv w =
    Ok (Database_Blobs (database_url (cf_database (case config_load_async demo_env of Inr c \<Rightarrow> c | Inl _ \<Rightarrow> config_load demo_env))))"
proof -
  have "st_storage_type (storage_config_load demo_env) = ST_Database"
    by (simp add: storage_config_load_def storage_type_from_str_def env_text_def or_default_def demo_var to_lowercase_def
        is_ascii_def ascii_lower_def Let_def)
  moreover have "db_health_check (sample_my None) [] = Ok ()"
    by (simp add: db_health_check_def my_get_file_data_def stmt_def sample_my_def)
  ultimately show ?thesis
    by (simp add: initialize_file_storage_def create_file_storage_def database_file_storage_new_def database_url_checked
        new_with_url_def demo_drivers_def Let_def)
qed

theorem start_legacy_opens_witness:
  "\<exists>o' c. start_legacy demo_env demo_drivers demo_dbms demo_dbms (sample_my None) [] (demo_s3 True) [] [] =
      (Ok o', factory_schema demo_dbms demo_dbms []) \<and>
    build_config demo_env = Ok c \<and> op_storage o' = Mysql_Backend (database_url (cf_database c))"
proof -
  obtain c where c: "build_config demo_env = Ok c" using demo_build by blast
  have init: "init_storage demo_drivers demo_dbms demo_dbms d [] = (Ok (Mysql_Backend (database_url d)), factory_schema demo_dbms demo_dbms [])" for d
    by (simp add: init_storage_cases demo_drivers_def)
  obtain o' where run: "start_legacy demo_env demo_drivers demo_dbms demo_dbms (sample_my None) [] (demo_s3 True) [] [] =
      (Ok o', factory_schema demo_dbms demo_dbms [])"
    by (simp add: start_legacy_def c init initialize_file_storage_with_storage_def demo_files Let_def)
  from start_legacy_opens [OF run] run show ?thesis by blast
qed

definition s3_env :: process_env where
  "s3_env = demo_env\<lparr>pe_var := (pe_var demo_env)(''STORAGE_TYPE'' := Some ''s3'')\<rparr>"

lemma s3_env_s3: "st_storage_type (storage_config_load s3_env) = ST_S3"
  by (simp add: storage_config_load_def storage_type_from_str_def env_text_def or_default_def s3_env_def demo_env_def to_lowercase_def
      is_ascii_def ascii_lower_def Let_def)

theorem shutdown_bounded_witness: "graceful_shutdown (\<lambda>_. []) = (0, 0) \<and> (0 :: nat) \<le> 10000"
proof -
  have run: "graceful_shutdown (\<lambda>_. []) = (0, 0)"
    by (subst graceful_shutdown_def, subst shutdown_wait.simps) (simp add: ct_get_total_active_connections_def hm_values_def)
  from shutdown_bounded [OF run] run show ?thesis by simp
qed

end
