(* ===== verification/Mysql_Accounts.thy ===== *)
theory Mysql_Accounts
  imports Mysql_Schema Mysql_Files Login
begin

text \<open>
  Accounts, tokens and devices in MySQL: \<^verbatim>\<open>src/storage/mysql_account.rs\<close>,
  \<^verbatim>\<open>src/storage/mysql_auth.rs\<close> and \<^verbatim>\<open>src/storage/mysql_device.rs\<close>, as functions on the rows of
  their tables.  The parameter \<open>sql\<close> holds what the database decides: which statements fail and with which
  message, which columns a table has (the catalogue of \<open>Mysql_Schema\<close>), the collation, which
  makes two texts equal when their images are, and the clock.  A statement that names a column the
  table does not have is an error.  Keys and foreign keys are those of the server's own \<^verbatim>\<open>CREATE TABLE\<close>
  statements; the constraints of a table with other columns, values too long for their column
  and lost connections are faults.  A failed \<^verbatim>\<open>COMMIT\<close> leaves the rows as they were.
\<close>

section \<open>Statements\<close>

record sql =
  sq_fault :: "nat \<Rightarrow> string option" \<comment> \<open>the error of the statement with this number, if any\<close>
  sq_columns :: "string \<Rightarrow> string list" \<comment> \<open>the columns of a table\<close>
  sq_unknown :: string \<comment> \<open>the error for an unknown table or column\<close>
  sq_duplicate :: "string \<Rightarrow> string" \<comment> \<open>the error for a value of the primary key that is taken\<close>
  sq_no_parent :: string \<comment> \<open>the error of a foreign key\<close>
  sq_null :: "string \<Rightarrow> string" \<comment> \<open>the error of the driver for a column that is \<^verbatim>\<open>NULL\<close>\<close>
  sq_collate :: "string \<Rightarrow> string"
  sq_now :: datetime
  sq_chrono :: chrono
  sq_uuid :: string

definition same_text :: "sql \<Rightarrow> string \<Rightarrow> string \<Rightarrow> bool" where
  "same_text q x y \<longleftrightarrow> sq_collate q x = sq_collate q y"

definition secs :: "sql \<Rightarrow> datetime \<Rightarrow> i64" where
  "secs q d = ch_timestamp (sq_chrono q) d"

text \<open>\<^verbatim>\<open>DateTime::from_timestamp(ts, 0).unwrap_or_else(|| Utc::now())\<close>.\<close>

definition from_secs :: "sql \<Rightarrow> i64 \<Rightarrow> datetime" where
  "from_secs q ts = (case ch_from_timestamp (sq_chrono q) ts 0 of Some d \<Rightarrow> d | None \<Rightarrow> sq_now q)"

definition sql_run :: "sql \<Rightarrow> nat \<Rightarrow> string list \<Rightarrow> string list \<Rightarrow> (string, 'a) result \<Rightarrow> (string, 'a) result" where
  "sql_run q n has uses k =
     (case sq_fault q n of
        Some e \<Rightarrow> Err e
      | None \<Rightarrow> if set uses \<subseteq> set has then k else Err (sq_unknown q))"

text \<open>\<^verbatim>\<open>map_err(|e| StorageError::Database(format!(..)))\<close>.\<close>

definition db_err :: "string \<Rightarrow> (string, 'a) result \<Rightarrow> 'a sres" where
  "db_err msg r = (case r of Inr x \<Rightarrow> Ok x | Inl e \<Rightarrow> Err (SE_Database (msg @ e)))"

text \<open>A statement without a result; on an error the rows stay.\<close>

definition sql_update :: "string \<Rightarrow> (string, 's) result \<Rightarrow> 's \<Rightarrow> unit sres \<times> 's" where
  "sql_update msg r s = (case r of Inr s' \<Rightarrow> (Ok (), s') | Inl e \<Rightarrow> (Err (SE_Database (msg @ e)), s))"

section \<open>Tables\<close>

record account_row =
  ar_id :: string
  ar_email :: string
  ar_account_hash :: string
  ar_name :: string
  ar_password_hash :: "string option"
  ar_salt :: "string option"
  ar_created_at :: i64
  ar_updated_at :: i64
  ar_last_login :: "i64 option"
  ar_is_active :: bool

record token_row =
  tr_id :: string
  tr_account_hash :: string
  tr_access_token :: string
  tr_refresh_token :: "string option"
  tr_token_type :: string
  tr_expires_at :: i64
  tr_created_at :: i64

record device_row =
  dr_id :: string
  dr_account_hash :: string
  dr_device_hash :: string
  dr_device_name :: string
  dr_device_type :: string
  dr_os_type :: string
  dr_os_version :: string
  dr_app_version :: string
  dr_last_sync :: i64
  dr_created_at :: i64
  dr_updated_at :: i64
  dr_is_active :: bool

text \<open>The table \<^verbatim>\<open>accounts\<close> with its columns, if it exists, and the rows of the other two.\<close>

record accounts_db =
  ad_accounts :: "(string list \<times> account_row list) option"
  ad_tokens :: "token_row list"
  ad_devices :: "device_row list"

definition account_rows :: "accounts_db \<Rightarrow> account_row list" where
  "account_rows db = (case ad_accounts db of Some (_, rows) \<Rightarrow> rows | None \<Rightarrow> [])"

definition account_has :: "accounts_db \<Rightarrow> string list" where
  "account_has db = (case ad_accounts db of Some (cols, _) \<Rightarrow> cols | None \<Rightarrow> [])"

definition set_account_rows :: "account_row list \<Rightarrow> accounts_db \<Rightarrow> accounts_db" where
  "set_account_rows rows db = db\<lparr>ad_accounts := map_option (\<lambda>(cols, _). (cols, rows)) (ad_accounts db)\<rparr>"

section \<open>Accounts\<close>

definition account_columns :: "string list" where
  "account_columns = [''id'', ''account_hash'', ''email'', ''name'', ''password_hash'', ''salt'', ''created_at'',
     ''updated_at'', ''last_login'', ''is_active'']"

definition account_to_row :: "sql \<Rightarrow> account \<Rightarrow> account_row" where
  "account_to_row q a =
     \<lparr>ar_id = a_id a, ar_email = a_email a, ar_account_hash = a_account_hash a, ar_name = a_name a,
      ar_password_hash = Some (a_password_hash a), ar_salt = Some (a_salt a), ar_created_at = secs q (a_created_at a),
      ar_updated_at = secs q (a_updated_at a), ar_last_login = Some (secs q (a_last_login a)), ar_is_active = a_is_active a\<rparr>"

definition insert_account :: "sql \<Rightarrow> nat \<Rightarrow> account_row \<Rightarrow> accounts_db \<Rightarrow> (string, accounts_db) result" where
  "insert_account q n r db = sql_run q n (account_has db) account_columns
     (if list_ex (\<lambda>x. same_text q (ar_account_hash x) (ar_account_hash r)) (account_rows db)
      then Err (sq_duplicate q (ar_account_hash r)) else Ok (set_account_rows (account_rows db @ [r]) db))"

text \<open>\<^verbatim>\<open>CREATE TABLE IF NOT EXISTS accounts\<close>.\<close>

definition create_accounts_if_missing :: "sql \<Rightarrow> nat \<Rightarrow> accounts_db \<Rightarrow> (string, accounts_db) result" where
  "create_accounts_if_missing q n db = sql_run q n [] []
     (Ok (case ad_accounts db of Some _ \<Rightarrow> db | None \<Rightarrow> db\<lparr>ad_accounts := Some (map fst (td_columns accounts_table), [])\<rparr>))"

text \<open>
  One round of the loop of \<^verbatim>\<open>create_account\<close>: its result, or the database with which it goes on.  The
  statements are the start of the transaction, the insertion, the commit, \<^verbatim>\<open>SHOW TABLES\<close> and
  \<^verbatim>\<open>CREATE TABLE\<close>; the queries between them only serve the log.
\<close>

definition create_account_attempt :: "sql \<Rightarrow> account \<Rightarrow> i32 \<Rightarrow> accounts_db \<Rightarrow> (unit sres \<times> accounts_db) + accounts_db" where
  "create_account_attempt q account retry_count db =
     (let fail = (\<lambda>e. Inl (Err (SE_Database e), db)) in
      case sq_fault q 0 of
        Some e \<Rightarrow> fail (''Failed to start transaction: '' @ e)
      | None \<Rightarrow>
          (case insert_account q 1 (account_to_row q account) db of
             Inr db' \<Rightarrow>
               (case sq_fault q 2 of
                  Some e \<Rightarrow> fail (''Failed to commit transaction: '' @ e)
                | None \<Rightarrow> Inl (Ok (), db'))
           | Inl e \<Rightarrow>
               (if str_contains e ''Duplicate entry'' then fail (''Duplicate entry: '' @ e)
                else
                  (case sq_fault q 3 of
                     None \<Rightarrow>
                       (if retry_count \<ge> 2 then fail (''Failed to insert account after 2 retries: '' @ e)
                        else if wrap_i32 (retry_count + 1) \<ge> 2 then fail ''Failed to insert account after maximum retries''
                        else Inr db)
                   | Some _ \<Rightarrow>
                       (case create_accounts_if_missing q 4 db of
                          Inr db' \<Rightarrow> Inr db'
                        | Inl e' \<Rightarrow> fail (''Failed to create accounts table: '' @ e'))))))"

text \<open>The loop; \<open>qs\<close> gives the behaviour of the database for each round, and the counter is an \<^verbatim>\<open>i32\<close>.\<close>

partial_function (option) create_account_loop ::
  "(nat \<Rightarrow> sql) \<Rightarrow> account \<Rightarrow> nat \<Rightarrow> accounts_db \<Rightarrow> (unit sres \<times> accounts_db) option" where
  "create_account_loop qs account attempt db =
     (case create_account_attempt (qs attempt) account (wrap_i32 (int attempt)) db of
        Inl r \<Rightarrow> Some r
      | Inr db' \<Rightarrow> create_account_loop qs account (attempt + 1) db')"

definition my_create_account :: "(nat \<Rightarrow> sql) \<Rightarrow> account \<Rightarrow> accounts_db \<Rightarrow> (unit sres \<times> accounts_db) option" where
  "my_create_account qs account db = create_account_loop qs account 0 db"

definition my_get_account_by_id :: "string \<Rightarrow> account option sres" where
  "my_get_account_by_id id' = Err (SE_NotImplemented ''get_account_by_id not implemented for MySQL storage'')"

text \<open>The tuple of the query has plain types, so that a \<^verbatim>\<open>NULL\<close> is an error.\<close>

definition row_to_account :: "sql \<Rightarrow> account_row \<Rightarrow> (string, account) result" where
  "row_to_account q r =
     (case (ar_password_hash r, ar_salt r, ar_last_login r) of
        (None, _, _) \<Rightarrow> Err (sq_null q ''password_hash'')
      | (_, None, _) \<Rightarrow> Err (sq_null q ''salt'')
      | (_, _, None) \<Rightarrow> Err (sq_null q ''last_login'')
      | (Some password_hash, Some salt, Some last_login) \<Rightarrow>
          Ok \<lparr>a_account_hash = ar_account_hash r, a_id = ar_id r, a_email = ar_email r, a_name = ar_name r,
              a_user_type = ''oauth'', a_password_hash = password_hash, a_salt = salt, a_is_active = ar_is_active r,
              a_created_at = from_secs q (ar_created_at r), a_last_login = from_secs q last_login,
              a_updated_at = from_secs q (ar_updated_at r), a_user_id = ''''\<rparr>)"

definition find_account :: "sql \<Rightarrow> (account_row \<Rightarrow> string) \<Rightarrow> string \<Rightarrow> accounts_db \<Rightarrow> (string, account option) result" where
  "find_account q col v db = sql_run q 0 (account_has db) account_columns
     (case find (\<lambda>r. same_text q (col r) v) (account_rows db) of
        None \<Rightarrow> Ok None
      | Some r \<Rightarrow> (case row_to_account q r of Inr a \<Rightarrow> Ok (Some a) | Inl e \<Rightarrow> Err e))"

definition my_get_account_by_email :: "sql \<Rightarrow> string \<Rightarrow> accounts_db \<Rightarrow> account option sres" where
  "my_get_account_by_email q email db = db_err ''Failed to query account by email: '' (find_account q ar_email email db)"

definition my_get_account_by_hash :: "sql \<Rightarrow> string \<Rightarrow> accounts_db \<Rightarrow> account option sres" where
  "my_get_account_by_hash q account_hash db =
     db_err ''Failed to query account: '' (find_account q ar_account_hash account_hash db)"

definition my_update_account :: "sql \<Rightarrow> account \<Rightarrow> accounts_db \<Rightarrow> unit sres \<times> accounts_db" where
  "my_update_account q a db = sql_update ''Failed to update account: '' (sql_run q 0 (account_has db)
       [''name'', ''email'', ''password_hash'', ''salt'', ''updated_at'', ''last_login'', ''is_active'', ''account_hash'']
       (Ok (set_account_rows (map (\<lambda>r. if same_text q (ar_account_hash r) (a_account_hash a)
          then r\<lparr>ar_name := a_name a, ar_email := a_email a, ar_password_hash := Some (a_password_hash a),
                 ar_salt := Some (a_salt a), ar_updated_at := secs q (a_updated_at a),
                 ar_last_login := Some (secs q (a_last_login a)), ar_is_active := a_is_active a\<rparr>
          else r) (account_rows db)) db))) db"

definition my_delete_account :: "string \<Rightarrow> unit sres" where
  "my_delete_account account_hash = Err (SE_NotImplemented ''delete_account not implemented for MySQL storage'')"

section \<open>Tokens\<close>

definition token_columns :: "string list" where
  "token_columns = [''id'', ''account_hash'', ''access_token'', ''refresh_token'', ''token_type'', ''expires_at'', ''created_at'']"

definition my_create_auth_token :: "sql \<Rightarrow> auth_token \<Rightarrow> accounts_db \<Rightarrow> unit sres \<times> accounts_db" where
  "my_create_auth_token q t db = sql_update ''Failed to insert auth token: ''
     (sql_run q 0 (sq_columns q ''auth_tokens'') token_columns
       (Ok (db\<lparr>ad_tokens := ad_tokens db @ [\<lparr>tr_id = t_token_id t, tr_account_hash = t_account_hash t,
          tr_access_token = t_access_token t,
          tr_refresh_token = Some (case t_refresh_token t of Some r \<Rightarrow> r | None \<Rightarrow> ''''),
          tr_token_type = t_token_type t, tr_expires_at = secs q (t_expires_at t),
          tr_created_at = secs q (t_created_at t)\<rparr>]\<rparr>))) db"

definition ko_token_query :: string where
  "ko_token_query = map (char_of :: nat \<Rightarrow> char) [
     237, 134, 160, 237, 129, 176, 32, 236, 161, 176, 237, 154, 140, 32, 236, 191, 188, 235, 166,
     172, 32, 236, 139, 164, 237, 140, 168, 58, 32]"

definition ko_expiry :: string where
  "ko_expiry = map (char_of :: nat \<Rightarrow> char) [
     235, 167, 140, 235, 163, 140, 32, 236, 139, 156, 234, 176, 132, 32, 235, 179, 128, 237, 153,
     152, 32, 236, 139, 164, 237, 140, 168, 58, 32]"

definition ko_creation :: string where
  "ko_creation = map (char_of :: nat \<Rightarrow> char) [
     236, 131, 157, 236, 132, 177, 32, 236, 139, 156, 234, 176, 132, 32, 235, 179, 128, 237, 153,
     152, 32, 236, 139, 164, 237, 140, 168, 58, 32]"

definition row_to_token :: "sql \<Rightarrow> token_row \<Rightarrow> auth_token sres" where
  "row_to_token q r =
     (case ch_from_timestamp (sq_chrono q) (tr_expires_at r) 0 of
        None \<Rightarrow> Err (SE_General (ko_expiry @ show_int (tr_expires_at r)))
      | Some expires_at \<Rightarrow>
          (case ch_from_timestamp (sq_chrono q) (tr_created_at r) 0 of
             None \<Rightarrow> Err (SE_General (ko_creation @ show_int (tr_created_at r)))
           | Some created_at \<Rightarrow>
               Ok \<lparr>t_token_id = tr_id r, t_account_hash = tr_account_hash r, t_access_token = tr_access_token r,
                   t_refresh_token = tr_refresh_token r, t_created_at = created_at, t_expires_at = expires_at,
                   t_is_valid = True, t_token_type = tr_token_type r, t_scope = None\<rparr>))"

definition my_get_auth_token :: "sql \<Rightarrow> string \<Rightarrow> accounts_db \<Rightarrow> auth_token option sres" where
  "my_get_auth_token q token db =
     (case db_err ko_token_query (sql_run q 0 (sq_columns q ''auth_tokens'') token_columns
             (Ok (find (\<lambda>r. same_text q (tr_access_token r) token) (ad_tokens db)))) of
        Inl e \<Rightarrow> Err e
      | Inr None \<Rightarrow> Ok None
      | Inr (Some r) \<Rightarrow> (case row_to_token q r of Inr t \<Rightarrow> Ok (Some t) | Inl e \<Rightarrow> Err e))"

definition my_validate_auth_token :: "sql \<Rightarrow> string \<Rightarrow> string \<Rightarrow> accounts_db \<Rightarrow> bool sres" where
  "my_validate_auth_token q token account_hash db =
     db_err '''' (sql_run q 0 (sq_columns q ''auth_tokens'') [''account_hash'', ''access_token'', ''expires_at'']
       (Ok (list_ex (\<lambda>r. same_text q (tr_access_token r) token \<and> same_text q (tr_account_hash r) account_hash \<and>
          tr_expires_at r > secs q (sq_now q)) (ad_tokens db))))"

definition my_update_auth_token :: "auth_token \<Rightarrow> unit sres" where
  "my_update_auth_token t = Err (SE_NotImplemented ''update_auth_token not implemented yet for MySQL storage'')"

definition my_delete_auth_token :: "sql \<Rightarrow> string \<Rightarrow> accounts_db \<Rightarrow> unit sres \<times> accounts_db" where
  "my_delete_auth_token q token db = sql_update '''' (sql_run q 0 (sq_columns q ''auth_tokens'') [''access_token'']
     (Ok (db\<lparr>ad_tokens := filter (\<lambda>r. \<not> same_text q (tr_access_token r) token) (ad_tokens db)\<rparr>))) db"

section \<open>Devices\<close>

definition device_columns :: "string list" where
  "device_columns = [''account_hash'', ''device_hash'', ''device_name'', ''device_type'', ''os_type'', ''os_version'',
     ''app_version'', ''last_sync'', ''created_at'', ''updated_at'', ''is_active'']"

definition device_is :: "sql \<Rightarrow> string \<Rightarrow> string \<Rightarrow> device_row \<Rightarrow> bool" where
  "device_is q account_hash device_hash r \<longleftrightarrow>
     same_text q (dr_account_hash r) account_hash \<and> same_text q (dr_device_hash r) device_hash"

definition insert_device :: "sql \<Rightarrow> nat \<Rightarrow> device_row \<Rightarrow> accounts_db \<Rightarrow> (string, accounts_db) result" where
  "insert_device q n r db = sql_run q n (sq_columns q ''devices'') (''id'' # device_columns)
     (if list_ex (\<lambda>x. same_text q (dr_device_hash x) (dr_device_hash r)) (ad_devices db)
      then Err (sq_duplicate q (dr_device_hash r))
      else if \<not> list_ex (\<lambda>a. same_text q (ar_account_hash a) (dr_account_hash r)) (account_rows db)
      then Err (sq_no_parent q)
      else Ok (db\<lparr>ad_devices := ad_devices db @ [r]\<rparr>))"

definition update_registered :: "sql \<Rightarrow> nat \<Rightarrow> device \<Rightarrow> accounts_db \<Rightarrow> (string, accounts_db) result" where
  "update_registered q n d db = sql_run q n (sq_columns q ''devices'')
       [''device_name'', ''device_type'', ''os_type'', ''os_version'', ''app_version'', ''last_sync'', ''updated_at'',
        ''is_active'', ''account_hash'', ''device_hash'']
     (Ok (db\<lparr>ad_devices := map (\<lambda>r. if device_is q (d_account_hash d) (d_device_hash d) r
        then r\<lparr>dr_device_name := d_user_id d, dr_device_type := ''desktop'', dr_os_type := ''Linux'',
               dr_os_version := d_os_version d, dr_app_version := d_app_version d, dr_last_sync := secs q (d_last_sync d),
               dr_updated_at := secs q (sq_now q), dr_is_active := d_is_active d\<rparr>
        else r) (ad_devices db)\<rparr>))"

definition new_device_row :: "sql \<Rightarrow> device \<Rightarrow> device_row" where
  "new_device_row q d =
     \<lparr>dr_id = sq_uuid q, dr_account_hash = d_account_hash d, dr_device_hash = d_device_hash d, dr_device_name = d_user_id d,
      dr_device_type = ''desktop'', dr_os_type = ''Linux'', dr_os_version = d_os_version d, dr_app_version = d_app_version d,
      dr_last_sync = secs q (d_last_sync d), dr_created_at = secs q (d_registered_at d),
      dr_updated_at = secs q (sq_now q), dr_is_active = d_is_active d\<rparr>"

definition my_register_device :: "sql \<Rightarrow> device \<Rightarrow> accounts_db \<Rightarrow> unit sres \<times> accounts_db" where
  "my_register_device q d db =
     (case sq_fault q 0 of
        Some e \<Rightarrow> (Err (SE_Database (''Transaction start failed: '' @ e)), db)
      | None \<Rightarrow>
          (case sql_run q 1 (sq_columns q ''devices'') [''device_hash'', ''account_hash'']
                  (Ok (list_ex (device_is q (d_account_hash d) (d_device_hash d)) (ad_devices db))) of
             Inl e \<Rightarrow> (Err (SE_Database e), db)
           | Inr device_exists \<Rightarrow>
               (case (if device_exists then update_registered q 2 d db else insert_device q 3 (new_device_row q d) db) of
                  Inl e \<Rightarrow> (Err (SE_Database e), db)
                | Inr db' \<Rightarrow>
                    (case sq_fault q 4 of
                       Some e \<Rightarrow> (Err (SE_Database (''Transaction commit failed: '' @ e)), db)
                     | None \<Rightarrow> (Ok (), db')))))"

definition row_to_device :: "sql \<Rightarrow> device_row \<Rightarrow> device" where
  "row_to_device q r =
     \<lparr>d_user_id = dr_device_name r, d_account_hash = dr_account_hash r, d_device_hash = dr_device_hash r,
      d_updated_at = from_secs q (dr_updated_at r), d_registered_at = from_secs q (dr_created_at r),
      d_last_sync = from_secs q (dr_last_sync r), d_is_active = dr_is_active r, d_os_version = dr_os_version r,
      d_app_version = dr_app_version r\<rparr>"

definition my_get_device :: "sql \<Rightarrow> string \<Rightarrow> string \<Rightarrow> accounts_db \<Rightarrow> device option sres" where
  "my_get_device q account_hash device_hash db =
     db_err '''' (sql_run q 0 (sq_columns q ''devices'') device_columns
       (Ok (map_option (row_to_device q) (find (device_is q account_hash device_hash) (ad_devices db)))))"

definition my_list_devices :: "sql \<Rightarrow> string \<Rightarrow> accounts_db \<Rightarrow> device list sres" where
  "my_list_devices q account_hash db =
     db_err '''' (sql_run q 0 (sq_columns q ''devices'') device_columns
       (Ok (map (row_to_device q) (order_desc dr_created_at
          (filter (\<lambda>r. same_text q (dr_account_hash r) account_hash \<and> dr_is_active r) (ad_devices db))))))"

definition my_get_devices_for_account :: "sql \<Rightarrow> string \<Rightarrow> accounts_db \<Rightarrow> device list sres" where
  "my_get_devices_for_account q account_hash db = my_list_devices q account_hash db"

definition my_update_device :: "sql \<Rightarrow> device \<Rightarrow> accounts_db \<Rightarrow> unit sres \<times> accounts_db" where
  "my_update_device q d db = sql_update '''' (sql_run q 0 (sq_columns q ''devices'')
       [''device_name'', ''os_version'', ''app_version'', ''last_sync'', ''updated_at'', ''is_active'', ''account_hash'', ''device_hash'']
     (Ok (db\<lparr>ad_devices := map (\<lambda>r. if device_is q (d_account_hash d) (d_device_hash d) r
        then r\<lparr>dr_device_name := d_user_id d, dr_os_version := d_os_version d, dr_app_version := d_app_version d,
               dr_last_sync := secs q (d_last_sync d), dr_updated_at := secs q (sq_now q), dr_is_active := d_is_active d\<rparr>
        else r) (ad_devices db)\<rparr>))) db"

definition my_delete_device :: "sql \<Rightarrow> string \<Rightarrow> string \<Rightarrow> accounts_db \<Rightarrow> unit sres \<times> accounts_db" where
  "my_delete_device q account_hash device_hash db = sql_update ''''
     (sql_run q 0 (sq_columns q ''devices'') [''account_hash'', ''device_hash'']
       (Ok (db\<lparr>ad_devices := filter (\<lambda>r. \<not> device_is q account_hash device_hash r) (ad_devices db)\<rparr>))) db"

definition my_validate_device :: "sql \<Rightarrow> string \<Rightarrow> string \<Rightarrow> accounts_db \<Rightarrow> bool sres" where
  "my_validate_device q account_hash device_hash db =
     db_err '''' (sql_run q 0 (sq_columns q ''devices'') [''device_hash'', ''account_hash'', ''is_active'']
       (Ok (list_ex (\<lambda>r. device_is q account_hash device_hash r \<and> dr_is_active r) (ad_devices db))))"

section \<open>Creating accounts\<close>

definition working :: "sql \<Rightarrow> bool" where
  "working q \<longleftrightarrow> (\<forall>n. sq_fault q n = None)"

lemma working_fault [simp]: "working q \<Longrightarrow> sq_fault q n = None"
  by (simp add: working_def)

lemma sql_run_working [simp]: "working q \<Longrightarrow> set uses \<subseteq> set has \<Longrightarrow> sql_run q n has uses k = k"
  by (simp add: sql_run_def)

lemma set_account_rows [simp]:
  "ad_tokens (set_account_rows rows db) = ad_tokens db" "ad_devices (set_account_rows rows db) = ad_devices db"
  "account_has (set_account_rows rows db) = account_has db"
  "ad_accounts db \<noteq> None \<Longrightarrow> account_rows (set_account_rows rows db) = rows"
  by (auto simp: set_account_rows_def account_has_def account_rows_def split: option.split)

lemma accounts_exist: "set account_columns \<subseteq> set (account_has db) \<Longrightarrow> ad_accounts db \<noteq> None"
  by (cases "ad_accounts db") (simp_all add: account_columns_def account_has_def)

definition has_account :: "sql \<Rightarrow> string \<Rightarrow> accounts_db \<Rightarrow> bool" where
  "has_account q account_hash db \<longleftrightarrow> list_ex (\<lambda>r. same_text q (ar_account_hash r) account_hash) (account_rows db)"

text \<open>What is read back of an account: the type and the user are not stored, times are in seconds.\<close>

definition stored_account :: "sql \<Rightarrow> account \<Rightarrow> account" where
  "stored_account q a = a\<lparr>a_user_type := ''oauth'', a_user_id := '''', a_created_at := from_secs q (secs q (a_created_at a)),
     a_last_login := from_secs q (secs q (a_last_login a)), a_updated_at := from_secs q (secs q (a_updated_at a))\<rparr>"

lemma row_to_account_to_row: "row_to_account q (account_to_row q a) = Ok (stored_account q a)"
  by (simp add: row_to_account_def account_to_row_def stored_account_def)

lemma find_append_new: "\<not> list_ex p xs \<Longrightarrow> p x \<Longrightarrow> find p (xs @ [x]) = Some x"
  by (induction xs) auto

text \<open>
  C22: when no statement fails and the table has the columns the statements name, an account created in MySQL is read back by its hash
  as \<open>stored_account\<close>: with its times cut to seconds, the type \<^verbatim>\<open>oauth\<close> and an empty user, for which the table has no columns; no other account, token or device
  changes.  When an account with the hash exists, the error says so and nothing changes.
\<close>
theorem mysql_create_account_spec:
  assumes "working (qs 0)" and cols: "set account_columns \<subseteq> set (account_has db)"
    and dup: "str_contains (sq_duplicate (qs 0) (a_account_hash a)) ''Duplicate entry''"
  shows "if has_account (qs 0) (a_account_hash a) db
    then my_create_account qs a db =
      Some (Err (SE_Database (''Duplicate entry: '' @ sq_duplicate (qs 0) (a_account_hash a))), db)
    else \<exists>db'. my_create_account qs a db = Some (Ok (), db') \<and>
      my_get_account_by_hash (qs 0) (a_account_hash a) db' = Ok (Some (stored_account (qs 0) a)) \<and>
      account_rows db' = account_rows db @ [account_to_row (qs 0) a] \<and>
      ad_tokens db' = ad_tokens db \<and> ad_devices db' = ad_devices db"
proof -
  let ?q = "qs 0" and ?r = "account_to_row (qs 0) a"
  have hash [simp]: "ar_account_hash ?r = a_account_hash a" by (simp add: account_to_row_def)
  have rows: "account_rows (set_account_rows rows db) = rows" for rows using accounts_exist [OF cols] by simp
  show ?thesis
  proof (cases "has_account ?q (a_account_hash a) db")
    case True
    then have "insert_account ?q 1 ?r db = Err (sq_duplicate ?q (a_account_hash a))"
      using assms by (simp add: insert_account_def has_account_def)
    then show ?thesis using assms True by (simp add: my_create_account_def create_account_loop.simps create_account_attempt_def)
  next
    case False
    let ?db = "set_account_rows (account_rows db @ [?r]) db"
    have "insert_account ?q 1 ?r db = Ok ?db"
      using assms False by (simp add: insert_account_def has_account_def)
    then have "my_create_account qs a db = Some (Ok (), ?db)"
      using assms by (simp add: my_create_account_def create_account_loop.simps create_account_attempt_def)
    moreover have "my_get_account_by_hash ?q (a_account_hash a) ?db = Ok (Some (stored_account ?q a))"
      using assms False
      by (simp add: my_get_account_by_hash_def find_account_def rows find_append_new has_account_def same_text_def
          row_to_account_to_row db_err_def)
    ultimately show ?thesis using False rows by simp
  qed
qed

definition demo_sql :: sql where
  "demo_sql = \<lparr>sq_fault = \<lambda>_. None, sq_columns = \<lambda>t. columns_of t [(''devices'', devices_table)],
     sq_unknown = ''Unknown column'', sq_duplicate = \<lambda>v. ''Duplicate entry '' @ v, sq_no_parent = ''no parent'',
     sq_null = \<lambda>c. c @ '' is null'', sq_collate = \<lambda>s. s, sq_now = 1000000000,
     sq_chrono = \<lparr>ch_from_timestamp = \<lambda>s n. Some (s * 1000000000 + int n), ch_timestamp = \<lambda>d. d div 1000000000,
       ch_subsec_nanos = \<lambda>d. nat (d mod 1000000000)\<rparr>, sq_uuid = ''u''\<rparr>"

definition demo_account :: account where
  "demo_account = \<lparr>a_account_hash = ''h'', a_id = ''i'', a_email = ''e@x'', a_name = ''n'', a_user_type = ''local'',
     a_password_hash = '''', a_salt = '''', a_is_active = True, a_created_at = 1500000000, a_last_login = 2000000000,
     a_updated_at = 2000000000, a_user_id = ''u''\<rparr>"

definition demo_db :: accounts_db where
  "demo_db = \<lparr>ad_accounts = Some (map fst (td_columns accounts_table), []), ad_tokens = [], ad_devices = []\<rparr>"

lemma demo_sql_working [simp]: "working demo_sql"
  by (simp add: working_def demo_sql_def)

lemma demo_accounts_columns [simp]: "set account_columns \<subseteq> set (account_has demo_db)"
  by (simp add: account_columns_def account_has_def demo_db_def accounts_table_def)

theorem mysql_create_account_spec_witness:
  "\<exists>db'. my_create_account (\<lambda>_. demo_sql) demo_account demo_db = Some (Ok (), db') \<and>
     my_get_account_by_hash demo_sql ''h'' db' = Ok (Some (stored_account demo_sql demo_account))"
proof -
  have "str_contains (sq_duplicate demo_sql (a_account_hash demo_account)) ''Duplicate entry''" by code_simp
  moreover have "\<not> has_account demo_sql (a_account_hash demo_account) demo_db" by code_simp
  moreover have "a_account_hash demo_account = ''h''" by (simp add: demo_account_def)
  ultimately show ?thesis
    using mysql_create_account_spec [of "\<lambda>_. demo_sql" demo_db demo_account] by auto
qed

subsection \<open>The retry loop\<close>

lemma create_account_settles:
  assumes "sq_fault (qs n) 3 = None" "1 \<le> n" "int n < 2 ^ 31" "attempt \<le> n"
  shows "\<exists>r. create_account_loop qs a attempt db = Some r"
  using assms(4)
proof (induction "n - attempt" arbitrary: attempt db)
  case 0
  then have "attempt = n" "wrap_i32 (int n) = int n" using assms(3) by (simp_all add: wrap_i32_def)
  moreover have "int n \<ge> 2 \<or> n = 1" using assms(2) by auto
  ultimately have "\<exists>r. create_account_attempt (qs attempt) a (wrap_i32 (int attempt)) db = Inl r"
    using assms(1) by (auto simp: create_account_attempt_def Let_def wrap_i32_def split: option.split sum.split)
  then show ?case by (subst create_account_loop.simps) auto
next
  case (Suc k)
  then have "\<exists>r. create_account_loop qs a (attempt + 1) db' = Some r" for db' by (intro Suc.hyps(1)) simp_all
  then show ?case by (subst create_account_loop.simps) (auto split: sum.split)
qed

text \<open>
  The creation of an account ends as soon as the database answers \<^verbatim>\<open>SHOW TABLES\<close> after the first
  attempt, within the range of the counter.
\<close>
theorem create_account_returns:
  "1 \<le> n \<Longrightarrow> int n < 2 ^ 31 \<Longrightarrow> sq_fault (qs n) 3 = None \<Longrightarrow> \<exists>r. my_create_account qs a db = Some r"
  unfolding my_create_account_def by (rule create_account_settles) simp_all

theorem create_account_returns_witness:
  "\<exists>r. my_create_account (\<lambda>k. demo_sql\<lparr>sq_fault := \<lambda>n. if k = 0 then Some ''lost'' else None\<rparr>) demo_account demo_db = Some r"
  by (rule create_account_returns [of 1]) (simp_all add: demo_sql_def)

text \<open>
  C39: the bound on the attempts does not apply to the branch that creates the table: while the
  insertion and \<^verbatim>\<open>SHOW TABLES\<close> fail and \<^verbatim>\<open>CREATE TABLE\<close> succeeds, the creation of an account never returns.
\<close>
theorem create_account_loops:
  assumes "\<And>k. sq_fault (qs k) 0 = None" "\<And>k. \<exists>e. sq_fault (qs k) 1 = Some e \<and> \<not> str_contains e ''Duplicate entry''"
    "\<And>k. sq_fault (qs k) 3 \<noteq> None" "\<And>k. sq_fault (qs k) 4 = None"
  shows "my_create_account qs a db = None"
proof -
  have again: "\<exists>db'. create_account_attempt (qs k) a n db = Inr db'" for k n db
    using assms(1) [of k] assms(2) [of k] assms(3) [of k] assms(4) [of k]
    by (auto simp: create_account_attempt_def insert_account_def create_accounts_if_missing_def sql_run_def Let_def)
  have "qs' \<noteq> qs \<or> a' \<noteq> a" if loop: "create_account_loop qs' a' attempt db = Some r" for qs' a' attempt db r
  proof (rule create_account_loop.raw_induct [OF _ loop, of "\<lambda>qs' a' _ _ _. qs' \<noteq> qs \<or> a' \<noteq> a"])
    fix f qs' account attempt db r
    assume "\<And>qs' account attempt db r. f qs' account attempt db = Some r \<Longrightarrow> qs' \<noteq> qs \<or> account \<noteq> a"
      "(case create_account_attempt (qs' attempt) account (wrap_i32 (int attempt)) db of
        Inl r \<Rightarrow> Some r | Inr db' \<Rightarrow> f qs' account (attempt + 1) db') = Some r"
    then show "qs' \<noteq> qs \<or> account \<noteq> a" using again [of attempt "wrap_i32 (int attempt)" db]
      by (cases r) (fastforce split: sum.splits)
  qed
  then show ?thesis unfolding my_create_account_def by (metis not_None_eq)
qed

theorem create_account_loops_witness:
  "my_create_account (\<lambda>_. demo_sql\<lparr>sq_fault := \<lambda>n. if n = 1 \<or> n = 3 then Some ''timeout'' else None\<rparr>) demo_account demo_db = None"
  by (rule create_account_loops) simp_all

section \<open>Tokens and the schema\<close>

text \<open>
  With a table that has the columns the queries name, a stored token is accepted by
  \<^verbatim>\<open>validate_auth_token\<close> for its own account exactly while it is not expired, and for no other account;
  \<^verbatim>\<open>get_auth_token\<close> returns it as valid whatever its expiry; deletion removes it from both.
\<close>
theorem mysql_token_lifecycle:
  assumes "working q" "set token_columns \<subseteq> set (sq_columns q ''auth_tokens'')"
    and fresh: "\<not> list_ex (\<lambda>r. same_text q (tr_access_token r) (t_access_token t)) (ad_tokens db)"
    and times: "ch_from_timestamp (sq_chrono q) (secs q (t_expires_at t)) 0 = Some e" "ch_from_timestamp (sq_chrono q) (secs q (t_created_at t)) 0 = Some c"
  shows "\<exists>db'. my_create_auth_token q t db = (Ok (), db') \<and>
    my_get_auth_token q (t_access_token t) db' = Ok (Some (t\<lparr>t_refresh_token := Some (case t_refresh_token t of Some r \<Rightarrow> r | None \<Rightarrow> ''''),
      t_created_at := c, t_expires_at := e, t_is_valid := True, t_scope := None\<rparr>)) \<and>
    my_validate_auth_token q (t_access_token t) account_hash db' =
      Ok (same_text q (t_account_hash t) account_hash \<and> secs q (sq_now q) < secs q (t_expires_at t)) \<and>
    my_delete_auth_token q (t_access_token t) db' = (Ok (), db)"
proof -
  have cols: "set [''account_hash'', ''access_token'', ''expires_at''] \<subseteq> set (sq_columns q ''auth_tokens'')"
    "set [''access_token''] \<subseteq> set (sq_columns q ''auth_tokens'')"
    using assms(2) by (auto simp: token_columns_def)
  have kept: "filter (\<lambda>r. \<not> same_text q (tr_access_token r) (t_access_token t)) (ad_tokens db) = ad_tokens db"
    using fresh by (simp add: list_ex_iff filter_id_conv)
  have none: "\<not> list_ex (\<lambda>r. same_text q (tr_access_token r) (t_access_token t) \<and> p r) (ad_tokens db)" for p
    using fresh by (auto simp: list_ex_iff)
  show ?thesis
    using assms(1, 2) cols times fresh kept none
    by (simp add: my_create_auth_token_def sql_update_def my_get_auth_token_def db_err_def find_append_new row_to_token_def
        my_validate_auth_token_def my_delete_auth_token_def same_text_def)
qed

theorem mysql_token_lifecycle_witness:
  "\<exists>db'. my_create_auth_token (demo_sql\<lparr>sq_columns := \<lambda>_. token_columns\<rparr>) \<lparr>t_token_id = ''i'', t_account_hash = ''h'',
       t_access_token = ''t'', t_refresh_token = None, t_created_at = 0, t_expires_at = 2000000000, t_is_valid = True,
       t_token_type = ''Bearer'', t_scope = None\<rparr> demo_db = (Ok (), db') \<and>
     my_validate_auth_token (demo_sql\<lparr>sq_columns := \<lambda>_. token_columns\<rparr>) ''t'' ''h'' db' = Ok True"
  using mysql_token_lifecycle [of "demo_sql\<lparr>sq_columns := \<lambda>_. token_columns\<rparr>" "\<lparr>t_token_id = ''i'', t_account_hash = ''h'',
       t_access_token = ''t'', t_refresh_token = None, t_created_at = 0, t_expires_at = 2000000000, t_is_valid = True,
       t_token_type = ''Bearer'', t_scope = None\<rparr>" demo_db 2000000000 0 "''h''"]
  by (auto simp: demo_sql_def demo_db_def working_def secs_def same_text_def)

text \<open>The table of tokens the server creates, or the one it finds, has no column for what the queries write.\<close>

lemma no_access_token:
  assumes "own_table ''auth_tokens'' auth_tokens_table c" "table_kept ''auth_tokens'' auth_tokens_table c c'"
  shows "\<not> set token_columns \<subseteq> set (columns_of ''auth_tokens'' c')"
proof
  assume "set token_columns \<subseteq> set (columns_of ''auth_tokens'' c')"
  with own_columns [OF assms] have "''access_token'' \<in> set (map fst (td_columns auth_tokens_table))"
    by (auto simp: token_columns_def)
  then show False by (simp add: auth_tokens_table_def)
qed

lemma token_refused:
  "\<not> set token_columns \<subseteq> set (sq_columns q ''auth_tokens'') \<Longrightarrow>
     (\<exists>e. my_create_auth_token q t db = (Err (SE_Database e), db)) \<and> (\<exists>e. my_get_auth_token q token db = Err (SE_Database e))"
  by (auto simp: my_create_auth_token_def my_get_auth_token_def sql_update_def sql_run_def db_err_def split: option.split)

lemma save_token_refused:
  assumes "\<And>t s. \<exists>e. ls_create_auth_token ls t s = (Err e, s)"
  shows "retry_count < max_retries \<Longrightarrow> \<exists>e. save_token_retry ls t retry_count s = (Err e, s)"
proof (induction "max_retries - retry_count" arbitrary: retry_count)
  case (Suc k)
  obtain e where "ls_create_auth_token ls t s = (Err e, s)" using assms by blast
  then show ?case
    using Suc.hyps(1) [of "retry_count + 1"] Suc.hyps(2) Suc.prems by (subst save_token_retry.simps) auto
qed simp

text \<open>
  C38: nobody can log in on a database whose tables the server made itself.  Neither the
  initialisation nor the migration gives \<^verbatim>\<open>auth_tokens\<close> the columns that the token queries use, so
  that, whatever the provider answers and whatever the rest of the storage does, a login ends with
  an error, and every lookup of a token is an error too.
\<close>
theorem no_login_on_own_schema:
  assumes "own_table ''auth_tokens'' auth_tokens_table c"
    and "c' \<in> {snd (start_schema db1 db2 c), factory_schema db1 db2 c}"
    and "\<And>t s. \<exists>q. sq_columns q ''auth_tokens'' = columns_of ''auth_tokens'' c' \<and> ls_create_auth_token ls t s = my_create_auth_token q t s"
  shows "(\<exists>e s'. process_oauth_code ls env code client_account_hash s = Some (Err e, s')) \<and>
    (\<forall>q token. sq_columns q ''auth_tokens'' = columns_of ''auth_tokens'' c' \<longrightarrow> (\<exists>e. my_get_auth_token q token s = Err (SE_Database e)))"
proof (intro conjI allI impI)
  have "table_kept ''auth_tokens'' auth_tokens_table c c'" using assms(2) start_tokens by auto
  then have none: "\<not> set token_columns \<subseteq> set (columns_of ''auth_tokens'' c')" using no_access_token assms(1) by blast
  show "\<exists>e. my_get_auth_token q token s = Err (SE_Database e)"
    if "sq_columns q ''auth_tokens'' = columns_of ''auth_tokens'' c'" for q token
    using token_refused none that by metis
  have "\<exists>e. ls_create_auth_token ls t s = (Err e, s)" for t s
    using assms(3) [of t s] token_refused none by metis
  then have save: "\<exists>e. save_token_retry ls t 0 s = (Err e, s)" for t s
    by (rule save_token_refused) (simp add: max_retries_def)
  show "\<exists>e s'. process_oauth_code ls env code client_account_hash s = Some (Err e, s')"
  proof (cases "exchange_oauth_code_and_authenticate env code")
    case (Inr r)
    obtain tok user where r: "r = (tok, user)" by (cases r)
    obtain e where "save_token_retry ls (login_token_obj env (login_account_hash env user client_account_hash)) 0
        (record_login_account ls env user (login_account_hash env user client_account_hash) s) =
        (Err e, record_login_account ls env user (login_account_hash env user client_account_hash) s)"
      using save by blast
    then show ?thesis using Inr r by (auto simp: process_oauth_code_def Let_def)
  qed (simp add: process_oauth_code_def)
qed

definition demo_login :: "sql \<Rightarrow> accounts_db login_store" where
  "demo_login q = \<lparr>ls_get_account_by_hash = my_get_account_by_hash q, ls_get_account_by_email = my_get_account_by_email q,
     ls_create_account = (\<lambda>a db. case my_create_account (\<lambda>_. q) a db of Some r \<Rightarrow> r | None \<Rightarrow> (Err (SE_General ''''), db)),
     ls_update_account = my_update_account q, ls_create_auth_token = my_create_auth_token q,
     ls_get_encryption_key = (\<lambda>_ _. Ok None), ls_store_encryption_key = (\<lambda>_ _ db. (Ok (), db))\<rparr>"

theorem no_login_on_own_schema_witness:
  "\<forall>db1 db2 env code client_account_hash s. \<exists>e s'.
     process_oauth_code (demo_login (demo_sql\<lparr>sq_columns := \<lambda>t. columns_of t (snd (start_schema db1 db2 []))\<rparr>)) env code client_account_hash s
       = Some (Err e, s')"
proof (intro allI)
  fix db1 db2 env code client_account_hash s
  let ?q = "demo_sql\<lparr>sq_columns := \<lambda>t. columns_of t (snd (start_schema db1 db2 []))\<rparr>"
  have "own_table ''auth_tokens'' auth_tokens_table []" by (simp add: own_table_def)
  moreover have "\<exists>q. sq_columns q ''auth_tokens'' = columns_of ''auth_tokens'' (snd (start_schema db1 db2 [])) \<and>
      ls_create_auth_token (demo_login ?q) t db = my_create_auth_token q t db" for t db
    by (rule exI [of _ ?q]) (simp add: demo_login_def)
  ultimately show "\<exists>e s'. process_oauth_code (demo_login ?q) env code client_account_hash s = Some (Err e, s')"
    using no_login_on_own_schema [of "[]" "snd (start_schema db1 db2 [])" db1 db2 "demo_login ?q"] by simp
qed

section \<open>Devices\<close>

text \<open>
  What the keys of the tables guarantee: no two accounts and no two devices with the same hash, and
  every device belongs to an account.
\<close>

definition accounts_inv :: "sql \<Rightarrow> accounts_db \<Rightarrow> bool" where
  "accounts_inv q db \<longleftrightarrow> distinct (map (\<lambda>r. sq_collate q (ar_account_hash r)) (account_rows db)) \<and>
     distinct (map (\<lambda>d. sq_collate q (dr_device_hash d)) (ad_devices db)) \<and>
     (\<forall>d \<in> set (ad_devices db). has_account q (dr_account_hash d) db)"

text \<open>Two databases with the same rules of comparison.\<close>

definition same_rules :: "sql \<Rightarrow> sql \<Rightarrow> bool" where
  "same_rules q q' \<longleftrightarrow> sq_collate q = sq_collate q'"

inductive accounts_step :: "sql \<Rightarrow> accounts_db \<Rightarrow> accounts_db \<Rightarrow> bool" for q where
  "(\<And>n. same_rules q (qs n)) \<Longrightarrow> my_create_account qs a db = Some (r, db') \<Longrightarrow> accounts_step q db db'"
| "same_rules q q' \<Longrightarrow> my_update_account q' a db = (r, db') \<Longrightarrow> accounts_step q db db'"
| "same_rules q q' \<Longrightarrow> my_create_auth_token q' t db = (r, db') \<Longrightarrow> accounts_step q db db'"
| "same_rules q q' \<Longrightarrow> my_delete_auth_token q' token db = (r, db') \<Longrightarrow> accounts_step q db db'"
| "same_rules q q' \<Longrightarrow> my_register_device q' d db = (r, db') \<Longrightarrow> accounts_step q db db'"
| "same_rules q q' \<Longrightarrow> my_update_device q' d db = (r, db') \<Longrightarrow> accounts_step q db db'"
| "same_rules q q' \<Longrightarrow> my_delete_device q' account_hash device_hash db = (r, db') \<Longrightarrow> accounts_step q db db'"

lemma rows_update [simp]: "account_rows (db\<lparr>ad_devices := ds\<rparr>) = account_rows db" "account_rows (db\<lparr>ad_tokens := ts\<rparr>) = account_rows db"
  by (simp_all add: account_rows_def)

lemma inv_map_devices:
  "accounts_inv q db \<Longrightarrow> (\<And>r. dr_device_hash (f r) = dr_device_hash r \<and> dr_account_hash (f r) = dr_account_hash r) \<Longrightarrow>
     accounts_inv q (db\<lparr>ad_devices := map f (ad_devices db)\<rparr>)"
  by (auto simp: accounts_inv_def has_account_def comp_def)

lemma inv_map_accounts:
  assumes "accounts_inv q db" "\<And>r. ar_account_hash (f r) = ar_account_hash r"
  shows "accounts_inv q (set_account_rows (map f (account_rows db)) db)"
proof -
  have "account_rows (set_account_rows (map f (account_rows db)) db) = map f (account_rows db)"
    by (cases "ad_accounts db") (auto simp: set_account_rows_def account_rows_def)
  then show ?thesis using assms by (auto simp: accounts_inv_def has_account_def comp_def list_ex_iff)
qed

lemma sql_update_cases: "sql_update msg r s = (x, s') \<Longrightarrow> s' = s \<or> r = Ok s'"
  by (auto simp: sql_update_def split: sum.splits)

lemma sql_run_Ok: "sql_run q n has uses k = Ok x \<Longrightarrow> k = Ok x"
  by (auto simp: sql_run_def split: option.splits if_splits)

lemma insert_account_inv:
  assumes "accounts_inv q db" "same_rules q q'" "insert_account q' n r db = Ok db'"
  shows "accounts_inv q db'"
proof -
  from sql_run_Ok [OF assms(3) [unfolded insert_account_def]]
  have new: "\<not> list_ex (\<lambda>x. same_text q' (ar_account_hash x) (ar_account_hash r)) (account_rows db)"
    and db': "db' = set_account_rows (account_rows db @ [r]) db" by (auto split: if_splits)
  show ?thesis
  proof (cases "ad_accounts db")
    case None
    then have "account_rows db' = account_rows db" "ad_devices db' = ad_devices db"
      by (simp_all add: db' set_account_rows_def account_rows_def)
    then show ?thesis using assms(1) by (simp add: accounts_inv_def has_account_def)
  next
    case (Some x)
    then have "account_rows db' = account_rows db @ [r]" "ad_devices db' = ad_devices db" by (simp_all add: db')
    then show ?thesis using assms(1, 2) new
      by (auto simp: accounts_inv_def has_account_def list_ex_iff same_rules_def same_text_def)
  qed
qed

lemma create_account_inv:
  assumes "create_account_loop qs a n db = Some r"
  shows "(\<forall>k. same_rules q (qs k)) \<longrightarrow> accounts_inv q db \<longrightarrow> accounts_inv q (snd r)"
proof (rule create_account_loop.raw_induct [OF _ assms, of "\<lambda>qs _ _ db r. (\<forall>k. same_rules q (qs k)) \<longrightarrow> accounts_inv q db \<longrightarrow> accounts_inv q (snd r)"], intro impI)
  fix f qs account attempt db r
  assume IH: "\<And>qs account attempt db r. f qs account attempt db = Some r \<Longrightarrow>
      (\<forall>k. same_rules q (qs k)) \<longrightarrow> accounts_inv q db \<longrightarrow> accounts_inv q (snd r)"
    and r: "(case create_account_attempt (qs attempt) account (wrap_i32 (int attempt)) db of
        Inl r \<Rightarrow> Some r | Inr db' \<Rightarrow> f qs account (attempt + 1) db') = Some r"
    and rules: "\<forall>k. same_rules q (qs k)" and inv: "accounts_inv q db"
  have made: "accounts_inv q db'" if "create_accounts_if_missing q' k db = Ok db'" for q' k db'
    using sql_run_Ok [OF that [unfolded create_accounts_if_missing_def]] inv
    by (auto simp: accounts_inv_def has_account_def account_rows_def split: option.splits)
  show "accounts_inv q (snd r)"
  proof (cases "create_account_attempt (qs attempt) account (wrap_i32 (int attempt)) db")
    case (Inl x)
    then have "snd r = db \<or> insert_account (qs attempt) 1 (account_to_row (qs attempt) account) db = Ok (snd r)"
      using r by (auto simp: create_account_attempt_def Let_def split: option.splits sum.splits if_splits)
    then show ?thesis using inv rules insert_account_inv by metis
  next
    case (Inr db1)
    then have "db1 = db \<or> create_accounts_if_missing (qs attempt) 4 db = Ok db1"
      by (auto simp: create_account_attempt_def Let_def split: option.splits sum.splits if_splits)
    then have "accounts_inv q db1" using inv made by metis
    then show ?thesis using IH [of qs account "attempt + 1" db1 r] r Inr rules by simp
  qed
qed

lemma insert_device_inv:
  assumes "accounts_inv q db" "same_rules q q'" "insert_device q' n r db = Ok db'"
  shows "accounts_inv q db'"
  using sql_run_Ok [OF assms(3) [unfolded insert_device_def]] assms(1, 2)
  by (auto simp: accounts_inv_def has_account_def list_ex_iff same_rules_def same_text_def split: if_splits) blast

lemma register_device_inv:
  assumes inv: "accounts_inv q db" and "same_rules q q'" "my_register_device q' d db = (r, db')"
  shows "accounts_inv q db'"
proof -
  have "db' = db \<or> update_registered q' 2 d db = Ok db' \<or> insert_device q' 3 (new_device_row q' d) db = Ok db'"
    using assms(3) by (auto simp: my_register_device_def split: option.splits sum.splits if_splits)
  moreover have "accounts_inv q db'" if "update_registered q' 2 d db = Ok db'"
    using sql_run_Ok [OF that [unfolded update_registered_def]] using inv by (auto intro!: inv_map_devices)
  ultimately show ?thesis using inv insert_device_inv assms(2) by metis
qed

lemma accounts_step_inv: "accounts_step q db db' \<Longrightarrow> accounts_inv q db \<Longrightarrow> accounts_inv q db'"
proof (induction rule: accounts_step.induct)
  case (1 qs a db r db')
  then show ?case using create_account_inv [of qs a 0 db "(r, db')" q] by (simp add: my_create_account_def)
next
  case (2 q' a db r db')
  then show ?case
    using sql_update_cases [OF 2(2) [unfolded my_update_account_def]]
    by (auto dest!: sql_run_Ok intro!: inv_map_accounts)
next
  case (3 q' t db r db')
  then show ?case
    using sql_update_cases [OF 3(2) [unfolded my_create_auth_token_def]]
    by (auto dest!: sql_run_Ok simp: accounts_inv_def has_account_def)
next
  case (4 q' token db r db')
  then show ?case
    using sql_update_cases [OF 4(2) [unfolded my_delete_auth_token_def]]
    by (auto dest!: sql_run_Ok simp: accounts_inv_def has_account_def)
next
  case (5 q' d db r db')
  then show ?case using register_device_inv by metis
next
  case (6 q' d db r db')
  then show ?case
    using sql_update_cases [OF 6(2) [unfolded my_update_device_def]]
    by (auto dest!: sql_run_Ok intro!: inv_map_devices)
next
  case (7 q' account_hash device_hash db r db')
  then show ?case
    using sql_update_cases [OF 7(2) [unfolded my_delete_device_def]]
    by (auto dest!: sql_run_Ok simp: accounts_inv_def has_account_def distinct_map_filter)
qed

text \<open>The tables as the server creates them.\<close>

definition empty_accounts :: accounts_db where
  "empty_accounts = \<lparr>ad_accounts = Some (map fst (td_columns accounts_table), []), ad_tokens = [], ad_devices = []\<rparr>"

interpretation my_accounts: invariant_system empty_accounts "accounts_step q" "accounts_inv q" for q
  by unfold_locales (simp add: accounts_inv_def empty_accounts_def account_rows_def, rule accounts_step_inv)

text \<open>
  However accounts, tokens and devices are created, changed and deleted, and whichever
  statements fail, there are never two accounts or two devices with the same hash, and every device
  belongs to an account.
\<close>
theorem mysql_accounts_keys:
  "reach empty_accounts (accounts_step q) db \<Longrightarrow> accounts_inv q db"
  by (rule my_accounts.reach_inv)

theorem mysql_accounts_keys_witness:
  "\<exists>db. reach empty_accounts (accounts_step demo_sql) db \<and> account_rows db \<noteq> [] \<and> accounts_inv demo_sql db"
proof -
  let ?db = "set_account_rows [account_to_row demo_sql demo_account] empty_accounts"
  have "set account_columns \<subseteq> set (account_has empty_accounts)" "account_rows empty_accounts = []"
    by (simp_all add: account_columns_def account_has_def account_rows_def empty_accounts_def accounts_table_def)
  then have "my_create_account (\<lambda>_. demo_sql) demo_account empty_accounts = Some (Ok (), ?db)"
    by (simp add: my_create_account_def create_account_loop.simps create_account_attempt_def insert_account_def)
  then have step: "reach empty_accounts (accounts_step demo_sql) ?db"
    by (intro reach_step [OF reach_init] accounts_step.intros(1) [of _ "\<lambda>_. demo_sql"]) (simp_all add: same_rules_def)
  have "account_rows ?db \<noteq> []" by (simp add: empty_accounts_def)
  then show ?thesis using step mysql_accounts_keys [OF step] by blast
qed

text \<open>What is read back of a device registered in the row \<open>r\<close>.\<close>

definition registered_device :: "sql \<Rightarrow> device \<Rightarrow> device_row \<Rightarrow> device" where
  "registered_device q d r = d\<lparr>d_account_hash := dr_account_hash r, d_device_hash := dr_device_hash r,
     d_updated_at := from_secs q (secs q (sq_now q)), d_last_sync := from_secs q (secs q (d_last_sync d)),
     d_registered_at := from_secs q (dr_created_at r)\<rparr>"

lemma find_map_same: "(\<And>x. p (f x) = p x) \<Longrightarrow> find p (map f xs) = map_option f (find p xs)"
  by (induction xs) auto

lemma list_ex_map_cond: "(\<And>x. p (f x) = p x) \<Longrightarrow> (\<And>x. p x \<Longrightarrow> c (f x) = b) \<Longrightarrow>
    list_ex (\<lambda>x. p x \<and> c x) (map f xs) \<longleftrightarrow> list_ex p xs \<and> b"
  by (induction xs) auto

lemma find_Some_list_ex: "list_ex p xs \<Longrightarrow> \<exists>x. find p xs = Some x \<and> p x \<and> x \<in> set xs"
  by (induction xs) auto

text \<open>
  A registered device is read back with the values of the registration and the time of its
  first one, it counts as valid exactly when it is active, and the other devices are as before.
  Registering is refused without any change for an unknown account, and for a device that another
  account has registered before, since the device alone is the key of the table.
\<close>
theorem mysql_register_device_spec:
  assumes "working q" "set (''id'' # device_columns) \<subseteq> set (sq_columns q ''devices'')"
  shows "let own = device_is q (d_account_hash d) (d_device_hash d) in
    if list_ex own (ad_devices db) \<or> \<not> list_ex (\<lambda>r. same_text q (dr_device_hash r) (d_device_hash d)) (ad_devices db) \<and>
       has_account q (d_account_hash d) db
    then \<exists>db' r. my_register_device q d db = (Ok (), db') \<and> own r \<and>
      (r \<in> set (ad_devices db) \<or> r = new_device_row q d) \<and>
      my_get_device q (d_account_hash d) (d_device_hash d) db' = Ok (Some (registered_device q d r)) \<and>
      my_validate_device q (d_account_hash d) (d_device_hash d) db' = Ok (d_is_active d) \<and>
      filter (\<lambda>r. \<not> own r) (ad_devices db') = filter (\<lambda>r. \<not> own r) (ad_devices db) \<and> account_rows db' = account_rows db
    else \<exists>e. my_register_device q d db = (Err (SE_Database e), db)"
proof -
  let ?own = "device_is q (d_account_hash d) (d_device_hash d)"
  let ?upd = "\<lambda>r. if ?own r then r\<lparr>dr_device_name := d_user_id d, dr_device_type := ''desktop'', dr_os_type := ''Linux'',
     dr_os_version := d_os_version d, dr_app_version := d_app_version d, dr_last_sync := secs q (d_last_sync d),
     dr_updated_at := secs q (sq_now q), dr_is_active := d_is_active d\<rparr> else r"
  have own_upd: "?own (?upd r) = ?own r" for r by (simp add: device_is_def)
  have cols: "set device_columns \<subseteq> set (sq_columns q ''devices'')"
    "set [''device_hash'', ''account_hash'', ''is_active''] \<subseteq> set (sq_columns q ''devices'')"
    "set [''device_hash'', ''account_hash''] \<subseteq> set (sq_columns q ''devices'')"
    "set [''device_name'', ''device_type'', ''os_type'', ''os_version'', ''app_version'', ''last_sync'', ''updated_at'',
        ''is_active'', ''account_hash'', ''device_hash''] \<subseteq> set (sq_columns q ''devices'')"
    using assms(2) by (simp_all add: device_columns_def)
  note run = sql_run_working [OF assms(1) cols(1)] sql_run_working [OF assms(1) cols(2)] sql_run_working [OF assms(1) cols(3)]
    sql_run_working [OF assms(1) cols(4)] sql_run_working [OF assms]
  show ?thesis
  proof (cases "list_ex ?own (ad_devices db)")
    case True
    then obtain r where r: "find ?own (ad_devices db) = Some r" "?own r" "r \<in> set (ad_devices db)"
      using find_Some_list_ex by blast
    let ?db = "db\<lparr>ad_devices := map ?upd (ad_devices db)\<rparr>"
    have "my_register_device q d db = (Ok (), ?db)"
      using True assms(1) by (simp add: my_register_device_def run update_registered_def)
    moreover have "my_get_device q (d_account_hash d) (d_device_hash d) ?db = Ok (Some (registered_device q d r))"
      using r by (simp add: my_get_device_def run db_err_def find_map_same [of ?own ?upd, OF own_upd] row_to_device_def registered_device_def)
    moreover have "my_validate_device q (d_account_hash d) (d_device_hash d) ?db = Ok (d_is_active d)"
      using True list_ex_map_cond [of ?own ?upd dr_is_active "d_is_active d" "ad_devices db"] own_upd
      by (simp add: my_validate_device_def run db_err_def)
    moreover have "filter (\<lambda>r. \<not> ?own r) (map ?upd xs) = filter (\<lambda>r. \<not> ?own r) xs" for xs
      using own_upd by (induction xs) simp_all
    ultimately show ?thesis using True r by auto
  next
    case False
    note fresh = this
    show ?thesis
    proof (cases "\<not> list_ex (\<lambda>r. same_text q (dr_device_hash r) (d_device_hash d)) (ad_devices db) \<and> has_account q (d_account_hash d) db")
      case True
      let ?r = "new_device_row q d" and ?db = "db\<lparr>ad_devices := ad_devices db @ [new_device_row q d]\<rparr>"
      have own: "?own ?r" by (simp add: device_is_def new_device_row_def same_text_def)
      have "my_register_device q d db = (Ok (), ?db)"
        using True fresh assms(1)
        by (simp add: my_register_device_def run insert_device_def has_account_def new_device_row_def)
      moreover have "my_get_device q (d_account_hash d) (d_device_hash d) ?db = Ok (Some (registered_device q d ?r))"
        using fresh own by (simp add: my_get_device_def run db_err_def find_append_new row_to_device_def registered_device_def new_device_row_def)
      moreover have "my_validate_device q (d_account_hash d) (d_device_hash d) ?db = Ok (d_is_active d)"
        using fresh own by (auto simp: my_validate_device_def run db_err_def list_ex_iff new_device_row_def)
      ultimately show ?thesis using True own by auto
    next
      case False
      then show ?thesis
        using fresh assms(1)
        by (auto simp: my_register_device_def run insert_device_def has_account_def new_device_row_def)
    qed
  qed
qed

definition demo_device :: device where
  "demo_device = \<lparr>d_user_id = ''me'', d_account_hash = ''h'', d_device_hash = ''d'', d_updated_at = 0, d_registered_at = 0,
     d_last_sync = 0, d_is_active = True, d_os_version = ''24.04'', d_app_version = ''1''\<rparr>"

theorem mysql_register_device_spec_witness:
  "\<exists>db'. my_register_device demo_sql demo_device (set_account_rows [account_to_row demo_sql demo_account] demo_db) = (Ok (), db') \<and>
     my_validate_device demo_sql ''h'' ''d'' db' = Ok True"
proof -
  let ?db = "set_account_rows [account_to_row demo_sql demo_account] demo_db"
  have cols: "set (''id'' # device_columns) \<subseteq> set (sq_columns demo_sql ''devices'')"
    by code_simp
  have "ad_devices ?db = []" "has_account demo_sql (d_account_hash demo_device) ?db" by code_simp+
  then show ?thesis
    using mysql_register_device_spec [OF demo_sql_working cols, of demo_device ?db]
    by (auto simp: Let_def demo_device_def)
qed

text \<open>\<^verbatim>\<open>list_devices\<close> returns the active devices of the account, the last registered first.\<close>

lemma mysql_list_devices:
  assumes "working q" "set device_columns \<subseteq> set (sq_columns q ''devices'')"
  shows "\<exists>rs. my_list_devices q account_hash db = Ok (map (row_to_device q) rs) \<and>
    sorted (map (\<lambda>r. - dr_created_at r) rs) \<and>
    mset rs = filter_mset (\<lambda>r. same_text q (dr_account_hash r) account_hash \<and> dr_is_active r) (mset (ad_devices db))"
  using assms by (auto simp: my_list_devices_def db_err_def order_desc_def mset_filter
      intro!: exI [of _ "sort_key (\<lambda>r. - dr_created_at r) (filter (\<lambda>r. same_text q (dr_account_hash r) account_hash \<and> dr_is_active r) (ad_devices db))"])

end
