(* ===== verification/Mysql_Watchers.thy ===== *)
theory Mysql_Watchers
  imports Mysql_Accounts
begin

text \<open>
  Watcher groups, watchers, conditions and presets in MySQL: \<^verbatim>\<open>src/storage/mysql_watcher.rs\<close> and the
  watcher queries of \<^verbatim>\<open>src/storage/mysql.rs\<close>, on the rows of their tables, with the conventions of
  \<open>Mysql_Accounts\<close>.  The keys are those of the server's own statements: a group is unique in its
  account, and a watcher in account, local group and watcher identifier when the migration could
  create that index.  New identifiers are the database's \<^verbatim>\<open>AUTO_INCREMENT\<close> values, a parameter.
  The columns of times hold seconds, and the session of the database is in UTC.
\<close>

section \<open>Tables\<close>

record wsql =
  ws_sql :: sql
  ws_auto_group :: i32 \<comment> \<open>the next identifiers\<close>
  ws_auto_watcher :: i32
  ws_auto_condition :: "nat \<Rightarrow> i64"
  ws_updated_id :: "i32 \<Rightarrow> u64" \<comment> \<open>\<^verbatim>\<open>last_insert_id\<close> after an insertion that updated this row\<close>
  ws_watcher_key :: bool \<comment> \<open>whether the unique index of \<^verbatim>\<open>watchers\<close> exists\<close>
  ws_condition_fk :: bool \<comment> \<open>whether conditions refer to watchers\<close>
  ws_to_json :: "string list \<Rightarrow> string" \<comment> \<open>serde\<close>
  ws_from_json :: "string \<Rightarrow> (string, string list) result"
  ws_read_json :: "string \<Rightarrow> (string, string) result" \<comment> \<open>reading a JSON column as text\<close>
  ws_unicode_lower :: "string \<Rightarrow> string"

record group_row =
  gr_id :: i32
  gr_group_id :: i32
  gr_account_hash :: string
  gr_device_hash :: string
  gr_title :: string
  gr_created_at :: i64
  gr_updated_at :: i64
  gr_is_active :: bool

record watcher_row =
  wr_id :: i32
  wr_watcher_id :: i32
  wr_account_hash :: string
  wr_group_id :: i32
  wr_local_group_id :: i32
  wr_folder :: string
  wr_title :: string
  wr_is_recursive :: bool
  wr_created_at :: i64
  wr_updated_at :: i64
  wr_is_active :: bool
  wr_extra_json :: string

record condition_row =
  cr_id :: i64
  cr_account_hash :: string
  cr_watcher_id :: i32
  cr_local_watcher_id :: "i32 option"
  cr_local_group_id :: i32
  cr_condition_type :: string
  cr_key :: string
  cr_value :: string
  cr_operator :: string
  cr_created_at :: i64
  cr_updated_at :: i64

record preset_row =
  pr_account_hash :: string
  pr_preset_json :: string
  pr_created_at :: i64
  pr_updated_at :: i64

record watchers_db =
  wd_accounts :: accounts_db
  wd_groups :: "group_row list"
  wd_watchers :: "watcher_row list"
  wd_conditions :: "condition_row list"
  wd_presets :: "preset_row list"

abbreviation wrun :: "wsql \<Rightarrow> nat \<Rightarrow> string \<Rightarrow> string list \<Rightarrow> (string, 'a) result \<Rightarrow> (string, 'a) result" where
  "wrun w n t uses k \<equiv> sql_run (ws_sql w) n (sq_columns (ws_sql w) t) uses k"

abbreviation weq :: "wsql \<Rightarrow> string \<Rightarrow> string \<Rightarrow> bool" where
  "weq w x y \<equiv> same_text (ws_sql w) x y"

text \<open>A step of a transaction that only has to succeed: its start or its end.\<close>

definition tx_point :: "wsql \<Rightarrow> nat \<Rightarrow> string \<Rightarrow> unit sres" where
  "tx_point w n msg = db_err msg (sql_run (ws_sql w) n [] [] (Ok ()))"

text \<open>The result of a transaction; after an error it is rolled back.\<close>

definition tx :: "watchers_db \<Rightarrow> ('a \<times> watchers_db) sres \<Rightarrow> 'a sres \<times> watchers_db" where
  "tx db r = (case r of Inr (x, db') \<Rightarrow> (Ok x, db') | Inl e \<Rightarrow> (Err e, db))"

definition sbind :: "'a sres \<Rightarrow> ('a \<Rightarrow> 'b sres) \<Rightarrow> 'b sres" where
  "sbind r f = (case r of Inr x \<Rightarrow> f x | Inl e \<Rightarrow> Err e)"

definition group_is :: "wsql \<Rightarrow> string \<Rightarrow> i32 \<Rightarrow> group_row \<Rightarrow> bool" where
  "group_is w account_hash group_id g \<longleftrightarrow> weq w (gr_account_hash g) account_hash \<and> gr_group_id g = group_id"

definition watcher_is :: "wsql \<Rightarrow> string \<Rightarrow> i32 \<Rightarrow> i32 \<Rightarrow> watcher_row \<Rightarrow> bool" where
  "watcher_is w account_hash local_group_id watcher_id r \<longleftrightarrow>
     weq w (wr_account_hash r) account_hash \<and> wr_local_group_id r = local_group_id \<and> wr_watcher_id r = watcher_id"

text \<open>\<^verbatim>\<open>SELECT id FROM watcher_groups WHERE account_hash = ? AND group_id = ?\<close>.\<close>

definition select_group_id :: "wsql \<Rightarrow> nat \<Rightarrow> string \<Rightarrow> string \<Rightarrow> i32 \<Rightarrow> watchers_db \<Rightarrow> i32 option sres" where
  "select_group_id w n msg account_hash group_id db =
     db_err msg (wrun w n ''watcher_groups'' [''id'', ''account_hash'', ''group_id'']
       (Ok (map_option gr_id (find (group_is w account_hash group_id) (wd_groups db)))))"

definition select_watcher_id :: "wsql \<Rightarrow> nat \<Rightarrow> string \<Rightarrow> string \<Rightarrow> i32 \<Rightarrow> i32 \<Rightarrow> watchers_db \<Rightarrow> i32 option sres" where
  "select_watcher_id w n msg account_hash local_group_id watcher_id db =
     db_err msg (wrun w n ''watchers'' [''id'', ''account_hash'', ''local_group_id'', ''watcher_id'']
       (Ok (map_option wr_id (find (watcher_is w account_hash local_group_id watcher_id) (wd_watchers db)))))"

section \<open>Conditions\<close>

definition condition_columns :: "string list" where
  "condition_columns = [''account_hash'', ''watcher_id'', ''local_watcher_id'', ''local_group_id'', ''condition_type'', ''key'',
     ''value'', ''operator'', ''created_at'', ''updated_at'']"

definition condition_to_row :: "wsql \<Rightarrow> nat \<Rightarrow> i32 option \<Rightarrow> i32 \<Rightarrow> watcher_condition \<Rightarrow> condition_row" where
  "condition_to_row w k local_watcher_id local_group_id c =
     \<lparr>cr_id = ws_auto_condition w k, cr_account_hash = wc_account_hash c, cr_watcher_id = wc_watcher_id c,
      cr_local_watcher_id = local_watcher_id, cr_local_group_id = local_group_id,
      cr_condition_type = condition_type_display (wc_condition_type c), cr_key = wc_key c, cr_value = ws_to_json w (wc_value c),
      cr_operator = wc_operator c, cr_created_at = secs (ws_sql w) (wc_created_at c), cr_updated_at = secs (ws_sql w) (wc_updated_at c)\<rparr>"

definition insert_condition :: "wsql \<Rightarrow> nat \<Rightarrow> string list \<Rightarrow> condition_row \<Rightarrow> watchers_db \<Rightarrow> (string, watchers_db) result" where
  "insert_condition w n uses r db = wrun w n ''watcher_conditions'' uses
     (if \<not> has_account (ws_sql w) (cr_account_hash r) (wd_accounts db) \<or>
         ws_condition_fk w \<and> cr_watcher_id r \<notin> set (map wr_id (wd_watchers db))
      then Err (sq_no_parent (ws_sql w)) else Ok (db\<lparr>wd_conditions := wd_conditions db @ [r]\<rparr>))"

definition condition_group :: "wsql \<Rightarrow> watcher_condition \<Rightarrow> watchers_db \<Rightarrow> i32 sres" where
  "condition_group w c db =
     (if wc_local_group_id c = 0 then
        sbind (db_err ''Failed to get watcher_id for watcher (sqlx): '' (wrun w 0 ''watchers'' [''watcher_id'', ''id'']
                 (Ok (map_option wr_watcher_id (find (\<lambda>r. wr_id r = wc_watcher_id c) (wd_watchers db))))))
          (\<lambda>r. case r of Some x \<Rightarrow> Ok x
                 | None \<Rightarrow> Err (SE_NotFound (''Watcher with ID '' @ show_int (wc_watcher_id c) @ '' not found'')))
      else Ok (wc_local_group_id c))"

definition my_create_watcher_condition :: "wsql \<Rightarrow> watcher_condition \<Rightarrow> watchers_db \<Rightarrow> i64 sres \<times> watchers_db" where
  "my_create_watcher_condition w c db = tx db
     (sbind (condition_group w c db) (\<lambda>actual_local_group_id.
      sbind (tx_point w 1 ''Failed to start transaction (sqlx): '') (\<lambda>_.
      sbind (db_err ''Failed to insert watcher condition (sqlx): '' (insert_condition w 2 condition_columns
               (condition_to_row w 0 (Some (wc_local_watcher_id c)) actual_local_group_id c) db)) (\<lambda>db'.
      if ws_auto_condition w 0 = 0 then Err (SE_Database ''Failed to create watcher condition: Invalid ID'')
      else sbind (tx_point w 3 ''Failed to commit transaction (sqlx): '') (\<lambda>_. Ok (ws_auto_condition w 0, db'))))))"

definition row_to_condition :: "wsql \<Rightarrow> condition_row \<Rightarrow> watcher_condition sres" where
  "row_to_condition w r =
     sbind (db_err ''Row get value: '' (ws_read_json w (cr_value r))) (\<lambda>value_json.
     sbind (db_err ''Invalid condition type: '' (condition_type_from_str (ws_unicode_lower w) (cr_condition_type r))) (\<lambda>condition_type.
     sbind (db_err ''Failed to deserialize condition values: '' (ws_from_json w value_json)) (\<lambda>value.
       Ok \<lparr>wc_id = Some (cr_id r), wc_account_hash = cr_account_hash r, wc_watcher_id = cr_watcher_id r,
           wc_local_watcher_id = (case cr_local_watcher_id r of Some x \<Rightarrow> x | None \<Rightarrow> 0), wc_local_group_id = cr_local_group_id r,
           wc_condition_type = condition_type, wc_key = cr_key r, wc_value = value, wc_operator = cr_operator r,
           wc_created_at = from_secs (ws_sql w) (cr_created_at r), wc_updated_at = from_secs (ws_sql w) (cr_updated_at r)\<rparr>)))"

fun read_conditions :: "wsql \<Rightarrow> condition_row list \<Rightarrow> watcher_condition list sres" where
  "read_conditions w [] = Ok []"
| "read_conditions w (r # rs) =
     (case row_to_condition w r of
        Inl e \<Rightarrow> Err e
      | Inr c \<Rightarrow> (case read_conditions w rs of Inl e \<Rightarrow> Err e | Inr cs \<Rightarrow> Ok (c # cs)))"

text \<open>The query is ordered by the identifier.\<close>

definition conditions_of :: "wsql \<Rightarrow> string \<Rightarrow> i32 \<Rightarrow> watchers_db \<Rightarrow> condition_row list" where
  "conditions_of w account_hash watcher_id db =
     sort_key cr_id (filter (\<lambda>r. weq w (cr_account_hash r) account_hash \<and> cr_watcher_id r = watcher_id) (wd_conditions db))"

definition my_get_watcher_conditions :: "wsql \<Rightarrow> nat \<Rightarrow> string \<Rightarrow> i32 \<Rightarrow> watchers_db \<Rightarrow> watcher_condition list sres" where
  "my_get_watcher_conditions w n account_hash watcher_id db =
     sbind (db_err ''Failed to query watcher conditions (sqlx): '' (wrun w n ''watcher_conditions'' (''id'' # condition_columns)
              (Ok (conditions_of w account_hash watcher_id db)))) (read_conditions w)"

definition my_update_watcher_condition :: "wsql \<Rightarrow> watcher_condition \<Rightarrow> watchers_db \<Rightarrow> unit sres \<times> watchers_db" where
  "my_update_watcher_condition w c db = tx db
     (case wc_id c of
        None \<Rightarrow> Err (SE_ValidationError ''Condition ID is required for update'')
      | Some condition_id \<Rightarrow>
          sbind (tx_point w 0 ''Failed to start transaction: '') (\<lambda>_.
          sbind (db_err ''Failed to update watcher condition: '' (wrun w 1 ''watcher_conditions''
                  [''local_watcher_id'', ''local_group_id'', ''condition_type'', ''key'', ''value'', ''operator'', ''updated_at'', ''id'']
                  (Ok (map (\<lambda>r. if cr_id r = condition_id
                     then r\<lparr>cr_local_watcher_id := Some (wc_local_watcher_id c), cr_local_group_id := wc_local_group_id c,
                            cr_condition_type := condition_type_display (wc_condition_type c), cr_key := wc_key c,
                            cr_value := ws_to_json w (wc_value c), cr_operator := wc_operator c,
                            cr_updated_at := secs (ws_sql w) (wc_updated_at c)\<rparr>
                     else r) (wd_conditions db))))) (\<lambda>rows.
          sbind (tx_point w 2 ''Failed to commit transaction: '') (\<lambda>_. Ok ((), db\<lparr>wd_conditions := rows\<rparr>)))))"

definition my_delete_watcher_condition :: "wsql \<Rightarrow> i64 \<Rightarrow> watchers_db \<Rightarrow> unit sres \<times> watchers_db" where
  "my_delete_watcher_condition w condition_id db = sql_update ''Failed to delete watcher condition: ''
     (wrun w 0 ''watcher_conditions'' [''id'']
       (Ok (db\<lparr>wd_conditions := filter (\<lambda>r. cr_id r \<noteq> condition_id) (wd_conditions db)\<rparr>))) db"

definition my_delete_all_watcher_conditions :: "wsql \<Rightarrow> i32 \<Rightarrow> watchers_db \<Rightarrow> unit sres \<times> watchers_db" where
  "my_delete_all_watcher_conditions w watcher_id db = sql_update ''Failed to delete all watcher conditions: ''
     (wrun w 0 ''watcher_conditions'' [''watcher_id'']
       (Ok (db\<lparr>wd_conditions := filter (\<lambda>r. cr_watcher_id r \<noteq> watcher_id) (wd_conditions db)\<rparr>))) db"

text \<open>The insertions of \<^verbatim>\<open>save_watcher_conditions\<close> leave out the local watcher; statement \<open>k + 2\<close> is the one of condition \<open>k\<close>.\<close>

fun save_conditions_loop :: "wsql \<Rightarrow> nat \<Rightarrow> watcher_condition list \<Rightarrow> watchers_db \<Rightarrow> watchers_db sres" where
  "save_conditions_loop w k [] db = Ok db"
| "save_conditions_loop w k (c # cs) db =
     (case insert_condition w (k + 2) (filter (\<lambda>x. x \<noteq> ''local_watcher_id'') condition_columns)
             (condition_to_row w k None (wc_local_group_id c) c) db of
        Inl e \<Rightarrow> Err (SE_Database (''Failed to insert watcher condition (sqlx): '' @ e))
      | Inr db' \<Rightarrow> save_conditions_loop w (k + 1) cs db')"

definition my_save_watcher_conditions :: "wsql \<Rightarrow> i32 \<Rightarrow> watcher_condition list \<Rightarrow> watchers_db \<Rightarrow> unit sres \<times> watchers_db" where
  "my_save_watcher_conditions w watcher_id conditions db = tx db
     (sbind (tx_point w 0 ''Failed to start transaction (sqlx): '') (\<lambda>_.
      sbind (db_err ''Failed to delete existing conditions (sqlx): '' (wrun w 1 ''watcher_conditions'' [''watcher_id'']
               (Ok (db\<lparr>wd_conditions := filter (\<lambda>r. cr_watcher_id r \<noteq> watcher_id) (wd_conditions db)\<rparr>)))) (\<lambda>db1.
      sbind (save_conditions_loop w 0 conditions db1) (\<lambda>db2.
      sbind (tx_point w (length conditions + 2) ''Failed to commit transaction (sqlx): '') (\<lambda>_. Ok ((), db2))))))"

definition my_register_watcher_condition :: "wsql \<Rightarrow> string \<Rightarrow> watcher_condition \<Rightarrow> watchers_db \<Rightarrow> i64 sres \<times> watchers_db" where
  "my_register_watcher_condition w account_hash c db = my_create_watcher_condition w c db"

definition my_get_watcher_conditions_by_watcher :: "wsql \<Rightarrow> string \<Rightarrow> i32 \<Rightarrow> watchers_db \<Rightarrow> watcher_condition list sres" where
  "my_get_watcher_conditions_by_watcher w account_hash watcher_id db = my_get_watcher_conditions w 0 account_hash watcher_id db"

definition my_get_watcher_condition :: "wsql \<Rightarrow> i64 \<Rightarrow> watchers_db \<Rightarrow> watcher_condition option sres" where
  "my_get_watcher_condition w condition_id db = db_err ''Failed to get watcher condition: ''
     (wrun w 0 ''watcher_conditions'' [''id'', ''account_hash'', ''watcher_id'', ''condition_type'', ''key'', ''value'', ''operator'',
        ''created_at'', ''updated_at'']
       (case find (\<lambda>r. cr_id r = condition_id) (wd_conditions db) of
          None \<Rightarrow> Ok None
        | Some r \<Rightarrow>
            (case ws_read_json w (cr_value r) of
               Inl e \<Rightarrow> Err e
             | Inr value_str \<Rightarrow>
                 Ok (Some \<lparr>wc_id = Some (cr_id r), wc_account_hash = cr_account_hash r, wc_watcher_id = cr_watcher_id r,
                   wc_local_watcher_id = 0, wc_local_group_id = 0,
                   wc_condition_type = (if cr_condition_type r = ''subtract'' then Subtract else Union), wc_key = cr_key r,
                   wc_value = (case ws_from_json w value_str of Inr v \<Rightarrow> v | Inl _ \<Rightarrow> [value_str]), wc_operator = cr_operator r,
                   wc_created_at = from_secs (ws_sql w) (cr_created_at r),
                   wc_updated_at = from_secs (ws_sql w) (cr_updated_at r)\<rparr>))))"

section \<open>Watchers\<close>

definition data_of_conditions :: "condition_type \<Rightarrow> watcher_condition list \<Rightarrow> p_condition_data list" where
  "data_of_conditions ty cs =
     map (\<lambda>c. \<lparr>pc_key = wc_key c, pc_value = wc_value c\<rparr>) (filter (\<lambda>c. wc_condition_type c = ty) cs)"

text \<open>The conditions that are sent with a watcher; an error counts as none.\<close>

definition watcher_data_of :: "wsql \<Rightarrow> string \<Rightarrow> watcher_row \<Rightarrow> watchers_db \<Rightarrow> p_watcher_data" where
  "watcher_data_of w account_hash r db =
     (let conditions = (case my_get_watcher_conditions w 1 account_hash (wr_id r) db of Inr cs \<Rightarrow> cs | Inl _ \<Rightarrow> [])
      in \<lparr>pw_watcher_id = wr_watcher_id r, pw_folder = wr_folder r, pw_union_conditions = data_of_conditions Union conditions,
          pw_subtracting_conditions = data_of_conditions Subtract conditions, pw_recursive_path = wr_is_recursive r,
          pw_preset = False, pw_custom_type = '''', pw_update_mode = '''', pw_is_active = True, pw_extra_json = ''''\<rparr>)"

definition my_get_watcher :: "wsql \<Rightarrow> i32 \<Rightarrow> watchers_db \<Rightarrow> p_watcher_data sres" where
  "my_get_watcher w watcher_id db =
     sbind (db_err ''Failed to query watcher (sqlx): ''
              (wrun w 0 ''watchers'' [''id'', ''watcher_id'', ''account_hash'', ''folder'', ''is_recursive'']
                (Ok (find (\<lambda>r. wr_id r = watcher_id) (wd_watchers db)))))
       (\<lambda>r. case r of Some r \<Rightarrow> Ok (watcher_data_of w (wr_account_hash r) r db)
              | None \<Rightarrow> Err (SE_NotFound (''Watcher with id '' @ show_int watcher_id @ '' not found'')))"

definition my_get_watcher_by_group_and_id :: "wsql \<Rightarrow> string \<Rightarrow> i32 \<Rightarrow> i32 \<Rightarrow> watchers_db \<Rightarrow> p_watcher_data option sres" where
  "my_get_watcher_by_group_and_id w account_hash group_id watcher_id db =
     sbind (db_err ''Failed to query watcher: '' (wrun w 0 ''watchers''
              [''id'', ''watcher_id'', ''folder'', ''is_recursive'', ''account_hash'', ''local_group_id'']
              (Ok (find (watcher_is w account_hash group_id watcher_id) (wd_watchers db)))))
       (\<lambda>r. Ok (map_option (\<lambda>r. watcher_data_of w account_hash r db) r))"

definition my_find_watcher_by_folder :: "wsql \<Rightarrow> string \<Rightarrow> i32 \<Rightarrow> string \<Rightarrow> watchers_db \<Rightarrow> i32 option sres" where
  "my_find_watcher_by_folder w account_hash group_id folder db =
     db_err ''Failed to query watcher: '' (wrun w 0 ''watchers'' [''id'', ''account_hash'', ''group_id'', ''folder'']
       (Ok (map_option wr_id (find (\<lambda>r. weq w (wr_account_hash r) account_hash \<and> wr_group_id r = group_id \<and>
          weq w (wr_folder r) (normalize_raw folder)) (wd_watchers db)))))"

definition watcher_title :: "string \<Rightarrow> string" where
  "watcher_title folder = ''Watcher for '' @ last (split_char (CHR ''/'') folder)"

definition attempt_pause :: "nat \<Rightarrow> nat" where
  "attempt_pause attempt = min (300 * attempt) 2000"

text \<open>
  The search for the group before a watcher is created, up to 15 times with growing pauses, during
  which other requests may change the database: \<open>views k\<close> is the database at attempt \<open>k\<close>, whose
  query is statement \<open>100 + k\<close>.  The result comes with the attempt at which the loop ends and the
  time spent waiting, in milliseconds.
\<close>

function wait_for_group :: "wsql \<Rightarrow> string \<Rightarrow> i32 \<Rightarrow> (nat \<Rightarrow> watchers_db) \<Rightarrow> nat \<Rightarrow> i32 option sres \<times> nat \<times> nat" where
  "wait_for_group w account_hash group_id views attempt =
     (case select_group_id w (100 + attempt) ''Failed to get DB group ID: '' account_hash group_id (views attempt) of
        Inl e \<Rightarrow> (Err e, attempt, 0)
      | Inr (Some i) \<Rightarrow> (Ok (Some i), attempt, 0)
      | Inr None \<Rightarrow>
          (if attempt < 15 then
             (case wait_for_group w account_hash group_id views (attempt + 1) of
                (r, k, t) \<Rightarrow> (r, k, attempt_pause attempt + t))
           else (Ok None, attempt, 0)))"
  by pat_completeness auto
termination by (relation "measure (\<lambda>(_, _, _, _, attempt). 15 - attempt)") auto

declare wait_for_group.simps [simp del]

definition insert_watcher :: "wsql \<Rightarrow> nat \<Rightarrow> watcher_row \<Rightarrow> watchers_db \<Rightarrow> (string, u64 \<times> watchers_db) result" where
  "insert_watcher w n r db = wrun w n ''watchers''
       [''watcher_id'', ''account_hash'', ''group_id'', ''local_group_id'', ''folder'', ''title'', ''is_recursive'', ''created_at'',
        ''updated_at'', ''is_active'', ''extra_json'']
     (if \<not> has_account (ws_sql w) (wr_account_hash r) (wd_accounts db) \<or> wr_group_id r \<notin> set (map gr_id (wd_groups db))
      then Err (sq_no_parent (ws_sql w))
      else Ok (of_int (wr_id r), db\<lparr>wd_watchers := wd_watchers db @ [r]\<rparr>))"

text \<open>\<^verbatim>\<open>INSERT .. ON DUPLICATE KEY UPDATE\<close> for a watcher.\<close>

definition upsert_watcher :: "wsql \<Rightarrow> nat \<Rightarrow> watcher_row \<Rightarrow> watchers_db \<Rightarrow> (string, u64 \<times> watchers_db) result" where
  "upsert_watcher w n r db =
     (let same = watcher_is w (wr_account_hash r) (wr_local_group_id r) (wr_watcher_id r) in
      case (if ws_watcher_key w then find same (wd_watchers db) else None) of
        None \<Rightarrow> insert_watcher w n r db
      | Some x \<Rightarrow> wrun w n ''watchers''
          [''watcher_id'', ''account_hash'', ''group_id'', ''local_group_id'', ''folder'', ''title'', ''is_recursive'', ''created_at'',
           ''updated_at'', ''is_active'', ''extra_json'']
          (if wr_group_id r \<notin> set (map gr_id (wd_groups db)) then Err (sq_no_parent (ws_sql w))
           else Ok (ws_updated_id w (wr_id x), db\<lparr>wd_watchers := map (\<lambda>y. if wr_id y = wr_id x
             then y\<lparr>wr_folder := wr_folder r, wr_title := wr_title r, wr_is_recursive := wr_is_recursive r,
                    wr_updated_at := wr_updated_at r, wr_is_active := wr_is_active r, wr_extra_json := wr_extra_json r,
                    wr_group_id := wr_group_id r\<rparr> else y) (wd_watchers db)\<rparr>)))"

text \<open>\<^verbatim>\<open>if id > i32::MAX as u64 { i32::MAX } else { id as i32 }\<close>.\<close>

definition id_to_i32 :: "u64 \<Rightarrow> i32" where
  "id_to_i32 v = (if v > 2147483647 then 2147483647 else uint v)"

fun insert_data_conditions ::
  "wsql \<Rightarrow> nat \<Rightarrow> string \<Rightarrow> i32 \<Rightarrow> i32 \<Rightarrow> i32 \<Rightarrow> i64 \<Rightarrow> (condition_type \<times> p_condition_data) list \<Rightarrow> watchers_db \<Rightarrow> watchers_db sres" where
  "insert_data_conditions w k account_hash new_id watcher_id group_id timestamp [] db = Ok db"
| "insert_data_conditions w k account_hash new_id watcher_id group_id timestamp ((ty, cd) # cs) db =
     (let at = from_secs (ws_sql w) timestamp;
          c = \<lparr>wc_id = None, wc_account_hash = account_hash, wc_watcher_id = new_id, wc_local_watcher_id = watcher_id,
               wc_local_group_id = group_id, wc_condition_type = ty, wc_key = pc_key cd, wc_value = pc_value cd,
               wc_operator = ''equals'', wc_created_at = at, wc_updated_at = at\<rparr>
      in case insert_condition w (k + 6) condition_columns (condition_to_row w k (Some watcher_id) group_id c) db of
           Inl e \<Rightarrow> Err (SE_Database ((case ty of Union \<Rightarrow> ''Failed to save union condition: ''
                                             | Subtract \<Rightarrow> ''Failed to save subtracting condition: '') @ e))
         | Inr db' \<Rightarrow> insert_data_conditions w (k + 1) account_hash new_id watcher_id group_id timestamp cs db')"

definition typed_conditions :: "p_watcher_data \<Rightarrow> (condition_type \<times> p_condition_data) list" where
  "typed_conditions wd = map (Pair Union) (pw_union_conditions wd) @ map (Pair Subtract) (pw_subtracting_conditions wd)"

text \<open>The transaction of \<^verbatim>\<open>create_watcher_with_conditions\<close>, once the group is known.\<close>

definition create_watcher_tx ::
  "wsql \<Rightarrow> string \<Rightarrow> i32 \<Rightarrow> i32 \<Rightarrow> p_watcher_data \<Rightarrow> i64 \<Rightarrow> watchers_db \<Rightarrow> (i32 \<times> watchers_db) sres" where
  "create_watcher_tx w account_hash group_id db_group_id wd timestamp db =
     (let same = watcher_is w account_hash group_id (pw_watcher_id wd);
          folder = normalize_raw (pw_folder wd);
          q = ws_sql w;
          insert =
            sbind (db_err ''Failed to insert watcher: '' (upsert_watcher w 4
                     \<lparr>wr_id = ws_auto_watcher w, wr_watcher_id = pw_watcher_id wd, wr_account_hash = account_hash,
                      wr_group_id = db_group_id, wr_local_group_id = group_id, wr_folder = folder,
                      wr_title = watcher_title folder, wr_is_recursive = pw_recursive_path wd, wr_created_at = timestamp,
                      wr_updated_at = timestamp, wr_is_active = True, wr_extra_json = pw_extra_json wd\<rparr> db))
              (\<lambda>(last_id, db1).
                 let new_id = id_to_i32 last_id in
                 if new_id = 0 then Err (SE_Database ''Failed to create watcher: Invalid ID'')
                 else
                   sbind (insert_data_conditions w 0 account_hash new_id (pw_watcher_id wd) group_id timestamp
                            (typed_conditions wd) db1) (\<lambda>db2.
                   sbind (tx_point w 5 ''Failed to commit transaction: '') (\<lambda>_. Ok (new_id, db2))))
      in sbind (tx_point w 1 ''Failed to start transaction: '') (\<lambda>_.
         sbind (db_err ''Failed to check existing watcher: '' (wrun w 2 ''watchers''
                  [''updated_at'', ''watcher_id'', ''account_hash'', ''local_group_id'']
                  (Ok (find same (wd_watchers db))))) (\<lambda>existing.
           case existing of
             Some r \<Rightarrow>
               if from_secs q (wr_updated_at r) \<ge> from_secs q timestamp then
                 sbind (select_watcher_id w 3 ''Failed to get existing watcher ID: '' account_hash group_id (pw_watcher_id wd) db)
                   (\<lambda>existing_id. case existing_id of
                      Some i \<Rightarrow> sbind (tx_point w 5 ''Failed to commit transaction: '') (\<lambda>_. Ok (i, db))
                    | None \<Rightarrow> insert)
               else insert
           | None \<Rightarrow> insert)))"

definition my_create_watcher_with_conditions ::
  "wsql \<Rightarrow> string \<Rightarrow> i32 \<Rightarrow> p_watcher_data \<Rightarrow> i64 \<Rightarrow> (nat \<Rightarrow> watchers_db) \<Rightarrow> (i32 sres \<times> watchers_db) \<times> nat" where
  "my_create_watcher_with_conditions w account_hash group_id wd timestamp views =
     (case wait_for_group w account_hash group_id views 1 of
        (found, attempt, waited) \<Rightarrow>
          (tx (views attempt)
             (sbind found (\<lambda>g. case g of
                Some db_group_id \<Rightarrow> create_watcher_tx w account_hash group_id db_group_id wd timestamp (views attempt)
              | None \<Rightarrow> Err (SE_Database (''Watcher group with client group_id '' @ show_int group_id @ '' not found after waiting'')))),
           waited))"

definition my_check_duplicate_watcher :: "wsql \<Rightarrow> string \<Rightarrow> i32 \<Rightarrow> watchers_db \<Rightarrow> i32 option sres" where
  "my_check_duplicate_watcher w account_hash local_watcher_id db = db_err ''Failed to check duplicate watcher: ''
     (wrun w 0 ''watchers'' [''id'', ''account_hash'', ''watcher_id'']
       (Ok (map_option wr_id (find (\<lambda>r. weq w (wr_account_hash r) account_hash \<and> wr_watcher_id r = local_watcher_id) (wd_watchers db)))))"

definition my_get_client_watcher_id :: "wsql \<Rightarrow> string \<Rightarrow> i32 \<Rightarrow> i32 \<Rightarrow> watchers_db \<Rightarrow> (i32 \<times> i32) option sres" where
  "my_get_client_watcher_id w account_hash server_group_id server_watcher_id db =
     (if server_watcher_id = 0 then Ok (Some (0, 0))
      else db_err ''Failed to get client watcher_id: '' (wrun w 0 ''watchers'' [''local_group_id'', ''watcher_id'', ''id'', ''account_hash'']
        (Ok (map_option (\<lambda>r. (wr_local_group_id r, wr_watcher_id r))
           (find (\<lambda>r. wr_id r = server_watcher_id \<and> weq w (wr_account_hash r) account_hash) (wd_watchers db))))))"

section \<open>Groups\<close>

definition group_columns :: "string list" where
  "group_columns = [''group_id'', ''account_hash'', ''device_hash'', ''title'', ''created_at'', ''updated_at'', ''is_active'']"

definition insert_group :: "wsql \<Rightarrow> nat \<Rightarrow> group_row \<Rightarrow> watchers_db \<Rightarrow> (string, watchers_db) result" where
  "insert_group w n r db = wrun w n ''watcher_groups'' group_columns
     (if list_ex (group_is w (gr_account_hash r) (gr_group_id r)) (wd_groups db)
      then Err (sq_duplicate (ws_sql w) (show_int (gr_group_id r)))
      else if \<not> has_account (ws_sql w) (gr_account_hash r) (wd_accounts db) then Err (sq_no_parent (ws_sql w))
      else Ok (db\<lparr>wd_groups := wd_groups db @ [r]\<rparr>))"

text \<open>\<^verbatim>\<open>INSERT .. ON DUPLICATE KEY UPDATE\<close> for a group.\<close>

definition upsert_group :: "wsql \<Rightarrow> nat \<Rightarrow> group_row \<Rightarrow> watchers_db \<Rightarrow> (string, watchers_db) result" where
  "upsert_group w n r db =
     (if list_ex (group_is w (gr_account_hash r) (gr_group_id r)) (wd_groups db) then wrun w n ''watcher_groups'' group_columns
        (Ok (db\<lparr>wd_groups := map (\<lambda>x. if group_is w (gr_account_hash r) (gr_group_id r) x
           then x\<lparr>gr_title := gr_title r, gr_updated_at := gr_updated_at r, gr_is_active := gr_is_active r\<rparr> else x) (wd_groups db)\<rparr>))
      else insert_group w n r db)"

definition group_to_row :: "wsql \<Rightarrow> string \<Rightarrow> string \<Rightarrow> watcher_group \<Rightarrow> group_row" where
  "group_to_row w account_hash device_hash g =
     \<lparr>gr_id = ws_auto_group w, gr_group_id = wg_group_id g, gr_account_hash = account_hash, gr_device_hash = device_hash,
      gr_title = wg_title g, gr_created_at = secs (ws_sql w) (wg_created_at g), gr_updated_at = secs (ws_sql w) (wg_updated_at g),
      gr_is_active = wg_is_active g\<rparr>"

text \<open>The statement is executed twice, the first time without regard to its result.\<close>

definition my_register_watcher_group :: "wsql \<Rightarrow> string \<Rightarrow> string \<Rightarrow> watcher_group \<Rightarrow> watchers_db \<Rightarrow> i32 sres \<times> watchers_db" where
  "my_register_watcher_group w account_hash device_hash g db = tx db
     (let r = group_to_row w account_hash device_hash g in
      sbind (tx_point w 0 ''Failed to start transaction: '') (\<lambda>_.
      sbind (db_err ''Failed to check existing watcher group: '' (wrun w 1 ''watcher_groups'' [''updated_at'', ''account_hash'', ''group_id'']
               (Ok (find (group_is w account_hash (wg_group_id g)) (wd_groups db))))) (\<lambda>existing.
        if (case existing of Some x \<Rightarrow> gr_updated_at x \<ge> secs (ws_sql w) (wg_updated_at g) | None \<Rightarrow> False)
        then sbind (tx_point w 2 ''Failed to commit transaction: '') (\<lambda>_. Ok (wg_group_id g, db))
        else
          (let db1 = (case upsert_group w 3 r db of Inr db1 \<Rightarrow> db1 | Inl _ \<Rightarrow> db) in
           sbind (db_err ''Failed to insert watcher group: '' (upsert_group w 4 r db1)) (\<lambda>db2.
           sbind (tx_point w 5 ''Failed to commit transaction: '') (\<lambda>_. Ok (wg_group_id g, db2)))))))"

definition watcher_ids_of :: "wsql \<Rightarrow> nat \<Rightarrow> i32 \<Rightarrow> string \<Rightarrow> watchers_db \<Rightarrow> i32 list sres" where
  "watcher_ids_of w n gid account_hash db = db_err ''Failed to query group watchers (sqlx): ''
     (wrun w n ''watchers'' [''id'', ''group_id'', ''account_hash'']
       (Ok (map wr_id (filter (\<lambda>r. wr_group_id r = gid \<and> weq w (wr_account_hash r) account_hash) (wd_watchers db)))))"

definition row_to_group :: "wsql \<Rightarrow> group_row \<Rightarrow> i32 list \<Rightarrow> watcher_group" where
  "row_to_group w r ids =
     \<lparr>wg_id = gr_id r, wg_group_id = gr_group_id r, wg_account_hash = gr_account_hash r, wg_title = gr_title r,
      wg_created_at = from_secs (ws_sql w) (gr_created_at r), wg_updated_at = from_secs (ws_sql w) (gr_updated_at r),
      wg_is_active = gr_is_active r, wg_watcher_ids = ids\<rparr>"

definition group_query_columns :: "string list" where
  "group_query_columns = [''id'', ''group_id'', ''account_hash'', ''title'', ''created_at'', ''updated_at'', ''is_active'']"

fun read_groups :: "wsql \<Rightarrow> nat \<Rightarrow> string \<Rightarrow> group_row list \<Rightarrow> watchers_db \<Rightarrow> watcher_group list sres" where
  "read_groups w n account_hash [] db = Ok []"
| "read_groups w n account_hash (r # rs) db =
     sbind (watcher_ids_of w n (gr_id r) account_hash db) (\<lambda>ids.
     sbind (read_groups w (n + 1) account_hash rs db) (\<lambda>gs. Ok (row_to_group w r ids # gs)))"

definition my_get_watcher_groups :: "wsql \<Rightarrow> string \<Rightarrow> watchers_db \<Rightarrow> watcher_group list sres" where
  "my_get_watcher_groups w account_hash db =
     sbind (db_err ''Failed to query watcher groups (sqlx): '' (wrun w 0 ''watcher_groups'' group_query_columns
              (Ok (sort_key gr_id (filter (\<lambda>r. weq w (gr_account_hash r) account_hash) (wd_groups db))))))
       (\<lambda>rows. read_groups w 1 account_hash rows db)"

definition my_get_user_watcher_group :: "wsql \<Rightarrow> string \<Rightarrow> i32 \<Rightarrow> watchers_db \<Rightarrow> watcher_group option sres" where
  "my_get_user_watcher_group w account_hash group_id db =
     sbind (db_err ''Failed to query watcher group (sqlx): '' (wrun w 0 ''watcher_groups'' group_query_columns
              (Ok (find (group_is w account_hash group_id) (wd_groups db)))))
       (\<lambda>r. case r of None \<Rightarrow> Ok None
              | Some r \<Rightarrow> sbind (watcher_ids_of w 1 (gr_id r) account_hash db) (\<lambda>ids. Ok (Some (row_to_group w r ids))))"

definition my_update_watcher_group :: "wsql \<Rightarrow> string \<Rightarrow> watcher_group \<Rightarrow> watchers_db \<Rightarrow> unit sres \<times> watchers_db" where
  "my_update_watcher_group w account_hash g db = tx db
     (let this = (\<lambda>r. gr_id r = wg_id g \<and> weq w (gr_account_hash r) account_hash) in
      sbind (db_err ''Failed to check existing watcher group timestamp: '' (wrun w 0 ''watcher_groups'' [''updated_at'', ''id'', ''account_hash'']
               (Ok (find this (wd_groups db))))) (\<lambda>existing.
        if (case existing of Some x \<Rightarrow> gr_updated_at x \<ge> secs (ws_sql w) (wg_updated_at g) | None \<Rightarrow> False) then Ok ((), db)
        else
          sbind (tx_point w 1 ''Failed to start transaction: '') (\<lambda>_.
          sbind (db_err ''Failed to update watcher group: '' (wrun w 2 ''watcher_groups''
                   [''title'', ''updated_at'', ''is_active'', ''id'', ''account_hash'']
                   (Ok (db\<lparr>wd_groups := map (\<lambda>x. if this x
                      then x\<lparr>gr_title := wg_title g, gr_updated_at := secs (ws_sql w) (wg_updated_at g), gr_is_active := wg_is_active g\<rparr>
                      else x) (wd_groups db)\<rparr>)))) (\<lambda>db'.
          sbind (tx_point w 3 ''Failed to commit transaction: '') (\<lambda>_. Ok ((), db'))))))"

text \<open>Deleting watchers, with the conditions that refer to them.\<close>

definition drop_watchers :: "wsql \<Rightarrow> (watcher_row \<Rightarrow> bool) \<Rightarrow> watchers_db \<Rightarrow> watchers_db" where
  "drop_watchers w p db =
     (let gone = map wr_id (filter p (wd_watchers db)) in
      db\<lparr>wd_watchers := filter (\<lambda>r. \<not> p r) (wd_watchers db),
         wd_conditions := (if ws_condition_fk w then filter (\<lambda>c. cr_watcher_id c \<notin> set gone) (wd_conditions db) else wd_conditions db)\<rparr>)"

text \<open>Deleting a group, with the watchers that refer to it.\<close>

definition drop_groups :: "wsql \<Rightarrow> (group_row \<Rightarrow> bool) \<Rightarrow> watchers_db \<Rightarrow> watchers_db" where
  "drop_groups w p db =
     (let gone = map gr_id (filter p (wd_groups db)) in
      drop_watchers w (\<lambda>r. wr_group_id r \<in> set gone) (db\<lparr>wd_groups := filter (\<lambda>g. \<not> p g) (wd_groups db)\<rparr>))"

definition my_delete_watcher_group :: "wsql \<Rightarrow> string \<Rightarrow> i32 \<Rightarrow> watchers_db \<Rightarrow> unit sres \<times> watchers_db" where
  "my_delete_watcher_group w account_hash group_id db = tx db
     (sbind (tx_point w 0 ''Failed to start transaction: '') (\<lambda>_.
      sbind (select_group_id w 1 ''Failed to select watcher_group id: '' account_hash group_id db) (\<lambda>found.
        case found of
          None \<Rightarrow> sbind (tx_point w 2 ''Failed to commit transaction: '') (\<lambda>_. Ok ((), db))
        | Some gid \<Rightarrow>
            (let inside = (\<lambda>r. weq w (wr_account_hash r) account_hash \<and> wr_group_id r = gid);
                 ids = map wr_id (filter inside (wd_watchers db)) in
             sbind (db_err ''Failed to delete watcher conditions: '' (wrun w 3 ''watcher_conditions'' [''watcher_id'']
                      (wrun w 3 ''watchers'' [''id'', ''account_hash'', ''group_id'']
                        (Ok (db\<lparr>wd_conditions := filter (\<lambda>c. cr_watcher_id c \<notin> set ids) (wd_conditions db)\<rparr>))))) (\<lambda>db1.
             sbind (db_err ''Failed to delete watchers: '' (wrun w 4 ''watchers'' [''account_hash'', ''group_id'']
                      (Ok (drop_watchers w inside db1)))) (\<lambda>db2.
             sbind (db_err ''Failed to delete watcher group: '' (wrun w 5 ''watcher_groups'' [''id'', ''account_hash'']
                      (Ok (drop_groups w (\<lambda>g. gr_id g = gid \<and> weq w (gr_account_hash g) account_hash) db2)))) (\<lambda>db3.
             sbind (tx_point w 6 ''Failed to commit transaction: '') (\<lambda>_. Ok ((), db3)))))))))"

fun read_watchers :: "wsql \<Rightarrow> i32 list \<Rightarrow> watchers_db \<Rightarrow> p_watcher_data list" where
  "read_watchers w [] db = []"
| "read_watchers w (i # is) db =
     (case my_get_watcher w i db of Inr wd \<Rightarrow> wd # read_watchers w is db | Inl _ \<Rightarrow> read_watchers w is db)"

text \<open>The second parameter is the behaviour of the database in the queries of the watchers; an error leaves the watcher out.\<close>

definition my_get_watcher_group_by_account_and_id ::
  "wsql \<Rightarrow> wsql \<Rightarrow> string \<Rightarrow> i32 \<Rightarrow> watchers_db \<Rightarrow> p_watcher_group_data option sres" where
  "my_get_watcher_group_by_account_and_id w w' account_hash group_id db =
     sbind (db_err ''Failed to query watcher group (sqlx): '' (wrun w 0 ''watcher_groups''
              [''id'', ''group_id'', ''title'', ''updated_at'', ''account_hash'']
              (Ok (find (group_is w account_hash group_id) (wd_groups db)))))
       (\<lambda>r. case r of None \<Rightarrow> Ok None
              | Some r \<Rightarrow> sbind (watcher_ids_of w 1 (gr_id r) account_hash db) (\<lambda>ids.
                  Ok (Some \<lparr>pg_group_id = gr_group_id r, pg_title = gr_title r, pg_watchers = read_watchers w' ids db,
                    pg_last_updated = Some (datetime_to_timestamp (sq_chrono (ws_sql w)) (from_secs (ws_sql w) (gr_updated_at r)))\<rparr>)))"

definition my_get_server_group_id :: "wsql \<Rightarrow> string \<Rightarrow> i32 \<Rightarrow> watchers_db \<Rightarrow> i32 option sres" where
  "my_get_server_group_id w account_hash client_group_id db =
     select_group_id w 0 ''Failed to get server group ID: '' account_hash client_group_id db"

definition my_get_server_ids :: "wsql \<Rightarrow> string \<Rightarrow> i32 \<Rightarrow> i32 \<Rightarrow> watchers_db \<Rightarrow> (i32 \<times> i32) option sres" where
  "my_get_server_ids w account_hash client_group_id client_watcher_id db =
     sbind (select_group_id w 0 ''Failed to get server group ID: '' account_hash client_group_id db) (\<lambda>g.
       case g of
         None \<Rightarrow> Ok None
       | Some gid \<Rightarrow>
           sbind (select_watcher_id w 1 ''Failed to get server watcher ID: '' account_hash client_group_id client_watcher_id db)
             (\<lambda>i. Ok (map_option (Pair gid) i)))"

definition my_check_duplicate_watcher_group :: "wsql \<Rightarrow> string \<Rightarrow> i32 \<Rightarrow> watchers_db \<Rightarrow> i32 option sres" where
  "my_check_duplicate_watcher_group w account_hash local_group_id db =
     select_group_id w 0 ''Failed to check duplicate watcher group: '' account_hash local_group_id db"

text \<open>
  \<^verbatim>\<open>ensure_server_ids_for\<close>: the group and the watcher of an upload, created when they are missing.
  The value of the second search for a group with the identifier 0 is dropped.
\<close>

definition ensure_group :: "wsql \<Rightarrow> string \<Rightarrow> string \<Rightarrow> i32 \<Rightarrow> watchers_db \<Rightarrow> (i32 \<times> watchers_db) sres" where
  "ensure_group w account_hash device_hash client_group_id db =
     sbind (select_group_id w 1 ''Failed to query watcher_groups: '' account_hash client_group_id db) (\<lambda>existing.
       sbind (case existing of
          Some i \<Rightarrow> Ok (i, db)
        | None \<Rightarrow>
            sbind (db_err ''Failed to insert watcher_group: '' (insert_group w 2
                     \<lparr>gr_id = ws_auto_group w, gr_group_id = client_group_id, gr_account_hash = account_hash,
                      gr_device_hash = device_hash, gr_title = ''Client Group '' @ show_int client_group_id,
                      gr_created_at = secs (ws_sql w) (sq_now (ws_sql w)), gr_updated_at = secs (ws_sql w) (sq_now (ws_sql w)),
                      gr_is_active = True\<rparr> db)) (\<lambda>db'.
            sbind (tx_point w 3 ''Failed to get last insert id: '') (\<lambda>_. Ok (id_to_i32 (of_int (ws_auto_group w)), db'))))
       (\<lambda>(gid, db').
          if gid = 0 then
            sbind (select_group_id w 4 ''Failed to reselect watcher_groups: '' account_hash client_group_id db')
              (\<lambda>_. Err (SE_Database ''Failed to ensure watcher_group id''))
          else Ok (gid, db')))"

definition ensure_watcher :: "wsql \<Rightarrow> string \<Rightarrow> i32 \<Rightarrow> i32 \<Rightarrow> i32 \<Rightarrow> string option \<Rightarrow> watchers_db \<Rightarrow> (i32 \<times> watchers_db) sres" where
  "ensure_watcher w account_hash client_group_id gid client_watcher_id folder_hint db =
     (let folder = (case folder_hint of Some f \<Rightarrow> f | None \<Rightarrow> ''~/''); now = secs (ws_sql w) (sq_now (ws_sql w)) in
      sbind (select_watcher_id w 5 ''Failed to query watchers: '' account_hash client_group_id client_watcher_id db) (\<lambda>existing.
      sbind (case existing of
          Some i \<Rightarrow> Ok (i, db)
        | None \<Rightarrow>
            sbind (db_err ''Failed to insert watcher: '' (insert_watcher w 6
                     \<lparr>wr_id = ws_auto_watcher w, wr_watcher_id = client_watcher_id, wr_account_hash = account_hash,
                      wr_group_id = gid, wr_local_group_id = client_group_id, wr_folder = folder, wr_title = watcher_title folder,
                      wr_is_recursive = True, wr_created_at = now, wr_updated_at = now, wr_is_active = True,
                      wr_extra_json = ''{}''\<rparr> db)) (\<lambda>(last_id, db').
            sbind (tx_point w 7 ''Failed to get last insert id: '') (\<lambda>_. Ok (id_to_i32 last_id, db'))))
      (\<lambda>(i, db'). if i = 0 then Err (SE_Database ''Failed to ensure watcher id'') else Ok (i, db'))))"

definition my_ensure_server_ids_for ::
  "wsql \<Rightarrow> string \<Rightarrow> string \<Rightarrow> i32 \<Rightarrow> i32 \<Rightarrow> string option \<Rightarrow> watchers_db \<Rightarrow> (i32 \<times> i32) sres \<times> watchers_db" where
  "my_ensure_server_ids_for w account_hash device_hash client_group_id client_watcher_id folder_hint db = tx db
     (sbind (tx_point w 0 ''Failed to start transaction: '') (\<lambda>_.
      sbind (ensure_group w account_hash device_hash client_group_id db) (\<lambda>(gid, db1).
      sbind (ensure_watcher w account_hash client_group_id gid client_watcher_id folder_hint db1) (\<lambda>(i, db2).
      sbind (tx_point w 8 ''Failed to commit ensure_server_ids_for: '') (\<lambda>_. Ok ((gid, i), db2))))))"

section \<open>Presets\<close>

definition my_get_watcher_preset :: "wsql \<Rightarrow> string \<Rightarrow> watchers_db \<Rightarrow> string list sres" where
  "my_get_watcher_preset w account_hash db =
     sbind (db_err ''Failed to query watcher preset: '' (wrun w 0 ''watcher_presets'' [''preset_json'', ''account_hash'', ''updated_at'']
              (Ok (order_desc pr_updated_at (filter (\<lambda>r. weq w (pr_account_hash r) account_hash) (wd_presets db))))))
       (\<lambda>rows. case rows of
          [] \<Rightarrow> Ok []
        | r # _ \<Rightarrow> (case ws_from_json w (pr_preset_json r) of Inr v \<Rightarrow> Ok v
                      | Inl e \<Rightarrow> Err (SE_General (''Failed to deserialize presets: '' @ e))))"

text \<open>
  \<^verbatim>\<open>INSERT IGNORE INTO accounts\<close> with three columns: the others get their default or the implicit one,
  and an account that exists is left alone.
\<close>

definition insert_ignore_account :: "wsql \<Rightarrow> nat \<Rightarrow> string \<Rightarrow> i64 \<Rightarrow> accounts_db \<Rightarrow> (string, accounts_db) result" where
  "insert_ignore_account w n account_hash now a =
     sql_run (ws_sql w) n (account_has a) [''account_hash'', ''created_at'', ''updated_at'']
       (Ok (if has_account (ws_sql w) account_hash a then a
            else set_account_rows (account_rows a @ [\<lparr>ar_id = '''', ar_email = '''', ar_account_hash = account_hash, ar_name = '''',
                   ar_password_hash = None, ar_salt = None, ar_created_at = now, ar_updated_at = now, ar_last_login = None,
                   ar_is_active = True\<rparr>]) a))"

definition upsert_preset :: "wsql \<Rightarrow> nat \<Rightarrow> preset_row \<Rightarrow> watchers_db \<Rightarrow> (string, watchers_db) result" where
  "upsert_preset w n r db =
     wrun w n ''watcher_presets'' [''account_hash'', ''preset_json'', ''created_at'', ''updated_at'']
       (if list_ex (\<lambda>x. weq w (pr_account_hash x) (pr_account_hash r)) (wd_presets db)
        then Ok (db\<lparr>wd_presets := map (\<lambda>x. if weq w (pr_account_hash x) (pr_account_hash r)
               then x\<lparr>pr_preset_json := pr_preset_json r, pr_updated_at := pr_updated_at r\<rparr> else x) (wd_presets db)\<rparr>)
        else if \<not> has_account (ws_sql w) (pr_account_hash r) (wd_accounts db) then Err (sq_no_parent (ws_sql w))
        else Ok (db\<lparr>wd_presets := wd_presets db @ [r]\<rparr>))"

definition my_register_watcher_preset_proto :: "wsql \<Rightarrow> string \<Rightarrow> string \<Rightarrow> string list \<Rightarrow> watchers_db \<Rightarrow> unit sres \<times> watchers_db" where
  "my_register_watcher_preset_proto w account_hash device_hash presets db =
     (let now = secs (ws_sql w) (sq_now (ws_sql w));
          db1 = (case insert_ignore_account w 0 account_hash now (wd_accounts db) of
                   Inr a \<Rightarrow> db\<lparr>wd_accounts := a\<rparr> | Inl _ \<Rightarrow> db)
      in sql_update ''Failed to register watcher presets: '' (upsert_preset w 1
           \<lparr>pr_account_hash = account_hash, pr_preset_json = ws_to_json w presets, pr_created_at = now, pr_updated_at = now\<rparr> db1) db1)"

definition my_update_watcher_preset_proto :: "wsql \<Rightarrow> string \<Rightarrow> string \<Rightarrow> string list \<Rightarrow> watchers_db \<Rightarrow> unit sres \<times> watchers_db" where
  "my_update_watcher_preset_proto w account_hash device_hash presets db =
     my_register_watcher_preset_proto w account_hash device_hash presets db"

end
