(* ===== verification/Mysql_Watchers_Correct.thy ===== *)
theory Mysql_Watchers_Correct
  imports Mysql_Watchers
begin

text \<open>
  What the MySQL storage does with watcher groups, watchers, conditions and presets: what is read
  back, which rows a deletion removes, how long a creation waits, and which keys hold in every
  state.
\<close>

section \<open>A database that answers\<close>

text \<open>The columns the queries use.\<close>

definition needed :: "string \<Rightarrow> string list" where
  "needed t =
     (if t = ''watcher_groups'' then ''id'' # group_columns
      else if t = ''watchers'' then [''id'', ''watcher_id'', ''account_hash'', ''group_id'', ''local_group_id'', ''folder'', ''title'',
        ''is_recursive'', ''created_at'', ''updated_at'', ''is_active'', ''extra_json'']
      else if t = ''watcher_conditions'' then ''id'' # condition_columns
      else [''account_hash'', ''preset_json'', ''created_at'', ''updated_at''])"

definition ready :: "wsql \<Rightarrow> bool" where
  "ready w \<longleftrightarrow> working (ws_sql w) \<and>
     list_all (\<lambda>t. set (needed t) \<subseteq> set (sq_columns (ws_sql w) t)) [''watcher_groups'', ''watchers'', ''watcher_conditions'', ''watcher_presets'']"

lemma ready_run:
  assumes "ready w" "t \<in> {''watcher_groups'', ''watchers'', ''watcher_conditions'', ''watcher_presets''}" "set uses \<subseteq> set (needed t)"
  shows "wrun w n t uses k = k"
  using assms by (intro sql_run_working) (auto simp: ready_def)

lemma sbind_simps [simp]: "sbind (Inr x) f = f x" "sbind (Inl e) f = Inl e"
  by (simp_all add: sbind_def)

lemma sbind_Ok: "sbind r f = Ok y \<longleftrightarrow> (\<exists>x. r = Ok x \<and> f x = Ok y)"
  by (cases r) auto

lemma db_err_Ok [simp]: "db_err msg (Inr x) = Inr x" "db_err msg r = Inr x \<longleftrightarrow> r = Inr x"
  by (auto simp: db_err_def split: sum.split)

lemma tx_simps [simp]: "tx db (Inr (x, db')) = (Ok x, db')" "tx db (Inl e) = (Err e, db)"
  by (simp_all add: tx_def)

lemma tx_cases: "tx db r = (x, db') \<Longrightarrow> db' = db \<or> (\<exists>y. r = Ok (y, db'))"
  by (auto simp: tx_def split: sum.splits)

lemma tx_point_ready [simp]: "ready w \<Longrightarrow> tx_point w n msg = Ok ()"
  by (simp add: tx_point_def ready_def)

lemmas columns_defs = needed_def group_columns_def condition_columns_def group_query_columns_def

lemma select_ready [simp]:
  assumes "ready w"
  shows "select_group_id w n msg a g db = Ok (map_option gr_id (find (group_is w a g) (wd_groups db)))"
    "select_watcher_id w n msg a g i db = Ok (map_option wr_id (find (watcher_is w a g i) (wd_watchers db)))"
  by (simp_all add: select_group_id_def select_watcher_id_def ready_run assms columns_defs)

section \<open>Waiting for the group\<close>

lemma wait_bound: "attempt \<le> 15 \<Longrightarrow> snd (snd (wait_for_group w a g views attempt)) \<le> (\<Sum>k = attempt..<15. attempt_pause k)"
proof (induction w a g views attempt rule: wait_for_group.induct)
  case (1 w a g views attempt)
  show ?case
  proof (cases "attempt < 15")
    case True
    then have "(\<Sum>k = attempt..<15. attempt_pause k) = attempt_pause attempt + (\<Sum>k = Suc attempt..<15. attempt_pause k)"
      by (simp add: sum.atLeast_Suc_lessThan)
    with True 1 show ?thesis
      by (subst wait_for_group.simps) (auto split: sum.split option.split prod.split)
  qed (subst wait_for_group.simps, auto split: sum.split option.split)
qed

lemma wait_missing:
  assumes "ready w" "\<And>k. find (group_is w a g) (wd_groups (views k)) = None"
  shows "attempt \<le> 15 \<Longrightarrow> wait_for_group w a g views attempt = (Ok None, 15, \<Sum>k = attempt..<15. attempt_pause k)"
proof (induction "15 - attempt" arbitrary: attempt)
  case 0
  then show ?case using assms by (subst wait_for_group.simps) simp
next
  case (Suc n)
  then have "wait_for_group w a g views (attempt + 1) = (Ok None, 15, \<Sum>k = attempt + 1..<15. attempt_pause k)"
    by (intro Suc.hyps(1)) simp_all
  moreover have "(\<Sum>k = attempt..<15. attempt_pause k) = attempt_pause attempt + (\<Sum>k = Suc attempt..<15. attempt_pause k)"
    using Suc by (simp add: sum.atLeast_Suc_lessThan)
  moreover have "attempt < 15" using Suc by simp
  ultimately show ?case using assms by (subst wait_for_group.simps) simp
qed

lemma pause_sum: "(\<Sum>k = 1..<15. attempt_pause k) = 22300"
  by (simp add: sum.atLeast_Suc_lessThan attempt_pause_def)

text \<open>
  C23: the creation of a watcher waits at most 22.3 seconds for its group, whatever happens to the
  database meanwhile and whichever statements fail, and, when no statement fails, exactly that long, with an error and without a change, for a group
  that does not come.
\<close>
theorem mysql_create_watcher_waits:
  "snd (my_create_watcher_with_conditions w account_hash group_id wd timestamp views) \<le> 22300 \<and>
   (ready w \<and> (\<forall>k. \<not> list_ex (group_is w account_hash group_id) (wd_groups (views k))) \<longrightarrow>
      my_create_watcher_with_conditions w account_hash group_id wd timestamp views =
        ((Err (SE_Database (''Watcher group with client group_id '' @ show_int group_id @ '' not found after waiting'')), views 15), 22300))"
proof (intro conjI impI)
  show "snd (my_create_watcher_with_conditions w account_hash group_id wd timestamp views) \<le> 22300"
    using wait_bound [of 1 w account_hash group_id views] pause_sum
    by (auto simp: my_create_watcher_with_conditions_def split: prod.split)
next
  assume asm: "ready w \<and> (\<forall>k. \<not> list_ex (group_is w account_hash group_id) (wd_groups (views k)))"
  then have "find (group_is w account_hash group_id) (wd_groups (views k)) = None" for k
    by (auto simp: find_None_iff list_ex_iff)
  then have "wait_for_group w account_hash group_id views 1 = (Ok None, 15, 22300)"
    using wait_missing [of w account_hash group_id views 1] asm pause_sum by simp
  then show "my_create_watcher_with_conditions w account_hash group_id wd timestamp views =
        ((Err (SE_Database (''Watcher group with client group_id '' @ show_int group_id @ '' not found after waiting'')), views 15), 22300)"
    by (simp add: my_create_watcher_with_conditions_def)
qed

section \<open>Watchers and their conditions\<close>

text \<open>What the code relies on of the encoding of lists: a value that was written is read back.\<close>

definition json_ok :: "wsql \<Rightarrow> bool" where
  "json_ok w \<longleftrightarrow> (\<forall>v. \<exists>s. ws_read_json w (ws_to_json w v) = Ok s \<and> ws_from_json w s = Ok v)"

text \<open>The rows for the conditions of a watcher.\<close>

fun data_rows :: "wsql \<Rightarrow> nat \<Rightarrow> string \<Rightarrow> i32 \<Rightarrow> i32 \<Rightarrow> i32 \<Rightarrow> i64 \<Rightarrow> (condition_type \<times> p_condition_data) list \<Rightarrow> condition_row list" where
  "data_rows w k a i wid g ts [] = []"
| "data_rows w k a i wid g ts ((ty, cd) # cs) =
     \<lparr>cr_id = ws_auto_condition w k, cr_account_hash = a, cr_watcher_id = i, cr_local_watcher_id = Some wid, cr_local_group_id = g,
      cr_condition_type = condition_type_display ty, cr_key = pc_key cd, cr_value = ws_to_json w (pc_value cd), cr_operator = ''equals'',
      cr_created_at = secs (ws_sql w) (from_secs (ws_sql w) ts), cr_updated_at = secs (ws_sql w) (from_secs (ws_sql w) ts)\<rparr>
     # data_rows w (k + 1) a i wid g ts cs"

lemma insert_condition_ready:
  "ready w \<Longrightarrow> uses = condition_columns \<or> uses = filter (\<lambda>x. x \<noteq> ''local_watcher_id'') condition_columns \<Longrightarrow>
     has_account (ws_sql w) (cr_account_hash r) (wd_accounts db) \<Longrightarrow> cr_watcher_id r \<in> set (map wr_id (wd_watchers db)) \<Longrightarrow>
     insert_condition w n uses r db = Ok (db\<lparr>wd_conditions := wd_conditions db @ [r]\<rparr>)"
  unfolding insert_condition_def by (subst ready_run) (auto simp: columns_defs)

lemma insert_data_ready:
  assumes "ready w" "has_account (ws_sql w) a (wd_accounts db)" "i \<in> set (map wr_id (wd_watchers db))"
  shows "insert_data_conditions w k a i wid g ts cs db = Ok (db\<lparr>wd_conditions := wd_conditions db @ data_rows w k a i wid g ts cs\<rparr>)"
  using assms
proof (induction cs arbitrary: k db)
  case (Cons c cs)
  obtain ty cd where c: "c = (ty, cd)" by (cases c)
  show ?case
    using Cons.prems Cons.IH
    by (simp add: c insert_condition_ready condition_to_row_def Let_def)
qed simp

lemma data_rows_facts: "r \<in> set (data_rows w k a i wid g ts cs) \<Longrightarrow>
    cr_account_hash r = a \<and> cr_watcher_id r = i \<and> (\<exists>j \<ge> k. cr_id r = ws_auto_condition w j)"
proof (induction cs arbitrary: k)
  case (Cons c cs)
  obtain ty cd where c: "c = (ty, cd)" by (cases c)
  show ?case
  proof (cases "r \<in> set (data_rows w (k + 1) a i wid g ts cs)")
    case True
    then obtain j where "cr_account_hash r = a" "cr_watcher_id r = i" "j \<ge> k + 1" "cr_id r = ws_auto_condition w j"
      using Cons.IH by blast
    then show ?thesis by (auto intro: exI [of _ j])
  qed (use Cons.prems c in auto)
qed simp

lemma data_rows_sorted: "strict_mono (ws_auto_condition w) \<Longrightarrow> sorted (map cr_id (data_rows w k a i wid g ts cs))"
proof (induction cs arbitrary: k)
  case (Cons c cs)
  obtain ty cd where "c = (ty, cd)" by (cases c)
  then show ?case
    using Cons data_rows_facts [of _ w "k + 1" a i wid g ts cs]
    by (simp add: sorted_wrt.simps(2)) (metis Suc_leD strict_mono_less_eq)
qed simp

lemma parse_display: "condition_type_from_str ul (condition_type_display ty) = Ok ty"
  by (cases ty) (auto simp: condition_type_from_str_def to_lowercase_def is_ascii_def ascii_lower_def Let_def)

lemma read_data_rows:
  assumes "json_ok w"
  shows "\<exists>xs. read_conditions w (data_rows w k a i wid g ts cs) = Ok xs \<and>
    map (\<lambda>c. (wc_condition_type c, \<lparr>pc_key = wc_key c, pc_value = wc_value c\<rparr>)) xs = cs"
proof (induction cs arbitrary: k)
  case (Cons c cs)
  obtain ty cd where c: "c = (ty, cd)" by (cases c)
  obtain s where "ws_read_json w (ws_to_json w (pc_value cd)) = Ok s" "ws_from_json w s = Ok (pc_value cd)"
    using assms by (auto simp: json_ok_def)
  then show ?case using Cons.IH [of "k + 1"] by (auto simp: c row_to_condition_def parse_display)
qed simp

text \<open>The conditions of a watcher after new ones were added, whose identifiers are larger.\<close>

lemma conditions_of_append:
  assumes "strict_mono (ws_auto_condition w)" "\<And>c. c \<in> set (wd_conditions db) \<Longrightarrow> cr_id c < ws_auto_condition w 0"
    "wd_conditions db' = wd_conditions db @ data_rows w 0 a i wid g ts cs"
  shows "conditions_of w a i db' = conditions_of w a i db @ data_rows w 0 a i wid g ts cs"
proof -
  let ?p = "\<lambda>r. weq w (cr_account_hash r) a \<and> cr_watcher_id r = i" and ?new = "data_rows w 0 a i wid g ts cs"
  have new: "filter ?p ?new = ?new"
    by (rule filter_True) (auto dest: data_rows_facts simp: same_text_def)
  have below: "cr_id c < cr_id r" if c: "c \<in> set (wd_conditions db)" and r: "r \<in> set ?new" for c r
  proof -
    obtain j where "cr_id r = ws_auto_condition w j" using data_rows_facts [OF r] by blast
    then show ?thesis using assms(2) [OF c] strict_mono_less_eq [OF assms(1), of 0 j] by simp
  qed
  have "sort_key cr_id (filter ?p (wd_conditions db) @ ?new) = sort_key cr_id (filter ?p (wd_conditions db)) @ ?new"
  proof (rule properties_for_sort_key)
    show "sorted (map cr_id (sort_key cr_id (filter ?p (wd_conditions db)) @ ?new))"
      using data_rows_sorted [OF assms(1)] below by (auto simp: sorted_append intro: less_imp_le)
    show "filter (\<lambda>x. cr_id k = cr_id x) (sort_key cr_id (filter ?p (wd_conditions db)) @ ?new) =
        filter (\<lambda>x. cr_id k = cr_id x) (filter ?p (wd_conditions db) @ ?new)" for k
      using sort_key_stable [of cr_id "cr_id k" "filter ?p (wd_conditions db)"] by (simp only: filter_append eq_commute [of "cr_id k"])
  qed simp
  then show ?thesis by (simp add: conditions_of_def assms(3) new)
qed

lemma read_conditions_append:
  "read_conditions w xs = Ok cs \<Longrightarrow> read_conditions w ys = Ok ds \<Longrightarrow> read_conditions w (xs @ ys) = Ok (cs @ ds)"
  by (induction xs arbitrary: cs) (auto split: sum.splits)

text \<open>The row of a new watcher, and what is read back of it.\<close>

definition new_watcher_row :: "wsql \<Rightarrow> string \<Rightarrow> i32 \<Rightarrow> i32 \<Rightarrow> p_watcher_data \<Rightarrow> i64 \<Rightarrow> watcher_row" where
  "new_watcher_row w a g gid wd ts =
     \<lparr>wr_id = ws_auto_watcher w, wr_watcher_id = pw_watcher_id wd, wr_account_hash = a, wr_group_id = gid, wr_local_group_id = g,
      wr_folder = normalize_raw (pw_folder wd), wr_title = watcher_title (normalize_raw (pw_folder wd)),
      wr_is_recursive = pw_recursive_path wd, wr_created_at = ts, wr_updated_at = ts, wr_is_active = True,
      wr_extra_json = pw_extra_json wd\<rparr>"

definition stored_watcher :: "p_watcher_data \<Rightarrow> p_condition_data list \<Rightarrow> p_condition_data list \<Rightarrow> p_watcher_data" where
  "stored_watcher wd us ss =
     \<lparr>pw_watcher_id = pw_watcher_id wd, pw_folder = normalize_raw (pw_folder wd), pw_union_conditions = us @ pw_union_conditions wd,
      pw_subtracting_conditions = ss @ pw_subtracting_conditions wd, pw_recursive_path = pw_recursive_path wd, pw_preset = False,
      pw_custom_type = '''', pw_update_mode = '''', pw_is_active = True, pw_extra_json = ''''\<rparr>"

lemma id_to_i32_of_int: "0 < i \<Longrightarrow> i < 2 ^ 31 \<Longrightarrow> id_to_i32 (of_int i) = i"
proof -
  assume i: "0 < i" "i < 2 ^ 31"
  then have "uint (of_int i :: u64) = i" by (simp add: uint_word_of_int)
  then show ?thesis using i by (auto simp: id_to_i32_def word_less_def)
qed

lemma data_of_typed:
  assumes "map (\<lambda>c. (wc_condition_type c, \<lparr>pc_key = wc_key c, pc_value = wc_value c\<rparr>)) xs = typed_conditions wd"
  shows "data_of_conditions Union xs = pw_union_conditions wd" "data_of_conditions Subtract xs = pw_subtracting_conditions wd"
proof -
  have "data_of_conditions ty xs = map snd (filter (\<lambda>(t, _). t = ty)
      (map (\<lambda>c. (wc_condition_type c, \<lparr>pc_key = wc_key c, pc_value = wc_value c\<rparr>)) xs))" for ty
    by (induction xs) (simp_all add: data_of_conditions_def)
  then show "data_of_conditions Union xs = pw_union_conditions wd" "data_of_conditions Subtract xs = pw_subtracting_conditions wd"
    by (simp_all add: assms typed_conditions_def filter_map comp_def)
qed

text \<open>What is read of a watcher row after the conditions of \<open>wd\<close> were added to those it had.\<close>

lemma watcher_data_after:
  assumes "ready w" "json_ok w" "strict_mono (ws_auto_condition w)" "\<And>c. c \<in> set (wd_conditions db) \<Longrightarrow> cr_id c < ws_auto_condition w 0"
    and "read_conditions w (conditions_of w a (wr_id r) db) = Ok old"
    and db': "wd_conditions db' = wd_conditions db @ data_rows w 0 a (wr_id r) wid g ts (typed_conditions wd)"
    and "wr_watcher_id r = pw_watcher_id wd" "wr_folder r = normalize_raw (pw_folder wd)" "wr_is_recursive r = pw_recursive_path wd"
  shows "watcher_data_of w a r db' = stored_watcher wd (data_of_conditions Union old) (data_of_conditions Subtract old)"
proof -
  obtain xs where xs: "read_conditions w (data_rows w 0 a (wr_id r) wid g ts (typed_conditions wd)) = Ok xs"
    "map (\<lambda>c. (wc_condition_type c, \<lparr>pc_key = wc_key c, pc_value = wc_value c\<rparr>)) xs = typed_conditions wd"
    using read_data_rows [OF assms(2)] by blast
  have "my_get_watcher_conditions w 1 a (wr_id r) db' = Ok (old @ xs)"
    using conditions_of_append [OF assms(3, 4) db'] read_conditions_append [OF assms(5) xs(1)]
    by (simp add: my_get_watcher_conditions_def ready_run assms(1) columns_defs)
  then show ?thesis
    using data_of_typed [OF xs(2)] assms(7, 8, 9)
    by (simp add: watcher_data_of_def stored_watcher_def data_of_conditions_def)
qed

lemma wait_found: "ready w \<Longrightarrow> find (group_is w a g) (wd_groups (views 1)) = Some x \<Longrightarrow> wait_for_group w a g views 1 = (Ok (Some (gr_id x)), 1, 0)"
  by (subst wait_for_group.simps) simp

lemma create_watcher_new:
  assumes "ready w" "has_account (ws_sql w) a (wd_accounts db)" "gid \<in> set (map gr_id (wd_groups db))"
    and "find (watcher_is w a g (pw_watcher_id wd)) (wd_watchers db) = None" "0 < ws_auto_watcher w" "ws_auto_watcher w < 2 ^ 31"
  shows "create_watcher_tx w a g gid wd ts db = Ok (ws_auto_watcher w, db\<lparr>wd_watchers := wd_watchers db @ [new_watcher_row w a g gid wd ts],
     wd_conditions := wd_conditions db @ data_rows w 0 a (ws_auto_watcher w) (pw_watcher_id wd) g ts (typed_conditions wd)\<rparr>)"
proof -
  have "insert_watcher w 4 (new_watcher_row w a g gid wd ts) db =
      Ok (of_int (ws_auto_watcher w), db\<lparr>wd_watchers := wd_watchers db @ [new_watcher_row w a g gid wd ts]\<rparr>)"
    using assms(2, 3) unfolding insert_watcher_def
    by (subst ready_run [OF assms(1)]) (auto simp: columns_defs new_watcher_row_def)
  then have "upsert_watcher w 4 (new_watcher_row w a g gid wd ts) db =
      Ok (of_int (ws_auto_watcher w), db\<lparr>wd_watchers := wd_watchers db @ [new_watcher_row w a g gid wd ts]\<rparr>)"
    using assms(4) by (simp add: upsert_watcher_def new_watcher_row_def)
  then show ?thesis
    using assms
    by (simp add: create_watcher_tx_def ready_run columns_defs new_watcher_row_def id_to_i32_of_int insert_data_ready Let_def)
qed

text \<open>
  A watcher created in MySQL for a group of the account is read back under the client's
  identifiers, with the normalised folder and with all its conditions in their order; the fields
  for which there is no column, and the extra data, come back empty.  The server identifiers of the
  client's pair are those of the group and of the new row.
\<close>
theorem mysql_watcher_roundtrip:
  assumes "ready w" "json_ok w" "has_account (ws_sql w) a (wd_accounts db)"
    and group: "find (group_is w a g) (wd_groups db) = Some x"
    and new: "\<not> list_ex (watcher_is w a g (pw_watcher_id wd)) (wd_watchers db)" "0 < ws_auto_watcher w" "ws_auto_watcher w < 2 ^ 31"
    and "strict_mono (ws_auto_condition w)" "\<And>c. c \<in> set (wd_conditions db) \<Longrightarrow> cr_id c < ws_auto_condition w 0"
    and "\<And>c. c \<in> set (wd_conditions db) \<Longrightarrow> cr_watcher_id c \<noteq> ws_auto_watcher w"
  shows "\<exists>db'. my_create_watcher_with_conditions w a g wd ts (\<lambda>_. db) = ((Ok (ws_auto_watcher w), db'), 0) \<and>
    my_get_watcher_by_group_and_id w a g (pw_watcher_id wd) db' = Ok (Some (stored_watcher wd [] [])) \<and>
    my_get_server_ids w a g (pw_watcher_id wd) db' = Ok (Some (gr_id x, ws_auto_watcher w))"
proof -
  let ?r = "new_watcher_row w a g (gr_id x) wd ts"
  let ?db = "db\<lparr>wd_watchers := wd_watchers db @ [?r],
     wd_conditions := wd_conditions db @ data_rows w 0 a (ws_auto_watcher w) (pw_watcher_id wd) g ts (typed_conditions wd)\<rparr>"
  have gid: "gr_id x \<in> set (map gr_id (wd_groups db))" using group by (auto simp: find_Some_iff)
  have none: "find (watcher_is w a g (pw_watcher_id wd)) (wd_watchers db) = None"
    using new(1) by (auto simp: find_None_iff list_ex_iff)
  have id: "wr_id ?r = ws_auto_watcher w" by (simp add: new_watcher_row_def)
  have same: "watcher_is w a g (pw_watcher_id wd) ?r" by (simp add: watcher_is_def new_watcher_row_def same_text_def)
  have "my_create_watcher_with_conditions w a g wd ts (\<lambda>_. db) = ((Ok (ws_auto_watcher w), ?db), 0)"
    using wait_found [of w a g "\<lambda>_. db" x] create_watcher_new [OF assms(1, 3) gid none new(2, 3)] assms(1) group
    by (simp add: my_create_watcher_with_conditions_def)
  moreover have "conditions_of w a (wr_id ?r) db = []"
    using assms(10) by (auto simp: conditions_of_def id filter_empty_conv)
  then have "watcher_data_of w a ?r ?db = stored_watcher wd [] []"
    using watcher_data_after [OF assms(1, 2, 8, 9), of db a ?r "[]" ?db]
    by (simp add: new_watcher_row_def data_of_conditions_def)
  then have "my_get_watcher_by_group_and_id w a g (pw_watcher_id wd) ?db = Ok (Some (stored_watcher wd [] []))"
    using new(1) same by (simp add: my_get_watcher_by_group_and_id_def ready_run assms(1) columns_defs find_append_new)
  moreover have "my_get_server_ids w a g (pw_watcher_id wd) ?db = Ok (Some (gr_id x, ws_auto_watcher w))"
    using assms(1) group new(1) same by (simp add: my_get_server_ids_def find_append_new id)
  ultimately show ?thesis by blast
qed

text \<open>
  Sending a watcher again with a later time replaces its folder and flags, but its conditions
  are added to those that are stored, so that every update repeats them; the identifier stays.  With
  an earlier or equal time nothing changes.
\<close>
theorem mysql_watcher_update_repeats_conditions:
  assumes "ready w" "json_ok w" "has_account (ws_sql w) a (wd_accounts db)"
    and group: "find (group_is w a g) (wd_groups db) = Some x"
    and old: "find (watcher_is w a g (pw_watcher_id wd)) (wd_watchers db) = Some r" "distinct (map wr_id (wd_watchers db))"
      "0 < wr_id r" "wr_id r < 2 ^ 31" "read_conditions w (conditions_of w a (wr_id r) db) = Ok cs"
    and "ws_watcher_key w" "ws_updated_id w (wr_id r) = of_int (wr_id r)"
    and "strict_mono (ws_auto_condition w)" "\<And>c. c \<in> set (wd_conditions db) \<Longrightarrow> cr_id c < ws_auto_condition w 0"
  shows "if from_secs (ws_sql w) (wr_updated_at r) < from_secs (ws_sql w) ts
    then \<exists>db'. my_create_watcher_with_conditions w a g wd ts (\<lambda>_. db) = ((Ok (wr_id r), db'), 0) \<and>
      my_get_watcher_by_group_and_id w a g (pw_watcher_id wd) db' =
        Ok (Some (stored_watcher wd (data_of_conditions Union cs) (data_of_conditions Subtract cs)))
    else my_create_watcher_with_conditions w a g wd ts (\<lambda>_. db) = ((Ok (wr_id r), db), 0)"
proof -
  let ?same = "watcher_is w a g (pw_watcher_id wd)"
  let ?n = "new_watcher_row w a g (gr_id x) wd ts"
  let ?f = "\<lambda>y. if wr_id y = wr_id r then y\<lparr>wr_folder := wr_folder ?n, wr_title := wr_title ?n, wr_is_recursive := wr_is_recursive ?n,
     wr_updated_at := wr_updated_at ?n, wr_is_active := wr_is_active ?n, wr_extra_json := wr_extra_json ?n, wr_group_id := wr_group_id ?n\<rparr> else y"
  let ?db = "db\<lparr>wd_watchers := map ?f (wd_watchers db),
     wd_conditions := wd_conditions db @ data_rows w 0 a (wr_id r) (pw_watcher_id wd) g ts (typed_conditions wd)\<rparr>"
  have gid: "gr_id x \<in> gr_id ` set (wd_groups db)" using group by (auto simp: find_Some_iff)
  have r: "?same r" "r \<in> set (wd_watchers db)" using old(1) by (auto simp: find_Some_iff)
  have f: "?same (?f y) = ?same y" for y by (simp add: watcher_is_def)
  have ups: "upsert_watcher w 4 ?n db = Ok (of_int (wr_id r), db\<lparr>wd_watchers := map ?f (wd_watchers db)\<rparr>)"
    using assms(1, 10, 11) old(1) gid
    by (simp add: upsert_watcher_def new_watcher_row_def ready_run columns_defs)
  have ins: "insert_data_conditions w 0 a (wr_id r) (pw_watcher_id wd) g ts (typed_conditions wd) (db\<lparr>wd_watchers := map ?f (wd_watchers db)\<rparr>)
      = Ok ?db"
  proof (subst insert_data_ready [OF assms(1)])
    show "wr_id r \<in> set (map wr_id (wd_watchers (db\<lparr>wd_watchers := map ?f (wd_watchers db)\<rparr>)))"
      using r(2) by (force simp: image_iff)
  qed (use assms(3) in simp_all)
  note run = wait_found [of w a g "\<lambda>_. db" x]
  show ?thesis
  proof (cases "from_secs (ws_sql w) (wr_updated_at r) < from_secs (ws_sql w) ts")
    case True
    have "create_watcher_tx w a g (gr_id x) wd ts db = Ok (wr_id r, ?db)"
      using assms(1) old True ups ins
      by (simp add: create_watcher_tx_def ready_run columns_defs new_watcher_row_def Let_def id_to_i32_of_int)
    then have "my_create_watcher_with_conditions w a g wd ts (\<lambda>_. db) = ((Ok (wr_id r), ?db), 0)"
      using run assms(1) group by (simp add: my_create_watcher_with_conditions_def)
    moreover have "find ?same (wd_watchers ?db) = Some (?f r)"
      using old(1) find_map_same [of ?same ?f, OF f] by simp
    moreover have "watcher_data_of w a (?f r) ?db = stored_watcher wd (data_of_conditions Union cs) (data_of_conditions Subtract cs)"
      using r(1) by (intro watcher_data_after [OF assms(1, 2, 12, 13)]) (simp_all add: old(5) new_watcher_row_def watcher_is_def)
    ultimately show ?thesis using True assms(1)
      by (simp add: my_get_watcher_by_group_and_id_def ready_run columns_defs)
  next
    case False
    then have "create_watcher_tx w a g (gr_id x) wd ts db = Ok (wr_id r, db)"
      using assms(1) old by (simp add: create_watcher_tx_def ready_run columns_defs)
    then show ?thesis using False run assms(1) group by (simp add: my_create_watcher_with_conditions_def)
  qed
qed

text \<open>
  The search for a watcher by its folder compares the group of the request, which is the
  client's number, with the server's number in the table.  A watcher that was just created for a
  folder is therefore not found again for the same group and folder, unless the two numbers happen
  to be equal.
\<close>
theorem mysql_folder_search_misses:
  assumes "ready w" "has_account (ws_sql w) a (wd_accounts db)"
    and group: "find (group_is w a g) (wd_groups db) = Some x"
    and new: "\<not> list_ex (watcher_is w a g (pw_watcher_id wd)) (wd_watchers db)" "0 < ws_auto_watcher w" "ws_auto_watcher w < 2 ^ 31"
    and "gr_id x \<noteq> g" "\<And>r. r \<in> set (wd_watchers db) \<Longrightarrow> wr_group_id r \<noteq> g"
  shows "\<exists>db'. my_create_watcher_with_conditions w a g wd ts (\<lambda>_. db) = ((Ok (ws_auto_watcher w), db'), 0) \<and>
    my_find_watcher_by_folder w a g (pw_folder wd) db' = Ok None"
proof -
  have gid: "gr_id x \<in> set (map gr_id (wd_groups db))" using group by (auto simp: find_Some_iff)
  have none: "find (watcher_is w a g (pw_watcher_id wd)) (wd_watchers db) = None"
    using new(1) by (auto simp: find_None_iff list_ex_iff)
  have "\<exists>db'. my_create_watcher_with_conditions w a g wd ts (\<lambda>_. db) = ((Ok (ws_auto_watcher w), db'), 0) \<and>
      wd_watchers db' = wd_watchers db @ [new_watcher_row w a g (gr_id x) wd ts]"
    using wait_found [of w a g "\<lambda>_. db" x] create_watcher_new [OF assms(1, 2) gid none new(2, 3)] assms(1) group
    by (simp add: my_create_watcher_with_conditions_def)
  then obtain db' where db': "my_create_watcher_with_conditions w a g wd ts (\<lambda>_. db) = ((Ok (ws_auto_watcher w), db'), 0)"
    "wd_watchers db' = wd_watchers db @ [new_watcher_row w a g (gr_id x) wd ts]" by blast
  have row: "wr_group_id (new_watcher_row w a g (gr_id x) wd ts) = gr_id x" by (simp add: new_watcher_row_def)
  have "find (\<lambda>r. weq w (wr_account_hash r) a \<and> wr_group_id r = g \<and> weq w (wr_folder r) (normalize_raw (pw_folder wd))) (wd_watchers db') = None"
    using assms(7, 8) row by (fastforce simp: find_None_iff db'(2))
  then have "my_find_watcher_by_folder w a g (pw_folder wd) db' = Ok None"
    by (simp add: my_find_watcher_by_folder_def ready_run assms(1) columns_defs)
  with db'(1) show ?thesis by blast
qed

section \<open>Groups\<close>

lemma drop_watchers_simps [simp]:
  "wd_groups (drop_watchers w p db) = wd_groups db" "wd_accounts (drop_watchers w p db) = wd_accounts db"
  "wd_presets (drop_watchers w p db) = wd_presets db" "wd_watchers (drop_watchers w p db) = filter (\<lambda>r. \<not> p r) (wd_watchers db)"
  by (simp_all add: drop_watchers_def Let_def)

lemma drop_conditions: "wd_conditions (drop_watchers w p db) =
    (if ws_condition_fk w then filter (\<lambda>c. cr_watcher_id c \<notin> wr_id ` {r \<in> set (wd_watchers db). p r}) (wd_conditions db) else wd_conditions db)"
  by (simp add: drop_watchers_def Let_def)

text \<open>
  Deleting a group in MySQL removes the group, every watcher in it and exactly the conditions of
  these watchers, and nothing else; for an unknown group it does nothing and reports success.
\<close>
theorem mysql_delete_group_spec:
  assumes "ready w" "ws_condition_fk w \<or> (\<forall>r \<in> set (wd_watchers db). weq w (wr_account_hash r) a)"
  shows "case find (group_is w a g) (wd_groups db) of
      None \<Rightarrow> my_delete_watcher_group w a g db = (Ok (), db)
    | Some x \<Rightarrow> my_delete_watcher_group w a g db = (Ok (), db
        \<lparr>wd_groups := filter (\<lambda>y. \<not> (gr_id y = gr_id x \<and> weq w (gr_account_hash y) a)) (wd_groups db),
         wd_watchers := filter (\<lambda>r. wr_group_id r \<noteq> gr_id x) (wd_watchers db),
         wd_conditions := filter (\<lambda>c. cr_watcher_id c \<notin> wr_id ` {r \<in> set (wd_watchers db). wr_group_id r = gr_id x}) (wd_conditions db)\<rparr>)"
proof (cases "find (group_is w a g) (wd_groups db)")
  case None
  then show ?thesis using assms(1) by (simp add: my_delete_watcher_group_def)
next
  case (Some x)
  then have x: "x \<in> set (wd_groups db)" "weq w (gr_account_hash x) a" by (auto simp: find_Some_iff group_is_def)
  let ?in = "\<lambda>r. weq w (wr_account_hash r) a \<and> wr_group_id r = gr_id x"
  let ?db1 = "db\<lparr>wd_conditions := filter (\<lambda>c. cr_watcher_id c \<notin> set (map wr_id (filter ?in (wd_watchers db)))) (wd_conditions db)\<rparr>"
  let ?db3 = "drop_groups w (\<lambda>y. gr_id y = gr_id x \<and> weq w (gr_account_hash y) a) (drop_watchers w ?in ?db1)"
  have "my_delete_watcher_group w a g db = (Ok (), ?db3)"
    using Some assms(1) by (simp add: my_delete_watcher_group_def ready_run columns_defs Let_def)
  moreover have gone: "set (map gr_id (filter (\<lambda>y. gr_id y = gr_id x \<and> weq w (gr_account_hash y) a) (wd_groups db))) = {gr_id x}"
    using x by auto
  have "wd_conditions ?db3 = filter (\<lambda>c. cr_watcher_id c \<notin> wr_id ` {r \<in> set (wd_watchers db). wr_group_id r = gr_id x}) (wd_conditions db)"
    using assms(2) gone by (auto simp: drop_groups_def drop_conditions Let_def intro!: filter_cong)
  then have "?db3 = db\<lparr>wd_groups := filter (\<lambda>y. \<not> (gr_id y = gr_id x \<and> weq w (gr_account_hash y) a)) (wd_groups db),
         wd_watchers := filter (\<lambda>r. wr_group_id r \<noteq> gr_id x) (wd_watchers db),
         wd_conditions := filter (\<lambda>c. cr_watcher_id c \<notin> wr_id ` {r \<in> set (wd_watchers db). wr_group_id r = gr_id x}) (wd_conditions db)\<rparr>"
    using gone by (intro watchers_db.equality) (auto simp: drop_groups_def Let_def intro!: filter_cong)
  ultimately show ?thesis using Some by simp
qed

text \<open>
  Preparing an upload gives the client's group and watcher their server identifiers, creating
  what is missing; afterwards the same pair of identifiers is found for them, and preparing the
  next upload gives the same pair and changes nothing.
\<close>
theorem mysql_ensure_ids_stable:
  assumes "ready w" "has_account (ws_sql w) a (wd_accounts db)"
    and "0 < ws_auto_group w" "ws_auto_group w < 2 ^ 31" "0 < ws_auto_watcher w" "ws_auto_watcher w < 2 ^ 31"
    and nz: "\<And>x. x \<in> set (wd_groups db) \<Longrightarrow> gr_id x \<noteq> 0" "\<And>r. r \<in> set (wd_watchers db) \<Longrightarrow> wr_id r \<noteq> 0"
  shows "\<exists>g i db'. my_ensure_server_ids_for w a d cg cw hint db = (Ok (g, i), db') \<and>
    my_get_server_ids w a cg cw db' = Ok (Some (g, i)) \<and>
    my_ensure_server_ids_for w a d' cg cw hint' db' = (Ok (g, i), db')"
proof -
  have group: "\<exists>g db1 x. ensure_group w a d cg db = Ok (g, db1) \<and> find (group_is w a cg) (wd_groups db1) = Some x \<and> gr_id x = g \<and>
      g \<noteq> 0 \<and> wd_watchers db1 = wd_watchers db \<and> wd_accounts db1 = wd_accounts db"
  proof (cases "find (group_is w a cg) (wd_groups db)")
    case (Some x)
    then have "gr_id x \<noteq> 0" using nz(1) by (auto simp: find_Some_iff)
    then show ?thesis using Some assms(1) by (simp add: ensure_group_def)
  next
    case None
    let ?r = "\<lparr>gr_id = ws_auto_group w, gr_group_id = cg, gr_account_hash = a, gr_device_hash = d, gr_title = ''Client Group '' @ show_int cg,
      gr_created_at = secs (ws_sql w) (sq_now (ws_sql w)), gr_updated_at = secs (ws_sql w) (sq_now (ws_sql w)), gr_is_active = True\<rparr>"
    have no: "\<not> list_ex (group_is w a cg) (wd_groups db)" using None by (auto simp: find_None_iff list_ex_iff)
    then have "insert_group w 2 ?r db = Ok (db\<lparr>wd_groups := wd_groups db @ [?r]\<rparr>)"
      using assms(1, 2) by (simp add: insert_group_def ready_run columns_defs)
    moreover have "group_is w a cg ?r" by (simp add: group_is_def same_text_def)
    ultimately show ?thesis
      using None no assms(1, 3, 4) by (simp add: ensure_group_def id_to_i32_of_int find_append_new)
  qed
  then obtain g db1 x where g: "ensure_group w a d cg db = Ok (g, db1)" "find (group_is w a cg) (wd_groups db1) = Some x" "gr_id x = g"
    "g \<noteq> 0" "wd_watchers db1 = wd_watchers db" "wd_accounts db1 = wd_accounts db" by blast
  have gid: "g \<in> gr_id ` set (wd_groups db1)" using g(2, 3) by (auto simp: find_Some_iff)
  have "\<exists>i db2 r. ensure_watcher w a cg g cw hint db1 = Ok (i, db2) \<and> find (watcher_is w a cg cw) (wd_watchers db2) = Some r \<and>
      wr_id r = i \<and> i \<noteq> 0 \<and> wd_groups db2 = wd_groups db1"
  proof (cases "find (watcher_is w a cg cw) (wd_watchers db1)")
    case (Some r)
    then have "wr_id r \<noteq> 0" using nz(2) g(5) by (auto simp: find_Some_iff)
    then show ?thesis using Some assms(1) by (simp add: ensure_watcher_def Let_def)
  next
    case None
    have no: "\<not> list_ex (watcher_is w a cg cw) (wd_watchers db1)" using None by (auto simp: find_None_iff list_ex_iff)
    have ins: "insert_watcher w 6 r db1 = Ok (of_int (wr_id r), db1\<lparr>wd_watchers := wd_watchers db1 @ [r]\<rparr>)"
      if "wr_account_hash r = a" "wr_group_id r = g" for r
      using that assms(1, 2) gid g(6) by (simp add: insert_watcher_def ready_run columns_defs)
    show ?thesis
      using None no assms(1, 5, 6)
      by (simp add: ensure_watcher_def Let_def ins id_to_i32_of_int find_append_new watcher_is_def same_text_def)
  qed
  then obtain i db2 r where i: "ensure_watcher w a cg g cw hint db1 = Ok (i, db2)" "find (watcher_is w a cg cw) (wd_watchers db2) = Some r"
    "wr_id r = i" "i \<noteq> 0" "wd_groups db2 = wd_groups db1" by blast
  have "ensure_group w a d' cg db2 = Ok (g, db2)" "ensure_watcher w a cg g cw hint' db2 = Ok (i, db2)"
    using assms(1) g(2, 3, 4) i(2, 3, 4, 5) by (simp_all add: ensure_group_def ensure_watcher_def Let_def)
  then show ?thesis
    using assms(1) g i by (simp add: my_ensure_server_ids_for_def my_get_server_ids_def)
qed

text \<open>The table of groups that the server creates has no column for the device.\<close>

lemma no_device_column:
  assumes "own_table ''watcher_groups'' watcher_groups_table c" "table_kept ''watcher_groups'' watcher_groups_table c c'"
  shows "\<not> set group_columns \<subseteq> set (columns_of ''watcher_groups'' c')"
proof
  assume "set group_columns \<subseteq> set (columns_of ''watcher_groups'' c')"
  with own_columns [OF assms] have "''device_hash'' \<in> set (map fst (td_columns watcher_groups_table))"
    by (auto simp: group_columns_def)
  then show False by (simp add: watcher_groups_table_def)
qed

text \<open>
  On a database whose tables the server made itself no group can be created: neither the
  initialisation nor the migration gives \<^verbatim>\<open>watcher_groups\<close> the column for the device that every
  insertion names, so that registering a new group, and preparing an upload into one, end with an
  error and without a change.
\<close>
theorem no_group_on_own_schema:
  assumes "own_table ''watcher_groups'' watcher_groups_table c"
    and "c' \<in> {snd (start_schema db1 db2 c), factory_schema db1 db2 c}"
    and "sq_columns (ws_sql w) ''watcher_groups'' = columns_of ''watcher_groups'' c'"
    and new: "\<not> list_ex (group_is w a (wg_group_id g)) (wd_groups db)"
  shows "(\<exists>e. my_register_watcher_group w a d g db = (Err e, db)) \<and>
    (\<exists>e. my_ensure_server_ids_for w a d (wg_group_id g) cw hint db = (Err e, db))"
proof -
  have "table_kept ''watcher_groups'' watcher_groups_table c c'" using assms(2) start_groups by auto
  then have none: "\<not> set group_columns \<subseteq> set (sq_columns (ws_sql w) ''watcher_groups'')"
    using no_device_column assms(1, 3) by metis
  then have refused: "\<exists>e. wrun w n ''watcher_groups'' group_columns k = Err e" for n and k :: "(string, watchers_db) result"
    by (simp add: sql_run_def split: option.split)
  have ins: "\<exists>e. insert_group w n r db = Err e" for n r unfolding insert_group_def by (rule refused)
  have ups: "\<exists>e. upsert_group w n r db = Err e" for n r using refused ins by (simp add: upsert_group_def)
  have nofind: "find (group_is w a (wg_group_id g)) (wd_groups db) = None" using new by (auto simp: find_None_iff list_ex_iff)
  have "\<exists>e. my_register_watcher_group w a d g db = (Err e, db)"
  proof -
    obtain e3 where e3: "upsert_group w 3 (group_to_row w a d g) db = Err e3" using ups by blast
    obtain e4 where e4: "upsert_group w 4 (group_to_row w a d g) db = Err e4" using ups by blast
    show ?thesis
      by (auto simp: my_register_watcher_group_def tx_def sbind_def Let_def e3 e4 db_err_def sql_run_def nofind split: sum.splits option.splits if_splits)
  qed
  moreover have "\<exists>e. ensure_group w a d (wg_group_id g) db = Err e"
  proof -
    obtain e2 where "insert_group w 2 \<lparr>gr_id = ws_auto_group w, gr_group_id = wg_group_id g, gr_account_hash = a,
        gr_device_hash = d, gr_title = ''Client Group '' @ show_int (wg_group_id g), gr_created_at = secs (ws_sql w) (sq_now (ws_sql w)),
        gr_updated_at = secs (ws_sql w) (sq_now (ws_sql w)), gr_is_active = True\<rparr> db = Err e2" using ins by blast
    moreover have "select_group_id w 1 ''Failed to query watcher_groups: '' a (wg_group_id g) db = Ok None \<or>
        (\<exists>e. select_group_id w 1 ''Failed to query watcher_groups: '' a (wg_group_id g) db = Err e)"
      by (simp add: select_group_id_def sql_run_def db_err_def nofind split: option.split)
    ultimately show ?thesis
      unfolding ensure_group_def by (elim disjE exE) (simp_all add: db_err_def)
  qed
  then have "\<exists>e. my_ensure_server_ids_for w a d (wg_group_id g) cw hint db = (Err e, db)"
    by (auto simp: my_ensure_server_ids_for_def tx_def sbind_def split: sum.splits)
  ultimately show ?thesis by blast
qed

section \<open>Presets\<close>

text \<open>
  Registered presets are read back, and the account of the request is created when it is
  missing, but such an account cannot be read: its password, salt and last login are \<^verbatim>\<open>NULL\<close>, so that
  every later search for it by its hash is an error.
\<close>
theorem mysql_preset_account_unreadable:
  assumes "ready w" "ws_from_json w (ws_to_json w presets) = Ok presets"
    and cols: "set account_columns \<subseteq> set (account_has (wd_accounts db))"
    and new: "\<not> has_account (ws_sql w) a (wd_accounts db)" "\<not> list_ex (\<lambda>r. weq w (pr_account_hash r) a) (wd_presets db)"
  shows "\<exists>db'. my_register_watcher_preset_proto w a d presets db = (Ok (), db') \<and> my_get_watcher_preset w a db' = Ok presets \<and>
    has_account (ws_sql w) a (wd_accounts db') \<and>
    my_get_account_by_hash (ws_sql w) a (wd_accounts db') =
      Err (SE_Database (''Failed to query account: '' @ sq_null (ws_sql w) ''password_hash''))"
proof -
  let ?q = "ws_sql w" and ?now = "secs (ws_sql w) (sq_now (ws_sql w))"
  let ?row = "\<lparr>ar_id = '''', ar_email = '''', ar_account_hash = a, ar_name = '''', ar_password_hash = None, ar_salt = None,
      ar_created_at = ?now, ar_updated_at = ?now, ar_last_login = None, ar_is_active = True\<rparr>"
  let ?a = "set_account_rows (account_rows (wd_accounts db) @ [?row]) (wd_accounts db)"
  let ?p = "\<lparr>pr_account_hash = a, pr_preset_json = ws_to_json w presets, pr_created_at = ?now, pr_updated_at = ?now\<rparr>"
  let ?db = "db\<lparr>wd_accounts := ?a, wd_presets := wd_presets db @ [?p]\<rparr>"
  have work: "working ?q" using assms(1) by (simp add: ready_def)
  have rows: "account_rows ?a = account_rows (wd_accounts db) @ [?row]" using accounts_exist [OF cols] by simp
  have acc: "has_account ?q a ?a" by (simp add: has_account_def rows same_text_def)
  have few: "set [''account_hash'', ''created_at'', ''updated_at''] \<subseteq> set (account_has (wd_accounts db))"
    using cols by (simp add: account_columns_def)
  have "my_register_watcher_preset_proto w a d presets db = (Ok (), ?db)"
    using new acc assms(1)
    by (simp add: sql_run_working [OF work few] my_register_watcher_preset_proto_def insert_ignore_account_def upsert_preset_def sql_update_def ready_run columns_defs Let_def)
  moreover have "filter (\<lambda>r. weq w (pr_account_hash r) a) (wd_presets ?db) = [?p]"
    using new(2) by (simp add: list_ex_iff filter_empty_conv same_text_def)
  then have "my_get_watcher_preset w a ?db = Ok presets"
    using assms(1, 2) by (simp add: my_get_watcher_preset_def ready_run columns_defs order_desc_def)
  moreover have "find (\<lambda>r. same_text ?q (ar_account_hash r) a) (account_rows ?a) = Some ?row"
    using new(1) by (simp add: rows find_append_new has_account_def same_text_def)
  then have "my_get_account_by_hash ?q a ?a = Err (SE_Database (''Failed to query account: '' @ sq_null ?q ''password_hash''))"
    using work cols by (simp add: my_get_account_by_hash_def find_account_def row_to_account_def db_err_def)
  ultimately show ?thesis using acc by auto
qed

section \<open>Examples\<close>

text \<open>An encoding of lists of texts that can be undone.\<close>

definition demo_encode :: "string list \<Rightarrow> string" where
  "demo_encode v = concat (map (\<lambda>s. concat (map (\<lambda>c. [CHR ''x'', c]) s) @ '','') v)"

fun demo_decode :: "string \<Rightarrow> string list" where
  "demo_decode [] = []"
| "demo_decode [c] = [[]]"
| "demo_decode (m # c # cs) =
     (if m = CHR '','' then [] # demo_decode (c # cs)
      else (case demo_decode cs of [] \<Rightarrow> [[c]] | y # ys \<Rightarrow> (c # y) # ys))"

lemma demo_decode_comma: "demo_decode (CHR '','' # cs) = [] # demo_decode cs"
  by (cases cs) simp_all

lemma demo_decode_encode: "demo_decode (demo_encode v) = v"
proof (induction v)
  case (Cons s v)
  have "demo_decode (concat (map (\<lambda>c. [CHR ''x'', c]) s) @ CHR '','' # demo_encode v) = s # v"
    using Cons by (induction s) (simp_all add: demo_decode_comma)
  then show ?case by (simp add: demo_encode_def)
qed (simp add: demo_encode_def)

definition demo_wsql :: wsql where
  "demo_wsql = \<lparr>ws_sql = demo_sql\<lparr>sq_columns := needed\<rparr>, ws_auto_group = 1, ws_auto_watcher = 1, ws_auto_condition = (\<lambda>k. int k + 1),
     ws_updated_id = of_int, ws_watcher_key = True, ws_condition_fk = True, ws_to_json = demo_encode,
     ws_from_json = (\<lambda>s. Ok (demo_decode s)), ws_read_json = Ok, ws_unicode_lower = (\<lambda>s. s)\<rparr>"

definition demo_wdb :: watchers_db where
  "demo_wdb = \<lparr>wd_accounts = set_account_rows [account_to_row demo_sql demo_account] demo_db,
     wd_groups = [\<lparr>gr_id = 1, gr_group_id = 7, gr_account_hash = ''h'', gr_device_hash = ''d'', gr_title = ''t'', gr_created_at = 0,
       gr_updated_at = 0, gr_is_active = True\<rparr>], wd_watchers = [], wd_conditions = [], wd_presets = []\<rparr>"

definition demo_watcher :: p_watcher_data where
  "demo_watcher = \<lparr>pw_watcher_id = 3, pw_folder = ''~/music'', pw_union_conditions = [\<lparr>pc_key = ''extension'', pc_value = [''mp3'']\<rparr>],
     pw_subtracting_conditions = [], pw_recursive_path = True, pw_preset = False, pw_custom_type = '''', pw_update_mode = '''',
     pw_is_active = True, pw_extra_json = ''''\<rparr>"

lemma demo_facts:
  "ready demo_wsql" "json_ok demo_wsql" "strict_mono (ws_auto_condition demo_wsql)" "ws_auto_watcher demo_wsql = 1" "ws_auto_group demo_wsql = 1"
  "has_account (ws_sql demo_wsql) ''h'' (wd_accounts demo_wdb)"
  by (simp_all add: ready_def demo_wsql_def json_ok_def demo_decode_encode strict_mono_def working_def demo_sql_def)
    (code_simp)

theorem mysql_create_watcher_waits_witness:
  "my_create_watcher_with_conditions demo_wsql ''h'' 8 demo_watcher 5 (\<lambda>_. demo_wdb) =
     ((Err (SE_Database (''Watcher group with client group_id '' @ show_int 8 @ '' not found after waiting'')), demo_wdb), 22300)"
  using mysql_create_watcher_waits [of demo_wsql "''h''" 8 demo_watcher 5 "\<lambda>_. demo_wdb"] demo_facts(1)
  by (simp add: demo_wdb_def group_is_def)

theorem mysql_watcher_roundtrip_witness:
  "\<exists>db'. my_create_watcher_with_conditions demo_wsql ''h'' 7 demo_watcher 5 (\<lambda>_. demo_wdb) = ((Ok 1, db'), 0) \<and>
     my_get_watcher_by_group_and_id demo_wsql ''h'' 7 3 db' = Ok (Some (stored_watcher demo_watcher [] []))"
  using mysql_watcher_roundtrip [of demo_wsql "''h''" demo_wdb 7 "hd (wd_groups demo_wdb)" demo_watcher 5] demo_facts
  by (auto simp: demo_wdb_def demo_watcher_def group_is_def same_text_def)

theorem mysql_folder_search_misses_witness:
  "\<exists>db'. my_create_watcher_with_conditions demo_wsql ''h'' 7 demo_watcher 5 (\<lambda>_. demo_wdb) = ((Ok 1, db'), 0) \<and>
     my_find_watcher_by_folder demo_wsql ''h'' 7 ''~/music'' db' = Ok None"
  using mysql_folder_search_misses [of demo_wsql "''h''" demo_wdb 7 "hd (wd_groups demo_wdb)" demo_watcher 5] demo_facts
  by (auto simp: demo_wdb_def demo_watcher_def group_is_def same_text_def)

definition demo_wdb2 :: watchers_db where
  "demo_wdb2 = demo_wdb\<lparr>wd_watchers := [new_watcher_row demo_wsql ''h'' 7 1 demo_watcher 0]\<rparr>"

theorem mysql_watcher_update_repeats_conditions_witness:
  "\<exists>db'. my_create_watcher_with_conditions demo_wsql ''h'' 7 demo_watcher 5 (\<lambda>_. demo_wdb2) = ((Ok 1, db'), 0)"
proof -
  have "from_secs (ws_sql demo_wsql) 0 < from_secs (ws_sql demo_wsql) 5" by (simp add: from_secs_def demo_wsql_def demo_sql_def)
  then show ?thesis
    using mysql_watcher_update_repeats_conditions [of demo_wsql "''h''" demo_wdb2 7 "hd (wd_groups demo_wdb)" demo_watcher
        "new_watcher_row demo_wsql ''h'' 7 1 demo_watcher 0" "[]" 5] demo_facts
    by (auto simp: demo_wdb2_def demo_wdb_def group_is_def watcher_is_def same_text_def conditions_of_def new_watcher_row_def
        demo_wsql_def)
qed

theorem mysql_delete_group_spec_witness:
  "my_delete_watcher_group demo_wsql ''h'' 7 demo_wdb2 = (Ok (), demo_wdb2\<lparr>wd_groups := [], wd_watchers := []\<rparr>)"
  using mysql_delete_group_spec [of demo_wsql demo_wdb2 "''h''" 7] demo_facts(1)
  by (simp add: demo_wdb2_def demo_wdb_def group_is_def same_text_def new_watcher_row_def demo_wsql_def)

theorem mysql_ensure_ids_stable_witness:
  "\<exists>g i db'. my_ensure_server_ids_for demo_wsql ''h'' ''d'' 9 3 None demo_wdb = (Ok (g, i), db') \<and>
     my_get_server_ids demo_wsql ''h'' 9 3 db' = Ok (Some (g, i))"
  using mysql_ensure_ids_stable [of demo_wsql "''h''" demo_wdb "''d''" 9 3 None "''d''" None] demo_facts
  by (auto simp: demo_wdb_def)

theorem mysql_preset_account_unreadable_witness:
  "\<exists>db'. my_register_watcher_preset_proto demo_wsql ''new'' ''d'' [''a''] demo_wdb = (Ok (), db') \<and>
     my_get_watcher_preset demo_wsql ''new'' db' = Ok [''a'']"
proof -
  have cols: "set account_columns \<subseteq> set (account_has (wd_accounts demo_wdb))"
    using demo_accounts_columns by (simp add: demo_wdb_def)
  have "\<not> has_account (ws_sql demo_wsql) ''new'' (wd_accounts demo_wdb)" by code_simp
  then show ?thesis
    using mysql_preset_account_unreadable [of demo_wsql "[''a'']" demo_wdb "''new''" "''d''"] demo_facts cols
    by (auto simp: demo_wdb_def demo_wsql_def demo_decode_encode)
qed

theorem no_group_on_own_schema_witness:
  "\<forall>db1 db2. \<exists>e. my_ensure_server_ids_for
     (demo_wsql\<lparr>ws_sql := demo_sql\<lparr>sq_columns := \<lambda>t. columns_of t (snd (start_schema db1 db2 []))\<rparr>\<rparr>) ''h'' ''d'' 8 3 None demo_wdb = (Err e, demo_wdb)"
proof (intro allI)
  fix db1 db2
  let ?w = "demo_wsql\<lparr>ws_sql := demo_sql\<lparr>sq_columns := \<lambda>t. columns_of t (snd (start_schema db1 db2 []))\<rparr>\<rparr>"
  let ?g = "\<lparr>wg_id = 0, wg_group_id = 8, wg_account_hash = ''h'', wg_title = ''t'', wg_created_at = 0, wg_updated_at = 0,
    wg_is_active = True, wg_watcher_ids = []\<rparr>"
  have "own_table ''watcher_groups'' watcher_groups_table []" by (simp add: own_table_def)
  then show "\<exists>e. my_ensure_server_ids_for ?w ''h'' ''d'' 8 3 None demo_wdb = (Err e, demo_wdb)"
    using no_group_on_own_schema [of "[]" "snd (start_schema db1 db2 [])" db1 db2 ?w "''h''" ?g demo_wdb "''d''" 3 None]
    by (simp add: demo_wdb_def group_is_def)
qed

end
