(* ===== verification/Mysql_Watchers_Keys.thy ===== *)
theory Mysql_Watchers_Keys
  imports Mysql_Watchers_Correct
begin

text \<open>
  The keys and references of the watcher tables: an invariant of the database under every operation
  of the storage, whichever statement of it fails.
\<close>

section \<open>The keys of the tables\<close>

text \<open>
  Identifiers are unique, a client's number denotes one group of its account, and watchers and
  conditions refer to rows that exist.
\<close>

definition watchers_inv :: "wsql \<Rightarrow> watchers_db \<Rightarrow> bool" where
  "watchers_inv w db \<longleftrightarrow>
     distinct (map gr_id (wd_groups db)) \<and> distinct (map (\<lambda>g. (sq_collate (ws_sql w) (gr_account_hash g), gr_group_id g)) (wd_groups db)) \<and>
     distinct (map wr_id (wd_watchers db)) \<and> wr_group_id ` set (wd_watchers db) \<subseteq> gr_id ` set (wd_groups db) \<and>
     (ws_condition_fk w \<longrightarrow> cr_watcher_id ` set (wd_conditions db) \<subseteq> wr_id ` set (wd_watchers db))"

definition same_database :: "wsql \<Rightarrow> wsql \<Rightarrow> bool" where
  "same_database w w' \<longleftrightarrow> sq_collate (ws_sql w) = sq_collate (ws_sql w') \<and> ws_condition_fk w = ws_condition_fk w'"

text \<open>\<^verbatim>\<open>AUTO_INCREMENT\<close> gives identifiers that no row has.\<close>

definition fresh_ids :: "wsql \<Rightarrow> watchers_db \<Rightarrow> bool" where
  "fresh_ids w db \<longleftrightarrow> ws_auto_group w \<notin> gr_id ` set (wd_groups db) \<and> ws_auto_watcher w \<notin> wr_id ` set (wd_watchers db)"

lemma watchers_refer: "watchers_inv w db \<Longrightarrow> wr_group_id ` set (wd_watchers db) \<subseteq> gr_id ` set (wd_groups db)"
  by (simp add: watchers_inv_def)

lemma run_Ok: "db_err msg (wrun w n t uses k) = Ok x \<Longrightarrow> k = Ok x"
  by (auto dest: sql_run_Ok)

lemma insert_group_inv:
  assumes "watchers_inv w db" "same_database w w'" "gr_id r \<notin> gr_id ` set (wd_groups db)" "insert_group w' n r db = Ok db'"
  shows "watchers_inv w db'"
proof -
  have "db' = db\<lparr>wd_groups := wd_groups db @ [r]\<rparr>" "\<not> list_ex (group_is w' (gr_account_hash r) (gr_group_id r)) (wd_groups db)"
    using sql_run_Ok [OF assms(4) [unfolded insert_group_def]] by (auto split: if_splits)
  then show ?thesis using assms(1, 2, 3)
    by (auto simp: watchers_inv_def list_ex_iff group_is_def same_text_def same_database_def intro: subset_insertI2)
qed

lemma map_groups_inv:
  assumes "watchers_inv w db" "\<And>x. gr_id (f x) = gr_id x \<and> gr_account_hash (f x) = gr_account_hash x \<and> gr_group_id (f x) = gr_group_id x"
  shows "watchers_inv w (db\<lparr>wd_groups := map f (wd_groups db)\<rparr>)"
  using assms by (simp add: watchers_inv_def comp_def image_image)

lemma upsert_group_inv:
  assumes "watchers_inv w db" "same_database w w'" "list_ex (group_is w' (gr_account_hash r) (gr_group_id r)) (wd_groups db) \<or> gr_id r \<notin> gr_id ` set (wd_groups db)"
    "upsert_group w' n r db = Ok db'"
  shows "watchers_inv w db'"
proof (cases "list_ex (group_is w' (gr_account_hash r) (gr_group_id r)) (wd_groups db)")
  case True
  with assms(4) sql_run_Ok show ?thesis unfolding upsert_group_def by (fastforce intro: map_groups_inv [OF assms(1)])
next
  case False
  with assms insert_group_inv show ?thesis unfolding upsert_group_def by metis
qed

lemma insert_watcher_inv:
  assumes "watchers_inv w db" "wr_id r \<notin> wr_id ` set (wd_watchers db)" "insert_watcher w' n r db = Ok (i, db')"
  shows "watchers_inv w db'"
proof -
  have "wr_group_id r \<in> gr_id ` set (wd_groups db)" "db' = db\<lparr>wd_watchers := wd_watchers db @ [r]\<rparr>"
    using sql_run_Ok [OF assms(3) [unfolded insert_watcher_def]] by (auto split: if_splits)
  then show ?thesis using assms(1, 2) by (simp add: watchers_inv_def subset_insertI2)
qed

lemma upsert_watcher_inv:
  assumes "watchers_inv w db" "wr_id r \<notin> wr_id ` set (wd_watchers db)" "upsert_watcher w' n r db = Ok (i, db')"
  shows "watchers_inv w db'"
proof (cases "if ws_watcher_key w' then find (watcher_is w' (wr_account_hash r) (wr_local_group_id r) (wr_watcher_id r)) (wd_watchers db) else None")
  case None
  then show ?thesis using assms insert_watcher_inv by (simp add: upsert_watcher_def)
next
  case (Some x)
  define f where "f = (\<lambda>y :: watcher_row. if wr_id y = wr_id x then y\<lparr>wr_folder := wr_folder r, wr_title := wr_title r, wr_is_recursive := wr_is_recursive r,
     wr_updated_at := wr_updated_at r, wr_is_active := wr_is_active r, wr_extra_json := wr_extra_json r, wr_group_id := wr_group_id r\<rparr> else y)"
  have "wr_group_id r \<in> gr_id ` set (wd_groups db)" "db' = db\<lparr>wd_watchers := map f (wd_watchers db)\<rparr>"
    using assms(3) Some by (auto simp: upsert_watcher_def f_def dest!: sql_run_Ok split: if_splits)
  moreover have same: "wr_id \<circ> f = wr_id" by (rule ext) (simp add: f_def)
  moreover have "wr_id ` f ` set (wd_watchers db) = wr_id ` set (wd_watchers db)" by (simp add: image_comp same)
  moreover have "wr_group_id ` f ` set (wd_watchers db) \<subseteq> insert (wr_group_id r) (wr_group_id ` set (wd_watchers db))"
    by (auto simp: f_def)
  then have "wr_group_id ` f ` set (wd_watchers db) \<subseteq> gr_id ` set (wd_groups db)"
    using calculation(1) watchers_refer [OF assms(1)] by (meson insert_subset order_trans)
  ultimately show ?thesis using assms(1) unfolding watchers_inv_def by simp
qed

lemma insert_condition_inv:
  assumes "watchers_inv w db" "same_database w w'" "insert_condition w' n uses r db = Ok db'"
  shows "watchers_inv w db' \<and> wd_watchers db' = wd_watchers db \<and> wd_groups db' = wd_groups db"
proof -
  have "ws_condition_fk w' \<longrightarrow> cr_watcher_id r \<in> wr_id ` set (wd_watchers db)" "db' = db\<lparr>wd_conditions := wd_conditions db @ [r]\<rparr>"
    using sql_run_Ok [OF assms(3) [unfolded insert_condition_def]] by (auto split: if_splits)
  then show ?thesis using assms(1, 2) by (simp add: watchers_inv_def same_database_def)
qed

lemma conditions_inv:
  "watchers_inv w db \<Longrightarrow> cr_watcher_id ` set cs \<subseteq> cr_watcher_id ` set (wd_conditions db) \<Longrightarrow> watchers_inv w (db\<lparr>wd_conditions := cs\<rparr>)"
  unfolding watchers_inv_def by simp (meson order_trans)

lemma drop_inv:
  assumes "same_database w w'" "distinct (map gr_id (wd_groups db))"
    "distinct (map (\<lambda>g. (sq_collate (ws_sql w) (gr_account_hash g), gr_group_id g)) (wd_groups db))" "distinct (map wr_id (wd_watchers db))"
    "\<And>r. r \<in> set (wd_watchers db) \<Longrightarrow> \<not> p r \<Longrightarrow> wr_group_id r \<in> gr_id ` set (wd_groups db)"
    "ws_condition_fk w \<Longrightarrow> cr_watcher_id ` set (wd_conditions db) \<subseteq> wr_id ` set (wd_watchers db)"
  shows "watchers_inv w (drop_watchers w' p db)"
proof -
  have "cr_watcher_id c \<in> wr_id ` {r \<in> set (wd_watchers db). \<not> p r}"
    if "ws_condition_fk w" "c \<in> set (wd_conditions db)" "cr_watcher_id c \<notin> wr_id ` {r \<in> set (wd_watchers db). p r}" for c
    using assms(6) that by blast
  then show ?thesis
    using assms(1-5) by (simp add: watchers_inv_def drop_conditions same_database_def distinct_map_filter image_subset_iff)
qed

lemma drop_watchers_inv: "watchers_inv w db \<Longrightarrow> same_database w w' \<Longrightarrow> watchers_inv w (drop_watchers w' p db)"
  by (rule drop_inv) (auto simp: watchers_inv_def)

lemma drop_groups_inv:
  assumes "watchers_inv w db" "same_database w w'"
  shows "watchers_inv w (drop_groups w' p db)"
proof -
  let ?db = "db\<lparr>wd_groups := filter (\<lambda>g. \<not> p g) (wd_groups db)\<rparr>"
  have "wr_group_id r \<in> gr_id ` set (wd_groups ?db)"
    if "r \<in> set (wd_watchers db)" "wr_group_id r \<notin> set (map gr_id (filter p (wd_groups db)))" for r
  proof -
    have "wr_group_id r \<in> gr_id ` set (wd_groups db)" by (rule subsetD [OF watchers_refer [OF assms(1)]]) (rule imageI [OF that(1)])
    then obtain g where "g \<in> set (wd_groups db)" "wr_group_id r = gr_id g" by auto
    with that(2) show ?thesis by auto
  qed
  then show ?thesis
    unfolding drop_groups_def Let_def
    by (intro drop_inv [OF assms(2)]) (use assms(1) in \<open>simp_all add: watchers_inv_def distinct_map_filter\<close>)
qed

section \<open>Operations\<close>

lemma tx_inv:
  assumes "watchers_inv w db" "tx db r = (x, db')" "\<And>y. r = Ok (y, db') \<Longrightarrow> watchers_inv w db'"
  shows "watchers_inv w db'"
  using tx_cases [OF assms(2)] assms(1, 3) by blast

lemma insert_data_inv:
  "watchers_inv w db \<Longrightarrow> same_database w w' \<Longrightarrow> insert_data_conditions w' k a i wid g ts cs db = Ok db' \<Longrightarrow> watchers_inv w db'"
proof (induction cs arbitrary: k db)
  case (Cons tc cs)
  obtain ty cd where tc: "tc = (ty, cd)" by (cases tc)
  obtain r db1 where "insert_condition w' (k + 6) condition_columns r db = Ok db1" "insert_data_conditions w' (k + 1) a i wid g ts cs db1 = Ok db'"
    using Cons.prems(3) by (auto simp: tc Let_def split: sum.splits)
  then show ?case using Cons.IH [OF _ Cons.prems(2)] insert_condition_inv [OF Cons.prems(1, 2)] by blast
qed simp

lemma save_conditions_inv:
  "watchers_inv w db \<Longrightarrow> same_database w w' \<Longrightarrow> save_conditions_loop w' k cs db = Ok db' \<Longrightarrow> watchers_inv w db'"
  by (induction w' k cs db rule: save_conditions_loop.induct) (auto dest: insert_condition_inv split: sum.splits)

lemma create_watcher_inv:
  assumes "watchers_inv w db" "same_database w w'" "fresh_ids w' db" "create_watcher_tx w' a g gid wd ts db = Ok (i, db')"
  shows "watchers_inv w db'"
proof -
  have "db' = db \<or> (\<exists>r last_id new_id db1. upsert_watcher w' 4 r db = Ok (last_id, db1) \<and> wr_id r = ws_auto_watcher w' \<and>
      insert_data_conditions w' 0 a new_id (pw_watcher_id wd) g ts (typed_conditions wd) db1 = Ok db')"
    using assms(4)
    by (auto simp: create_watcher_tx_def Let_def sbind_Ok split: option.splits if_splits) (metis watcher_row.select_convs(1))+
  then consider "db' = db" | r last_id new_id db1 where "wr_id r = ws_auto_watcher w'" "upsert_watcher w' 4 r db = Ok (last_id, db1)"
      "insert_data_conditions w' 0 a new_id (pw_watcher_id wd) g ts (typed_conditions wd) db1 = Ok db'" by blast
  then show ?thesis
  proof cases
    case 2
    have "watchers_inv w db1" using upsert_watcher_inv [OF assms(1) _ 2(2)] 2(1) assms(3) by (simp add: fresh_ids_def)
    then show ?thesis using insert_data_inv assms(2) 2(3) by blast
  qed (use assms(1) in simp)
qed

lemma list_ex_map: "list_ex p xs \<Longrightarrow> (\<And>x. p x \<Longrightarrow> p (f x)) \<Longrightarrow> list_ex p (map f xs)"
  by (auto simp: list_ex_iff)

lemma upsert_group_there:
  assumes "upsert_group w n r db = Ok db'"
  shows "list_ex (group_is w (gr_account_hash r) (gr_group_id r)) (wd_groups db')"
proof (cases "list_ex (group_is w (gr_account_hash r) (gr_group_id r)) (wd_groups db)")
  case True
  with assms show ?thesis unfolding upsert_group_def by (auto dest!: sql_run_Ok intro!: list_ex_map simp: group_is_def)
next
  case False
  with assms show ?thesis
    by (auto simp: upsert_group_def insert_group_def list_ex_iff group_is_def same_text_def dest!: sql_run_Ok split: if_splits)
qed

lemma register_group_inv:
  assumes "watchers_inv w db" "same_database w w'" "fresh_ids w' db" "my_register_watcher_group w' a d g db = (r, db')"
  shows "watchers_inv w db'"
proof (rule tx_inv [OF assms(1) assms(4) [unfolded my_register_watcher_group_def]])
  let ?r = "group_to_row w' a d g"
  let ?there = "list_ex (group_is w' (gr_account_hash ?r) (gr_group_id ?r))"
  define db1 where "db1 = (case upsert_group w' 3 ?r db of Inr db1 \<Rightarrow> db1 | Inl _ \<Rightarrow> db)"
  have new: "gr_id ?r \<notin> gr_id ` set (wd_groups db)" using assms(3) by (simp add: fresh_ids_def group_to_row_def)
  have inv1: "watchers_inv w db1 \<and> (?there (wd_groups db1) \<or> gr_id ?r \<notin> gr_id ` set (wd_groups db1))"
  proof (cases "upsert_group w' 3 ?r db")
    case (Inr x)
    show ?thesis using upsert_group_there [OF Inr] upsert_group_inv [OF assms(1, 2) _ Inr] new by (simp add: db1_def Inr)
  qed (use assms(1) new in \<open>simp add: db1_def\<close>)
  fix y
  assume "(let r = ?r in
      sbind (tx_point w' 0 ''Failed to start transaction: '') (\<lambda>_.
      sbind (db_err ''Failed to check existing watcher group: '' (wrun w' 1 ''watcher_groups'' [''updated_at'', ''account_hash'', ''group_id'']
               (Ok (find (group_is w' a (wg_group_id g)) (wd_groups db))))) (\<lambda>existing.
        if (case existing of Some x \<Rightarrow> gr_updated_at x \<ge> secs (ws_sql w') (wg_updated_at g) | None \<Rightarrow> False)
        then sbind (tx_point w' 2 ''Failed to commit transaction: '') (\<lambda>_. Ok (wg_group_id g, db))
        else
          (let db1 = (case upsert_group w' 3 r db of Inr db1 \<Rightarrow> db1 | Inl _ \<Rightarrow> db) in
           sbind (db_err ''Failed to insert watcher group: '' (upsert_group w' 4 r db1)) (\<lambda>db2.
           sbind (tx_point w' 5 ''Failed to commit transaction: '') (\<lambda>_. Ok (wg_group_id g, db2))))))) = Ok (y, db')"
  then have "db' = db \<or> upsert_group w' 4 ?r db1 = Ok db'"
    by (auto simp: Let_def sbind_Ok db1_def split: if_splits)
  then show "watchers_inv w db'" using assms(1) upsert_group_inv [OF _ assms(2)] inv1 by blast
qed

lemma ensure_ids_inv:
  assumes "watchers_inv w db" "same_database w w'" "fresh_ids w' db" "my_ensure_server_ids_for w' a d g wid hint db = (r, db')"
  shows "watchers_inv w db'"
proof (rule tx_inv [OF assms(1) assms(4) [unfolded my_ensure_server_ids_for_def]])
  have group: "watchers_inv w db1 \<and> wd_watchers db1 = wd_watchers db" if "ensure_group w' a d g db = Ok (gid, db1)" for gid db1
  proof -
    have "db1 = db \<or> (\<exists>r. insert_group w' 2 r db = Ok db1 \<and> gr_id r = ws_auto_group w')"
      using that by (auto simp: ensure_group_def sbind_Ok split: option.splits if_splits)
    then consider "db1 = db" | r where "insert_group w' 2 r db = Ok db1" "gr_id r = ws_auto_group w'" by blast
    then show ?thesis
    proof cases
      case 2
      have "wd_watchers db1 = wd_watchers db" using 2(1) by (auto simp: insert_group_def dest!: sql_run_Ok split: if_splits)
      then show ?thesis using insert_group_inv [OF assms(1, 2) _ 2(1)] 2(2) assms(3) by (simp add: fresh_ids_def)
    qed (use assms(1) in simp)
  qed
  have watcher: "watchers_inv w db2" if "ensure_watcher w' a g gid wid hint db1 = Ok (i, db2)" "watchers_inv w db1" "wd_watchers db1 = wd_watchers db" for gid i db1 db2
  proof -
    have "db2 = db1 \<or> (\<exists>r x. insert_watcher w' 6 r db1 = Ok (x, db2) \<and> wr_id r = ws_auto_watcher w')"
      using that(1) by (auto simp: ensure_watcher_def sbind_Ok Let_def split: option.splits if_splits)
    then consider "db2 = db1" | r x where "insert_watcher w' 6 r db1 = Ok (x, db2)" "wr_id r = ws_auto_watcher w'" by blast
    then show ?thesis
    proof cases
      case 2
      then show ?thesis using insert_watcher_inv [OF that(2) _ 2(1)] that(3) assms(3) by (simp add: fresh_ids_def)
    qed (use that(2) in simp)
  qed
  fix y
  assume "sbind (tx_point w' 0 ''Failed to start transaction: '') (\<lambda>_.
      sbind (ensure_group w' a d g db) (\<lambda>(gid, db1).
      sbind (ensure_watcher w' a g gid wid hint db1) (\<lambda>(i, db2).
      sbind (tx_point w' 8 ''Failed to commit ensure_server_ids_for: '') (\<lambda>_. Ok ((gid, i), db2))))) = Ok (y, db')"
  then obtain gid db1 i where "ensure_group w' a d g db = Ok (gid, db1)" "ensure_watcher w' a g gid wid hint db1 = Ok (i, db')"
    by (auto simp: sbind_Ok)
  then show "watchers_inv w db'" using group watcher by blast
qed

lemma delete_group_inv:
  assumes "watchers_inv w db" "same_database w w'" "my_delete_watcher_group w' a g db = (r, db')"
  shows "watchers_inv w db'"
proof (rule tx_inv [OF assms(1) assms(3) [unfolded my_delete_watcher_group_def]], goal_cases)
  case (1 y)
  then consider "db' = db" | p q s where "db' = drop_groups w' q (drop_watchers w' p (db\<lparr>wd_conditions := filter s (wd_conditions db)\<rparr>))"
    by (auto simp: sbind_Ok Let_def dest!: sql_run_Ok split: option.splits)
  then show ?case
  proof cases
    case 2
    have "watchers_inv w (db\<lparr>wd_conditions := filter s (wd_conditions db)\<rparr>)" by (rule conditions_inv [OF assms(1)]) auto
    then show ?thesis unfolding 2 using assms(2) by (intro drop_groups_inv drop_watchers_inv)
  qed (use assms(1) in simp)
qed

lemma save_inv:
  assumes "watchers_inv w db" "same_database w w'" "my_save_watcher_conditions w' i cs db = (r, db')"
  shows "watchers_inv w db'"
proof (rule tx_inv [OF assms(1) assms(3) [unfolded my_save_watcher_conditions_def]], goal_cases)
  case (1 y)
  then have "save_conditions_loop w' 0 cs (db\<lparr>wd_conditions := filter (\<lambda>r. cr_watcher_id r \<noteq> i) (wd_conditions db)\<rparr>) = Ok db'"
    by (auto simp: sbind_Ok dest!: sql_run_Ok)
  moreover have "watchers_inv w (db\<lparr>wd_conditions := filter (\<lambda>r. cr_watcher_id r \<noteq> i) (wd_conditions db)\<rparr>)"
    by (rule conditions_inv [OF assms(1)]) auto
  ultimately show ?case using save_conditions_inv assms(2) by blast
qed

lemma edit_conditions_inv:
  assumes "watchers_inv w db" "same_database w w'"
  shows "my_create_watcher_condition w' c db = (r, db') \<Longrightarrow> watchers_inv w db'"
    "my_update_watcher_condition w' c db = (q, db') \<Longrightarrow> watchers_inv w db'"
    "my_delete_watcher_condition w' i db = (q, db') \<Longrightarrow> watchers_inv w db'"
    "my_delete_all_watcher_conditions w' j db = (q, db') \<Longrightarrow> watchers_inv w db'"
proof -
  show "watchers_inv w db'" if "my_create_watcher_condition w' c db = (r, db')"
    by (rule tx_inv [OF assms(1) that [unfolded my_create_watcher_condition_def]])
      (auto simp: sbind_Ok split: if_splits dest: insert_condition_inv [OF assms])
  show "watchers_inv w db'" if "my_update_watcher_condition w' c db = (q, db')"
  proof (rule tx_inv [OF assms(1) that [unfolded my_update_watcher_condition_def]], goal_cases)
    case (1 y)
    then obtain f where "db' = db\<lparr>wd_conditions := map f (wd_conditions db)\<rparr>" "\<And>x. cr_watcher_id (f x) = cr_watcher_id x"
      by (auto simp: sbind_Ok dest!: sql_run_Ok split: option.splits)
    then show ?case using conditions_inv [OF assms(1)] by (simp add: image_image)
  qed
  show "watchers_inv w db'" if "my_delete_watcher_condition w' i db = (q, db')"
    using that assms(1) by (auto simp: my_delete_watcher_condition_def sql_update_def dest!: sql_run_Ok split: sum.splits intro!: conditions_inv)
  show "watchers_inv w db'" if "my_delete_all_watcher_conditions w' j db = (q, db')"
    using that assms(1) by (auto simp: my_delete_all_watcher_conditions_def sql_update_def dest!: sql_run_Ok split: sum.splits intro!: conditions_inv)
qed

lemma update_group_inv:
  assumes "watchers_inv w db" "my_update_watcher_group w' a g db = (r, db')"
  shows "watchers_inv w db'"
proof (rule tx_inv [OF assms(1) assms(2) [unfolded my_update_watcher_group_def]], goal_cases)
  case (1 y)
  then show ?case using assms(1)
    by (auto simp: sbind_Ok Let_def dest!: sql_run_Ok split: if_splits intro!: map_groups_inv)
qed

lemma preset_inv:
  assumes "watchers_inv w db" "my_register_watcher_preset_proto w' a d ps db = (r, db')"
  shows "watchers_inv w db'"
proof -
  have "wd_groups x' = wd_groups x \<and> wd_watchers x' = wd_watchers x \<and> wd_conditions x' = wd_conditions x" if "upsert_preset w' n p x = Ok x'" for n p x x'
    using sql_run_Ok [OF that [unfolded upsert_preset_def]] by (simp split: if_splits) (auto simp: list_ex_iff)
  then have "wd_groups db' = wd_groups db \<and> wd_watchers db' = wd_watchers db \<and> wd_conditions db' = wd_conditions db"
    using assms(2) by (auto simp: my_register_watcher_preset_proto_def sql_update_def Let_def split: sum.splits)
  with assms(1) show ?thesis by (simp add: watchers_inv_def)
qed

section \<open>Every sequence of operations\<close>

text \<open>
  One operation of the storage that writes to these tables; \<open>w'\<close> says which of its statements fail,
  what time it is and what the next identifiers are.
\<close>

inductive watchers_step :: "wsql \<Rightarrow> watchers_db \<Rightarrow> watchers_db \<Rightarrow> bool" for w where
  create_condition: "same_database w w' \<Longrightarrow> my_create_watcher_condition w' c db = (r, db') \<Longrightarrow> watchers_step w db db'"
| update_condition: "same_database w w' \<Longrightarrow> my_update_watcher_condition w' c db = (q, db') \<Longrightarrow> watchers_step w db db'"
| delete_condition: "same_database w w' \<Longrightarrow> my_delete_watcher_condition w' i db = (q, db') \<Longrightarrow> watchers_step w db db'"
| delete_conditions: "same_database w w' \<Longrightarrow> my_delete_all_watcher_conditions w' j db = (q, db') \<Longrightarrow> watchers_step w db db'"
| save_conditions: "same_database w w' \<Longrightarrow> my_save_watcher_conditions w' j cs db = (q, db') \<Longrightarrow> watchers_step w db db'"
| create_watcher: "same_database w w' \<Longrightarrow> fresh_ids w' db \<Longrightarrow> db = views (fst (snd (wait_for_group w' a g views 1))) \<Longrightarrow>
    my_create_watcher_with_conditions w' a g wd ts views = ((i, db'), t) \<Longrightarrow> watchers_step w db db'"
| register_group: "same_database w w' \<Longrightarrow> fresh_ids w' db \<Longrightarrow> my_register_watcher_group w' a d wg db = (i, db') \<Longrightarrow> watchers_step w db db'"
| update_group: "same_database w w' \<Longrightarrow> my_update_watcher_group w' a wg db = (q, db') \<Longrightarrow> watchers_step w db db'"
| delete_group: "same_database w w' \<Longrightarrow> my_delete_watcher_group w' a g db = (q, db') \<Longrightarrow> watchers_step w db db'"
| ensure_ids: "same_database w w' \<Longrightarrow> fresh_ids w' db \<Longrightarrow> my_ensure_server_ids_for w' a d g wid hint db = (p, db') \<Longrightarrow> watchers_step w db db'"
| register_preset: "same_database w w' \<Longrightarrow> my_register_watcher_preset_proto w' a d ps db = (q, db') \<Longrightarrow> watchers_step w db db'"

lemma create_with_conditions_inv:
  assumes "watchers_inv w db" "same_database w w'" "fresh_ids w' db" "db = views (fst (snd (wait_for_group w' a g views 1)))"
    "my_create_watcher_with_conditions w' a g wd ts views = ((i, db'), t)"
  shows "watchers_inv w db'"
proof -
  obtain f where "tx db (sbind f (\<lambda>g'. case g' of Some gid \<Rightarrow> create_watcher_tx w' a g gid wd ts db
      | None \<Rightarrow> Err (SE_Database (''Watcher group with client group_id '' @ show_int g @ '' not found after waiting'')))) = (i, db')"
    using assms(4, 5) by (auto simp: my_create_watcher_with_conditions_def split: prod.splits)
  then show ?thesis
    by (rule tx_inv [OF assms(1)]) (auto simp: sbind_Ok split: option.splits intro: create_watcher_inv [OF assms(1-3)])
qed

lemma watchers_step_inv: "watchers_inv w db \<Longrightarrow> watchers_step w db db' \<Longrightarrow> watchers_inv w db'"
  by (erule watchers_step.cases)
    (blast intro: edit_conditions_inv save_inv create_with_conditions_inv register_group_inv update_group_inv delete_group_inv ensure_ids_inv preset_inv)+

definition no_watchers :: "accounts_db \<Rightarrow> watchers_db" where
  "no_watchers a = \<lparr>wd_accounts = a, wd_groups = [], wd_watchers = [], wd_conditions = [], wd_presets = []\<rparr>"

interpretation my_watchers: invariant_system "no_watchers a" "watchers_step w" "watchers_inv w" for a w
  by unfold_locales (simp add: watchers_inv_def no_watchers_def, rule watchers_step_inv)

text \<open>
  Whichever operations a server runs on its watcher tables and whichever of their statements fail,
  a client's number of a group denotes at most one group of its account, identifiers are never shared,
  and no watcher refers to a group and no condition to a watcher that has been deleted.
\<close>
theorem mysql_watcher_keys:
  assumes "reach (no_watchers a) (watchers_step w) db"
  shows "distinct (map gr_id (wd_groups db)) \<and> distinct (map wr_id (wd_watchers db)) \<and>
    distinct (map (\<lambda>g. (sq_collate (ws_sql w) (gr_account_hash g), gr_group_id g)) (wd_groups db)) \<and>
    wr_group_id ` set (wd_watchers db) \<subseteq> gr_id ` set (wd_groups db) \<and>
    (ws_condition_fk w \<longrightarrow> cr_watcher_id ` set (wd_conditions db) \<subseteq> wr_id ` set (wd_watchers db))"
  using my_watchers.reach_inv [OF assms] by (simp add: watchers_inv_def)

lemma find_unique:
  assumes "distinct (map f xs)" "r \<in> set xs" "f r = i" "q r"
  shows "find (\<lambda>x. f x = i \<and> q x) xs = Some r"
  using assms by (induction xs) (auto simp: image_iff)

text \<open>
  After any sequence of operations the translation of a watcher from the client's identifiers to the
  server's and the translation back are inverse to each other.
\<close>
theorem mysql_ids_roundtrip:
  assumes "reach (no_watchers a) (watchers_step w) db" "ready w"
    and ids: "my_get_server_ids w h g wid db = Ok (Some (gid, i))" "i \<noteq> 0"
  shows "my_get_client_watcher_id w h gid i db = Ok (Some (g, wid))"
proof -
  obtain r where r: "find (watcher_is w h g wid) (wd_watchers db) = Some r" "wr_id r = i"
    using ids assms(2) by (auto simp: my_get_server_ids_def split: option.splits)
  then have here: "watcher_is w h g wid r" "r \<in> set (wd_watchers db)" using in_set_conv_nth by (fastforce simp: find_Some_iff)+
  have "distinct (map wr_id (wd_watchers db))" using my_watchers.reach_inv [OF assms(1)] by (simp add: watchers_inv_def)
  then have "find (\<lambda>r. wr_id r = i \<and> weq w (wr_account_hash r) h) (wd_watchers db) = Some r"
    using here r(2) by (intro find_unique) (auto simp: watcher_is_def)
  then show ?thesis
    using assms(2) ids(2) here(1) by (simp add: my_get_client_watcher_id_def ready_run columns_defs watcher_is_def)
qed

section \<open>Examples\<close>

lemma demo_reach:
  "\<exists>db'. my_get_server_ids demo_wsql ''h'' 9 3 db' = Ok (Some (1, 1)) \<and>
     reach (no_watchers (wd_accounts demo_wdb)) (watchers_step demo_wsql) db'"
proof -
  let ?db = "no_watchers (wd_accounts demo_wdb)"
  let ?r = "my_ensure_server_ids_for demo_wsql ''h'' ''d'' 9 3 None ?db"
  have "my_get_server_ids demo_wsql ''h'' 9 3 (snd ?r) = Ok (Some (1, 1))"
    using demo_facts
    by (simp add: my_ensure_server_ids_for_def ensure_group_def ensure_watcher_def insert_group_def insert_watcher_def ready_run columns_defs
        no_watchers_def id_to_i32_def group_is_def watcher_is_def same_text_def my_get_server_ids_def Let_def)
  moreover have "watchers_step demo_wsql ?db (snd ?r)"
    by (rule ensure_ids [of _ demo_wsql _ _ _ _ _ _ "fst ?r"]) (simp_all add: same_database_def fresh_ids_def no_watchers_def)
  then have "reach ?db (watchers_step demo_wsql) (snd ?r)" by (rule reach_step [OF reach_init])
  ultimately show ?thesis by blast
qed

theorem mysql_watcher_keys_witness:
  "\<exists>db :: watchers_db. wd_watchers db \<noteq> [] \<and> distinct (map wr_id (wd_watchers db)) \<and> wr_group_id ` set (wd_watchers db) \<subseteq> gr_id ` set (wd_groups db)"
proof -
  obtain db where db: "my_get_server_ids demo_wsql ''h'' 9 3 db = Ok (Some (1, 1))"
    "reach (no_watchers (wd_accounts demo_wdb)) (watchers_step demo_wsql) db" using demo_reach by blast
  have "wd_watchers db \<noteq> []" using db(1) demo_facts(1) by (auto simp: my_get_server_ids_def split: option.splits)
  then show ?thesis using mysql_watcher_keys [OF db(2)] by (intro exI [of _ db]) simp
qed

theorem mysql_ids_roundtrip_witness:
  "\<exists>db. my_get_server_ids demo_wsql ''h'' 9 3 db = Ok (Some (1, 1)) \<and> my_get_client_watcher_id demo_wsql ''h'' 1 1 db = Ok (Some (9, 3))"
proof -
  obtain db where db: "my_get_server_ids demo_wsql ''h'' 9 3 db = Ok (Some (1, 1))"
    "reach (no_watchers (wd_accounts demo_wdb)) (watchers_step demo_wsql) db" using demo_reach by blast
  then show ?thesis using mysql_ids_roundtrip [OF db(2) demo_facts(1) db(1)] by auto
qed

end
