(* ===== verification/Mysql_Upkeep.thy ===== *)
theory Mysql_Upkeep
  imports Mysql_Watchers_Keys Settings
begin

text \<open>
  The rest of \<^verbatim>\<open>src/storage/mysql.rs\<close>: the encryption of the paths of old rows, the file notices, and
  the operations of the storage that MySQL does not implement.
\<close>

section \<open>Encrypting the paths of old rows\<close>

text \<open>A row is a candidate when one of its indexes is missing.\<close>

definition needs_index :: "file_row \<Rightarrow> bool" where
  "needs_index r \<longleftrightarrow> r_eq_index r \<in> {None, Some []} \<or> r_token_path r \<in> {None, Some ''''}"

text \<open>The new columns of a row; \<open>None\<close> is the panic of the cipher.\<close>

definition migrated_columns :: "mysql \<Rightarrow> bytes \<Rightarrow> bytes \<times> bytes \<Rightarrow> file_row \<Rightarrow> (bytes \<times> bytes \<times> bytes \<times> string) option" where
  "migrated_columns my key nonces r =
     (let cl = my_crypto my;
          aad = row_aad (r_account_hash r) (r_group_id r) (r_watcher_id r);
          salt = derive_salt cl key ''meta-index'' (r_account_hash r);
          index = (\<lambda>plain. (make_eq_index cl salt plain, make_token_path cl (my_unicode_lower my) salt plain))
      in case (aead_decrypt cl key (r_file_path r) aad, aead_decrypt cl key (r_filename r) aad) of
           (Inr p, Inr n) \<Rightarrow> Some (r_file_path r, r_filename r, index (from_utf8_lossy p))
         | _ \<Rightarrow>
             (let plain_path = from_utf8_lossy (r_file_path r); plain_name = from_utf8_lossy (r_filename r) in do {
                ct_path \<leftarrow> aead_encrypt cl (fst nonces) key (as_bytes plain_path) aad;
                ct_name \<leftarrow> aead_encrypt cl (snd nonces) key (as_bytes plain_name) aad;
                Some (ct_path, ct_name, index plain_path)
              }))"

definition set_columns :: "u64 \<Rightarrow> bytes \<times> bytes \<times> bytes \<times> string \<Rightarrow> files \<Rightarrow> files" where
  "set_columns file_id cols t =
     (case cols of (p, n, e, k) \<Rightarrow>
        map (\<lambda>r. if r_file_id r = file_id
                 then r\<lparr>r_file_path := p, r_filename := n, r_eq_index := Some e, r_token_path := Some k\<rparr> else r) t)"

text \<open>Statement \<open>2 + k\<close> updates the row \<open>k\<close> of the batch, encrypted with the nonces \<open>ns k\<close>.\<close>

fun migrate_rows :: "mysql \<Rightarrow> bytes \<Rightarrow> (nat \<Rightarrow> bytes \<times> bytes) \<Rightarrow> nat \<Rightarrow> file_row list \<Rightarrow> files \<Rightarrow> files sres option" where
  "migrate_rows my key ns k [] t = Some (Ok t)"
| "migrate_rows my key ns k (r # rs) t =
     (case migrated_columns my key (ns k) r of
        None \<Rightarrow> None
      | Some cols \<Rightarrow>
          (case stmt my (2 + k) [] (Ok ()) of
             Inl e \<Rightarrow> Some (Err e)
           | Inr _ \<Rightarrow> migrate_rows my key ns (k + 1) rs (set_columns (r_file_id r) cols t)))"

definition my_migrate_encrypt_paths :: "mysql \<Rightarrow> (nat \<Rightarrow> bytes \<times> bytes) \<Rightarrow> nat \<Rightarrow> files \<Rightarrow> (nat sres \<times> files) option" where
  "my_migrate_encrypt_paths my ns batch_size t =
     (case my_key my of
        None \<Rightarrow> Some (Ok 0, t)
      | Some key \<Rightarrow>
          (let rows = take batch_size (filter needs_index t) in
           case stmt my 0 [] (stmt my 1 [] (Ok ())) of
             Inl e \<Rightarrow> Some (Err e, t)
           | Inr _ \<Rightarrow>
               map_option (\<lambda>done. in_transaction t
                   (case done of
                      Inl e \<Rightarrow> Err e
                    | Inr t' \<Rightarrow> stmt my (2 + length rows) [] (Ok (length rows, t'))))
                 (migrate_rows my key ns 0 rows t)))"

section \<open>File notices\<close>

record file_notice =
  fn_account_hash :: string
  fn_device_hash :: string
  fn_path :: string
  fn_action :: string
  fn_timestamp :: i64
  fn_file_id :: u64
  fn_group_id :: i32
  fn_watcher_id :: i32
  fn_revision :: i64

text \<open>
  No statement of the server creates the table, so the database either has it from elsewhere, with unique keys
  the server does not know, or answers every statement on it with an error: \<open>Inl\<close> is that error.
\<close>

type_synonym notices = "(string, file_notice list) result"

definition my_store_file_notice ::
    "mysql \<Rightarrow> (file_notice \<Rightarrow> file_notice \<Rightarrow> bool) \<Rightarrow> file_notice \<Rightarrow> notices \<Rightarrow> unit sres \<times> notices" where
  "my_store_file_notice my same_key n t =
     (case t of
        Inl e \<Rightarrow> (Err (SE_Database (''Failed to store file notice: '' @ e)), t)
      | Inr rows \<Rightarrow>
          (case my_fault my 0 of
             Some e \<Rightarrow> (Err (SE_Database (''Failed to store file notice: '' @ e)), t)
           | None \<Rightarrow>
               (Ok (), Inr (if \<exists>r \<in> set rows. same_key n r
                  then map (\<lambda>r. if same_key n r
                     then r\<lparr>fn_action := fn_action n, fn_timestamp := fn_timestamp n, fn_group_id := fn_group_id n,
                            fn_watcher_id := fn_watcher_id n, fn_revision := fn_revision n\<rparr> else r) rows
                  else rows @ [n]))))"

definition my_get_file_notices :: "mysql \<Rightarrow> string \<Rightarrow> string \<Rightarrow> notices \<Rightarrow> file_notice list sres" where
  "my_get_file_notices my account_hash device_hash t =
     (case t of
        Inl e \<Rightarrow> Err (SE_Database (''Failed to get file notices: '' @ e))
      | Inr rows \<Rightarrow> stmt my 0 ''Failed to get file notices: ''
          (Ok (filter (\<lambda>r. fn_account_hash r = account_hash \<and> fn_device_hash r = device_hash) rows)))"

definition my_delete_file_notice :: "mysql \<Rightarrow> string \<Rightarrow> string \<Rightarrow> u64 \<Rightarrow> notices \<Rightarrow> unit sres \<times> notices" where
  "my_delete_file_notice my account_hash device_hash file_id t =
     (case t of
        Inl e \<Rightarrow> (Err (SE_Database (''Failed to delete file notice: '' @ e)), t)
      | Inr rows \<Rightarrow>
          (case my_fault my 0 of
             Some e \<Rightarrow> (Err (SE_Database (''Failed to delete file notice: '' @ e)), t)
           | None \<Rightarrow> (Ok (), Inr (filter (\<lambda>r. \<not> (fn_account_hash r = account_hash \<and> fn_device_hash r = device_hash \<and>
                fn_file_id r = file_id)) rows))))"

section \<open>Operations that are not implemented\<close>

definition my_batch_create_accounts :: "account list \<Rightarrow> bool list sres" where
  "my_batch_create_accounts accounts = Err (SE_NotImplemented ''batch_create_accounts not implemented'')"

definition my_list_accounts :: "nat option \<Rightarrow> u64 option \<Rightarrow> account list sres" where
  "my_list_accounts limit offset = Err (SE_NotImplemented ''list_accounts not implemented'')"

definition my_cleanup_expired_tokens :: "u64 sres" where
  "my_cleanup_expired_tokens = Ok 0"

definition my_batch_store_files :: "file_info list \<Rightarrow> (u64 \<times> bool) list sres" where
  "my_batch_store_files files = Err (SE_NotImplemented ''batch_store_files not implemented'')"

definition my_batch_delete_files :: "string \<Rightarrow> u64 list \<Rightarrow> bool list sres" where
  "my_batch_delete_files account_hash file_ids = Err (SE_NotImplemented ''batch_delete_files not implemented'')"

definition my_update_encryption_key :: "string \<Rightarrow> string \<Rightarrow> unit sres" where
  "my_update_encryption_key account_hash encryption_key = Err (SE_NotImplemented ''update_encryption_key not implemented'')"

definition my_delete_encryption_key :: "string \<Rightarrow> unit sres" where
  "my_delete_encryption_key account_hash = Err (SE_NotImplemented ''delete_encryption_key not implemented'')"

text \<open>On a database that only the server set up, every operation on notices fails.\<close>

lemma notices_need_table:
  "isl (fst (my_store_file_notice my same n (Inl e)))" "isl (my_get_file_notices my a d (Inl e))"
  "isl (fst (my_delete_file_notice my a d f (Inl e)))"
  by (simp_all add: my_store_file_notice_def my_get_file_notices_def my_delete_file_notice_def)

text \<open>With the table, a new notice is read by its device until it is deleted.\<close>

lemma notice_until_deleted:
  assumes "no_faults my" "\<forall>r \<in> set rows. \<not> same n r"
  obtains t where "my_store_file_notice my same n (Inr rows) = (Ok (), t)"
    "\<exists>ns. my_get_file_notices my (fn_account_hash n) (fn_device_hash n) t = Ok ns \<and> n \<in> set ns"
    "\<exists>ns. my_get_file_notices my (fn_account_hash n) (fn_device_hash n)
       (snd (my_delete_file_notice my (fn_account_hash n) (fn_device_hash n) (fn_file_id n) t)) = Ok ns \<and>
       fn_file_id n \<notin> fn_file_id ` set ns"
proof -
  have "my_fault my 0 = None" using assms(1) by (simp add: no_faults_def)
  with assms show ?thesis
    by (intro that [of "Inr (rows @ [n])"])
      (auto simp: my_store_file_notice_def my_get_file_notices_def my_delete_file_notice_def)
qed

section \<open>Lossy decoding is a projection\<close>

lemma utf8_next_bounds: "utf8_next b bs = (v, n) \<Longrightarrow> 1 \<le> n \<and> n \<le> length bs + 1"
  by (auto simp: utf8_next_def Let_def Suc_le_eq split: if_splits)

lemma utf8_next_prefix: "utf8_next b bs = (True, n) \<Longrightarrow> utf8_next b (take (n - 1) bs @ ys) = (True, n)"
  by (auto simp: utf8_next_def Let_def nth_append split: if_splits)

lemma lossy_valid:
  assumes "utf8_next b bs = (True, n)"
  shows "from_utf8_lossy (take n (b # bs) @ ys) = map (\<lambda>w. char_of (unat w)) (take n (b # bs)) @ from_utf8_lossy ys"
proof -
  obtain m where m: "n = Suc m" "m \<le> length bs" using utf8_next_bounds [OF assms] by (cases n) auto
  then show ?thesis using utf8_next_prefix [OF assms, of ys] by (simp add: take_append)
qed

lemma lossy_utf8: "is_utf8 (from_utf8_lossy bs)"
proof (induction bs rule: from_utf8_lossy.induct)
  case (2 b bs)
  obtain v n where n: "utf8_next b bs = (v, n)" by fastforce
  have rest: "from_utf8_lossy (as_bytes (from_utf8_lossy (drop (n - 1) bs))) = from_utf8_lossy (drop (n - 1) bs)"
    using 2 [OF n [symmetric]] by (simp add: is_utf8_def)
  have app: "as_bytes (x @ y) = as_bytes x @ as_bytes y" for x y by (simp add: as_bytes_def)
  have repl: "from_utf8_lossy (as_bytes [CHR 0xEF, CHR 0xBF, CHR 0xBD] @ ys) = [CHR 0xEF, CHR 0xBF, CHR 0xBD] @ from_utf8_lossy ys" for ys
    using lossy_valid [of "0xEF" "[0xBF, 0xBD]" 3 ys] by (simp add: utf8_next_def second_ok_def is_cont_def as_bytes_def char_of_def bit_simps)
  show ?case
  proof (cases v)
    case True
    then show ?thesis using n rest lossy_valid [of b bs n] by (simp add: is_utf8_def app bytes_of_chars)
  next
    case False
    then show ?thesis using n rest repl [of "as_bytes (from_utf8_lossy (drop (n - 1) bs))"]
      by (simp add: is_utf8_def as_bytes_def)
  qed
qed (simp add: is_utf8_def as_bytes_def)

section \<open>The migration keeps what is shown\<close>

text \<open>A row can be migrated when its path and its name are both encrypted, or both in plain text.\<close>

definition decryptable :: "mysql \<Rightarrow> file_row \<Rightarrow> bytes \<Rightarrow> bool" where
  "decryptable my r b \<longleftrightarrow>
     (\<exists>key p. my_key my = Some key \<and>
       aead_decrypt (my_crypto my) key b (row_aad (r_account_hash r) (r_group_id r) (r_watcher_id r)) = Ok p)"

definition consistent_row :: "mysql \<Rightarrow> file_row \<Rightarrow> bool" where
  "consistent_row my r \<longleftrightarrow> decryptable my r (r_file_path r) = decryptable my r (r_filename r)"

lemma migrated_columns_text:
  assumes law: "\<And>k n p a c. cl_gcm_encrypt (my_crypto my) k n p a = Some c \<Longrightarrow> cl_gcm_decrypt (my_crypto my) k n c a = Some p"
    and nonces: "length (fst ns) = 12" "length (snd ns) = 12"
    and key: "my_key my = Some key" and row: "consistent_row my r"
    and cols: "migrated_columns my key ns r = Some (p, n, e, k)"
  shows "decrypt_text my (r_account_hash r) (r_group_id r) (r_watcher_id r) p =
      decrypt_text my (r_account_hash r) (r_group_id r) (r_watcher_id r) (r_file_path r)"
    "decrypt_text my (r_account_hash r) (r_group_id r) (r_watcher_id r) n =
      decrypt_text my (r_account_hash r) (r_group_id r) (r_watcher_id r) (r_filename r)"
proof -
  let ?cl = "my_crypto my" and ?aad = "row_aad (r_account_hash r) (r_group_id r) (r_watcher_id r)"
  have enc: "decrypt_text my (r_account_hash r) (r_group_id r) (r_watcher_id r) c = from_utf8_lossy b"
    if "aead_encrypt ?cl m key (as_bytes (from_utf8_lossy b)) ?aad = Some c" "length m = 12" for m c b
    using aead_decrypt_encrypt [OF law that] key lossy_utf8 [of b] by (simp add: decrypt_text_def is_utf8_def)
  consider (both) p' n' where "aead_decrypt ?cl key (r_file_path r) ?aad = Ok p'" "aead_decrypt ?cl key (r_filename r) ?aad = Ok n'"
    | (neither) e1 e2 where "aead_decrypt ?cl key (r_file_path r) ?aad = Err e1" "aead_decrypt ?cl key (r_filename r) ?aad = Err e2"
    using row key unfolding consistent_row_def decryptable_def by (metis obj_sumE option.inject)
  then have "decrypt_text my (r_account_hash r) (r_group_id r) (r_watcher_id r) p =
      decrypt_text my (r_account_hash r) (r_group_id r) (r_watcher_id r) (r_file_path r) \<and>
    decrypt_text my (r_account_hash r) (r_group_id r) (r_watcher_id r) n =
      decrypt_text my (r_account_hash r) (r_group_id r) (r_watcher_id r) (r_filename r)"
  proof cases
    case both
    then show ?thesis using cols by (auto simp: migrated_columns_def Let_def)
  next
    case neither
    then have plain: "decrypt_text my (r_account_hash r) (r_group_id r) (r_watcher_id r) (r_file_path r) = from_utf8_lossy (r_file_path r)"
      "decrypt_text my (r_account_hash r) (r_group_id r) (r_watcher_id r) (r_filename r) = from_utf8_lossy (r_filename r)"
      using key by (simp_all add: decrypt_text_def)
    have "aead_encrypt ?cl (fst ns) key (as_bytes (from_utf8_lossy (r_file_path r))) ?aad = Some p"
      "aead_encrypt ?cl (snd ns) key (as_bytes (from_utf8_lossy (r_filename r))) ?aad = Some n"
      using neither cols by (auto simp: migrated_columns_def Let_def split: bind_splits)
    then show ?thesis unfolding plain using enc nonces by blast
  qed
  then show "decrypt_text my (r_account_hash r) (r_group_id r) (r_watcher_id r) p =
      decrypt_text my (r_account_hash r) (r_group_id r) (r_watcher_id r) (r_file_path r)"
    "decrypt_text my (r_account_hash r) (r_group_id r) (r_watcher_id r) n =
      decrypt_text my (r_account_hash r) (r_group_id r) (r_watcher_id r) (r_filename r)" by simp_all
qed

text \<open>Rows of one file: the same owner and place, and the same path and name as a client reads them.\<close>

definition siblings :: "mysql \<Rightarrow> file_row \<Rightarrow> file_row \<Rightarrow> bool" where
  "siblings my x r \<longleftrightarrow> r_account_hash x = r_account_hash r \<and> r_group_id x = r_group_id r \<and> r_watcher_id x = r_watcher_id r \<and>
     fi_file_path (file_info_of_row my x) = fi_file_path (file_info_of_row my r) \<and>
     fi_filename (file_info_of_row my x) = fi_filename (file_info_of_row my r)"

lemma set_columns_shown:
  assumes "\<forall>x \<in> set t. r_file_id x = r_file_id r \<longrightarrow> siblings my x r"
    and "decrypt_text my (r_account_hash r) (r_group_id r) (r_watcher_id r) p =
      decrypt_text my (r_account_hash r) (r_group_id r) (r_watcher_id r) (r_file_path r)"
    "decrypt_text my (r_account_hash r) (r_group_id r) (r_watcher_id r) n =
      decrypt_text my (r_account_hash r) (r_group_id r) (r_watcher_id r) (r_filename r)"
  shows "map (file_info_of_row my) (set_columns (r_file_id r) (p, n, e, k) t) = map (file_info_of_row my) t"
proof -
  have "file_info_of_row my (x\<lparr>r_file_path := p, r_filename := n, r_eq_index := Some e, r_token_path := Some k\<rparr>) = file_info_of_row my x"
    if "siblings my x r" for x
    using that assms(2,3) by (simp add: file_info_of_row_def siblings_def) metis
  then show ?thesis using assms(1) by (auto simp: set_columns_def)
qed

lemma siblings_shown:
  assumes "map (file_info_of_row my) t' = map (file_info_of_row my) t"
    and "\<forall>x \<in> set t. r_file_id x = r_file_id q \<longrightarrow> siblings my x q" "y \<in> set t'" "r_file_id y = r_file_id q"
  shows "siblings my y q"
proof -
  have "file_info_of_row my y \<in> file_info_of_row my ` set t" using assms(1,3) by (metis image_eqI list.set_map)
  then obtain x where x: "x \<in> set t" "file_info_of_row my y = file_info_of_row my x" by blast
  then have "r_file_id y = r_file_id x \<and> r_account_hash y = r_account_hash x \<and> r_group_id y = r_group_id x \<and> r_watcher_id y = r_watcher_id x"
    by (simp add: file_info_of_row_def)
  then show ?thesis using x assms(2,4) by (simp add: siblings_def)
qed

lemma migrate_rows_shown:
  assumes law: "\<And>k n p a c. cl_gcm_encrypt (my_crypto my) k n p a = Some c \<Longrightarrow> cl_gcm_decrypt (my_crypto my) k n c a = Some p"
    and nonces: "\<And>i. length (fst (ns i)) = 12 \<and> length (snd (ns i)) = 12" and key: "my_key my = Some key"
  shows "migrate_rows my key ns i rs t = Some (Ok t') \<Longrightarrow>
    \<forall>r \<in> set rs. consistent_row my r \<and> (\<forall>x \<in> set t. r_file_id x = r_file_id r \<longrightarrow> siblings my x r) \<Longrightarrow>
    map (file_info_of_row my) t' = map (file_info_of_row my) t"
proof (induction rs arbitrary: i t)
  case (Cons r rs)
  obtain p n e k where cols: "migrated_columns my key (ns i) r = Some (p, n, e, k)"
    and go: "migrate_rows my key ns (i + 1) rs (set_columns (r_file_id r) (p, n, e, k) t) = Some (Ok t')"
    using Cons.prems(1) by (auto split: option.splits sum.splits)
  have sib: "\<forall>x \<in> set t. r_file_id x = r_file_id r \<longrightarrow> siblings my x r" using Cons.prems(2) by simp
  have same: "map (file_info_of_row my) (set_columns (r_file_id r) (p, n, e, k) t) = map (file_info_of_row my) t"
    using Cons.prems(2) nonces migrated_columns_text [OF law _ _ key _ cols] by (intro set_columns_shown [OF sib]) auto
  have "\<forall>q \<in> set rs. consistent_row my q \<and>
      (\<forall>x \<in> set (set_columns (r_file_id r) (p, n, e, k) t). r_file_id x = r_file_id q \<longrightarrow> siblings my x q)"
    using Cons.prems(2) siblings_shown [OF same] by simp
  then show ?case using Cons.IH [OF go] same by simp
qed simp

text \<open>
  C27: the encryption of old paths does not change what a client sees.  When every candidate row has its path
  and its name either both encrypted or both in plain text, and the rows that share its identifier, such as restored versions,
  agree with it on account, group, watcher, path and name as read, every record reads after the migration as
  before, whether it succeeds or is rolled back.  When it succeeds it reports the number of rows of its batch.
\<close>
theorem migration_keeps_records:
  assumes law: "\<And>k n p a c. cl_gcm_encrypt (my_crypto my) k n p a = Some c \<Longrightarrow> cl_gcm_decrypt (my_crypto my) k n c a = Some p"
    and nonces: "\<And>i. length (fst (ns i)) = 12 \<and> length (snd (ns i)) = 12"
    and rows: "\<forall>r \<in> set t. needs_index r \<longrightarrow> consistent_row my r \<and> (\<forall>x \<in> set t. r_file_id x = r_file_id r \<longrightarrow> siblings my x r)"
    and run: "my_migrate_encrypt_paths my ns b t = Some (q, t')"
  shows "map (file_info_of_row my) t' = map (file_info_of_row my) t \<and>
    (my_key my \<noteq> None \<longrightarrow> q = Ok c \<longrightarrow> c = min b (length (filter needs_index t)))"
proof (cases "my_key my")
  case None
  then show ?thesis using run by (simp add: my_migrate_encrypt_paths_def)
next
  case (Some key)
  let ?rows = "take b (filter needs_index t)"
  have sub: "set ?rows \<subseteq> {r \<in> set t. needs_index r}" using set_take_subset by fastforce
  then have one: "\<forall>r \<in> set ?rows. consistent_row my r \<and> (\<forall>x \<in> set t. r_file_id x = r_file_id r \<longrightarrow> siblings my x r)"
    using rows by blast
  have "map (file_info_of_row my) t'' = map (file_info_of_row my) t" if "migrate_rows my key ns 0 ?rows t = Some (Ok t'')" for t''
    by (rule migrate_rows_shown [OF law nonces Some that one])
  then show ?thesis using run Some
    by (auto simp: my_migrate_encrypt_paths_def Let_def in_transaction_def stmt_def split: sum.splits option.splits)
qed

definition old_row :: "u64 \<Rightarrow> file_row" where
  "old_row i = (new_row (sample_my None) (sample_upload_info i) (as_bytes ''~/docs'') (as_bytes ''f.txt'') 1)
     \<lparr>r_eq_index := Some [], r_token_path := None\<rparr>"

definition keyed_my :: mysql where
  "keyed_my = sample_my (Some (replicate 32 7))"

lemma old_row_plain: "consistent_row keyed_my (old_row i)"
  by (simp add: consistent_row_def decryptable_def keyed_my_def old_row_def new_row_def aead_decrypt_def as_bytes_def)

lemma old_row_columns:
  obtains p n e k where "migrated_columns keyed_my (replicate 32 7) (replicate 12 1, replicate 12 2) (old_row i) = Some (p, n, e, k)"
    "length p > 12"
  by (simp add: migrated_columns_def old_row_def new_row_def aead_decrypt_def aead_encrypt_def as_bytes_def keyed_my_def
      sample_my_def sealed_lib_def Let_def)

theorem migration_keeps_records_witness:
  "\<exists>t'. my_migrate_encrypt_paths keyed_my (\<lambda>_. (replicate 12 1, replicate 12 2)) 10 [old_row 3, old_row 4] = Some (Ok 2, t') \<and>
     t' \<noteq> [old_row 3, old_row 4] \<and> map (file_info_of_row keyed_my) t' = map (file_info_of_row keyed_my) [old_row 3, old_row 4]"
proof -
  let ?t = "[old_row 3, old_row 4]" and ?ns = "\<lambda>_ :: nat. (replicate 12 1, replicate 12 2) :: bytes \<times> bytes"
  have law: "cl_gcm_encrypt (my_crypto keyed_my) k n p a = Some c \<Longrightarrow> cl_gcm_decrypt (my_crypto keyed_my) k n c a = Some p" for k n p a c
    unfolding keyed_my_def by (rule sealed_law)
  have need: "needs_index (old_row i)" "r_file_id (old_row i) = i" for i
    by (simp_all add: needs_index_def old_row_def new_row_def sample_upload_info_def)
  obtain p n e k where c3: "migrated_columns keyed_my (replicate 32 7) (replicate 12 1, replicate 12 2) (old_row 3) = Some (p, n, e, k)"
    "length p > 12" by (rule old_row_columns)
  obtain p' n' e' k' where c4: "migrated_columns keyed_my (replicate 32 7) (replicate 12 1, replicate 12 2) (old_row 4) = Some (p', n', e', k')"
    by (rule old_row_columns)
  let ?t' = "set_columns 4 (p', n', e', k') (set_columns 3 (p, n, e, k) ?t)"
  have key: "my_key keyed_my = Some (replicate 32 7)" "\<And>i m q. stmt keyed_my i m q = q"
    by (simp_all add: keyed_my_def my_key_def sample_my_def stmt_def)
  have run: "my_migrate_encrypt_paths keyed_my ?ns 10 ?t = Some (Ok 2, ?t')"
    using c3 c4 by (simp add: my_migrate_encrypt_paths_def key need in_transaction_def)
  have "length (r_file_path (?t' ! 0)) > 12" using c3(2) by (simp add: set_columns_def need)
  moreover have "length (r_file_path (old_row 3)) \<le> 12" by (simp add: old_row_def new_row_def as_bytes_def)
  ultimately have "?t' \<noteq> ?t" by (metis nth_Cons_0 not_less)
  then show ?thesis
    using run conjunct1 [OF migration_keeps_records [OF law _ _ run]] old_row_plain by (simp add: need siblings_def)
qed

end
