(* ===== verification/Lifecycle.thy ===== *)
theory Lifecycle
  imports Startup Mysql_Upkeep
begin

text \<open>
  Managed components, \<^verbatim>\<open>src/server/common\<close>: the health monitor, the metrics collector, the background tasks and the
  service manager that starts, stops and restarts a component, and the only component there is, the
  synchronisation server of \<^verbatim>\<open>src/server/components/sync_server.rs\<close>.  The trait \<^verbatim>\<open>Component\<close> is a record of its
  methods, its contract a locale that the server is an instance of.
\<close>

section \<open>Health and metrics\<close>

datatype component_status = CS_Stopped | CS_Starting | CS_Running | CS_Stopping | CS_Error string

record component_health =
  ch_is_healthy :: bool
  ch_message :: "string option"
  ch_last_check :: datetime
  ch_dependencies :: "(string, bool) hashmap"

definition health_default :: "datetime \<Rightarrow> component_health" where
  "health_default now = \<lparr>ch_is_healthy = False, ch_message = None, ch_last_check = now, ch_dependencies = []\<rparr>"

text \<open>Histories drop their oldest entry when they grow beyond their limit.\<close>

definition push_bounded :: "nat \<Rightarrow> 'a \<Rightarrow> 'a list \<Rightarrow> 'a list" where
  "push_bounded max_history x history =
     (let h = history @ [x] in if length h > max_history then tl h else h)"

record health_monitor =
  hn_current_health :: component_health
  hn_history :: "component_health list"
  hn_max_history :: nat
  hn_unhealthy_threshold :: nat

definition health_monitor_new_with_settings :: "datetime \<Rightarrow> nat \<Rightarrow> nat \<Rightarrow> health_monitor" where
  "health_monitor_new_with_settings now max_history threshold =
     \<lparr>hn_current_health = health_default now, hn_history = [], hn_max_history = max_history, hn_unhealthy_threshold = threshold\<rparr>"

definition health_monitor_new :: "datetime \<Rightarrow> health_monitor" where
  "health_monitor_new now = health_monitor_new_with_settings now 50 3"

fun leading_failures :: "component_health list \<Rightarrow> nat" where
  "leading_failures [] = 0"
| "leading_failures (h # hs) = (if \<not> ch_is_healthy h then 1 + leading_failures hs else 0)"

definition count_recent_failures :: "health_monitor \<Rightarrow> nat" where
  "count_recent_failures m = leading_failures (rev (hn_history m))"

text \<open>The second component is the warning about repeated failures, with their number.\<close>

definition health_monitor_update :: "component_health \<Rightarrow> health_monitor \<Rightarrow> health_monitor \<times> nat option" where
  "health_monitor_update health m =
     (let m' = m\<lparr>hn_current_health := health, hn_history := push_bounded (hn_max_history m) health (hn_history m)\<rparr>
      in (m', if \<not> ch_is_healthy health
              then let consecutive_failures = count_recent_failures m' in
                   if consecutive_failures \<ge> hn_unhealthy_threshold m' then Some consecutive_failures else None
              else None))"

definition is_consistently_healthy :: "datetime \<Rightarrow> 32 word \<Rightarrow> health_monitor \<Rightarrow> bool" where
  "is_consistently_healthy now duration_minutes m =
     list_all ch_is_healthy
       (filter (\<lambda>h. ch_last_check h \<ge> now - uint duration_minutes * 60 * 1000000000) (hn_history m))"

definition health_monitor_reset :: "datetime \<Rightarrow> health_monitor \<Rightarrow> health_monitor" where
  "health_monitor_reset now m = m\<lparr>hn_current_health := health_default now, hn_history := []\<rparr>"

record 'm metrics_collector =
  mc_current_metrics :: "'m option"
  mc_historical_metrics :: "'m list"
  mc_max_history :: nat

definition metrics_collector_new :: "'m metrics_collector" where
  "metrics_collector_new = \<lparr>mc_current_metrics = None, mc_historical_metrics = [], mc_max_history = 100\<rparr>"

definition metrics_collector_update :: "'m \<Rightarrow> 'm metrics_collector \<Rightarrow> 'm metrics_collector" where
  "metrics_collector_update metrics c =
     c\<lparr>mc_current_metrics := Some metrics,
       mc_historical_metrics := push_bounded (mc_max_history c) metrics (mc_historical_metrics c)\<rparr>"

definition get_aggregated :: "('m \<Rightarrow> 'm \<Rightarrow> 'm) \<Rightarrow> 'm metrics_collector \<Rightarrow> 'm option" where
  "get_aggregated merge c =
     (case mc_historical_metrics c of [] \<Rightarrow> None | h # hs \<Rightarrow> Some (fold (\<lambda>m aggregated. merge aggregated m) hs h))"

definition metrics_collector_reset :: "('m \<Rightarrow> 'm) \<Rightarrow> 'm metrics_collector \<Rightarrow> 'm metrics_collector" where
  "metrics_collector_reset reset c =
     c\<lparr>mc_current_metrics := map_option reset (mc_current_metrics c), mc_historical_metrics := []\<rparr>"

section \<open>Components and their manager\<close>

text \<open>Errors are their texts; \<open>None\<close> is a panic of the start.\<close>

record ('t, 'c, 'm) component =
  co_name :: "'t \<Rightarrow> string"
  co_config :: "'t \<Rightarrow> 'c"
  co_start :: "datetime \<Rightarrow> 't \<Rightarrow> ((string, unit) result \<times> 't) option"
  co_stop :: "'t \<Rightarrow> (string, unit) result \<times> 't"
  co_health_check :: "datetime \<Rightarrow> 't \<Rightarrow> component_health"
  co_status :: "'t \<Rightarrow> component_status"
  co_metrics :: "datetime \<Rightarrow> 't \<Rightarrow> 'm"
  co_update_config :: "'c \<Rightarrow> 't \<Rightarrow> (string, unit) result \<times> 't"

definition component_restart :: "('t, 'c, 'm) component \<Rightarrow> datetime \<Rightarrow> 't \<Rightarrow> ((string, unit) result \<times> 't) option" where
  "component_restart ci now t =
     (if co_status ci t \<noteq> CS_Stopped then
        (case co_stop ci t of (Inl e, t') \<Rightarrow> Some (Err e, t') | (Inr _, t') \<Rightarrow> co_start ci now t')
      else co_start ci now t)"

text \<open>
  The spawned tasks that run are numbered; the task manager holds the handles of those it knows.  A handle
  that is replaced in its table is dropped, which leaves the task running.
\<close>

record task_manager =
  tm_tasks :: "(string, nat) hashmap"
  tm_live :: "(nat \<times> string) list"
  tm_next :: nat

definition task_manager_new :: task_manager where
  "task_manager_new = \<lparr>tm_tasks = [], tm_live = [], tm_next = 0\<rparr>"

definition add_task :: "string \<Rightarrow> task_manager \<Rightarrow> task_manager" where
  "add_task name tm =
     tm\<lparr>tm_tasks := hm_insert name (tm_next tm) (tm_tasks tm), tm_live := tm_live tm @ [(tm_next tm, name)],
        tm_next := tm_next tm + 1\<rparr>"

definition abort_task :: "nat \<Rightarrow> task_manager \<Rightarrow> task_manager" where
  "abort_task i tm = tm\<lparr>tm_live := filter (\<lambda>(j, _). j \<noteq> i) (tm_live tm)\<rparr>"

definition stop_task :: "string \<Rightarrow> task_manager \<Rightarrow> bool \<times> task_manager" where
  "stop_task name tm =
     (case hm_get (tm_tasks tm) name of
        Some i \<Rightarrow> (True, abort_task i (tm\<lparr>tm_tasks := hm_remove name (tm_tasks tm)\<rparr>))
      | None \<Rightarrow> (False, tm))"

definition stop_all :: "task_manager \<Rightarrow> task_manager" where
  "stop_all tm = (fold abort_task (hm_values (tm_tasks tm)) tm)\<lparr>tm_tasks := []\<rparr>"

record ('t, 'c, 'm) service_manager =
  sm_component :: 't
  sm_status :: component_status
  sm_config :: 'c
  sm_metrics :: "'m metrics_collector"
  sm_health :: health_monitor
  sm_tasks :: task_manager
  sm_name :: string

definition service_manager_new :: "('t, 'c, 'm) component \<Rightarrow> datetime \<Rightarrow> 't \<Rightarrow> ('t, 'c, 'm) service_manager" where
  "service_manager_new ci now t =
     \<lparr>sm_component = t, sm_status = CS_Stopped, sm_config = co_config ci t, sm_metrics = metrics_collector_new,
      sm_health = health_monitor_new now, sm_tasks = task_manager_new, sm_name = co_name ci t\<rparr>"

definition start_monitoring_tasks :: "('t, 'c, 'm) service_manager \<Rightarrow> ('t, 'c, 'm) service_manager" where
  "start_monitoring_tasks m =
     m\<lparr>sm_tasks := add_task ''health_monitoring'' (add_task ''metrics_collection'' (sm_tasks m))\<rparr>"

text \<open>One round of each of the two tasks.\<close>

definition metrics_tick :: "('t, 'c, 'm) component \<Rightarrow> datetime \<Rightarrow> ('t, 'c, 'm) service_manager \<Rightarrow> ('t, 'c, 'm) service_manager" where
  "metrics_tick ci now m = m\<lparr>sm_metrics := metrics_collector_update (co_metrics ci now (sm_component m)) (sm_metrics m)\<rparr>"

definition health_tick :: "('t, 'c, 'm) component \<Rightarrow> datetime \<Rightarrow> ('t, 'c, 'm) service_manager \<Rightarrow> ('t, 'c, 'm) service_manager" where
  "health_tick ci now m = m\<lparr>sm_health := fst (health_monitor_update (co_health_check ci now (sm_component m)) (sm_health m))\<rparr>"

definition manager_start ::
    "('t, 'c, 'm) component \<Rightarrow> datetime \<Rightarrow> ('t, 'c, 'm) service_manager \<Rightarrow> ((string, unit) result \<times> ('t, 'c, 'm) service_manager) option" where
  "manager_start ci now m =
     (let m1 = start_monitoring_tasks (m\<lparr>sm_status := CS_Starting\<rparr>) in
      case co_start ci now (sm_component m1) of
        None \<Rightarrow> None
      | Some (Inl e, t) \<Rightarrow>
          Some (Err e, m1\<lparr>sm_component := t, sm_status := CS_Error (''Failed to start '' @ sm_name m @ '': '' @ e)\<rparr>)
      | Some (Inr _, t) \<Rightarrow> Some (Ok (), m1\<lparr>sm_component := t, sm_status := CS_Running\<rparr>))"

definition manager_stop ::
    "('t, 'c, 'm) component \<Rightarrow> ('t, 'c, 'm) service_manager \<Rightarrow> (string, unit) result \<times> ('t, 'c, 'm) service_manager" where
  "manager_stop ci m =
     (let m1 = m\<lparr>sm_status := CS_Stopping, sm_tasks := stop_all (sm_tasks m)\<rparr> in
      case co_stop ci (sm_component m1) of
        (Inl e, t) \<Rightarrow>
          (Err e, m1\<lparr>sm_component := t, sm_status := CS_Error (''Failed to stop '' @ sm_name m @ '': '' @ e)\<rparr>)
      | (Inr _, t) \<Rightarrow> (Ok (), m1\<lparr>sm_component := t, sm_status := CS_Stopped\<rparr>))"

definition manager_restart ::
    "('t, 'c, 'm) component \<Rightarrow> datetime \<Rightarrow> ('t, 'c, 'm) service_manager \<Rightarrow> ((string, unit) result \<times> ('t, 'c, 'm) service_manager) option" where
  "manager_restart ci now m =
     (if sm_status m \<noteq> CS_Stopped then
        (case manager_stop ci m of (Inl e, m') \<Rightarrow> Some (Err e, m') | (Inr _, m') \<Rightarrow> manager_start ci now m')
      else manager_start ci now m)"

definition manager_update_config ::
    "('t, 'c, 'm) component \<Rightarrow> 'c \<Rightarrow> ('t, 'c, 'm) service_manager \<Rightarrow> (string, unit) result \<times> ('t, 'c, 'm) service_manager" where
  "manager_update_config ci config m =
     (case co_update_config ci config (sm_component m) of
        (Inl e, t) \<Rightarrow> (Err e, m\<lparr>sm_component := t\<rparr>)
      | (Inr _, t) \<Rightarrow> (Ok (), m\<lparr>sm_component := t, sm_config := config\<rparr>))"

section \<open>The synchronisation server as a component\<close>

record server_metrics =
  sx_total_requests :: u64
  sx_active_connections :: "32 word"
  sx_uptime_seconds :: u64
  sx_sync_operations :: u64
  sx_failed_operations :: u64
  sx_data_transferred_bytes :: u64

definition server_metrics_default :: server_metrics where
  "server_metrics_default =
     \<lparr>sx_total_requests = 0, sx_active_connections = 0, sx_uptime_seconds = 0, sx_sync_operations = 0,
      sx_failed_operations = 0, sx_data_transferred_bytes = 0\<rparr>"

definition server_metrics_merge :: "server_metrics \<Rightarrow> server_metrics \<Rightarrow> server_metrics" where
  "server_metrics_merge m other =
     m\<lparr>sx_total_requests := sx_total_requests m + sx_total_requests other,
       sx_active_connections := sx_active_connections other,
       sx_uptime_seconds := sx_uptime_seconds other,
       sx_sync_operations := sx_sync_operations m + sx_sync_operations other,
       sx_failed_operations := sx_failed_operations m + sx_failed_operations other,
       sx_data_transferred_bytes := sx_data_transferred_bytes m + sx_data_transferred_bytes other\<rparr>"

text \<open>
  Of the state of the application: the configuration, the storage, the table of files when it is MySQL, the
  clients, and the number of tasks that clean these up.  The parser of socket addresses and the nonces are parameters.
\<close>

record sync_server_component =
  ssc_config :: server_config
  ssc_app_config :: config
  ssc_storage :: storage_backend
  ssc_files :: files
  ssc_clients :: client_store
  ssc_cleanup_tasks :: nat
  ssc_status :: component_status
  ssc_metrics :: server_metrics
  ssc_start_time :: "datetime option"

definition sync_component_of :: "server_config \<Rightarrow> config \<Rightarrow> storage_backend \<Rightarrow> files \<Rightarrow> sync_server_component" where
  "sync_component_of server c storage t =
     \<lparr>ssc_config = server, ssc_app_config = c, ssc_storage = storage, ssc_files = t, ssc_clients = [], ssc_cleanup_tasks = 0,
      ssc_status = CS_Stopped, ssc_metrics = server_metrics_default, ssc_start_time = None\<rparr>"

definition sync_component_new ::
    "process_env \<Rightarrow> drivers \<Rightarrow> dbms \<Rightarrow> dbms \<Rightarrow> mysql \<Rightarrow> (u64 \<times> bytes) list \<Rightarrow> 'w s3_service \<Rightarrow> 'w \<Rightarrow> files \<Rightarrow> server_config
     \<Rightarrow> catalogue \<Rightarrow> (string, sync_server_component) result \<times> catalogue" where
  "sync_component_new env dr db db' my blobs sv w t server cat =
     (let (storage, cat1) = init_storage_legacy dr db db' (sc_storage_path server) cat in
      case initialize_file_storage_with_storage env dr my blobs sv w storage of
        Inl e \<Rightarrow> (Err (''Configuration error: '' @ sync_error_display e), cat1)
      | Inr _ \<Rightarrow> (Ok (sync_component_of server (fst (app_state_new_with_storage env server None)) storage t), cat1))"

definition num_seconds :: "int \<Rightarrow> i64" where
  "num_seconds d = (if d < 0 then - ((- d) div 1000000000) else d div 1000000000)"

definition uptime_of :: "datetime \<Rightarrow> sync_server_component \<Rightarrow> server_metrics \<Rightarrow> server_metrics" where
  "uptime_of now s metrics =
     (case ssc_start_time s of
        Some start_time \<Rightarrow> metrics\<lparr>sx_uptime_seconds := word_of_int (num_seconds (now - start_time))\<rparr>
      | None \<Rightarrow> metrics)"

definition component_update_metrics :: "datetime \<Rightarrow> sync_server_component \<Rightarrow> sync_server_component" where
  "component_update_metrics now s =
     s\<lparr>ssc_metrics := (uptime_of now s (ssc_metrics s))
          \<lparr>sx_active_connections := of_nat (sum_list (hm_values (get_connection_stats (ssc_clients s))))\<rparr>\<rparr>"

text \<open>With a key of 32 bytes a start first encrypts the paths of old rows; an error of this is only logged.\<close>

definition start_migration :: "mysql \<Rightarrow> (nat \<Rightarrow> bytes \<times> bytes) \<Rightarrow> sync_server_component \<Rightarrow> files option" where
  "start_migration my ns s =
     (case (cf_server_encode_key (ssc_app_config s), ssc_storage s) of
        (Some key, Mysql_Backend _) \<Rightarrow>
          if length key = 32 then map_option snd (my_migrate_encrypt_paths my ns 1000 (ssc_files s)) else Some (ssc_files s)
      | _ \<Rightarrow> Some (ssc_files s))"

definition sync_server_start ::
    "mysql \<Rightarrow> (nat \<Rightarrow> bytes \<times> bytes) \<Rightarrow> datetime \<Rightarrow> sync_server_component \<Rightarrow> ((string, unit) result \<times> sync_server_component) option" where
  "sync_server_start my ns now s =
     (let s1 = s\<lparr>ssc_status := CS_Starting, ssc_start_time := Some now, ssc_cleanup_tasks := ssc_cleanup_tasks s + 1\<rparr> in
      case start_migration my ns s1 of
        None \<Rightarrow> None
      | Some t \<Rightarrow> Some (Ok (), s1\<lparr>ssc_files := t, ssc_status := CS_Running\<rparr>))"

definition server_stop :: "sync_server_component \<Rightarrow> (string, unit) result \<times> sync_server_component" where
  "server_stop s = (let s1 = s\<lparr>ssc_status := CS_Stopping\<rparr> in (Ok (), s1\<lparr>ssc_status := CS_Stopped, ssc_start_time := None\<rparr>))"

definition server_health_check :: "datetime \<Rightarrow> sync_server_component \<Rightarrow> component_health" where
  "server_health_check now s =
     (let is_running = ssc_status s = CS_Running;
          deps = hm_insert ''storage'' True (hm_insert ''database'' True (hm_insert ''app_state'' True []));
          healthy = is_running \<and> list_all (\<lambda>v. v) (hm_values deps)
      in \<lparr>ch_is_healthy = healthy,
          ch_message = (if \<not> healthy then Some ''One or more dependencies are unhealthy'' else None),
          ch_last_check = now, ch_dependencies = deps\<rparr>)"

definition server_metrics_of :: "datetime \<Rightarrow> sync_server_component \<Rightarrow> server_metrics" where
  "server_metrics_of now s = uptime_of now s (ssc_metrics s)"

definition server_update_config ::
    "(string \<Rightarrow> (string, unit) result) \<Rightarrow> server_config \<Rightarrow> sync_server_component \<Rightarrow> (string, unit) result \<times> sync_server_component" where
  "server_update_config parse_addr config s =
     (case parse_addr (sc_host config @ '':'' @ show_nat (unat (sc_port config))) of
        Inl e \<Rightarrow> (Err (''Configuration error: Invalid address: '' @ e), s)
      | Inr _ \<Rightarrow> (Ok (), s\<lparr>ssc_config := config\<rparr>))"

definition sync_server ::
    "mysql \<Rightarrow> (nat \<Rightarrow> bytes \<times> bytes) \<Rightarrow> (string \<Rightarrow> (string, unit) result) \<Rightarrow> (sync_server_component, server_config, server_metrics) component" where
  "sync_server my ns parse_addr =
     \<lparr>co_name = (\<lambda>_. ''SyncServer''), co_config = ssc_config, co_start = sync_server_start my ns, co_stop = server_stop,
      co_health_check = server_health_check, co_status = ssc_status, co_metrics = server_metrics_of,
      co_update_config = server_update_config parse_addr\<rparr>"

definition create_sync_server ::
    "process_env \<Rightarrow> drivers \<Rightarrow> dbms \<Rightarrow> dbms \<Rightarrow> mysql \<Rightarrow> (nat \<Rightarrow> bytes \<times> bytes) \<Rightarrow> (string \<Rightarrow> (string, unit) result) \<Rightarrow> (u64 \<times> bytes) list
     \<Rightarrow> 'w s3_service \<Rightarrow> 'w \<Rightarrow> files \<Rightarrow> datetime \<Rightarrow> server_config \<Rightarrow> catalogue
     \<Rightarrow> (string, (sync_server_component, server_config, server_metrics) service_manager) result \<times> catalogue" where
  "create_sync_server env dr db db' my ns parse_addr blobs sv w t now server cat =
     (case sync_component_new env dr db db' my blobs sv w t server cat of
        (Inl e, cat1) \<Rightarrow> (Err e, cat1)
      | (Inr s, cat1) \<Rightarrow> (Ok (service_manager_new (sync_server my ns parse_addr) now s), cat1))"

section \<open>Histories\<close>

lemma push_bounded_fold: "fold (push_bounded k) xs [] = drop (length xs - k) xs"
proof (induction xs rule: rev_induct)
  case (snoc x xs)
  show ?case
  proof (cases "length xs < k")
    case False
    then have "push_bounded k x (drop (length xs - k) xs) = tl (drop (length xs - k) (xs @ [x]))"
      by (simp add: push_bounded_def)
    with snoc False show ?thesis 
      by (simp only: fold_append o_def fold_simps tl_drop length_append) (simp add: Suc_diff_le drop_Suc del: drop_append)
  qed (use snoc in \<open>simp add: push_bounded_def\<close>)
qed simp

lemma push_bounded_length: "length h \<le> k \<Longrightarrow> length (push_bounded k x h) \<le> k"
  by (auto simp: push_bounded_def Let_def)

lemma leading_failures_take: "leading_failures (take n hs) = min n (leading_failures hs)"
  by (induction hs arbitrary: n) (auto simp: take_Cons' split: nat.splits)

text \<open>A monitor after the checks \<open>hs\<close>.\<close>

definition monitored :: "component_health list \<Rightarrow> health_monitor \<Rightarrow> health_monitor" where
  "monitored = fold (\<lambda>h m. fst (health_monitor_update h m))"

lemma monitored_settings [simp]:
  "hn_max_history (monitored hs m) = hn_max_history m" "hn_unhealthy_threshold (monitored hs m) = hn_unhealthy_threshold m"
  unfolding monitored_def by (induction hs arbitrary: m) (simp_all add: health_monitor_update_def Let_def)

lemma monitored_history: "hn_history (monitored hs m) = fold (push_bounded (hn_max_history m)) hs (hn_history m)"
  unfolding monitored_def by (induction hs arbitrary: m) (simp_all add: health_monitor_update_def Let_def)

lemma monitored_current: "hn_current_health (monitored hs m) = last (hn_current_health m # hs)"
  unfolding monitored_def by (induction hs arbitrary: m) (simp_all add: health_monitor_update_def Let_def)

lemma monitored_failures:
  "count_recent_failures (monitored hs (health_monitor_new_with_settings now k l)) = min k (leading_failures (rev hs))"
  by (simp add: count_recent_failures_def monitored_history health_monitor_new_with_settings_def push_bounded_fold
      leading_failures_take flip: take_rev)

text \<open>
  After any checks the monitor of a service holds the last one and the last 50, counts the failures at
  their end, and warns at a failed check exactly when it is the third failure in a row or a later one.
\<close>
theorem health_monitor_exact:
  "let m = monitored hs (health_monitor_new now); failures = leading_failures (rev (hs @ [h])) in
     hn_current_health m = last (health_default now # hs) \<and> hn_history m = drop (length hs - 50) hs \<and>
     count_recent_failures m = min 50 (leading_failures (rev hs)) \<and>
     snd (health_monitor_update h m) = (if failures \<ge> 3 then Some (min 50 failures) else None)"
proof -
  let ?m = "monitored hs (health_monitor_new now)"
  have new: "health_monitor_new now = health_monitor_new_with_settings now 50 3" by (simp add: health_monitor_new_def)
  have "count_recent_failures (fst (health_monitor_update h ?m)) = min 50 (leading_failures (rev (hs @ [h])))"
    using monitored_failures [of "hs @ [h]" now 50 3] by (simp add: monitored_def new)
  then have "snd (health_monitor_update h ?m) =
      (if leading_failures (rev (hs @ [h])) \<ge> 3 then Some (min 50 (leading_failures (rev (hs @ [h])))) else None)"
    by (auto simp: health_monitor_update_def Let_def new health_monitor_new_with_settings_def [where threshold = 3])
  then show ?thesis
    using monitored_failures [of hs now 50 3]
    by (simp add: Let_def monitored_history monitored_current new push_bounded_fold health_monitor_new_with_settings_def)
qed

section \<open>Background tasks\<close>

definition tasks_ok :: "task_manager \<Rightarrow> bool" where
  "tasks_ok tm \<longleftrightarrow> hm_wf (tm_tasks tm) \<and> distinct (map fst (tm_live tm)) \<and> (\<forall>(i, n) \<in> set (tm_live tm). i < tm_next tm) \<and>
     (\<forall>n i. hm_get (tm_tasks tm) n = Some i \<longrightarrow> (i, n) \<in> set (tm_live tm))"

text \<open>A task that runs although no handle to it is left.\<close>

definition orphan :: "nat \<times> string \<Rightarrow> task_manager \<Rightarrow> bool" where
  "orphan task tm \<longleftrightarrow> task \<in> set (tm_live tm) \<and> fst task \<notin> set (hm_values (tm_tasks tm)) \<and> fst task < tm_next tm"

lemma fold_abort_task [simp]:
  "tm_live (fold abort_task is tm) = filter (\<lambda>(j, _). j \<notin> set is) (tm_live tm)"
  "tm_tasks (fold abort_task is tm) = tm_tasks tm" "tm_next (fold abort_task is tm) = tm_next tm"
  by (induction "is" arbitrary: tm) (simp_all add: abort_task_def case_prod_unfold conj_commute)

lemma stop_all_simps [simp]:
  "tm_live (stop_all tm) = filter (\<lambda>(j, _). j \<notin> set (hm_values (tm_tasks tm))) (tm_live tm)"
  "tm_tasks (stop_all tm) = []" "tm_next (stop_all tm) = tm_next tm"
  by (simp_all add: stop_all_def)

lemma tasks_ok_new [simp]: "tasks_ok task_manager_new"
  by (simp add: tasks_ok_def task_manager_new_def)

lemma tasks_ok_add [simp]: "tasks_ok tm \<Longrightarrow> tasks_ok (add_task n tm)"
  by (auto simp: tasks_ok_def add_task_def hm_get_insert)

lemma tasks_ok_stop_all [simp]: "tasks_ok tm \<Longrightarrow> tasks_ok (stop_all tm)"
  by (auto simp: tasks_ok_def distinct_map intro: inj_on_subset)

lemma hm_values_insert: "set (hm_values (hm_insert k v m)) \<subseteq> insert v (set (hm_values m))"
  unfolding hm_values_def hm_insert_def by (induction m) auto

lemma orphan_add: "orphan task tm \<Longrightarrow> orphan task (add_task n tm)"
  using hm_values_insert [of n "tm_next tm" "tm_tasks tm"] by (auto simp: orphan_def add_task_def)

lemma orphan_stop_all: "orphan task tm \<Longrightarrow> orphan task (stop_all tm)"
  by (cases task) (simp add: orphan_def, simp add: hm_values_def)

text \<open>A task is orphaned when another one is started under its name.\<close>

lemma tasks_ok_inj:
  "tasks_ok tm \<Longrightarrow> hm_get (tm_tasks tm) n = Some i \<Longrightarrow> hm_get (tm_tasks tm) n' = Some i \<Longrightarrow> n = n'"
  unfolding tasks_ok_def by (metis eq_key_imp_eq_value)

lemma tasks_ok_old: "tasks_ok tm \<Longrightarrow> hm_get (tm_tasks tm) n = Some i \<Longrightarrow> (i, n) \<in> set (tm_live tm) \<and> i < tm_next tm"
  unfolding tasks_ok_def by blast

lemma orphan_replaced:
  assumes "tasks_ok tm" "hm_get (tm_tasks tm) n = Some i"
  shows "orphan (i, n) (add_task n tm)"
proof -
  have "hm_wf (hm_insert n (tm_next tm) (tm_tasks tm))" using assms(1) by (simp add: tasks_ok_def)
  then have "i \<notin> set (hm_values (hm_insert n (tm_next tm) (tm_tasks tm)))"
    using tasks_ok_inj [OF assms(1) assms(2)] tasks_ok_old [OF assms] by (auto simp: hm_values_iff hm_get_insert split: if_splits)
  then show ?thesis using tasks_ok_old [OF assms] by (simp add: orphan_def add_task_def)
qed

section \<open>Managed components\<close>

text \<open>The operations of a manager and the rounds of its tasks.\<close>

inductive managed_step :: "('t, 'c, 'm) component \<Rightarrow> ('t, 'c, 'm) service_manager \<Rightarrow> ('t, 'c, 'm) service_manager \<Rightarrow> bool"
  for ci where
  ms_start: "manager_start ci now m = Some (r, m') \<Longrightarrow> managed_step ci m m'"
| ms_stop: "manager_stop ci m = (r, m') \<Longrightarrow> managed_step ci m m'"
| ms_restart: "manager_restart ci now m = Some (r, m') \<Longrightarrow> managed_step ci m m'"
| ms_config: "manager_update_config ci c m = (r, m') \<Longrightarrow> managed_step ci m m'"
| ms_metrics: "(i, ''metrics_collection'') \<in> set (tm_live (sm_tasks m)) \<Longrightarrow> managed_step ci m (metrics_tick ci now m)"
| ms_health: "(i, ''health_monitoring'') \<in> set (tm_live (sm_tasks m)) \<Longrightarrow> managed_step ci m (health_tick ci now m)"

inductive_cases managed_stepE: "managed_step ci m m'"

text \<open>Every operation is made of these steps; a restart is a stop and a start.\<close>

lemma managed_step_induct [consumes 2, case_names start stop config metrics health]:
  assumes "managed_step ci m m'" "P m"
    and start: "\<And>now m r m'. P m \<Longrightarrow> manager_start ci now m = Some (r, m') \<Longrightarrow> P m'"
    and stop: "\<And>m r m'. P m \<Longrightarrow> manager_stop ci m = (r, m') \<Longrightarrow> P m'"
    and config: "\<And>c m r m'. P m \<Longrightarrow> manager_update_config ci c m = (r, m') \<Longrightarrow> P m'"
    and metrics: "\<And>now m. P m \<Longrightarrow> P (metrics_tick ci now m)"
    and health: "\<And>now m. P m \<Longrightarrow> P (health_tick ci now m)"
  shows "P m'"
  using assms(1)
proof cases
  case (ms_restart now r)
  then show ?thesis using start [OF \<open>P m\<close>] start [OF stop [OF \<open>P m\<close>]] stop [OF \<open>P m\<close>]
    by (auto simp: manager_restart_def split: if_splits prod.splits sum.splits)
qed (use assms in blast)+

definition watched :: "task_manager \<Rightarrow> bool" where
  "watched tm \<longleftrightarrow> hm_get (tm_tasks tm) ''metrics_collection'' \<noteq> None \<and> hm_get (tm_tasks tm) ''health_monitoring'' \<noteq> None"

lemma watched_add [simp]: "watched (add_task ''health_monitoring'' (add_task ''metrics_collection'' tm))"
  by (simp add: watched_def add_task_def hm_get_insert)

lemma watched_live:
  assumes "tasks_ok tm" "watched tm"
  shows "''metrics_collection'' \<in> snd ` set (tm_live tm)" "''health_monitoring'' \<in> snd ` set (tm_live tm)"
  using assms(2) tasks_ok_old [OF assms(1)] unfolding watched_def by (force intro: rev_image_eqI)+

definition managed_inv :: "('t, 'c, 'm) component \<Rightarrow> ('t, 'c, 'm) service_manager \<Rightarrow> bool" where
  "managed_inv ci m \<longleftrightarrow> tasks_ok (sm_tasks m) \<and> sm_config m = co_config ci (sm_component m) \<and>
     sm_status m \<notin> {CS_Starting, CS_Stopping} \<and>
     (sm_status m = CS_Running \<longrightarrow> co_status ci (sm_component m) = CS_Running \<and> watched (sm_tasks m)) \<and>
     (sm_status m = CS_Stopped \<longrightarrow> co_status ci (sm_component m) = CS_Stopped \<and> tm_tasks (sm_tasks m) = []) \<and>
     mc_max_history (sm_metrics m) = 100 \<and> length (mc_historical_metrics (sm_metrics m)) \<le> 100 \<and>
     hn_max_history (sm_health m) = 50 \<and> length (hn_history (sm_health m)) \<le> 50"

text \<open>The contract of the trait \<^verbatim>\<open>Component\<close>.\<close>

locale lawful_component =
  fixes ci :: "('t, 'c, 'm) component"
  assumes start_config: "co_start ci now t = Some (r, t') \<Longrightarrow> co_config ci t' = co_config ci t"
    and start_running: "co_start ci now t = Some (Ok (), t') \<Longrightarrow> co_status ci t' = CS_Running"
    and stop_config: "co_stop ci t = (r, t') \<Longrightarrow> co_config ci t' = co_config ci t"
    and stop_stopped: "co_stop ci t = (Ok (), t') \<Longrightarrow> co_status ci t' = CS_Stopped"
    and update_status: "co_update_config ci c t = (r, t') \<Longrightarrow> co_status ci t' = co_status ci t"
    and update_ok: "co_update_config ci c t = (Ok (), t') \<Longrightarrow> co_config ci t' = c"
    and update_err: "co_update_config ci c t = (Err e, t') \<Longrightarrow> co_config ci t' = co_config ci t"
    and healthy_running: "ch_is_healthy (co_health_check ci now t) \<longleftrightarrow> co_status ci t = CS_Running"
begin

lemma managed_inv_start: "managed_inv ci m \<Longrightarrow> manager_start ci now m = Some (r, m') \<Longrightarrow> managed_inv ci m'"
  by (auto simp: managed_inv_def manager_start_def start_monitoring_tasks_def Let_def start_config start_running
      split: option.splits prod.splits sum.splits)

lemma managed_inv_stop: "managed_inv ci m \<Longrightarrow> manager_stop ci m = (r, m') \<Longrightarrow> managed_inv ci m'"
  by (auto simp: managed_inv_def manager_stop_def Let_def stop_config stop_stopped split: prod.splits sum.splits)

lemma managed_inv_config: "managed_inv ci m \<Longrightarrow> manager_update_config ci c m = (r, m') \<Longrightarrow> managed_inv ci m'"
  by (auto simp: managed_inv_def manager_update_config_def update_status update_ok update_err split: prod.splits sum.splits)

lemma managed_inv_step:
  assumes "managed_step ci m m'" "managed_inv ci m"
  shows "managed_inv ci m'"
  using assms
proof (induction rule: managed_step_induct)
  case (metrics now m)
  then show ?case by (simp add: managed_inv_def metrics_tick_def metrics_collector_update_def push_bounded_length)
next
  case (health now m)
  then show ?case by (simp add: managed_inv_def health_tick_def health_monitor_update_def Let_def push_bounded_length)
qed (blast intro: managed_inv_start managed_inv_stop managed_inv_config)+

lemma managed_inv_new: "co_status ci t = CS_Stopped \<Longrightarrow> managed_inv ci (service_manager_new ci now t)"
  by (simp add: managed_inv_def service_manager_new_def metrics_collector_new_def health_monitor_new_def
      health_monitor_new_with_settings_def task_manager_new_def tasks_ok_new [unfolded task_manager_new_def])

lemma managed_inv_steps: "(managed_step ci)\<^sup>*\<^sup>* m m' \<Longrightarrow> managed_inv ci m \<Longrightarrow> managed_inv ci m'"
  by (induction rule: rtranclp_induct) (auto intro: managed_inv_step)

lemma healthy_when_running:
  "managed_inv ci m \<Longrightarrow> sm_status m = CS_Running \<Longrightarrow> ch_is_healthy (co_health_check ci now (sm_component m))"
  by (simp add: managed_inv_def healthy_running)

end

section \<open>The managed server\<close>

lemmas sync_server_ops = sync_server_def sync_server_start_def server_stop_def server_health_check_def server_update_config_def

interpretation managed_server: lawful_component "sync_server my ns parse_addr" for my ns parse_addr
  by unfold_locales
    (auto simp: sync_server_ops Let_def hm_values_def hm_insert_def split: option.splits sum.splits)

lemma sync_server_never_fails:
  "co_start (sync_server my ns parse_addr) now s \<noteq> Some (Err e, s')" "co_stop (sync_server my ns parse_addr) s \<noteq> (Err e, s')"
  by (auto simp: sync_server_ops Let_def split: option.splits)

lemma managed_server_no_error:
  assumes "managed_step (sync_server my ns parse_addr) m m'" "\<forall>e. sm_status m \<noteq> CS_Error e"
  shows "\<forall>e. sm_status m' \<noteq> CS_Error e"
  using assms
  by (induction rule: managed_step_induct)
    (auto simp: manager_start_def manager_stop_def manager_update_config_def metrics_tick_def health_tick_def Let_def
      sync_server_never_fails split: option.splits prod.splits sum.splits)

lemma create_sync_server_new:
  "create_sync_server env dr db db' my ns parse_addr blobs sv w t now server cat = (Ok m, cat') \<Longrightarrow>
     \<exists>c storage. m = service_manager_new (sync_server my ns parse_addr) now (sync_component_of server c storage t)"
  by (auto simp: create_sync_server_def sync_component_new_def Let_def split: sum.splits prod.splits)

lemma create_sync_server_inv:
  assumes "create_sync_server env dr db db' my ns parse_addr blobs sv w t now server cat = (Ok m, cat')"
  shows "managed_inv (sync_server my ns parse_addr) m \<and> sm_status m = CS_Stopped"
proof -
  obtain c storage where m: "m = service_manager_new (sync_server my ns parse_addr) now (sync_component_of server c storage t)"
    using create_sync_server_new [OF assms] by blast
  have "co_status (sync_server my ns parse_addr) (sync_component_of server c storage t) = CS_Stopped"
    by (simp add: sync_server_def sync_component_of_def)
  then show ?thesis unfolding m by (simp add: managed_server.managed_inv_new) (simp add: service_manager_new_def)
qed

text \<open>
  C21: however a managed server is started, stopped, restarted and reconfigured, between these operations it is
  running or stopped, the manager and the server agree on which and on the configuration, a health
  check succeeds exactly when it is running, both monitoring tasks run while it does, and the histories keep their bounds.
\<close>
theorem managed_server_consistent:
  assumes "create_sync_server env dr db db' my ns parse_addr blobs sv w t now server cat = (Ok m0, cat')"
    and "(managed_step (sync_server my ns parse_addr))\<^sup>*\<^sup>* m0 m"
  shows "sm_status m \<in> {CS_Running, CS_Stopped} \<and> ssc_status (sm_component m) = sm_status m \<and>
    sm_config m = ssc_config (sm_component m) \<and>
    (ch_is_healthy (server_health_check now' (sm_component m)) \<longleftrightarrow> sm_status m = CS_Running) \<and>
    (sm_status m = CS_Running \<longrightarrow> {''metrics_collection'', ''health_monitoring''} \<subseteq> snd ` set (tm_live (sm_tasks m))) \<and>
    length (hn_history (sm_health m)) \<le> 50 \<and> length (mc_historical_metrics (sm_metrics m)) \<le> 100"
proof -
  let ?ci = "sync_server my ns parse_addr"
  have inv: "managed_inv ?ci m"
    using create_sync_server_inv [OF assms(1)] managed_server.managed_inv_steps [OF assms(2)] by blast
  have "\<forall>e. sm_status m \<noteq> CS_Error e"
    using assms(2) create_sync_server_inv [OF assms(1)]
    by (induction rule: rtranclp_induct) (auto dest!: managed_server_no_error)
  with inv have st: "sm_status m \<in> {CS_Running, CS_Stopped}" by (cases "sm_status m") (auto simp: managed_inv_def)
  have same: "ssc_status (sm_component m) = sm_status m" "sm_config m = ssc_config (sm_component m)"
    using inv st by (auto simp: managed_inv_def sync_server_def)
  have tasks: "{''metrics_collection'', ''health_monitoring''} \<subseteq> snd ` set (tm_live (sm_tasks m))" if "sm_status m = CS_Running"
    using inv that by (simp add: managed_inv_def watched_live)
  have health: "ch_is_healthy (server_health_check now' (sm_component m)) \<longleftrightarrow> sm_status m = CS_Running"
    using managed_server.healthy_running [of my ns parse_addr now' "sm_component m"] same by (simp add: sync_server_def)
  show ?thesis
    using st same health tasks inv unfolding managed_inv_def by blast
qed

text \<open>
  C37: a second start leaves the monitoring tasks of the first one without a handle.  Whatever is done
  afterwards, stops and restarts included, these tasks run as long as the process.
\<close>
theorem second_start_leaks_tasks:
  assumes "create_sync_server env dr db db' my ns parse_addr blobs sv w t t0 server cat = (Ok m0, cat')"
    and "(managed_step (sync_server my ns parse_addr))\<^sup>*\<^sup>* m0 m" "sm_status m = CS_Running"
    and "manager_start (sync_server my ns parse_addr) now m = Some (r, m1)"
    and "(managed_step (sync_server my ns parse_addr))\<^sup>*\<^sup>* m1 m'"
  shows "\<exists>i j. orphan (i, ''metrics_collection'') (sm_tasks m') \<and> orphan (j, ''health_monitoring'') (sm_tasks m')"
proof -
  let ?ci = "sync_server my ns parse_addr"
  have inv: "managed_inv ?ci m"
    using create_sync_server_inv [OF assms(1)] managed_server.managed_inv_steps [OF assms(2)] by blast
  then obtain i j where h: "hm_get (tm_tasks (sm_tasks m)) ''metrics_collection'' = Some i"
      "hm_get (tm_tasks (sm_tasks m)) ''health_monitoring'' = Some j" and ok: "tasks_ok (sm_tasks m)"
    using assms(3) by (auto simp: managed_inv_def watched_def)
  have tasks1: "sm_tasks m1 = add_task ''health_monitoring'' (add_task ''metrics_collection'' (sm_tasks m))"
    using assms(4) by (auto simp: manager_start_def start_monitoring_tasks_def Let_def split: option.splits prod.splits sum.splits)
  have "hm_get (tm_tasks (add_task ''metrics_collection'' (sm_tasks m))) ''health_monitoring'' = Some j"
    using h by (simp add: add_task_def hm_get_insert)
  then have o1: "orphan (i, ''metrics_collection'') (sm_tasks m1)" "orphan (j, ''health_monitoring'') (sm_tasks m1)"
    using ok h by (auto simp: tasks1 intro: orphan_add orphan_replaced)
  have keep: "orphan task (sm_tasks y)" if "managed_step ?ci x y" "orphan task (sm_tasks x)" for x y task
    using that
    by (induction rule: managed_step_induct)
      (auto simp: manager_start_def manager_stop_def manager_update_config_def metrics_tick_def health_tick_def Let_def
        start_monitoring_tasks_def split: option.splits prod.splits sum.splits intro: orphan_add orphan_stop_all)
  have "orphan task (sm_tasks m')" if "orphan task (sm_tasks m1)" for task
    using assms(5) that by (induction rule: rtranclp_induct) (auto intro: keep)
  then show ?thesis using o1 by blast
qed

section \<open>Examples\<close>

text \<open>A server in memory, its start, and its second start.\<close>

definition demo_server :: server_config where
  "demo_server = \<lparr>sc_host = ''127.0.0.1'', sc_port = 50051, sc_storage_path = None, sc_worker_threads = 4, sc_auth_token_expiry_hours = 24,
     sc_max_file_size = 1000, sc_max_concurrent_requests = 10, sc_heartbeat_interval_secs = 10\<rparr>"

abbreviation demo_component :: "(sync_server_component, server_config, server_metrics) component" where
  "demo_component \<equiv> sync_server (sample_my None) (\<lambda>_. ([], [])) (\<lambda>_. Ok ())"

definition demo_manager :: "(sync_server_component, server_config, server_metrics) service_manager" where
  "demo_manager = service_manager_new demo_component 0
     (sync_component_of demo_server (fst (app_state_new_with_storage demo_env demo_server None)) Memory_Backend [])"

lemma demo_created:
  "create_sync_server demo_env demo_drivers demo_dbms demo_dbms (sample_my None) (\<lambda>_. ([], [])) (\<lambda>_. Ok ()) []
     (demo_s3 True) [] [] 0 demo_server [] = (Ok demo_manager, [])"
  by (simp add: create_sync_server_def sync_component_new_def init_storage_legacy_def initialize_file_storage_with_storage_def
      demo_files demo_manager_def demo_server_def)

lemma demo_start: "sm_component m = s \<Longrightarrow> ssc_storage s = Memory_Backend \<Longrightarrow>
    \<exists>m'. manager_start demo_component now m = Some (Ok (), m') \<and> sm_status m' = CS_Running \<and>
      ssc_storage (sm_component m') = Memory_Backend"
  by (auto simp: manager_start_def start_monitoring_tasks_def sync_server_def sync_server_start_def start_migration_def Let_def
      split: option.splits)

lemma demo_started: "\<exists>m. manager_start demo_component 5 demo_manager = Some (Ok (), m) \<and> sm_status m = CS_Running \<and>
    ssc_storage (sm_component m) = Memory_Backend"
  by (rule demo_start [OF refl]) (simp add: demo_manager_def service_manager_new_def sync_component_of_def)

theorem managed_server_consistent_witness:
  "\<exists>m. manager_start demo_component 5 demo_manager = Some (Ok (), m) \<and> ssc_status (sm_component m) = CS_Running \<and>
    ch_is_healthy (server_health_check 9 (sm_component m)) \<and> ''health_monitoring'' \<in> snd ` set (tm_live (sm_tasks m))"
proof -
  obtain m where m: "manager_start demo_component 5 demo_manager = Some (Ok (), m)" "sm_status m = CS_Running" using demo_started by blast
  have "(managed_step demo_component)\<^sup>*\<^sup>* demo_manager m" by (rule r_into_rtranclp, rule ms_start, rule m(1))
  from managed_server_consistent [OF demo_created this, of 9] m show ?thesis by auto
qed

theorem second_start_leaks_tasks_witness:
  "\<exists>m m1 m' i j. manager_start demo_component 5 demo_manager = Some (Ok (), m) \<and> manager_start demo_component 6 m = Some (Ok (), m1) \<and>
    manager_stop demo_component m1 = (Ok (), m') \<and>
    orphan (i, ''metrics_collection'') (sm_tasks m') \<and> orphan (j, ''health_monitoring'') (sm_tasks m')"
proof -
  obtain m where m: "manager_start demo_component 5 demo_manager = Some (Ok (), m)" "sm_status m = CS_Running"
    "ssc_storage (sm_component m) = Memory_Backend" using demo_started by blast
  obtain m1 where m1: "manager_start demo_component 6 m = Some (Ok (), m1)" using demo_start [OF refl m(3)] by blast
  obtain m' where m': "manager_stop demo_component m1 = (Ok (), m')"
    by (simp add: manager_stop_def sync_server_def server_stop_def Let_def)
  have run: "(managed_step demo_component)\<^sup>*\<^sup>* demo_manager m" "(managed_step demo_component)\<^sup>*\<^sup>* m1 m'"
    using ms_start [OF m(1)] ms_stop [OF m'] by blast+
  from second_start_leaks_tasks [OF demo_created run(1) m(2) m1 run(2)] m m1 m' show ?thesis by blast
qed

end
