(* ===== verification/Broker.thy ===== *)
theory Broker
  imports Startup
begin

text \<open>
  Messages over RabbitMQ: the event bus of \<^verbatim>\<open>src/server/event_bus.rs\<close> and the separate consumer,
  \<^verbatim>\<open>src/bin/rabbit_consumer.rs\<close>.  The broker, Redis and the JSON parser are parameters; what the
  consumer sends to the broker is the list of its commands.
\<close>

section \<open>Commands to the broker\<close>

datatype broker_command =
    Exchange_Declare string bool \<comment> \<open>a topic exchange, durable or not\<close>
  | Basic_Qos "16 word"
  | Queue_Declare string bool "string option" "32 word option" \<comment> \<open>exclusive and deleted at the end; dead-letter exchange; time to live\<close>
  | Queue_Bind string string string \<comment> \<open>queue, exchange, binding key\<close>
  | Basic_Consume string
  | Basic_Publish string string "32 word option" bytes \<comment> \<open>exchange, routing key, \<^verbatim>\<open>x-retry-count\<close>, body\<close>
  | Basic_Ack u64

text \<open>A sequence of commands with \<^verbatim>\<open>?\<close> after each: it ends at the first one the broker refuses.\<close>

fun try_commands :: "(broker_command \<Rightarrow> (string, unit) result) \<Rightarrow> broker_command list \<Rightarrow> (string, unit) result \<times> broker_command list" where
  "try_commands answer [] = (Ok (), [])"
| "try_commands answer (c # cs) =
     (case answer c of
        Inl e \<Rightarrow> (Err e, [c])
      | Inr _ \<Rightarrow> (case try_commands answer cs of (r, done) \<Rightarrow> (r, c # done)))"

section \<open>The event bus\<close>

text \<open>
  A connected bus keeps exchange, queue prefix and prefetch count of its configuration.  The first argument of
  \<open>rabbit_connect\<close> is whether connection and channel could be opened.
\<close>

definition rabbit_connect ::
    "(string, unit) result \<Rightarrow> (broker_command \<Rightarrow> (string, unit) result) \<Rightarrow> broker_config
     \<Rightarrow> (string, event_bus) result \<times> broker_command list" where
  "rabbit_connect opened answer cfg =
     (case opened of
        Inl e \<Rightarrow> (Err e, [])
      | Inr _ \<Rightarrow>
          (case try_commands answer [Exchange_Declare (mb_exchange cfg) (mb_durable cfg), Basic_Qos (mb_prefetch cfg)] of
             (Inl e, cs) \<Rightarrow> (Err e, cs)
           | (Inr _, cs) \<Rightarrow> (Ok (Rabbit_Bus cfg), cs)))"

definition bus_publish ::
    "(broker_command \<Rightarrow> (string, unit) result) \<Rightarrow> event_bus \<Rightarrow> string \<Rightarrow> bytes \<Rightarrow> (string, unit) result \<times> broker_command list" where
  "bus_publish answer bus routing_key payload =
     (case bus of
        Noop_Bus \<Rightarrow> (Ok (), [])
      | Rabbit_Bus b \<Rightarrow> try_commands answer [Basic_Publish (mb_exchange b) routing_key None payload])"

text \<open>
  The number is the room of the channel of the stream, which for the idle bus is closed from the start; \<open>None\<close>
  is the panic of the channel that is created with no room.
\<close>

definition bus_subscribe ::
    "(broker_command \<Rightarrow> (string, unit) result) \<Rightarrow> string \<Rightarrow> event_bus \<Rightarrow> string \<Rightarrow> (string, nat) result option \<times> broker_command list" where
  "bus_subscribe answer nanoid bus binding_key =
     (case bus of
        Noop_Bus \<Rightarrow> (Some (Ok 1), [])
      | Rabbit_Bus b \<Rightarrow>
          (let qname = mb_queue_prefix b @ ''.'' @ nanoid in
           case try_commands answer [Queue_Declare qname True None None, Queue_Bind qname (mb_exchange b) binding_key] of
             (Inl e, cs) \<Rightarrow> (Some (Err e), cs)
           | (Inr _, cs) \<Rightarrow>
               if mb_prefetch b = 0 then (None, cs)
               else (case try_commands answer [Basic_Consume qname] of
                       (Inl e, cs') \<Rightarrow> (Some (Err e), cs @ cs')
                     | (Inr _, cs') \<Rightarrow> (Some (Ok (unat (mb_prefetch b))), cs @ cs'))))"

text \<open>
  The task behind a subscription hands each message on and acknowledges it, whether the receiver took it
  or is gone.  \<open>open_for\<close> is the number of messages after which the receiver goes away.
\<close>

fun forward_messages :: "nat \<Rightarrow> (string, u64 \<times> bytes) result list \<Rightarrow> bytes list \<times> broker_command list" where
  "forward_messages open_for [] = ([], [])"
| "forward_messages open_for (Inl e # ds) = forward_messages open_for ds"
| "forward_messages open_for (Inr (tag, data) # ds) =
     (case forward_messages (open_for - 1) ds of
        (received, cs) \<Rightarrow> (if open_for > 0 then data # received else received, Basic_Ack tag # cs))"

section \<open>The consumer\<close>

definition replace_char :: "char \<Rightarrow> string \<Rightarrow> string \<Rightarrow> string" where
  "replace_char c r s = concat (map (\<lambda>x. if x = c then r else [x]) s)"

definition sanitize_binding_key :: "string \<Rightarrow> string" where
  "sanitize_binding_key key =
     replace_char (CHR ''.'') ''_'' (replace_char (CHR ''#'') ''hash'' (replace_char (CHR ''*'') ''star'' key))"

text \<open>
  \<open>js\<close> is the JSON parser with the lookup of a string under \<^verbatim>\<open>id\<close>: \<open>None\<close> when the bytes are no JSON text.
\<close>

definition payload_id :: "(bytes \<Rightarrow> string option option) \<Rightarrow> bytes \<Rightarrow> string" where
  "payload_id js body =
     (case (if as_bytes (from_utf8_lossy body) = body then js body else None) of
        Some (Some i) \<Rightarrow> i
      | _ \<Rightarrow> ''h:'' @ show_nat (length body))"

text \<open>Marking an identifier as seen says whether it is new; \<open>None\<close> is a panic.\<close>

definition mark_seen_id :: "string \<Rightarrow> string set \<Rightarrow> (bool \<times> string set) option" where
  "mark_seen_id i seen = Some (i \<notin> seen, insert i seen)"

text \<open>
  With Redis an unknown host and an error count as seen, and a failing connection panics.
  The parameters are the connection and \<^verbatim>\<open>SET id 1 NX EX ttl\<close>.
\<close>

record 'w redis_driver =
  rd_connect :: "string \<Rightarrow> bool"
  rd_set_nx :: "string \<Rightarrow> i64 \<Rightarrow> 'w \<Rightarrow> (string, bool) result \<times> 'w"

definition consumer_redis_url :: "process_env \<Rightarrow> string option" where
  "consumer_redis_url env =
     (case pe_var env ''REDIS_HOST'' of
        Some (h # hs) \<Rightarrow>
          Some (''redis://'' @ (h # hs) @ '':'' @ show_nat (unat (env_parse env parse_u16 ''REDIS_PORT'' 6379)) @ ''/0'')
      | _ \<Rightarrow> None)"

definition mark_seen_id_redis :: "process_env \<Rightarrow> 'w redis_driver \<Rightarrow> string \<Rightarrow> 'w \<Rightarrow> (bool \<times> 'w) option" where
  "mark_seen_id_redis env rd i w =
     (case consumer_redis_url env of
        None \<Rightarrow> Some (False, w)
      | Some url \<Rightarrow>
          if \<not> rd_connect rd url then None
          else (case rd_set_nx rd i (env_parse env parse_i64 ''IDEMPOTENCY_TTL_SECS'' 3600) w of
                  (Inr fresh, w') \<Rightarrow> Some (fresh, w') | (Inl e, w') \<Rightarrow> Some (False, w')))"

datatype amqp_value = LongInt i32 | LongUInt "32 word" | Other_Value

record delivery =
  dv_tag :: u64
  dv_routing_key :: string
  dv_retry_count :: "amqp_value option"
  dv_data :: bytes

definition attempts_of :: "amqp_value option \<Rightarrow> 32 word" where
  "attempts_of header =
     (case header of Some (LongInt n) \<Rightarrow> word_of_int (max n 0) | Some (LongUInt n) \<Rightarrow> n | _ \<Rightarrow> 0)"

text \<open>The sum wraps around at \<^verbatim>\<open>u32::MAX\<close>, as in a release build.\<close>

definition handle_delivery ::
    "(bytes \<Rightarrow> string option option) \<Rightarrow> (string \<Rightarrow> 's \<Rightarrow> (bool \<times> 's) option) \<Rightarrow> 32 word \<Rightarrow> string \<Rightarrow> string \<Rightarrow> delivery \<Rightarrow> 's
     \<Rightarrow> (broker_command list \<times> 's) option" where
  "handle_delivery js mark max_retries exchange dlx d seen =
     (let body = dv_data d; i = payload_id js body in
      case mark i seen of
        None \<Rightarrow> None
      | Some (is_new, seen') \<Rightarrow> Some
          (if \<not> is_new then ([Basic_Ack (dv_tag d)], seen')
           else
             let attempts = attempts_of (dv_retry_count d) in
             if js body \<noteq> None then ([Basic_Ack (dv_tag d)], seen')
             else if attempts + 1 \<ge> max_retries
             then ([Basic_Publish dlx (dv_routing_key d) (Some (attempts + 1)) body, Basic_Ack (dv_tag d)], seen')
             else ([Basic_Publish exchange (dv_routing_key d) (Some (attempts + 1)) body, Basic_Ack (dv_tag d)], seen')))"

text \<open>
  The loop over the stream; errors of the stream are only logged, the answers to the commands ignored, and a
  panic ends the loop.
\<close>

fun consume ::
    "(bytes \<Rightarrow> string option option) \<Rightarrow> (string \<Rightarrow> 's \<Rightarrow> (bool \<times> 's) option) \<Rightarrow> 32 word \<Rightarrow> string \<Rightarrow> string
     \<Rightarrow> (string, delivery) result list \<Rightarrow> 's \<Rightarrow> broker_command list" where
  "consume js mark max_retries exchange dlx [] seen = []"
| "consume js mark max_retries exchange dlx (Inl e # ds) seen = consume js mark max_retries exchange dlx ds seen"
| "consume js mark max_retries exchange dlx (Inr d # ds) seen =
     (case handle_delivery js mark max_retries exchange dlx d seen of
        None \<Rightarrow> []
      | Some (cs, seen1) \<Rightarrow> cs @ consume js mark max_retries exchange dlx ds seen1)"

definition consumer_keys :: "string list" where
  "consumer_keys = [''file.*.#'', ''version.*.#'', ''device.*.#'', ''watcher.*.update.#'']"

definition consumer_queue :: "broker_config \<Rightarrow> string \<Rightarrow> string" where
  "consumer_queue cfg key = mb_queue_prefix cfg @ ''.'' @ ''consumer'' @ ''.'' @ sanitize_binding_key key"

definition dlx_exchange :: "broker_config \<Rightarrow> string" where
  "dlx_exchange cfg = mb_exchange cfg @ ''.dlx''"

definition queue_setup :: "broker_config \<Rightarrow> 32 word \<Rightarrow> string \<Rightarrow> broker_command list" where
  "queue_setup cfg retry_ttl_ms key =
     (let qmain = consumer_queue cfg key; qretry = qmain @ ''.retry''; qdlq = qmain @ ''.dlq'' in
      [Queue_Declare qmain False (Some (dlx_exchange cfg)) None,
       Queue_Bind qmain (mb_exchange cfg) key,
       Queue_Declare qretry False (Some (mb_exchange cfg)) (Some retry_ttl_ms),
       Queue_Bind qretry (mb_exchange cfg) key,
       Queue_Declare qdlq False None None,
       Queue_Bind qdlq (dlx_exchange cfg) ''#'',
       Basic_Consume qmain])"

definition consumer_task ::
    "process_env \<Rightarrow> (bytes \<Rightarrow> string option option) \<Rightarrow> (string \<Rightarrow> 's \<Rightarrow> (bool \<times> 's) option) \<Rightarrow> (string, delivery) result list \<Rightarrow> 's
     \<Rightarrow> broker_command list" where
  "consumer_task env js mark ds seen =
     (let cfg = broker_config_load env in
      consume js mark (env_parse env parse_u32 ''MAX_RETRIES'' 3) (mb_exchange cfg) (dlx_exchange cfg) ds seen)"

definition consumer_main ::
    "process_env \<Rightarrow> (string, unit) result \<Rightarrow> (broker_command \<Rightarrow> (string, unit) result) \<Rightarrow> (string, unit) result \<times> broker_command list" where
  "consumer_main env opened answer =
     (let cfg = broker_config_load env in
      if \<not> mb_enabled cfg then (Ok (), [])
      else
        (case rabbit_connect opened answer cfg of
           (Inl e, cs) \<Rightarrow> (Err e, cs)
         | (Inr bus, cs) \<Rightarrow>
             (case try_commands answer (Exchange_Declare (dlx_exchange cfg) True #
                 concat (map (queue_setup cfg (env_parse env parse_u32 ''RETRY_TTL_MS'' 5000)) consumer_keys)) of
                (r, cs') \<Rightarrow> (r, cs @ cs'))))"

section \<open>What the consumer does with a message\<close>

text \<open>The messages with an identifier that a list of commands publishes, and the deliveries it acknowledges.\<close>

fun publishes_id :: "(bytes \<Rightarrow> string option option) \<Rightarrow> string \<Rightarrow> broker_command \<Rightarrow> bool" where
  "publishes_id js i (Basic_Publish _ _ _ body) = (payload_id js body = i)"
| "publishes_id js i _ = False"

definition is_ack :: "broker_command \<Rightarrow> bool" where
  "is_ack c \<longleftrightarrow> (case c of Basic_Ack _ \<Rightarrow> True | _ \<Rightarrow> False)"

lemma handle_delivery_acks:
  "handle_delivery js mark n ex dlx d seen = Some (cs, seen') \<Longrightarrow> filter is_ack cs = [Basic_Ack (dv_tag d)]"
  by (auto simp: handle_delivery_def Let_def is_ack_def split: option.splits prod.splits if_splits)

lemma seen_not_published:
  "i \<in> seen \<Longrightarrow> filter (publishes_id js i) (consume js mark_seen_id n ex dlx ds seen) = []"
proof (induction ds arbitrary: seen)
  case (Cons d ds)
  show ?case
  proof (cases d)
    case (Inr v)
    have "i \<in> insert (payload_id js (dv_data v)) seen" using Cons.prems by simp
    from Cons.IH [OF this] Cons.prems show ?thesis by (auto simp: Inr handle_delivery_def mark_seen_id_def Let_def)
  qed (simp add: Cons)
qed simp

text \<open>
  Every delivery is acknowledged exactly once, in the order of arrival, whatever happens to its message.
\<close>
theorem consumer_acks_all:
  "filter is_ack (consume js mark_seen_id max_retries exchange dlx ds seen) =
     map (Basic_Ack \<circ> dv_tag) (concat (map (\<lambda>d. case d of Inl e \<Rightarrow> [] | Inr v \<Rightarrow> [v]) ds))"
proof (induction ds arbitrary: seen)
  case (Cons d ds)
  show ?case
  proof (cases d)
    case (Inr v)
    obtain cs seen1 where run: "handle_delivery js mark_seen_id max_retries exchange dlx v seen = Some (cs, seen1)"
      by (cases "handle_delivery js mark_seen_id max_retries exchange dlx v seen") (auto simp: handle_delivery_def mark_seen_id_def Let_def)
    then show ?thesis by (simp add: Inr handle_delivery_acks [OF run] Cons)
  qed (simp add: Cons)
qed simp

text \<open>
  C35: in the build without the feature \<^verbatim>\<open>redis-cache\<close>, whose identifiers of seen messages are a set in memory, retries are never handled.  A
  message that is no JSON and whose identifier is new is published exactly once, to the exchange again or, when this
  delivery is the last allowed one, to the dead letters.  Whatever is delivered later to the same consumer, no message with that identifier is
  published or handled any more: the retry itself is acknowledged and dropped, and so is every other unreadable message of
  the same length, which has the same identifier.
\<close>
theorem retry_dropped_as_duplicate:
  assumes "js (dv_data d) = None" "payload_id js (dv_data d) \<notin> seen"
  shows "filter (publishes_id js (payload_id js (dv_data d))) (consume js mark_seen_id max_retries exchange dlx (Inr d # ds) seen) =
      [Basic_Publish (if attempts_of (dv_retry_count d) + 1 \<ge> max_retries then dlx else exchange) (dv_routing_key d)
         (Some (attempts_of (dv_retry_count d) + 1)) (dv_data d)] \<and>
    (\<forall>v s. payload_id js (dv_data v) \<in> s \<longrightarrow>
       handle_delivery js mark_seen_id max_retries exchange dlx v s = Some ([Basic_Ack (dv_tag v)], s)) \<and>
    (\<forall>b. js b = None \<and> length b = length (dv_data d) \<longrightarrow> payload_id js b = payload_id js (dv_data d))"
proof -
  have same: "payload_id js b = payload_id js (dv_data d)" if "js b = None" "length b = length (dv_data d)" for b
    using that assms(1) by (simp add: payload_id_def)
  let ?i = "payload_id js (dv_data d)"
  have run: "handle_delivery js mark_seen_id max_retries exchange dlx d seen =
      Some ([Basic_Publish (if attempts_of (dv_retry_count d) + 1 \<ge> max_retries then dlx else exchange) (dv_routing_key d)
         (Some (attempts_of (dv_retry_count d) + 1)) (dv_data d), Basic_Ack (dv_tag d)], insert ?i seen)"
    using assms by (simp add: handle_delivery_def mark_seen_id_def Let_def)
  have rest: "filter (publishes_id js ?i) (consume js mark_seen_id max_retries exchange dlx ds (insert ?i seen)) = []"
    by (rule seen_not_published) simp
  have seen: "handle_delivery js mark_seen_id max_retries exchange dlx v s = Some ([Basic_Ack (dv_tag v)], s)"
    if "payload_id js (dv_data v) \<in> s" for v s
    using that by (simp add: handle_delivery_def mark_seen_id_def Let_def insert_absorb)
  show ?thesis using same seen by (simp only: consume.simps run option.case prod.case filter_append rest) simp
qed

text \<open>With Redis an event is lost while Redis does not answer: it is acknowledged, and nothing else happens.\<close>

lemma redis_error_loses_event:
  assumes "consumer_redis_url env = Some url" "rd_connect rd url" "\<And>i ttl w. \<exists>e. rd_set_nx rd i ttl w = (Err e, w)"
  shows "handle_delivery js (mark_seen_id_redis env rd) n ex dlx d w = Some ([Basic_Ack (dv_tag d)], w)"
  using assms(1,2) assms(3) [of "payload_id js (dv_data d)" "env_parse env parse_i64 ''IDEMPOTENCY_TTL_SECS'' 3600" w]
  by (auto simp: handle_delivery_def mark_seen_id_redis_def Let_def)

definition demo_delivery :: "u64 \<Rightarrow> bytes \<Rightarrow> delivery" where
  "demo_delivery tag body = \<lparr>dv_tag = tag, dv_routing_key = ''file.uploaded.a'', dv_retry_count = None, dv_data = body\<rparr>"

theorem retry_dropped_as_duplicate_witness:
  "filter (publishes_id (\<lambda>_. None) ''h:2'')
     (consume (\<lambda>_. None) mark_seen_id 3 ''ex'' ''ex.dlx'' [Inr (demo_delivery 1 [1, 2]), Inr ((demo_delivery 2 [1, 2])\<lparr>dv_retry_count := Some (LongUInt 1)\<rparr>),
        Inr (demo_delivery 3 [7, 7])] {}) =
   [Basic_Publish ''ex'' ''file.uploaded.a'' (Some 1) [1, 2]]"
proof -
  have i: "payload_id (\<lambda>_. None) (dv_data (demo_delivery 1 [1, 2])) = ''h:2''"
    by (simp add: payload_id_def demo_delivery_def show_nat.simps digit_char_def char_of_def bit_simps)
  from retry_dropped_as_duplicate [of "\<lambda>_. None" "demo_delivery 1 [1, 2]" "{}" 3 "''ex''" "''ex.dlx''"] show ?thesis
    unfolding i by (simp add: demo_delivery_def attempts_of_def word_le_nat_alt del: consume.simps)
qed

end
