(* ===== verification/Monitoring.thy ===== *)
theory Monitoring
  imports Startup
begin

text \<open>
  What operators see and how services are put together: the counters of \<^verbatim>\<open>src/monitoring.rs\<close>, the health
  endpoints of \<^verbatim>\<open>src/handlers/health.rs\<close>, and the container of \<^verbatim>\<open>src/container\<close> with its registry and the
  start through it.  The rates of the summary are binary floating-point numbers and are left out.
\<close>

section \<open>Counters\<close>

record performance_metrics =
  pm_total_requests :: u64
  pm_successful_requests :: u64
  pm_failed_requests :: u64
  pm_active_requests :: u64
  pm_total_response_time :: u64
  pm_max_response_time :: u64
  pm_min_response_time :: u64
  pm_bytes_transferred :: u64
  pm_files_processed :: u64
  pm_memory_usage_bytes :: u64
  pm_cpu_usage_percent :: u64
  pm_db_connections_active :: u64
  pm_db_connections_idle :: u64
  pm_db_query_count :: u64
  pm_db_slow_queries :: u64
  pm_cache_hits :: u64
  pm_cache_misses :: u64
  pm_cache_evictions :: u64
  pm_timeout_count :: u64
  pm_rate_limit_hits :: u64

definition performance_metrics_default :: performance_metrics where
  "performance_metrics_default =
     \<lparr>pm_total_requests = 0, pm_successful_requests = 0, pm_failed_requests = 0, pm_active_requests = 0,
      pm_total_response_time = 0, pm_max_response_time = 0, pm_min_response_time = 0, pm_bytes_transferred = 0,
      pm_files_processed = 0, pm_memory_usage_bytes = 0, pm_cpu_usage_percent = 0, pm_db_connections_active = 0,
      pm_db_connections_idle = 0, pm_db_query_count = 0, pm_db_slow_queries = 0, pm_cache_hits = 0, pm_cache_misses = 0,
      pm_cache_evictions = 0, pm_timeout_count = 0, pm_rate_limit_hits = 0\<rparr>"

definition record_request_start :: "performance_metrics \<Rightarrow> performance_metrics" where
  "record_request_start m =
     m\<lparr>pm_total_requests := pm_total_requests m + 1, pm_active_requests := pm_active_requests m + 1\<rparr>"

text \<open>The duration is in milliseconds, as \<^verbatim>\<open>as_millis\<close> gives it; it is cut to 64 bits.\<close>

definition record_request_complete :: "nat \<Rightarrow> bool \<Rightarrow> performance_metrics \<Rightarrow> performance_metrics" where
  "record_request_complete duration success m =
     (let m1 = m\<lparr>pm_active_requests := pm_active_requests m - 1\<rparr>;
          m2 = (if success then m1\<lparr>pm_successful_requests := pm_successful_requests m1 + 1\<rparr>
                else m1\<lparr>pm_failed_requests := pm_failed_requests m1 + 1\<rparr>);
          duration_ms = of_nat duration;
          m3 = m2\<lparr>pm_total_response_time := pm_total_response_time m2 + duration_ms\<rparr>;
          m4 = (if duration_ms > pm_max_response_time m3 then m3\<lparr>pm_max_response_time := duration_ms\<rparr> else m3)
      in if pm_min_response_time m4 = 0 \<or> duration_ms < pm_min_response_time m4
         then m4\<lparr>pm_min_response_time := duration_ms\<rparr> else m4)"

definition record_bytes_transferred :: "u64 \<Rightarrow> performance_metrics \<Rightarrow> performance_metrics" where
  "record_bytes_transferred bytes m = m\<lparr>pm_bytes_transferred := pm_bytes_transferred m + bytes\<rparr>"

definition record_file_processed :: "performance_metrics \<Rightarrow> performance_metrics" where
  "record_file_processed m = m\<lparr>pm_files_processed := pm_files_processed m + 1\<rparr>"

definition update_memory_usage :: "u64 \<Rightarrow> performance_metrics \<Rightarrow> performance_metrics" where
  "update_memory_usage bytes m = m\<lparr>pm_memory_usage_bytes := bytes\<rparr>"

definition update_db_connections :: "u64 \<Rightarrow> u64 \<Rightarrow> performance_metrics \<Rightarrow> performance_metrics" where
  "update_db_connections busy idle m = m\<lparr>pm_db_connections_active := busy, pm_db_connections_idle := idle\<rparr>"

definition record_db_query :: "bool \<Rightarrow> performance_metrics \<Rightarrow> performance_metrics" where
  "record_db_query is_slow m =
     (let m1 = m\<lparr>pm_db_query_count := pm_db_query_count m + 1\<rparr> in
      if is_slow then m1\<lparr>pm_db_slow_queries := pm_db_slow_queries m1 + 1\<rparr> else m1)"

definition record_cache_hit :: "performance_metrics \<Rightarrow> performance_metrics" where
  "record_cache_hit m = m\<lparr>pm_cache_hits := pm_cache_hits m + 1\<rparr>"

definition record_cache_miss :: "performance_metrics \<Rightarrow> performance_metrics" where
  "record_cache_miss m = m\<lparr>pm_cache_misses := pm_cache_misses m + 1\<rparr>"

definition record_cache_eviction :: "performance_metrics \<Rightarrow> performance_metrics" where
  "record_cache_eviction m = m\<lparr>pm_cache_evictions := pm_cache_evictions m + 1\<rparr>"

definition record_timeout :: "performance_metrics \<Rightarrow> performance_metrics" where
  "record_timeout m = m\<lparr>pm_timeout_count := pm_timeout_count m + 1\<rparr>"

definition record_rate_limit_hit :: "performance_metrics \<Rightarrow> performance_metrics" where
  "record_rate_limit_hit m = m\<lparr>pm_rate_limit_hits := pm_rate_limit_hits m + 1\<rparr>"

definition calculate_percentile :: "32 word \<Rightarrow> performance_metrics \<Rightarrow> u64" where
  "calculate_percentile percentile m =
     pm_min_response_time m + (pm_max_response_time m - pm_min_response_time m) * 95 div 100"

text \<open>The fields of the summary that are computed from the counters without floating point.\<close>

record performance_summary =
  su_uptime_seconds :: u64
  su_avg_response_time_ms :: u64
  su_p95_response_time_ms :: u64
  su_p99_response_time_ms :: u64
  su_counters :: performance_metrics

definition get_performance_summary :: "u64 \<Rightarrow> performance_metrics \<Rightarrow> performance_summary" where
  "get_performance_summary uptime m =
     \<lparr>su_uptime_seconds = uptime,
      su_avg_response_time_ms =
        (if pm_total_requests m > 0 then pm_total_response_time m div pm_total_requests m else 0),
      su_p95_response_time_ms = calculate_percentile 95 m, su_p99_response_time_ms = calculate_percentile 99 m,
      su_counters = m\<rparr>"

definition reset_metrics :: "performance_metrics \<Rightarrow> performance_metrics" where
  "reset_metrics m =
     m\<lparr>pm_total_requests := 0, pm_successful_requests := 0, pm_failed_requests := 0, pm_active_requests := 0,
       pm_total_response_time := 0, pm_max_response_time := 0, pm_min_response_time := 0, pm_bytes_transferred := 0,
       pm_files_processed := 0, pm_cache_hits := 0, pm_cache_misses := 0, pm_cache_evictions := 0, pm_db_query_count := 0,
       pm_db_slow_queries := 0, pm_timeout_count := 0, pm_rate_limit_hits := 0\<rparr>"

section \<open>Health endpoints\<close>

definition cargo_pkg_version :: string where
  "cargo_pkg_version = ''2.0.0''"

record health_check_response =
  hr_status :: string
  hr_version :: string

definition handle_health_check :: "(status, health_check_response) result" where
  "handle_health_check = Ok \<lparr>hr_status = ''SERVING'', hr_version = cargo_pkg_version\<rparr>"

text \<open>The HTTP status and the fields of the answer that depend on the server; the rest is the version and the time.\<close>

record readiness =
  rn_code :: nat
  rn_status :: string
  rn_database :: bool
  rn_message_broker_enabled :: bool

definition storage_health :: "storage_backend \<Rightarrow> bool sres" where
  "storage_health b = (case b of Memory_Backend \<Rightarrow> Ok True | Mysql_Backend _ \<Rightarrow> my_health_check)"

definition readiness_check :: "process_env \<Rightarrow> config option \<Rightarrow> storage_backend \<Rightarrow> readiness" where
  "readiness_check env app storage =
     (let storage_ok = (case storage_health storage of Inr b \<Rightarrow> b | Inl _ \<Rightarrow> False);
          broker = mb_enabled (cf_message_broker (get_config env app)) in
      \<lparr>rn_code = (if storage_ok then 200 else 503), rn_status = (if storage_ok then ''ready'' else ''degraded''),
       rn_database = storage_ok, rn_message_broker_enabled = broker\<rparr>)"

record health_detail =
  hd_code :: nat
  hd_host :: string
  hd_grpc_port :: "16 word"
  hd_http_port :: "16 word"
  hd_storage_type :: storage_type
  hd_message_broker_enabled :: bool
  hd_database :: bool
  hd_redis_enabled :: bool

definition health_details :: "process_env \<Rightarrow> config option \<Rightarrow> storage_backend \<Rightarrow> health_detail" where
  "health_details env app storage =
     (let cfg = get_config env app; storage_ok = (case storage_health storage of Inr b \<Rightarrow> b | Inl _ \<Rightarrow> False) in
      \<lparr>hd_code = (if storage_ok then 200 else 503), hd_host = sc_host (cf_server cfg), hd_grpc_port = sc_port (cf_server cfg),
       hd_http_port = 8080, hd_storage_type = st_storage_type (cf_storage cfg),
       hd_message_broker_enabled = mb_enabled (cf_message_broker cfg), hd_database = storage_ok,
       hd_redis_enabled = rc_enabled (cf_redis cfg)\<rparr>)"

section \<open>The container\<close>

text \<open>The container holds the configuration and the storage; its services are views of the storage.\<close>

record container_builder =
  cb_config :: "config option"
  cb_storage :: "storage_backend option"

definition container_builder_new :: container_builder where
  "container_builder_new = \<lparr>cb_config = None, cb_storage = None\<rparr>"

record app_container =
  ac_storage :: storage_backend
  ac_config :: config

definition container_build ::
    "process_env \<Rightarrow> drivers \<Rightarrow> dbms \<Rightarrow> dbms \<Rightarrow> container_builder \<Rightarrow> catalogue \<Rightarrow> (sync_error, app_container) result \<times> catalogue" where
  "container_build env dr db db' b cat =
     (let config = or_default (cb_config b) (config_load env) in
      case cb_storage b of
        Some storage \<Rightarrow> (Ok \<lparr>ac_storage = storage, ac_config = config\<rparr>, cat)
      | None \<Rightarrow>
          if fl_test_mode (cf_features config) then (Ok \<lparr>ac_storage = Memory_Backend, ac_config = config\<rparr>, cat)
          else (case init_storage dr db db' (cf_database config) cat of
                  (Inl e, cat1) \<Rightarrow> (Err e, cat1)
                | (Inr storage, cat1) \<Rightarrow> (Ok \<lparr>ac_storage = storage, ac_config = config\<rparr>, cat1)))"

definition build_dev ::
    "process_env \<Rightarrow> drivers \<Rightarrow> dbms \<Rightarrow> dbms \<Rightarrow> catalogue \<Rightarrow> (sync_error, app_container) result \<times> catalogue" where
  "build_dev env dr db db' =
     container_build env dr db db' (container_builder_new\<lparr>cb_config := Some (config_load env), cb_storage := Some Memory_Backend\<rparr>)"

definition build_production ::
    "process_env \<Rightarrow> drivers \<Rightarrow> dbms \<Rightarrow> dbms \<Rightarrow> catalogue \<Rightarrow> (sync_error, app_container) result \<times> catalogue" where
  "build_production env dr db db' = container_build env dr db db' (container_builder_new\<lparr>cb_config := Some (config_load env)\<rparr>)"

definition container_health_check :: "app_container \<Rightarrow> (sync_error, bool) result" where
  "container_health_check c = Ok (case storage_health (ac_storage c) of Inr b \<Rightarrow> b | Inl _ \<Rightarrow> False)"

definition start_with_container ::
    "process_env \<Rightarrow> drivers \<Rightarrow> dbms \<Rightarrow> dbms \<Rightarrow> mysql \<Rightarrow> (u64 \<times> bytes) list \<Rightarrow> 'w s3_service \<Rightarrow> 'w \<Rightarrow> catalogue
     \<Rightarrow> (sync_error, 'w opened) result \<times> catalogue" where
  "start_with_container env dr db db' my t sv w cat =
     (case build_production env dr db db' cat of
        (Inl e, cat1) \<Rightarrow> (Err e, cat1)
      | (Inr c, cat1) \<Rightarrow>
          (case container_health_check c of
             Inl e \<Rightarrow> (Err e, cat1)
           | Inr False \<Rightarrow> (Err (ServiceUnavailable ''Health check failed''), cat1)
           | Inr True \<Rightarrow>
               (let full = fst (app_state_new_with_storage env (cf_server (ac_config c)) None) in
                case initialize_file_storage_with_storage env dr my t sv w (ac_storage c) of
                  Inl e \<Rightarrow> (Err e, cat1)
                | Inr blobs \<Rightarrow>
                    (Ok \<lparr>op_config = full, op_storage = ac_storage c, op_file_storage = blobs,
                         op_event_bus = create_event_bus env dr\<rparr>, cat1))))"

section \<open>The registry of services\<close>

text \<open>
  Services and factories are filed under the identity \<open>'t\<close> of their type.  An instance always has the type it is
  filed under.  A factory acts on the world \<open>'w\<close>.
\<close>

record ('t, 'i, 'w) service_registry =
  sr_services :: "('t, 'i) hashmap"
  sr_factories :: "('t, 'w \<Rightarrow> (sync_error, 'i) result \<times> 'w) hashmap"

definition registry_new :: "('t, 'i, 'w) service_registry" where
  "registry_new = \<lparr>sr_services = [], sr_factories = []\<rparr>"

definition registry_register :: "'t \<Rightarrow> 'i \<Rightarrow> ('t, 'i, 'w) service_registry \<Rightarrow> ('t, 'i, 'w) service_registry" where
  "registry_register ty service r = r\<lparr>sr_services := hm_insert ty service (sr_services r)\<rparr>"

definition registry_register_factory ::
    "'t \<Rightarrow> ('w \<Rightarrow> (sync_error, 'i) result \<times> 'w) \<Rightarrow> ('t, 'i, 'w) service_registry \<Rightarrow> ('t, 'i, 'w) service_registry" where
  "registry_register_factory ty factory r = r\<lparr>sr_factories := hm_insert ty factory (sr_factories r)\<rparr>"

definition registry_get ::
    "('t \<Rightarrow> string) \<Rightarrow> 't \<Rightarrow> ('t, 'i, 'w) service_registry \<Rightarrow> 'w \<Rightarrow> (sync_error, 'i) result \<times> ('t, 'i, 'w) service_registry \<times> 'w" where
  "registry_get type_name ty r w =
     (case hm_get (sr_services r) ty of
        Some service \<Rightarrow> (Ok service, r, w)
      | None \<Rightarrow>
          (case hm_get (sr_factories r) ty of
             Some factory \<Rightarrow>
               (case factory w of
                  (Inl e, w') \<Rightarrow> (Err e, r, w')
                | (Inr service, w') \<Rightarrow> (Ok service, registry_register ty service r, w'))
           | None \<Rightarrow> (Err (NotFound (''Service not found for type: '' @ type_name ty)), r, w)))"

definition registry_contains :: "'t \<Rightarrow> ('t, 'i, 'w) service_registry \<Rightarrow> bool" where
  "registry_contains ty r \<longleftrightarrow> hm_contains (sr_services r) ty \<or> hm_contains (sr_factories r) ty"

definition registry_clear :: "('t, 'i, 'w) service_registry \<Rightarrow> ('t, 'i, 'w) service_registry" where
  "registry_clear r = r\<lparr>sr_services := [], sr_factories := []\<rparr>"

section \<open>What the counters show\<close>

datatype request_event = Started | Completed nat bool

fun count_request :: "request_event \<Rightarrow> performance_metrics \<Rightarrow> performance_metrics" where
  "count_request Started m = record_request_start m"
| "count_request (Completed d ok) m = record_request_complete d ok m"

definition completions :: "request_event list \<Rightarrow> (nat \<times> bool) list" where
  "completions es = concat (map (\<lambda>e. case e of Started \<Rightarrow> [] | Completed d ok \<Rightarrow> [(d, ok)]) es)"

lemma completions_simps [simp]:
  "completions [] = []" "completions (es @ [Started]) = completions es"
  "completions (es @ [Completed d ok]) = completions es @ [(d, ok)]"
  by (simp_all add: completions_def)

lemma count_list_snoc_started [simp]:
  "count_list (es @ [e]) Started = count_list es Started + (if e = Started then 1 else 0)"
  by simp

lemma counted_requests:
  "let m = fold count_request es performance_metrics_default in
     pm_total_requests m = of_nat (count_list es Started) \<and>
     pm_successful_requests m = of_nat (length (filter snd (completions es))) \<and>
     pm_failed_requests m = of_nat (length (filter (\<lambda>c. \<not> snd c) (completions es))) \<and>
     pm_active_requests m = of_nat (count_list es Started) - of_nat (length (completions es)) \<and>
     pm_total_response_time m = of_nat (sum_list (map fst (completions es)))"
proof (induction es rule: rev_induct)
  case (snoc e es)
  then show ?case
    by (cases e) (auto simp: record_request_start_def record_request_complete_def Let_def algebra_simps)
qed (simp add: performance_metrics_default_def)

lemma complete_extremes:
  assumes "d < 2 ^ 64"
  shows "unat (pm_max_response_time (record_request_complete d ok m)) = max (unat (pm_max_response_time m)) d"
    "unat (pm_min_response_time (record_request_complete d ok m)) =
       (if unat (pm_min_response_time m) = 0 then d else min (unat (pm_min_response_time m)) d)"
proof -
  have "unat (of_nat d :: u64) = d" using assms by (simp add: unat_of_nat)
  then show "unat (pm_max_response_time (record_request_complete d ok m)) = max (unat (pm_max_response_time m)) d"
    "unat (pm_min_response_time (record_request_complete d ok m)) =
       (if unat (pm_min_response_time m) = 0 then d else min (unat (pm_min_response_time m)) d)"
    by (auto simp: record_request_complete_def Let_def word_less_nat_alt unat_eq_0)
qed

lemma start_extremes [simp]:
  "pm_max_response_time (record_request_start m) = pm_max_response_time m"
  "pm_min_response_time (record_request_start m) = pm_min_response_time m"
  by (simp_all add: record_request_start_def)

lemma counted_extremes:
  "\<forall>c \<in> set (completions es). 0 < fst c \<and> fst c < 2 ^ 64 \<Longrightarrow>
   let m = fold count_request es performance_metrics_default; ds = fst ` set (completions es) in
     unat (pm_max_response_time m) = (if ds = {} then 0 else Max ds) \<and>
     unat (pm_min_response_time m) = (if ds = {} then 0 else Min ds)"
proof (induction es rule: rev_induct)
  case (snoc e es)
  show ?case
  proof (cases e)
    case (Completed d ok)
    let ?ds = "fst ` set (completions es)"
    have d: "0 < d" "d < 2 ^ 64" using snoc.prems Completed by auto
    have pos: "Min ?ds > 0" if "?ds \<noteq> {}" using that snoc.prems Completed by (subst Min_gr_iff) auto
    have ih: "unat (pm_max_response_time (fold count_request es performance_metrics_default)) = (if ?ds = {} then 0 else Max ?ds)"
      "unat (pm_min_response_time (fold count_request es performance_metrics_default)) = (if ?ds = {} then 0 else Min ?ds)"
      using snoc Completed by (simp_all add: Let_def)
    show ?thesis
    proof (cases "?ds = {}")
      case True
      then show ?thesis using d ih by (simp add: Completed complete_extremes)
    next
      case False
      then show ?thesis using d ih pos by (simp add: Completed complete_extremes Let_def max.commute min.commute)
    qed
  qed (use snoc in \<open>simp add: Let_def\<close>)
qed (simp add: performance_metrics_default_def)

lemma percentile_between:
  assumes "unat (pm_min_response_time m) \<le> unat (pm_max_response_time m)" "unat (pm_max_response_time m) < 2 ^ 57"
  shows "unat (calculate_percentile p m) =
    unat (pm_min_response_time m) + (unat (pm_max_response_time m) - unat (pm_min_response_time m)) * 95 div 100"
proof -
  let ?lo = "pm_min_response_time m" and ?hi = "pm_max_response_time m"
  let ?d = "unat ?hi - unat ?lo"
  have "?lo \<le> ?hi" using assms(1) by (simp add: word_le_nat_alt)
  then have sub: "unat (?hi - ?lo) = ?d" by (rule unat_sub)
  have "?d * 95 < 2 ^ 64" using assms by simp
  then have "unat ((?hi - ?lo) * 95) = ?d * 95" by (subst unat_mult_lem [THEN iffD1]) (simp_all add: sub)
  then have q: "unat ((?hi - ?lo) * 95 div 100) = ?d * 95 div 100" by (simp add: unat_div_distrib)
  have "unat ?lo + unat ((?hi - ?lo) * 95 div 100) < 2 ^ LENGTH(64)" unfolding q using assms by simp
  then have "unat (?lo + (?hi - ?lo) * 95 div 100) = unat ?lo + unat ((?hi - ?lo) * 95 div 100)" by (rule unat_add_lem [THEN iffD1])
  then show ?thesis unfolding calculate_percentile_def q .
qed

lemma completions_length: "length (completions es) + count_list es Started = length es"
proof (induction es rule: rev_induct)
  case (snoc e es)
  then show ?case by (cases e) simp_all
qed simp

text \<open>
  As long as there are fewer than 2^64 events and every request takes from one millisecond to 2^57, the counters
  are exact: requests, successes, failures, requests in flight, the longest and the shortest time.  Both percentiles are the same
  number between the two.
\<close>
theorem monitor_counts:
  assumes "length es < 2 ^ 64" "length (completions es) \<le> count_list es Started"
    and "\<forall>c \<in> set (completions es). 0 < fst c \<and> fst c < 2 ^ 57" "completions es \<noteq> []"
    and "m = fold count_request es performance_metrics_default"
  shows "unat (pm_total_requests m) = count_list es Started \<and>
    unat (pm_successful_requests m) + unat (pm_failed_requests m) = length (completions es) \<and>
    unat (pm_active_requests m) = count_list es Started - length (completions es) \<and>
    unat (pm_max_response_time m) = Max (fst ` set (completions es)) \<and>
    unat (pm_min_response_time m) = Min (fst ` set (completions es)) \<and>
    su_p95_response_time_ms (get_performance_summary u m) = su_p99_response_time_ms (get_performance_summary u m) \<and>
    su_p95_response_time_ms (get_performance_summary u m) \<in> {pm_min_response_time m..pm_max_response_time m}"
proof -
  let ?s = "count_list es Started" and ?c = "completions es"
  have le: "?s < 2 ^ 64" "length (filter P ?c) < 2 ^ 64" for P
    using assms(1) completions_length [of es] length_filter_le [of P ?c] by linarith+
  then have small: "unat (of_nat ?s :: u64) = ?s" "unat (of_nat (length (filter P ?c)) :: u64) = length (filter P ?c)"
      "unat (of_nat (length ?c) :: u64) = length ?c" for P
    using le(2) [of "\<lambda>_. True"] by (simp_all add: unat_of_nat)
  have sub: "unat (of_nat ?s - of_nat (length ?c) :: u64) = ?s - length ?c"
    using assms(2) small(1,3) by (subst unat_sub) (simp_all add: word_le_nat_alt)
  have ext: "unat (pm_max_response_time m) = Max (fst ` set ?c)" "unat (pm_min_response_time m) = Min (fst ` set ?c)"
    using counted_extremes [of es] assms(3-5) by (fastforce simp: Let_def)+
  then have order: "unat (pm_min_response_time m) \<le> unat (pm_max_response_time m)" "unat (pm_max_response_time m) < 2 ^ 57"
    using assms(3,4) by auto
  have "calculate_percentile p m \<in> {pm_min_response_time m..pm_max_response_time m}" for p
    using percentile_between [OF order] order(1) by (simp add: word_le_nat_alt)
  moreover have "calculate_percentile 95 m = calculate_percentile 99 m" by (simp add: calculate_percentile_def)
  moreover have "length (filter snd ?c) + length (filter (\<lambda>c. \<not> snd c) ?c) = length ?c"
    by (simp add: sum_length_filter_compl)
  ultimately show ?thesis
    using counted_requests [of es] ext small sub unfolding assms(5) [symmetric] Let_def
    by (simp add: get_performance_summary_def)
qed

text \<open>
  A reset forgets the requests in flight.  When they complete, the counter of active requests goes
  below zero and shows almost 2^64 requests.
\<close>
theorem reset_loses_active:
  assumes "cs \<noteq> []" "length cs < 2 ^ 64"
  shows "unat (pm_active_requests (fold (\<lambda>(d, ok). record_request_complete d ok) cs (reset_metrics m))) = 2 ^ 64 - length cs"
proof -
  have "pm_active_requests (fold (\<lambda>(d, ok). record_request_complete d ok) cs m') = pm_active_requests m' - of_nat (length cs)" for m'
    by (induction cs arbitrary: m') (auto simp: record_request_complete_def Let_def algebra_simps)
  then have "pm_active_requests (fold (\<lambda>(d, ok). record_request_complete d ok) cs (reset_metrics m)) = 0 - of_nat (length cs)"
    by (simp add: reset_metrics_def)
  moreover have "unat (of_nat (length cs) :: u64) = length cs" using assms(2) by (simp add: unat_of_nat)
  ultimately show ?thesis using assms(1) by (simp add: unat_sub_if' del: diff_0 Word.unat_sub)
qed

theorem monitor_counts_witness:
  "let m = fold count_request [Started, Started, Completed 7 True, Started, Completed 3 False] performance_metrics_default in
     unat (pm_total_requests m) = 3 \<and> unat (pm_active_requests m) = 1 \<and> unat (pm_max_response_time m) = 7 \<and>
     unat (pm_min_response_time m) = 3"
proof -
  let ?es = "[Started, Started, Completed 7 True, Started, Completed 3 False]"
  have c: "completions ?es = [(7, True), (3, False)]" by (simp add: completions_def)
  have n: "count_list ?es Started = 3" by simp
  show ?thesis using monitor_counts [of ?es, OF _ _ _ _ refl] unfolding c n Let_def by simp
qed

theorem reset_loses_active_witness:
  "unat (pm_active_requests (fold (\<lambda>(d, ok). record_request_complete d ok) [(5, True)] (reset_metrics performance_metrics_default))) = 2 ^ 64 - 1"
  using reset_loses_active [of "[(5, True)]" performance_metrics_default] by simp

section \<open>The registry and the container\<close>

text \<open>
  A factory runs at most once.  After a successful lookup every later lookup of the type returns the same
  instance without touching the world, and lookups of other types answer as before.
\<close>
theorem registry_get_stable:
  assumes "registry_get tn ty r w = (Ok service, r', w')"
  shows "registry_get tn ty r' v = (Ok service, r', v) \<and> registry_contains ty r' \<and>
    (ty' \<noteq> ty \<longrightarrow> fst (registry_get tn ty' r' v) = fst (registry_get tn ty' r v) \<and>
       snd (snd (registry_get tn ty' r' v)) = snd (snd (registry_get tn ty' r v)))"
proof -
  have svc: "r' = r \<and> hm_get (sr_services r) ty = Some service \<or> r' = registry_register ty service r"
    using assms by (auto simp: registry_get_def split: option.splits sum.splits prod.splits)
  then have found: "hm_get (sr_services r') ty = Some service" by (auto simp: registry_register_def hm_get_insert)
  have "hm_get (sr_services r') ty' = hm_get (sr_services r) ty'" "sr_factories r' = sr_factories r" if "ty' \<noteq> ty"
    using svc that by (auto simp: registry_register_def hm_get_insert)
  then have "fst (registry_get tn ty' r' v) = fst (registry_get tn ty' r v) \<and>
       snd (snd (registry_get tn ty' r' v)) = snd (snd (registry_get tn ty' r v))" if "ty' \<noteq> ty"
    using that by (simp add: registry_get_def split: option.split sum.split prod.split)
  then show ?thesis using found by (simp add: registry_get_def registry_contains_def hm_contains_def)
qed

lemma build_production_cases:
  "build_production env dr db db' cat =
     (if fl_test_mode (cf_features (config_load env)) then (Ok \<lparr>ac_storage = Memory_Backend, ac_config = config_load env\<rparr>, cat)
      else map_prod (map_sum id (\<lambda>b. \<lparr>ac_storage = b, ac_config = config_load env\<rparr>)) id
             (init_storage dr db db' (cf_database (config_load env)) cat))"
  by (auto simp: build_production_def container_build_def container_builder_new_def or_default_def Let_def split: prod.split sum.split)

lemma container_healthy: "container_health_check c = Ok True"
  by (simp add: container_health_check_def storage_health_def my_health_check_def split: storage_backend.split)

lemmas container_start = start_with_container_def build_production_cases container_healthy initialize_file_storage_with_storage_def

text \<open>
  The container in test mode forgets everything.  A start through the container with the flag for test mode
  set keeps all data in memory, discards file contents and never connects to the database that is configured; without
  the flag it opens that database.
\<close>
theorem container_storage:
  assumes "start_with_container env dr db db' my t sv w cat = (Ok o', cat')"
  shows "if fl_test_mode (cf_features (config_load env))
    then op_storage o' = Memory_Backend \<and> op_file_storage o' = Discarding_Blobs \<and> cat' = cat
    else op_storage o' = Mysql_Backend (database_url (cf_database (config_load env))) \<and>
      dr_connect dr (database_url (cf_database (config_load env))) = Ok () \<and> cat' = factory_schema db db' cat"
proof (cases "fl_test_mode (cf_features (config_load env))")
  case True
  then show ?thesis using assms unfolding container_start by (auto simp: Let_def)
next
  case False
  let ?url = "database_url (cf_database (config_load env))"
  have conn: "dr_connect dr ?url = Ok ()"
    using assms False unfolding container_start by (auto simp: init_storage_cases split: sum.splits)
  then have "init_storage dr db db' (cf_database (config_load env)) cat = (Ok (Mysql_Backend ?url), factory_schema db db' cat)"
    by (simp add: init_storage_cases)
  then show ?thesis using assms False conn unfolding container_start by (auto simp: Let_def split: sum.splits)
qed

text \<open>
  C36: with the S3 store configured, a missing bucket stops the start, although the store could create it.  When the
  service answers the check of the start that the bucket does not exist, the start without the container fails, and so does
  the start with the container outside the test mode; the code that creates a missing bucket
  runs only on the first upload, and it would succeed at this very moment whenever the service allows the creation.
\<close>
theorem missing_bucket_stops_start:
  assumes s3: "st_storage_type (storage_config_load env) = ST_S3"
    and cl: "create_s3_client (st_s3 (storage_config_load env)) = Ok cl"
    and missing: "sv_head_bucket sv cl (s3_bucket (st_s3 (storage_config_load env))) w = (HB_NotFound e, w1)"
    and allowed: "\<And>l. \<exists>w2. sv_create_bucket sv cl (s3_bucket (st_s3 (storage_config_load env))) l w1 = (CB_Ok, w2)"
  shows "isl (fst (start_legacy env dr db db' my t sv w cat)) \<and>
    (\<not> fl_test_mode (cf_features (config_load env)) \<longrightarrow> isl (fst (start_with_container env dr db db' my t sv w cat))) \<and>
    fst (ensure_bucket_exists_once sv (st_s3 (storage_config_load env)) (s3_new w)) = Ok ()"
proof -
  obtain e' where e': "initialize_file_storage env dr my t sv w = Err e'" using missing_bucket(1) [OF s3 cl missing] by blast
  then have "isl (fst (start_legacy env dr db db' my t sv w cat))"
    by (auto simp: start_legacy_def init_storage_cases initialize_file_storage_with_storage_def Let_def split: sum.split)
  moreover have "isl (fst (start_with_container env dr db db' my t sv w cat))" if "\<not> fl_test_mode (cf_features (config_load env))"
    using e' that unfolding container_start by (auto simp: init_storage_cases Let_def split: sum.split)
  ultimately show ?thesis using missing_bucket(2) [OF s3 cl missing allowed] by blast
qed

text \<open>The readiness endpoint never reports a lost database.\<close>

lemma always_ready: "rn_code (readiness_check env app storage) = 200 \<and> hd_code (health_details env app storage) = 200"
  by (simp add: readiness_check_def health_details_def storage_health_def my_health_check_def Let_def split: storage_backend.split)

definition demo_registry :: "(string, nat, nat) service_registry" where
  "demo_registry = registry_register_factory ''counter'' (\<lambda>w. (Ok w, w + 1)) registry_new"

theorem registry_get_stable_witness:
  "registry_get id ''counter'' demo_registry 4 = (Ok 4, registry_register ''counter'' 4 demo_registry, 5) \<and>
   registry_get id ''counter'' (registry_register ''counter'' 4 demo_registry) 5 = (Ok 4, registry_register ''counter'' 4 demo_registry, 5)"
proof -
  have run: "registry_get id ''counter'' demo_registry 4 = (Ok 4, registry_register ''counter'' 4 demo_registry, 5)"
    by (simp add: registry_get_def demo_registry_def registry_register_factory_def registry_new_def hm_get_insert)
  then show ?thesis using registry_get_stable [OF run, of 5] by simp
qed

definition test_env :: process_env where
  "test_env = demo_env\<lparr>pe_var := (\<lambda>k. if k = ''COSMIC_SYNC_TEST_MODE'' then Some ''1'' else None)\<rparr>"

theorem container_storage_witness:
  "\<exists>o'. start_with_container test_env demo_drivers demo_dbms demo_dbms (sample_my None) [] (demo_s3 True) [] [] = (Ok o', []) \<and>
    op_storage o' = Memory_Backend \<and> op_file_storage o' = Discarding_Blobs"
proof -
  have test: "fl_test_mode (cf_features (config_load test_env))"
    by (simp add: config_load_def feature_flags_load_def env_flag_def or_default_def test_env_def is_true_def)
  then obtain o' where run: "start_with_container test_env demo_drivers demo_dbms demo_dbms (sample_my None) [] (demo_s3 True) [] [] = (Ok o', [])"
    unfolding container_start by (simp add: Let_def)
  from container_storage [OF run] test run show ?thesis by simp
qed

text \<open>A service whose state is whether the bucket exists.\<close>

definition empty_s3 :: "bool s3_service" where
  "empty_s3 = \<lparr>sv_head_bucket = (\<lambda>cl b w. (if w then HB_Ok else HB_NotFound ''no such bucket'', w)),
     sv_create_bucket = (\<lambda>cl b l w. (if w then CB_OwnedByYou else CB_Ok, True)),
     sv_put_object = (\<lambda>cl b k d w. (if w then Ok () else Err ''NoSuchBucket'', w)),
     sv_get_object = (\<lambda>cl b k w. (GO_NoSuchKey, w)), sv_delete_object = (\<lambda>cl b k w. (Ok (), w)),
     sv_head_object = (\<lambda>cl b k w. (HO_NotFound, w)), sv_list_objects = (\<lambda>cl b w. (Ok (), w))\<rparr>"

theorem missing_bucket_stops_start_witness:
  "isl (fst (start_legacy s3_env demo_drivers demo_dbms demo_dbms (sample_my None) [] empty_s3 False [])) \<and>
   isl (fst (start_with_container s3_env demo_drivers demo_dbms demo_dbms (sample_my None) [] empty_s3 False []))"
proof -
  obtain cl where cl: "create_s3_client (st_s3 (storage_config_load s3_env)) = Ok cl" by (simp add: create_s3_client_def)
  have test: "\<not> fl_test_mode (cf_features (config_load s3_env))"
    by (simp add: config_load_def feature_flags_load_def env_flag_def or_default_def s3_env_def demo_env_def is_true_def)
  have service: "sv_head_bucket empty_s3 cl b False = (HB_NotFound ''no such bucket'', False)"
      "\<exists>w. sv_create_bucket empty_s3 cl b l False = (CB_Ok, w)" for b l by (auto simp: empty_s3_def)
  show ?thesis using missing_bucket_stops_start [OF s3_env_s3 cl service] test by simp
qed

end
