(* ===== verification/Conversions.thy ===== *)
theory Conversions
  imports Memory_Behaviour Crypto
begin

text \<open>
  The transfer structures of \<^verbatim>\<open>src/models/watcher.rs\<close> and \<^verbatim>\<open>src/models/file.rs\<close>, which stand between
  the protobuf messages and the database models, with every conversion between the three, and the
  constructors of file records.  Where the code asks for the time twice, both times are arguments.
\<close>

section \<open>Watchers\<close>

record condition_data =
  cd_key :: string
  cd_value :: "string list"

record watcher_data =
  wd_watcher_id :: i32
  wd_folder :: string
  wd_union_conditions :: "condition_data list"
  wd_subtracting_conditions :: "condition_data list"
  wd_recursive_path :: bool
  wd_preset :: bool
  wd_custom_type :: string
  wd_update_mode :: string
  wd_is_active :: bool
  wd_extra_json :: string

record watcher_group_data =
  gd_group_id :: i32
  gd_title :: string
  gd_watchers :: "watcher_data list"
  gd_last_updated :: timestamp

record register_watcher_group_request =
  rg_account_hash :: string
  rg_group_id :: i32
  rg_title :: string

definition condition_data_of_proto :: "p_condition_data \<Rightarrow> condition_data" where
  "condition_data_of_proto c = \<lparr>cd_key = pc_key c, cd_value = pc_value c\<rparr>"

definition proto_of_condition_data :: "condition_data \<Rightarrow> p_condition_data" where
  "proto_of_condition_data c = \<lparr>pc_key = cd_key c, pc_value = cd_value c\<rparr>"

definition watcher_data_of_proto :: "p_watcher_data \<Rightarrow> watcher_data" where
  "watcher_data_of_proto p =
     \<lparr>wd_watcher_id = pw_watcher_id p, wd_folder = pw_folder p,
      wd_union_conditions = map condition_data_of_proto (pw_union_conditions p),
      wd_subtracting_conditions = map condition_data_of_proto (pw_subtracting_conditions p),
      wd_recursive_path = pw_recursive_path p, wd_preset = pw_preset p,
      wd_custom_type = pw_custom_type p, wd_update_mode = pw_update_mode p,
      wd_is_active = pw_is_active p, wd_extra_json = pw_extra_json p\<rparr>"

definition proto_of_watcher_data :: "watcher_data \<Rightarrow> p_watcher_data" where
  "proto_of_watcher_data d =
     \<lparr>pw_watcher_id = wd_watcher_id d, pw_folder = wd_folder d,
      pw_union_conditions = map proto_of_condition_data (wd_union_conditions d),
      pw_subtracting_conditions = map proto_of_condition_data (wd_subtracting_conditions d),
      pw_recursive_path = wd_recursive_path d, pw_preset = wd_preset d,
      pw_custom_type = wd_custom_type d, pw_update_mode = wd_update_mode d,
      pw_is_active = wd_is_active d, pw_extra_json = wd_extra_json d\<rparr>"

definition watcher_data_of_watcher :: "watcher \<Rightarrow> watcher_data" where
  "watcher_data_of_watcher w =
     \<lparr>wd_watcher_id = w_watcher_id w, wd_folder = w_folder w,
      wd_union_conditions = map (\<lambda>c. \<lparr>cd_key = c_key c, cd_value = c_value c\<rparr>) (w_union_conditions w),
      wd_subtracting_conditions = map (\<lambda>c. \<lparr>cd_key = c_key c, cd_value = c_value c\<rparr>) (w_subtracting_conditions w),
      wd_recursive_path = w_recursive_path w, wd_preset = w_preset w,
      wd_custom_type = w_custom_type w, wd_update_mode = w_update_mode w,
      wd_is_active = w_is_active w, wd_extra_json = w_extra_json w\<rparr>"

definition watcher_of_watcher_data :: "datetime \<Rightarrow> datetime \<Rightarrow> watcher_data \<Rightarrow> watcher" where
  "watcher_of_watcher_data now now' d =
     \<lparr>w_id = 0, w_watcher_id = wd_watcher_id d, w_account_hash = [], w_group_id = 0, w_local_group_id = 0, w_title = [],
      w_folder = wd_folder d,
      w_union_conditions = map (\<lambda>c. \<lparr>c_key = cd_key c, c_value = cd_value c\<rparr>) (wd_union_conditions d),
      w_subtracting_conditions = map (\<lambda>c. \<lparr>c_key = cd_key c, c_value = cd_value c\<rparr>) (wd_subtracting_conditions d),
      w_recursive_path = wd_recursive_path d, w_preset = wd_preset d, w_custom_type = wd_custom_type d,
      w_update_mode = wd_update_mode d, w_is_active = wd_is_active d, w_extra_json = wd_extra_json d,
      w_created_at = now, w_updated_at = now'\<rparr>"

definition group_data_of_group :: "chrono \<Rightarrow> watcher_group \<Rightarrow> watcher_group_data" where
  "group_data_of_group ch g =
     \<lparr>gd_group_id = wg_group_id g, gd_title = wg_title g, gd_watchers = [],
      gd_last_updated = datetime_to_timestamp ch (wg_updated_at g)\<rparr>"

definition group_data_of_proto :: "p_watcher_group_data \<Rightarrow> watcher_group_data" where
  "group_data_of_proto p =
     \<lparr>gd_group_id = pg_group_id p, gd_title = pg_title p, gd_watchers = map watcher_data_of_proto (pg_watchers p),
      gd_last_updated = (case pg_last_updated p of Some t \<Rightarrow> t | None \<Rightarrow> \<lparr>ts_seconds = 0, ts_nanos = 0\<rparr>)\<rparr>"

definition proto_of_group_data :: "watcher_group_data \<Rightarrow> p_watcher_group_data" where
  "proto_of_group_data d =
     \<lparr>pg_group_id = gd_group_id d, pg_title = gd_title d, pg_watchers = map proto_of_watcher_data (gd_watchers d),
      pg_last_updated = Some (gd_last_updated d)\<rparr>"

definition create_watcher_group :: "chrono \<Rightarrow> datetime \<Rightarrow> string \<Rightarrow> watcher_group_data \<Rightarrow> watcher_group" where
  "create_watcher_group ch now account_hash d =
     (let updated_at = timestamp_to_datetime ch now (gd_last_updated d) in
      \<lparr>wg_id = 0, wg_group_id = gd_group_id d, wg_account_hash = account_hash, wg_title = gd_title d,
       wg_created_at = updated_at, wg_updated_at = updated_at, wg_is_active = True, wg_watcher_ids = []\<rparr>)"

definition group_of_proto :: "chrono \<Rightarrow> datetime \<Rightarrow> datetime \<Rightarrow> p_watcher_group_data \<Rightarrow> watcher_group" where
  "group_of_proto ch now now' p =
     \<lparr>wg_id = 0, wg_group_id = pg_group_id p, wg_account_hash = [], wg_title = [], wg_created_at = now',
      wg_updated_at = (case pg_last_updated p of Some t \<Rightarrow> timestamp_to_datetime ch now t | None \<Rightarrow> now),
      wg_is_active = True, wg_watcher_ids = []\<rparr>"

definition group_of_register_request :: "datetime \<Rightarrow> register_watcher_group_request \<Rightarrow> watcher_group" where
  "group_of_register_request now r =
     \<lparr>wg_id = 0, wg_group_id = rg_group_id r, wg_account_hash = rg_account_hash r, wg_title = rg_title r,
      wg_created_at = now, wg_updated_at = now, wg_is_active = True, wg_watcher_ids = []\<rparr>"

section \<open>Files\<close>

record file_info_data =
  fd_file_id :: u64
  fd_filename :: string
  fd_file_hash :: string
  fd_updated_time :: timestamp
  fd_device_hash :: string
  fd_group_id :: i32
  fd_watcher_id :: i32
  fd_is_encrypted :: bool
  fd_file_path :: string
  fd_revision :: i64

record sync_file_info =
  si_file_id :: u64
  si_filename :: string
  si_file_hash :: string
  si_device_hash :: string
  si_group_id :: i32
  si_watcher_id :: i32
  si_is_encrypted :: bool
  si_file_path :: string
  si_upload_time :: datetime

definition sync_file_new ::
    "crypto_lib \<Rightarrow> u64 \<Rightarrow> nat \<Rightarrow> nat \<Rightarrow> string \<Rightarrow> datetime \<Rightarrow> string \<Rightarrow> string \<Rightarrow> i32 \<Rightarrow> i32 \<Rightarrow> string \<Rightarrow> string \<Rightarrow> string \<Rightarrow> i64 \<Rightarrow> string \<Rightarrow> i64 \<Rightarrow> bool \<Rightarrow> i64
     \<Rightarrow> sync_file" where
  "sync_file_new cl secs nanos random_part uuid now user_id device_hash group_id watcher_id filename file_hash file_path file_size mime_type
       modified_time is_encrypted revision =
     \<lparr>sf_id = uuid, sf_user_id = user_id, sf_device_hash = device_hash, sf_group_id = group_id, sf_watcher_id = watcher_id,
      sf_file_id = generate_file_id cl secs nanos random_part user_id filename file_hash, sf_filename = filename,
      sf_file_hash = file_hash, sf_file_path = file_path, sf_file_size = file_size,
      sf_mime_type = mime_type, sf_modified_time = modified_time, sf_is_encrypted = is_encrypted, sf_upload_time = now,
      sf_last_updated = now, sf_is_deleted = False, sf_revision = revision\<rparr>"

definition sync_file_new_simple ::
    "string \<Rightarrow> datetime \<Rightarrow> string \<Rightarrow> string \<Rightarrow> string \<Rightarrow> u64 \<Rightarrow> u64 \<Rightarrow> bool \<Rightarrow> sync_file" where
  "sync_file_new_simple uuid now filename account_hash device_hash file_id file_size is_encrypted =
     \<lparr>sf_id = uuid, sf_user_id = account_hash, sf_device_hash = device_hash, sf_group_id = 0, sf_watcher_id = 0,
      sf_file_id = file_id, sf_filename = filename, sf_file_hash = [], sf_file_path = [], sf_file_size = sint file_size,
      sf_mime_type = [], sf_modified_time = now div 1000000, sf_is_encrypted = is_encrypted, sf_upload_time = now,
      sf_last_updated = now, sf_is_deleted = False, sf_revision = 0\<rparr>"

definition file_data_of_file_info :: "file_info \<Rightarrow> file_info_data" where
  "file_data_of_file_info f =
     \<lparr>fd_file_id = fi_file_id f, fd_filename = fi_filename f, fd_file_hash = fi_file_hash f,
      fd_updated_time = fi_updated_time f, fd_device_hash = fi_device_hash f, fd_group_id = fi_group_id f,
      fd_watcher_id = fi_watcher_id f, fd_is_encrypted = fi_is_encrypted f, fd_file_path = fi_file_path f,
      fd_revision = fi_revision f\<rparr>"

definition sync_info_of_file_data :: "chrono \<Rightarrow> datetime \<Rightarrow> file_info_data \<Rightarrow> sync_file_info" where
  "sync_info_of_file_data ch now f =
     \<lparr>si_file_id = fd_file_id f, si_filename = fd_filename f, si_file_hash = fd_file_hash f,
      si_device_hash = fd_device_hash f, si_group_id = fd_group_id f, si_watcher_id = fd_watcher_id f,
      si_is_encrypted = fd_is_encrypted f, si_file_path = fd_file_path f,
      si_upload_time = (case ch_from_timestamp ch (ts_seconds (fd_updated_time f)) (as_u32 (ts_nanos (fd_updated_time f))) of
        Some d \<Rightarrow> d | None \<Rightarrow> now)\<rparr>"

definition file_data_of_sync_info :: "chrono \<Rightarrow> sync_file_info \<Rightarrow> file_info_data" where
  "file_data_of_sync_info ch f =
     \<lparr>fd_file_id = si_file_id f, fd_filename = si_filename f, fd_file_hash = si_file_hash f,
      fd_updated_time = \<lparr>ts_seconds = ch_timestamp ch (si_upload_time f), ts_nanos = wrap_i32 (int (ch_subsec_nanos ch (si_upload_time f)))\<rparr>,
      fd_device_hash = si_device_hash f, fd_group_id = si_group_id f, fd_watcher_id = si_watcher_id f,
      fd_is_encrypted = si_is_encrypted f, fd_file_path = si_file_path f, fd_revision = 0\<rparr>"

section \<open>Round trips\<close>

lemma condition_data_inverse [simp]:
  "proto_of_condition_data (condition_data_of_proto c) = c" "condition_data_of_proto (proto_of_condition_data d) = d"
  by (simp_all add: proto_of_condition_data_def condition_data_of_proto_def)

lemma watcher_data_inverse [simp]:
  "proto_of_watcher_data (watcher_data_of_proto p) = p" "watcher_data_of_proto (proto_of_watcher_data d) = d"
  by (simp_all add: proto_of_watcher_data_def watcher_data_of_proto_def comp_def)

lemma condition_data_eta [simp]: "\<lparr>cd_key = cd_key c, cd_value = cd_value c\<rparr> = (c :: condition_data)"
  by simp

lemma watcher_data_of_new_watcher [simp]: "watcher_data_of_watcher (watcher_of_watcher_data now now' d) = d"
  by (simp add: watcher_data_of_watcher_def watcher_of_watcher_data_def comp_def)

lemma watcher_paths_agree: "proto_of_watcher_data (watcher_data_of_watcher w) = proto_of_watcher w"
  by (simp add: proto_of_watcher_data_def watcher_data_of_watcher_def proto_of_watcher_def proto_of_condition_def
      proto_of_condition_data_def comp_def)

lemma group_paths_agree: "proto_of_group_data (group_data_of_group ch g) = proto_of_watcher_group ch g"
  by (simp add: proto_of_group_data_def group_data_of_group_def proto_of_watcher_group_def)

lemma group_data_inverse:
  "group_data_of_proto (proto_of_group_data d) = d" "pg_last_updated p \<noteq> None \<Longrightarrow> proto_of_group_data (group_data_of_proto p) = p"
  by (auto simp: proto_of_group_data_def group_data_of_proto_def comp_def)

text \<open>
  The conversions between protobuf messages, transfer structures and database models fit together.  A
  watcher and a dated group sent by a client come back unchanged through the transfer structure; a watcher made from
  what a client sent is shown to it as it was sent; and both ways to show a watcher or a group give the
  same message.
\<close>
theorem watcher_conversions_roundtrip:
  assumes "pg_last_updated p \<noteq> None"
  shows "proto_of_group_data (group_data_of_proto p) = p \<and>
    map (proto_of_watcher \<circ> watcher_of_watcher_data now now' \<circ> watcher_data_of_proto) (pg_watchers p) = pg_watchers p \<and>
    proto_of_watcher_data (watcher_data_of_watcher w) = proto_of_watcher w \<and>
    proto_of_group_data (group_data_of_group ch g) = proto_of_watcher_group ch g"
  using assms by (simp add: group_data_inverse watcher_paths_agree group_paths_agree comp_def flip: watcher_paths_agree)

theorem watcher_conversions_roundtrip_witness:
  "let p = \<lparr>pg_group_id = 3, pg_title = ''docs'', pg_watchers = [sample_watcher], pg_last_updated = Some \<lparr>ts_seconds = 7, ts_nanos = 0\<rparr>\<rparr>
   in proto_of_group_data (group_data_of_proto p) = p \<and> proto_of_watcher (watcher_of_watcher_data 1 2 (watcher_data_of_proto sample_watcher)) = sample_watcher"
  using watcher_conversions_roundtrip
    [of "\<lparr>pg_group_id = 3, pg_title = ''docs'', pg_watchers = [sample_watcher], pg_last_updated = Some \<lparr>ts_seconds = 7, ts_nanos = 0\<rparr>\<rparr>" 1 2]
  by (simp add: Let_def)

text \<open>A group made directly from the message has lost its title; one made through the transfer structure keeps it.\<close>

lemma group_of_proto_loses_title:
  "wg_title (group_of_proto ch now now' p) = []" "wg_title (create_watcher_group ch now a (group_data_of_proto p)) = pg_title p"
  by (simp_all add: group_of_proto_def create_watcher_group_def group_data_of_proto_def Let_def)

text \<open>
  A file description survives the way over \<^verbatim>\<open>SyncFileInfo\<close>, for a time the calendar represents,
  except for its revision, which becomes 0.
\<close>

lemma file_data_roundtrip:
  assumes "ch_from_timestamp ch (ts_seconds (fd_updated_time f)) (as_u32 (ts_nanos (fd_updated_time f))) = Some d"
    and "ch_timestamp ch d = ts_seconds (fd_updated_time f)" "wrap_i32 (int (ch_subsec_nanos ch d)) = ts_nanos (fd_updated_time f)"
  shows "file_data_of_sync_info ch (sync_info_of_file_data ch now f) = f\<lparr>fd_revision := 0\<rparr>"
  using assms by (simp add: file_data_of_sync_info_def sync_info_of_file_data_def)

text \<open>The identifier of a new file fits the signed columns of the database.\<close>

lemma new_file_id_fits:
  "unat (sf_file_id (sync_file_new cl secs nanos rnd uuid now user dev g w name hash path len mime time enc revision)) < 2 ^ 63"
  unfolding sync_file_new_def sync_file.select_convs by (rule file_id_bound)

end
