(* ===== verification/Domain_Values.thy ===== *)
theory Domain_Values
  imports File_Handlers
begin

text \<open>
  The value objects and the domain services of \<^verbatim>\<open>src/domain/value_objects.rs\<close> and
  \<^verbatim>\<open>src/domain/services.rs\<close>.  A constructor validates its argument, so that every object that exists is
  valid.  Sizes in kilobytes and more are floating-point numbers and are left out.
\<close>

section \<open>E-mail addresses\<close>

datatype email_address = EmailAddress (ea_text: string)

definition email_validate :: "email_address \<Rightarrow> (sync_error, unit) result" where
  "email_validate e =
     (let s = ea_text e; parts = split_char (CHR ''@'') s in
      if s = [] then Err (Validation ''Email cannot be empty'')
      else if \<not> str_contains_char s (CHR ''@'') then Err (Validation ''Email must contain @'')
      else if length parts \<noteq> 2 then Err (Validation ''Email must have exactly one @'')
      else if parts ! 0 = [] \<or> parts ! 1 = [] then Err (Validation ''Email local and domain parts cannot be empty'')
      else if \<not> str_contains_char (parts ! 1) (CHR ''.'') then Err (Validation ''Email domain must contain a dot'')
      else Ok ())"

definition email_new :: "string \<Rightarrow> (sync_error, email_address) result" where
  "email_new s = (case email_validate (EmailAddress s) of Inl e \<Rightarrow> Err e | Inr _ \<Rightarrow> Ok (EmailAddress s))"

definition email_domain :: "email_address \<Rightarrow> string option" where
  "email_domain e = (let parts = split_char (CHR ''@'') (ea_text e) in if 1 < length parts then Some (parts ! 1) else None)"

definition email_local_part :: "email_address \<Rightarrow> string option" where
  "email_local_part e = (case split_char (CHR ''@'') (ea_text e) of [] \<Rightarrow> None | p # _ \<Rightarrow> Some p)"

section \<open>File paths\<close>

datatype file_path = FilePath (fp_text: string)

definition forbidden_chars :: "char list" where
  "forbidden_chars = [CHR ''<'', CHR ''>'', CHR '':'', CHR 0x22, CHR ''|'', CHR ''?'', CHR ''*'']"

definition file_path_validate :: "file_path \<Rightarrow> (sync_error, unit) result" where
  "file_path_validate p =
     (let s = fp_text p in
      if s = [] then Err (Validation ''File path cannot be empty'')
      else if str_contains s ''..'' then Err (Validation (''File path cannot contain '' @ [CHR 0x27] @ ''..'' @ [CHR 0x27]))
      else if list_ex (str_contains_char s) forbidden_chars then Err (Validation ''File path contains forbidden characters'')
      else Ok ())"

definition file_path_new :: "string \<Rightarrow> (sync_error, file_path) result" where
  "file_path_new s = (case file_path_validate (FilePath s) of Inl e \<Rightarrow> Err e | Inr _ \<Rightarrow> Ok (FilePath s))"

text \<open>
  \<^verbatim>\<open>Path::file_name\<close> and \<^verbatim>\<open>Path::extension\<close> for Unix paths: the last component that is not empty and not
  \<^verbatim>\<open>.\<close> behind a separator, unless it is \<^verbatim>\<open>..\<close> or a leading \<^verbatim>\<open>.\<close>; and the part of it behind its last dot, when
  something stands before that dot.
\<close>

definition path_file_name :: "string \<Rightarrow> string option" where
  "path_file_name s =
     (let ps = split_char (CHR ''/'') s in
      case dropWhile (\<lambda>p. p = [] \<or> p = ''.'') (rev (tl ps)) of
        p # _ \<Rightarrow> if p = ''..'' then None else Some p
      | [] \<Rightarrow> if hd ps \<in> {[], ''.'', ''..''} then None else Some (hd ps))"

definition path_extension :: "string \<Rightarrow> string option" where
  "path_extension s =
     (case path_file_name s of
        None \<Rightarrow> None
      | Some name \<Rightarrow>
          (let r = rev name; ext = takeWhile (\<lambda>c. c \<noteq> CHR ''.'') r; rest = dropWhile (\<lambda>c. c \<noteq> CHR ''.'') r in
           if length rest \<le> 1 then None else Some (rev ext)))"

definition file_path_filename :: "file_path \<Rightarrow> string option" where
  "file_path_filename p = path_file_name (fp_text p)"

definition file_path_extension :: "file_path \<Rightarrow> string option" where
  "file_path_extension p = path_extension (fp_text p)"

definition file_path_parent :: "file_path \<Rightarrow> file_path option" where
  "file_path_parent p =
     (case path_parent (fp_text p) of
        None \<Rightarrow> None | Some q \<Rightarrow> (case file_path_new q of Inr v \<Rightarrow> Some v | Inl _ \<Rightarrow> None))"

definition file_path_is_absolute :: "file_path \<Rightarrow> bool" where
  "file_path_is_absolute p = starts_with (fp_text p) ''/''"

text \<open>\<^verbatim>\<open>replace("//", "/")\<close>: from the left, without overlaps.\<close>

fun squash :: "string \<Rightarrow> string" where
  "squash (c # d # s) = (if c = CHR ''/'' \<and> d = CHR ''/'' then CHR ''/'' # squash s else c # squash (d # s))"
| "squash s = s"

definition file_path_normalize :: "file_path \<Rightarrow> (sync_error, file_path) result" where
  "file_path_normalize p = file_path_new (squash (fp_text p))"

section \<open>Hashes and times\<close>

datatype hash_algorithm = Md5 | Sha1 | Sha256 | Sha512

record file_hash =
  fh_algorithm :: hash_algorithm
  fh_value :: string

fun algorithm_debug :: "hash_algorithm \<Rightarrow> string" where
  "algorithm_debug Md5 = ''Md5''"
| "algorithm_debug Sha1 = ''Sha1''"
| "algorithm_debug Sha256 = ''Sha256''"
| "algorithm_debug Sha512 = ''Sha512''"

fun expected_length :: "hash_algorithm \<Rightarrow> nat" where
  "expected_length Md5 = 32"
| "expected_length Sha1 = 40"
| "expected_length Sha256 = 64"
| "expected_length Sha512 = 128"

definition file_hash_validate :: "file_hash \<Rightarrow> (sync_error, unit) result" where
  "file_hash_validate h =
     (let v = fh_value h; n = expected_length (fh_algorithm h) in
      if v = [] then Err (Validation ''Hash value cannot be empty'')
      else if length v \<noteq> n then
        Err (Validation (''Hash value length '' @ show_nat (length v) @ '' does not match expected length '' @ show_nat n @
          '' for '' @ algorithm_debug (fh_algorithm h)))
      else if \<not> list_all is_ascii_hexdigit v then Err (Validation ''Hash value must contain only hexadecimal characters'')
      else Ok ())"

definition file_hash_new :: "hash_algorithm \<Rightarrow> string \<Rightarrow> (sync_error, file_hash) result" where
  "file_hash_new a v =
     (let h = \<lparr>fh_algorithm = a, fh_value = v\<rparr> in case file_hash_validate h of Inl e \<Rightarrow> Err e | Inr _ \<Rightarrow> Ok h)"

definition file_hash_display :: "file_hash \<Rightarrow> string" where
  "file_hash_display h = algorithm_debug (fh_algorithm h) @ '':'' @ fh_value h"

datatype time_stamp = TimeStamp (tp_unix: i64)

definition time_stamp_validate :: "time_stamp \<Rightarrow> (sync_error, unit) result" where
  "time_stamp_validate t =
     (if tp_unix t < 0 then Err (Validation ''Timestamp cannot be negative'')
      else if tp_unix t > 4102444800 then Err (Validation ''Timestamp is too far in the future'')
      else Ok ())"

definition time_stamp_from_unix :: "i64 \<Rightarrow> (sync_error, time_stamp) result" where
  "time_stamp_from_unix n = (case time_stamp_validate (TimeStamp n) of Inl e \<Rightarrow> Err e | Inr _ \<Rightarrow> Ok (TimeStamp n))"

definition time_stamp_to_datetime :: "chrono \<Rightarrow> time_stamp \<Rightarrow> datetime option" where
  "time_stamp_to_datetime ch t = ch_from_timestamp ch (tp_unix t) 0"

definition time_stamp_to_iso8601 :: "chrono \<Rightarrow> (datetime \<Rightarrow> string) \<Rightarrow> time_stamp \<Rightarrow> string" where
  "time_stamp_to_iso8601 ch rfc3339 t =
     (case time_stamp_to_datetime ch t of Some d \<Rightarrow> rfc3339 d | None \<Rightarrow> ''invalid-timestamp-'' @ show_int (tp_unix t))"

section \<open>Domain services\<close>

definition is_valid_email :: "string \<Rightarrow> bool" where
  "is_valid_email email \<longleftrightarrow> str_contains_char email (CHR ''@'') \<and> str_contains_char email (CHR ''.'') \<and> 5 < length email"

definition is_valid_hash :: "string \<Rightarrow> bool" where
  "is_valid_hash hash \<longleftrightarrow> 32 \<le> length hash \<and> list_all is_ascii_alphanumeric hash"

datatype device_type = Desktop | Laptop | Mobile | Tablet | Server | Other string

definition infer_device_type :: "(string \<Rightarrow> string) \<Rightarrow> string \<Rightarrow> string option \<Rightarrow> device_type" where
  "infer_device_type ul device_name user_agent =
     (let has = (\<lambda>s p. str_contains (to_lowercase ul s) p); n = has device_name;
          by_name =
            (if n ''desktop'' \<or> n ''pc'' then Desktop
             else if n ''laptop'' \<or> n ''notebook'' then Laptop
             else if n ''server'' then Server
             else if n ''mobile'' \<or> n ''phone'' then Mobile
             else if n ''tablet'' \<or> n ''pad'' then Tablet
             else Other device_name)
      in case user_agent of
           Some ua \<Rightarrow>
             if has ua ''mobile'' \<or> has ua ''android'' \<or> has ua ''iphone'' then Mobile
             else if has ua ''tablet'' \<or> has ua ''ipad'' then Tablet
             else by_name
         | None \<Rightarrow> by_name)"

definition can_register_device :: "string \<Rightarrow> string \<Rightarrow> (sync_error, bool) result" where
  "can_register_device account_hash device_hash = Ok (\<not> (account_hash = [] \<or> device_hash = []))"

datatype conflict_strategy = UseLocal | UseRemote | CreateBothVersions | MergeChanges | AskUser

definition determine_conflict_strategy :: "i64 \<Rightarrow> i64 \<Rightarrow> u64 \<Rightarrow> u64 \<Rightarrow> conflict_strategy" where
  "determine_conflict_strategy local_timestamp remote_timestamp local_size remote_size =
     (if local_timestamp > remote_timestamp then UseLocal
      else if remote_timestamp > local_timestamp then UseRemote
      else if local_size \<noteq> remote_size then CreateBothVersions
      else UseLocal)"

datatype sync_priority = Low | Medium | High | Critical

definition calculate_sync_priority :: "u64 \<Rightarrow> u64 \<Rightarrow> bool \<Rightarrow> sync_priority" where
  "calculate_sync_priority file_size file_age_seconds is_user_initiated =
     (if is_user_initiated then High
      else if file_size > 100 * 1024 * 1024 then Low
      else if file_age_seconds < 300 then High
      else if file_age_seconds < 3600 then Medium
      else Low)"

section \<open>Valid objects\<close>

lemma file_path_new_iff:
  "file_path_new s = Ok v \<longleftrightarrow> v = FilePath s \<and> s \<noteq> [] \<and> \<not> sublist ''..'' s \<and> set s \<inter> set forbidden_chars = {}"
  by (auto simp: file_path_new_def file_path_validate_def Let_def str_contains_iff str_contains_char_def list_ex_iff split: if_splits)

lemma set_squash: "set (squash s) = set s"
  by (induction s rule: squash.induct) auto

lemma squash_eq_Nil [simp]: "squash s = [] \<longleftrightarrow> s = []"
  by (induction s rule: squash.induct) auto

lemma hd_squash: "s \<noteq> [] \<Longrightarrow> hd (squash s) = hd s"
  by (induction s rule: squash.induct) auto

lemma squash_dots: "str_contains (squash s) ''..'' \<Longrightarrow> str_contains s ''..''"
proof (induction s rule: squash.induct)
  case (1 c d s)
  show ?case
  proof (cases "c = CHR ''/'' \<and> d = CHR ''/''")
    case True
    then show ?thesis using 1 by auto
  next
    case False
    have "squash (c # d # s) = c # squash (d # s)" using False by (simp only: squash.simps if_False)
    then have "prefix ''..'' (c # squash (d # s)) \<or> str_contains (squash (d # s)) ''..''" using 1(3) by simp
    then show ?thesis
    proof
      assume "prefix ''..'' (c # squash (d # s))"
      then have "c = CHR ''.''" "hd (squash (d # s)) = CHR ''.''" by (auto simp: prefix_def)
      then show ?thesis using hd_squash [of "d # s"] by simp
    next
      assume "str_contains (squash (d # s)) ''..''"
      then show ?thesis using 1(2) [OF False] by simp
    qed
  qed
qed auto

lemma squash_slashes: "length (squash s) \<le> length s" "\<not> str_contains s ''//'' \<Longrightarrow> squash s = s"
  by (induction s rule: squash.induct) auto

lemma email_new_iff:
  "email_new s = Ok e \<longleftrightarrow> e = EmailAddress s \<and>
     (\<exists>l d. split_char (CHR ''@'') s = [l, d] \<and> l \<noteq> [] \<and> CHR ''.'' \<in> set d)"
proof -
  have two: "length ps = 2 \<longleftrightarrow> (\<exists>l d. ps = [l, d])" for ps :: "string list" by (auto simp: numeral_2_eq_2 length_Suc_conv)
  have at: "CHR ''@'' \<in> set s" "s \<noteq> []" if "split_char (CHR ''@'') s = [l, d]" for l d
    using join_split_char [of "CHR ''@''" s] that by auto
  show ?thesis
    by (auto simp: email_new_def email_validate_def two Let_def str_contains_char_def at split: sum.split if_splits)
qed

lemma split_at: "split_char c s = [l, d] \<longleftrightarrow> s = l @ c # d \<and> c \<notin> set l \<and> c \<notin> set d"
proof
  assume "split_char c s = [l, d]"
  then show "s = l @ c # d \<and> c \<notin> set l \<and> c \<notin> set d"
    using join_split_char [of c s] split_char_pieces [of _ c s] by auto
qed (auto simp: split_char_append split_char_no_sep)

text \<open>
  C29: the validating constructors accept exactly the valid values.  A path is accepted exactly when it is not empty, has no \<^verbatim>\<open>..\<close> in it
  and none of seven characters, and normalising an accepted path succeeds, does not make it longer and leaves it alone when it
  has no double slash; an address exactly when it is a local part and a domain with a dot around one \<^verbatim>\<open>@\<close>, which the accessors return; a hash
  exactly when it has the number of hexadecimal digits of its algorithm; a time exactly when it lies between 1970 and 2100.
\<close>
theorem value_objects_valid:
  "(file_path_new p = Ok v \<longleftrightarrow> v = FilePath p \<and> p \<noteq> [] \<and> \<not> sublist ''..'' p \<and>
      set p \<inter> {CHR ''<'', CHR ''>'', CHR '':'', CHR 0x22, CHR ''|'', CHR ''?'', CHR ''*''} = {}) \<and>
   (file_path_new p = Ok v \<longrightarrow>
      (\<exists>p'. file_path_normalize v = Ok (FilePath p') \<and> p' \<noteq> [] \<and> \<not> sublist ''..'' p' \<and> length p' \<le> length p \<and>
        (\<not> sublist ''//'' p \<longrightarrow> p' = p))) \<and>
   (email_new s = Ok e \<longleftrightarrow> e = EmailAddress s \<and> (\<exists>l d. s = l @ ''@'' @ d \<and> l \<noteq> [] \<and> CHR ''@'' \<notin> set l \<union> set d \<and> CHR ''.'' \<in> set d \<and>
      email_local_part e = Some l \<and> email_domain e = Some d)) \<and>
   (file_hash_new a h = Ok f \<longleftrightarrow> f = \<lparr>fh_algorithm = a, fh_value = h\<rparr> \<and> list_all is_ascii_hexdigit h \<and>
      length h = (case a of Md5 \<Rightarrow> 32 | Sha1 \<Rightarrow> 40 | Sha256 \<Rightarrow> 64 | Sha512 \<Rightarrow> 128)) \<and>
   (time_stamp_from_unix n = Ok t \<longleftrightarrow> t = TimeStamp n \<and> 0 \<le> n \<and> n \<le> 4102444800)"
proof (intro conjI impI)
  show new: "file_path_new p = Ok v \<longleftrightarrow> v = FilePath p \<and> p \<noteq> [] \<and> \<not> sublist ''..'' p \<and>
      set p \<inter> {CHR ''<'', CHR ''>'', CHR '':'', CHR 0x22, CHR ''|'', CHR ''?'', CHR ''*''} = {}"
    by (auto simp: file_path_new_iff forbidden_chars_def)
  assume "file_path_new p = Ok v"
  then have p: "v = FilePath p" "p \<noteq> []" "\<not> sublist ''..'' p" "set p \<inter> set forbidden_chars = {}" by (auto simp: file_path_new_iff)
  then have n: "file_path_normalize v = Ok (FilePath (squash p))"
    using squash_dots [of p] by (auto simp: file_path_normalize_def file_path_new_iff set_squash simp flip: str_contains_iff)
  then have "squash p \<noteq> []" "\<not> sublist ''..'' (squash p)" by (auto simp: file_path_normalize_def file_path_new_iff)
  with n show "\<exists>p'. file_path_normalize v = Ok (FilePath p') \<and> p' \<noteq> [] \<and> \<not> sublist ''..'' p' \<and> length p' \<le> length p \<and>
      (\<not> sublist ''//'' p \<longrightarrow> p' = p)"
    using squash_slashes by (auto simp flip: str_contains_iff)
next
  show "email_new s = Ok e \<longleftrightarrow> e = EmailAddress s \<and> (\<exists>l d. s = l @ ''@'' @ d \<and> l \<noteq> [] \<and> CHR ''@'' \<notin> set l \<union> set d \<and> CHR ''.'' \<in> set d \<and>
      email_local_part e = Some l \<and> email_domain e = Some d)"
    by (auto simp: email_new_iff email_local_part_def email_domain_def split_at [symmetric] Let_def) (auto simp: split_at)
next
  show "file_hash_new a h = Ok f \<longleftrightarrow> f = \<lparr>fh_algorithm = a, fh_value = h\<rparr> \<and> list_all is_ascii_hexdigit h \<and>
      length h = (case a of Md5 \<Rightarrow> 32 | Sha1 \<Rightarrow> 40 | Sha256 \<Rightarrow> 64 | Sha512 \<Rightarrow> 128)"
    by (cases a) (auto simp: file_hash_new_def file_hash_validate_def Let_def)
qed (auto simp: time_stamp_from_unix_def time_stamp_validate_def)

text \<open>Normalising once does not remove every double slash.\<close>

lemma file_path_normalize_twice:
  "file_path_normalize (FilePath ''a///b'') = Ok (FilePath ''a//b'')" "file_path_normalize (FilePath ''a//b'') = Ok (FilePath ''a/b'')"
  by (simp_all add: file_path_normalize_def file_path_new_def file_path_validate_def forbidden_chars_def str_contains_char_def)

text \<open>A short address is valid as a value object and refused by the service.\<close>

lemma email_checks_disagree: "email_new ''a@b.c'' = Ok (EmailAddress ''a@b.c'')" "\<not> is_valid_email ''a@b.c''" "is_valid_email ''@@@@@.''"
  by (simp_all add: email_new_def email_validate_def is_valid_email_def str_contains_char_def Let_def)

theorem value_objects_valid_witness:
  "\<exists>p'. file_path_normalize (FilePath ''~/docs//a'') = Ok (FilePath p') \<and> length p' \<le> 9"
proof -
  have "file_path_new ''~/docs//a'' = Ok (FilePath ''~/docs//a'')"
    by (simp add: file_path_new_def file_path_validate_def forbidden_chars_def str_contains_char_def)
  then show ?thesis
    using conjunct1 [OF conjunct2 [OF value_objects_valid [of "''~/docs//a''" "FilePath ''~/docs//a''"]]] by auto
qed

section \<open>Conflicts\<close>

text \<open>The copy that a side keeps, by the two copies as that side sees them.\<close>

definition kept_copy :: "'a \<Rightarrow> 'a \<Rightarrow> conflict_strategy \<Rightarrow> 'a option" where
  "kept_copy local remote s = (case s of UseLocal \<Rightarrow> Some local | UseRemote \<Rightarrow> Some remote | _ \<Rightarrow> None)"

text \<open>
  Two devices in conflict decide alike, whichever looks first, except when both copies have the
  same time and the same size: then each keeps its own copy, also when the contents differ.
\<close>
theorem conflict_decisions_agree:
  "kept_copy a b (determine_conflict_strategy t1 t2 n1 n2) = kept_copy b a (determine_conflict_strategy t2 t1 n2 n1) \<longleftrightarrow>
     \<not> (a \<noteq> b \<and> t1 = t2 \<and> n1 = n2)"
  by (auto simp: determine_conflict_strategy_def kept_copy_def)

end
