(* ===== verification/Domain.thy ===== *)
theory Domain
  imports Domain_Values
begin

text \<open>
  The domain entities with their events (\<^verbatim>\<open>src/domain/entities.rs\<close>), the registry of event handlers
  (\<^verbatim>\<open>src/domain/events.rs\<close>) and the search specifications (\<^verbatim>\<open>src/domain/repositories.rs\<close>).  The current time in
  seconds and new UUIDs are arguments.
\<close>

section \<open>Accounts\<close>

datatype account_event =
    AccountCreated string string i64 \<comment> \<open>account, e-mail, time\<close>
  | EmailUpdated string string string i64 \<comment> \<open>account, old and new e-mail, time\<close>
  | AccountDeactivated string i64

record account_entity =
  ae_id :: string
  ae_email :: string
  ae_account_hash :: string
  ae_created_at :: i64
  ae_updated_at :: i64
  ae_is_active :: bool
  ae_events :: "account_event list"

definition account_validate :: "account_entity \<Rightarrow> (sync_error, unit) result" where
  "account_validate a =
     (if ae_id a = [] then Err (Validation ''Account ID cannot be empty'')
      else if ae_email a = [] \<or> \<not> str_contains_char (ae_email a) (CHR ''@'') then Err (Validation ''Invalid email address'')
      else if ae_account_hash a = [] then Err (Validation ''Account hash cannot be empty'')
      else if ae_created_at a \<le> 0 \<or> ae_updated_at a \<le> 0 then Err (Validation ''Invalid timestamps'')
      else if ae_updated_at a < ae_created_at a then Err (Validation ''Updated time cannot be before created time'')
      else Ok ())"

definition account_create :: "string \<Rightarrow> i64 \<Rightarrow> string \<Rightarrow> string \<Rightarrow> (sync_error, account_entity) result" where
  "account_create uuid now email account_hash =
     (let a = \<lparr>ae_id = uuid, ae_email = email, ae_account_hash = account_hash, ae_created_at = now, ae_updated_at = now,
               ae_is_active = True, ae_events = [AccountCreated uuid email now]\<rparr>
      in case account_validate a of Inl e \<Rightarrow> Err e | Inr _ \<Rightarrow> Ok a)"

definition account_deactivate :: "i64 \<Rightarrow> account_entity \<Rightarrow> (sync_error, unit) result \<times> account_entity" where
  "account_deactivate now a =
     (if \<not> ae_is_active a then (Err (Validation ''Account is already inactive''), a)
      else (Ok (), a\<lparr>ae_is_active := False, ae_updated_at := now, ae_events := ae_events a @ [AccountDeactivated (ae_id a) now]\<rparr>))"

definition account_update_email :: "i64 \<Rightarrow> string \<Rightarrow> account_entity \<Rightarrow> (sync_error, unit) result \<times> account_entity" where
  "account_update_email now new_email a =
     (if new_email = ae_email a then (Ok (), a)
      else if \<not> str_contains_char new_email (CHR ''@'') then (Err (Validation ''Invalid email format''), a)
      else (Ok (), a\<lparr>ae_email := new_email, ae_updated_at := now,
              ae_events := ae_events a @ [EmailUpdated (ae_id a) (ae_email a) new_email now]\<rparr>))"

definition account_clear_events :: "account_entity \<Rightarrow> account_entity" where
  "account_clear_events a = a\<lparr>ae_events := []\<rparr>"

fun account_event_type :: "account_event \<Rightarrow> string" where
  "account_event_type (AccountCreated _ _ _) = ''account.created''"
| "account_event_type (EmailUpdated _ _ _ _) = ''account.email_updated''"
| "account_event_type (AccountDeactivated _ _) = ''account.deactivated''"

fun account_event_timestamp :: "account_event \<Rightarrow> i64" where
  "account_event_timestamp (AccountCreated _ _ t) = t"
| "account_event_timestamp (EmailUpdated _ _ _ t) = t"
| "account_event_timestamp (AccountDeactivated _ t) = t"

definition create_account_with_validation :: "string \<Rightarrow> i64 \<Rightarrow> string \<Rightarrow> string \<Rightarrow> (sync_error, account_entity) result" where
  "create_account_with_validation uuid now email account_hash =
     (if \<not> is_valid_email email then Err (Validation ''Invalid email format'')
      else if \<not> is_valid_hash account_hash then Err (Validation ''Invalid account hash format'')
      else account_create uuid now email account_hash)"

section \<open>Devices\<close>

definition device_type_validate :: "device_type \<Rightarrow> (sync_error, unit) result" where
  "device_type_validate t = (if t = Other [] then Err (Validation ''Device type name cannot be empty'') else Ok ())"

datatype device_event =
    DeviceRegistered string string string device_type i64 \<comment> \<open>device, account, name, type, time\<close>
  | ActivityUpdated string i64
  | DeviceDeactivated string i64

record device_entity =
  dent_device_hash :: string
  dent_account_hash :: string
  dent_device_name :: string
  dent_device_type :: device_type
  dent_last_seen :: i64
  dent_is_active :: bool
  dent_created_at :: i64
  dent_events :: "device_event list"

definition device_validate :: "device_entity \<Rightarrow> (sync_error, unit) result" where
  "device_validate d =
     (if dent_device_hash d = [] then Err (Validation ''Device hash cannot be empty'')
      else if dent_account_hash d = [] then Err (Validation ''Account hash cannot be empty'')
      else if dent_device_name d = [] then Err (Validation ''Device name cannot be empty'')
      else if dent_created_at d \<le> 0 \<or> dent_last_seen d \<le> 0 then Err (Validation ''Invalid timestamps'')
      else device_type_validate (dent_device_type d))"

definition device_register :: "i64 \<Rightarrow> string \<Rightarrow> string \<Rightarrow> string \<Rightarrow> device_type \<Rightarrow> (sync_error, device_entity) result" where
  "device_register now device_hash account_hash device_name device_type =
     (case device_type_validate device_type of
        Inl e \<Rightarrow> Err e
      | Inr _ \<Rightarrow>
          (let d = \<lparr>dent_device_hash = device_hash, dent_account_hash = account_hash, dent_device_name = device_name,
                    dent_device_type = device_type, dent_last_seen = now, dent_is_active = True, dent_created_at = now,
                    dent_events = [DeviceRegistered device_hash account_hash device_name device_type now]\<rparr>
           in case device_validate d of Inl e \<Rightarrow> Err e | Inr _ \<Rightarrow> Ok d))"

definition device_update_activity :: "i64 \<Rightarrow> device_entity \<Rightarrow> device_entity" where
  "device_update_activity now d = d\<lparr>dent_last_seen := now, dent_events := dent_events d @ [ActivityUpdated (dent_device_hash d) now]\<rparr>"

definition device_entity_deactivate :: "i64 \<Rightarrow> device_entity \<Rightarrow> (sync_error, unit) result \<times> device_entity" where
  "device_entity_deactivate now d =
     (if \<not> dent_is_active d then (Err (Validation ''Device is already inactive''), d)
      else (Ok (), d\<lparr>dent_is_active := False, dent_events := dent_events d @ [DeviceDeactivated (dent_device_hash d) now]\<rparr>))"

definition device_clear_events :: "device_entity \<Rightarrow> device_entity" where
  "device_clear_events d = d\<lparr>dent_events := []\<rparr>"

fun device_event_type :: "device_event \<Rightarrow> string" where
  "device_event_type (DeviceRegistered _ _ _ _ _) = ''device.registered''"
| "device_event_type (ActivityUpdated _ _) = ''device.activity_updated''"
| "device_event_type (DeviceDeactivated _ _) = ''device.deactivated''"

fun device_event_timestamp :: "device_event \<Rightarrow> i64" where
  "device_event_timestamp (DeviceRegistered _ _ _ _ t) = t"
| "device_event_timestamp (ActivityUpdated _ t) = t"
| "device_event_timestamp (DeviceDeactivated _ t) = t"

definition register_device_safely ::
    "(string \<Rightarrow> string) \<Rightarrow> i64 \<Rightarrow> string \<Rightarrow> string \<Rightarrow> string \<Rightarrow> string option \<Rightarrow> (sync_error, device_entity) result" where
  "register_device_safely ul now device_hash account_hash device_name user_agent =
     (if \<not> is_valid_hash device_hash then Err (Validation ''Invalid device hash format'')
      else if trim device_name = [] then Err (Validation ''Device name cannot be empty'')
      else device_register now device_hash account_hash device_name (infer_device_type ul device_name user_agent))"

section \<open>Conversion from and to the database models\<close>

definition account_of_model :: "chrono \<Rightarrow> account \<Rightarrow> account_entity" where
  "account_of_model ch m =
     \<lparr>ae_id = a_id m, ae_email = a_email m, ae_account_hash = a_account_hash m, ae_created_at = ch_timestamp ch (a_created_at m),
      ae_updated_at = ch_timestamp ch (a_updated_at m), ae_is_active = a_is_active m, ae_events = []\<rparr>"

definition datetime_or_now :: "chrono \<Rightarrow> datetime \<Rightarrow> i64 \<Rightarrow> datetime" where
  "datetime_or_now ch now t = (case ch_from_timestamp ch t 0 of Some d \<Rightarrow> d | None \<Rightarrow> now)"

definition model_of_account :: "chrono \<Rightarrow> datetime \<Rightarrow> account_entity \<Rightarrow> account" where
  "model_of_account ch now a =
     \<lparr>a_account_hash = ae_account_hash a, a_id = ae_id a, a_email = ae_email a, a_name = ''Unknown'', a_user_type = ''user'',
      a_password_hash = [], a_salt = [], a_is_active = ae_is_active a, a_created_at = datetime_or_now ch now (ae_created_at a),
      a_last_login = now, a_updated_at = datetime_or_now ch now (ae_updated_at a), a_user_id = ae_id a\<rparr>"

definition type_of_os_version :: "(string \<Rightarrow> string) \<Rightarrow> string \<Rightarrow> device_type" where
  "type_of_os_version ul os_version =
     (let has = str_contains (to_lowercase ul os_version) in
      if has ''desktop'' then Desktop else if has ''laptop'' then Laptop else if has ''mobile'' then Mobile
      else if has ''tablet'' then Tablet else Other os_version)"

definition device_of_model :: "chrono \<Rightarrow> (string \<Rightarrow> string) \<Rightarrow> device \<Rightarrow> device_entity" where
  "device_of_model ch ul m =
     \<lparr>dent_device_hash = d_device_hash m, dent_account_hash = d_account_hash m, dent_device_name = d_user_id m,
      dent_device_type = type_of_os_version ul (d_os_version m), dent_last_seen = ch_timestamp ch (d_last_sync m),
      dent_is_active = d_is_active m, dent_created_at = ch_timestamp ch (d_registered_at m), dent_events = []\<rparr>"

fun os_version_of :: "device_type \<Rightarrow> string" where
  "os_version_of Desktop = ''Desktop OS''"
| "os_version_of Laptop = ''Laptop OS''"
| "os_version_of Mobile = ''Mobile OS''"
| "os_version_of Tablet = ''Tablet OS''"
| "os_version_of Server = ''Server OS''"
| "os_version_of (Other name) = name"

definition model_of_device :: "chrono \<Rightarrow> datetime \<Rightarrow> device_entity \<Rightarrow> device" where
  "model_of_device ch now d =
     \<lparr>d_user_id = dent_device_name d, d_account_hash = dent_account_hash d, d_device_hash = dent_device_hash d, d_updated_at = now,
      d_registered_at = datetime_or_now ch now (dent_created_at d), d_last_sync = datetime_or_now ch now (dent_last_seen d),
      d_is_active = dent_is_active d, d_os_version = os_version_of (dent_device_type d), d_app_version = ''1.0.0''\<rparr>"

section \<open>Search specifications\<close>

record account_search_spec =
  as_email_pattern :: "string option"
  as_is_active :: "bool option"
  as_created_after :: "i64 option"
  as_created_before :: "i64 option"

definition account_spec_new :: account_search_spec where
  "account_spec_new = \<lparr>as_email_pattern = None, as_is_active = None, as_created_after = None, as_created_before = None\<rparr>"

definition account_spec_satisfied :: "account_search_spec \<Rightarrow> account_entity \<Rightarrow> bool" where
  "account_spec_satisfied s a =
     (let fails = (\<lambda>x bad. case x of Some v \<Rightarrow> bad v | None \<Rightarrow> False) in
      if (case as_email_pattern s of Some p \<Rightarrow> \<not> str_contains (ae_email a) p | None \<Rightarrow> False) then False
      else if (case as_is_active s of Some b \<Rightarrow> ae_is_active a \<noteq> b | None \<Rightarrow> False) then False
      else if fails (as_created_after s) (\<lambda>t. ae_created_at a \<le> t) then False
      else if fails (as_created_before s) (\<lambda>t. ae_created_at a \<ge> t) then False
      else True)"

record device_search_spec =
  ds_account_hash :: "string option"
  ds_device_name_pattern :: "string option"
  ds_is_active :: "bool option"
  ds_last_seen_after :: "i64 option"

definition device_spec_new :: device_search_spec where
  "device_spec_new = \<lparr>ds_account_hash = None, ds_device_name_pattern = None, ds_is_active = None, ds_last_seen_after = None\<rparr>"

definition device_spec_satisfied :: "device_search_spec \<Rightarrow> device_entity \<Rightarrow> bool" where
  "device_spec_satisfied s d =
     (if (case ds_account_hash s of Some h \<Rightarrow> dent_account_hash d \<noteq> h | None \<Rightarrow> False) then False
      else if (case ds_device_name_pattern s of Some p \<Rightarrow> \<not> str_contains (dent_device_name d) p | None \<Rightarrow> False) then False
      else if (case ds_is_active s of Some b \<Rightarrow> dent_is_active d \<noteq> b | None \<Rightarrow> False) then False
      else if (case ds_last_seen_after s of Some t \<Rightarrow> dent_last_seen d \<le> t | None \<Rightarrow> False) then False
      else True)"

section \<open>Domain events and their handlers\<close>

record base_event =
  be_event_id :: string
  be_timestamp :: i64
  be_event_type :: string
  be_aggregate_id :: string
  be_version :: i64

definition base_event_new :: "string \<Rightarrow> i64 \<Rightarrow> string \<Rightarrow> string \<Rightarrow> base_event" where
  "base_event_new uuid now event_type aggregate_id =
     \<lparr>be_event_id = uuid, be_timestamp = now, be_event_type = event_type, be_aggregate_id = aggregate_id, be_version = 1\<rparr>"

datatype account_domain_event =
    AD_Created (ad_base: base_event) string string string \<comment> \<open>account, e-mail, hash\<close>
  | AD_EmailUpdated (ad_base: base_event) string string string \<comment> \<open>account, old and new e-mail\<close>
  | AD_Deactivated (ad_base: base_event) string "string option" \<comment> \<open>account, reason\<close>
  | AD_Reactivated (ad_base: base_event) string

datatype device_domain_event =
    DD_Registered (dd_base: base_event) string string string string \<comment> \<open>device, account, name, type\<close>
  | DD_ActivityUpdated (dd_base: base_event) string i64
  | DD_Deactivated (dd_base: base_event) string "string option"
  | DD_NameUpdated (dd_base: base_event) string string string

datatype file_sync_event =
    FS_Uploaded (fs_base: base_event) u64 string string string u64 string \<comment> \<open>file, account, device, path, size, hash\<close>
  | FS_Downloaded (fs_base: base_event) u64 string string
  | FS_Deleted (fs_base: base_event) u64 string string string
  | FS_ConflictDetected (fs_base: base_event) u64 string "string list" string
  | FS_Completed (fs_base: base_event) u64 string "string list"

fun account_domain_event_type :: "account_domain_event \<Rightarrow> string" where
  "account_domain_event_type (AD_Created _ _ _ _) = ''account.created''"
| "account_domain_event_type (AD_EmailUpdated _ _ _ _) = ''account.email_updated''"
| "account_domain_event_type (AD_Deactivated _ _ _) = ''account.deactivated''"
| "account_domain_event_type (AD_Reactivated _ _) = ''account.reactivated''"

fun device_domain_event_type :: "device_domain_event \<Rightarrow> string" where
  "device_domain_event_type (DD_Registered _ _ _ _ _) = ''device.registered''"
| "device_domain_event_type (DD_ActivityUpdated _ _ _) = ''device.activity_updated''"
| "device_domain_event_type (DD_Deactivated _ _ _) = ''device.deactivated''"
| "device_domain_event_type (DD_NameUpdated _ _ _ _) = ''device.name_updated''"

fun file_sync_event_type :: "file_sync_event \<Rightarrow> string" where
  "file_sync_event_type (FS_Uploaded _ _ _ _ _ _ _) = ''file.uploaded''"
| "file_sync_event_type (FS_Downloaded _ _ _ _) = ''file.downloaded''"
| "file_sync_event_type (FS_Deleted _ _ _ _ _) = ''file.deleted''"
| "file_sync_event_type (FS_ConflictDetected _ _ _ _ _) = ''file.sync_conflict_detected''"
| "file_sync_event_type (FS_Completed _ _ _ _) = ''file.sync_completed''"

datatype domain_event = DE_Account account_domain_event | DE_Device device_domain_event | DE_FileSync file_sync_event

fun domain_event_type :: "domain_event \<Rightarrow> string" where
  "domain_event_type (DE_Account e) = account_domain_event_type e"
| "domain_event_type (DE_Device e) = device_domain_event_type e"
| "domain_event_type (DE_FileSync e) = file_sync_event_type e"

fun domain_event_timestamp :: "domain_event \<Rightarrow> i64" where
  "domain_event_timestamp (DE_Account e) = be_timestamp (ad_base e)"
| "domain_event_timestamp (DE_Device e) = be_timestamp (dd_base e)"
| "domain_event_timestamp (DE_FileSync e) = be_timestamp (fs_base e)"

fun domain_event_id :: "domain_event \<Rightarrow> string" where
  "domain_event_id (DE_Account e) = be_event_id (ad_base e)"
| "domain_event_id (DE_Device e) = be_event_id (dd_base e)"
| "domain_event_id (DE_FileSync e) = be_event_id (fs_base e)"

text \<open>A handler acts on a state of its own world and may fail.\<close>

type_synonym 'w event_handler = "domain_event \<Rightarrow> 'w \<Rightarrow> (sync_error, unit) result \<times> 'w"
type_synonym 'w handler_registry = "(string, 'w event_handler list) hashmap"

definition register_handler :: "string \<Rightarrow> 'w event_handler \<Rightarrow> 'w handler_registry \<Rightarrow> 'w handler_registry" where
  "register_handler event_type h reg =
     hm_insert event_type ((case hm_get reg event_type of Some hs \<Rightarrow> hs | None \<Rightarrow> []) @ [h]) reg"

fun run_handlers :: "'w event_handler list \<Rightarrow> domain_event \<Rightarrow> 'w \<Rightarrow> (sync_error, unit) result \<times> 'w" where
  "run_handlers [] event w = (Ok (), w)"
| "run_handlers (h # hs) event w =
     (case h event w of (Inl e, w') \<Rightarrow> (Err e, w') | (Inr _, w') \<Rightarrow> run_handlers hs event w')"

definition handle_event :: "'w handler_registry \<Rightarrow> domain_event \<Rightarrow> 'w \<Rightarrow> (sync_error, unit) result \<times> 'w" where
  "handle_event reg event w =
     (case hm_get reg (domain_event_type event) of Some hs \<Rightarrow> run_handlers hs event w | None \<Rightarrow> (Ok (), w))"

lemma run_handlers_snoc:
  "run_handlers (hs @ [h]) event w =
     (case run_handlers hs event w of (Inl e, w') \<Rightarrow> (Err e, w') | (Inr _, w') \<Rightarrow> h event w')"
  by (induction hs arbitrary: w) (auto split: prod.splits sum.splits)

text \<open>
  A handler hears exactly the events of the type it is registered for, after the handlers
  registered before it, and only when all of these succeeded; the events of other types are handled as before.
\<close>
theorem registered_handler_called:
  "handle_event (register_handler t h reg) event w =
     (case handle_event reg event w of
        (Inl e, w') \<Rightarrow> (Err e, w')
      | (Inr _, w') \<Rightarrow> if domain_event_type event = t then h event w' else (Ok (), w'))"
  by (auto simp: handle_event_def register_handler_def hm_get_insert run_handlers_snoc split: option.split prod.split sum.split)

section \<open>Replaying events\<close>

text \<open>
  The life of an entity: its operations add events, and from time to time its events are
  published and cleared.  The first component is the list of published events.
\<close>

inductive published :: "('s \<Rightarrow> 's \<Rightarrow> bool) \<Rightarrow> ('s \<Rightarrow> 'e list) \<Rightarrow> ('s \<Rightarrow> 's) \<Rightarrow> 's \<Rightarrow> 'e list \<Rightarrow> 's \<Rightarrow> bool"
  for op events clear s0 where
  pub_start: "published op events clear s0 [] s0"
| pub_operate: "published op events clear s0 p s \<Longrightarrow> op s s' \<Longrightarrow> published op events clear s0 p s'"
| pub_publish: "published op events clear s0 p s \<Longrightarrow> published op events clear s0 (p @ events s) (clear s)"

locale event_sourced =
  fixes op :: "'s \<Rightarrow> 's \<Rightarrow> bool" and events :: "'s \<Rightarrow> 'e list" and clear :: "'s \<Rightarrow> 's"
    and view :: "'s \<Rightarrow> 'v" and apply_event :: "'e \<Rightarrow> 'v option \<Rightarrow> 'v option"
  assumes op_events: "op s s' \<Longrightarrow> \<exists>es. events s' = events s @ es \<and> fold apply_event es (Some (view s)) = Some (view s')"
    and clear_events: "events (clear s) = []" "view (clear s) = view s"
begin

lemma replay:
  assumes "fold apply_event (events s0) None = Some (view s0)" "published op events clear s0 p s"
  shows "fold apply_event (p @ events s) None = Some (view s)"
  using assms(2)
proof (induction rule: published.induct)
  case (pub_operate p s s')
  then obtain es where "events s' = events s @ es" "fold apply_event es (Some (view s)) = Some (view s')" using op_events by blast
  then show ?case using pub_operate.IH by simp
qed (simp_all add: assms(1) clear_events)

end

inductive account_op :: "account_entity \<Rightarrow> account_entity \<Rightarrow> bool" where
  op_deactivate: "account_deactivate now a = (r, a') \<Longrightarrow> account_op a a'"
| op_update_email: "account_update_email now email a = (r, a') \<Longrightarrow> account_op a a'"

inductive device_op :: "device_entity \<Rightarrow> device_entity \<Rightarrow> bool" where
  op_activity: "device_op d (device_update_activity now d)"
| op_device_deactivate: "device_entity_deactivate now d = (r, d') \<Longrightarrow> device_op d d'"

text \<open>
  The state the events determine: the whole entity apart from its list of pending events and, for an account, its hash, which no event
  carries.  An event that does not fit the state it meets gives \<open>None\<close>.
\<close>

definition account_view :: "account_entity \<Rightarrow> account_entity" where
  "account_view a = a\<lparr>ae_account_hash := '''', ae_events := []\<rparr>"

fun apply_account_event :: "account_event \<Rightarrow> account_entity option \<Rightarrow> account_entity option" where
  "apply_account_event (AccountCreated i email t) None =
     Some \<lparr>ae_id = i, ae_email = email, ae_account_hash = '''', ae_created_at = t, ae_updated_at = t, ae_is_active = True, ae_events = []\<rparr>"
| "apply_account_event (EmailUpdated i old new t) (Some a) =
     (if i = ae_id a \<and> old = ae_email a then Some (a\<lparr>ae_email := new, ae_updated_at := t\<rparr>) else None)"
| "apply_account_event (AccountDeactivated i t) (Some a) =
     (if i = ae_id a \<and> ae_is_active a then Some (a\<lparr>ae_is_active := False, ae_updated_at := t\<rparr>) else None)"
| "apply_account_event _ _ = None"

definition device_view :: "device_entity \<Rightarrow> device_entity" where
  "device_view d = d\<lparr>dent_events := []\<rparr>"

fun apply_device_event :: "device_event \<Rightarrow> device_entity option \<Rightarrow> device_entity option" where
  "apply_device_event (DeviceRegistered d a n ty t) None =
     Some \<lparr>dent_device_hash = d, dent_account_hash = a, dent_device_name = n, dent_device_type = ty, dent_last_seen = t,
       dent_is_active = True, dent_created_at = t, dent_events = []\<rparr>"
| "apply_device_event (ActivityUpdated h t) (Some d) = (if h = dent_device_hash d then Some (d\<lparr>dent_last_seen := t\<rparr>) else None)"
| "apply_device_event (DeviceDeactivated h _) (Some d) =
     (if h = dent_device_hash d \<and> dent_is_active d then Some (d\<lparr>dent_is_active := False\<rparr>) else None)"
| "apply_device_event _ _ = None"

interpretation accounts: event_sourced account_op ae_events account_clear_events account_view apply_account_event
proof
  show "\<exists>es. ae_events a' = ae_events a @ es \<and> fold apply_account_event es (Some (account_view a)) = Some (account_view a')"
    if "account_op a a'" for a a'
    using that by cases (auto simp: account_deactivate_def account_update_email_def account_view_def split: if_splits)
qed (simp_all add: account_clear_events_def account_view_def)

interpretation devices: event_sourced device_op dent_events device_clear_events device_view apply_device_event
proof
  show "\<exists>es. dent_events d' = dent_events d @ es \<and> fold apply_device_event es (Some (device_view d)) = Some (device_view d')"
    if "device_op d d'" for d d'
    using that by cases (auto simp: device_update_activity_def device_entity_deactivate_def device_view_def split: if_splits)
qed (simp_all add: device_clear_events_def device_view_def)

lemma account_hash_fixed:
  "published account_op ae_events account_clear_events a0 p a \<Longrightarrow> ae_account_hash a = ae_account_hash a0"
  by (induction rule: published.induct)
    (auto simp: account_clear_events_def account_deactivate_def account_update_email_def elim!: account_op.cases split: if_splits)

text \<open>
  C28: the events of an account or a device tell its whole history.  Whatever operations have run since \<^verbatim>\<open>create\<close> or
  \<^verbatim>\<open>register\<close> made it, and whenever its events were published and cleared, replaying all published and pending events gives its current
  record, every field of a device and every field of an account but its hash, which no event carries and no operation changes; each
  event fits the state it was recorded in.  Entities converted from database records, which start without events, are not covered.
\<close>
theorem events_replay:
  "(account_create uuid now email hash = Ok a0 \<and> published account_op ae_events account_clear_events a0 p a \<longrightarrow>
      (\<exists>v. fold apply_account_event (p @ ae_events a) None = Some v \<and> v\<lparr>ae_account_hash := hash\<rparr> = a\<lparr>ae_events := []\<rparr>)) \<and>
   (device_register now dev acc name ty = Ok d0 \<and> published device_op dent_events device_clear_events d0 q d \<longrightarrow>
      fold apply_device_event (q @ dent_events d) None = Some (d\<lparr>dent_events := []\<rparr>))"
proof (intro conjI impI; elim conjE)
  assume a0: "account_create uuid now email hash = Ok a0" and life: "published account_op ae_events account_clear_events a0 p a"
  have "fold apply_account_event (ae_events a0) None = Some (account_view a0)"
    using a0 by (auto simp: account_create_def account_view_def Let_def split: sum.splits)
  then have "fold apply_account_event (p @ ae_events a) None = Some (account_view a)" using life by (rule accounts.replay)
  moreover have "ae_account_hash a = hash"
    using account_hash_fixed [OF life] a0 by (auto simp: account_create_def Let_def split: sum.splits)
  ultimately show "\<exists>v. fold apply_account_event (p @ ae_events a) None = Some v \<and> v\<lparr>ae_account_hash := hash\<rparr> = a\<lparr>ae_events := []\<rparr>"
    by (auto simp: account_view_def)
next
  assume d0: "device_register now dev acc name ty = Ok d0" and life: "published device_op dent_events device_clear_events d0 q d"
  have "fold apply_device_event (dent_events d0) None = Some (device_view d0)"
    using d0 by (auto simp: device_register_def device_view_def Let_def split: sum.splits)
  then have "fold apply_device_event (q @ dent_events d) None = Some (device_view d)" using life by (rule devices.replay)
  then show "fold apply_device_event (q @ dent_events d) None = Some (d\<lparr>dent_events := []\<rparr>)" by (simp add: device_view_def)
qed

definition sample_account_entity :: account_entity where
  "sample_account_entity = \<lparr>ae_id = ''u'', ae_email = ''a@b.org'', ae_account_hash = ''h'', ae_created_at = 5, ae_updated_at = 5,
     ae_is_active = True, ae_events = [AccountCreated ''u'' ''a@b.org'' 5]\<rparr>"

lemma demo_account_created: "account_create ''u'' 5 ''a@b.org'' ''h'' = Ok sample_account_entity"
  by (simp add: account_create_def account_validate_def sample_account_entity_def str_contains_char_def)

theorem events_replay_witness:
  "\<exists>a v. account_deactivate 9 (account_clear_events sample_account_entity) = (Ok (), a) \<and>
     fold apply_account_event (ae_events sample_account_entity @ ae_events a) None = Some v \<and> \<not> ae_is_active v \<and> ae_updated_at v = 9"
proof -
  obtain a where a: "account_deactivate 9 (account_clear_events sample_account_entity) = (Ok (), a)" "\<not> ae_is_active a" "ae_updated_at a = 9"
    by (simp add: account_deactivate_def account_clear_events_def sample_account_entity_def)
  have "published account_op ae_events account_clear_events sample_account_entity ([] @ ae_events sample_account_entity) (account_clear_events sample_account_entity)"
    by (rule pub_publish [OF pub_start])
  from pub_operate [OF this op_deactivate [OF a(1)]]
  have life: "published account_op ae_events account_clear_events sample_account_entity (ae_events sample_account_entity) a" by simp
  obtain v where v: "fold apply_account_event (ae_events sample_account_entity @ ae_events a) None = Some v"
    "v\<lparr>ae_account_hash := ''h''\<rparr> = a\<lparr>ae_events := []\<rparr>"
    using conjunct1 [OF events_replay] demo_account_created life by blast
  have "ae_is_active v = ae_is_active a" "ae_updated_at v = ae_updated_at a"
    using arg_cong [OF v(2), of ae_is_active] arg_cong [OF v(2), of ae_updated_at] by simp_all
  with a v(1) show ?thesis by auto
qed

section \<open>Validity\<close>

text \<open>
  Every entity a constructor returns is valid, and the operations keep an account valid as long as
  the clock does not run backwards behind its creation.
\<close>

lemma account_create_valid: "account_create uuid now email hash = Ok a \<Longrightarrow> account_validate a = Ok ()"
  by (auto simp: account_create_def Let_def split: sum.splits)

lemma device_register_valid: "device_register now dev acc name ty = Ok d \<Longrightarrow> device_validate d = Ok ()"
  by (auto simp: device_register_def Let_def split: sum.splits)

lemma account_ops_valid:
  assumes "account_validate a = Ok ()" "ae_created_at a \<le> now"
  shows "account_validate (snd (account_deactivate now a)) = Ok ()" "account_validate (snd (account_update_email now email a)) = Ok ()"
  using assms by (auto simp: account_validate_def account_deactivate_def account_update_email_def str_contains_char_def split: if_splits)

lemma device_activity_valid: "device_validate d = Ok () \<Longrightarrow> 0 < now \<Longrightarrow> device_validate (device_update_activity now d) = Ok ()"
  by (auto simp: device_validate_def device_update_activity_def split: if_splits)

section \<open>Entities and database models\<close>

text \<open>A time that the calendar knows survives the way to the model and back.\<close>

definition known_time :: "chrono \<Rightarrow> i64 \<Rightarrow> bool" where
  "known_time ch t \<longleftrightarrow> (\<exists>d. ch_from_timestamp ch t 0 = Some d \<and> ch_timestamp ch d = t)"

lemma known_time_roundtrip: "known_time ch t \<Longrightarrow> ch_timestamp ch (datetime_or_now ch now t) = t"
  by (auto simp: known_time_def datetime_or_now_def)

text \<open>The name of a type that is recognised when it is read back.\<close>

definition recognised :: "(string \<Rightarrow> string) \<Rightarrow> device_type \<Rightarrow> bool" where
  "recognised ul t \<longleftrightarrow>
     (case t of
        Server \<Rightarrow> False
      | Other name \<Rightarrow> list_all (\<lambda>p. \<not> str_contains (to_lowercase ul name) p) [''desktop'', ''laptop'', ''mobile'', ''tablet'']
      | _ \<Rightarrow> True)"

lemma recognised_iff: "type_of_os_version ul (os_version_of t) = t \<longleftrightarrow> recognised ul t"
  by (cases t) (simp_all add: type_of_os_version_def recognised_def Let_def to_lowercase_def is_ascii_def ascii_lower_def
      char_of_def bit_simps)

text \<open>
  An entity converted to its database model and back is the same, without its events, when the calendar knows its times; of
  devices this holds for every type but the server, whose type is read back as an unknown one, and names that contain another type.
\<close>
theorem entity_model_roundtrip:
  assumes "known_time ch (ae_created_at a)" "known_time ch (ae_updated_at a)"
    and "known_time ch (dent_created_at d)" "known_time ch (dent_last_seen d)"
  shows "account_of_model ch (model_of_account ch now a) = account_clear_events a \<and>
    (device_of_model ch ul (model_of_device ch now d) = device_clear_events d) = recognised ul (dent_device_type d)"
proof
  show "account_of_model ch (model_of_account ch now a) = account_clear_events a"
    using assms by (simp add: account_of_model_def model_of_account_def account_clear_events_def known_time_roundtrip)
  have "device_of_model ch ul (model_of_device ch now d) =
      (device_clear_events d)\<lparr>dent_device_type := type_of_os_version ul (os_version_of (dent_device_type d))\<rparr>"
    using assms by (simp add: device_of_model_def model_of_device_def device_clear_events_def known_time_roundtrip)
  then show "(device_of_model ch ul (model_of_device ch now d) = device_clear_events d) = recognised ul (dent_device_type d)"
    using recognised_iff [of ul "dent_device_type d"] by (cases d) (simp add: device_clear_events_def)
qed

theorem entity_model_roundtrip_witness:
  "account_of_model sample_chrono (model_of_account sample_chrono 7 sample_account_entity) = account_clear_events sample_account_entity"
proof -
  have "known_time sample_chrono t" for t by (simp add: known_time_def sample_chrono_def)
  then show ?thesis
    using entity_model_roundtrip [of sample_chrono sample_account_entity
      "\<lparr>dent_device_hash = [], dent_account_hash = [], dent_device_name = [], dent_device_type = Desktop, dent_last_seen = 0,
        dent_is_active = True, dent_created_at = 0, dent_events = []\<rparr>" 7] by blast
qed

section \<open>Searches\<close>

text \<open>An empty specification accepts everything, and a filled field only restricts the search.\<close>

lemma account_spec_iff:
  "account_spec_satisfied s a \<longleftrightarrow>
     (\<forall>p. as_email_pattern s = Some p \<longrightarrow> str_contains (ae_email a) p) \<and> (\<forall>b. as_is_active s = Some b \<longrightarrow> ae_is_active a = b) \<and>
     (\<forall>t. as_created_after s = Some t \<longrightarrow> t < ae_created_at a) \<and> (\<forall>t. as_created_before s = Some t \<longrightarrow> ae_created_at a < t)"
  by (auto simp: account_spec_satisfied_def Let_def split: option.splits if_splits)

lemma device_spec_iff:
  "device_spec_satisfied s d \<longleftrightarrow>
     (\<forall>h. ds_account_hash s = Some h \<longrightarrow> dent_account_hash d = h) \<and>
     (\<forall>p. ds_device_name_pattern s = Some p \<longrightarrow> str_contains (dent_device_name d) p) \<and>
     (\<forall>b. ds_is_active s = Some b \<longrightarrow> dent_is_active d = b) \<and> (\<forall>t. ds_last_seen_after s = Some t \<longrightarrow> t < dent_last_seen d)"
  by (auto simp: device_spec_satisfied_def split: option.splits if_splits)

lemma empty_specs: "account_spec_satisfied account_spec_new a" "device_spec_satisfied device_spec_new d"
  by (simp_all add: account_spec_iff device_spec_iff account_spec_new_def device_spec_new_def)

end
