(* ===== verification/Spec2Isabelle.thy ===== *)
theory Spec2Isabelle
  imports Grpc_Service Lifecycle Broker Monitoring Conversions Domain
begin

text \<open>
  A verification library for the COSMIC sync server, a gRPC server in Rust that keeps files,
  their versions, watcher configurations, devices and keys for accounts and tells the other
  devices of an account about changes.  Paths below are relative to \<^verbatim>\<open>src/src/\<close>.

  \<^bold>\<open>How the program is put together.\<close>  A gRPC request reaches the service (\<^verbatim>\<open>server/service.rs\<close>),
  which routes it to a handler (\<^verbatim>\<open>handlers/\<close>) or opens a stream.  The handler checks the token (\<^verbatim>\<open>auth/oauth.rs\<close>) or only the device (\<^verbatim>\<open>utils/auth.rs\<close>), calls a
  service (\<^verbatim>\<open>services/\<close>), which uses the storage (\<^verbatim>\<open>storage/\<close>), and the change is sent to
  subscribers by the notification manager (\<^verbatim>\<open>server/notification_manager.rs\<close>) and published
  on the event bus.  The storage is the trait \<^verbatim>\<open>Storage\<close> with two implementations: in memory
  (\<^verbatim>\<open>storage/memory.rs\<close>) and MySQL (\<^verbatim>\<open>storage/mysql*.rs\<close>).

  \<^bold>\<open>Theories, in import order, and the code they model.\<close>

  \<^item> \<open>Prelude\<close>, \<open>Rust_Str\<close>: result values, machine integers, hash maps as association lists
    (a state may be any ordering of them), and the string functions of Rust's library.
  \<^item> \<open>Interfaces\<close>: the contracts as locales, \<open>kv_store\<close> and \<open>keyed_table\<close> (tables), \<open>memoised\<close>
    (caches), \<open>invariant_system\<close> (state machines), with their client lemmas.
  \<^item> \<open>Paths\<close>: path normalisation with its memo table, validators of paths and watcher folders
    (\<^verbatim>\<open>utils/helpers.rs\<close>, \<^verbatim>\<open>utils/validator.rs\<close>, \<^verbatim>\<open>validation.rs\<close>).
  \<^item> \<open>Errors\<close>: storage and application errors and gRPC status (\<^verbatim>\<open>error.rs\<close>, \<^verbatim>\<open>storage/mod.rs\<close>).
  \<^item> \<open>Models\<close>: records of files, devices, watchers, accounts and tokens with their conversions to
    and from protobuf (\<^verbatim>\<open>models/\<close>, \<^verbatim>\<open>utils/time.rs\<close>); \<open>Conversions\<close>: the transfer structures between them.
  \<^item> \<open>Memory_Storage\<close>, \<open>Memory_Correct\<close>, \<open>Memory_Behaviour\<close>: the in-memory storage, its
    invariant under every operation, and what each group of operations does.
  \<^item> \<open>Connections\<close>: connection tracker, cleanup, client store, TTL cache
    (\<^verbatim>\<open>server/connection_*.rs\<close>, \<^verbatim>\<open>server/app_state.rs\<close>, \<^verbatim>\<open>storage/cache.rs\<close>).
  \<^item> \<open>Crypto\<close>: \<^verbatim>\<open>utils/crypto.rs\<close> and \<^verbatim>\<open>services/encryption_service.rs\<close>.
  \<^item> \<open>Notifications\<close>: the notification manager and the connection handler.
  \<^item> \<open>Auth\<close>: token verification, token helpers, the auth service, the device check.
  \<^item> \<open>File_Service\<close>, \<open>File_Handlers\<close>: \<^verbatim>\<open>services/file_service.rs\<close>, \<^verbatim>\<open>handlers/file/*.rs\<close> and
    \<^verbatim>\<open>handlers/file_handler.rs\<close>.
  \<^item> \<open>Watcher_Handlers\<close>, \<open>Device_Handlers\<close>: \<^verbatim>\<open>handlers/watcher_handler.rs\<close> with the
    configuration synchronisation, \<^verbatim>\<open>services/device_service.rs\<close>, \<^verbatim>\<open>handlers/device_handler.rs\<close>.
  \<^item> \<open>Mysql_Files\<close>, \<open>Mysql_Correct\<close>: the tables of files, contents and keys of the MySQL storage.
  \<^item> \<open>Mysql_Schema\<close>: creation and migration of the tables, statement by statement, on the
    catalogue of the database (\<^verbatim>\<open>storage/mysql.rs\<close>).
  \<^item> \<open>Mysql_Accounts\<close>: the tables of accounts, tokens and devices (\<^verbatim>\<open>storage/mysql_account.rs\<close>,
    \<^verbatim>\<open>mysql_auth.rs\<close>, \<^verbatim>\<open>mysql_device.rs\<close>).
  \<^item> \<open>Mysql_Watchers\<close>, \<open>Mysql_Watchers_Correct\<close>, \<open>Mysql_Watchers_Keys\<close>: groups, watchers,
    conditions and presets in MySQL (\<^verbatim>\<open>storage/mysql_watcher.rs\<close> and its part of \<^verbatim>\<open>mysql.rs\<close>), what
    the operations do, and the keys and references of the tables under every sequence of them.
  \<^item> \<open>Mysql_Upkeep\<close>: the encryption of the paths of old rows, file notices and the operations
    that are not implemented (\<^verbatim>\<open>storage/mysql.rs\<close>).
  \<^item> \<open>Settings\<close>: the configuration from the environment and from Secrets Manager, its checks, and
    which configuration the server and its storage start with (\<^verbatim>\<open>config/\<close>, \<^verbatim>\<open>main.rs\<close>,
    \<^verbatim>\<open>server/startup.rs\<close>, \<^verbatim>\<open>server/app_state.rs\<close>).
  \<^item> \<open>File_Store\<close>: the contents of files in the database and in S3 (\<^verbatim>\<open>storage/file_storage.rs\<close>),
    both as instances of the contract \<open>blob_store\<close>.
  \<^item> \<open>Startup\<close>: the storage, the file store and the event bus that a start opens, with their checks, one
    round of the background tasks, and the wait for connections at the end (\<^verbatim>\<open>server/startup.rs\<close>,
    \<^verbatim>\<open>storage/mod.rs\<close>, \<^verbatim>\<open>server/app_state.rs\<close>, \<^verbatim>\<open>main.rs\<close>).
  \<^item> \<open>Lifecycle\<close>: managed components (\<^verbatim>\<open>server/common/\<close>), the trait \<^verbatim>\<open>Component\<close> as a record with its contract
    \<open>lawful_component\<close>, and the server as its instance (\<^verbatim>\<open>server/components/sync_server.rs\<close>).
  \<^item> \<open>Broker\<close>: the event bus (\<^verbatim>\<open>server/event_bus.rs\<close>) and the process that consumes its messages
    (\<^verbatim>\<open>bin/rabbit_consumer.rs\<close>).
  \<^item> \<open>Monitoring\<close>: counters, health endpoints, and the container with its registry (\<^verbatim>\<open>monitoring.rs\<close>,
    \<^verbatim>\<open>handlers/health.rs\<close>, \<^verbatim>\<open>container/\<close>).
  \<^item> \<open>Version_Service\<close>: \<^verbatim>\<open>services/version_service.rs\<close> and \<^verbatim>\<open>handlers/sync_handler.rs\<close>, over
    the contract of the storage's version methods.
  \<^item> \<open>Login\<close>: the OAuth code exchange (\<^verbatim>\<open>auth/oauth.rs\<close>), the login sessions and account handlers
    (\<^verbatim>\<open>handlers/auth_handler.rs\<close>) and the browser callback (\<^verbatim>\<open>handlers/oauth.rs\<close>).
  \<^item> \<open>Subscriptions\<close>: the streams of \<^verbatim>\<open>server/service.rs\<close> with the initial synchronisation, the
    timer of a subscription and the keep-alive loop.
  \<^item> \<open>Grpc_Service\<close>: every method of the gRPC services on one shared state, and the runs of the
    whole server.
  \<^item> \<open>Domain_Values\<close>, \<open>Domain\<close>: the domain layer (\<^verbatim>\<open>domain/\<close>), which the handlers do not call yet: value
    objects, services, entities with their events, search specifications and event handlers.  Entities
    are instances of the contract \<open>event_sourced\<close>.

  \<^bold>\<open>Conventions.\<close>  A struct is a record whose fields have the struct's names behind a prefix, an
  enum a datatype, an operation one definition that takes the state last and returns a result and
  the new state.  Strings are the lists of their UTF-8 bytes, so lengths and slices are those of
  Rust.  \<^verbatim>\<open>u64\<close> is a 64-bit word; \<^verbatim>\<open>i32\<close> and \<^verbatim>\<open>i64\<close> are integers with \<open>wrap_i32\<close> and
  \<open>wrap_i64\<close> where the code computes, because the release build wraps.  Times are nanoseconds since
  the epoch.  Errors are the left side of a sum; an outer \<open>None\<close> is a request that panics or never
  returns.  Locks are held for the
  whole of a storage operation, so each operation is one step, and concurrency is the interleaving of
  operations in the step relations.  Log messages are left out.

  \<^bold>\<open>Parameters.\<close>  Code outside the repository is an argument: the cipher, hash, MAC and encodings
  (\<open>crypto_lib\<close>), the calendar (\<open>chrono\<close>), regular expressions, the external account server
  (\<open>auth_server\<close>), the separate file store as the services see it (\<open>file_store\<close>), the requests to S3 (\<open>s3_service\<close>), the
  drivers for MySQL, RabbitMQ and URLs (\<open>drivers\<close>), Redis (\<open>redis_driver\<close>), JSON, the parser of socket addresses, the
  environment of the process with Secrets Manager (\<open>process_env\<close>), the database's errors, the collation, the generated
  identifiers and the decoding of columns (\<open>mysql\<close>, \<open>sql\<close>, \<open>wsql\<close>), which subscribers are alive, random bytes, the clock and the environment.
  What a theorem needs of them is a hypothesis of the theorem, for instance that decryption
  undoes encryption, and its witness instantiates it.  No definition uses fuel: the recursions are
  structural or have a termination proof, except the loop that creates an account in MySQL, a
  partial function whose value is \<open>None\<close> when it never returns.

  \<^bold>\<open>What is shown.\<close>  The whole server: in every state that requests, logins, timers and cleanups
  can reach, the storage, subscriber tables, sessions and connections are well formed; every method
  that looks at the validity of its token refuses a useless one without any effect.  Login: tokens work for exactly
  24 hours, polls return exactly the completed sessions, retries end.  Streams: a subscription
  delivers exactly the backlog that fits its channel, a device that is registered with an open channel hears of the uploads of
  the others, an upload while a device is away is delivered when it subscribes, under the conditions the theorem lists, the keep-alive loop ends exactly
  when it should.  Storage: creation, replacement and cascading deletion of watchers, conditions and groups do
  exactly what they should; the token table refines a partial function.  In MySQL there is at most
  one active row per file while paths are plain, stored records are read back also when encrypted, the size as far as the driver reads it,
  deletion is all or nothing and trimming is exact.  A successful start leaves the tables the server creates and touches no others, a restart changes
  no table or column; accounts, devices and watchers with their conditions are read back, keys stay unique and
  no row refers to a deleted one whichever statements fail, the two translations of identifiers are
  inverse to each other, the wait for a group is bounded, and the encryption of old
  paths changes no record a client reads.  The S3 store and the database store return what was
  written.  Outside the cloud both loaders of the configuration agree.  Services: an upload stays readable, through the service and through the download handler, until the file is deleted or uploaded again,
  restored versions are the newest of the history of their path as the driver reads it, histories are sorted and complete.
  Handlers: dead tokens are refused without effect by the file handlers, the sync handlers answer
  only for the token's account, devices are registered for the token's account, lists and
  notifications reach exactly whom they should.  Other components: the connection tracker keeps
  its times ordered and its cleanup is exact, the memoised normaliser equals the plain one,
  conversions round-trip.  Start and end: a start opens the configured database and file store, stopping waits at most
  ten seconds; manager and server agree on status, health and configuration however they are driven; health
  histories, counters and the registry of services are exact.  Domain: validating constructors accept exactly the valid values, two
  devices decide a conflict consistently, the state of an entity apart from the hash of an account is the replay of its events, and a
  handler hears exactly the events it is registered for.

  \<^bold>\<open>What goes wrong.\<close>  Some theorems state behaviour that is not intended: groups of any account
  can be deleted without a token, downloads and deletions do not check the owner, dead tokens run
  as the account with the empty name in the watcher handlers, generated keys cannot be parsed so
  that names are sent in plain text, encrypted paths cut the link between versions, a restored
  version does not become the current one, a synchronisation duplicates groups and enters watchers
  into groups of others, a restart loses downloads, and a token can make the server panic.  The login
  callback believes an account named in a header and completes the pending logins of all devices;
  a backlog larger than a channel blocks its subscription forever, a new device hears of no
  existing file, and the timer of an old subscription ends the current one.  On tables
  the server created itself nobody can log in and no group can be registered, because the queries
  name columns the tables do not have; creating an account may retry forever; the search for a
  folder compares identifiers of client and server; updating a watcher repeats its conditions; an
  account created with a preset cannot be read.  The configured key for names never reaches the
  storage, one failed check of the S3 bucket ends all uploads, and deletions of contents report
  success whatever happened.  With the S3 store a missing bucket stops the start although an upload would create it; a second start
  leaves monitoring tasks running forever; the consumer built without Redis drops its own retries as duplicates; a reset of the counters
  makes the number of active requests wrap around; the container in test mode keeps everything in memory whatever
  database is configured; the readiness endpoint never reports a lost database.

  \<^bold>\<open>What is not modelled.\<close>  The wiring of the gRPC and HTTP servers, their routes, signals and tracing, which is input and
  output; binary floating-point numbers (rates and file sizes for display); the printed metrics; an older MySQL storage and a pool
  that nothing uses; the traits of repositories and event stores, which have no implementation; the module \<^verbatim>\<open>abstractions\<close> with its
  plugins and middleware, which is not part of the program: \<^verbatim>\<open>lib.rs\<close> does not declare it and three of its submodules do not
  exist.  A request is one step: the interleaving of two
  requests between their storage operations is not modelled, and neither is a broadcast that waits
  for a slow reader of a full channel; the initial synchronisation, where nobody can read, is.
\<close>

end
